(* ===== verification/OPL_Prelude.thy ===== *)
theory OPL_Prelude
  imports
    Complex_Main
    "HOL-Library.List_Lexorder"
    "HOL-Library.Char_ord"
    "HOL-Library.Product_Lexorder"
    "HOL-Library.AList"
    "HOL-Library.Multiset"
    "HOL-Library.Code_Target_Nat"
begin

text \<open>
  The shared layer of the development: Go's strings, integers and dynamically typed values as the
  services use them, and the generic facts on them that every component relies on.

  \<^item> A Go \<^verbatim>\<open>string\<close> is a list of bytes (\<open>string\<close>); the ordering of strings is the lexicographic
    order on bytes (\<open>List_Lexorder\<close> over \<open>Char_ord\<close>), which is Go's \<^verbatim>\<open><\<close>.
  \<^item> A value of type \<^verbatim>\<open>any\<close> is a \<open>goval\<close>; a \<^verbatim>\<open>map[string]any\<close> is a \<open>gomap\<close>: \<open>None\<close> for the nil map,
    otherwise an association list. The key order of the list carries no meaning.
  \<^item> Integers are \<open>int\<close> with the width written out (\<open>in_int64\<close>) where the code depends on it;
    a \<^verbatim>\<open>float64\<close> is a \<open>gofloat\<close> whose finite values are rationals.
\<close>

named_theorems go_simps \<open>unfolding rules of the Go primitives\<close>
named_theorems store_simps \<open>unfolding rules of the store operations\<close>
named_theorems inv_intros \<open>invariant preservation\<close>

section \<open>Bytes and strings\<close>

definition byte :: "nat \<Rightarrow> char" where
  "byte n = char_of n"

definition code :: "char \<Rightarrow> nat" where
  "code c = of_char c"

definition is_digit :: "char \<Rightarrow> bool" where
  "is_digit c \<longleftrightarrow> 48 \<le> code c \<and> code c \<le> 57"

definition is_lower :: "char \<Rightarrow> bool" where
  "is_lower c \<longleftrightarrow> 97 \<le> code c \<and> code c \<le> 122"

definition is_upper :: "char \<Rightarrow> bool" where
  "is_upper c \<longleftrightarrow> 65 \<le> code c \<and> code c \<le> 90"

lemmas char_class_defs [go_simps] = is_digit_def is_lower_def is_upper_def code_def byte_def

text \<open>\<^verbatim>\<open>strings.HasPrefix\<close>, \<^verbatim>\<open>strings.HasSuffix\<close>, \<^verbatim>\<open>strings.Contains\<close>.\<close>

definition has_prefix :: "string \<Rightarrow> string \<Rightarrow> bool" where
  "has_prefix s p \<longleftrightarrow> take (length p) s = p"

definition has_suffix :: "string \<Rightarrow> string \<Rightarrow> bool" where
  "has_suffix s p \<longleftrightarrow> has_prefix (rev s) (rev p)"

fun contains_str :: "string \<Rightarrow> string \<Rightarrow> bool" where
  "contains_str [] p = (p = [])"
| "contains_str (c # cs) p = (has_prefix (c # cs) p \<or> contains_str cs p)"

lemma has_prefix_append [simp]: "has_prefix (p @ s) p"
  by (simp add: has_prefix_def)

lemma has_prefix_iff: "has_prefix s p \<longleftrightarrow> (\<exists>t. s = p @ t)"
  by (metis append_eq_conv_conj append_take_drop_id has_prefix_def)

lemma has_suffix_append [simp]: "has_suffix (s @ p) p"
  by (simp add: has_suffix_def)

text \<open>
  \<^verbatim>\<open>strings.ToLower\<close>: the ASCII letters, and the two letters outside ASCII whose lower case is an
  ASCII letter (U+0130 gives \<open>i\<close>, U+212A gives \<open>k\<close>). Other non-ASCII letters keep their bytes; the
  services only compare the result with ASCII words, which no such letter can produce.
\<close>

definition lower_byte :: "char \<Rightarrow> char" where
  "lower_byte c =
     (if is_upper c
      then (case c of Char b0 b1 b2 b3 b4 b5 b6 b7 \<Rightarrow> Char b0 b1 b2 b3 b4 True b6 b7) else c)"

lemma lower_byte_code: "is_upper c \<Longrightarrow> code (lower_byte c) = code c + 32"
proof (cases c)
  case (Char b0 b1 b2 b3 b4 b5 b6 b7)
  assume "is_upper c"
  then show ?thesis
    by (cases b7; cases b6; cases b5; cases b4) (auto simp: Char lower_byte_def char_class_defs of_bool_def split: if_splits)
qed

fun to_lower :: "string \<Rightarrow> string" where
  "to_lower [] = []"
| "to_lower (c # cs) =
     (if has_prefix (c # cs) [CHR 0xC4, CHR 0xB0] then CHR ''i'' # to_lower (drop 1 cs)
      else if has_prefix (c # cs) [CHR 0xE2, CHR 0x84, CHR 0xAA] then CHR ''k'' # to_lower (drop 2 cs)
      else lower_byte c # to_lower cs)"

declare to_lower.simps [simp del]

text \<open>
  \<^verbatim>\<open>strings.TrimSpace\<close>: the white space runes of Unicode as UTF-8 byte sequences, stripped from the
  front and, on the reversed text, from the back.
\<close>

definition space_runes :: "string list" where
  "space_runes =
     [[CHR 0x09], [CHR 0x0A], [CHR 0x0B], [CHR 0x0C], [CHR 0x0D], [CHR 0x20],
      [CHR 0xC2, CHR 0x85], [CHR 0xC2, CHR 0xA0], [CHR 0xE1, CHR 0x9A, CHR 0x80],
      [CHR 0xE2, CHR 0x80, CHR 0x80], [CHR 0xE2, CHR 0x80, CHR 0x81],
      [CHR 0xE2, CHR 0x80, CHR 0x82], [CHR 0xE2, CHR 0x80, CHR 0x83],
      [CHR 0xE2, CHR 0x80, CHR 0x84], [CHR 0xE2, CHR 0x80, CHR 0x85],
      [CHR 0xE2, CHR 0x80, CHR 0x86], [CHR 0xE2, CHR 0x80, CHR 0x87],
      [CHR 0xE2, CHR 0x80, CHR 0x88], [CHR 0xE2, CHR 0x80, CHR 0x89],
      [CHR 0xE2, CHR 0x80, CHR 0x8A], [CHR 0xE2, CHR 0x80, CHR 0xA8],
      [CHR 0xE2, CHR 0x80, CHR 0xA9], [CHR 0xE2, CHR 0x80, CHR 0xAF],
      [CHR 0xE2, CHR 0x81, CHR 0x9F], [CHR 0xE3, CHR 0x80, CHR 0x80]]"

function trim_left_of :: "string list \<Rightarrow> string \<Rightarrow> string" where
  "trim_left_of runes s =
     (case find (\<lambda>r. r \<noteq> [] \<and> has_prefix s r) runes of
        None \<Rightarrow> s
      | Some r \<Rightarrow> trim_left_of runes (drop (length r) s))"
  by pat_completeness auto
termination
proof (relation "measure (\<lambda>(_, s). length s)")
  show "wf (measure (\<lambda>(_, s). length s))" by simp
next
  fix runes s r
  assume "find (\<lambda>r. r \<noteq> [] \<and> has_prefix s r) runes = Some r"
  then have "r \<noteq> []" and "has_prefix s r"
    by (auto simp: find_Some_iff)
  then show "((runes, drop (length r) s), runes, s) \<in> measure (\<lambda>(_, s). length s)"
    by (auto simp: has_prefix_iff)
qed

declare trim_left_of.simps [simp del]

definition trim_space :: "string \<Rightarrow> string" where
  "trim_space s = rev (trim_left_of (map rev space_runes) (rev (trim_left_of space_runes s)))"

definition blank :: "string \<Rightarrow> bool" where
  "blank s \<longleftrightarrow> trim_space s = []"

lemma trim_left_of_Nil [simp]: "trim_left_of runes [] = []"
  by (subst trim_left_of.simps) (auto simp: has_prefix_def find_None_iff split: option.splits dest: find_Some_iff [THEN iffD1])

lemma trim_space_Nil [simp]: "trim_space [] = []"
  by (simp add: trim_space_def)

lemma blank_Nil [simp]: "blank []"
  by (simp add: blank_def)

lemma trim_left_of_stop: "\<forall>r \<in> set runes. r \<noteq> [] \<longrightarrow> \<not> has_prefix s r \<Longrightarrow> trim_left_of runes s = s"
proof -
  assume "\<forall>r \<in> set runes. r \<noteq> [] \<longrightarrow> \<not> has_prefix s r"
  then have "find (\<lambda>r. r \<noteq> [] \<and> has_prefix s r) runes = None" by (auto simp: find_None_iff)
  then show ?thesis by (simp add: trim_left_of.simps)
qed

lemma trim_left_of_done: "r \<in> set runes \<Longrightarrow> r \<noteq> [] \<Longrightarrow> \<not> has_prefix (trim_left_of runes s) r"
proof (induction runes s rule: trim_left_of.induct)
  case (1 runes s)
  then show ?case
    by (subst trim_left_of.simps) (auto simp: find_None_iff split: option.splits)
qed

lemma trim_left_of_suffix: "\<exists>u. s = u @ trim_left_of runes s"
proof (induction runes s rule: trim_left_of.induct)
  case (1 runes s)
  show ?case
  proof (cases "find (\<lambda>r. r \<noteq> [] \<and> has_prefix s r) runes")
    case None
    then show ?thesis by (simp add: trim_left_of.simps)
  next
    case (Some r)
    with 1 obtain u where "drop (length r) s = u @ trim_left_of runes (drop (length r) s)" by blast
    then have "take (length r) s @ drop (length r) s = take (length r) s @ u @ trim_left_of runes (drop (length r) s)"
      by (rule arg_cong)
    then have "s = (take (length r) s @ u) @ trim_left_of runes (drop (length r) s)" by simp
    moreover have "trim_left_of runes s = trim_left_of runes (drop (length r) s)"
      by (subst trim_left_of.simps) (simp add: Some)
    ultimately show ?thesis by metis
  qed
qed

lemma trim_space_idem [simp]: "trim_space (trim_space s) = trim_space s"
proof -
  let ?u = "trim_left_of space_runes s"
  let ?v = "trim_space s"
  obtain w where w: "rev ?u = w @ rev ?v"
    using trim_left_of_suffix [of "rev ?u" "map rev space_runes"] by (auto simp: trim_space_def)
  then have "?u = ?v @ rev w" by (metis rev_append rev_rev_ident)
  then have "\<not> has_prefix ?v r" if "r \<in> set space_runes" "r \<noteq> []" for r
    using trim_left_of_done [OF that, of s] by (auto simp: has_prefix_iff)
  then have 1: "trim_left_of space_runes ?v = ?v" by (intro trim_left_of_stop) blast
  have "rev ?v = trim_left_of (map rev space_runes) (rev ?u)" by (simp add: trim_space_def)
  then have 2: "trim_left_of (map rev space_runes) (rev ?v) = rev ?v"
    using trim_left_of_done [of _ "map rev space_runes" "rev ?u"] by (intro trim_left_of_stop) metis
  show ?thesis unfolding trim_space_def [of ?v] 1 2 by simp
qed

lemma blank_trim [simp]: "blank (trim_space s) \<longleftrightarrow> blank s"
  by (simp add: blank_def)

lemma trim_left_of_all:
  "trim_left_of runes s = [] \<Longrightarrow> s \<noteq> [] \<Longrightarrow> \<exists>r \<in> set runes. r \<noteq> [] \<and> last s = last r"
proof (induction runes s rule: trim_left_of.induct)
  case (1 runes s)
  then obtain r where r: "find (\<lambda>r. r \<noteq> [] \<and> has_prefix s r) runes = Some r"
      "trim_left_of runes (drop (length r) s) = []"
    by (subst (asm) (2) trim_left_of.simps) (auto split: option.splits)
  then obtain t where t: "r \<in> set runes" "r \<noteq> []" "s = r @ t"
    by (auto simp: find_Some_iff has_prefix_iff)
  show ?case
  proof (cases "t = []")
    case False
    with "1.IH" [OF r] t show ?thesis by auto
  qed (use t in auto)
qed

lemma not_blank_Cons: "list_all (\<lambda>r. hd r \<noteq> c) space_runes \<Longrightarrow> \<not> blank (c # s)"
proof
  assume c: "list_all (\<lambda>r. hd r \<noteq> c) space_runes" and "blank (c # s)"
  have "trim_left_of space_runes (c # s) = c # s"
    using c by (intro trim_left_of_stop) (auto simp: list_all_iff has_prefix_iff neq_Nil_conv)
  with \<open>blank (c # s)\<close> have "trim_left_of (map rev space_runes) (rev s @ [c]) = []"
    by (simp add: blank_def trim_space_def)
  from trim_left_of_all [OF this] obtain r where "r \<in> set space_runes" "c = last (rev r)" "r \<noteq> []" by auto
  with c show False by (auto simp: list_all_iff last_rev)
qed

section \<open>Decimal text\<close>

definition digit_char :: "nat \<Rightarrow> char" where
  "digit_char d = byte (48 + d)"

definition digit_val :: "char \<Rightarrow> nat option" where
  "digit_val c = (if is_digit c then Some (code c - 48) else None)"

fun nat_text :: "nat \<Rightarrow> string" where
  "nat_text n = (if n < 10 then [digit_char n] else nat_text (n div 10) @ [digit_char (n mod 10)])"

declare nat_text.simps [simp del]

definition int_text :: "int \<Rightarrow> string" where
  "int_text i = (if i < 0 then CHR ''-'' # nat_text (nat (- i)) else nat_text (nat i))"

text \<open>\<^verbatim>\<open>%0wd\<close> of \<^verbatim>\<open>fmt\<close> on a number that is not negative.\<close>

definition pad_text :: "nat \<Rightarrow> nat \<Rightarrow> string" where
  "pad_text w n = replicate (w - length (nat_text n)) (CHR ''0'') @ nat_text n"

fun dec_val :: "nat \<Rightarrow> string \<Rightarrow> nat option" where
  "dec_val acc [] = Some acc"
| "dec_val acc (c # cs) =
     (case digit_val c of None \<Rightarrow> None | Some d \<Rightarrow> dec_val (10 * acc + d) cs)"

definition parse_digits :: "string \<Rightarrow> nat option" where
  "parse_digits s = (if s = [] then None else dec_val 0 s)"

lemma code_byte: "n < 256 \<Longrightarrow> code (byte n) = n"
  by (simp add: code_def byte_def)

lemma digit_val_char [simp]: "d < 10 \<Longrightarrow> digit_val (digit_char d) = Some d"
  by (simp add: digit_val_def digit_char_def is_digit_def code_byte)

lemma is_digit_char [simp]: "d < 10 \<Longrightarrow> is_digit (digit_char d)"
  by (simp add: digit_char_def is_digit_def code_byte)

lemma dec_val_append:
  "dec_val acc (xs @ ys) = (case dec_val acc xs of None \<Rightarrow> None | Some a \<Rightarrow> dec_val a ys)"
  by (induction xs arbitrary: acc) (auto split: option.splits)

lemma nat_text_ne [simp]: "nat_text n \<noteq> []"
  by (subst nat_text.simps) simp

lemma dec_val_nat_text: "dec_val 0 (nat_text n) = Some n"
proof (induction n rule: nat_text.induct)
  case (1 n)
  show ?case
  proof (cases "n < 10")
    case True
    then show ?thesis by (subst nat_text.simps) simp
  next
    case False
    with 1 have "dec_val 0 (nat_text (n div 10)) = Some (n div 10)" by simp
    with False show ?thesis
      by (subst nat_text.simps) (simp add: dec_val_append)
  qed
qed

lemma dec_val_zeros: "dec_val 0 (replicate k (CHR ''0'') @ s) = dec_val 0 s"
  by (induction k) (simp_all add: digit_val_def is_digit_def code_def)

lemma parse_nat_text [simp]: "parse_digits (nat_text n) = Some n"
  by (simp add: parse_digits_def dec_val_nat_text)

lemma parse_pad_text: "parse_digits (pad_text w n) = Some n"
  by (simp add: parse_digits_def pad_text_def dec_val_zeros dec_val_nat_text)

lemma pad_text_inj: "pad_text w m = pad_text w n \<Longrightarrow> m = n"
  by (metis option.inject parse_pad_text)

lemma digits_nat_text: "list_all is_digit (nat_text n)"
proof (induction n rule: nat_text.induct)
  case (1 n)
  then show ?case
    by (subst nat_text.simps) simp
qed

lemma dec_val_zero_tail: "dec_val n (replicate k (CHR ''0'')) = Some (n * 10 ^ k)"
  by (induction k arbitrary: n) (simp_all add: digit_val_def is_digit_def code_def algebra_simps)

lemma dec_val_shift: "dec_val 0 s = Some m \<Longrightarrow> dec_val n s = Some (n * 10 ^ length s + m)"
proof (induction s arbitrary: m rule: rev_induct)
  case (snoc c s)
  then obtain k d where k: "dec_val 0 s = Some k" "digit_val c = Some d" "m = 10 * k + d"
    by (auto simp: dec_val_append split: option.splits)
  from snoc.IH [OF k(1)] k(2,3) show ?case by (simp add: dec_val_append algebra_simps)
qed simp

text \<open>Without its trailing zeros a text is itself with the zeros put back.\<close>

lemma trim_zeros:
  fixes s :: string
  defines "d \<equiv> rev (dropWhile (\<lambda>c. c = CHR ''0'') (rev s))"
  shows "s = d @ replicate (length s - length d) (CHR ''0'')"
proof -
  have "takeWhile (\<lambda>c. c = CHR ''0'') (rev s) = replicate (length (takeWhile (\<lambda>c. c = CHR ''0'') (rev s))) (CHR ''0'')"
    by (auto simp: list_eq_iff_nth_eq dest!: nth_mem set_takeWhileD)
  moreover have "rev s = takeWhile (\<lambda>c. c = CHR ''0'') (rev s) @ rev d" by (simp add: d_def)
  ultimately have "rev s = replicate (length (takeWhile (\<lambda>c. c = CHR ''0'') (rev s))) (CHR ''0'') @ rev d" by simp
  then have "s = d @ replicate (length (takeWhile (\<lambda>c. c = CHR ''0'') (rev s))) (CHR ''0'')"
    by (metis rev_append rev_replicate rev_rev_ident)
  then show ?thesis by (metis add_diff_cancel_left' length_append length_replicate)
qed

lemma map_of_rev_distinct: "distinct (map fst xs) \<Longrightarrow> map_of (rev xs) = map_of xs"
  by (rule map_of_eqI) (auto simp: rev_map [symmetric] simp del: rev_map intro: map_of_eq_Some_iff [THEN iffD2])

section \<open>Machine integers\<close>

definition max_int64 :: int where
  "max_int64 = 9223372036854775807"

definition min_int64 :: int where
  "min_int64 = - 9223372036854775808"

definition in_int64 :: "int \<Rightarrow> bool" where
  "in_int64 i \<longleftrightarrow> min_int64 \<le> i \<and> i \<le> max_int64"

lemmas int64_defs [go_simps] = max_int64_def min_int64_def in_int64_def

text \<open>Two's complement wrap-around of \<^verbatim>\<open>int64\<close> arithmetic.\<close>

definition wrap64 :: "int \<Rightarrow> int" where
  "wrap64 i = (i + 9223372036854775808) mod 18446744073709551616 - 9223372036854775808"

lemma wrap64_id: "in_int64 i \<Longrightarrow> wrap64 i = i"
  by (simp add: wrap64_def int64_defs)

lemma wrap64_range: "in_int64 (wrap64 i)"
proof -
  have "0 \<le> (i + 9223372036854775808) mod 18446744073709551616"
    and "(i + 9223372036854775808) mod 18446744073709551616 < 18446744073709551616"
    by simp_all
  then show ?thesis
    unfolding wrap64_def int64_defs by linarith
qed

text \<open>\<^verbatim>\<open>strconv.ParseInt(s, 10, 64)\<close>: \<open>None\<close> for a syntax or a range error.\<close>

definition parse_int64 :: "string \<Rightarrow> int option" where
  "parse_int64 s =
     (case s of
        [] \<Rightarrow> None
      | c # cs \<Rightarrow>
          (case (if c = CHR ''+'' \<or> c = CHR ''-'' then parse_digits cs else parse_digits s) of
             None \<Rightarrow> None
           | Some n \<Rightarrow>
               (let v = (if c = CHR ''-'' then - int n else int n)
                in if in_int64 v then Some v else None)))"

lemma hd_nat_text_digit: "nat_text n = c # cs \<Longrightarrow> is_digit c"
  using digits_nat_text [of n] by simp

lemma parse_int_text: "in_int64 i \<Longrightarrow> parse_int64 (int_text i) = Some i"
proof (cases "i < 0")
  case True
  assume "in_int64 i"
  with True show ?thesis
    by (simp add: parse_int64_def int_text_def)
next
  case False
  assume i: "in_int64 i"
  obtain c cs where t: "nat_text (nat i) = c # cs"
    by (cases "nat_text (nat i)") auto
  then have "is_digit c" by (rule hd_nat_text_digit)
  then have "c \<noteq> CHR ''+''" and "c \<noteq> CHR ''-''"
    by (auto simp: is_digit_def code_def)
  moreover have "parse_digits (c # cs) = Some (nat i)"
    using parse_nat_text [of "nat i"] t by simp
  ultimately show ?thesis
    using i False t by (simp add: parse_int64_def int_text_def)
qed

lemma parse_int64_range: "parse_int64 s = Some i \<Longrightarrow> in_int64 i"
  by (auto simp: parse_int64_def Let_def split: list.splits option.splits if_splits)

section \<open>Floating point\<close>

datatype gofloat = NaN | PosInf | NegInf | Fin rat

text \<open>
  \<^verbatim>\<open>float64(n)\<close> of an \<^verbatim>\<open>int64\<close>: round to 53 significant bits, ties to even. The number of bits dropped
  is the number of halvings until the absolute value is below \<open>2 ^ 53\<close>.
\<close>

fun excess_bits :: "nat \<Rightarrow> nat" where
  "excess_bits n = (if n < 9007199254740992 then 0 else Suc (excess_bits (n div 2)))"

declare excess_bits.simps [simp del]

definition round53 :: "int \<Rightarrow> int" where
  "round53 n =
     (let a = nat \<bar>n\<bar>; e = excess_bits a in
      if e = 0 then n
      else let q = a div 2 ^ e; r = a mod 2 ^ e; h = 2 ^ (e - 1);
               q' = (if h < r \<or> (r = h \<and> odd q) then q + 1 else q)
           in sgn n * int (q' * 2 ^ e))"

definition float_of_int :: "int \<Rightarrow> gofloat" where
  "float_of_int n = Fin (of_int (round53 n))"

text \<open>
  \<^verbatim>\<open>int64(f)\<close>: truncation towards zero; out of range (and for NaN) the value is the one of amd64.
\<close>

definition trunc_rat :: "rat \<Rightarrow> int" where
  "trunc_rat q = (if q < 0 then - \<lfloor>- q\<rfloor> else \<lfloor>q\<rfloor>)"

definition int64_of_float :: "gofloat \<Rightarrow> int" where
  "int64_of_float f =
     (case f of
        Fin q \<Rightarrow> (if in_int64 (trunc_rat q) then trunc_rat q else min_int64)
      | _ \<Rightarrow> min_int64)"

definition float_is_int :: "gofloat \<Rightarrow> bool" where
  "float_is_int f = (case f of Fin q \<Rightarrow> q = of_int (trunc_rat q) | _ \<Rightarrow> False)"

fun float_less :: "gofloat \<Rightarrow> gofloat \<Rightarrow> bool" where
  "float_less (Fin p) (Fin q) = (p < q)"
| "float_less NegInf (Fin q) = True"
| "float_less NegInf PosInf = True"
| "float_less (Fin p) PosInf = True"
| "float_less _ _ = False"

fun float_eq :: "gofloat \<Rightarrow> gofloat \<Rightarrow> bool" where
  "float_eq (Fin p) (Fin q) = (p = q)"
| "float_eq PosInf PosInf = True"
| "float_eq NegInf NegInf = True"
| "float_eq _ _ = False"

definition max_json_safe :: int where
  "max_json_safe = 9007199254740991"

lemma round53_exact: "\<bar>n\<bar> < 2 ^ 53 \<Longrightarrow> round53 n = n"
proof -
  assume "\<bar>n\<bar> < 2 ^ 53"
  then have "nat \<bar>n\<bar> < 9007199254740992" by (simp add: nat_less_iff)
  then have "excess_bits (nat \<bar>n\<bar>) = 0" by (simp add: excess_bits.simps)
  then show ?thesis by (simp add: round53_def)
qed

lemma trunc_rat_of_int [simp]: "trunc_rat (of_int n) = n"
proof -
  have "\<lfloor>- (of_int n :: rat)\<rfloor> = - n"
    by (metis floor_of_int of_int_minus)
  then show ?thesis by (simp add: trunc_rat_def)
qed

lemma float_is_int_of_int [simp]: "float_is_int (Fin (of_int n))"
  by (simp add: float_is_int_def)

lemma int64_of_float_of_int: "in_int64 n \<Longrightarrow> int64_of_float (Fin (of_int n)) = n"
  by (simp add: int64_of_float_def)

section \<open>Dynamically typed values\<close>

datatype int_kind =
  KInt | KInt8 | KInt16 | KInt32 | KInt64 | KUint | KUint8 | KUint16 | KUint32 | KUint64

datatype float_kind = KFloat32 | KFloat64

datatype goval =
    GNil
  | GBool bool
  | GStr string
  | GNum string \<comment> \<open>\<^verbatim>\<open>json.Number\<close>, its literal\<close>
  | GInt int_kind int
  | GFloat float_kind gofloat
  | GArr "goval list"
  | GObj "(string \<times> goval) list"

type_synonym gomap = "(string \<times> goval) list option"

definition mlen :: "gomap \<Rightarrow> nat" where
  "mlen m = (case m of None \<Rightarrow> 0 | Some kvs \<Rightarrow> length kvs)"

definition mget :: "gomap \<Rightarrow> string \<Rightarrow> goval" where
  "mget m k = (case m of None \<Rightarrow> GNil | Some kvs \<Rightarrow> (case map_of kvs k of None \<Rightarrow> GNil | Some v \<Rightarrow> v))"

definition mhas :: "gomap \<Rightarrow> string \<Rightarrow> bool" where
  "mhas m k = (case m of None \<Rightarrow> False | Some kvs \<Rightarrow> map_of kvs k \<noteq> None)"

definition mset_key :: "gomap \<Rightarrow> string \<Rightarrow> goval \<Rightarrow> gomap" where
  "mset_key m k v = Some (AList.update k v (case m of None \<Rightarrow> [] | Some kvs \<Rightarrow> kvs))"

definition gomap_val :: "gomap \<Rightarrow> goval" where
  "gomap_val m = (case m of None \<Rightarrow> GNil | Some kvs \<Rightarrow> GObj kvs)"

definition wf_gomap :: "gomap \<Rightarrow> bool" where
  "wf_gomap m = (case m of None \<Rightarrow> True | Some kvs \<Rightarrow> distinct (map fst kvs))"

lemmas gomap_defs [go_simps] = mlen_def mget_def mhas_def mset_key_def gomap_val_def

lemma mget_set_same [simp]: "mget (mset_key m k v) k = v"
  by (simp add: gomap_defs update_conv')

lemma mget_set_other [simp]: "k \<noteq> k' \<Longrightarrow> mget (mset_key m k v) k' = mget m k'"
  by (cases m) (simp_all add: gomap_defs update_conv')

lemma mget_set_other' [simp]: "k' \<noteq> k \<Longrightarrow> mget (mset_key m k v) k' = mget m k'"
  by (rule mget_set_other) simp

text \<open>Type assertions \<^verbatim>\<open>v.(string)\<close>, \<^verbatim>\<open>v.(map[string]any)\<close>, \<^verbatim>\<open>v.([]any)\<close>.\<close>

fun as_str :: "goval \<Rightarrow> string option" where
  "as_str (GStr s) = Some s"
| "as_str _ = None"

fun as_obj :: "goval \<Rightarrow> (string \<times> goval) list option" where
  "as_obj (GObj kvs) = Some kvs"
| "as_obj _ = None"

fun as_arr :: "goval \<Rightarrow> goval list option" where
  "as_arr (GArr vs) = Some vs"
| "as_arr _ = None"

fun as_bool :: "goval \<Rightarrow> bool option" where
  "as_bool (GBool b) = Some b"
| "as_bool _ = None"

lemma as_str_Some [simp]: "as_str v = Some s \<longleftrightarrow> v = GStr s"
  by (cases v) auto

lemma as_obj_Some [simp]: "as_obj v = Some kvs \<longleftrightarrow> v = GObj kvs"
  by (cases v) auto

lemma as_arr_Some [simp]: "as_arr v = Some vs \<longleftrightarrow> v = GArr vs"
  by (cases v) auto

lemma as_bool_Some [simp]: "as_bool v = Some b \<longleftrightarrow> v = GBool b"
  by (cases v) auto

text \<open>The two-valued form \<^verbatim>\<open>s, _ := v.(string)\<close>.\<close>

definition str_or_empty :: "goval \<Rightarrow> string" where
  "str_or_empty v = (case as_str v of None \<Rightarrow> [] | Some s \<Rightarrow> s)"

section \<open>JSON round trip\<close>

text \<open>
  \<^verbatim>\<open>json.Marshal\<close> fails on NaN and the infinities and on a \<^verbatim>\<open>json.Number\<close> that is no number literal.
  A round trip through \<^verbatim>\<open>Marshal\<close> and a decoder with \<^verbatim>\<open>UseNumber\<close> turns integers into their literal
  and sorts the keys. The literal of a float that is an integer of at most 53 bits is its decimal
  text; the literal of any other finite float is not modelled, its value is kept.
\<close>

fun skip_digits :: "string \<Rightarrow> string" where
  "skip_digits [] = []"
| "skip_digits (c # cs) = (if is_digit c then skip_digits cs else c # cs)"

definition json_exponent :: "string \<Rightarrow> bool" where
  "json_exponent s =
     (case s of
        [] \<Rightarrow> True
      | c # cs \<Rightarrow>
          (c = CHR ''e'' \<or> c = CHR ''E'') \<and>
          (let ds = (case cs of d # ds \<Rightarrow> if d = CHR ''+'' \<or> d = CHR ''-'' then ds else cs | [] \<Rightarrow> [])
           in ds \<noteq> [] \<and> skip_digits ds = []))"

definition json_fraction :: "string \<Rightarrow> bool" where
  "json_fraction s =
     (case s of
        [] \<Rightarrow> True
      | c # cs \<Rightarrow>
          (if c = CHR ''.'' then (case cs of [] \<Rightarrow> False | d # ds \<Rightarrow> is_digit d \<and> json_exponent (skip_digits ds))
           else json_exponent s))"

definition valid_number_literal :: "string \<Rightarrow> bool" where
  "valid_number_literal s =
     (let t = (case s of c # cs \<Rightarrow> if c = CHR ''-'' then cs else s | [] \<Rightarrow> []) in
      case t of
        [] \<Rightarrow> False
      | c # cs \<Rightarrow> (if c = CHR ''0'' then json_fraction cs else is_digit c \<and> json_fraction (skip_digits cs)))"

fun marshalable :: "goval \<Rightarrow> bool" where
  "marshalable (GNum s) = (s = [] \<or> valid_number_literal s)"
| "marshalable (GFloat k f) = (case f of Fin q \<Rightarrow> True | _ \<Rightarrow> False)"
| "marshalable (GArr vs) = list_all marshalable vs"
| "marshalable (GObj kvs) = list_all (\<lambda>(k, v). marshalable v) kvs"
| "marshalable _ = True"

definition json_float :: "float_kind \<Rightarrow> gofloat \<Rightarrow> goval" where
  "json_float k f =
     (case f of
        Fin q \<Rightarrow> (if float_is_int f \<and> \<bar>trunc_rat q\<bar> \<le> max_json_safe then GNum (int_text (trunc_rat q)) else GFloat k f)
      | _ \<Rightarrow> GFloat k f)"

primrec json_normalize :: "goval \<Rightarrow> goval" where
  "json_normalize GNil = GNil"
| "json_normalize (GBool b) = GBool b"
| "json_normalize (GStr s) = GStr s"
| "json_normalize (GNum s) = GNum (if s = [] then ''0'' else s)"
| "json_normalize (GInt k i) = GNum (int_text i)"
| "json_normalize (GFloat k f) = json_float k f"
| "json_normalize (GArr vs) = GArr (map json_normalize vs)"
| "json_normalize (GObj kvs) = GObj (sort_key fst (map (map_prod id json_normalize) kvs))"

definition normalizedJSONValue :: "goval \<Rightarrow> goval option" where
  "normalizedJSONValue v = (if marshalable v then Some (json_normalize v) else None)"

section \<open>Keys of a JSON value\<close>

fun json_scan :: "(string \<Rightarrow> bool) \<Rightarrow> goval \<Rightarrow> bool" where
  "json_scan P (GArr vs) = list_ex (json_scan P) vs"
| "json_scan P (GObj kvs) = list_ex (\<lambda>(k, v). P k \<or> json_scan P v) kvs"
| "json_scan P _ = False"

inductive key_within :: "goval \<Rightarrow> string \<Rightarrow> bool" where
  here: "(k, v) \<in> set kvs \<Longrightarrow> key_within (GObj kvs) k"
| below: "(k, v) \<in> set kvs \<Longrightarrow> key_within v k' \<Longrightarrow> key_within (GObj kvs) k'"
| item: "v \<in> set vs \<Longrightarrow> key_within v k \<Longrightarrow> key_within (GArr vs) k"

inductive_simps key_within_simps [simp]:
  "key_within GNil k" "key_within (GBool b) k" "key_within (GStr s) k" "key_within (GNum s) k"
  "key_within (GInt ik i) k" "key_within (GFloat fk f) k"
inductive_simps key_within_GArr: "key_within (GArr vs) k"
inductive_simps key_within_GObj: "key_within (GObj kvs) k"

lemma json_scan_iff: "json_scan P v \<longleftrightarrow> (\<exists>k. key_within v k \<and> P k)"
proof (induction P v rule: json_scan.induct)
  case (1 P vs)
  then show ?case
    by (auto simp: list_ex_iff key_within_GArr)
next
  case (2 P kvs)
  have "json_scan P (GObj kvs) \<longleftrightarrow> (\<exists>(k, v) \<in> set kvs. P k \<or> (\<exists>k'. key_within v k' \<and> P k'))"
    using 2 by (auto simp: list_ex_iff split: prod.splits)
  also have "\<dots> \<longleftrightarrow> (\<exists>k. key_within (GObj kvs) k \<and> P k)"
    by (auto simp: key_within_GObj)
  finally show ?case .
qed simp_all

lemma key_within_normalize: "key_within (json_normalize v) k \<longleftrightarrow> key_within v k"
proof (induction v arbitrary: k)
  case (GArr vs)
  then show ?case by (auto simp: key_within_GArr)
next
  case (GObj kvs)
  have IH: "key_within (json_normalize v) k \<longleftrightarrow> key_within v k" if "(j, v) \<in> set kvs" for j v k
    using GObj that by fastforce
  have "key_within (json_normalize (GObj kvs)) k \<longleftrightarrow>
      (\<exists>(j, v) \<in> set kvs. j = k \<or> key_within (json_normalize v) k)"
    by (force simp: key_within_GObj)
  also have "\<dots> \<longleftrightarrow> (\<exists>(j, v) \<in> set kvs. j = k \<or> key_within v k)"
    using IH by (intro bex_cong) auto
  also have "\<dots> \<longleftrightarrow> key_within (GObj kvs) k"
    by (force simp: key_within_GObj)
  finally show ?case .
next
  case (GFloat fk f)
  then show ?case by (simp add: json_float_def split: gofloat.split)
qed simp_all

subsection \<open>The round trip is idempotent\<close>

definition clone_map :: "gomap \<Rightarrow> gomap" where
  "clone_map m = (case m of None \<Rightarrow> None | Some kvs \<Rightarrow> as_obj (json_normalize (GObj kvs)))"

lemma clone_map_Some: "clone_map (Some kvs) = Some (sort_key fst (map (map_prod id json_normalize) kvs))"
  by (simp add: clone_map_def)

lemma skip_digits_all: "list_all is_digit s \<Longrightarrow> skip_digits s = []"
  by (induction s) auto

lemma nat_text_Cons:
  obtains c cs where "nat_text n = c # cs" and "is_digit c" and "list_all is_digit cs"
    and "c = CHR ''0'' \<Longrightarrow> cs = []"
proof -
  have "\<exists>c cs. nat_text n = c # cs \<and> (c = CHR ''0'' \<longrightarrow> n = 0)"
  proof (induction n rule: nat_text.induct)
    case (1 n)
    show ?case
    proof (cases "n < 10")
      case True
      then have "n \<noteq> 0 \<Longrightarrow> digit_char n \<noteq> CHR ''0''"
        using digit_val_char [of n] by (auto simp: digit_val_def code_def)
      with True show ?thesis by (subst nat_text.simps) auto
    next
      case False
      then show ?thesis using 1 by (subst nat_text.simps) auto
    qed
  qed
  then obtain c cs where t: "nat_text n = c # cs" and z: "c = CHR ''0'' \<longrightarrow> n = 0" by blast
  have "list_all is_digit (c # cs)" using digits_nat_text [of n] by (simp add: t)
  moreover have "cs = []" if "c = CHR ''0''"
    using t z that by (subst (asm) nat_text.simps) simp
  ultimately show thesis using t that by auto
qed

lemma valid_literal_int_text [simp]: "valid_number_literal (int_text i)"
proof -
  have *: "valid_number_literal (nat_text n) \<and> valid_number_literal (CHR ''-'' # nat_text n)" for n
  proof (rule nat_text_Cons [of n])
    fix c cs assume t: "nat_text n = c # cs" and d: "is_digit c" "list_all is_digit cs"
      and z: "c = CHR ''0'' \<Longrightarrow> cs = []"
    have "c \<noteq> CHR ''-''" using d by (auto simp: is_digit_def code_def)
    with d z show ?thesis
      by (auto simp: t valid_number_literal_def json_fraction_def json_exponent_def skip_digits_all)
  qed
  then show ?thesis by (auto simp: int_text_def)
qed

lemma marshalable_normalize: "marshalable v \<Longrightarrow> marshalable (json_normalize v)"
proof (induction v)
  case (GNum s)
  have "valid_number_literal ''0''" by code_simp
  with GNum show ?case by auto
next
  case (GFloat k f)
  then show ?case by (auto simp: json_float_def split: gofloat.splits)
next
  case (GArr vs)
  then show ?case by (auto simp: list_all_iff)
next
  case (GObj kvs)
  then show ?case by (fastforce simp: list_all_iff)
qed auto

lemma int_text_ne [simp]: "int_text i \<noteq> []"
  by (simp add: int_text_def)

lemma map_sort_key_fst:
  "map (map_prod id f) (sort_key fst xs) = sort_key fst (map (map_prod id f) xs)"
  for f :: "'b \<Rightarrow> 'c" and xs :: "('a::linorder \<times> 'b) list"
proof -
  have "map (map_prod id f) (insort_key fst x ys) = insort_key fst (map_prod id f x) (map (map_prod id f) ys)"
    for x :: "'a \<times> 'b" and ys by (induction ys) auto
  then show ?thesis by (induction xs) (simp_all del: map_prod_simp)
qed

lemma json_normalize_idem [simp]: "json_normalize (json_normalize v) = json_normalize v"
proof (induction v)
  case (GFloat k f)
  then show ?case by (auto simp: json_float_def split: gofloat.splits)
next
  case (GArr vs)
  then show ?case by simp
next
  case (GObj kvs)
  have "map (map_prod id json_normalize) (map (map_prod id json_normalize) kvs) = map (map_prod id json_normalize) kvs"
    using GObj by (force simp: map_prod_def)
  then show ?case
    by (simp only: json_normalize.simps map_sort_key_fst) (simp only: sort_key_id_if_sorted sorted_sort_key)
qed auto

lemma clone_map_idem [simp]: "clone_map (clone_map m) = clone_map m"
proof (cases m)
  case (Some kvs)
  have "json_normalize (json_normalize (GObj kvs)) = json_normalize (GObj kvs)" by (rule json_normalize_idem)
  then show ?thesis by (simp add: Some clone_map_def)
qed (simp add: clone_map_def)

lemma gomap_val_clone: "gomap_val (clone_map m) = json_normalize (gomap_val m)"
  by (cases m) (simp_all add: clone_map_def gomap_val_def)

lemma mlen_clone [simp]: "mlen (clone_map m) = mlen m"
  by (cases m) (simp_all add: clone_map_def mlen_def)

lemma map_of_sort_key:
  assumes "distinct (map fst kvs)"
  shows "map_of (sort_key fst kvs) = map_of kvs"
proof -
  have "mset (map fst (sort_key fst kvs)) = mset (map fst kvs)" by simp
  then have "distinct (map fst (sort_key fst kvs))"
    using assms by (metis mset_eq_imp_distinct_iff)
  with assms show ?thesis by (subst map_of_inject_set) auto
qed

lemma mget_clone: "wf_gomap m \<Longrightarrow> mget (clone_map m) k = json_normalize (mget m k)"
proof (cases m)
  case (Some kvs)
  assume "wf_gomap m"
  then have "distinct (map fst (map (map_prod id json_normalize) kvs))"
    by (simp add: Some wf_gomap_def comp_def)
  then show ?thesis
    using map_of_map [of json_normalize kvs]
    by (simp add: Some clone_map_def mget_def map_of_sort_key map_prod_def id_def split: option.split)
qed (simp add: clone_map_def mget_def)

lemma json_normalize_GStr [simp]:
  "json_normalize v = GStr t \<longleftrightarrow> v = GStr t" "GStr t = json_normalize v \<longleftrightarrow> v = GStr t"
  by (cases v; auto simp: json_float_def split: gofloat.splits if_splits)+

end
