(* ===== verification/Go_Calendar.thy ===== *)
theory Go_Calendar
  imports OPL_Prelude "HOL-Library.Monad_Syntax"
begin

text \<open>
  Go's \<^verbatim>\<open>time.Time\<close> as the services use it: an instant in nanoseconds since the start of year 1 in
  UTC and the offset of its zone in seconds; the proleptic Gregorian calendar; \<^verbatim>\<open>time.Date\<close> with its
  normalisation of months and days; \<^verbatim>\<open>time.Parse\<close> for the layouts RFC3339 and RFC3339Nano, which
  accept the same texts. The main fact is that the calendar decomposition inverts the composition.
\<close>

section \<open>Instants\<close>

datatype gotime = GoTime (inst: int) (zone: int)

definition zero_time :: gotime where
  "zero_time = GoTime 0 0"

definition is_zero :: "gotime \<Rightarrow> bool" where
  "is_zero t \<longleftrightarrow> inst t = 0"

definition t_before :: "gotime \<Rightarrow> gotime \<Rightarrow> bool" where
  "t_before s t \<longleftrightarrow> inst s < inst t"

definition t_after :: "gotime \<Rightarrow> gotime \<Rightarrow> bool" where
  "t_after s t \<longleftrightarrow> inst t < inst s"

definition t_equal :: "gotime \<Rightarrow> gotime \<Rightarrow> bool" where
  "t_equal s t \<longleftrightarrow> inst s = inst t"

definition t_utc :: "gotime \<Rightarrow> gotime" where
  "t_utc t = GoTime (inst t) 0"

lemmas gotime_defs [go_simps] = zero_time_def is_zero_def t_before_def t_after_def t_equal_def t_utc_def

definition day_ns :: int where
  "day_ns = 86400000000000"

section \<open>The calendar\<close>

definition is_leap :: "int \<Rightarrow> bool" where
  "is_leap y \<longleftrightarrow> y mod 4 = 0 \<and> (y mod 100 \<noteq> 0 \<or> y mod 400 = 0)"

definition days_in_month :: "int \<Rightarrow> int \<Rightarrow> int" where
  "days_in_month y m =
     (if m = 2 then (if is_leap y then 29 else 28)
      else if m \<in> {4, 6, 9, 11} then 30 else 31)"

definition days_before_year :: "int \<Rightarrow> int" where
  "days_before_year y = 365 * (y - 1) + (y - 1) div 4 - (y - 1) div 100 + (y - 1) div 400"

fun days_before_month :: "int \<Rightarrow> nat \<Rightarrow> int" where
  "days_before_month y 0 = 0"
| "days_before_month y (Suc k) = days_before_month y k + days_in_month y (int k + 1)"

text \<open>Days since the first of January of year 1.\<close>

definition date_days :: "int \<Rightarrow> int \<Rightarrow> int \<Rightarrow> int" where
  "date_days y m d = days_before_year y + days_before_month y (nat (m - 1)) + (d - 1)"

definition valid_date :: "int \<Rightarrow> int \<Rightarrow> int \<Rightarrow> bool" where
  "valid_date y m d \<longleftrightarrow> 1 \<le> m \<and> m \<le> 12 \<and> 1 \<le> d \<and> d \<le> days_in_month y m"

definition year_of_days :: "int \<Rightarrow> int \<times> int" where
  "year_of_days n =
     (let n400 = n div 146097; r = n mod 146097;
          n100 = min 3 (r div 36524); r2 = r - 36524 * n100;
          n4 = r2 div 1461; r3 = r2 - 1461 * n4;
          n1 = min 3 (r3 div 365)
      in (400 * n400 + 100 * n100 + 4 * n4 + n1 + 1, r3 - 365 * n1))"

fun month_walk :: "int \<Rightarrow> nat \<Rightarrow> int \<Rightarrow> int \<Rightarrow> int \<times> int" where
  "month_walk y 0 m doy = (m, doy + 1)"
| "month_walk y (Suc fuel) m doy =
     (if doy < days_in_month y m then (m, doy + 1)
      else month_walk y fuel (m + 1) (doy - days_in_month y m))"

definition civil_of_days :: "int \<Rightarrow> int \<times> int \<times> int" where
  "civil_of_days n =
     (let (y, doy) = year_of_days n; (m, d) = month_walk y 11 1 doy in (y, m, d))"

text \<open>\<^verbatim>\<open>Date()\<close> of a time in its own zone.\<close>

definition local_ns :: "gotime \<Rightarrow> int" where
  "local_ns t = inst t + zone t * 1000000000"

definition t_date :: "gotime \<Rightarrow> int \<times> int \<times> int" where
  "t_date t = civil_of_days (local_ns t div day_ns)"

definition t_year :: "gotime \<Rightarrow> int" where
  "t_year t = fst (t_date t)"

definition time_of_day :: "gotime \<Rightarrow> int" where
  "time_of_day t = local_ns t mod day_ns"

text \<open>
  \<^verbatim>\<open>time.Date(year, month, day, ..., time.UTC)\<close>: months outside 1 to 12 carry into the year, days
  outside the month are counted on from its start.
\<close>

definition go_date :: "int \<Rightarrow> int \<Rightarrow> int \<Rightarrow> int \<Rightarrow> gotime" where
  "go_date y m d tod =
     (let y' = y + (m - 1) div 12; m' = (m - 1) mod 12 + 1
      in GoTime (date_days y' m' d * day_ns + tod) 0)"

subsection \<open>Composition and decomposition\<close>

lemma days_in_month_pos: "28 \<le> days_in_month y m" and days_in_month_le: "days_in_month y m \<le> 31"
  by (auto simp: days_in_month_def)

definition year_length :: "int \<Rightarrow> int" where
  "year_length y = (if is_leap y then 366 else 365)"

lemma days_before_month_12: "days_before_month y 12 = year_length y"
  by (simp add: numeral_eq_Suc days_in_month_def year_length_def)

lemma days_before_month_mono: "i \<le> j \<Longrightarrow> days_before_month y i \<le> days_before_month y j"
proof (induction j)
  case 0
  then show ?case by simp
next
  case (Suc j)
  then show ?case
    using days_in_month_pos [of y "int j + 1"] by (cases "i = Suc j") auto
qed

lemma day_of_year_bound:
  assumes "valid_date y m d"
  shows "0 \<le> days_before_month y (nat (m - 1)) + (d - 1)"
    and "days_before_month y (nat (m - 1)) + (d - 1) < year_length y"
proof -
  have m: "nat (m - 1) < 12" and d: "1 \<le> d" "d \<le> days_in_month y m"
    using assms by (auto simp: valid_date_def)
  have "0 \<le> days_before_month y (nat (m - 1))"
    using days_before_month_mono [of 0 "nat (m - 1)" y] by simp
  with d show "0 \<le> days_before_month y (nat (m - 1)) + (d - 1)" by simp
  have "days_before_month y (nat (m - 1)) + days_in_month y m = days_before_month y (Suc (nat (m - 1)))"
    using assms by (simp add: valid_date_def)
  also have "\<dots> \<le> days_before_month y 12"
    using m by (intro days_before_month_mono) simp
  finally show "days_before_month y (nat (m - 1)) + (d - 1) < year_length y"
    using d by (simp add: days_before_month_12)
qed

lemma month_walk_step:
  assumes "1 \<le> d" "d \<le> days_in_month y (m0 + int k)" "k \<le> fuel"
  shows "month_walk y fuel m0 ((\<Sum>i<k. days_in_month y (m0 + int i)) + (d - 1)) = (m0 + int k, d)"
  using assms
proof (induction k arbitrary: fuel m0)
  case 0
  then show ?case by (cases fuel) auto
next
  case (Suc k)
  then obtain f where f: "fuel = Suc f" by (cases fuel) auto
  have nonneg: "0 \<le> (\<Sum>i<k. days_in_month y (m0 + 1 + int i))"
    by (intro sum_nonneg) (use days_in_month_pos in \<open>force intro: order_trans [of 0 28]\<close>)
  have split: "(\<Sum>i<Suc k. days_in_month y (m0 + int i)) =
      days_in_month y m0 + (\<Sum>i<k. days_in_month y (m0 + 1 + int i))"
    by (subst sum.lessThan_Suc_shift) (simp add: algebra_simps)
  have "month_walk y f (m0 + 1) ((\<Sum>i<k. days_in_month y (m0 + 1 + int i)) + (d - 1)) = (m0 + 1 + int k, d)"
    using Suc.prems f by (intro Suc.IH) (auto simp: algebra_simps)
  with nonneg Suc.prems(1) show ?case
    unfolding split f by (simp add: algebra_simps)
qed

lemma days_before_month_sum: "days_before_month y k = (\<Sum>i<k. days_in_month y (1 + int i))"
  by (induction k) (simp_all add: add.commute)

lemma month_walk_correct:
  assumes "valid_date y m d"
  shows "month_walk y 11 1 (days_before_month y (nat (m - 1)) + (d - 1)) = (m, d)"
  using month_walk_step [of d y 1 "nat (m - 1)" 11] assms
  by (auto simp: valid_date_def days_before_month_sum)

lemma year_of_days_cycle:
  fixes a b c e doy :: int
  assumes b: "0 \<le> b" "b \<le> 3" and c: "0 \<le> c" "c \<le> 24" and e: "0 \<le> e" "e \<le> 3"
    and doy: "0 \<le> doy" "doy < (if e = 3 \<and> (c \<noteq> 24 \<or> b = 3) then 366 else 365)"
  shows "year_of_days (146097 * a + 36524 * b + 1461 * c + 365 * e + doy) =
    (400 * a + 100 * b + 4 * c + e + 1, doy)"
proof -
  define r where "r = 36524 * b + 1461 * c + 365 * e + doy"
  have ed: "365 * e + doy < 1461" "0 \<le> 365 * e + doy"
    and ed': "\<not> (e = 3 \<and> (c \<noteq> 24 \<or> b = 3)) \<Longrightarrow> 365 * e + doy < 1460"
    using e doy by (auto split: if_splits)
  have r: "0 \<le> r" "r < 146097"
    using b c ed unfolding r_def by linarith+
  have n: "146097 * a + 36524 * b + 1461 * c + 365 * e + doy = 146097 * a + r"
    by (simp add: r_def)
  have q400: "(146097 * a + r) div 146097 = a" and m400: "(146097 * a + r) mod 146097 = r"
    using r by simp_all
  have "min 3 (r div 36524) = b"
  proof (cases "b = 3")
    case True
    then have "3 \<le> r div 36524" using c ed unfolding r_def by simp
    with True show ?thesis by simp
  next
    case False
    then have "1461 * c + 365 * e + doy < 36524"
      using c ed ed' by (cases "c = 24") auto
    moreover have "0 \<le> 1461 * c + 365 * e + doy" using c ed by linarith
    moreover have "r = 36524 * b + (1461 * c + 365 * e + doy)" by (simp add: r_def)
    ultimately have "r div 36524 = b" by simp
    with b show ?thesis by simp
  qed
  moreover have "(r - 36524 * b) div 1461 = c"
  proof -
    have "r - 36524 * b = 1461 * c + (365 * e + doy)" by (simp add: r_def)
    with ed show ?thesis by simp
  qed
  moreover have "min 3 ((365 * e + doy) div 365) = e"
  proof (cases "e = 3")
    case True
    with doy show ?thesis by simp
  next
    case False
    with doy e have "(365 * e + doy) div 365 = e" by (simp split: if_splits)
    with e show ?thesis by simp
  qed
  moreover have "r - 36524 * b - 1461 * c = 365 * e + doy" by (simp add: r_def)
  ultimately show ?thesis
    unfolding n year_of_days_def q400 m400 Let_def by simp
qed

lemma year_parts:
  fixes y :: int
  obtains a b c e where "y = 400 * a + 100 * b + 4 * c + e + 1"
    and "0 \<le> b" "b \<le> 3" "0 \<le> c" "c \<le> 24" "0 \<le> e" "e \<le> 3"
proof
  define z where "z = y - 1"
  define w where "w = z mod 400"
  define v where "v = w mod 100"
  have z: "z = 400 * (z div 400) + w" and w: "w = 100 * (w div 100) + v" and v: "v = 4 * (v div 4) + v mod 4"
    by (simp_all add: w_def v_def)
  have wb: "0 \<le> w" "w < 400" and vb: "0 \<le> v" "v < 100"
    by (simp_all add: w_def v_def)
  show "y = 400 * (z div 400) + 100 * (w div 100) + 4 * (v div 4) + v mod 4 + 1"
    using z w v z_def by linarith
  show "0 \<le> w div 100" "w div 100 \<le> 3" "0 \<le> v div 4" "v div 4 \<le> 24" "0 \<le> v mod 4" "v mod 4 \<le> 3"
    using wb vb by auto
qed

lemma days_before_year_parts:
  fixes a b c e :: int
  assumes "0 \<le> b" "b \<le> 3" "0 \<le> c" "c \<le> 24" "0 \<le> e" "e \<le> 3"
  shows "days_before_year (400 * a + 100 * b + 4 * c + e + 1) = 146097 * a + 36524 * b + 1461 * c + 365 * e"
proof -
  let ?z = "400 * a + 100 * b + 4 * c + e"
  have "?z div 4 = 100 * a + 25 * b + c"
    using assms by (intro int_div_pos_eq [where r = e]) auto
  moreover have "?z div 100 = 4 * a + b"
    using assms by (intro int_div_pos_eq [where r = "4 * c + e"]) auto
  moreover have "?z div 400 = a"
    using assms by (intro int_div_pos_eq [where r = "100 * b + 4 * c + e"]) auto
  ultimately show ?thesis by (simp add: days_before_year_def)
qed

lemma is_leap_parts:
  fixes a b c e :: int
  assumes "0 \<le> b" "b \<le> 3" "0 \<le> c" "c \<le> 24" "0 \<le> e" "e \<le> 3"
  shows "is_leap (400 * a + 100 * b + 4 * c + e + 1) \<longleftrightarrow> e = 3 \<and> (c \<noteq> 24 \<or> b = 3)"
proof (cases "e = 3")
  case False
  have "(400 * a + 100 * b + 4 * c + e + 1) mod 4 = e + 1"
    using assms False by (intro int_mod_pos_eq [where q = "100 * a + 25 * b + c"]) auto
  with assms False show ?thesis by (simp add: is_leap_def)
next
  case True
  have 4: "(400 * a + 100 * b + 4 * c + e + 1) mod 4 = 0"
    using True by (intro int_mod_pos_eq [where q = "100 * a + 25 * b + c + 1"]) auto
  show ?thesis
  proof (cases "c = 24")
    case False
    have "(400 * a + 100 * b + 4 * c + e + 1) mod 100 = 4 * c + 4"
      using assms True False by (intro int_mod_pos_eq [where q = "4 * a + b"]) auto
    with 4 True False assms show ?thesis by (simp add: is_leap_def)
  next
    case c: True
    have 100: "(400 * a + 100 * b + 4 * c + e + 1) mod 100 = 0"
      using True c by (intro int_mod_pos_eq [where q = "4 * a + b + 1"]) auto
    show ?thesis
    proof (cases "b = 3")
      case b: True
      have "(400 * a + 100 * b + 4 * c + e + 1) mod 400 = 0"
        using True c b by (intro int_mod_pos_eq [where q = "a + 1"]) auto
      with 4 True b show ?thesis by (simp add: is_leap_def)
    next
      case b: False
      have "(400 * a + 100 * b + 4 * c + e + 1) mod 400 = 100 * b + 100"
        using assms True c b by (intro int_mod_pos_eq [where q = a]) auto
      with 4 100 True c b assms show ?thesis by (simp add: is_leap_def)
    qed
  qed
qed

lemma year_of_days_correct:
  assumes "0 \<le> doy" "doy < year_length y"
  shows "year_of_days (days_before_year y + doy) = (y, doy)"
proof -
  obtain a b c e where y: "y = 400 * a + 100 * b + 4 * c + e + 1"
    and bounds: "0 \<le> b" "b \<le> 3" "0 \<le> c" "c \<le> 24" "0 \<le> e" "e \<le> 3"
    by (rule year_parts [of y])
  then show ?thesis
    using assms year_of_days_cycle [OF bounds, of doy a]
    by (simp add: days_before_year_parts year_length_def is_leap_parts)
qed

lemma civil_of_date_days: "valid_date y m d \<Longrightarrow> civil_of_days (date_days y m d) = (y, m, d)"
  using year_of_days_correct [OF day_of_year_bound, of y m d] month_walk_correct [of y m d]
  by (simp add: civil_of_days_def date_days_def add.assoc)

subsection \<open>Every day has a date\<close>

lemma div_step:
  fixes y k :: int
  assumes "0 < k"
  shows "y div k - (y - 1) div k = (if y mod k = 0 then 1 else 0)"
proof (cases "y mod k = 0")
  case True
  then have "y - 1 = (k - 1) + (y div k - 1) * k" by (simp add: algebra_simps mult_div_mod_eq flip: minus_mod_eq_mult_div)
  then have "(y - 1) div k = y div k - 1"
    using assms by (intro int_div_pos_eq [where r = "k - 1"]) (auto simp: algebra_simps)
  with True show ?thesis by simp
next
  case False
  have r: "0 \<le> y mod k - 1" "y mod k - 1 < k"
    using False assms pos_mod_bound [OF assms, of y] pos_mod_sign [OF assms, of y] by linarith+
  have "y - 1 = k * (y div k) + (y mod k - 1)"
    using mult_div_mod_eq [of k y] by linarith
  then have "(y - 1) div k = y div k"
    using r by (intro int_div_pos_eq [where r = "y mod k - 1"]) auto
  with False show ?thesis by simp
qed

lemma days_before_next_year: "days_before_year (y + 1) = days_before_year y + year_length y"
proof -
  have count: "(C \<Longrightarrow> B) \<Longrightarrow> (B \<Longrightarrow> A) \<Longrightarrow>
      365 + (if A then 1 else 0) - (if B then 1 else 0) + (if C then 1 else 0) = (if A \<and> (\<not> B \<or> C) then 366 else 365 :: int)"
    for A B C by (cases A; cases B; cases C) auto
  have regroup: "365 * v + a - b + c = 365 * (v - 1) + a' - b' + c' + (365 + (a - a') - (b - b') + (c - c'))"
    for a a' b b' c c' v :: int by (simp add: algebra_simps)
  have "y mod 400 mod 100 = y mod 100" "y mod 100 mod 4 = y mod 4"
    by (rule mod_mod_cancel, simp)+
  then have "y mod 400 = 0 \<Longrightarrow> y mod 100 = 0" "y mod 100 = 0 \<Longrightarrow> y mod 4 = 0"
    by (metis mod_0)+
  then have leap: "365 + (if y mod 4 = 0 then 1 else 0) - (if y mod 100 = 0 then 1 else 0) + (if y mod 400 = 0 then 1 else 0) = year_length y"
    unfolding year_length_def is_leap_def by (rule count)
  have "days_before_year (y + 1) = 365 * y + y div 4 - y div 100 + y div 400"
    by (simp add: days_before_year_def)
  also have "\<dots> = days_before_year y +
      (365 + (y div 4 - (y - 1) div 4) - (y div 100 - (y - 1) div 100) + (y div 400 - (y - 1) div 400))"
    unfolding days_before_year_def by (rule regroup)
  also have "\<dots> = days_before_year y +
      (365 + (if y mod 4 = 0 then 1 else 0) - (if y mod 100 = 0 then 1 else 0) + (if y mod 400 = 0 then 1 else 0))"
    by (simp only: div_step zero_less_numeral)
  finally show ?thesis unfolding leap .
qed

lemma year_exists: "\<exists>y doy. 0 \<le> doy \<and> doy < year_length y \<and> n = days_before_year y + doy"
proof -
  define a r where "a = n div 146097" and "r = n mod 146097"
  define b where "b = min 3 (r div 36524)"
  define r2 where "r2 = r - 36524 * b"
  define c r3 where "c = r2 div 1461" and "r3 = r2 mod 1461"
  define e where "e = min 3 (r3 div 365)"
  define doy where "doy = r3 - 365 * e"
  have r: "0 \<le> r" "r < 146097" and n: "n = 146097 * a + r" by (simp_all add: a_def r_def)
  have b: "0 \<le> b" "b \<le> 3" using r by (simp_all add: b_def)
  have r2: "0 \<le> r2" "r2 \<le> 36524" "r2 = 36524 \<Longrightarrow> b = 3"
    using r unfolding r2_def b_def min_def by (auto split: if_splits)
  have c: "0 \<le> c" "c \<le> 24" using r2 by (auto simp: c_def)
  have r3: "0 \<le> r3" "r3 \<le> 1460" and r2': "r2 = 1461 * c + r3" by (simp_all add: c_def r3_def)
  have e: "0 \<le> e" "e \<le> 3" using r3 by (simp_all add: e_def)
  have doy: "0 \<le> doy" "doy \<le> 365" "doy = 365 \<Longrightarrow> e = 3 \<and> r3 = 1460"
    using r3 unfolding doy_def e_def min_def by (auto split: if_splits)
  have bound: "doy < (if e = 3 \<and> (c \<noteq> 24 \<or> b = 3) then 366 else 365)"
    using doy r2 r2' by (cases "doy = 365") auto
  let ?y = "400 * a + 100 * b + 4 * c + e + 1"
  have "n = days_before_year ?y + doy"
    unfolding days_before_year_parts [OF b c e] using n r2' by (simp add: r2_def doy_def)
  moreover have "doy < year_length ?y"
    using bound by (simp add: year_length_def is_leap_parts [OF b c e])
  ultimately show ?thesis using doy(1) by blast
qed

lemma month_exists:
  "0 \<le> doy \<Longrightarrow> doy < days_before_month y k \<Longrightarrow>
     \<exists>i < k. days_before_month y i \<le> doy \<and> doy < days_before_month y (Suc i)"
proof (induction k)
  case (Suc k)
  then show ?case by (cases "doy < days_before_month y k") (auto intro: less_SucI)
qed simp

lemma date_exists: "\<exists>y m d. valid_date y m d \<and> date_days y m d = n"
proof -
  obtain y doy where y: "0 \<le> doy" "doy < year_length y" "n = days_before_year y + doy"
    using year_exists by blast
  obtain i where i: "i < 12" "days_before_month y i \<le> doy" "doy < days_before_month y (Suc i)"
    using month_exists [of doy y 12] y by (auto simp: days_before_month_12)
  let ?d = "doy - days_before_month y i + 1"
  have "valid_date y (int i + 1) ?d" using i by (auto simp: valid_date_def)
  moreover have "date_days y (int i + 1) ?d = n" using y by (simp add: date_days_def)
  ultimately show ?thesis by blast
qed

lemma civil_valid: "civil_of_days n = (y, m, d) \<Longrightarrow> valid_date y m d \<and> date_days y m d = n"
  using date_exists [of n] civil_of_date_days by fastforce

lemma date_days_next_month:
  assumes "1 \<le> m" "m \<le> 12"
  shows "date_days (if m = 12 then y + 1 else y) (if m = 12 then 1 else m + 1) d = date_days y m (days_in_month y m) + d"
proof (cases "m = 12")
  case True
  have "days_before_month y 12 = days_before_month y 11 + days_in_month y 12"
    using days_before_month.simps(2) [of y 11] by (simp add: numeral_eq_Suc)
  then have "days_before_month y 11 + days_in_month y 12 = year_length y"
    by (simp add: days_before_month_12)
  with True show ?thesis by (simp add: date_days_def days_before_next_year)
next
  case False
  have "nat m = Suc (nat (m - 1))" using assms by simp
  then have "days_before_month y (nat m) = days_before_month y (nat (m - 1)) + days_in_month y m"
    using assms by simp
  with False show ?thesis by (simp add: date_days_def)
qed

lemma t_date_go_date:
  assumes "valid_date y m d" and "0 \<le> tod" "tod < day_ns"
  shows "t_date (go_date y m d tod) = (y, m, d)" and "time_of_day (go_date y m d tod) = tod"
    and "inst (go_date y m d tod) = date_days y m d * day_ns + tod" and "zone (go_date y m d tod) = 0"
proof -
  have m: "y + (m - 1) div 12 = y" "(m - 1) mod 12 + 1 = m" using assms(1) by (auto simp: valid_date_def)
  have q: "(date_days y m d * day_ns + tod) div day_ns = date_days y m d" "(date_days y m d * day_ns + tod) mod day_ns = tod"
    using assms(2,3) by (simp_all add: day_ns_def)
  show "t_date (go_date y m d tod) = (y, m, d)" "time_of_day (go_date y m d tod) = tod"
    "inst (go_date y m d tod) = date_days y m d * day_ns + tod" "zone (go_date y m d tod) = 0"
    using q civil_of_date_days [OF assms(1)] by (simp_all add: go_date_def m t_date_def local_ns_def time_of_day_def Let_def)
qed

section \<open>RFC 3339\<close>

text \<open>Fixed-width decimal fields and literal characters, each returning the rest of the text.\<close>

definition take_digits :: "nat \<Rightarrow> string \<Rightarrow> (int \<times> string) option" where
  "take_digits w s =
     (if length s < w then None
      else do { n \<leftarrow> parse_digits (take w s); Some (int n, drop w s) })"

definition take_char :: "char \<Rightarrow> string \<Rightarrow> string option" where
  "take_char c s = (case s of [] \<Rightarrow> None | d # ds \<Rightarrow> if d = c then Some ds else None)"

definition take_hour :: "string \<Rightarrow> (int \<times> string) option" where
  "take_hour s = (case take_digits 2 s of Some r \<Rightarrow> Some r | None \<Rightarrow> take_digits 1 s)"

definition in_range :: "int \<Rightarrow> int \<Rightarrow> int \<Rightarrow> unit option" where
  "in_range lo hi i = (if lo \<le> i \<and> i \<le> hi then Some () else None)"

text \<open>
  The fraction is optional, starts with a period or a comma and a digit, and counts to nine digits;
  further digits are dropped.
\<close>

definition take_fraction :: "string \<Rightarrow> int \<times> string" where
  "take_fraction s =
     (case s of
        c # d # ds \<Rightarrow>
          (if (c = CHR ''.'' \<or> c = CHR '','') \<and> is_digit d
           then (let digits = takeWhile is_digit (d # ds); nine = take 9 digits
                 in (case dec_val 0 nine of None \<Rightarrow> 0 | Some n \<Rightarrow> int n * 10 ^ (9 - length nine),
                     dropWhile is_digit (d # ds)))
           else (0, s))
      | _ \<Rightarrow> (0, s))"

definition take_zone :: "string \<Rightarrow> int option" where
  "take_zone s =
     (if s = ''Z'' then Some 0
      else do {
        (sgn, s) \<leftarrow> (case s of
            c # cs \<Rightarrow> if c = CHR ''+'' then Some (1, cs) else if c = CHR ''-'' then Some (-1, cs) else None
          | [] \<Rightarrow> None);
        (hh, s) \<leftarrow> take_digits 2 s;
        s \<leftarrow> take_char (CHR '':'') s;
        (mm, s) \<leftarrow> take_digits 2 s;
        in_range 0 24 hh;
        in_range 0 60 mm;
        if s = [] then Some (sgn * (3600 * hh + 60 * mm)) else None
      })"

definition rfc3339_parse :: "string \<Rightarrow> gotime option" where
  "rfc3339_parse s =
     do {
       (y, s) \<leftarrow> take_digits 4 s;
       s \<leftarrow> take_char (CHR ''-'') s;
       (m, s) \<leftarrow> take_digits 2 s;
       s \<leftarrow> take_char (CHR ''-'') s;
       (d, s) \<leftarrow> take_digits 2 s;
       s \<leftarrow> take_char (CHR ''T'') s;
       (hh, s) \<leftarrow> take_hour s;
       s \<leftarrow> take_char (CHR '':'') s;
       (mi, s) \<leftarrow> take_digits 2 s;
       s \<leftarrow> take_char (CHR '':'') s;
       (sec, s) \<leftarrow> take_digits 2 s;
       let (frac, s) = take_fraction s;
       offset \<leftarrow> take_zone s;
       in_range 0 23 hh;
       in_range 0 59 mi;
       in_range 0 59 sec;
       if valid_date y m d
       then Some (GoTime (date_days y m d * day_ns +
                          (3600 * hh + 60 * mi + sec - offset) * 1000000000 + frac) offset)
       else None
     }"

text \<open>
  \<^verbatim>\<open>Format(time.RFC3339)\<close> of a time in UTC, for the years of four digits: fractions of a second are dropped.
\<close>

definition rfc3339_utc :: "gotime \<Rightarrow> string" where
  "rfc3339_utc t =
     (let (y, m, d) = civil_of_days (inst t div day_ns); tod = (inst t mod day_ns) div 1000000000 in
      pad_text 4 (nat y) @ ''-'' @ pad_text 2 (nat m) @ ''-'' @ pad_text 2 (nat d) @ ''T'' @
      pad_text 2 (nat (tod div 3600)) @ '':'' @ pad_text 2 (nat (tod div 60 mod 60)) @ '':'' @
      pad_text 2 (nat (tod mod 60)) @ ''Z'')"

text \<open>
  The JSON text of a time (\<^verbatim>\<open>MarshalJSON\<close>, RFC3339Nano): it exists for years of four digits and zones of
  less than a day; trailing zeros of the fraction are dropped.
\<close>

definition time_marshalable :: "gotime \<Rightarrow> bool" where
  "time_marshalable t \<longleftrightarrow> 0 \<le> t_year t \<and> t_year t \<le> 9999 \<and> \<bar>zone t\<bar> < 86400"

definition fraction_text :: "int \<Rightarrow> string" where
  "fraction_text ns =
     (if ns = 0 then [] else CHR ''.'' # rev (dropWhile (\<lambda>c. c = CHR ''0'') (rev (pad_text 9 (nat ns)))))"

definition zone_text :: "int \<Rightarrow> string" where
  "zone_text z =
     (if z = 0 then ''Z''
      else (if z \<le> - 60 then ''-'' else ''+'') @ pad_text 2 (nat (\<bar>z\<bar> div 3600)) @ '':'' @ pad_text 2 (nat (\<bar>z\<bar> div 60 mod 60)))"

definition rfc3339_nano :: "gotime \<Rightarrow> string" where
  "rfc3339_nano t =
     (let (y, m, d) = t_date t; tod = time_of_day t; sod = tod div 1000000000 in
      pad_text 4 (nat y) @ ''-'' @ pad_text 2 (nat m) @ ''-'' @ pad_text 2 (nat d) @ ''T'' @
      pad_text 2 (nat (sod div 3600)) @ '':'' @ pad_text 2 (nat (sod div 60 mod 60)) @ '':'' @
      pad_text 2 (nat (sod mod 60)) @ fraction_text (tod mod 1000000000) @ zone_text (zone t))"

lemma length_nat_text: "n < 10 ^ w \<Longrightarrow> 0 < w \<Longrightarrow> length (nat_text n) \<le> w"
proof (induction n arbitrary: w rule: nat_text.induct)
  case (1 n)
  show ?case
  proof (cases "n < 10")
    case True
    with 1 show ?thesis by (subst nat_text.simps) simp
  next
    case False
    with 1 obtain v where w: "w = Suc v" "0 < v"
      by (cases w; cases "w - 1") auto
    with 1 have "n div 10 < 10 ^ v" by (simp add: less_mult_imp_div_less mult.commute)
    with 1 False w show ?thesis by (subst nat_text.simps) simp
  qed
qed

lemma length_pad_text: "n < 10 ^ w \<Longrightarrow> 0 < w \<Longrightarrow> length (pad_text w n) = w"
  using length_nat_text [of n w] by (simp add: pad_text_def)

lemma take_digits_pad:
  "n < 10 ^ w \<Longrightarrow> 0 < w \<Longrightarrow> take_digits w (pad_text w n @ s) = Some (int n, s)"
  by (simp add: take_digits_def length_pad_text parse_pad_text)

lemma take_char_Cons [simp]: "take_char c (c # s) = Some s"
  by (simp add: take_char_def)

lemma take_hour_pad: "n < 100 \<Longrightarrow> take_hour (pad_text 2 n @ s) = Some (int n, s)"
  by (simp add: take_hour_def take_digits_pad)

lemma rfc3339_round_trip:
  assumes date: "valid_date y m d" and y: "0 \<le> y" "y \<le> 9999"
    and sod: "0 \<le> sod" "sod < 86400" and ns: "0 \<le> ns" "ns < 1000000000"
    and t: "inst t = date_days y m d * day_ns + sod * 1000000000 + ns"
  shows "rfc3339_parse (rfc3339_utc t) = Some (GoTime (inst t - ns) 0)"
proof -
  have day: "inst t div day_ns = date_days y m d" and tod: "inst t mod day_ns = sod * 1000000000 + ns"
    using sod ns unfolding t day_ns_def
    by (simp_all add: int_div_pos_eq [where q = "date_days y m d" and r = "sod * 1000000000 + ns"]
        int_mod_pos_eq [where q = "date_days y m d" and r = "sod * 1000000000 + ns"] mult.commute)
  have secs: "(sod * 1000000000 + ns) div 1000000000 = sod"
    using ns by simp
  have md: "1 \<le> m" "m \<le> 12" "1 \<le> d" "d \<le> 31"
    using date days_in_month_le [of y m] by (auto simp: valid_date_def)
  define hh mi ss where "hh = sod div 3600" and "mi = sod div 60 mod 60" and "ss = sod mod 60"
  have parts: "0 \<le> hh" "hh \<le> 23" "0 \<le> mi" "mi \<le> 59" "0 \<le> ss" "ss \<le> 59"
    using sod by (auto simp: hh_def mi_def ss_def)
  have sum: "3600 * hh + 60 * mi + ss = sod"
  proof -
    have "sod div 60 div 60 = sod div 3600" by (simp add: div_mult2_eq [symmetric] zdiv_zmult2_eq [symmetric])
    then have "sod div 60 = 60 * hh + mi"
      using mult_div_mod_eq [of 60 "sod div 60"] by (simp add: hh_def mi_def)
    moreover have "sod = 60 * (sod div 60) + ss" by (simp add: ss_def)
    ultimately show ?thesis by linarith
  qed
  have txt_eq: "rfc3339_utc t = pad_text 4 (nat y) @ CHR ''-'' # pad_text 2 (nat m) @ CHR ''-'' # pad_text 2 (nat d) @ CHR ''T'' #
      pad_text 2 (nat hh) @ CHR '':'' # pad_text 2 (nat mi) @ CHR '':'' # pad_text 2 (nat ss) @ ''Z''"
    unfolding rfc3339_utc_def day tod secs civil_of_date_days [OF date] by (simp add: hh_def mi_def ss_def)
  have "nat y < 10 ^ 4" "nat m < 10 ^ 2" "nat d < 10 ^ 2" "nat hh < 100" "nat mi < 10 ^ 2" "nat ss < 10 ^ 2"
    using y md parts by auto
  then show ?thesis
    using y md parts date
    by (simp add: txt_eq rfc3339_parse_def take_digits_pad take_hour_pad take_fraction_def take_zone_def in_range_def)
      (use sum in \<open>simp add: t flip: sum\<close>)
qed

lemma pad_digits: "list_all is_digit (pad_text w n)"
  using digits_nat_text [of n] by (auto simp: pad_text_def list_all_iff is_digit_def code_def)

lemma take_fraction_text:
  assumes "0 \<le> ns" "ns < 1000000000"
  shows "take_fraction (fraction_text ns @ ''Z'') = (ns, ''Z'')"
proof (cases "ns = 0")
  case False
  let ?s = "pad_text 9 (nat ns)"
  define d where "d = rev (dropWhile (\<lambda>c. c = CHR ''0'') (rev ?s))"
  have len: "length ?s = 9" using assms by (intro length_pad_text) auto
  have s: "?s = d @ replicate (9 - length d) (CHR ''0'')" using trim_zeros [of ?s] by (simp add: d_def len)
  have le: "length d \<le> 9" using arg_cong [OF s, of length] len by simp
  have val: "dec_val 0 ?s = Some (nat ns)" using parse_pad_text [of 9 "nat ns"] len by (auto simp: parse_digits_def split: if_splits)
  then obtain m where m: "dec_val 0 d = Some m" "m * 10 ^ (9 - length d) = nat ns"
    by (subst (asm) s) (auto simp: dec_val_append dec_val_zero_tail split: option.splits)
  have "d \<noteq> []" using m False assms by auto
  then obtain c cs where d_Cons: "d = c # cs" by (cases d) auto
  have "set d \<subseteq> set ?s" by (subst s) simp
  then have digits: "list_all is_digit d" using pad_digits [of 9 "nat ns"] by (auto simp: list_all_iff)
  have Z: "\<not> is_digit (CHR ''Z'')" by (simp add: is_digit_def code_def)
  have cut: "takeWhile is_digit (d @ ''Z'') = d" "dropWhile is_digit (d @ ''Z'') = ''Z''"
    using digits Z by (simp_all add: list_all_iff takeWhile_append dropWhile_append)
  have "take_fraction (CHR ''.'' # d @ ''Z'') =
    (case dec_val 0 (take 9 (takeWhile is_digit (d @ ''Z''))) of None \<Rightarrow> 0 | Some n \<Rightarrow> int n * 10 ^ (9 - length (take 9 (takeWhile is_digit (d @ ''Z'')))),
     dropWhile is_digit (d @ ''Z''))"
    using digits unfolding d_Cons by (simp add: take_fraction_def Let_def cong: option.case_cong)
  then have "take_fraction (CHR ''.'' # d @ ''Z'') = (int m * 10 ^ (9 - length d), ''Z'')" using le m(1) by (simp add: cut)
  moreover have "int m * 10 ^ (9 - length d) = ns" using m(2) assms(1) by (metis of_nat_mult of_nat_numeral of_nat_power int_nat_eq)
  ultimately show ?thesis using False by (simp add: fraction_text_def d_def)
qed (simp add: fraction_text_def take_fraction_def)

lemma clock_parts:
  fixes sod :: int
  assumes "0 \<le> sod" "sod < 86400"
  shows "0 \<le> sod div 3600" "sod div 3600 \<le> 23" "0 \<le> sod div 60 mod 60" "sod div 60 mod 60 \<le> 59" "0 \<le> sod mod 60" "sod mod 60 \<le> 59"
    and "3600 * (sod div 3600) + 60 * (sod div 60 mod 60) + sod mod 60 = sod"
proof -
  have "sod div 60 div 60 = sod div 3600" by (simp add: div_mult2_eq [symmetric] zdiv_zmult2_eq [symmetric])
  then have "sod div 60 = 60 * (sod div 3600) + sod div 60 mod 60"
    using mult_div_mod_eq [of 60 "sod div 60"] by simp
  moreover have "sod = 60 * (sod div 60) + sod mod 60" by simp
  ultimately show "3600 * (sod div 3600) + 60 * (sod div 60 mod 60) + sod mod 60 = sod" by linarith
qed (use assms in auto)

text \<open>A time in UTC, to the nanosecond, is read back from its text.\<close>

lemma rfc3339_nano_round_trip:
  assumes "0 \<le> t_year t" "t_year t \<le> 9999" "zone t = 0"
  shows "rfc3339_parse (rfc3339_nano t) = Some t"
proof -
  obtain y m d where date: "t_date t = (y, m, d)" by (metis prod_cases3)
  have civil: "civil_of_days (inst t div day_ns) = (y, m, d)" using date assms(3) by (simp add: t_date_def local_ns_def)
  from civil_valid [OF this] have v: "valid_date y m d" "date_days y m d = inst t div day_ns" by auto
  have y: "0 \<le> y" "y \<le> 9999" using assms(1,2) date by (simp_all add: t_year_def)
  have md: "1 \<le> m" "m \<le> 12" "1 \<le> d" "d \<le> 31" using v(1) days_in_month_le [of y m] by (auto simp: valid_date_def)
  define tod sod ns where "tod = inst t mod day_ns" and "sod = tod div 1000000000" and "ns = tod mod 1000000000"
  have tod: "0 \<le> tod" "tod < 86400000000000" by (simp_all add: tod_def day_ns_def)
  then have sod: "0 \<le> sod" "sod < 86400" and ns: "0 \<le> ns" "ns < 1000000000" and split: "tod = sod * 1000000000 + ns"
    by (simp_all add: sod_def ns_def)
  note p = clock_parts [OF sod]
  define hh mi ss where "hh = sod div 3600" and "mi = sod div 60 mod 60" and "ss = sod mod 60"
  note q = p [folded hh_def mi_def ss_def]
  have txt_eq: "rfc3339_nano t = pad_text 4 (nat y) @ CHR ''-'' # pad_text 2 (nat m) @ CHR ''-'' # pad_text 2 (nat d) @ CHR ''T'' #
      pad_text 2 (nat hh) @ CHR '':'' # pad_text 2 (nat mi) @ CHR '':'' # pad_text 2 (nat ss) @ (fraction_text ns @ ''Z'')"
    by (simp add: rfc3339_nano_def date time_of_day_def local_ns_def assms(3) zone_text_def hh_def mi_def ss_def sod_def ns_def tod_def Let_def)
  have "nat y < 10 ^ 4" "nat m < 10 ^ 2" "nat d < 10 ^ 2" "nat hh < 100" "nat mi < 10 ^ 2" "nat ss < 10 ^ 2"
    using y md q by auto
  then have "rfc3339_parse (rfc3339_nano t) = Some (GoTime (date_days y m d * day_ns + (3600 * hh + 60 * mi + ss) * 1000000000 + ns) 0)"
    using y md q(1-6) v(1)
    by (simp add: txt_eq rfc3339_parse_def take_digits_pad take_hour_pad take_fraction_text [OF ns] take_zone_def in_range_def)
  also have "date_days y m d * day_ns + (3600 * hh + 60 * mi + ss) * 1000000000 + ns = inst t"
    using v(2) q(7) split div_mult_mod_eq [of "inst t" day_ns] by (simp add: tod_def)
  finally show ?thesis using assms(3) by (metis gotime.collapse)
qed

end
