(* ===== verification/Ledger_Types.thy ===== *)
theory Ledger_Types
  imports Go_Calendar
begin

text \<open>
  The Ledger service's data and its input validation (\<^verbatim>\<open>services/ledger/internal/ledger/types.go\<close>):
  receipts and their retention, the evidence that each receipt type has to carry, queries, and
  reconciliation reports. Every validator is executable and follows the order of the source's tests.

  The properties describe what an accepted input guarantees: no key of a receipt names a secret, a
  workspace charge is the exact sum of its components, and a reconciliation report's counts agree
  with its list of exceptions.
\<close>

section \<open>Errors and data\<close>

datatype ledger_error =
    ErrIdempotencyConflict
  | ErrReceiptNotFound
  | ErrInvalidReceiptInput
  | ErrInvalidReceiptQuery
  | ErrInvalidReceiptRetentionInput
  | ErrReceiptRetentionShortening
  | ErrReceiptRetentionActive
  | ErrReceiptLegalHold
  | ErrInvalidReconciliationInput
  | ErrInvalidEvidenceIndexInput
  | ErrInvalidEvidenceIndexQuery
  | ErrEvidenceIndexExportTooLarge
  | ErrMarshal \<comment> \<open>the error of \<^verbatim>\<open>json.Marshal\<close>\<close>
  | ErrPanic \<comment> \<open>a failed type assertion of the single-valued form\<close>

definition historicalArtifactReceiptType :: string where
  "historicalArtifactReceiptType = ''artifact.manifest.v1''"

definition historicalReviewReceiptType :: string where
  "historicalReviewReceiptType = ''review.result.v1''"

record receipt_input =
  ri_Type :: string
  ri_Status :: string
  ri_Surface :: string
  ri_AccountID :: string
  ri_OrganizationID :: string
  ri_WorkspaceID :: string
  ri_ProjectID :: string
  ri_TaskID :: string
  ri_RequestID :: string
  ri_ApprovalID :: string
  ri_JobID :: string
  ri_ArtifactID :: string
  ri_ReviewID :: string
  ri_ContinuationID :: string
  ri_Actor :: gomap
  ri_Plan :: gomap
  ri_Execution :: gomap
  ri_Environment :: gomap
  ri_InputRefs :: gomap
  ri_OutputRefs :: gomap
  ri_ReviewerChecks :: gomap
  ri_Cost :: gomap
  ri_Owner :: gomap
  ri_Continuation :: gomap
  ri_SupersedesReceiptID :: string
  ri_IdempotencyKey :: string

record privacy_redaction_evidence =
  pr_AppliedAt :: gotime
  pr_Reason :: string
  pr_Eligible :: bool

record receipt_retention =
  rt_RetainUntil :: gotime
  rt_LegalHold :: bool
  rt_PrivacyRedaction :: "privacy_redaction_evidence option"

record receipt_retention_input =
  rti_ReceiptID :: string
  rti_RetainUntil :: gotime
  rti_LegalHold :: bool
  rti_IdempotencyKey :: string

record receipt_privacy_delete_input =
  pdi_ReceiptID :: string
  pdi_Reason :: string
  pdi_IdempotencyKey :: string

record receipt_retention_result =
  rr_ReceiptID :: string
  rr_Retention :: receipt_retention
  rr_Replayed :: bool

record receipt =
  rc_Input :: receipt_input
  rc_ReceiptID :: string
  rc_CreatedAt :: gotime
  rc_Retention :: receipt_retention
  rc_Replayed :: bool

definition DefaultReceiptPageSize :: int where
  "DefaultReceiptPageSize = 50"

definition MaxReceiptPageSize :: int where
  "MaxReceiptPageSize = 100"

record receipt_query =
  rq_AccountID :: string
  rq_OrganizationID :: string
  rq_WorkspaceID :: string
  rq_ProjectID :: string
  rq_TaskID :: string
  rq_JobID :: string
  rq_Type :: string
  rq_TypePrefix :: string
  rq_Status :: string
  rq_Cursor :: string
  rq_Limit :: int

record receipt_page =
  rp_Receipts :: "receipt list"
  rp_NextCursor :: string
  rp_HasMore :: bool

record reconciliation_input =
  rci_Report :: gomap
  rci_IdempotencyKey :: string

record reconciliation_result =
  rcr_ID :: string
  rcr_Status :: string
  rcr_Report :: gomap
  rcr_BlockNewWorkspaces :: bool
  rcr_Reason :: string
  rcr_CreatedAt :: gotime
  rcr_Replayed :: bool

section \<open>Cursors and queries\<close>

text \<open>
  A cursor is the pair of a time and an identifier. Its text (JSON in unpadded URL base64) is produced
  and read by the codec, which the definitions take as a parameter: \<open>cc_decode\<close> fails on a text that
  is no base64 or no JSON object of the two fields. The law \<open>codec_ok\<close> is the documented round trip:
  for a time that JSON can represent and an ASCII identifier, the text is not empty and is read back
  as the same instant and the same identifier.
\<close>

record cursor_codec =
  cc_encode :: "gotime \<Rightarrow> string \<Rightarrow> string"
  cc_decode :: "string \<Rightarrow> (gotime \<times> string) option"

definition ascii_text :: "string \<Rightarrow> bool" where
  "ascii_text s \<longleftrightarrow> list_all (\<lambda>c. code c < 128) s"

definition codec_ok :: "cursor_codec \<Rightarrow> bool" where
  "codec_ok cc \<longleftrightarrow>
     (\<forall>t k. time_marshalable t \<and> ascii_text k \<longrightarrow>
        cc_encode cc t k \<noteq> [] \<and> (\<exists>t'. cc_decode cc (cc_encode cc t k) = Some (t', k) \<and> inst t' = inst t))"

text \<open>The zero cursor stands for the start of the list.\<close>

definition normalizeReceiptQuery ::
    "cursor_codec \<Rightarrow> receipt_query \<Rightarrow> ledger_error + (receipt_query \<times> (gotime \<times> string))" where
  "normalizeReceiptQuery cc query =
     (let query = (if rq_Limit query = 0 then query\<lparr>rq_Limit := DefaultReceiptPageSize\<rparr> else query) in
      if rq_Limit query < 1 \<or> rq_Limit query > MaxReceiptPageSize then Inl ErrInvalidReceiptQuery
      else if rq_Type query \<noteq> [] \<and> rq_TypePrefix query \<noteq> [] then Inl ErrInvalidReceiptQuery
      else if rq_Cursor query = [] then Inr (query, zero_time, [])
      else case cc_decode cc (rq_Cursor query) of
             None \<Rightarrow> Inl ErrInvalidReceiptQuery
           | Some (createdAt, receiptID) \<Rightarrow>
               if is_zero createdAt \<or> receiptID = [] then Inl ErrInvalidReceiptQuery
               else Inr (query, createdAt, receiptID))"

definition encodeReceiptCursor :: "cursor_codec \<Rightarrow> receipt \<Rightarrow> string" where
  "encodeReceiptCursor cc r = cc_encode cc (rc_CreatedAt r) (rc_ReceiptID r)"

section \<open>References and integers\<close>

definition opaque_char :: "char \<Rightarrow> bool" where
  "opaque_char c \<longleftrightarrow> is_lower c \<or> is_upper c \<or> is_digit c \<or> c \<in> set ''._:-''"

definition isOpaqueReference :: "string \<Rightarrow> bool" where
  "isOpaqueReference value \<longleftrightarrow> \<not> (value = [] \<or> length value > 255) \<and> list_all opaque_char value"

definition float_in_kind :: "float_kind \<Rightarrow> int" where
  "float_in_kind k = (case k of KFloat32 \<Rightarrow> 16777215 | KFloat64 \<Rightarrow> 9007199254740991)"

definition unsigned_kind :: "int_kind \<Rightarrow> bool" where
  "unsigned_kind k \<longleftrightarrow> k \<in> {KUint, KUint8, KUint16, KUint32, KUint64}"

definition integerValue :: "goval \<Rightarrow> int option" where
  "integerValue value =
     (case value of
        GNum s \<Rightarrow> parse_int64 s
      | GInt k i \<Rightarrow> if unsigned_kind k \<and> i > max_int64 then None else Some i
      | GFloat k f \<Rightarrow>
          (case f of
             Fin q \<Rightarrow>
               if q \<noteq> of_int (trunc_rat q) \<or> \<bar>q\<bar> > of_int (float_in_kind k) then None
               else Some (int64_of_float f)
           | _ \<Rightarrow> None)
      | _ \<Rightarrow> None)"

text \<open>An integer read from a key, with a test on its value.\<close>

definition int_field :: "gomap \<Rightarrow> string \<Rightarrow> (int \<Rightarrow> bool) \<Rightarrow> bool" where
  "int_field m key ok = (case integerValue (mget m key) of None \<Rightarrow> False | Some i \<Rightarrow> ok i)"

definition str_field :: "gomap \<Rightarrow> string \<Rightarrow> (string \<Rightarrow> bool) \<Rightarrow> bool" where
  "str_field m key ok = (case as_str (mget m key) of None \<Rightarrow> False | Some s \<Rightarrow> ok s)"

definition rfc3339_ok :: "string \<Rightarrow> bool" where
  "rfc3339_ok s \<longleftrightarrow> rfc3339_parse s \<noteq> None"

lemma int_field_iff: "int_field m key ok \<longleftrightarrow> (\<exists>i. integerValue (mget m key) = Some i \<and> ok i)"
  by (auto simp: int_field_def split: option.splits)

lemma str_field_iff: "str_field m key ok \<longleftrightarrow> (\<exists>s. mget m key = GStr s \<and> ok s)"
  by (auto simp: str_field_def split: option.splits)

section \<open>Forbidden and financial keys\<close>

definition forbidden_keys :: "string list" where
  "forbidden_keys =
     [''apikey'', ''admintoken'', ''rawsub2apiresponse'', ''rawproviderresponse'',
      ''rawcredential'', ''credential'', ''password'', ''token'', ''secret'',
      ''signedurl'', ''presignedurl'', ''objectkey'', ''kubeconfig'']"

definition forbidden_key :: "string \<Rightarrow> bool" where
  "forbidden_key key \<longleftrightarrow> to_lower key \<in> set forbidden_keys"

definition containsForbiddenJSONKey :: "goval \<Rightarrow> bool" where
  "containsForbiddenJSONKey value = json_scan forbidden_key value"

definition containsForbiddenReceiptKey :: "goval \<Rightarrow> bool" where
  "containsForbiddenReceiptKey value =
     (case normalizedJSONValue value of None \<Rightarrow> True | Some normalized \<Rightarrow> containsForbiddenJSONKey normalized)"

definition financial_key :: "string \<Rightarrow> bool" where
  "financial_key key \<longleftrightarrow>
     list_ex (has_prefix (to_lower key)) [''cost'', ''refund'', ''debit'', ''wallet'', ''supersedes'']"

definition containsWorkspaceDeletionFinancialJSONField :: "goval \<Rightarrow> bool" where
  "containsWorkspaceDeletionFinancialJSONField value = json_scan financial_key value"

definition containsWorkspaceDeletionFinancialField :: "goval \<Rightarrow> bool" where
  "containsWorkspaceDeletionFinancialField value =
     (case normalizedJSONValue value of
        None \<Rightarrow> True
      | Some normalized \<Rightarrow> containsWorkspaceDeletionFinancialJSONField normalized)"

text \<open>The JSON object of a \<^verbatim>\<open>ReceiptInput\<close>, by the tags of the struct: the texts, then the maps.\<close>

definition receipt_maps :: "receipt_input \<Rightarrow> gomap list" where
  "receipt_maps input =
     [ri_Actor input, ri_Plan input, ri_Execution input, ri_Environment input, ri_InputRefs input,
      ri_OutputRefs input, ri_ReviewerChecks input, ri_Cost input, ri_Owner input, ri_Continuation input]"

definition receipt_map_tags :: "string list" where
  "receipt_map_tags =
     [''actor'', ''plan'', ''execution'', ''environment'', ''inputRefs'', ''outputRefs'',
      ''reviewerChecks'', ''cost'', ''owner'', ''continuation'']"

definition receipt_texts_json :: "receipt_input \<Rightarrow> (string \<times> goval) list" where
  "receipt_texts_json input =
     [(''type'', GStr (ri_Type input)), (''status'', GStr (ri_Status input)), (''surface'', GStr (ri_Surface input))] @
     (if ri_AccountID input = [] then [] else [(''accountId'', GStr (ri_AccountID input))]) @
     [(''organizationId'', GStr (ri_OrganizationID input)), (''workspaceId'', GStr (ri_WorkspaceID input)),
      (''projectId'', GStr (ri_ProjectID input)), (''taskId'', GStr (ri_TaskID input)),
      (''requestId'', GStr (ri_RequestID input)), (''approvalId'', GStr (ri_ApprovalID input)),
      (''jobId'', GStr (ri_JobID input)), (''artifactId'', GStr (ri_ArtifactID input)),
      (''reviewId'', GStr (ri_ReviewID input)), (''continuationId'', GStr (ri_ContinuationID input)),
      (''supersedesReceiptId'', GStr (ri_SupersedesReceiptID input))]"

definition receipt_input_json :: "receipt_input \<Rightarrow> goval" where
  "receipt_input_json input =
     GObj (receipt_texts_json input @ zip receipt_map_tags (map gomap_val (receipt_maps input)))"

section \<open>Receipt validation\<close>

definition validBillingCost :: "gomap \<Rightarrow> bool" where
  "validBillingCost cost \<longleftrightarrow>
     list_all (\<lambda>key. str_field cost key isOpaqueReference)
       [''pricingVersion'', ''sub2apiRedeemCode'', ''resourceType'', ''resourceId''] \<and>
     list_all (\<lambda>key. str_field cost key rfc3339_ok) [''periodStart'', ''paidThrough''] \<and>
     list_all (\<lambda>key. int_field cost key (\<lambda>i. 0 \<le> i)) [''monthlyPriceCnyCents'', ''chargeUsdMicros''] \<and>
     int_field cost ''sub2apiUserId'' (\<lambda>i. 0 < i)"

definition billing_fields_wanted :: "string \<Rightarrow> nat" where
  "billing_fields_wanted receiptType =
     (if receiptType = ''billing.workspace_purchased.v1'' then 12
      else if receiptType = ''billing.workspace_renewed.v1'' then 12
      else if receiptType = ''billing.workspace_expired.v1'' then 9
      else if receiptType = ''billing.workspace_refunded.v1'' then 13 else 0)"

text \<open>The period of a billing cost: both ends parse and the end is later than the start.\<close>

definition valid_billing_period :: "gomap \<Rightarrow> bool" where
  "valid_billing_period cost \<longleftrightarrow>
     (case (as_str (mget cost ''periodStart''), as_str (mget cost ''paidThrough'')) of
        (Some periodStartText, Some paidThroughText) \<Rightarrow>
          (case (rfc3339_parse periodStartText, rfc3339_parse paidThroughText) of
             (Some periodStart, Some paidThrough) \<Rightarrow> t_after paidThrough periodStart
           | _ \<Rightarrow> False)
      | _ \<Rightarrow> False)"

text \<open>The two components of a workspace charge, their sum equal to the total.\<close>

definition valid_billing_components :: "gomap \<Rightarrow> bool" where
  "valid_billing_components cost \<longleftrightarrow>
     (case (integerValue (mget cost ''totalUsdMicros''), as_obj (mget cost ''components'')) of
        (Some totalUsd, Some components) \<Rightarrow>
          0 < totalUsd \<and> length components = 2 \<and>
          (case (as_obj (mget (Some components) ''compute''), as_obj (mget (Some components) ''storage'')) of
             (Some compute, Some storage) \<Rightarrow>
               length compute = 3 \<and> length storage = 4 \<and>
               mget (Some compute) ''resourceType'' = GStr ''compute'' \<and>
               mget (Some storage) ''resourceType'' = GStr ''storage'' \<and>
               list_all (\<lambda>component. str_field (Some component) ''resourceId'' isOpaqueReference) [compute, storage] \<and>
               (case (integerValue (mget (Some compute) ''chargeUsdMicros''),
                      integerValue (mget (Some storage) ''chargeUsdMicros''),
                      integerValue (mget (Some storage) ''sizeGb'')) of
                  (Some computeCost, Some storageCost, Some storageGB) \<Rightarrow>
                    0 < computeCost \<and> 0 < storageCost \<and> 0 < storageGB \<and>
                    computeCost \<le> max_int64 - storageCost \<and> wrap64 (computeCost + storageCost) = totalUsd
                | _ \<Rightarrow> False)
           | _ \<Rightarrow> False)
      | _ \<Rightarrow> False)"

definition validWorkspaceBillingCost :: "gomap \<Rightarrow> string \<Rightarrow> bool" where
  "validWorkspaceBillingCost cost receiptType \<longleftrightarrow>
     mlen cost = billing_fields_wanted receiptType \<and>
     mget cost ''currency'' = GStr ''USD'' \<and> mget cost ''billingUnit'' = GStr ''calendar_month'' \<and>
     mget cost ''resourceType'' = GStr ''workspace'' \<and>
     list_all (\<lambda>key. str_field cost key isOpaqueReference) [''priceVersion'', ''resourceId''] \<and>
     valid_billing_period cost \<and>
     valid_billing_components cost \<and>
     (if receiptType = ''billing.workspace_expired.v1'' then True
      else if \<not> int_field cost ''sub2apiUserId'' (\<lambda>i. 0 < i) \<or>
              \<not> str_field cost ''sub2apiRedeemCode'' isOpaqueReference then False
      else if receiptType = ''billing.workspace_purchased.v1'' \<or> receiptType = ''billing.workspace_renewed.v1''
      then int_field cost ''postChargeBalanceUsdMicros'' (\<lambda>i. 0 \<le> i)
      else int_field cost ''refundUsdMicros'' (\<lambda>refund. Some refund = integerValue (mget cost ''totalUsdMicros'')) \<and>
           str_field cost ''sub2apiRefundCode'' isOpaqueReference)"

definition validCanonicalWorkspaceResourceReceiptIdentity :: "receipt_input \<Rightarrow> bool" where
  "validCanonicalWorkspaceResourceReceiptIdentity input \<longleftrightarrow>
     ri_Status input = ''completed'' \<and> ri_Surface input = ''control_plane'' \<and>
     isOpaqueReference (ri_AccountID input) \<and> isOpaqueReference (ri_WorkspaceID input) \<and>
     isOpaqueReference (ri_RequestID input) \<and>
     ri_OrganizationID input = [] \<and> ri_ProjectID input = [] \<and> ri_TaskID input = [] \<and>
     ri_ApprovalID input = [] \<and> ri_JobID input = [] \<and> ri_ArtifactID input = [] \<and>
     ri_ReviewID input = [] \<and> ri_ContinuationID input = [] \<and>
     mlen (ri_Execution input) = 11 \<and> mlen (ri_Owner input) = 3 \<and>
     str_field (ri_Owner input) ''accountId'' (\<lambda>s. s = ri_AccountID input) \<and>
     str_field (ri_Owner input) ''workspaceId'' (\<lambda>s. s = ri_WorkspaceID input) \<and>
     str_field (ri_Owner input) ''ownerUserId'' isOpaqueReference \<and>
     str_field (ri_Execution input) ''operationId'' (\<lambda>s. s = ri_RequestID input) \<and>
     str_field (ri_Execution input) ''resourceType'' (\<lambda>s. s = ''workspace'') \<and>
     str_field (ri_Execution input) ''resourceId'' (\<lambda>s. s = ri_WorkspaceID input) \<and>
     list_all (\<lambda>field. str_field (ri_Execution input) field isOpaqueReference)
       [''computeAllocationId'', ''storageId'', ''attachmentId'', ''runtimeId'',
        ''workspaceKeyFingerprint'', ''runtimeServiceName'', ''gatewaySecretRef''] \<and>
     int_field (ri_Execution input) ''workspaceApiKeyId'' (\<lambda>i. 0 < i)"

definition validWorkspaceLaunchReceipt :: "receipt_input \<Rightarrow> bool" where
  "validWorkspaceLaunchReceipt input \<longleftrightarrow>
     validCanonicalWorkspaceResourceReceiptIdentity input \<and>
     ri_IdempotencyKey input = ri_RequestID input @ '':purchase-receipt'' \<and>
     ri_SupersedesReceiptID input = [] \<and>
     mlen (ri_Actor input) = 0 \<and> mlen (ri_Plan input) = 0 \<and> mlen (ri_Environment input) = 0 \<and>
     mlen (ri_InputRefs input) = 0 \<and> mlen (ri_OutputRefs input) = 0 \<and>
     mlen (ri_ReviewerChecks input) = 0 \<and> mlen (ri_Continuation input) = 0 \<and>
     (if ri_Type input = ''workspace.created'' then mlen (ri_Cost input) = 0
      else ri_Type input = ''billing.workspace_purchased.v1'')"

definition validWorkspaceDeletionReceipt :: "receipt_input \<Rightarrow> bool" where
  "validWorkspaceDeletionReceipt input \<longleftrightarrow>
     validCanonicalWorkspaceResourceReceiptIdentity input \<and>
     ri_IdempotencyKey input = ri_RequestID input @ '':deletion-receipt'' \<and>
     mlen (ri_InputRefs input) = 1 \<and> mlen (ri_OutputRefs input) = 7 \<and> mlen (ri_Cost input) = 0 \<and>
     ri_SupersedesReceiptID input = [] \<and>
     mlen (ri_Actor input) = 0 \<and> mlen (ri_Plan input) = 0 \<and> mlen (ri_Environment input) = 0 \<and>
     mlen (ri_ReviewerChecks input) = 0 \<and> mlen (ri_Continuation input) = 0 \<and>
     str_field (ri_InputRefs input) ''launchReceiptId'' isOpaqueReference \<and>
     list_all (\<lambda>field. mget (ri_OutputRefs input) field = GStr ''absent'')
       [''runtimeStatus'', ''gatewaySecretStatus'', ''attachmentStatus'', ''storageStatus'',
        ''computeStatus'', ''workspaceKeyStatus'', ''workspaceStatus''] \<and>
     list_all (\<lambda>m. \<not> containsWorkspaceDeletionFinancialField (gomap_val m)) (receipt_maps input)"

definition validWalletAdjustmentReceipt :: "receipt_input \<Rightarrow> bool" where
  "validWalletAdjustmentReceipt input \<longleftrightarrow>
     ri_Status input = ''completed'' \<and> ri_Surface input = ''control_plane'' \<and>
     ri_AccountID input \<noteq> [] \<and> ri_WorkspaceID input = [] \<and>
     ri_OrganizationID input = [] \<and> ri_ProjectID input = [] \<and> ri_TaskID input = [] \<and>
     ri_ApprovalID input = [] \<and> ri_JobID input = [] \<and> ri_ArtifactID input = [] \<and>
     ri_ReviewID input = [] \<and> ri_ContinuationID input = [] \<and> ri_SupersedesReceiptID input = [] \<and>
     ri_RequestID input \<noteq> [] \<and>
     mlen (ri_Actor input) = 1 \<and> mlen (ri_Execution input) = 3 \<and> mlen (ri_Owner input) = 1 \<and>
     mlen (ri_Plan input) = 0 \<and> mlen (ri_Environment input) = 0 \<and> mlen (ri_OutputRefs input) = 0 \<and>
     mlen (ri_ReviewerChecks input) = 0 \<and> mlen (ri_Cost input) = 0 \<and> mlen (ri_Continuation input) = 0 \<and>
     str_field (ri_Execution input) ''operationId'' (\<lambda>s. isOpaqueReference s \<and> ri_RequestID input = s) \<and>
     int_field (ri_Execution input) ''amountUsdMicros'' (\<lambda>i. 0 < i) \<and>
     str_field (ri_Actor input) ''userId'' isOpaqueReference \<and>
     str_field (ri_Owner input) ''accountId'' (\<lambda>s. s = ri_AccountID input) \<and>
     str_field (ri_InputRefs input) ''balanceHistoryRef'' isOpaqueReference \<and>
     (case as_str (mget (ri_Execution input) ''kind'') of
        None \<Rightarrow> False
      | Some kind \<Rightarrow>
          (let related = as_str (mget (ri_InputRefs input) ''relatedOperationId'') in
           if kind = ''recharge'' \<or> kind = ''debit''
           then mlen (ri_InputRefs input) = 1 \<and> related = None
           else if kind = ''business_refund''
           then mlen (ri_InputRefs input) = 2 \<and> (case related of None \<Rightarrow> False | Some r \<Rightarrow> isOpaqueReference r)
           else False))"

definition validWorkspaceGatewayKeyRotationReceipt :: "receipt_input \<Rightarrow> bool" where
  "validWorkspaceGatewayKeyRotationReceipt input \<longleftrightarrow>
     ri_Status input = ''completed'' \<and> ri_Surface input = ''control_plane'' \<and> ri_AccountID input \<noteq> [] \<and>
     mlen (ri_Execution input) = 3 \<and> mlen (ri_OutputRefs input) = 1 \<and> mlen (ri_Owner input) = 1 \<and>
     str_field (ri_Execution input) ''operationId'' (\<lambda>s. \<not> blank s) \<and>
     (case (integerValue (mget (ri_Execution input) ''oldKeyId''),
            integerValue (mget (ri_Execution input) ''newKeyId'')) of
        (Some oldKeyID, Some newKeyID) \<Rightarrow> 0 < oldKeyID \<and> 0 < newKeyID \<and> oldKeyID \<noteq> newKeyID
      | _ \<Rightarrow> False) \<and>
     str_field (ri_OutputRefs input) ''secretFingerprint'' (\<lambda>s. \<not> blank s) \<and>
     str_field (ri_Owner input) ''userId'' (\<lambda>s. \<not> blank s)"

definition allowedStatus :: "string list" where
  "allowedStatus =
     [''planned'', ''approved'', ''running'', ''completed'', ''failed'', ''timed_out'', ''cancelled'',
      ''review_required'', ''review_blocked'']"

definition billingCostValid :: "receipt_input \<Rightarrow> bool" where
  "billingCostValid input =
     (if has_prefix (ri_Type input) ''billing.'' \<and> has_suffix (ri_Type input) ''.v1''
      then (if ri_Type input \<in> {''billing.resource_purchased.v1'', ''billing.resource_renewed.v1'',
                 ''billing.resource_expired.v1'', ''billing.resource_refunded.v1'',
                 ''billing.charge_review_required.v1''} then False
            else if ri_Type input = ''billing.reconciliation.v1'' then validBillingCost (ri_Cost input)
            else if ri_Type input \<in> {''billing.workspace_purchased.v1'', ''billing.workspace_renewed.v1'',
                 ''billing.workspace_expired.v1'', ''billing.workspace_refunded.v1''}
            then ri_Status input = ''completed'' \<and> validWorkspaceBillingCost (ri_Cost input) (ri_Type input) \<and>
                 mget (ri_Cost input) ''resourceId'' = GStr (ri_WorkspaceID input)
            else False)
      else True)"

definition validateReceiptInput :: "receipt_input \<Rightarrow> ledger_error option" where
  "validateReceiptInput input =
     (if ri_Type input = [] \<or> ri_Status input = [] \<or> ri_Surface input = [] \<or> ri_IdempotencyKey input = [] \<or>
         ri_WorkspaceID input = [] \<and> ri_Type input \<noteq> ''gateway.wallet_adjustment.v1''
      then Some ErrInvalidReceiptInput
      else if ri_Type input = historicalArtifactReceiptType \<or> ri_Type input = historicalReviewReceiptType
      then Some ErrInvalidReceiptInput
      else if (ri_ContinuationID input \<noteq> [] \<or> mlen (ri_Continuation input) > 0) \<and>
              (ri_OrganizationID input = [] \<or> ri_WorkspaceID input = [] \<or> ri_ProjectID input = [] \<or>
               ri_TaskID input = [] \<or> ri_JobID input = [])
      then Some ErrInvalidReceiptInput
      else
        (let rotationEvidenceValid =
               (ri_Type input \<noteq> ''workspace.gateway_key_rotated.v1'' \<or> validWorkspaceGatewayKeyRotationReceipt input);
             walletAdjustmentValid =
               (ri_Type input \<noteq> ''gateway.wallet_adjustment.v1'' \<or> validWalletAdjustmentReceipt input);
             launchEvidenceValid =
               (ri_Type input \<noteq> ''billing.workspace_purchased.v1'' \<and> ri_Type input \<noteq> ''workspace.created'' \<or>
                validWorkspaceLaunchReceipt input);
             deletionEvidenceValid =
               (ri_Type input \<noteq> ''workspace.deleted.v1'' \<or> validWorkspaceDeletionReceipt input)
         in if ri_Status input \<notin> set allowedStatus \<or> containsForbiddenReceiptKey (receipt_input_json input) \<or>
               \<not> billingCostValid input \<or> \<not> rotationEvidenceValid \<or> \<not> walletAdjustmentValid \<or>
               \<not> launchEvidenceValid \<or> \<not> deletionEvidenceValid
            then Some ErrInvalidReceiptInput else None))"

section \<open>Reconciliation reports\<close>

definition reconciliationExceptionCodes :: "string list" where
  "reconciliationExceptionCodes =
     [''billing_operation_invalid'', ''sub2api_balance_history_unavailable'',
      ''sub2api_charge_missing'', ''sub2api_charge_mismatch'', ''fabric_operations_unavailable'',
      ''fabric_operation_missing'', ''fabric_operation_mismatch'', ''ledger_receipts_unavailable'',
      ''ledger_receipt_missing'', ''ledger_receipt_mismatch'']"

text \<open>The key of an exception's resource, or \<open>None\<close> where the exception is refused.\<close>

definition exception_resource :: "goval \<Rightarrow> string option" where
  "exception_resource value =
     do {
       exception \<leftarrow> as_obj value;
       resourceType \<leftarrow> as_str (mget (Some exception) ''resourceType'');
       resourceID \<leftarrow> as_str (mget (Some exception) ''resourceId'');
       exception_code \<leftarrow> as_str (mget (Some exception) ''code'');
       if resourceType \<in> {''compute'', ''storage'', ''workspace''} \<and> isOpaqueReference resourceID \<and>
          exception_code \<in> set reconciliationExceptionCodes
       then Some (resourceType @ byte 0 # resourceID) else None
     }"

fun exception_resources :: "goval list \<Rightarrow> string list option" where
  "exception_resources [] = Some []"
| "exception_resources (v # vs) =
     (case exception_resource v of
        None \<Rightarrow> None
      | Some r \<Rightarrow> map_option (List.insert r) (exception_resources vs))"

definition validateReconciliationReport :: "gomap \<Rightarrow> ledger_error option" where
  "validateReconciliationReport report =
     (let invalid = Some ErrInvalidReconciliationInput in
      case normalizedJSONValue (gomap_val report) of
        None \<Rightarrow> invalid
      | Some normalizedValue \<Rightarrow>
        (case as_obj normalizedValue of
           None \<Rightarrow> invalid
         | Some normalized \<Rightarrow>
           if containsForbiddenJSONKey normalizedValue then invalid
           else
             (case (as_str (mget (Some normalized) ''id''), as_str (mget (Some normalized) ''status''),
                    as_obj (mget report ''counts''), as_arr (mget (Some normalized) ''exceptions'')) of
                (Some rid, Some status, Some counts, Some exceptions) \<Rightarrow>
                  if blank rid \<or> (status \<noteq> ''ok'' \<and> status \<noteq> ''mismatch'') then invalid
                  else
                    (case (integerValue (mget (Some counts) ''billingOperations''),
                           integerValue (mget (Some counts) ''matched''),
                           integerValue (mget (Some counts) ''exceptions'')) of
                       (Some checked, Some matched, Some exceptionCount) \<Rightarrow>
                         if checked < 0 \<or> matched < 0 \<or> exceptionCount < 0 \<or> matched > checked \<or>
                            exceptionCount \<noteq> int (length exceptions) then invalid
                         else if \<not> list_all (\<lambda>(_, v). case integerValue v of None \<Rightarrow> False | Some c \<Rightarrow> 0 \<le> c) counts
                         then invalid
                         else
                           (case exception_resources exceptions of
                              None \<Rightarrow> invalid
                            | Some resources \<Rightarrow>
                                if checked - matched \<noteq> int (length resources) \<or>
                                   status = ''ok'' \<and> exceptions \<noteq> [] \<or> status = ''mismatch'' \<and> exceptions = []
                                then invalid else None)
                     | _ \<Rightarrow> invalid)
              | _ \<Rightarrow> invalid)))"

definition validateReconciliationInput :: "reconciliation_input \<Rightarrow> ledger_error option" where
  "validateReconciliationInput input =
     (if blank (rci_IdempotencyKey input) \<or> validateReconciliationReport (rci_Report input) \<noteq> None
      then Some ErrInvalidReconciliationInput else None)"

definition validateReconciliationResult :: "reconciliation_result \<Rightarrow> ledger_error option" where
  "validateReconciliationResult result =
     (if validateReconciliationReport (rcr_Report result) \<noteq> None then Some ErrInvalidReconciliationInput
      else
        (let rid = str_or_empty (mget (rcr_Report result) ''id'');
             status = str_or_empty (mget (rcr_Report result) ''status'')
         in if rcr_ID result \<noteq> rid \<or> rcr_Status result \<noteq> status \<or>
               rcr_BlockNewWorkspaces result \<noteq> (status = ''mismatch'') \<or>
               rcr_Reason result \<noteq> ''operator_reconciliation''
            then Some ErrInvalidReconciliationInput else None))"

section \<open>What an accepted receipt guarantees\<close>

lemmas validateReceiptInput_cases = validateReceiptInput_def [unfolded Let_def]

lemma accepted_receipt_facts:
  assumes "validateReceiptInput input = None"
  shows "\<not> containsForbiddenReceiptKey (receipt_input_json input)"
    and "billingCostValid input"
    and "ri_Type input = ''gateway.wallet_adjustment.v1'' \<Longrightarrow> validWalletAdjustmentReceipt input"
    and "ri_Type input = ''billing.workspace_purchased.v1'' \<Longrightarrow> validWorkspaceLaunchReceipt input"
    and "ri_Type input = ''workspace.created'' \<Longrightarrow> validWorkspaceLaunchReceipt input"
    and "ri_Type input = ''workspace.deleted.v1'' \<Longrightarrow> validWorkspaceDeletionReceipt input"
    and "ri_Type input \<noteq> []" and "ri_IdempotencyKey input \<noteq> []"
    and "ri_Status input \<in> set allowedStatus"
  using assms unfolding validateReceiptInput_cases by (simp_all split: if_splits)

lemma forbidden_scan:
  "\<not> containsForbiddenReceiptKey v \<longleftrightarrow> marshalable v \<and> (\<forall>k. key_within v k \<longrightarrow> \<not> forbidden_key k)"
  by (auto simp: containsForbiddenReceiptKey_def normalizedJSONValue_def containsForbiddenJSONKey_def
      json_scan_iff key_within_normalize)

lemma financial_scan:
  "\<not> containsWorkspaceDeletionFinancialField v \<longleftrightarrow> marshalable v \<and> (\<forall>k. key_within v k \<longrightarrow> \<not> financial_key k)"
  by (auto simp: containsWorkspaceDeletionFinancialField_def normalizedJSONValue_def
      containsWorkspaceDeletionFinancialJSONField_def json_scan_iff key_within_normalize)

lemma receipt_map_tagged:
  assumes "m \<in> set (receipt_maps input)"
  obtains j where "(j, gomap_val m) \<in> set (zip receipt_map_tags (map gomap_val (receipt_maps input)))"
proof -
  have "length receipt_map_tags = length (receipt_maps input)"
    by (simp add: receipt_map_tags_def receipt_maps_def)
  moreover obtain i where "i < length (receipt_maps input)" "m = receipt_maps input ! i"
    using assms by (metis in_set_conv_nth)
  ultimately have "(receipt_map_tags ! i, gomap_val m) \<in> set (zip receipt_map_tags (map gomap_val (receipt_maps input)))"
    by (auto simp: in_set_zip)
  then show thesis by (rule that)
qed

lemma receipt_map_within:
  assumes "m \<in> set (receipt_maps input)" and "key_within (gomap_val m) k"
  shows "key_within (receipt_input_json input) k"
  by (rule receipt_map_tagged [OF assms(1)])
    (use assms(2) in \<open>auto simp: receipt_input_json_def intro: key_within.below\<close>)

lemma receipt_map_marshalable:
  assumes "marshalable (receipt_input_json input)" and "m \<in> set (receipt_maps input)"
  shows "marshalable (gomap_val m)"
  by (rule receipt_map_tagged [OF assms(2)])
    (use assms(1) in \<open>auto simp: receipt_input_json_def list_all_iff\<close>)

text \<open>
  No key of an accepted receipt, at any depth of any of its ten maps, is one of the secret-bearing
  names, whatever its letter case.
\<close>

theorem accepted_receipt_names_no_secret:
  assumes "validateReceiptInput input = None"
    and "m \<in> set (receipt_maps input)" and "key_within (gomap_val m) k"
  shows "to_lower k \<notin> set forbidden_keys"
  using accepted_receipt_facts(1) [OF assms(1)] receipt_map_within [OF assms(2,3)]
  by (simp add: forbidden_scan forbidden_key_def)

lemma workspace_charge_parts:
  assumes "valid_billing_components cost"
  shows "\<exists>total_micros comps compute storage c s gb.
     integerValue (mget cost ''totalUsdMicros'') = Some total_micros \<and> mget cost ''components'' = GObj comps \<and>
     mget (Some comps) ''compute'' = GObj compute \<and> mget (Some comps) ''storage'' = GObj storage \<and>
     integerValue (mget (Some compute) ''chargeUsdMicros'') = Some c \<and>
     integerValue (mget (Some storage) ''chargeUsdMicros'') = Some s \<and>
     integerValue (mget (Some storage) ''sizeGb'') = Some gb \<and>
     0 < c \<and> 0 < s \<and> 0 < gb \<and> total_micros = c + s \<and> total_micros \<le> max_int64"
proof -
  have wrap: "wrap64 (c + s) = c + s" if "0 < c" "0 < s" "c \<le> max_int64 - s" for c s
    using that by (intro wrap64_id) (simp add: int64_defs)
  show ?thesis
    using assms unfolding valid_billing_components_def
    by (auto split: option.splits simp: wrap)
qed

definition workspace_billing_types :: "string list" where
  "workspace_billing_types =
     [''billing.workspace_purchased.v1'', ''billing.workspace_renewed.v1'',
      ''billing.workspace_expired.v1'', ''billing.workspace_refunded.v1'']"

text \<open>
  C28: the total of an accepted workspace billing receipt is the exact (not wrapped) sum of a positive
  compute and a positive storage charge.
\<close>

theorem accepted_workspace_charge_adds_up:
  assumes "validateReceiptInput input = None" and "ri_Type input \<in> set workspace_billing_types"
  shows "\<exists>total_micros comps compute storage c s.
     integerValue (mget (ri_Cost input) ''totalUsdMicros'') = Some total_micros \<and>
     mget (ri_Cost input) ''components'' = GObj comps \<and>
     mget (Some comps) ''compute'' = GObj compute \<and> mget (Some comps) ''storage'' = GObj storage \<and>
     integerValue (mget (Some compute) ''chargeUsdMicros'') = Some c \<and>
     integerValue (mget (Some storage) ''chargeUsdMicros'') = Some s \<and>
     0 < c \<and> 0 < s \<and> total_micros = c + s \<and> total_micros \<le> max_int64"
proof -
  have "billingCostValid input" using assms(1) by (rule accepted_receipt_facts)
  moreover have "has_prefix (ri_Type input) ''billing.'' \<and> has_suffix (ri_Type input) ''.v1''"
    using assms(2) by (auto simp: workspace_billing_types_def has_prefix_def has_suffix_def)
  ultimately have "valid_billing_components (ri_Cost input)"
    using assms(2) by (auto simp: billingCostValid_def workspace_billing_types_def validWorkspaceBillingCost_def)
  from workspace_charge_parts [OF this] show ?thesis by blast
qed

text \<open>
  An accepted deletion receipt is no financial document: none of its maps has, at any depth, a key
  that starts with one of the financial words, its cost is empty, and it supersedes nothing.
\<close>

theorem accepted_deletion_receipt_moves_no_money:
  assumes "validateReceiptInput input = None" and "ri_Type input = ''workspace.deleted.v1''"
    and "m \<in> set (receipt_maps input)" and "key_within (gomap_val m) k"
  shows "\<not> financial_key k \<and> mlen (ri_Cost input) = 0 \<and> ri_SupersedesReceiptID input = [] \<and>
    ri_IdempotencyKey input = ri_RequestID input @ '':deletion-receipt''"
proof -
  have v: "validWorkspaceDeletionReceipt input"
    using accepted_receipt_facts(6) [OF assms(1,2)] .
  then have "list_all (\<lambda>m. \<not> containsWorkspaceDeletionFinancialField (gomap_val m)) (receipt_maps input)"
    unfolding validWorkspaceDeletionReceipt_def by blast
  with assms(3,4) have "\<not> financial_key k" by (auto simp: list_all_iff financial_scan)
  moreover from v have "mlen (ri_Cost input) = 0" "ri_SupersedesReceiptID input = []"
    "ri_IdempotencyKey input = ri_RequestID input @ '':deletion-receipt''"
    unfolding validWorkspaceDeletionReceipt_def by blast+
  ultimately show ?thesis by blast
qed

section \<open>Integers and the JSON round trip\<close>

definition kind_range :: "int_kind \<Rightarrow> int \<times> int" where
  "kind_range k =
     (case k of
        KInt8 \<Rightarrow> (- 128, 127) | KInt16 \<Rightarrow> (- 32768, 32767) | KInt32 \<Rightarrow> (- 2147483648, 2147483647)
      | KInt \<Rightarrow> (min_int64, max_int64) | KInt64 \<Rightarrow> (min_int64, max_int64)
      | KUint8 \<Rightarrow> (0, 255) | KUint16 \<Rightarrow> (0, 65535) | KUint32 \<Rightarrow> (0, 4294967295)
      | KUint \<Rightarrow> (0, 18446744073709551615) | KUint64 \<Rightarrow> (0, 18446744073709551615))"

text \<open>A Go integer lies in the range of its kind.\<close>

definition well_typed :: "goval \<Rightarrow> bool" where
  "well_typed v = (case v of GInt k i \<Rightarrow> fst (kind_range k) \<le> i \<and> i \<le> snd (kind_range k) | _ \<Rightarrow> True)"

lemma well_typed_int64: "well_typed (GInt k i) \<Longrightarrow> unsigned_kind k \<longrightarrow> i \<le> max_int64 \<Longrightarrow> in_int64 i"
  by (cases k) (simp_all add: well_typed_def kind_range_def int64_defs unsigned_kind_def)

lemma integerValue_range: "well_typed v \<Longrightarrow> integerValue v = Some i \<Longrightarrow> in_int64 i"
proof (cases v)
  case (GFloat k f)
  assume "integerValue v = Some i"
  with GFloat obtain q where q: "f = Fin q" "i = int64_of_float (Fin q)"
    by (auto simp: integerValue_def split: gofloat.splits if_splits)
  show ?thesis by (simp add: q int64_of_float_def int64_defs)
qed (auto simp: integerValue_def dest: parse_int64_range well_typed_int64 split: if_splits)

lemma integerValue_normalize:
  assumes "well_typed v" and "integerValue v = Some i"
  shows "integerValue (json_normalize v) = Some i"
proof (cases v)
  case (GInt k j)
  with assms have "j = i" and "in_int64 i"
    by (auto simp: integerValue_def intro: well_typed_int64 split: if_splits)
  with GInt show ?thesis by (simp add: integerValue_def parse_int_text)
next
  case (GNum s)
  with assms show ?thesis by (auto simp: integerValue_def parse_int64_def)
next
  case (GFloat k f)
  with assms(2) obtain q where q: "f = Fin q" "q = of_int (trunc_rat q)" "\<bar>q\<bar> \<le> of_int (float_in_kind k)"
      "i = int64_of_float (Fin q)"
    by (auto simp: integerValue_def not_less split: gofloat.splits if_splits)
  have "of_int \<bar>trunc_rat q\<bar> \<le> (of_int (float_in_kind k) :: rat)"
    using q(2,3) by simp
  then have small: "\<bar>trunc_rat q\<bar> \<le> float_in_kind k" by linarith
  then have safe: "\<bar>trunc_rat q\<bar> \<le> max_json_safe"
    by (cases k) (simp_all add: float_in_kind_def max_json_safe_def)
  then have "in_int64 (trunc_rat q)" by (auto simp: int64_defs max_json_safe_def abs_le_iff)
  moreover from this have "i = trunc_rat q"
    using q(4) by (simp add: int64_of_float_def)
  ultimately show ?thesis
    using q safe by (simp add: GFloat json_float_def float_is_int_def integerValue_def parse_int_text)
qed (use assms in \<open>simp_all add: integerValue_def\<close>)

section \<open>What an accepted reconciliation report guarantees\<close>

lemma exception_resources_distinct:
  "exception_resources es = Some rs \<Longrightarrow>
     distinct rs \<and> set rs = {r. \<exists>e \<in> set es. exception_resource e = Some r} \<and> (\<forall>e \<in> set es. exception_resource e \<noteq> None)"
  by (induction es arbitrary: rs) (auto split: option.splits)

text \<open>
  The content of an accepted report: \<open>kvs\<close> is its normalised object, \<open>checked\<close> and \<open>matched\<close> its counts,
  \<open>rs\<close> the distinct resources of its exceptions.
\<close>

definition report_facts ::
    "gomap \<Rightarrow> (string \<times> goval) list \<Rightarrow> string \<Rightarrow> string \<Rightarrow> (string \<times> goval) list \<Rightarrow> goval list \<Rightarrow> int \<Rightarrow> int \<Rightarrow> string list \<Rightarrow> bool"
  where
  "report_facts report kvs rid status counts exceptions checked matched rs \<longleftrightarrow>
     json_normalize (gomap_val report) = GObj kvs \<and> marshalable (gomap_val report) \<and>
     \<not> containsForbiddenJSONKey (GObj kvs) \<and>
     mget (Some kvs) ''id'' = GStr rid \<and> \<not> blank rid \<and>
     mget (Some kvs) ''status'' = GStr status \<and> (status = ''ok'' \<or> status = ''mismatch'') \<and>
     mget report ''counts'' = GObj counts \<and> mget (Some kvs) ''exceptions'' = GArr exceptions \<and>
     integerValue (mget (Some counts) ''billingOperations'') = Some checked \<and>
     integerValue (mget (Some counts) ''matched'') = Some matched \<and>
     integerValue (mget (Some counts) ''exceptions'') = Some (int (length exceptions)) \<and>
     list_all (\<lambda>(_, v). case integerValue v of None \<Rightarrow> False | Some c \<Rightarrow> 0 \<le> c) counts \<and>
     0 \<le> matched \<and> matched \<le> checked \<and>
     exception_resources exceptions = Some rs \<and> checked = matched + int (length rs) \<and>
     (status = ''ok'' \<longleftrightarrow> exceptions = [])"

lemma report_factsD:
  "validateReconciliationReport report = None \<Longrightarrow>
     \<exists>kvs rid status counts exceptions checked matched rs.
       report_facts report kvs rid status counts exceptions checked matched rs"
  unfolding validateReconciliationReport_def Let_def normalizedJSONValue_def report_facts_def
  by (auto split: if_splits option.splits)

lemma report_factsI:
  "report_facts report kvs rid status counts exceptions checked matched rs \<Longrightarrow>
     validateReconciliationReport report = None"
  unfolding validateReconciliationReport_def Let_def normalizedJSONValue_def report_facts_def
  by auto

text \<open>
  In an accepted reconciliation report the operations that did not match are exactly as many as the
  distinct resources its exceptions name, every exception carries a known code, and the status is
  \<^verbatim>\<open>ok\<close> exactly when there is no exception.
\<close>

theorem accepted_report_counts_agree:
  assumes "validateReconciliationReport report = None"
  shows "\<exists>kvs counts exceptions checked matched.
     json_normalize (gomap_val report) = GObj kvs \<and> mget report ''counts'' = GObj counts \<and>
     mget (Some kvs) ''exceptions'' = GArr exceptions \<and>
     integerValue (mget (Some counts) ''billingOperations'') = Some checked \<and>
     integerValue (mget (Some counts) ''matched'') = Some matched \<and>
     integerValue (mget (Some counts) ''exceptions'') = Some (int (length exceptions)) \<and>
     (\<forall>e \<in> set exceptions. exception_resource e \<noteq> None) \<and>
     0 \<le> matched \<and> checked - matched = int (card {r. \<exists>e \<in> set exceptions. exception_resource e = Some r}) \<and>
     (mget (Some kvs) ''status'' = GStr ''ok'' \<longleftrightarrow> exceptions = [])"
proof -
  obtain kvs rid status counts exceptions checked matched rs
    where f: "report_facts report kvs rid status counts exceptions checked matched rs"
    using report_factsD [OF assms] by blast
  then have "exception_resources exceptions = Some rs" by (simp add: report_facts_def)
  from exception_resources_distinct [OF this]
  have "int (length rs) = int (card {r. \<exists>e \<in> set exceptions. exception_resource e = Some r})"
    and "\<forall>e \<in> set exceptions. exception_resource e \<noteq> None"
    by (metis distinct_card, blast)
  with f show ?thesis
    by (intro exI [of _ kvs] exI [of _ counts] exI [of _ exceptions] exI [of _ checked] exI [of _ matched])
      (simp add: report_facts_def)
qed

text \<open>
  A Go map has distinct keys and its integers lie in the range of their kind; for a report this is
  needed of the report itself and of its counts.
\<close>

definition well_formed_report :: "gomap \<Rightarrow> bool" where
  "well_formed_report report \<longleftrightarrow>
     wf_gomap report \<and>
     (case as_obj (mget report ''counts'') of
        None \<Rightarrow> True
      | Some counts \<Rightarrow> distinct (map fst counts) \<and> list_all (\<lambda>(_, v). well_typed v) counts)"

lemma well_typed_mget: "list_all (\<lambda>(_, v). well_typed v) counts \<Longrightarrow> well_typed (mget (Some counts) k)"
proof (cases "map_of counts k")
  case (Some v)
  assume "list_all (\<lambda>(_, v). well_typed v) counts"
  moreover have "(k, v) \<in> set counts" using Some by (rule map_of_SomeD)
  ultimately show ?thesis by (auto simp: list_all_iff mget_def Some)
qed (simp add: mget_def well_typed_def)

lemma counts_clone:
  assumes "list_all (\<lambda>(_, v). well_typed v) counts"
    and "list_all (\<lambda>(_, v). case integerValue v of None \<Rightarrow> False | Some c \<Rightarrow> 0 \<le> c) counts"
  shows "list_all (\<lambda>(_, v). case integerValue v of None \<Rightarrow> False | Some (c::int) \<Rightarrow> 0 \<le> c)
    (sort_key fst (map (map_prod id json_normalize) counts))"
  using assms unfolding list_all_iff
  by (fastforce dest: integerValue_normalize split: option.splits)

lemma validateReconciliationReport_clone:
  assumes "validateReconciliationReport report = None" and wf: "well_formed_report report"
  shows "validateReconciliationReport (clone_map report) = None"
    and "mget (clone_map report) ''id'' = mget report ''id''"
    and "mget (clone_map report) ''status'' = mget report ''status''"
proof -
  obtain kvs rid status counts exceptions checked matched rs
    where f: "report_facts report kvs rid status counts exceptions checked matched rs"
    using report_factsD [OF assms(1)] by blast
  have clone: "clone_map report = Some kvs"
    using f by (cases report) (auto simp: report_facts_def clone_map_def gomap_val_def)
  have get: "mget (Some kvs) k = json_normalize (mget report k)" for k
    using wf mget_clone [of report k] by (simp add: clone well_formed_report_def)
  define counts' where "counts' = sort_key fst (map (map_prod id json_normalize) counts)"
  have counts: "distinct (map fst counts)" "list_all (\<lambda>(_, v). well_typed v) counts"
    using f wf by (auto simp: report_facts_def well_formed_report_def)
  have c': "mget (Some counts') k = json_normalize (mget (Some counts) k)" for k
    using counts(1) mget_clone [of "Some counts" k] by (simp add: wf_gomap_def clone_map_Some counts'_def)
  have count: "integerValue (mget (Some counts') k) = Some i"
    if "integerValue (mget (Some counts) k) = Some i" for k i
    using integerValue_normalize [OF well_typed_mget [OF counts(2)] that] by (simp add: c')
  have norm: "json_normalize (GObj kvs) = GObj kvs"
    using f by (metis json_normalize_idem report_facts_def)
  have "marshalable (GObj kvs)"
    using f marshalable_normalize by (fastforce simp: report_facts_def)
  moreover have "list_all (\<lambda>(_, v). case integerValue v of None \<Rightarrow> False | Some (c::int) \<Rightarrow> 0 \<le> c) counts'"
    using f counts_clone [OF counts(2)] by (simp add: report_facts_def counts'_def)
  moreover have "mget (Some kvs) ''counts'' = GObj counts'"
    using f by (simp add: get report_facts_def counts'_def)
  ultimately have "report_facts (Some kvs) kvs rid status counts' exceptions checked matched rs"
    using f norm unfolding report_facts_def by (auto simp: gomap_val_def intro: count)
  then show "validateReconciliationReport (clone_map report) = None"
    unfolding clone by (rule report_factsI)
  have "mget (Some kvs) ''id'' = GStr rid" and "mget (Some kvs) ''status'' = GStr status"
    using f by (simp_all add: report_facts_def)
  then show "mget (clone_map report) ''id'' = mget report ''id''"
    and "mget (clone_map report) ''status'' = mget report ''status''"
    using get [of "''id''"] get [of "''status''"] by (simp_all add: clone)
qed

section \<open>Sample receipts\<close>

definition empty_receipt_input :: receipt_input where
  "empty_receipt_input =
     \<lparr>ri_Type = [], ri_Status = [], ri_Surface = [], ri_AccountID = [], ri_OrganizationID = [],
      ri_WorkspaceID = [], ri_ProjectID = [], ri_TaskID = [], ri_RequestID = [], ri_ApprovalID = [],
      ri_JobID = [], ri_ArtifactID = [], ri_ReviewID = [], ri_ContinuationID = [], ri_Actor = None,
      ri_Plan = None, ri_Execution = None, ri_Environment = None, ri_InputRefs = None,
      ri_OutputRefs = None, ri_ReviewerChecks = None, ri_Cost = None, ri_Owner = None,
      ri_Continuation = None, ri_SupersedesReceiptID = [], ri_IdempotencyKey = []\<rparr>"

definition sample_execution :: gomap where
  "sample_execution = Some
     [(''operationId'', GStr ''op-1''), (''resourceType'', GStr ''workspace''), (''resourceId'', GStr ''ws-1''),
      (''computeAllocationId'', GStr ''ca-1''), (''storageId'', GStr ''st-1''), (''attachmentId'', GStr ''at-1''),
      (''runtimeId'', GStr ''rt-1''), (''workspaceApiKeyId'', GInt KInt64 7),
      (''workspaceKeyFingerprint'', GStr ''fp-1''), (''runtimeServiceName'', GStr ''svc-1''),
      (''gatewaySecretRef'', GStr ''gs-1'')]"

definition sample_owner :: gomap where
  "sample_owner = Some
     [(''accountId'', GStr ''acct-1''), (''workspaceId'', GStr ''ws-1''), (''ownerUserId'', GStr ''usr-1'')]"

definition sample_cost :: gomap where
  "sample_cost = Some
     [(''currency'', GStr ''USD''), (''billingUnit'', GStr ''calendar_month''), (''resourceType'', GStr ''workspace''),
      (''priceVersion'', GStr ''v1''), (''resourceId'', GStr ''ws-1''),
      (''periodStart'', GStr ''2026-01-31T00:00:00Z''), (''paidThrough'', GStr ''2026-02-28T00:00:00Z''),
      (''totalUsdMicros'', GNum ''30000000''),
      (''components'', GObj
         [(''compute'', GObj [(''resourceType'', GStr ''compute''), (''resourceId'', GStr ''ca-1''),
                              (''chargeUsdMicros'', GNum ''20000000'')]),
          (''storage'', GObj [(''resourceType'', GStr ''storage''), (''resourceId'', GStr ''st-1''),
                              (''chargeUsdMicros'', GNum ''10000000''), (''sizeGb'', GNum ''20'')])]),
      (''sub2apiUserId'', GNum ''42''), (''sub2apiRedeemCode'', GStr ''code-1''),
      (''postChargeBalanceUsdMicros'', GNum ''5000000'')]"

definition sample_purchase_receipt :: receipt_input where
  "sample_purchase_receipt = empty_receipt_input
     \<lparr>ri_Type := ''billing.workspace_purchased.v1'', ri_Status := ''completed'', ri_Surface := ''control_plane'',
      ri_AccountID := ''acct-1'', ri_WorkspaceID := ''ws-1'', ri_RequestID := ''op-1'',
      ri_Execution := sample_execution, ri_Owner := sample_owner, ri_Cost := sample_cost,
      ri_IdempotencyKey := ''op-1:purchase-receipt''\<rparr>"



lemma sample_purchase_accepted: "validateReceiptInput sample_purchase_receipt = None"
  by code_simp

definition sample_deletion_receipt :: receipt_input where
  "sample_deletion_receipt = empty_receipt_input
     \<lparr>ri_Type := ''workspace.deleted.v1'', ri_Status := ''completed'', ri_Surface := ''control_plane'',
      ri_AccountID := ''acct-1'', ri_WorkspaceID := ''ws-1'', ri_RequestID := ''op-1'',
      ri_Execution := sample_execution, ri_Owner := sample_owner,
      ri_InputRefs := Some [(''launchReceiptId'', GStr ''receipt_000001'')],
      ri_OutputRefs := Some (map (\<lambda>f. (f, GStr ''absent''))
        [''runtimeStatus'', ''gatewaySecretStatus'', ''attachmentStatus'', ''storageStatus'',
         ''computeStatus'', ''workspaceKeyStatus'', ''workspaceStatus'']),
      ri_IdempotencyKey := ''op-1:deletion-receipt''\<rparr>"

lemma sample_deletion_accepted: "validateReceiptInput sample_deletion_receipt = None"
  by code_simp

definition sample_report :: gomap where
  "sample_report = Some
     [(''id'', GStr ''rec-1''), (''status'', GStr ''mismatch''),
      (''counts'', GObj [(''billingOperations'', GInt KInt 3), (''matched'', GInt KInt 2), (''exceptions'', GInt KInt 2)]),
      (''exceptions'', GArr
         [GObj [(''resourceType'', GStr ''workspace''), (''resourceId'', GStr ''ws-1''), (''code'', GStr ''sub2api_charge_missing'')],
          GObj [(''resourceType'', GStr ''workspace''), (''resourceId'', GStr ''ws-1''), (''code'', GStr ''ledger_receipt_missing'')]])]"

lemma sample_report_accepted: "validateReconciliationReport sample_report = None"
  by code_simp

lemma sample_owner_key: "key_within (gomap_val sample_owner) ''accountId''"
  by (auto simp: sample_owner_def gomap_val_def intro: key_within.here)

theorem accepted_receipt_names_no_secret_witness:
  "validateReceiptInput sample_purchase_receipt = None \<and> to_lower ''accountId'' \<notin> set forbidden_keys"
proof
  have "sample_owner \<in> set (receipt_maps sample_purchase_receipt)"
    by (simp add: receipt_maps_def sample_purchase_receipt_def)
  then show "to_lower ''accountId'' \<notin> set forbidden_keys"
    by (rule accepted_receipt_names_no_secret [OF sample_purchase_accepted _ sample_owner_key])
qed (rule sample_purchase_accepted)

theorem accepted_workspace_charge_adds_up_witness:
  "\<exists>total_micros comps compute storage c s.
     integerValue (mget (ri_Cost sample_purchase_receipt) ''totalUsdMicros'') = Some total_micros \<and>
     mget (ri_Cost sample_purchase_receipt) ''components'' = GObj comps \<and>
     mget (Some comps) ''compute'' = GObj compute \<and> mget (Some comps) ''storage'' = GObj storage \<and>
     integerValue (mget (Some compute) ''chargeUsdMicros'') = Some c \<and>
     integerValue (mget (Some storage) ''chargeUsdMicros'') = Some s \<and>
     0 < c \<and> 0 < s \<and> total_micros = c + s \<and> total_micros \<le> max_int64"
  by (rule accepted_workspace_charge_adds_up [OF sample_purchase_accepted])
    (simp add: sample_purchase_receipt_def workspace_billing_types_def)

theorem accepted_deletion_receipt_moves_no_money_witness:
  "\<not> financial_key ''accountId'' \<and> mlen (ri_Cost sample_deletion_receipt) = 0"
proof -
  have "ri_Type sample_deletion_receipt = ''workspace.deleted.v1''"
    and "sample_owner \<in> set (receipt_maps sample_deletion_receipt)"
    by (simp_all add: receipt_maps_def sample_deletion_receipt_def)
  from accepted_deletion_receipt_moves_no_money [OF sample_deletion_accepted this sample_owner_key]
  show ?thesis by blast
qed

theorem accepted_report_counts_agree_witness:
  "\<exists>kvs counts exceptions checked matched.
     json_normalize (gomap_val sample_report) = GObj kvs \<and> mget sample_report ''counts'' = GObj counts \<and>
     mget (Some kvs) ''exceptions'' = GArr exceptions \<and>
     integerValue (mget (Some counts) ''billingOperations'') = Some checked \<and>
     integerValue (mget (Some counts) ''matched'') = Some matched \<and>
     0 \<le> matched \<and> checked - matched = int (card {r. \<exists>e \<in> set exceptions. exception_resource e = Some r})"
  using accepted_report_counts_agree [OF sample_report_accepted] by blast

end
