(* ===== verification/Paging.thy ===== *)
theory Paging
  imports OPL_Prelude
begin

text \<open>
  Keyset pagination, the contract between the Ledger's list operations and their readers: a list in
  strictly descending order of a key, a page of at most \<open>limit\<close> entries after a cursor, and a cursor
  that names the last entry of the page. The locale \<open>keyset_pager\<close> states the contract; its lemma
  \<open>fetch_at\<close> is what the readers' loops are proved from.
\<close>

section \<open>Descending order\<close>

definition sort_desc :: "('a \<Rightarrow> 'k::linorder) \<Rightarrow> 'a list \<Rightarrow> 'a list" where
  "sort_desc key xs = rev (sort_key key xs)"

lemma set_sort_desc [simp]: "set (sort_desc key xs) = set xs"
  by (simp add: sort_desc_def)

lemma length_sort_desc [simp]: "length (sort_desc key xs) = length xs"
  by (simp add: sort_desc_def)

lemma mset_sort_desc [simp]: "mset (sort_desc key xs) = mset xs"
  by (simp add: sort_desc_def)

lemma sort_desc_filter: "sort_desc key (filter P xs) = filter P (sort_desc key xs)"
  by (simp add: sort_desc_def filter_sort flip: rev_filter)

text \<open>The order on lists in which each element's key is greater than the keys of all later ones.\<close>

definition strictly_desc :: "('a \<Rightarrow> 'k::linorder) \<Rightarrow> 'a list \<Rightarrow> bool" where
  "strictly_desc key xs \<longleftrightarrow> sorted_wrt (\<lambda>x y. key y < key x) xs"

lemma strictly_desc_sort:
  assumes "distinct (map key xs)"
  shows "strictly_desc key (sort_desc key xs)"
proof -
  have "mset (map key (sort_key key xs)) = mset (map key xs)" by simp
  then have "distinct (map key (sort_key key xs))"
    using assms by (metis mset_eq_imp_distinct_iff)
  then have "sorted_wrt (<) (map key (sort_key key xs))"
    by (simp add: strict_sorted_iff)
  then show ?thesis
    by (simp add: strictly_desc_def sort_desc_def sorted_wrt_rev sorted_wrt_map)
qed

lemma strictly_desc_distinct: "strictly_desc key xs \<Longrightarrow> distinct (map key xs)"
  unfolding strictly_desc_def by (induction xs) auto

lemma filter_after_nth:
  assumes "strictly_desc key xs" and "n < length xs"
  shows "filter (\<lambda>x. key x < key (xs ! n)) xs = drop (Suc n) xs"
proof -
  have split: "xs = take n xs @ xs ! n # drop (Suc n) xs"
    using assms(2) by (rule id_take_nth_drop)
  have "sorted_wrt (\<lambda>x y. key y < key x) (take n xs @ xs ! n # drop (Suc n) xs)"
    using assms(1) split by (simp add: strictly_desc_def)
  then have before: "\<forall>x \<in> set (take n xs). \<not> key x < key (xs ! n)"
    and after: "\<forall>x \<in> set (drop (Suc n) xs). key x < key (xs ! n)"
    unfolding sorted_wrt_append by (auto dest: less_asym)
  have "filter (\<lambda>x. key x < key (xs ! n)) xs
      = filter (\<lambda>x. key x < key (xs ! n)) (take n xs @ xs ! n # drop (Suc n) xs)"
    using split by (rule arg_cong)
  also have "\<dots> = drop (Suc n) xs"
    using before after by (simp add: filter_False filter_True)
  finally show ?thesis .
qed

section \<open>Pages\<close>

text \<open>A page: its entries, the cursor of the next page (empty when there is none) and whether there is one.\<close>

type_synonym 'e page = "'e list \<times> string \<times> bool"

definition page_of :: "('e \<Rightarrow> string) \<Rightarrow> nat \<Rightarrow> 'e list \<Rightarrow> 'e page" where
  "page_of cursor limit es =
     (take limit es, if limit < length es then cursor (es ! (limit - 1)) else [], limit < length es)"

text \<open>The cursor that stands for the position \<open>n\<close> of the whole list.\<close>

definition cursor_at :: "('e \<Rightarrow> string) \<Rightarrow> 'e list \<Rightarrow> nat \<Rightarrow> string" where
  "cursor_at cursor es n = (case n of 0 \<Rightarrow> [] | Suc m \<Rightarrow> cursor (es ! m))"

locale keyset_pager =
  fixes fetch :: "'s \<Rightarrow> 'q \<Rightarrow> string \<Rightarrow> 'err + 'e page"
    and entries :: "'s \<Rightarrow> 'q \<Rightarrow> 'e list"
    and cursor :: "'q \<Rightarrow> 'e \<Rightarrow> string"
    and limit :: "'q \<Rightarrow> nat"
    and ok :: "'s \<Rightarrow> 'q \<Rightarrow> bool"
  assumes limit_pos: "ok s q \<Longrightarrow> 0 < limit q"
    and fetch_first: "ok s q \<Longrightarrow> fetch s q [] = Inr (page_of (cursor q) (limit q) (entries s q))"
    and fetch_next: "ok s q \<Longrightarrow> n < length (entries s q) \<Longrightarrow>
      fetch s q (cursor q (entries s q ! n)) = Inr (page_of (cursor q) (limit q) (drop (Suc n) (entries s q)))"
    and cursor_ne: "ok s q \<Longrightarrow> e \<in> set (entries s q) \<Longrightarrow> cursor q e \<noteq> []"
    and cursor_inj: "ok s q \<Longrightarrow> n < length (entries s q) \<Longrightarrow> m < length (entries s q) \<Longrightarrow>
      cursor q (entries s q ! n) = cursor q (entries s q ! m) \<Longrightarrow> n = m"
begin

lemma fetch_at:
  assumes "ok s q" and "n \<le> length (entries s q)"
  shows "fetch s q (cursor_at (cursor q) (entries s q) n) =
    Inr (take (limit q) (drop n (entries s q)),
         if n + limit q < length (entries s q) then cursor_at (cursor q) (entries s q) (n + limit q) else [],
         n + limit q < length (entries s q))"
proof -
  have "fetch s q (cursor_at (cursor q) (entries s q) n) =
      Inr (page_of (cursor q) (limit q) (drop n (entries s q)))"
    using assms by (cases n) (simp_all add: cursor_at_def fetch_first fetch_next)
  moreover have "drop n (entries s q) ! (limit q - 1) = entries s q ! (n + limit q - 1)"
    if "n + limit q < length (entries s q)"
    using that assms limit_pos [OF assms(1)] by simp
  moreover obtain k where "limit q = Suc k"
    using limit_pos [OF assms(1)] by (cases "limit q") auto
  ultimately show ?thesis
    using assms(2) by (auto simp: page_of_def cursor_at_def less_diff_conv add.commute)
qed

lemma cursor_at_ne:
  "ok s q \<Longrightarrow> 0 < n \<Longrightarrow> n \<le> length (entries s q) \<Longrightarrow> cursor_at (cursor q) (entries s q) n \<noteq> []"
  using cursor_ne by (cases n) (auto simp: cursor_at_def)

lemma cursor_at_inj:
  assumes "ok s q" "n \<le> length (entries s q)" "m \<le> length (entries s q)"
    and "cursor_at (cursor q) (entries s q) n = cursor_at (cursor q) (entries s q) m"
  shows "n = m"
  using assms cursor_at_ne [of s q n] cursor_at_ne [of s q m] cursor_inj [of s q "n - 1" "m - 1"]
  by (cases n; cases m) (auto simp: cursor_at_def)

end

text \<open>
  A table listed in descending order of a key: the rows that match the query, one page from the start
  or from the row a cursor names. Such a list is a keyset pager.
\<close>

locale keyset_list =
  fixes fetch :: "'s \<Rightarrow> 'q \<Rightarrow> string \<Rightarrow> 'err + 'e page"
    and rows :: "'s \<Rightarrow> 'e list"
    and selects :: "'q \<Rightarrow> 'e \<Rightarrow> bool"
    and key :: "'e \<Rightarrow> 'k::linorder"
    and cursor :: "'q \<Rightarrow> 'e \<Rightarrow> string"
    and limit :: "'q \<Rightarrow> nat"
    and ok :: "'s \<Rightarrow> 'q \<Rightarrow> bool"
  assumes limit_positive: "ok s q \<Longrightarrow> 0 < limit q"
    and keys_distinct: "ok s q \<Longrightarrow> distinct (map key (rows s))"
    and start_page: "ok s q \<Longrightarrow>
      fetch s q [] = Inr (page_of (cursor q) (limit q) (sort_desc key (filter (selects q) (rows s))))"
    and page_after: "ok s q \<Longrightarrow> e \<in> set (rows s) \<Longrightarrow>
      fetch s q (cursor q e) =
        Inr (page_of (cursor q) (limit q) (sort_desc key (filter (\<lambda>x. selects q x \<and> key x < key e) (rows s))))"
    and cursor_nonempty: "ok s q \<Longrightarrow> e \<in> set (rows s) \<Longrightarrow> cursor q e \<noteq> []"
    and cursor_names_key: "ok s q \<Longrightarrow> e \<in> set (rows s) \<Longrightarrow> e' \<in> set (rows s) \<Longrightarrow>
      cursor q e = cursor q e' \<Longrightarrow> key e = key e'"
begin

lemma entries_desc:
  "ok s q \<Longrightarrow> strictly_desc key (sort_desc key (filter (selects q) (rows s)))"
  by (intro strictly_desc_sort distinct_map_filter keys_distinct)

lemma filtered_after:
  assumes "ok s q" and "n < length (sort_desc key (filter (selects q) (rows s)))"
  shows "sort_desc key (filter (\<lambda>x. selects q x \<and> key x < key (sort_desc key (filter (selects q) (rows s)) ! n)) (rows s)) =
    drop (Suc n) (sort_desc key (filter (selects q) (rows s)))"
proof -
  let ?es = "sort_desc key (filter (selects q) (rows s))"
  have "sort_desc key (filter (\<lambda>x. selects q x \<and> key x < key (?es ! n)) (rows s)) =
      filter (\<lambda>x. key x < key (?es ! n)) ?es"
    by (simp add: conj_commute flip: sort_desc_filter)
  also have "\<dots> = drop (Suc n) ?es" using assms by (intro filter_after_nth entries_desc)
  finally show ?thesis .
qed

end

sublocale keyset_list \<subseteq> pages: keyset_pager fetch "\<lambda>s q. sort_desc key (filter (selects q) (rows s))" cursor limit ok
proof
  fix s q n m
  let ?es = "sort_desc key (filter (selects q) (rows s))"
  assume ok: "ok s q" and n: "n < length ?es" and m: "m < length ?es" and c: "cursor q (?es ! n) = cursor q (?es ! m)"
  have "?es ! n \<in> set (rows s)" "?es ! m \<in> set (rows s)"
    using nth_mem [OF n] nth_mem [OF m] by auto
  with cursor_names_key [OF ok _ _ c] have "key (?es ! n) = key (?es ! m)" by blast
  then have "map key ?es ! n = map key ?es ! m" using n m by (simp only: nth_map)
  then show "n = m"
    using nth_eq_iff_index_eq [OF strictly_desc_distinct [OF entries_desc [OF ok]], of n m] n m
    by (simp only: length_map)
next
  fix s q n
  let ?es = "sort_desc key (filter (selects q) (rows s))"
  assume ok: "ok s q" and n: "n < length ?es"
  have "?es ! n \<in> set (rows s)" using nth_mem [OF n] by auto
  then show "fetch s q (cursor q (?es ! n)) = Inr (page_of (cursor q) (limit q) (drop (Suc n) ?es))"
    by (simp only: page_after [OF ok] filtered_after [OF ok n])
qed (auto simp: limit_positive start_page cursor_nonempty)

text \<open>The page that a list operation cuts from its sorted rows.\<close>

lemma page_of_cut:
  assumes "0 < limit"
  shows "page_of cursor limit es =
    (if limit < length es then take limit es else es,
     if limit < length es then cursor (last (take limit es)) else [], limit < length es)"
proof -
  have "last (take limit es) = es ! (limit - 1)" if "limit < length es"
    using assms that by (subst last_conv_nth) (auto simp: min_def)
  then show ?thesis by (simp add: page_of_def)
qed

end
