(* ===== verification/Ledger_Store.thy ===== *)
theory Ledger_Store
  imports Ledger_Types Paging
begin

text \<open>
  The Ledger's receipt store (\<^verbatim>\<open>services/ledger/internal/ledger/memory_store.go\<close> and the evidence index
  of \<^verbatim>\<open>evidence_index.go\<close>): receipts, their retention and privacy deletion, reconciliation results and
  evidence entries, each guarded by a table of idempotency keys.

  Every operation holds the store's mutex for its whole body, so a run of the store is a sequence of
  operations. The clock's readings and the digest of a JSON value (SHA-256 in hexadecimal) are
  arguments; no theorem assumes anything of the digest, it holds for every function.
\<close>

section \<open>Evidence index: data and validation\<close>

record evidence_input =
  ei_OperationID :: string
  ei_CandidateSHA :: string
  ei_CandidateTree :: string
  ei_ImageDigest :: string
  ei_ReceiptID :: string
  ei_ReceiptType :: string
  ei_Status :: string
  ei_Actor :: string
  ei_ObservedAt :: gotime
  ei_IdentityDigest :: string
  ei_RedactedLink :: string
  ei_IdempotencyKey :: string

record evidence_entry =
  ee_Input :: evidence_input
  ee_EvidenceID :: string
  ee_CreatedAt :: gotime
  ee_Replayed :: bool

record evidence_query =
  eq_OperationID :: string
  eq_CandidateSHA :: string
  eq_CandidateTree :: string
  eq_ImageDigest :: string
  eq_ReceiptID :: string
  eq_ReceiptType :: string
  eq_Status :: string
  eq_Cursor :: string
  eq_Limit :: int

record evidence_page =
  ep_Entries :: "evidence_entry list"
  ep_NextCursor :: string
  ep_HasMore :: bool

record evidence_export =
  ex_SchemaVersion :: int
  ex_Entries :: "evidence_entry list"

definition DefaultEvidenceIndexPageSize :: int where
  "DefaultEvidenceIndexPageSize = 100"

definition MaxEvidenceIndexPageSize :: int where
  "MaxEvidenceIndexPageSize = 500"

definition MaxEvidenceIndexExportSize :: nat where
  "MaxEvidenceIndexExportSize = 5000"

definition normalizeEvidenceIndexQuery ::
    "cursor_codec \<Rightarrow> evidence_query \<Rightarrow> ledger_error + (evidence_query \<times> (gotime \<times> string))" where
  "normalizeEvidenceIndexQuery cc query =
     (let query = (if eq_Limit query = 0 then query\<lparr>eq_Limit := DefaultEvidenceIndexPageSize\<rparr> else query) in
      if eq_Limit query < 1 \<or> eq_Limit query > MaxEvidenceIndexPageSize then Inl ErrInvalidEvidenceIndexQuery
      else if eq_Cursor query = [] then Inr (query, zero_time, [])
      else case cc_decode cc (eq_Cursor query) of
             None \<Rightarrow> Inl ErrInvalidEvidenceIndexQuery
           | Some (observedAt, evidenceID) \<Rightarrow>
               if is_zero observedAt \<or> evidenceID = [] then Inl ErrInvalidEvidenceIndexQuery
               else Inr (query, observedAt, evidenceID))"

definition encodeEvidenceIndexCursor :: "cursor_codec \<Rightarrow> evidence_entry \<Rightarrow> string" where
  "encodeEvidenceIndexCursor cc entry = cc_encode cc (ei_ObservedAt (ee_Input entry)) (ee_EvidenceID entry)"

text \<open>
  \<^verbatim>\<open>url.Parse\<close> is a parameter: \<open>None\<close> for an error, otherwise whether there is user information, the
  scheme and the host.
\<close>

type_synonym url_parser = "string \<Rightarrow> (bool \<times> string \<times> string) option"

definition isRedactedEvidenceLink :: "url_parser \<Rightarrow> string \<Rightarrow> bool" where
  "isRedactedEvidenceLink url_parse v =
     (if length v > 2048 \<or> list_ex (\<lambda>c. c \<in> {CHR 0x0D, CHR 0x0A}) v \<or> list_ex (\<lambda>c. c \<in> set ''?#'') v \<or>
         contains_str v ''@'' then False
      else if \<not> contains_str v ''://'' then isOpaqueReference v
      else case url_parse v of
             None \<Rightarrow> False
           | Some (has_user, url_scheme, host) \<Rightarrow>
               if has_user then False
               else if url_scheme = [] then isOpaqueReference v
               else (url_scheme = ''https'' \<or> url_scheme = ''http'') \<and> host \<noteq> [])"

definition evidence_references :: "evidence_input \<Rightarrow> string list" where
  "evidence_references input =
     [ei_OperationID input, ei_CandidateSHA input, ei_CandidateTree input, ei_ImageDigest input,
      ei_ReceiptID input, ei_ReceiptType input, ei_Status input, ei_Actor input,
      ei_IdentityDigest input, ei_IdempotencyKey input]"

definition validateEvidenceIndexInput :: "url_parser \<Rightarrow> evidence_input \<Rightarrow> ledger_error option" where
  "validateEvidenceIndexInput url_parse input =
     (if \<not> list_all isOpaqueReference (evidence_references input) then Some ErrInvalidEvidenceIndexInput
      else if is_zero (ei_ObservedAt input) \<or> t_year (ei_ObservedAt input) < 2000 \<or> t_year (ei_ObservedAt input) > 2100
      then Some ErrInvalidEvidenceIndexInput
      else if ei_RedactedLink input \<noteq> [] \<and> \<not> isRedactedEvidenceLink url_parse (ei_RedactedLink input)
      then Some ErrInvalidEvidenceIndexInput
      else None)"

section \<open>The store\<close>

datatype idempotency_result =
    IdemID string
  | IdemRetention receipt_retention_result
  | IdemReconciliation reconciliation_result

record idempotency_record =
  ir_payloadHash :: string
  ir_result :: idempotency_result

record memory_store =
  ms_idempotency :: "string \<rightharpoonup> idempotency_record"
  ms_reconciliationIdempotency :: "string \<rightharpoonup> idempotency_record"
  ms_receipts :: "(string \<times> receipt) list"
  ms_evidenceIndex :: "(string \<times> evidence_entry) list"
  ms_evidenceIndexIdempotency :: "string \<rightharpoonup> idempotency_record"
  ms_nextID :: nat

definition NewMemoryStore :: memory_store where
  "NewMemoryStore =
     \<lparr>ms_idempotency = Map.empty, ms_reconciliationIdempotency = Map.empty, ms_receipts = [],
      ms_evidenceIndex = [], ms_evidenceIndexIdempotency = Map.empty, ms_nextID = 0\<rparr>"

text \<open>
  \<^verbatim>\<open>cloneMemoryValue\<close>: a round trip through JSON. It normalises the maps and drops the idempotency key,
  which has no JSON name; texts and times (of whole minutes of zone offset, as parsed ones have) are
  kept.
\<close>

definition clone_receipt_input :: "receipt_input \<Rightarrow> receipt_input" where
  "clone_receipt_input input = input
     \<lparr>ri_Actor := clone_map (ri_Actor input), ri_Plan := clone_map (ri_Plan input),
      ri_Execution := clone_map (ri_Execution input), ri_Environment := clone_map (ri_Environment input),
      ri_InputRefs := clone_map (ri_InputRefs input), ri_OutputRefs := clone_map (ri_OutputRefs input),
      ri_ReviewerChecks := clone_map (ri_ReviewerChecks input), ri_Cost := clone_map (ri_Cost input),
      ri_Owner := clone_map (ri_Owner input), ri_Continuation := clone_map (ri_Continuation input),
      ri_IdempotencyKey := []\<rparr>"

definition clone_receipt :: "receipt \<Rightarrow> receipt" where
  "clone_receipt r = r\<lparr>rc_Input := clone_receipt_input (rc_Input r)\<rparr>"

definition clone_evidence :: "evidence_entry \<Rightarrow> evidence_entry" where
  "clone_evidence e = e\<lparr>ee_Input := (ee_Input e)\<lparr>ei_IdempotencyKey := []\<rparr>\<rparr>"

definition clone_reconciliation :: "reconciliation_result \<Rightarrow> reconciliation_result" where
  "clone_reconciliation r = r\<lparr>rcr_Report := clone_map (rcr_Report r)\<rparr>"

type_synonym digest = "goval \<Rightarrow> string"

definition hashJSON :: "digest \<Rightarrow> goval \<Rightarrow> ledger_error + string" where
  "hashJSON digest payload = (if marshalable payload then Inr (digest (json_normalize payload)) else Inl ErrMarshal)"

definition newID :: "string \<Rightarrow> memory_store \<Rightarrow> string \<times> memory_store" where
  "newID prefix s =
     (let n = Suc (ms_nextID s) in (prefix @ ''_'' @ pad_text 6 n, s\<lparr>ms_nextID := n\<rparr>))"

section \<open>Receipts\<close>

definition empty_retention :: receipt_retention where
  "empty_retention = \<lparr>rt_RetainUntil = zero_time, rt_LegalHold = False, rt_PrivacyRedaction = None\<rparr>"

definition RecordReceipt ::
    "digest \<Rightarrow> gotime \<Rightarrow> receipt_input \<Rightarrow> memory_store \<Rightarrow> (ledger_error + receipt) \<times> memory_store" where
  "RecordReceipt digest now input s =
     (case validateReceiptInput input of
        Some err \<Rightarrow> (Inl err, s)
      | None \<Rightarrow>
        (case hashJSON digest (receipt_input_json input) of
           Inl err \<Rightarrow> (Inl err, s)
         | Inr payloadHash \<Rightarrow>
           (case ms_idempotency s (ri_IdempotencyKey input) of
              Some existing \<Rightarrow>
                if ir_payloadHash existing \<noteq> payloadHash then (Inl ErrIdempotencyConflict, s)
                else
                  (case ir_result existing of
                     IdemID receiptID \<Rightarrow>
                       (case map_of (ms_receipts s) receiptID of
                          None \<Rightarrow> (Inl ErrReceiptNotFound, s)
                        | Some result \<Rightarrow> (Inr ((clone_receipt result)\<lparr>rc_Replayed := True\<rparr>), s))
                   | _ \<Rightarrow> (Inl ErrPanic, s))
            | None \<Rightarrow>
                (let (receiptID, s) = newID ''receipt'' s;
                     receipt = clone_receipt
                       \<lparr>rc_Input = input\<lparr>ri_IdempotencyKey := []\<rparr>, rc_ReceiptID = receiptID,
                        rc_CreatedAt = t_utc now, rc_Retention = empty_retention, rc_Replayed = False\<rparr>
                 in (Inr (clone_receipt receipt),
                     s\<lparr>ms_receipts := AList.update receiptID receipt (ms_receipts s),
                       ms_idempotency := (ms_idempotency s)(ri_IdempotencyKey input \<mapsto>
                         \<lparr>ir_payloadHash = payloadHash, ir_result = IdemID receiptID\<rparr>)\<rparr>)))))"

definition Receipt :: "string \<Rightarrow> memory_store \<Rightarrow> ledger_error + receipt" where
  "Receipt receiptID s =
     (case map_of (ms_receipts s) receiptID of
        None \<Rightarrow> Inl ErrReceiptNotFound
      | Some r \<Rightarrow> Inr (clone_receipt r))"

definition retention_payload :: "receipt_retention_input \<Rightarrow> goval" where
  "retention_payload input =
     GObj [(''receiptId'', GStr (rti_ReceiptID input)), (''retainUntil'', GStr (rfc3339_nano (rti_RetainUntil input))),
           (''legalHold'', GBool (rti_LegalHold input))]"

definition retention_key :: "receipt_retention_input \<Rightarrow> string" where
  "retention_key input = ''receipt-retention:'' @ rti_IdempotencyKey input"

definition privacy_key :: "receipt_privacy_delete_input \<Rightarrow> string" where
  "privacy_key input = ''receipt-privacy:'' @ pdi_IdempotencyKey input"

text \<open>The answer to a key that is already in the table, for the two operations on retention.\<close>

definition replay_retention ::
    "idempotency_record \<Rightarrow> string \<Rightarrow> ledger_error + receipt_retention_result" where
  "replay_retention existing payloadHash =
     (if ir_payloadHash existing \<noteq> payloadHash then Inl ErrIdempotencyConflict
      else case ir_result existing of
             IdemRetention result \<Rightarrow> Inr (result\<lparr>rr_Replayed := True\<rparr>)
           | _ \<Rightarrow> Inl ErrPanic)"

text \<open>Store the changed receipt and record the result under the key.\<close>

definition commit_retention ::
    "string \<Rightarrow> string \<Rightarrow> string \<Rightarrow> receipt \<Rightarrow> memory_store \<Rightarrow>
     (ledger_error + receipt_retention_result) \<times> memory_store" where
  "commit_retention key payloadHash receiptID receipt s =
     (let receipt = clone_receipt receipt;
          result = \<lparr>rr_ReceiptID = rc_ReceiptID receipt, rr_Retention = rc_Retention receipt, rr_Replayed = False\<rparr>
      in (Inr result,
          s\<lparr>ms_receipts := AList.update receiptID receipt (ms_receipts s),
            ms_idempotency := (ms_idempotency s)(key \<mapsto>
              \<lparr>ir_payloadHash = payloadHash, ir_result = IdemRetention result\<rparr>)\<rparr>))"

definition UpdateReceiptRetention ::
    "digest \<Rightarrow> receipt_retention_input \<Rightarrow> memory_store \<Rightarrow>
     (ledger_error + receipt_retention_result) \<times> memory_store" where
  "UpdateReceiptRetention digest input s =
     (if rti_ReceiptID input = [] \<or> rti_IdempotencyKey input = [] \<or>
         is_zero (rti_RetainUntil input) \<and> \<not> rti_LegalHold input
      then (Inl ErrInvalidReceiptRetentionInput, s)
      else if \<not> time_marshalable (rti_RetainUntil input) then (Inl ErrMarshal, s)
      else
        (case hashJSON digest (retention_payload input) of
           Inl err \<Rightarrow> (Inl err, s)
         | Inr payloadHash \<Rightarrow>
           (case ms_idempotency s (retention_key input) of
              Some existing \<Rightarrow> (replay_retention existing payloadHash, s)
            | None \<Rightarrow>
              (case map_of (ms_receipts s) (rti_ReceiptID input) of
                 None \<Rightarrow> (Inl ErrReceiptNotFound, s)
               | Some receipt \<Rightarrow>
                   (let retention = rc_Retention receipt in
                    if \<not> is_zero (rti_RetainUntil input) \<and> \<not> is_zero (rt_RetainUntil retention) \<and>
                       t_before (rti_RetainUntil input) (rt_RetainUntil retention)
                    then (Inl ErrReceiptRetentionShortening, s)
                    else
                      (let retention = (if t_after (rti_RetainUntil input) (rt_RetainUntil retention)
                                        then retention\<lparr>rt_RetainUntil := rti_RetainUntil input\<rparr> else retention);
                           retention = retention\<lparr>rt_LegalHold := rt_LegalHold retention \<or> rti_LegalHold input\<rparr>
                       in commit_retention (retention_key input) payloadHash (rti_ReceiptID input)
                            (receipt\<lparr>rc_Retention := retention\<rparr>) s))))))"

definition privacy_payload :: "receipt_privacy_delete_input \<Rightarrow> goval" where
  "privacy_payload input =
     GObj [(''receiptId'', GStr (pdi_ReceiptID input)), (''reason'', GStr (pdi_Reason input))]"

definition redact_receipt :: "gotime \<Rightarrow> string \<Rightarrow> receipt \<Rightarrow> receipt" where
  "redact_receipt now reason receipt = receipt
     \<lparr>rc_Input := (rc_Input receipt)\<lparr>ri_Actor := None, ri_Owner := None, ri_Continuation := None\<rparr>,
      rc_Retention := (rc_Retention receipt)\<lparr>rt_PrivacyRedaction :=
        Some \<lparr>pr_AppliedAt = t_utc now, pr_Reason = reason, pr_Eligible = True\<rparr>\<rparr>\<rparr>"

text \<open>The clock is read twice: for the retention test and for the redaction's time.\<close>

definition PrivacyDeleteReceipt ::
    "digest \<Rightarrow> gotime \<Rightarrow> gotime \<Rightarrow> receipt_privacy_delete_input \<Rightarrow> memory_store \<Rightarrow>
     (ledger_error + receipt_retention_result) \<times> memory_store" where
  "PrivacyDeleteReceipt digest now now' input s =
     (if pdi_ReceiptID input = [] \<or> pdi_Reason input = [] \<or> pdi_IdempotencyKey input = []
      then (Inl ErrInvalidReceiptRetentionInput, s)
      else
        (case hashJSON digest (privacy_payload input) of
           Inl err \<Rightarrow> (Inl err, s)
         | Inr payloadHash \<Rightarrow>
           (case ms_idempotency s (privacy_key input) of
              Some existing \<Rightarrow> (replay_retention existing payloadHash, s)
            | None \<Rightarrow>
              (case map_of (ms_receipts s) (pdi_ReceiptID input) of
                 None \<Rightarrow> (Inl ErrReceiptNotFound, s)
               | Some receipt \<Rightarrow>
                   if rt_LegalHold (rc_Retention receipt) then (Inl ErrReceiptLegalHold, s)
                   else if t_after (rt_RetainUntil (rc_Retention receipt)) (t_utc now)
                   then (Inl ErrReceiptRetentionActive, s)
                   else
                     (let receipt = (if rt_PrivacyRedaction (rc_Retention receipt) = None
                                     then redact_receipt now' (pdi_Reason input) receipt else receipt)
                      in commit_retention (privacy_key input) payloadHash (pdi_ReceiptID input) receipt s)))))"

section \<open>Listing receipts\<close>

definition receipt_key :: "receipt \<Rightarrow> int \<times> string" where
  "receipt_key r = (inst (rc_CreatedAt r), rc_ReceiptID r)"

definition wants :: "string \<Rightarrow> string \<Rightarrow> bool" where
  "wants q v \<longleftrightarrow> q = [] \<or> v = q"

definition receipt_matches :: "receipt_query \<Rightarrow> receipt \<Rightarrow> bool" where
  "receipt_matches query r \<longleftrightarrow>
     (let i = rc_Input r in
      wants (rq_AccountID query) (ri_AccountID i) \<and> wants (rq_OrganizationID query) (ri_OrganizationID i) \<and>
      wants (rq_WorkspaceID query) (ri_WorkspaceID i) \<and> wants (rq_ProjectID query) (ri_ProjectID i) \<and>
      wants (rq_TaskID query) (ri_TaskID i) \<and> wants (rq_JobID query) (ri_JobID i) \<and>
      wants (rq_Type query) (ri_Type i) \<and>
      (rq_TypePrefix query = [] \<or> has_prefix (ri_Type i) (rq_TypePrefix query)) \<and>
      wants (rq_Status query) (ri_Status i))"

definition receipt_after_cursor :: "gotime \<times> string \<Rightarrow> receipt \<Rightarrow> bool" where
  "receipt_after_cursor cursor r \<longleftrightarrow>
     \<not> (\<not> is_zero (fst cursor) \<and>
        (t_after (rc_CreatedAt r) (fst cursor) \<or> t_equal (rc_CreatedAt r) (fst cursor) \<and> rc_ReceiptID r \<ge> snd cursor))"

text \<open>The page of the receipts that match, newest first.\<close>

definition ListReceipts ::
    "cursor_codec \<Rightarrow> receipt_query \<Rightarrow> memory_store \<Rightarrow> ledger_error + receipt_page" where
  "ListReceipts cc query s =
     (case normalizeReceiptQuery cc query of
        Inl err \<Rightarrow> Inl err
      | Inr (query, cursor) \<Rightarrow>
          (let receipts = sort_desc receipt_key
                 (map clone_receipt
                   (filter (\<lambda>r. receipt_matches query r \<and> receipt_after_cursor cursor r)
                     (map snd (ms_receipts s))));
               limit = nat (rq_Limit query);
               hasMore = (limit < length receipts);
               receipts = (if hasMore then take limit receipts else receipts)
           in Inr \<lparr>rp_Receipts = receipts,
                   rp_NextCursor = (if hasMore then encodeReceiptCursor cc (last receipts) else []),
                   rp_HasMore = hasMore\<rparr>))"

section \<open>Reconciliation results\<close>

definition RecordReconciliation ::
    "digest \<Rightarrow> gotime \<Rightarrow> reconciliation_input \<Rightarrow> memory_store \<Rightarrow>
     (ledger_error + reconciliation_result) \<times> memory_store" where
  "RecordReconciliation digest now input s =
     (case validateReconciliationInput input of
        Some err \<Rightarrow> (Inl err, s)
      | None \<Rightarrow>
        (case hashJSON digest (gomap_val (rci_Report input)) of
           Inl err \<Rightarrow> (Inl err, s)
         | Inr payloadHash \<Rightarrow>
           (case ms_reconciliationIdempotency s (rci_IdempotencyKey input) of
              Some existing \<Rightarrow>
                if ir_payloadHash existing \<noteq> payloadHash then (Inl ErrIdempotencyConflict, s)
                else
                  (case ir_result existing of
                     IdemReconciliation result \<Rightarrow>
                       if validateReconciliationResult result \<noteq> None then (Inl ErrInvalidReconciliationInput, s)
                       else (Inr ((clone_reconciliation result)\<lparr>rcr_Replayed := True\<rparr>), s)
                   | _ \<Rightarrow> (Inl ErrInvalidReconciliationInput, s))
            | None \<Rightarrow>
                (let status = str_or_empty (mget (rci_Report input) ''status'');
                     result = clone_reconciliation
                       \<lparr>rcr_ID = str_or_empty (mget (rci_Report input) ''id''), rcr_Status = status,
                        rcr_Report = clone_map (rci_Report input), rcr_BlockNewWorkspaces = (status = ''mismatch''),
                        rcr_Reason = ''operator_reconciliation'', rcr_CreatedAt = t_utc now, rcr_Replayed = False\<rparr>
                 in (Inr result,
                     s\<lparr>ms_reconciliationIdempotency := (ms_reconciliationIdempotency s)(rci_IdempotencyKey input \<mapsto>
                         \<lparr>ir_payloadHash = payloadHash, ir_result = IdemReconciliation result\<rparr>)\<rparr>)))))"

section \<open>The evidence index\<close>

definition evidence_payload :: "evidence_input \<Rightarrow> goval" where
  "evidence_payload input =
     GObj ([(''operationId'', GStr (ei_OperationID input)), (''candidateSha'', GStr (ei_CandidateSHA input)),
            (''candidateTree'', GStr (ei_CandidateTree input)), (''imageDigest'', GStr (ei_ImageDigest input)),
            (''receiptId'', GStr (ei_ReceiptID input)), (''receiptType'', GStr (ei_ReceiptType input)),
            (''status'', GStr (ei_Status input)), (''actor'', GStr (ei_Actor input)),
            (''observedAt'', GStr (rfc3339_nano (ei_ObservedAt input))),
            (''identityDigest'', GStr (ei_IdentityDigest input))] @
           (if ei_RedactedLink input = [] then [] else [(''redactedLink'', GStr (ei_RedactedLink input))]))"

definition RecordEvidenceIndex ::
    "digest \<Rightarrow> url_parser \<Rightarrow> gotime \<Rightarrow> evidence_input \<Rightarrow> memory_store \<Rightarrow>
     (ledger_error + evidence_entry) \<times> memory_store" where
  "RecordEvidenceIndex digest url_parse now input s =
     (case validateEvidenceIndexInput url_parse input of
        Some err \<Rightarrow> (Inl err, s)
      | None \<Rightarrow>
        if \<not> time_marshalable (ei_ObservedAt input) then (Inl ErrMarshal, s)
        else
        (case hashJSON digest (evidence_payload input) of
           Inl err \<Rightarrow> (Inl err, s)
         | Inr payloadHash \<Rightarrow>
           (case ms_evidenceIndexIdempotency s (ei_IdempotencyKey input) of
              Some existing \<Rightarrow>
                if ir_payloadHash existing \<noteq> payloadHash then (Inl ErrIdempotencyConflict, s)
                else
                  (case ir_result existing of
                     IdemID evidenceID \<Rightarrow>
                       (case map_of (ms_evidenceIndex s) evidenceID of
                          None \<Rightarrow> (Inl ErrInvalidEvidenceIndexInput, s)
                        | Some entry \<Rightarrow> (Inr ((clone_evidence entry)\<lparr>ee_Replayed := True\<rparr>), s))
                   | _ \<Rightarrow> (Inl ErrInvalidEvidenceIndexInput, s))
            | None \<Rightarrow>
                (let (evidenceID, s) = newID ''evidence'' s;
                     entry = clone_evidence
                       \<lparr>ee_Input = input\<lparr>ei_IdempotencyKey := []\<rparr>, ee_EvidenceID = evidenceID,
                        ee_CreatedAt = t_utc now, ee_Replayed = False\<rparr>
                 in (Inr (clone_evidence entry),
                     s\<lparr>ms_evidenceIndex := AList.update evidenceID entry (ms_evidenceIndex s),
                       ms_evidenceIndexIdempotency := (ms_evidenceIndexIdempotency s)(ei_IdempotencyKey input \<mapsto>
                         \<lparr>ir_payloadHash = payloadHash, ir_result = IdemID evidenceID\<rparr>)\<rparr>)))))"

definition evidence_key :: "evidence_entry \<Rightarrow> int \<times> string" where
  "evidence_key e = (inst (ei_ObservedAt (ee_Input e)), ee_EvidenceID e)"

definition evidence_matches :: "evidence_query \<Rightarrow> evidence_entry \<Rightarrow> bool" where
  "evidence_matches query e \<longleftrightarrow>
     (let i = ee_Input e in
      wants (eq_OperationID query) (ei_OperationID i) \<and> wants (eq_CandidateSHA query) (ei_CandidateSHA i) \<and>
      wants (eq_CandidateTree query) (ei_CandidateTree i) \<and> wants (eq_ImageDigest query) (ei_ImageDigest i) \<and>
      wants (eq_ReceiptID query) (ei_ReceiptID i) \<and> wants (eq_ReceiptType query) (ei_ReceiptType i) \<and>
      wants (eq_Status query) (ei_Status i))"

definition evidence_after_cursor :: "gotime \<times> string \<Rightarrow> evidence_entry \<Rightarrow> bool" where
  "evidence_after_cursor cursor e \<longleftrightarrow>
     \<not> (\<not> is_zero (fst cursor) \<and>
        (t_after (ei_ObservedAt (ee_Input e)) (fst cursor) \<or>
         t_equal (ei_ObservedAt (ee_Input e)) (fst cursor) \<and> ee_EvidenceID e \<ge> snd cursor))"

definition ListEvidenceIndex ::
    "cursor_codec \<Rightarrow> evidence_query \<Rightarrow> memory_store \<Rightarrow> ledger_error + evidence_page" where
  "ListEvidenceIndex cc query s =
     (case normalizeEvidenceIndexQuery cc query of
        Inl err \<Rightarrow> Inl err
      | Inr (query, cursor) \<Rightarrow>
          (let entries = sort_desc evidence_key
                 (map clone_evidence
                   (filter (\<lambda>e. evidence_matches query e \<and> evidence_after_cursor cursor e)
                     (map snd (ms_evidenceIndex s))));
               limit = nat (eq_Limit query);
               hasMore = (limit < length entries);
               entries = (if hasMore then take limit entries else entries)
           in Inr \<lparr>ep_Entries = entries,
                   ep_NextCursor = (if hasMore then encodeEvidenceIndexCursor cc (last entries) else []),
                   ep_HasMore = hasMore\<rparr>))"

text \<open>
  The export's loop: a page of the greatest size at a time, until there is no next page or the entries
  reach the bound. The fuel bounds the number of pages; \<open>None\<close> is running out of it.
\<close>

fun export_loop ::
    "nat \<Rightarrow> cursor_codec \<Rightarrow> evidence_query \<Rightarrow> evidence_entry list \<Rightarrow> memory_store \<Rightarrow>
     (ledger_error + evidence_export) option" where
  "export_loop 0 cc query entries s = None"
| "export_loop (Suc fuel) cc query entries s =
     (case ListEvidenceIndex cc query s of
        Inl err \<Rightarrow> Some (Inl err)
      | Inr page \<Rightarrow>
          (let entries = entries @ ep_Entries page in
           if \<not> ep_HasMore page then Some (Inr \<lparr>ex_SchemaVersion = 1, ex_Entries = entries\<rparr>)
           else if length entries \<ge> MaxEvidenceIndexExportSize then Some (Inl ErrEvidenceIndexExportTooLarge)
           else export_loop fuel cc (query\<lparr>eq_Cursor := ep_NextCursor page\<rparr>) entries s))"

definition ExportEvidenceIndex ::
    "nat \<Rightarrow> cursor_codec \<Rightarrow> evidence_query \<Rightarrow> memory_store \<Rightarrow> (ledger_error + evidence_export) option" where
  "ExportEvidenceIndex fuel cc query s =
     export_loop fuel cc (query\<lparr>eq_Cursor := [], eq_Limit := MaxEvidenceIndexPageSize\<rparr>) [] s"

end
