(* ===== verification/Ledger_Invariants.thy ===== *)
theory Ledger_Invariants
  imports Ledger_Store
begin

text \<open>
  Correctness of the Ledger's store: the contract of an idempotent operation as a locale, interpreted on
  the five recording operations; the invariant of the store, kept by every operation; and the history
  properties that follow: a request is recorded exactly once, retention only grows, legal hold is never
  lifted, a redaction is final, and no stored receipt names a secret.
\<close>

section \<open>Idempotent operations\<close>

text \<open>
  The contract of the five recording operations. \<open>table\<close> is the table of keys the operation uses,
  \<open>entry\<close> holds of a table entry that belongs to an input (its payload hash and the kind of its
  result), \<open>outcome\<close> is what an entry and an answer identify: the record the caller is told about.
\<close>

locale idempotent_op =
  fixes op :: "digest \<Rightarrow> 'clock \<Rightarrow> 'i \<Rightarrow> memory_store \<Rightarrow> (ledger_error + 'o) \<times> memory_store"
    and table :: "memory_store \<Rightarrow> string \<rightharpoonup> idempotency_record"
    and key :: "'i \<Rightarrow> string"
    and accepts :: "'clock \<Rightarrow> 'i \<Rightarrow> bool"
    and entry :: "digest \<Rightarrow> 'i \<Rightarrow> idempotency_record \<Rightarrow> bool"
    and hash :: "digest \<Rightarrow> 'i \<Rightarrow> string"
    and outcome :: "idempotency_record \<Rightarrow> 'r"
    and answer :: "'o \<Rightarrow> 'r"
    and replayed :: "'o \<Rightarrow> bool"
    and inv :: "memory_store \<Rightarrow> bool"
  assumes error_keeps: "op d c i s = (Inl err, s') \<Longrightarrow> s' = s"
    and refuses: "\<not> accepts c i \<Longrightarrow> \<exists>err. op d c i s = (Inl err, s)"
    and records: "op d c i s = (Inr r, s') \<Longrightarrow>
      \<exists>rec. table s' (key i) = Some rec \<and> entry d i rec \<and> (table s (key i) = None \<longrightarrow> outcome rec = answer r)"
    and replays: "inv s \<Longrightarrow> accepts c i \<Longrightarrow> table s (key i) = Some rec \<Longrightarrow> entry d i rec \<Longrightarrow>
      \<exists>r. op d c i s = (Inr r, s) \<and> replayed r \<and> answer r = outcome rec"
    and conflicts: "accepts c i \<Longrightarrow> table s (key i) = Some rec \<Longrightarrow> ir_payloadHash rec \<noteq> hash d i \<Longrightarrow>
      op d c i s = (Inl ErrIdempotencyConflict, s)"
    and entry_hash: "entry d i rec \<Longrightarrow> ir_payloadHash rec = hash d i"
    and keeps: "table s k = Some rec \<Longrightarrow> table (snd (op d c i s)) k = Some rec"
begin

lemma success_accepted: "op d c i s = (Inr r, s') \<Longrightarrow> accepts c i"
  using refuses [of c i d s] by fastforce

text \<open>An accepted input under a key that holds another payload changes nothing.\<close>

lemma reuse_conflicts:
  assumes "op d c i s = (Inr r, s')" and "accepts c' j" and "key j = key i" and "hash d j \<noteq> hash d i"
    and "table s2 (key i) = table s' (key i)"
  shows "op d c' j s2 = (Inl ErrIdempotencyConflict, s2)"
  using records [OF assms(1)] assms(2-) conflicts [of c' j s2] entry_hash by fastforce

text \<open>
  After a first success the same input is answered from the table, whatever happened to the rest of the
  store in between, as long as the entry is still there.
\<close>

lemma exactly_once:
  assumes "op d c i s = (Inr r, s')" and "table s (key i) = None"
    and "inv s2" and "accepts c' i" and "table s2 (key i) = table s' (key i)"
  shows "\<exists>r'. op d c' i s2 = (Inr r', s2) \<and> replayed r' \<and> answer r' = answer r"
proof -
  obtain rec where "table s' (key i) = Some rec" "entry d i rec" "outcome rec = answer r"
    using records [OF assms(1)] assms(2) by blast
  with replays [of s2 c' i rec d] assms show ?thesis by simp
qed

end

section \<open>The operations, case by case\<close>

lemma accepted_receipt_marshalable:
  "validateReceiptInput input = None \<Longrightarrow> marshalable (receipt_input_json input)"
  using accepted_receipt_facts(1) forbidden_scan by blast

definition receipt_hash :: "digest \<Rightarrow> receipt_input \<Rightarrow> string" where
  "receipt_hash d input = d (json_normalize (receipt_input_json input))"

definition fresh_receipt :: "gotime \<Rightarrow> receipt_input \<Rightarrow> memory_store \<Rightarrow> receipt" where
  "fresh_receipt now input s = clone_receipt
     \<lparr>rc_Input = input\<lparr>ri_IdempotencyKey := []\<rparr>, rc_ReceiptID = fst (newID ''receipt'' s),
      rc_CreatedAt = t_utc now, rc_Retention = empty_retention, rc_Replayed = False\<rparr>"

lemma clone_receipt_input_idem [simp]: "clone_receipt_input (clone_receipt_input i) = clone_receipt_input i"
  by (simp add: clone_receipt_input_def)

lemma clone_receipt_idem [simp]: "clone_receipt (clone_receipt r) = clone_receipt r"
  by (simp add: clone_receipt_def)

lemma clone_evidence_idem [simp]: "clone_evidence (clone_evidence e) = clone_evidence e"
  by (simp add: clone_evidence_def)

lemma clone_reconciliation_idem [simp]: "clone_reconciliation (clone_reconciliation r) = clone_reconciliation r"
  by (simp add: clone_reconciliation_def)

lemma clone_receipt_fields [simp]:
  "rc_ReceiptID (clone_receipt r) = rc_ReceiptID r" "rc_CreatedAt (clone_receipt r) = rc_CreatedAt r"
  "rc_Retention (clone_receipt r) = rc_Retention r" "rc_Replayed (clone_receipt r) = rc_Replayed r"
  by (simp_all add: clone_receipt_def)

lemma clone_evidence_fields [simp]:
  "ee_EvidenceID (clone_evidence e) = ee_EvidenceID e" "ee_CreatedAt (clone_evidence e) = ee_CreatedAt e"
  "ee_Replayed (clone_evidence e) = ee_Replayed e" "evidence_key (clone_evidence e) = evidence_key e"
  by (simp_all add: clone_evidence_def evidence_key_def)

lemma receipt_key_clone [simp]: "receipt_key (clone_receipt r) = receipt_key r"
  by (simp add: receipt_key_def)

lemma RecordReceipt_fresh:
  assumes "validateReceiptInput input = None" and "ms_idempotency s (ri_IdempotencyKey input) = None"
  shows "RecordReceipt d now input s =
    (Inr (fresh_receipt now input s),
     s\<lparr>ms_nextID := Suc (ms_nextID s),
       ms_receipts := AList.update (fst (newID ''receipt'' s)) (fresh_receipt now input s) (ms_receipts s),
       ms_idempotency := (ms_idempotency s)(ri_IdempotencyKey input \<mapsto>
         \<lparr>ir_payloadHash = receipt_hash d input, ir_result = IdemID (fst (newID ''receipt'' s))\<rparr>)\<rparr>)"
  using assms accepted_receipt_marshalable [OF assms(1)]
  by (simp add: RecordReceipt_def hashJSON_def newID_def Let_def receipt_hash_def fresh_receipt_def)

lemma RecordReceipt_known:
  assumes "validateReceiptInput input = None" and "ms_idempotency s (ri_IdempotencyKey input) = Some existing"
  shows "RecordReceipt d now input s =
    (if ir_payloadHash existing \<noteq> receipt_hash d input then Inl ErrIdempotencyConflict
     else case ir_result existing of
            IdemID receiptID \<Rightarrow>
              (case map_of (ms_receipts s) receiptID of
                 None \<Rightarrow> Inl ErrReceiptNotFound
               | Some result \<Rightarrow> Inr ((clone_receipt result)\<lparr>rc_Replayed := True\<rparr>))
          | _ \<Rightarrow> Inl ErrPanic, s)"
  using assms accepted_receipt_marshalable [OF assms(1)]
  by (auto simp: RecordReceipt_def hashJSON_def receipt_hash_def split: idempotency_result.split option.split)

lemma RecordReceipt_invalid: "validateReceiptInput input = Some err \<Longrightarrow> RecordReceipt d now input s = (Inl err, s)"
  by (simp add: RecordReceipt_def)

lemmas RecordReceipt_cases = RecordReceipt_fresh RecordReceipt_known RecordReceipt_invalid


definition retention_accepts :: "receipt_retention_input \<Rightarrow> bool" where
  "retention_accepts input \<longleftrightarrow>
     rti_ReceiptID input \<noteq> [] \<and> rti_IdempotencyKey input \<noteq> [] \<and>
     (is_zero (rti_RetainUntil input) \<longrightarrow> rti_LegalHold input) \<and> time_marshalable (rti_RetainUntil input)"

definition retention_hash :: "digest \<Rightarrow> receipt_retention_input \<Rightarrow> string" where
  "retention_hash d input = d (json_normalize (retention_payload input))"

definition extended_retention :: "receipt_retention_input \<Rightarrow> receipt_retention \<Rightarrow> receipt_retention" where
  "extended_retention input retention = retention
     \<lparr>rt_RetainUntil := (if t_after (rti_RetainUntil input) (rt_RetainUntil retention)
                        then rti_RetainUntil input else rt_RetainUntil retention),
      rt_LegalHold := rt_LegalHold retention \<or> rti_LegalHold input\<rparr>"

lemma UpdateReceiptRetention_eq:
  "UpdateReceiptRetention d input s =
     (if \<not> retention_accepts input
      then (Inl (if rti_ReceiptID input = [] \<or> rti_IdempotencyKey input = [] \<or>
                    is_zero (rti_RetainUntil input) \<and> \<not> rti_LegalHold input
                 then ErrInvalidReceiptRetentionInput else ErrMarshal), s)
      else case ms_idempotency s (retention_key input) of
             Some existing \<Rightarrow> (replay_retention existing (retention_hash d input), s)
           | None \<Rightarrow>
             (case map_of (ms_receipts s) (rti_ReceiptID input) of
                None \<Rightarrow> (Inl ErrReceiptNotFound, s)
              | Some r \<Rightarrow>
                  if \<not> is_zero (rti_RetainUntil input) \<and> \<not> is_zero (rt_RetainUntil (rc_Retention r)) \<and>
                     t_before (rti_RetainUntil input) (rt_RetainUntil (rc_Retention r))
                  then (Inl ErrReceiptRetentionShortening, s)
                  else commit_retention (retention_key input) (retention_hash d input) (rti_ReceiptID input)
                         (r\<lparr>rc_Retention := extended_retention input (rc_Retention r)\<rparr>) s))"
  by (auto simp: UpdateReceiptRetention_def retention_accepts_def hashJSON_def retention_payload_def
      retention_hash_def extended_retention_def Let_def split: option.split)

definition privacy_accepts :: "receipt_privacy_delete_input \<Rightarrow> bool" where
  "privacy_accepts input \<longleftrightarrow>
     pdi_ReceiptID input \<noteq> [] \<and> pdi_Reason input \<noteq> [] \<and> pdi_IdempotencyKey input \<noteq> []"

definition privacy_hash :: "digest \<Rightarrow> receipt_privacy_delete_input \<Rightarrow> string" where
  "privacy_hash d input = d (json_normalize (privacy_payload input))"

definition redacted :: "gotime \<Rightarrow> string \<Rightarrow> receipt \<Rightarrow> receipt" where
  "redacted now reason r =
     (if rt_PrivacyRedaction (rc_Retention r) = None then redact_receipt now reason r else r)"

lemma PrivacyDeleteReceipt_eq:
  "PrivacyDeleteReceipt d now now' input s =
     (if \<not> privacy_accepts input then (Inl ErrInvalidReceiptRetentionInput, s)
      else case ms_idempotency s (privacy_key input) of
             Some existing \<Rightarrow> (replay_retention existing (privacy_hash d input), s)
           | None \<Rightarrow>
             (case map_of (ms_receipts s) (pdi_ReceiptID input) of
                None \<Rightarrow> (Inl ErrReceiptNotFound, s)
              | Some r \<Rightarrow>
                  if rt_LegalHold (rc_Retention r) then (Inl ErrReceiptLegalHold, s)
                  else if t_after (rt_RetainUntil (rc_Retention r)) (t_utc now) then (Inl ErrReceiptRetentionActive, s)
                  else commit_retention (privacy_key input) (privacy_hash d input) (pdi_ReceiptID input)
                         (redacted now' (pdi_Reason input) r) s))"
  by (auto simp: PrivacyDeleteReceipt_def privacy_accepts_def hashJSON_def privacy_payload_def privacy_hash_def
      redacted_def Let_def split: option.split)

definition reconciliation_hash :: "digest \<Rightarrow> reconciliation_input \<Rightarrow> string" where
  "reconciliation_hash d input = d (json_normalize (gomap_val (rci_Report input)))"

definition fresh_reconciliation :: "gotime \<Rightarrow> reconciliation_input \<Rightarrow> reconciliation_result" where
  "fresh_reconciliation now input = clone_reconciliation
     \<lparr>rcr_ID = str_or_empty (mget (rci_Report input) ''id''),
      rcr_Status = str_or_empty (mget (rci_Report input) ''status''),
      rcr_Report = clone_map (rci_Report input),
      rcr_BlockNewWorkspaces = (str_or_empty (mget (rci_Report input) ''status'') = ''mismatch''),
      rcr_Reason = ''operator_reconciliation'', rcr_CreatedAt = t_utc now, rcr_Replayed = False\<rparr>"

lemma accepted_report_marshalable:
  "validateReconciliationReport report = None \<Longrightarrow> marshalable (gomap_val report)"
  using report_factsD [of report] by (auto simp: report_facts_def)

lemma RecordReconciliation_eq:
  "RecordReconciliation d now input s =
     (case validateReconciliationInput input of
        Some err \<Rightarrow> (Inl err, s)
      | None \<Rightarrow>
        (case ms_reconciliationIdempotency s (rci_IdempotencyKey input) of
           Some existing \<Rightarrow>
             (if ir_payloadHash existing \<noteq> reconciliation_hash d input then Inl ErrIdempotencyConflict
              else case ir_result existing of
                     IdemReconciliation result \<Rightarrow>
                       if validateReconciliationResult result \<noteq> None then Inl ErrInvalidReconciliationInput
                       else Inr ((clone_reconciliation result)\<lparr>rcr_Replayed := True\<rparr>)
                   | _ \<Rightarrow> Inl ErrInvalidReconciliationInput, s)
         | None \<Rightarrow>
             (Inr (fresh_reconciliation now input),
              s\<lparr>ms_reconciliationIdempotency := (ms_reconciliationIdempotency s)(rci_IdempotencyKey input \<mapsto>
                  \<lparr>ir_payloadHash = reconciliation_hash d input,
                   ir_result = IdemReconciliation (fresh_reconciliation now input)\<rparr>)\<rparr>)))"
proof -
  have "validateReconciliationInput input = None \<Longrightarrow> marshalable (gomap_val (rci_Report input))"
    by (auto simp: validateReconciliationInput_def accepted_report_marshalable split: if_splits)
  then show ?thesis
    by (auto simp: RecordReconciliation_def hashJSON_def reconciliation_hash_def fresh_reconciliation_def Let_def
        split: option.split idempotency_result.split)
qed

definition evidence_accepts :: "url_parser \<Rightarrow> evidence_input \<Rightarrow> bool" where
  "evidence_accepts u input \<longleftrightarrow>
     validateEvidenceIndexInput u input = None \<and> time_marshalable (ei_ObservedAt input)"

definition evidence_hash :: "digest \<Rightarrow> evidence_input \<Rightarrow> string" where
  "evidence_hash d input = d (json_normalize (evidence_payload input))"

definition fresh_evidence :: "gotime \<Rightarrow> evidence_input \<Rightarrow> memory_store \<Rightarrow> evidence_entry" where
  "fresh_evidence now input s = clone_evidence
     \<lparr>ee_Input = input\<lparr>ei_IdempotencyKey := []\<rparr>, ee_EvidenceID = fst (newID ''evidence'' s),
      ee_CreatedAt = t_utc now, ee_Replayed = False\<rparr>"

lemma RecordEvidenceIndex_eq:
  "RecordEvidenceIndex d u now input s =
     (if \<not> evidence_accepts u input
      then (Inl (if validateEvidenceIndexInput u input \<noteq> None then ErrInvalidEvidenceIndexInput else ErrMarshal), s)
      else case ms_evidenceIndexIdempotency s (ei_IdempotencyKey input) of
             Some existing \<Rightarrow>
               (if ir_payloadHash existing \<noteq> evidence_hash d input then Inl ErrIdempotencyConflict
                else case ir_result existing of
                       IdemID evidenceID \<Rightarrow>
                         (case map_of (ms_evidenceIndex s) evidenceID of
                            None \<Rightarrow> Inl ErrInvalidEvidenceIndexInput
                          | Some e \<Rightarrow> Inr ((clone_evidence e)\<lparr>ee_Replayed := True\<rparr>))
                     | _ \<Rightarrow> Inl ErrInvalidEvidenceIndexInput, s)
           | None \<Rightarrow>
               (Inr (fresh_evidence now input s),
                s\<lparr>ms_nextID := Suc (ms_nextID s),
                  ms_evidenceIndex := AList.update (fst (newID ''evidence'' s)) (fresh_evidence now input s) (ms_evidenceIndex s),
                  ms_evidenceIndexIdempotency := (ms_evidenceIndexIdempotency s)(ei_IdempotencyKey input \<mapsto>
                    \<lparr>ir_payloadHash = evidence_hash d input, ir_result = IdemID (fst (newID ''evidence'' s))\<rparr>)\<rparr>))"
proof -
  have "marshalable (evidence_payload input)" by (simp add: evidence_payload_def)
  moreover have "validateEvidenceIndexInput u input \<in> {None, Some ErrInvalidEvidenceIndexInput}"
    by (simp add: validateEvidenceIndexInput_def)
  ultimately show ?thesis
    by (auto simp: RecordEvidenceIndex_def evidence_accepts_def hashJSON_def evidence_hash_def fresh_evidence_def
        newID_def Let_def split: option.split idempotency_result.split)
qed

section \<open>The invariant\<close>

text \<open>Receipt types of earlier versions, which are refused now.\<close>

definition retired_receipt_types :: "string list" where
  "retired_receipt_types = [''billing.resource_purchased.v1'', ''billing.resource_renewed.v1'',
     ''billing.resource_expired.v1'', ''billing.resource_refunded.v1'', ''billing.charge_review_required.v1'']"

definition receipt_ok :: "nat \<Rightarrow> string \<Rightarrow> receipt \<Rightarrow> bool" where
  "receipt_ok n k r \<longleftrightarrow>
     rc_ReceiptID r = k \<and> (\<exists>m. 0 < m \<and> m \<le> n \<and> k = ''receipt_'' @ pad_text 6 m) \<and>
     clone_receipt r = r \<and> \<not> rc_Replayed r \<and> ri_Type (rc_Input r) \<notin> set retired_receipt_types \<and>
     0 < inst (rc_CreatedAt r) \<and> time_marshalable (rc_CreatedAt r) \<and>
     (\<forall>m \<in> set (receipt_maps (rc_Input r)). \<not> containsForbiddenReceiptKey (gomap_val m)) \<and>
     (rt_PrivacyRedaction (rc_Retention r) \<noteq> None \<longrightarrow>
        ri_Actor (rc_Input r) = None \<and> ri_Owner (rc_Input r) = None \<and> ri_Continuation (rc_Input r) = None)"

definition evidence_ok :: "nat \<Rightarrow> string \<Rightarrow> evidence_entry \<Rightarrow> bool" where
  "evidence_ok n k e \<longleftrightarrow>
     ee_EvidenceID e = k \<and> (\<exists>m. 0 < m \<and> m \<le> n \<and> k = ''evidence_'' @ pad_text 6 m) \<and>
     clone_evidence e = e \<and> \<not> ee_Replayed e \<and>
     \<not> is_zero (ei_ObservedAt (ee_Input e)) \<and> time_marshalable (ei_ObservedAt (ee_Input e))"

definition entry_ok :: "memory_store \<Rightarrow> idempotency_record \<Rightarrow> bool" where
  "entry_ok s e =
     (case ir_result e of
        IdemID k \<Rightarrow> map_of (ms_receipts s) k \<noteq> None
      | IdemRetention r \<Rightarrow> \<not> rr_Replayed r
      | IdemReconciliation r \<Rightarrow> False)"

definition evidence_entry_ok :: "memory_store \<Rightarrow> idempotency_record \<Rightarrow> bool" where
  "evidence_entry_ok s e = (case ir_result e of IdemID k \<Rightarrow> map_of (ms_evidenceIndex s) k \<noteq> None | _ \<Rightarrow> False)"

definition reconciliation_entry_ok :: "idempotency_record \<Rightarrow> bool" where
  "reconciliation_entry_ok e =
     (case ir_result e of
        IdemReconciliation r \<Rightarrow> validateReconciliationResult r = None \<and> clone_reconciliation r = r \<and> \<not> rcr_Replayed r
      | _ \<Rightarrow> False)"

definition store_ok :: "memory_store \<Rightarrow> bool" where
  "store_ok s \<longleftrightarrow>
     distinct (map fst (ms_receipts s)) \<and>
     (\<forall>k r. map_of (ms_receipts s) k = Some r \<longrightarrow> receipt_ok (ms_nextID s) k r) \<and>
     distinct (map fst (ms_evidenceIndex s)) \<and>
     (\<forall>k e. map_of (ms_evidenceIndex s) k = Some e \<longrightarrow> evidence_ok (ms_nextID s) k e) \<and>
     (\<forall>k e. ms_idempotency s k = Some e \<longrightarrow> entry_ok s e) \<and>
     (\<forall>k e. ms_evidenceIndexIdempotency s k = Some e \<longrightarrow> evidence_entry_ok s e) \<and>
     (\<forall>k e. ms_reconciliationIdempotency s k = Some e \<longrightarrow> reconciliation_entry_ok e)"

definition clock_ok :: "gotime \<Rightarrow> bool" where
  "clock_ok now \<longleftrightarrow> 0 < inst now \<and> time_marshalable (t_utc now)"

lemma receipt_ok_mono: "receipt_ok n k r \<Longrightarrow> n \<le> n' \<Longrightarrow> receipt_ok n' k r"
  by (fastforce simp: receipt_ok_def)

lemma evidence_ok_mono: "evidence_ok n k e \<Longrightarrow> n \<le> n' \<Longrightarrow> evidence_ok n' k e"
  by (fastforce simp: evidence_ok_def)

lemma store_ok_new [inv_intros]: "store_ok NewMemoryStore"
  by (simp add: store_ok_def NewMemoryStore_def)

lemma receipt_maps_clone: "receipt_maps (clone_receipt_input i) = map clone_map (receipt_maps i)"
  by (simp add: receipt_maps_def clone_receipt_input_def)

lemma forbidden_clone: "\<not> containsForbiddenReceiptKey (gomap_val m) \<Longrightarrow> \<not> containsForbiddenReceiptKey (gomap_val (clone_map m))"
  by (simp add: forbidden_scan gomap_val_clone marshalable_normalize key_within_normalize)

lemma accepted_type_not_retired:
  "validateReceiptInput input = None \<Longrightarrow> ri_Type input \<notin> set retired_receipt_types"
proof
  assume "validateReceiptInput input = None" and "ri_Type input \<in> set retired_receipt_types"
  from accepted_receipt_facts(2) [OF this(1)] this(2) show False
    by (auto simp: billingCostValid_def retired_receipt_types_def has_prefix_def has_suffix_def)
qed

lemma fresh_receipt_ok:
  assumes "validateReceiptInput input = None" and "clock_ok now"
  shows "receipt_ok (Suc (ms_nextID s)) (fst (newID ''receipt'' s)) (fresh_receipt now input s)"
proof -
  have maps: "receipt_maps (rc_Input (fresh_receipt now input s)) = map clone_map (receipt_maps input)"
    by (simp add: fresh_receipt_def clone_receipt_def clone_receipt_input_def receipt_maps_def)
  have "\<not> containsForbiddenReceiptKey (gomap_val m)" if "m \<in> set (receipt_maps input)" for m
    using accepted_receipt_facts(1) [OF assms(1)] receipt_map_within [OF that] that receipt_map_marshalable
    by (auto simp: forbidden_scan)
  then have "\<forall>m \<in> set (receipt_maps (rc_Input (fresh_receipt now input s))). \<not> containsForbiddenReceiptKey (gomap_val m)"
    by (auto simp: maps forbidden_clone)
  moreover have "\<exists>m. 0 < m \<and> m \<le> Suc (ms_nextID s) \<and> fst (newID ''receipt'' s) = ''receipt_'' @ pad_text 6 m"
    by (intro exI [of _ "Suc (ms_nextID s)"]) (simp add: newID_def Let_def)
  ultimately show ?thesis
    using assms(2) accepted_type_not_retired [OF assms(1)]
    by (simp add: receipt_ok_def fresh_receipt_def clock_ok_def gotime_defs empty_retention_def clone_receipt_def clone_receipt_input_def)
qed

lemma store_okD:
  assumes "store_ok s"
  shows "map_of (ms_receipts s) k = Some r \<Longrightarrow> receipt_ok (ms_nextID s) k r"
    and "map_of (ms_evidenceIndex s) k = Some e \<Longrightarrow> evidence_ok (ms_nextID s) k e"
    and "ms_idempotency s k = Some x \<Longrightarrow> entry_ok s x"
    and "ms_evidenceIndexIdempotency s k = Some x \<Longrightarrow> evidence_entry_ok s x"
    and "ms_reconciliationIdempotency s k = Some x \<Longrightarrow> reconciliation_entry_ok x"
    and "distinct (map fst (ms_receipts s))" and "distinct (map fst (ms_evidenceIndex s))"
  using assms unfolding store_ok_def by blast+

lemma fresh_id_receipt:
  assumes "store_ok s" shows "map_of (ms_receipts s) (fst (newID ''receipt'' s)) = None"
proof (cases "map_of (ms_receipts s) (fst (newID ''receipt'' s))")
  case (Some r)
  from store_okD(1) [OF assms Some] obtain m where "m \<le> ms_nextID s" "fst (newID ''receipt'' s) = ''receipt_'' @ pad_text 6 m"
    unfolding receipt_ok_def by blast
  then show ?thesis by (auto simp: newID_def Let_def dest: pad_text_inj)
qed

lemma fresh_id_evidence:
  assumes "store_ok s" shows "map_of (ms_evidenceIndex s) (fst (newID ''evidence'' s)) = None"
proof (cases "map_of (ms_evidenceIndex s) (fst (newID ''evidence'' s))")
  case (Some e)
  from store_okD(2) [OF assms Some] obtain m where "m \<le> ms_nextID s" "fst (newID ''evidence'' s) = ''evidence_'' @ pad_text 6 m"
    unfolding evidence_ok_def by blast
  then show ?thesis by (auto simp: newID_def Let_def dest: pad_text_inj)
qed


subsection \<open>Preservation\<close>

text \<open>How a stored receipt may change: its identity and its evidence are fixed, retention grows, and a
  redaction removes the personal maps once and for all.\<close>

definition without_personal :: "receipt_input \<Rightarrow> receipt_input" where
  "without_personal i = i\<lparr>ri_Actor := None, ri_Owner := None, ri_Continuation := None\<rparr>"

definition receipt_evolves :: "receipt \<Rightarrow> receipt \<Rightarrow> bool" where
  "receipt_evolves r r' \<longleftrightarrow>
     rc_ReceiptID r' = rc_ReceiptID r \<and> rc_CreatedAt r' = rc_CreatedAt r \<and> rc_Replayed r' = rc_Replayed r \<and>
     inst (rt_RetainUntil (rc_Retention r)) \<le> inst (rt_RetainUntil (rc_Retention r')) \<and>
     (rt_LegalHold (rc_Retention r) \<longrightarrow> rt_LegalHold (rc_Retention r')) \<and>
     (if rt_PrivacyRedaction (rc_Retention r') = rt_PrivacyRedaction (rc_Retention r)
      then rc_Input r' = rc_Input r
      else rt_PrivacyRedaction (rc_Retention r) = None \<and> rc_Input r' = without_personal (rc_Input r))"

lemma receipt_evolves_refl [simp]: "receipt_evolves r r"
  by (simp add: receipt_evolves_def)

lemma receipt_evolves_trans: "receipt_evolves a b \<Longrightarrow> receipt_evolves b c \<Longrightarrow> receipt_evolves a c"
  by (auto simp: receipt_evolves_def split: if_splits)

lemma evolves_extended:
  "clone_receipt r = r \<Longrightarrow> receipt_evolves r (clone_receipt (r\<lparr>rc_Retention := extended_retention i (rc_Retention r)\<rparr>))"
  by (cases r) (auto simp: receipt_evolves_def extended_retention_def clone_receipt_def gotime_defs)

lemma clone_without_personal:
  "clone_receipt_input i = i \<Longrightarrow> clone_receipt_input (without_personal i) = without_personal i"
  by (cases i) (simp add: clone_receipt_input_def without_personal_def clone_map_def)

lemma evolves_redacted:
  assumes "clone_receipt r = r"
  shows "receipt_evolves r (clone_receipt (redacted now reason r))"
proof (cases "rt_PrivacyRedaction (rc_Retention r) = None")
  case True
  have "clone_receipt_input (rc_Input r) = rc_Input r"
    using assms by (cases r) (simp add: clone_receipt_def)
  from clone_without_personal [OF this] True show ?thesis
    by (simp add: receipt_evolves_def redacted_def redact_receipt_def clone_receipt_def without_personal_def)
qed (use assms in \<open>auto simp: redacted_def\<close>)

lemma receipt_ok_evolves:
  assumes "receipt_ok n k r" and "receipt_evolves r r'" and "clone_receipt r' = r'"
  shows "receipt_ok n k r'"
proof -
  have nil: "\<not> containsForbiddenReceiptKey (gomap_val None)" by (simp add: forbidden_scan gomap_val_def)
  have "set (receipt_maps (without_personal i)) \<subseteq> insert None (set (receipt_maps i))" for i
    by (auto simp: receipt_maps_def without_personal_def)
  with assms nil have "\<forall>m \<in> set (receipt_maps (rc_Input r')). \<not> containsForbiddenReceiptKey (gomap_val m)"
    unfolding receipt_ok_def receipt_evolves_def by (fastforce split: if_splits)
  moreover have "rt_PrivacyRedaction (rc_Retention r') \<noteq> None \<longrightarrow>
      ri_Actor (rc_Input r') = None \<and> ri_Owner (rc_Input r') = None \<and> ri_Continuation (rc_Input r') = None"
    using assms unfolding receipt_ok_def receipt_evolves_def by (auto simp: without_personal_def split: if_splits)
  moreover have "ri_Type (rc_Input r') = ri_Type (rc_Input r)"
    using assms(2) unfolding receipt_evolves_def by (auto simp: without_personal_def split: if_splits)
  ultimately show ?thesis
    using assms unfolding receipt_ok_def receipt_evolves_def by simp
qed

lemma entry_ok_mono:
  "entry_ok s e \<Longrightarrow> dom (map_of (ms_receipts s)) \<subseteq> dom (map_of (ms_receipts s')) \<Longrightarrow> entry_ok s' e"
  by (auto simp: entry_ok_def split: idempotency_result.splits)

lemma evidence_entry_ok_mono:
  "evidence_entry_ok s e \<Longrightarrow> dom (map_of (ms_evidenceIndex s)) \<subseteq> dom (map_of (ms_evidenceIndex s')) \<Longrightarrow>
     evidence_entry_ok s' e"
  by (auto simp: evidence_entry_ok_def split: idempotency_result.splits)

text \<open>The invariant after a step that changes the tables at one place each.\<close>

lemma store_ok_step:
  assumes s: "store_ok s" and n: "ms_nextID s \<le> ms_nextID s'"
    and r: "ms_receipts s' = ms_receipts s \<or>
      (\<exists>k r. ms_receipts s' = AList.update k r (ms_receipts s) \<and> receipt_ok (ms_nextID s') k r)"
    and e: "ms_evidenceIndex s' = ms_evidenceIndex s \<or>
      (\<exists>k e. ms_evidenceIndex s' = AList.update k e (ms_evidenceIndex s) \<and> evidence_ok (ms_nextID s') k e)"
    and ti: "\<And>k x. ms_idempotency s' k = Some x \<Longrightarrow> ms_idempotency s k = Some x \<or> entry_ok s' x"
    and te: "\<And>k x. ms_evidenceIndexIdempotency s' k = Some x \<Longrightarrow>
      ms_evidenceIndexIdempotency s k = Some x \<or> evidence_entry_ok s' x"
    and tr: "\<And>k x. ms_reconciliationIdempotency s' k = Some x \<Longrightarrow>
      ms_reconciliationIdempotency s k = Some x \<or> reconciliation_entry_ok x"
  shows "store_ok s'"
proof -
  have dom_r: "dom (map_of (ms_receipts s)) \<subseteq> dom (map_of (ms_receipts s'))"
    using r by (auto simp: update_conv')
  have dom_e: "dom (map_of (ms_evidenceIndex s)) \<subseteq> dom (map_of (ms_evidenceIndex s'))"
    using e by (auto simp: update_conv')
  show ?thesis
    unfolding store_ok_def
  proof (intro conjI allI impI)
    show "distinct (map fst (ms_receipts s'))" and "distinct (map fst (ms_evidenceIndex s'))"
      using r e store_okD(6,7) [OF s] by (auto simp: distinct_update)
  next
    fix k r' assume "map_of (ms_receipts s') k = Some r'"
    then show "receipt_ok (ms_nextID s') k r'"
      using r receipt_ok_mono [OF store_okD(1) [OF s] n] by (auto simp: update_conv' split: if_splits)
  next
    fix k e' assume "map_of (ms_evidenceIndex s') k = Some e'"
    then show "evidence_ok (ms_nextID s') k e'"
      using e evidence_ok_mono [OF store_okD(2) [OF s] n] by (auto simp: update_conv' split: if_splits)
  next
    fix k x assume "ms_idempotency s' k = Some x"
    with ti show "entry_ok s' x" using store_okD(3) [OF s] entry_ok_mono [OF _ dom_r] by blast
  next
    fix k x assume "ms_evidenceIndexIdempotency s' k = Some x"
    with te show "evidence_entry_ok s' x" using store_okD(4) [OF s] evidence_entry_ok_mono [OF _ dom_e] by blast
  next
    fix k x assume "ms_reconciliationIdempotency s' k = Some x"
    with tr show "reconciliation_entry_ok x" using store_okD(5) [OF s] by blast
  qed
qed

lemma commit_retention_effect:
  "commit_retention key h k r s =
     (Inr \<lparr>rr_ReceiptID = rc_ReceiptID r, rr_Retention = rc_Retention r, rr_Replayed = False\<rparr>,
      s\<lparr>ms_receipts := AList.update k (clone_receipt r) (ms_receipts s),
        ms_idempotency := (ms_idempotency s)(key \<mapsto>
          \<lparr>ir_payloadHash = h,
           ir_result = IdemRetention \<lparr>rr_ReceiptID = rc_ReceiptID r, rr_Retention = rc_Retention r, rr_Replayed = False\<rparr>\<rparr>)\<rparr>)"
  by (simp add: commit_retention_def Let_def)

lemma store_ok_commit:
  assumes "store_ok s" and "map_of (ms_receipts s) k = Some r" and "receipt_evolves r (clone_receipt r')"
  shows "store_ok (snd (commit_retention key h k r' s))"
proof -
  have "receipt_ok (ms_nextID s) k (clone_receipt r')"
    using receipt_ok_evolves [OF store_okD(1) [OF assms(1,2)] assms(3)] by simp
  then show ?thesis
    unfolding commit_retention_effect
    by (intro store_ok_step [OF assms(1)]) (auto simp: entry_ok_def split: if_splits)
qed

lemma store_ok_RecordReceipt [inv_intros]:
  assumes "store_ok s" and "clock_ok now"
  shows "store_ok (snd (RecordReceipt d now input s))"
proof (cases "validateReceiptInput input = None \<and> ms_idempotency s (ri_IdempotencyKey input) = None")
  case True
  then have new: "receipt_ok (Suc (ms_nextID s)) (fst (newID ''receipt'' s)) (fresh_receipt now input s)"
    using fresh_receipt_ok assms(2) by blast
  with True show ?thesis
    by (intro store_ok_step [OF assms(1)]) (auto simp: RecordReceipt_fresh entry_ok_def update_conv' split: if_splits)
next
  case False
  then show ?thesis
    using assms(1) by (cases "validateReceiptInput input") (auto simp: RecordReceipt_cases)
qed

lemma store_ok_UpdateReceiptRetention [inv_intros]:
  assumes "store_ok s" shows "store_ok (snd (UpdateReceiptRetention d input s))"
  using assms evolves_extended store_okD(1) [OF assms] unfolding UpdateReceiptRetention_eq receipt_ok_def
  by (auto split: option.split intro!: store_ok_commit)

lemma store_ok_PrivacyDeleteReceipt [inv_intros]:
  assumes "store_ok s" shows "store_ok (snd (PrivacyDeleteReceipt d now now' input s))"
  using assms evolves_redacted store_okD(1) [OF assms] unfolding PrivacyDeleteReceipt_eq receipt_ok_def
  by (auto split: option.split intro!: store_ok_commit)

lemma fresh_reconciliation_ok:
  assumes "validateReconciliationInput input = None" and "well_formed_report (rci_Report input)"
  shows "validateReconciliationResult (fresh_reconciliation now input) = None"
proof -
  have "validateReconciliationReport (rci_Report input) = None"
    using assms(1) by (simp add: validateReconciliationInput_def split: if_splits)
  from validateReconciliationReport_clone [OF this assms(2)] show ?thesis
    by (simp add: validateReconciliationResult_def fresh_reconciliation_def clone_reconciliation_def Let_def)
qed

lemma store_ok_RecordReconciliation [inv_intros]:
  assumes "store_ok s" and "well_formed_report (rci_Report input)"
  shows "store_ok (snd (RecordReconciliation d now input s))"
proof -
  have "clone_reconciliation (fresh_reconciliation now input) = fresh_reconciliation now input"
    "\<not> rcr_Replayed (fresh_reconciliation now input)"
    by (simp_all add: fresh_reconciliation_def) (simp add: clone_reconciliation_def)
  then show ?thesis
    using assms fresh_reconciliation_ok [of input now]
    by (intro store_ok_step [OF assms(1)])
      (auto simp: RecordReconciliation_eq reconciliation_entry_ok_def split: option.splits if_splits)
qed

lemma fresh_evidence_ok:
  assumes "evidence_accepts u input"
  shows "evidence_ok (Suc (ms_nextID s)) (fst (newID ''evidence'' s)) (fresh_evidence now input s)"
proof -
  have "\<exists>m. 0 < m \<and> m \<le> Suc (ms_nextID s) \<and> fst (newID ''evidence'' s) = ''evidence_'' @ pad_text 6 m"
    by (intro exI [of _ "Suc (ms_nextID s)"]) (simp add: newID_def Let_def)
  with assms show ?thesis
    unfolding evidence_ok_def evidence_accepts_def validateEvidenceIndexInput_def
    by (auto simp: fresh_evidence_def clone_evidence_def split: if_splits)
qed

lemma store_ok_RecordEvidenceIndex [inv_intros]:
  assumes "store_ok s" shows "store_ok (snd (RecordEvidenceIndex d u now input s))"
proof (cases "evidence_accepts u input \<and> ms_evidenceIndexIdempotency s (ei_IdempotencyKey input) = None")
  case True
  then have new: "evidence_ok (Suc (ms_nextID s)) (fst (newID ''evidence'' s)) (fresh_evidence now input s)"
    using fresh_evidence_ok by blast
  with True show ?thesis
    by (intro store_ok_step [OF assms(1)])
      (auto simp: RecordEvidenceIndex_eq evidence_entry_ok_def update_conv' split: if_splits)
next
  case False
  then show ?thesis
    using assms(1) by (auto simp: RecordEvidenceIndex_eq split: option.split)
qed


section \<open>The operations meet the contract\<close>

definition result_id :: "idempotency_record \<Rightarrow> string option" where
  "result_id rec = (case ir_result rec of IdemID k \<Rightarrow> Some k | _ \<Rightarrow> None)"

definition result_retention :: "idempotency_record \<Rightarrow> (string \<times> receipt_retention) option" where
  "result_retention rec = (case ir_result rec of IdemRetention r \<Rightarrow> Some (rr_ReceiptID r, rr_Retention r) | _ \<Rightarrow> None)"

definition result_reconciliation :: "idempotency_record \<Rightarrow> reconciliation_result option" where
  "result_reconciliation rec =
     (case ir_result rec of IdemReconciliation r \<Rightarrow> Some (r\<lparr>rcr_Replayed := False\<rparr>) | _ \<Rightarrow> None)"

definition receipt_entry :: "digest \<Rightarrow> receipt_input \<Rightarrow> idempotency_record \<Rightarrow> bool" where
  "receipt_entry d i rec \<longleftrightarrow> ir_payloadHash rec = receipt_hash d i \<and> result_id rec \<noteq> None"

definition retention_entry :: "digest \<Rightarrow> receipt_retention_input \<Rightarrow> idempotency_record \<Rightarrow> bool" where
  "retention_entry d i rec \<longleftrightarrow> ir_payloadHash rec = retention_hash d i \<and> result_retention rec \<noteq> None"

definition privacy_entry :: "digest \<Rightarrow> receipt_privacy_delete_input \<Rightarrow> idempotency_record \<Rightarrow> bool" where
  "privacy_entry d i rec \<longleftrightarrow> ir_payloadHash rec = privacy_hash d i \<and> result_retention rec \<noteq> None"

definition reconciliation_entry :: "digest \<Rightarrow> reconciliation_input \<Rightarrow> idempotency_record \<Rightarrow> bool" where
  "reconciliation_entry d i rec \<longleftrightarrow> ir_payloadHash rec = reconciliation_hash d i \<and> result_reconciliation rec \<noteq> None"

definition evidence_entry_for :: "digest \<Rightarrow> evidence_input \<Rightarrow> idempotency_record \<Rightarrow> bool" where
  "evidence_entry_for d i rec \<longleftrightarrow> ir_payloadHash rec = evidence_hash d i \<and> result_id rec \<noteq> None"

lemmas entry_defs = receipt_entry_def retention_entry_def privacy_entry_def reconciliation_entry_def
  evidence_entry_for_def result_id_def result_retention_def result_reconciliation_def

interpretation receipts: idempotent_op RecordReceipt ms_idempotency ri_IdempotencyKey
  "\<lambda>_ i. validateReceiptInput i = None" receipt_entry receipt_hash result_id "\<lambda>r. Some (rc_ReceiptID r)" rc_Replayed store_ok
proof
  fix d and c :: gotime and i s err s' assume "RecordReceipt d c i s = (Inl err, s')"
  then show "s' = s"
    by (cases "validateReceiptInput i"; cases "ms_idempotency s (ri_IdempotencyKey i)") (auto simp: RecordReceipt_cases)
next
  fix c :: gotime and i d s assume "validateReceiptInput i \<noteq> None"
  then show "\<exists>err. RecordReceipt d c i s = (Inl err, s)" by (auto simp: RecordReceipt_cases)
next
  fix d and c :: gotime and i s r s' assume r: "RecordReceipt d c i s = (Inr r, s')"
  then have "validateReceiptInput i = None"
    by (cases "validateReceiptInput i") (auto simp: RecordReceipt_cases)
  with r show "\<exists>rec. ms_idempotency s' (ri_IdempotencyKey i) = Some rec \<and> receipt_entry d i rec \<and>
      (ms_idempotency s (ri_IdempotencyKey i) = None \<longrightarrow> result_id rec = Some (rc_ReceiptID r))"
    by (cases "ms_idempotency s (ri_IdempotencyKey i)")
      (auto simp: RecordReceipt_cases entry_defs fresh_receipt_def split: if_splits idempotency_result.splits)
next
  fix s and c :: gotime and i rec d
  assume s: "store_ok s" and v: "validateReceiptInput i = None" and t: "ms_idempotency s (ri_IdempotencyKey i) = Some rec"
    and e: "receipt_entry d i rec"
  then obtain k where k: "ir_result rec = IdemID k" "ir_payloadHash rec = receipt_hash d i"
    by (auto simp: entry_defs split: idempotency_result.splits)
  with store_okD(3) [OF s t] obtain r where r: "map_of (ms_receipts s) k = Some r"
    by (auto simp: entry_ok_def)
  with store_okD(1) [OF s r] k v t
  show "\<exists>r. RecordReceipt d c i s = (Inr r, s) \<and> rc_Replayed r \<and> Some (rc_ReceiptID r) = result_id rec"
    by (simp add: RecordReceipt_known entry_defs receipt_ok_def)
next
  fix c :: gotime and i and s :: memory_store and rec d
  assume "validateReceiptInput i = None" "ms_idempotency s (ri_IdempotencyKey i) = Some rec"
    "ir_payloadHash rec \<noteq> receipt_hash d i"
  then show "RecordReceipt d c i s = (Inl ErrIdempotencyConflict, s)" by (simp add: RecordReceipt_known)
next
  fix s :: memory_store and k rec d and c :: gotime and i assume "ms_idempotency s k = Some rec"
  then show "ms_idempotency (snd (RecordReceipt d c i s)) k = Some rec"
    by (cases "validateReceiptInput i"; cases "ms_idempotency s (ri_IdempotencyKey i)") (auto simp: RecordReceipt_cases)
qed (simp add: receipt_entry_def)

lemma replay_retention_known:
  "ir_payloadHash rec = h \<Longrightarrow> result_retention rec = Some (k, rt) \<Longrightarrow>
     \<exists>r. replay_retention rec h = Inr r \<and> rr_Replayed r \<and> rr_ReceiptID r = k \<and> rr_Retention r = rt"
  by (auto simp: replay_retention_def result_retention_def split: idempotency_result.splits)

lemma replay_retention_success:
  "replay_retention rec h = Inr r \<Longrightarrow> ir_payloadHash rec = h \<and> result_retention rec = Some (rr_ReceiptID r, rr_Retention r)"
  by (auto simp: replay_retention_def result_retention_def split: idempotency_result.splits if_splits)

lemma replay_retention_conflict:
  "ir_payloadHash rec \<noteq> h \<Longrightarrow> replay_retention rec h = Inl ErrIdempotencyConflict"
  by (simp add: replay_retention_def)

abbreviation retention_answer :: "receipt_retention_result \<Rightarrow> (string \<times> receipt_retention) option" where
  "retention_answer r \<equiv> Some (rr_ReceiptID r, rr_Retention r)"

interpretation retentions: idempotent_op "\<lambda>d (_::unit). UpdateReceiptRetention d" ms_idempotency retention_key
  "\<lambda>_. retention_accepts" retention_entry retention_hash result_retention retention_answer rr_Replayed store_ok
proof
  fix d i s r s' assume "UpdateReceiptRetention d i s = (Inr r, s')"
  then show "\<exists>rec. ms_idempotency s' (retention_key i) = Some rec \<and> retention_entry d i rec \<and>
      (ms_idempotency s (retention_key i) = None \<longrightarrow> result_retention rec = retention_answer r)"
    unfolding UpdateReceiptRetention_eq
    by (auto simp: commit_retention_effect entry_defs dest!: replay_retention_success split: if_splits option.splits)
next
  fix s :: memory_store and i rec d
  assume "retention_accepts i" "ms_idempotency s (retention_key i) = Some rec" "retention_entry d i rec"
  then show "\<exists>r. UpdateReceiptRetention d i s = (Inr r, s) \<and> rr_Replayed r \<and> retention_answer r = result_retention rec"
    unfolding UpdateReceiptRetention_eq retention_entry_def by (auto dest: replay_retention_known)
qed (auto simp: UpdateReceiptRetention_eq retention_entry_def replay_retention_conflict commit_retention_effect
    split: if_splits option.splits)

interpretation privacy: idempotent_op "\<lambda>d (now, now'). PrivacyDeleteReceipt d now now'" ms_idempotency privacy_key
  "\<lambda>_. privacy_accepts" privacy_entry privacy_hash result_retention retention_answer rr_Replayed store_ok
proof
  fix d and c :: "gotime \<times> gotime" and i s r s'
  assume "(case c of (now, now') \<Rightarrow> PrivacyDeleteReceipt d now now') i s = (Inr r, s')"
  then show "\<exists>rec. ms_idempotency s' (privacy_key i) = Some rec \<and> privacy_entry d i rec \<and>
      (ms_idempotency s (privacy_key i) = None \<longrightarrow> result_retention rec = retention_answer r)"
    unfolding PrivacyDeleteReceipt_eq
    by (auto simp: commit_retention_effect entry_defs dest!: replay_retention_success split: if_splits option.splits prod.splits)
next
  fix s :: memory_store and c :: "gotime \<times> gotime" and i rec d
  assume "privacy_accepts i" "ms_idempotency s (privacy_key i) = Some rec" "privacy_entry d i rec"
  then show "\<exists>r. (case c of (now, now') \<Rightarrow> PrivacyDeleteReceipt d now now') i s = (Inr r, s) \<and> rr_Replayed r \<and>
      retention_answer r = result_retention rec"
    unfolding PrivacyDeleteReceipt_eq privacy_entry_def by (auto dest: replay_retention_known split: prod.splits)
qed (auto simp: PrivacyDeleteReceipt_eq privacy_entry_def replay_retention_conflict commit_retention_effect
    split: if_splits option.splits prod.splits)

interpretation reconciliations: idempotent_op RecordReconciliation ms_reconciliationIdempotency rci_IdempotencyKey
  "\<lambda>_ i. validateReconciliationInput i = None" reconciliation_entry reconciliation_hash result_reconciliation
  "\<lambda>r. Some (r\<lparr>rcr_Replayed := False\<rparr>)" rcr_Replayed store_ok
proof
  fix d and c :: gotime and i s r s' assume "RecordReconciliation d c i s = (Inr r, s')"
  then show "\<exists>rec. ms_reconciliationIdempotency s' (rci_IdempotencyKey i) = Some rec \<and> reconciliation_entry d i rec \<and>
      (ms_reconciliationIdempotency s (rci_IdempotencyKey i) = None \<longrightarrow> result_reconciliation rec = Some (r\<lparr>rcr_Replayed := False\<rparr>))"
    unfolding RecordReconciliation_eq
    by (auto simp: entry_defs split: if_splits option.splits idempotency_result.split_asm)
next
  fix s and c :: gotime and i rec d
  assume s: "store_ok s" and "validateReconciliationInput i = None"
    and t: "ms_reconciliationIdempotency s (rci_IdempotencyKey i) = Some rec" and "reconciliation_entry d i rec"
  with store_okD(5) [OF s t]
  show "\<exists>r. RecordReconciliation d c i s = (Inr r, s) \<and> rcr_Replayed r \<and> Some (r\<lparr>rcr_Replayed := False\<rparr>) = result_reconciliation rec"
    unfolding RecordReconciliation_eq
    by (auto simp: entry_defs reconciliation_entry_ok_def split: idempotency_result.splits)
qed (auto simp: RecordReconciliation_eq reconciliation_entry_def split: if_splits option.splits)

interpretation evidence: idempotent_op "\<lambda>d (u, now). RecordEvidenceIndex d u now" ms_evidenceIndexIdempotency ei_IdempotencyKey
  "\<lambda>(u, _). evidence_accepts u" evidence_entry_for evidence_hash result_id "\<lambda>e. Some (ee_EvidenceID e)" ee_Replayed store_ok
proof
  fix d and c :: "url_parser \<times> gotime" and i s r s'
  assume "(case c of (u, now) \<Rightarrow> RecordEvidenceIndex d u now) i s = (Inr r, s')"
  then show "\<exists>rec. ms_evidenceIndexIdempotency s' (ei_IdempotencyKey i) = Some rec \<and> evidence_entry_for d i rec \<and>
      (ms_evidenceIndexIdempotency s (ei_IdempotencyKey i) = None \<longrightarrow> result_id rec = Some (ee_EvidenceID r))"
    unfolding RecordEvidenceIndex_eq
    by (auto simp: entry_defs fresh_evidence_def split: prod.splits if_splits option.splits idempotency_result.splits)
next
  fix s and c :: "url_parser \<times> gotime" and i rec d
  assume s: "store_ok s" and a: "(case c of (u, uu_) \<Rightarrow> evidence_accepts u) i"
    and t: "ms_evidenceIndexIdempotency s (ei_IdempotencyKey i) = Some rec" and e: "evidence_entry_for d i rec"
  then obtain k where k: "ir_result rec = IdemID k" "ir_payloadHash rec = evidence_hash d i"
    by (auto simp: entry_defs split: idempotency_result.splits)
  with store_okD(4) [OF s t] obtain x where x: "map_of (ms_evidenceIndex s) k = Some x"
    by (auto simp: evidence_entry_ok_def)
  with store_okD(2) [OF s x] k a t
  show "\<exists>r. (case c of (u, now) \<Rightarrow> RecordEvidenceIndex d u now) i s = (Inr r, s) \<and> ee_Replayed r \<and>
      Some (ee_EvidenceID r) = result_id rec"
    by (cases c) (simp add: RecordEvidenceIndex_eq entry_defs evidence_ok_def)
qed (auto simp: RecordEvidenceIndex_eq evidence_entry_for_def split: prod.splits if_splits option.splits)


section \<open>Histories\<close>

text \<open>
  The requests that change the store. A request is well formed when the clock shows a time after year 1
  that JSON can represent and a report is a Go map (distinct keys, integers in range).
\<close>

datatype ledger_command =
    CmdRecordReceipt gotime receipt_input
  | CmdUpdateRetention receipt_retention_input
  | CmdPrivacyDelete gotime gotime receipt_privacy_delete_input
  | CmdRecordReconciliation gotime reconciliation_input
  | CmdRecordEvidence gotime evidence_input

fun command_ok :: "ledger_command \<Rightarrow> bool" where
  "command_ok (CmdRecordReceipt now i) = clock_ok now"
| "command_ok (CmdRecordReconciliation now i) = well_formed_report (rci_Report i)"
| "command_ok _ = True"

fun exec :: "digest \<Rightarrow> url_parser \<Rightarrow> ledger_command \<Rightarrow> memory_store \<Rightarrow> memory_store" where
  "exec d u (CmdRecordReceipt now i) s = snd (RecordReceipt d now i s)"
| "exec d u (CmdUpdateRetention i) s = snd (UpdateReceiptRetention d i s)"
| "exec d u (CmdPrivacyDelete now now' i) s = snd (PrivacyDeleteReceipt d now now' i s)"
| "exec d u (CmdRecordReconciliation now i) s = snd (RecordReconciliation d now i s)"
| "exec d u (CmdRecordEvidence now i) s = snd (RecordEvidenceIndex d u now i s)"

inductive ledger_steps :: "digest \<Rightarrow> url_parser \<Rightarrow> memory_store \<Rightarrow> memory_store \<Rightarrow> bool" for d u where
  none: "ledger_steps d u s s"
| more: "ledger_steps d u s s' \<Longrightarrow> command_ok c \<Longrightarrow> ledger_steps d u s (exec d u c s')"

definition ledger_reachable :: "digest \<Rightarrow> url_parser \<Rightarrow> memory_store \<Rightarrow> bool" where
  "ledger_reachable d u s = ledger_steps d u NewMemoryStore s"

lemma exec_store_ok [inv_intros]: "store_ok s \<Longrightarrow> command_ok c \<Longrightarrow> store_ok (exec d u c s)"
  by (cases c) (auto intro: inv_intros)

lemma steps_store_ok: "ledger_steps d u s s' \<Longrightarrow> store_ok s \<Longrightarrow> store_ok s'"
  by (induction rule: ledger_steps.induct) (auto intro: inv_intros)

lemma reachable_store_ok: "ledger_reachable d u s \<Longrightarrow> store_ok s"
  by (auto simp: ledger_reachable_def intro: steps_store_ok inv_intros)

lemma exec_keeps_entry: "ms_idempotency s k = Some x \<Longrightarrow> ms_idempotency (exec d u c s) k = Some x"
  by (cases c)
    (auto simp: RecordReconciliation_eq RecordEvidenceIndex_eq
      intro: receipts.keeps retentions.keeps privacy.keeps [of _ _ _ _ "(now, now')" for now now', simplified]
      split: option.splits)

lemma exec_keeps_reconciliation:
  "ms_reconciliationIdempotency s k = Some x \<Longrightarrow> ms_reconciliationIdempotency (exec d u c s) k = Some x"
proof (cases c)
  case (CmdRecordReceipt now i)
  assume "ms_reconciliationIdempotency s k = Some x"
  then show ?thesis
    by (cases "validateReceiptInput i"; cases "ms_idempotency s (ri_IdempotencyKey i)")
      (auto simp: CmdRecordReceipt RecordReceipt_cases)
qed (auto simp: UpdateReceiptRetention_eq PrivacyDeleteReceipt_eq commit_retention_effect RecordReconciliation_eq
    RecordEvidenceIndex_eq split: option.splits)

lemma steps_keep_entry: "ledger_steps d u s s' \<Longrightarrow> ms_idempotency s k = Some x \<Longrightarrow> ms_idempotency s' k = Some x"
  by (induction rule: ledger_steps.induct) (auto intro: exec_keeps_entry)

lemma steps_keep_reconciliation:
  "ledger_steps d u s s' \<Longrightarrow> ms_reconciliationIdempotency s k = Some x \<Longrightarrow> ms_reconciliationIdempotency s' k = Some x"
  by (induction rule: ledger_steps.induct) (auto intro: exec_keeps_reconciliation)

lemma commit_evolves:
  assumes "map_of (ms_receipts s) k = Some r0" and "receipt_evolves r0 (clone_receipt r')"
    and "map_of (ms_receipts s) j = Some r"
  shows "\<exists>r''. map_of (ms_receipts (snd (commit_retention key h k r' s))) j = Some r'' \<and> receipt_evolves r r''"
  using assms by (cases "j = k") (auto simp: commit_retention_effect update_conv')

lemma exec_evolves:
  assumes "store_ok s" and "map_of (ms_receipts s) k = Some r"
  shows "\<exists>r'. map_of (ms_receipts (exec d u c s)) k = Some r' \<and> receipt_evolves r r'"
proof (cases c)
  case (CmdRecordReceipt now i)
  have "fst (newID ''receipt'' s) \<noteq> k" using fresh_id_receipt [OF assms(1)] assms(2) by auto
  then show ?thesis
    using assms(2)
    by (cases "validateReceiptInput i"; cases "ms_idempotency s (ri_IdempotencyKey i)")
      (auto simp: CmdRecordReceipt RecordReceipt_cases update_conv')
next
  case (CmdUpdateRetention i)
  show ?thesis
    using assms(2) store_okD(1) [OF assms(1)] unfolding CmdUpdateRetention exec.simps UpdateReceiptRetention_eq receipt_ok_def
    by (auto split: option.split intro!: commit_evolves evolves_extended)
next
  case (CmdPrivacyDelete now now' i)
  show ?thesis
    using assms(2) store_okD(1) [OF assms(1)] unfolding CmdPrivacyDelete exec.simps PrivacyDeleteReceipt_eq receipt_ok_def
    by (auto split: option.split intro!: commit_evolves evolves_redacted)
qed (use assms(2) in \<open>auto simp: RecordReconciliation_eq RecordEvidenceIndex_eq split: option.split\<close>)

lemma steps_evolve:
  assumes "ledger_steps d u s s'" and "store_ok s" and "map_of (ms_receipts s) k = Some r"
  shows "\<exists>r'. map_of (ms_receipts s') k = Some r' \<and> receipt_evolves r r'"
  using assms
proof (induction rule: ledger_steps.induct)
  case (more s s' c)
  then obtain r' where "map_of (ms_receipts s') k = Some r'" "receipt_evolves r r'" by blast
  moreover have "store_ok s'" using steps_store_ok [OF more.hyps(1) more.prems(1)] .
  ultimately show ?case using exec_evolves [of s' k r' d u c] receipt_evolves_trans by blast
qed auto


section \<open>Properties of the store\<close>

lemma RecordReceipt_first:
  assumes "RecordReceipt d now i s = (Inr r, s1)" and "\<not> rc_Replayed r"
  shows "validateReceiptInput i = None" and "ms_idempotency s (ri_IdempotencyKey i) = None"
    and "r = fresh_receipt now i s" and "map_of (ms_receipts s1) (rc_ReceiptID r) = Some r"
    and "ms_idempotency s1 (ri_IdempotencyKey i) =
      Some \<lparr>ir_payloadHash = receipt_hash d i, ir_result = IdemID (rc_ReceiptID r)\<rparr>"
proof -
  show v: "validateReceiptInput i = None" using receipts.success_accepted [OF assms(1)] .
  show n: "ms_idempotency s (ri_IdempotencyKey i) = None"
    using assms v by (cases "ms_idempotency s (ri_IdempotencyKey i)")
      (auto simp: RecordReceipt_known split: if_splits idempotency_result.splits option.splits)
  show "r = fresh_receipt now i s" and "map_of (ms_receipts s1) (rc_ReceiptID r) = Some r"
    and "ms_idempotency s1 (ri_IdempotencyKey i) =
      Some \<lparr>ir_payloadHash = receipt_hash d i, ir_result = IdemID (rc_ReceiptID r)\<rparr>"
    using assms(1) by (auto simp: RecordReceipt_fresh [OF v n] update_conv' fresh_receipt_def)
qed

text \<open>
  C3: a receipt is recorded exactly once. After a request was answered with a new receipt, the same
  request, sent again after any number of other requests, is answered with that receipt (same
  identifier, same time) marked as replayed, and the store does not change.
\<close>

theorem receipt_recorded_exactly_once:
  assumes "ledger_reachable d u s" and "clock_ok now"
    and "RecordReceipt d now i s = (Inr r, s1)" and "\<not> rc_Replayed r" and "ledger_steps d u s1 s2"
  shows "\<exists>r'. RecordReceipt d now' i s2 = (Inr r', s2) \<and> rc_Replayed r' \<and>
    rc_ReceiptID r' = rc_ReceiptID r \<and> rc_CreatedAt r' = rc_CreatedAt r"
proof -
  note first = RecordReceipt_first [OF assms(3,4)]
  have "store_ok s1"
    using store_ok_RecordReceipt [OF reachable_store_ok [OF assms(1)] assms(2), of d i] assms(3) by simp
  from steps_evolve [OF assms(5) this first(4)] obtain r2
    where r2: "map_of (ms_receipts s2) (rc_ReceiptID r) = Some r2" "receipt_evolves r r2" by blast
  have "ms_idempotency s2 (ri_IdempotencyKey i) = Some \<lparr>ir_payloadHash = receipt_hash d i, ir_result = IdemID (rc_ReceiptID r)\<rparr>"
    using steps_keep_entry [OF assms(5) first(5)] .
  with r2 show ?thesis
    by (simp add: RecordReceipt_known [OF first(1)] receipt_evolves_def)
qed

text \<open>
  C29: a key that was used is never reused: a request with the same key and another payload (another
  digest of it) is refused with the conflict error and changes nothing, at any later time.
\<close>

theorem reused_receipt_key_conflicts:
  assumes "RecordReceipt d now i s = (Inr r, s1)" and "ledger_steps d u s1 s2"
    and "validateReceiptInput j = None" and "ri_IdempotencyKey j = ri_IdempotencyKey i"
    and "receipt_hash d j \<noteq> receipt_hash d i"
  shows "RecordReceipt d now' j s2 = (Inl ErrIdempotencyConflict, s2)"
proof -
  obtain x where "ms_idempotency s1 (ri_IdempotencyKey i) = Some x" using receipts.records [OF assms(1)] by blast
  with steps_keep_entry [OF assms(2) this] show ?thesis
    by (intro receipts.reuse_conflicts [OF assms(1,3-5)]) simp
qed


text \<open>
  C30: no receipt of a reachable store has, in any of its maps at any depth, a key that names a secret.
\<close>

theorem stored_receipts_name_no_secret:
  assumes "ledger_reachable d u s" and "map_of (ms_receipts s) k = Some r"
    and "m \<in> set (receipt_maps (rc_Input r))" and "key_within (gomap_val m) j"
  shows "to_lower j \<notin> set forbidden_keys"
  using store_okD(1) [OF reachable_store_ok [OF assms(1)] assms(2)] assms(3,4)
  by (auto simp: receipt_ok_def forbidden_scan forbidden_key_def)

text \<open>
  C7: a privacy deletion that takes effect found no legal hold and no retention beyond the clock's
  time, and leaves the receipt without its actor, owner and continuation, and with redaction evidence.
\<close>

theorem privacy_delete_is_guarded:
  assumes "ledger_reachable d u s" and "PrivacyDeleteReceipt d now now' i s = (Inr res, s')" and "\<not> rr_Replayed res"
  shows "\<exists>r r'. map_of (ms_receipts s) (pdi_ReceiptID i) = Some r \<and>
    \<not> rt_LegalHold (rc_Retention r) \<and> inst (rt_RetainUntil (rc_Retention r)) \<le> inst now \<and>
    map_of (ms_receipts s') (pdi_ReceiptID i) = Some r' \<and> rr_Retention res = rc_Retention r' \<and>
    rt_PrivacyRedaction (rc_Retention r') \<noteq> None \<and>
    ri_Actor (rc_Input r') = None \<and> ri_Owner (rc_Input r') = None \<and> ri_Continuation (rc_Input r') = None"
proof -
  have s: "store_ok s" using assms(1) by (rule reachable_store_ok)
  obtain r where r: "map_of (ms_receipts s) (pdi_ReceiptID i) = Some r" "\<not> rt_LegalHold (rc_Retention r)"
      "\<not> t_after (rt_RetainUntil (rc_Retention r)) (t_utc now)"
      "commit_retention (privacy_key i) (privacy_hash d i) (pdi_ReceiptID i) (redacted now' (pdi_Reason i) r) s = (Inr res, s')"
    using assms(2,3) unfolding PrivacyDeleteReceipt_eq
    by (auto simp: replay_retention_def split: if_splits option.splits idempotency_result.splits)
  let ?r' = "clone_receipt (redacted now' (pdi_Reason i) r)"
  have ok: "receipt_ok (ms_nextID s) (pdi_ReceiptID i) r" using store_okD(1) [OF s r(1)] .
  then have "receipt_ok (ms_nextID s) (pdi_ReceiptID i) ?r'"
    by (intro receipt_ok_evolves [OF ok] evolves_redacted) (simp_all add: receipt_ok_def)
  moreover have "rt_PrivacyRedaction (rc_Retention ?r') \<noteq> None"
    by (simp add: redacted_def redact_receipt_def)
  moreover have "map_of (ms_receipts s') (pdi_ReceiptID i) = Some ?r'" "rr_Retention res = rc_Retention ?r'"
    using r(4) by (auto simp: commit_retention_effect update_conv')
  ultimately show ?thesis
    using r(1-3) by (intro exI [of _ r] exI [of _ ?r']) (simp add: receipt_ok_def gotime_defs)
qed

text \<open>
  A reconciliation result is recorded exactly once: the same report under the same key is answered
  later with the same result, marked as replayed, and the re-validation of the stored result passes.
\<close>

theorem reconciliation_recorded_exactly_once:
  assumes "ledger_reachable d u s" and "well_formed_report (rci_Report i)"
    and "RecordReconciliation d now i s = (Inr r, s1)" and "\<not> rcr_Replayed r" and "ledger_steps d u s1 s2"
  shows "RecordReconciliation d now' i s2 = (Inr (r\<lparr>rcr_Replayed := True\<rparr>), s2)"
proof -
  have s: "store_ok s" using assms(1) by (rule reachable_store_ok)
  have s1: "store_ok s1" using store_ok_RecordReconciliation [OF s assms(2), of d now] assms(3) by simp
  have s2: "store_ok s2" using steps_store_ok [OF assms(5) s1] .
  have v: "validateReconciliationInput i = None" using reconciliations.success_accepted [OF assms(3)] .
  have fresh: "ms_reconciliationIdempotency s (rci_IdempotencyKey i) = None"
    using assms(3,4) v by (auto simp: RecordReconciliation_eq split: option.splits if_splits idempotency_result.splits)
  obtain x where x: "ms_reconciliationIdempotency s1 (rci_IdempotencyKey i) = Some x"
    using reconciliations.records [OF assms(3)] by blast
  with steps_keep_reconciliation [OF assms(5) x]
  obtain r' where r': "RecordReconciliation d now' i s2 = (Inr r', s2)" "rcr_Replayed r'" "r'\<lparr>rcr_Replayed := False\<rparr> = r\<lparr>rcr_Replayed := False\<rparr>"
    using reconciliations.exactly_once [OF assms(3) fresh s2 v, of now'] by auto
  moreover from this have "r' = r\<lparr>rcr_Replayed := True\<rparr>"
    by (cases r; cases r') simp
  ultimately show ?thesis by simp
qed

text \<open>
  Receipts and retention updates share one table of keys. A receipt recorded under the key
  \<^verbatim>\<open>receipt-retention:k\<close> makes every later retention update with the key \<^verbatim>\<open>k\<close> fail, although \<^verbatim>\<open>k\<close> was
  never used for one.
\<close>

theorem receipt_key_blocks_retention_update:
  assumes "RecordReceipt d now i s = (Inr r, s1)" and "\<not> rc_Replayed r" and "ledger_steps d u s1 s2"
    and "ri_IdempotencyKey i = ''receipt-retention:'' @ rti_IdempotencyKey j"
  shows "\<exists>err. UpdateReceiptRetention d j s2 = (Inl err, s2)"
proof -
  have "ms_idempotency s2 (retention_key j) = Some \<lparr>ir_payloadHash = receipt_hash d i, ir_result = IdemID (rc_ReceiptID r)\<rparr>"
    using steps_keep_entry [OF assms(3) RecordReceipt_first(5) [OF assms(1,2)]] assms(4) by (simp add: retention_key_def)
  then show ?thesis by (simp add: UpdateReceiptRetention_eq replay_retention_def)
qed

end
