(* ===== verification/Ledger_Http.thy ===== *)
theory Ledger_Http
  imports Ledger_Invariants
begin

text \<open>
  The HTTP interface of the ledger (\<^verbatim>\<open>services/ledger/internal/http/server.go\<close> and
  \<^verbatim>\<open>capability.go\<close>): the bearer token, the capability that binds a request to its caller, body, owner and
  minute, and one handler per route on the in-memory store. SHA-256, HMAC, base64 and the JSON decoders
  are parameters, collected in the record \<open>http_codec\<close>.
\<close>

section \<open>Requests\<close>

record http_request =
  hr_Method :: string
  hr_Path :: string \<comment> \<open>\<^verbatim>\<open>r.URL.Path\<close>\<close>
  hr_Segments :: "string list" \<comment> \<open>the segments of the escaped path, each unescaped, as the router sees them\<close>
  hr_URI :: string \<comment> \<open>\<^verbatim>\<open>r.URL.RequestURI()\<close>\<close>
  hr_Query :: "string \<Rightarrow> string" \<comment> \<open>\<^verbatim>\<open>r.URL.Query().Get\<close>\<close>
  hr_Header :: "string \<Rightarrow> string" \<comment> \<open>\<^verbatim>\<open>r.Header.Get\<close>\<close>
  hr_Body :: string

record capability_scope =
  sc_AccountID :: string
  sc_WorkspaceID :: string
  sc_ResourceKind :: string
  sc_ResourceID :: string
  sc_Action :: string
  sc_OperationID :: string

record capability_claims =
  cl_Version :: int
  cl_Caller :: string
  cl_AccountID :: string
  cl_WorkspaceID :: string
  cl_ResourceKind :: string
  cl_ResourceID :: string
  cl_Action :: string
  cl_OperationID :: string
  cl_ExpiresAt :: int
  cl_BodySHA256 :: string

record http_codec =
  hx_sha256hex :: "string \<Rightarrow> string"
  hx_hmac :: "string \<Rightarrow> string \<Rightarrow> string" \<comment> \<open>key and message\<close>
  hx_base64 :: "string \<Rightarrow> string option" \<comment> \<open>\<^verbatim>\<open>base64.RawURLEncoding.DecodeString\<close>\<close>
  hx_claims :: "string \<Rightarrow> capability_claims option"
  hx_object :: "string \<Rightarrow> gomap option" \<comment> \<open>\<^verbatim>\<open>json.Unmarshal\<close> into a map\<close>
  hx_receipt :: "string \<Rightarrow> receipt_input option"
  hx_retention :: "string \<Rightarrow> receipt_retention_input option"
  hx_privacy :: "string \<Rightarrow> receipt_privacy_delete_input option"
  hx_reconciliation :: "string \<Rightarrow> reconciliation_input option"
  hx_evidence :: "string \<Rightarrow> evidence_input option"

definition ledgerCapabilityHeader :: string where
  "ledgerCapabilityHeader = ''X-OPL-Ledger-Capability''"

definition maxJSONBodyBytes :: nat where
  "maxJSONBodyBytes = 1048576"

text \<open>\<^verbatim>\<open>strings.Split\<close> by one character and \<^verbatim>\<open>strings.Trim\<close> of slashes.\<close>

fun split_char :: "char \<Rightarrow> string \<Rightarrow> string list" where
  "split_char c [] = [[]]"
| "split_char c (x # xs) =
     (if x = c then [] # split_char c xs
      else (case split_char c xs of [] \<Rightarrow> [[x]] | p # ps \<Rightarrow> (x # p) # ps))"

definition trim_slashes :: "string \<Rightarrow> string" where
  "trim_slashes s = rev (dropWhile (\<lambda>c. c = CHR ''/'') (rev (dropWhile (\<lambda>c. c = CHR ''/'') s)))"

definition path_parts :: "http_request \<Rightarrow> string list" where
  "path_parts r = split_char (CHR ''/'') (trim_slashes (hr_Path r))"

section \<open>Capabilities\<close>

definition requestOperationID :: "http_codec \<Rightarrow> http_request \<Rightarrow> string" where
  "requestOperationID x r = ''request:'' @ hx_sha256hex x (hr_Method r @ '' '' @ hr_URI r)"

definition object_text :: "gomap \<Rightarrow> string \<Rightarrow> string" where
  "object_text m key = str_or_empty (mget m key)"

definition ledgerCapabilityScopeForRequest :: "http_codec \<Rightarrow> http_request \<Rightarrow> string \<Rightarrow> capability_scope option" where
  "ledgerCapabilityScopeForRequest x r body =
     (case (if body \<noteq> [] then hx_object x body else Some None) of
        None \<Rightarrow> None
      | Some input \<Rightarrow>
          (let parts = path_parts r; query = (\<lambda>k. trim_space (hr_Query r k));
               value = (\<lambda>name. trim_space (object_text input name));
               post = (hr_Method r = ''POST''); get = (hr_Method r = ''GET'');
               scope = \<lparr>sc_AccountID = value ''accountId'', sc_WorkspaceID = value ''workspaceId'', sc_ResourceKind = [],
                        sc_ResourceID = [], sc_Action = [], sc_OperationID = trim_space (hr_Header r ''Idempotency-Key'')\<rparr>;
               receipt_path = (\<lambda>n. length parts = n \<and> parts ! 0 = ''ledger'' \<and> parts ! 1 = ''receipts'');
               scope =
                 (if post \<and> hr_Path r = ''/ledger/receipts'' then
                    scope\<lparr>sc_ResourceKind := ''receipt'', sc_ResourceID := sc_OperationID scope, sc_Action := ''record_receipt''\<rparr>
                  else if get \<and> hr_Path r = ''/ledger/receipts'' then
                    scope\<lparr>sc_AccountID := query ''accountId'', sc_ResourceKind := ''receipt_collection'',
                      sc_ResourceID := query ''accountId'', sc_Action := ''list_receipts'', sc_OperationID := requestOperationID x r\<rparr>
                  else if get \<and> receipt_path 3 then
                    scope\<lparr>sc_AccountID := query ''accountId'', sc_WorkspaceID := query ''workspaceId'', sc_ResourceKind := ''receipt'',
                      sc_ResourceID := parts ! 2, sc_Action := ''read_receipt'', sc_OperationID := requestOperationID x r\<rparr>
                  else if post \<and> receipt_path 4 \<and> parts ! 3 = ''retention'' then
                    scope\<lparr>sc_AccountID := query ''accountId'', sc_WorkspaceID := query ''workspaceId'', sc_ResourceKind := ''receipt'',
                      sc_ResourceID := parts ! 2, sc_Action := ''update_receipt_retention''\<rparr>
                  else if post \<and> receipt_path 4 \<and> parts ! 3 = ''privacy-delete'' then
                    scope\<lparr>sc_AccountID := query ''accountId'', sc_WorkspaceID := query ''workspaceId'', sc_ResourceKind := ''receipt'',
                      sc_ResourceID := parts ! 2, sc_Action := ''privacy_delete_receipt''\<rparr>
                  else if post \<and> hr_Path r = ''/ledger/reconciliation'' then
                    (let report = as_obj (mget input ''report'') in
                     scope\<lparr>sc_AccountID := trim_space (object_text report ''accountId''),
                       sc_WorkspaceID := trim_space (object_text report ''workspaceId''), sc_ResourceKind := ''reconciliation'',
                       sc_ResourceID := trim_space (object_text report ''id''), sc_Action := ''record_reconciliation''\<rparr>)
                  else if post \<and> hr_Path r = ''/ledger/evidence-index'' then
                    scope\<lparr>sc_ResourceKind := ''evidence_index'', sc_ResourceID := value ''operationId'', sc_Action := ''record_evidence_index''\<rparr>
                  else if get \<and> (hr_Path r = ''/ledger/evidence-index'' \<or> hr_Path r = ''/ledger/evidence-index/export'') then
                    (let resourceID = query ''operationId'';
                         resourceID = (if resourceID = [] then query ''candidateSha'' else resourceID);
                         resourceID = (if resourceID = [] then requestOperationID x r else resourceID)
                     in scope\<lparr>sc_ResourceKind := ''evidence_index'', sc_ResourceID := resourceID, sc_Action := ''read_evidence_index'',
                          sc_OperationID := requestOperationID x r\<rparr>)
                  else scope)
           in if sc_ResourceKind scope \<noteq> [] \<and> sc_ResourceID scope \<noteq> [] \<and> sc_Action scope \<noteq> [] \<and> sc_OperationID scope \<noteq> []
              then Some scope else None))"

text \<open>\<^verbatim>\<open>now.Unix()\<close>: the whole seconds of the clock.\<close>

definition unix_seconds :: "gotime \<Rightarrow> int" where
  "unix_seconds t = inst t div 1000000000 - 62135596800"

definition preverifyLedgerCapability ::
    "http_codec \<Rightarrow> string \<Rightarrow> string \<Rightarrow> capability_scope \<Rightarrow> string \<Rightarrow> gotime \<Rightarrow> capability_claims option" where
  "preverifyLedgerCapability x raw key expected body now =
     (case split_char (CHR ''.'') raw of
        [encoded, sig] \<Rightarrow>
          if key = [] then None
          else if hx_base64 x sig \<noteq> Some (hx_hmac x key encoded) then None
          else
            (case hx_base64 x encoded of
               None \<Rightarrow> None
             | Some payload \<Rightarrow>
                 (case hx_claims x payload of
                    None \<Rightarrow> None
                  | Some claims \<Rightarrow>
                      if cl_Version claims = 1 \<and> cl_Caller claims = ''control-plane'' \<and>
                         cl_ResourceKind claims = sc_ResourceKind expected \<and> cl_ResourceID claims = sc_ResourceID expected \<and>
                         cl_Action claims = sc_Action expected \<and> cl_OperationID claims = sc_OperationID expected \<and>
                         cl_ExpiresAt claims > unix_seconds now \<and>
                         cl_ExpiresAt claims \<le> unix_seconds (GoTime (inst now + 120000000000) (zone now)) \<and>
                         cl_BodySHA256 claims = hx_sha256hex x body
                      then Some claims else None))
      | _ \<Rightarrow> None)"

definition ledgerOwnerClaimsMatch :: "capability_claims \<Rightarrow> capability_scope \<Rightarrow> bool" where
  "ledgerOwnerClaimsMatch claims scope =
     (if cl_Action claims = ''record_evidence_index'' \<or> cl_Action claims = ''read_evidence_index'' then
        cl_ResourceKind claims = sc_ResourceKind scope \<and> cl_ResourceID claims = sc_ResourceID scope
      else if cl_Action claims = ''read_receipt'' then
        cl_AccountID claims \<noteq> [] \<and> cl_AccountID claims = sc_AccountID scope \<and>
        (cl_WorkspaceID claims = [] \<or> cl_WorkspaceID claims = sc_WorkspaceID scope)
      else cl_AccountID claims = sc_AccountID scope \<and> cl_WorkspaceID claims = sc_WorkspaceID scope)"

text \<open>The owner of the receipt named in the path, where there is one; \<open>None\<close> is an error.\<close>

definition enrichLedgerOwnerScope :: "http_request \<Rightarrow> memory_store \<Rightarrow> capability_scope \<Rightarrow> capability_scope option" where
  "enrichLedgerOwnerScope r s scope =
     (let parts = path_parts r in
      if length parts < 3 \<or> parts ! 0 \<noteq> ''ledger'' then Some scope
      else
        (let owner = (if parts ! 1 = ''receipts''
                      then (case Receipt (parts ! 2) s of
                              Inl _ \<Rightarrow> None
                            | Inr result \<Rightarrow> Some (ri_AccountID (rc_Input result), ri_WorkspaceID (rc_Input result)))
                      else Some ([], []))
         in case owner of
              None \<Rightarrow> None
            | Some (accountID, workspaceID) \<Rightarrow>
                if accountID \<noteq> [] \<and> sc_AccountID scope \<noteq> [] \<and> accountID \<noteq> sc_AccountID scope then None
                else if workspaceID \<noteq> [] \<and> sc_WorkspaceID scope \<noteq> [] \<and> workspaceID \<noteq> sc_WorkspaceID scope then None
                else
                  (let scope = (if accountID \<noteq> [] then scope\<lparr>sc_AccountID := accountID\<rparr> else scope)
                   in Some (if workspaceID \<noteq> [] then scope\<lparr>sc_WorkspaceID := workspaceID\<rparr> else scope))))"

section \<open>Handlers\<close>

datatype http_answer =
    AnsStatus string
  | AnsError string
  | AnsReceipt receipt
  | AnsReceiptPage receipt_page
  | AnsRetention receipt_retention_result
  | AnsReconciliation reconciliation_result
  | AnsEvidence evidence_entry
  | AnsEvidencePage evidence_page
  | AnsEvidenceExport evidence_export
  | AnsAborted \<comment> \<open>the handler panicked and the connection is closed\<close>
  | AnsUnrouted \<comment> \<open>the router's own answer, its 404 and 405 alike, for what it does not serve\<close>

type_synonym http_response = "int \<times> http_answer"

text \<open>\<^verbatim>\<open>decodeJSONBody\<close> and \<^verbatim>\<open>writeJSONBodyError\<close>.\<close>

definition decodeJSONBody :: "(string \<Rightarrow> 'a option) \<Rightarrow> string \<Rightarrow> http_response + 'a" where
  "decodeJSONBody decode body =
     (if length body > maxJSONBodyBytes then Inl (413, AnsError ''request body too large'')
      else case decode body of None \<Rightarrow> Inl (400, AnsError ''invalid JSON body'') | Some v \<Rightarrow> Inr v)"

definition with_key_and_body ::
    "http_request \<Rightarrow> (string \<Rightarrow> 'a option) \<Rightarrow> memory_store \<Rightarrow> (string \<Rightarrow> 'a \<Rightarrow> http_response \<times> memory_store) \<Rightarrow> http_response \<times> memory_store" where
  "with_key_and_body r decode s k =
     (let idempotencyKey = hr_Header r ''Idempotency-Key'' in
      if idempotencyKey = [] then ((400, AnsError ''missing Idempotency-Key''), s)
      else case decodeJSONBody decode (hr_Body r) of
             Inl resp \<Rightarrow> (resp, s)
           | Inr input \<Rightarrow> k idempotencyKey input)"

definition error_text :: "ledger_error \<Rightarrow> string" where
  "error_text err =
     (case err of
        ErrIdempotencyConflict \<Rightarrow> ''idempotency key already used with different payload''
      | ErrReceiptNotFound \<Rightarrow> ''receipt not found''
      | ErrInvalidReceiptInput \<Rightarrow> ''invalid receipt input''
      | ErrInvalidReceiptQuery \<Rightarrow> ''invalid receipt query''
      | ErrInvalidReceiptRetentionInput \<Rightarrow> ''invalid receipt retention input''
      | ErrReceiptRetentionShortening \<Rightarrow> ''receipt retention cannot be shortened''
      | ErrReceiptRetentionActive \<Rightarrow> ''receipt retention is active''
      | ErrReceiptLegalHold \<Rightarrow> ''receipt is under legal hold''
      | ErrInvalidReconciliationInput \<Rightarrow> ''invalid reconciliation input''
      | ErrInvalidEvidenceIndexInput \<Rightarrow> ''invalid evidence index input''
      | ErrInvalidEvidenceIndexQuery \<Rightarrow> ''invalid evidence index query''
      | ErrEvidenceIndexExportTooLarge \<Rightarrow> ''evidence index export exceeds the bounded limit''
      | _ \<Rightarrow> [])"

text \<open>An error of the store: the listed ones have a status of their own, the others are internal.\<close>

definition store_failure :: "(ledger_error \<times> int) list \<Rightarrow> string \<Rightarrow> ledger_error \<Rightarrow> http_response" where
  "store_failure table fallback err =
     (if err = ErrPanic then (0, AnsAborted)
      else case map_of table err of
             Some status \<Rightarrow> (status, AnsError (error_text err))
           | None \<Rightarrow> (500, AnsError fallback))"

definition answer :: "(ledger_error \<times> int) list \<Rightarrow> string \<Rightarrow> int \<Rightarrow> ('a \<Rightarrow> http_answer) \<Rightarrow> ledger_error + 'a \<Rightarrow> http_response" where
  "answer table fallback status wrap result =
     (case result of Inl err \<Rightarrow> store_failure table fallback err | Inr v \<Rightarrow> (status, wrap v))"

definition handle_record_receipt ::
    "http_codec \<Rightarrow> digest \<Rightarrow> gotime \<Rightarrow> http_request \<Rightarrow> memory_store \<Rightarrow> http_response \<times> memory_store" where
  "handle_record_receipt x d now r s =
     with_key_and_body r (hx_receipt x) s (\<lambda>key input.
       let (result, s) = RecordReceipt d now (input\<lparr>ri_IdempotencyKey := key\<rparr>) s
       in (answer [(ErrInvalidReceiptInput, 400), (ErrIdempotencyConflict, 409)] ''receipt failed'' 201 AnsReceipt result, s))"

definition handle_list_receipts :: "cursor_codec \<Rightarrow> http_request \<Rightarrow> memory_store \<Rightarrow> http_response" where
  "handle_list_receipts cc r s =
     (let get = hr_Query r;
          query = \<lparr>rq_AccountID = get ''accountId'', rq_OrganizationID = get ''organizationId'', rq_WorkspaceID = get ''workspaceId'',
            rq_ProjectID = get ''projectId'', rq_TaskID = get ''taskId'', rq_JobID = get ''jobId'', rq_Type = get ''type'',
            rq_TypePrefix = get ''typePrefix'', rq_Status = get ''status'', rq_Cursor = get ''cursor'', rq_Limit = 0\<rparr>;
          invalid = (400, AnsError (error_text ErrInvalidReceiptQuery));
          run = (\<lambda>query. answer [(ErrInvalidReceiptQuery, 400)] ''receipt list failed'' 200 AnsReceiptPage (ListReceipts cc query s))
      in if get ''limit'' = [] then run query
         else case parse_int64 (get ''limit'') of
                None \<Rightarrow> invalid
              | Some limit \<Rightarrow> if limit < 1 \<or> limit > MaxReceiptPageSize then invalid else run (query\<lparr>rq_Limit := limit\<rparr>))"

definition handle_read_receipt :: "string \<Rightarrow> memory_store \<Rightarrow> http_response" where
  "handle_read_receipt id' s =
     answer [(ErrReceiptNotFound, 404)] ''receipt query failed'' 200 AnsReceipt (Receipt id' s)"

definition handle_retention ::
    "http_codec \<Rightarrow> digest \<Rightarrow> string \<Rightarrow> http_request \<Rightarrow> memory_store \<Rightarrow> http_response \<times> memory_store" where
  "handle_retention x d id' r s =
     with_key_and_body r (hx_retention x) s (\<lambda>key input.
       let (result, s) = UpdateReceiptRetention d (input\<lparr>rti_ReceiptID := id', rti_IdempotencyKey := key\<rparr>) s
       in (answer [(ErrInvalidReceiptRetentionInput, 400), (ErrReceiptNotFound, 404), (ErrIdempotencyConflict, 409),
             (ErrReceiptRetentionShortening, 409), (ErrReceiptLegalHold, 409)]
             ''receipt retention update failed'' 200 AnsRetention result, s))"

definition handle_privacy_delete ::
    "http_codec \<Rightarrow> digest \<Rightarrow> gotime \<Rightarrow> gotime \<Rightarrow> string \<Rightarrow> http_request \<Rightarrow> memory_store \<Rightarrow> http_response \<times> memory_store" where
  "handle_privacy_delete x d now now' id' r s =
     with_key_and_body r (hx_privacy x) s (\<lambda>key input.
       let (result, s) = PrivacyDeleteReceipt d now now' (input\<lparr>pdi_ReceiptID := id', pdi_IdempotencyKey := key\<rparr>) s
       in (answer [(ErrInvalidReceiptRetentionInput, 400), (ErrReceiptNotFound, 404), (ErrIdempotencyConflict, 409),
             (ErrReceiptRetentionActive, 409), (ErrReceiptLegalHold, 409)]
             ''receipt privacy delete failed'' 200 AnsRetention result, s))"

definition handle_reconciliation ::
    "http_codec \<Rightarrow> digest \<Rightarrow> gotime \<Rightarrow> http_request \<Rightarrow> memory_store \<Rightarrow> http_response \<times> memory_store" where
  "handle_reconciliation x d now r s =
     with_key_and_body r (hx_reconciliation x) s (\<lambda>key input.
       let (result, s) = RecordReconciliation d now (input\<lparr>rci_IdempotencyKey := key\<rparr>) s
       in (answer [(ErrInvalidReconciliationInput, 400), (ErrIdempotencyConflict, 409)] ''reconciliation failed'' 201
             AnsReconciliation result, s))"

definition handle_record_evidence ::
    "http_codec \<Rightarrow> digest \<Rightarrow> url_parser \<Rightarrow> gotime \<Rightarrow> http_request \<Rightarrow> memory_store \<Rightarrow> http_response \<times> memory_store" where
  "handle_record_evidence x d u now r s =
     with_key_and_body r (hx_evidence x) s (\<lambda>key input.
       let (result, s) = RecordEvidenceIndex d u now (input\<lparr>ei_IdempotencyKey := key\<rparr>) s
       in (answer [(ErrInvalidEvidenceIndexInput, 400), (ErrIdempotencyConflict, 409)] ''evidence index write failed'' 201
             AnsEvidence result, s))"

definition evidenceIndexQueryFromRequest :: "http_request \<Rightarrow> evidence_query option" where
  "evidenceIndexQueryFromRequest r =
     (let get = hr_Query r;
          query = \<lparr>eq_OperationID = get ''operationId'', eq_CandidateSHA = get ''candidateSha'', eq_CandidateTree = get ''candidateTree'',
            eq_ImageDigest = get ''imageDigest'', eq_ReceiptID = get ''receiptId'', eq_ReceiptType = get ''receiptType'',
            eq_Status = get ''status'', eq_Cursor = get ''cursor'', eq_Limit = 0\<rparr>
      in if get ''limit'' = [] then Some query
         else map_option (\<lambda>limit. query\<lparr>eq_Limit := limit\<rparr>) (parse_int64 (get ''limit'')))"

definition handle_list_evidence :: "cursor_codec \<Rightarrow> http_request \<Rightarrow> memory_store \<Rightarrow> http_response" where
  "handle_list_evidence cc r s =
     (case evidenceIndexQueryFromRequest r of
        None \<Rightarrow> (400, AnsError (error_text ErrInvalidEvidenceIndexQuery))
      | Some query \<Rightarrow>
          answer [(ErrInvalidEvidenceIndexQuery, 400)] ''evidence index query failed'' 200 AnsEvidencePage (ListEvidenceIndex cc query s))"

text \<open>Eleven pages are more than the export ever reads.\<close>

definition handle_export_evidence :: "cursor_codec \<Rightarrow> http_request \<Rightarrow> memory_store \<Rightarrow> http_response" where
  "handle_export_evidence cc r s =
     (case evidenceIndexQueryFromRequest r of
        None \<Rightarrow> (400, AnsError (error_text ErrInvalidEvidenceIndexQuery))
      | Some query \<Rightarrow>
          (case ExportEvidenceIndex 11 cc query s of
             None \<Rightarrow> (0, AnsAborted)
           | Some result \<Rightarrow>
               answer [(ErrInvalidEvidenceIndexQuery, 400), (ErrEvidenceIndexExportTooLarge, 413)] ''evidence index export failed'' 200
                 AnsEvidenceExport result))"

section \<open>Routing and authorisation\<close>

record ledger_server =
  sv_codec :: http_codec
  sv_digest :: digest
  sv_urls :: url_parser
  sv_cursor :: cursor_codec
  sv_token :: string
  sv_capabilityKey :: string

text \<open>A GET pattern serves HEAD too. The clock is read up to twice by a handler.\<close>

definition get_method :: "http_request \<Rightarrow> bool" where
  "get_method r \<longleftrightarrow> hr_Method r = ''GET'' \<or> hr_Method r = ''HEAD''"

definition post_method :: "http_request \<Rightarrow> bool" where
  "post_method r \<longleftrightarrow> hr_Method r = ''POST''"

definition route_probe :: "http_request \<Rightarrow> string \<Rightarrow> http_response" where
  "route_probe r a =
     (if get_method r \<and> a = ''healthz'' then (200, AnsStatus ''ok'')
      else if get_method r \<and> a = ''readyz'' then (200, AnsStatus ''ready'')
      else (404, AnsUnrouted))"

definition route_collection ::
    "ledger_server \<Rightarrow> gotime \<times> gotime \<Rightarrow> http_request \<Rightarrow> memory_store \<Rightarrow> string \<Rightarrow> http_response \<times> memory_store" where
  "route_collection sv now r s b =
     (if post_method r \<and> b = ''receipts'' then handle_record_receipt (sv_codec sv) (sv_digest sv) (fst now) r s
      else if get_method r \<and> b = ''receipts'' then (handle_list_receipts (sv_cursor sv) r s, s)
      else if post_method r \<and> b = ''reconciliation'' then handle_reconciliation (sv_codec sv) (sv_digest sv) (fst now) r s
      else if post_method r \<and> b = ''evidence-index'' then handle_record_evidence (sv_codec sv) (sv_digest sv) (sv_urls sv) (fst now) r s
      else if get_method r \<and> b = ''evidence-index'' then (handle_list_evidence (sv_cursor sv) r s, s)
      else ((404, AnsUnrouted), s))"

definition route_item :: "ledger_server \<Rightarrow> http_request \<Rightarrow> memory_store \<Rightarrow> string \<Rightarrow> string \<Rightarrow> http_response" where
  "route_item sv r s b c =
     (if get_method r \<and> b = ''receipts'' \<and> c \<noteq> [] then handle_read_receipt c s
      else if get_method r \<and> b = ''evidence-index'' \<and> c = ''export'' then handle_export_evidence (sv_cursor sv) r s
      else (404, AnsUnrouted))"

definition route_action ::
    "ledger_server \<Rightarrow> gotime \<times> gotime \<Rightarrow> http_request \<Rightarrow> memory_store \<Rightarrow> string \<Rightarrow> string \<Rightarrow> http_response \<times> memory_store" where
  "route_action sv now r s c e =
     (if post_method r \<and> c \<noteq> [] \<and> e = ''retention'' then handle_retention (sv_codec sv) (sv_digest sv) c r s
      else if post_method r \<and> c \<noteq> [] \<and> e = ''privacy-delete''
      then handle_privacy_delete (sv_codec sv) (sv_digest sv) (fst now) (snd now) c r s
      else ((404, AnsUnrouted), s))"

definition route :: "ledger_server \<Rightarrow> gotime \<times> gotime \<Rightarrow> http_request \<Rightarrow> memory_store \<Rightarrow> http_response \<times> memory_store" where
  "route sv now r s =
     (case hr_Segments r of
        [a] \<Rightarrow> (route_probe r a, s)
      | [a, b] \<Rightarrow> if a = ''ledger'' then route_collection sv now r s b else ((404, AnsUnrouted), s)
      | [a, b, c] \<Rightarrow> (if a = ''ledger'' then route_item sv r s b c else (404, AnsUnrouted), s)
      | [a, b, c, e] \<Rightarrow>
          if a = ''ledger'' \<and> b = ''receipts'' then route_action sv now r s c e else ((404, AnsUnrouted), s)
      | _ \<Rightarrow> ((404, AnsUnrouted), s))"

definition open_path :: "http_request \<Rightarrow> bool" where
  "open_path r \<longleftrightarrow> hr_Method r = ''GET'' \<and> (hr_Path r = ''/healthz'' \<or> hr_Path r = ''/readyz'')"

text \<open>The comparison of the two SHA-256 digests of the authorisation texts.\<close>

definition authenticate ::
    "ledger_server \<Rightarrow> http_request \<Rightarrow> memory_store \<Rightarrow> http_response \<times> memory_store \<Rightarrow> http_response \<times> memory_store" where
  "authenticate sv r s next_result =
     (if open_path r then next_result
      else if sv_token sv = [] \<or>
        hx_sha256hex (sv_codec sv) (hr_Header r ''Authorization'') \<noteq> hx_sha256hex (sv_codec sv) (''Bearer '' @ sv_token sv)
      then ((401, AnsError ''unauthorized''), s)
      else next_result)"

definition authorizeLedgerRequests ::
    "ledger_server \<Rightarrow> gotime \<Rightarrow> gotime \<times> gotime \<Rightarrow> http_request \<Rightarrow> memory_store \<Rightarrow> http_response \<times> memory_store" where
  "authorizeLedgerRequests sv asked now r s =
     authenticate sv r s
       (let x = sv_codec sv; forbidden = ((403, AnsError ''forbidden''), s) in
        if sv_capabilityKey sv = [] \<or> open_path r then route sv now r s
        else if length (hr_Body r) > maxJSONBodyBytes then ((413, AnsError ''request body too large''), s)
        else
          (case ledgerCapabilityScopeForRequest x r (hr_Body r) of
             None \<Rightarrow> forbidden
           | Some scope \<Rightarrow>
               (case preverifyLedgerCapability x (hr_Header r ledgerCapabilityHeader) (sv_capabilityKey sv) scope (hr_Body r) (t_utc asked) of
                  None \<Rightarrow> forbidden
                | Some claims \<Rightarrow>
                    (case enrichLedgerOwnerScope r s scope of
                       None \<Rightarrow> forbidden
                     | Some scope \<Rightarrow>
                         if \<not> ledgerOwnerClaimsMatch claims scope then forbidden else route sv now r s))))"

section \<open>A request is at most one operation of the store\<close>

text \<open>A decoded JSON object has each key once, and its numbers are literals.\<close>

definition decoder_ok :: "http_codec \<Rightarrow> bool" where
  "decoder_ok x \<longleftrightarrow> (\<forall>body i. hx_reconciliation x body = Some i \<longrightarrow> well_formed_report (rci_Report i))"

definition effect_of :: "ledger_server \<Rightarrow> memory_store \<Rightarrow> memory_store \<Rightarrow> bool" where
  "effect_of sv s s' \<longleftrightarrow> s' = s \<or> (\<exists>c. command_ok c \<and> s' = exec (sv_digest sv) (sv_urls sv) c s)"

lemma effect_same [simp]: "effect_of sv s s"
  by (simp add: effect_of_def)

lemma effect_exec: "command_ok c \<Longrightarrow> s' = exec (sv_digest sv) (sv_urls sv) c s \<Longrightarrow> effect_of sv s s'"
  by (auto simp: effect_of_def)

lemma with_key_and_body_effect:
  assumes "\<And>key input. decode (hr_Body r) = Some input \<Longrightarrow> effect_of sv s (snd (k key input))"
  shows "effect_of sv s (snd (with_key_and_body r decode s k))"
  using assms by (auto simp: with_key_and_body_def decodeJSONBody_def Let_def split: sum.split option.split)

lemma handle_record_receipt_effect:
  "clock_ok now \<Longrightarrow> effect_of sv s (snd (handle_record_receipt (sv_codec sv) (sv_digest sv) now r s))"
  unfolding handle_record_receipt_def
  by (intro with_key_and_body_effect effect_exec [where c = "CmdRecordReceipt now i" for i]) (simp_all add: case_prod_beta)

lemma handle_retention_effect: "effect_of sv s (snd (handle_retention (sv_codec sv) (sv_digest sv) id' r s))"
  unfolding handle_retention_def
  by (intro with_key_and_body_effect effect_exec [where c = "CmdUpdateRetention i" for i]) (simp_all add: case_prod_beta)

lemma handle_privacy_delete_effect:
  "effect_of sv s (snd (handle_privacy_delete (sv_codec sv) (sv_digest sv) now now' id' r s))"
  unfolding handle_privacy_delete_def
  by (intro with_key_and_body_effect effect_exec [where c = "CmdPrivacyDelete now now' i" for i]) (simp_all add: case_prod_beta)

lemma handle_reconciliation_effect:
  "decoder_ok (sv_codec sv) \<Longrightarrow> effect_of sv s (snd (handle_reconciliation (sv_codec sv) (sv_digest sv) now r s))"
  unfolding handle_reconciliation_def
  by (intro with_key_and_body_effect effect_exec [where c = "CmdRecordReconciliation now i" for i])
    (simp_all add: case_prod_beta decoder_ok_def)

lemma handle_record_evidence_effect:
  "effect_of sv s (snd (handle_record_evidence (sv_codec sv) (sv_digest sv) (sv_urls sv) now r s))"
  unfolding handle_record_evidence_def
  by (intro with_key_and_body_effect effect_exec [where c = "CmdRecordEvidence now i" for i]) (simp_all add: case_prod_beta)

lemmas handler_effects = handle_record_receipt_effect handle_retention_effect handle_privacy_delete_effect
  handle_reconciliation_effect handle_record_evidence_effect

lemma route_effect:
  "clock_ok (fst now) \<Longrightarrow> decoder_ok (sv_codec sv) \<Longrightarrow> effect_of sv s (snd (route sv now r s))"
  by (simp add: route_def route_collection_def route_action_def handler_effects split: list.split)

lemma authorize_cases:
  "authorizeLedgerRequests sv asked now r s = route sv now r s \<or> snd (authorizeLedgerRequests sv asked now r s) = s"
  unfolding authorizeLedgerRequests_def authenticate_def Let_def
  by (auto split: option.split if_splits)

text \<open>
  C11: the HTTP server implements the store's commands. Whatever the request, the store afterwards is the
  store before, or the result of exactly one command on it; so a store that is served over HTTP stays
  within the reachable stores, and their invariants hold of it.
\<close>

theorem http_request_is_one_command:
  assumes "clock_ok (fst now)" and "decoder_ok (sv_codec sv)"
  shows "(snd (authorizeLedgerRequests sv asked now r s) = s \<or>
      (\<exists>c. command_ok c \<and> snd (authorizeLedgerRequests sv asked now r s) = exec (sv_digest sv) (sv_urls sv) c s)) \<and>
    (ledger_reachable (sv_digest sv) (sv_urls sv) s \<longrightarrow>
      ledger_reachable (sv_digest sv) (sv_urls sv) (snd (authorizeLedgerRequests sv asked now r s)))"
proof -
  have "effect_of sv s (snd (authorizeLedgerRequests sv asked now r s))"
    using authorize_cases [of sv asked now r s] route_effect [OF assms, of s r] by auto
  then show ?thesis
    by (auto simp: effect_of_def ledger_reachable_def intro: ledger_steps.more)
qed

section \<open>What an authorised request carries\<close>

text \<open>The capability a request shows, and what it was checked against.\<close>

definition authorised :: "ledger_server \<Rightarrow> gotime \<Rightarrow> http_request \<Rightarrow> memory_store \<Rightarrow> capability_scope \<Rightarrow> capability_scope \<Rightarrow> capability_claims \<Rightarrow> bool" where
  "authorised sv asked r s scope owner claims \<longleftrightarrow>
     ledgerCapabilityScopeForRequest (sv_codec sv) r (hr_Body r) = Some scope \<and>
     preverifyLedgerCapability (sv_codec sv) (hr_Header r ledgerCapabilityHeader) (sv_capabilityKey sv) scope (hr_Body r) (t_utc asked) = Some claims \<and>
     enrichLedgerOwnerScope r s scope = Some owner \<and> ledgerOwnerClaimsMatch claims owner"

definition bearer_ok :: "ledger_server \<Rightarrow> http_request \<Rightarrow> bool" where
  "bearer_ok sv r \<longleftrightarrow> sv_token sv \<noteq> [] \<and>
     hx_sha256hex (sv_codec sv) (hr_Header r ''Authorization'') = hx_sha256hex (sv_codec sv) (''Bearer '' @ sv_token sv)"

lemma served_authorised:
  assumes "authorizeLedgerRequests sv asked now r s = (resp, s')" and "fst resp \<noteq> 401" and "fst resp \<noteq> 403" and "fst resp \<noteq> 413"
    and "\<not> open_path r"
  shows "bearer_ok sv r \<and> route sv now r s = (resp, s') \<and>
    (sv_capabilityKey sv \<noteq> [] \<longrightarrow> (\<exists>scope owner claims. authorised sv asked r s scope owner claims))"
  using assms unfolding authorizeLedgerRequests_def authenticate_def Let_def bearer_ok_def authorised_def
  by (auto split: option.splits if_splits)

lemma changed_authorised:
  assumes "snd (authorizeLedgerRequests sv asked now r s) \<noteq> s" and "\<not> open_path r"
  shows "bearer_ok sv r \<and> (sv_capabilityKey sv \<noteq> [] \<longrightarrow> (\<exists>scope owner claims. authorised sv asked r s scope owner claims))"
  using assms unfolding authorizeLedgerRequests_def authenticate_def Let_def bearer_ok_def authorised_def
  by (auto split: option.splits if_splits)

lemma preverify_Some:
  "preverifyLedgerCapability x raw key expected body now = Some claims \<longleftrightarrow>
     (\<exists>encoded sig payload. split_char (CHR ''.'') raw = [encoded, sig] \<and> key \<noteq> [] \<and>
        hx_base64 x sig = Some (hx_hmac x key encoded) \<and> hx_base64 x encoded = Some payload \<and> hx_claims x payload = Some claims \<and>
        cl_Version claims = 1 \<and> cl_Caller claims = ''control-plane'' \<and>
        cl_ResourceKind claims = sc_ResourceKind expected \<and> cl_ResourceID claims = sc_ResourceID expected \<and>
        cl_Action claims = sc_Action expected \<and> cl_OperationID claims = sc_OperationID expected \<and>
        unix_seconds now < cl_ExpiresAt claims \<and> cl_ExpiresAt claims \<le> unix_seconds now + 120 \<and>
        cl_BodySHA256 claims = hx_sha256hex x body)"
proof -
  have "(inst now + 120000000000) div 1000000000 = inst now div 1000000000 + (120 :: int)"
    using div_mult_self1 [of "1000000000 :: int" "inst now" 120] by simp
  then have "unix_seconds (GoTime (inst now + 120000000000) (zone now)) = unix_seconds now + 120"
    by (simp add: unix_seconds_def)
  then show ?thesis
    unfolding preverifyLedgerCapability_def by (auto split: list.splits option.splits if_splits)
qed

lemma route_change_is_post: "snd (route sv now r s) \<noteq> s \<Longrightarrow> post_method r"
  by (auto simp: route_def route_collection_def route_action_def split: list.splits if_splits)

text \<open>
  C10: no write without a capability. With capabilities enabled, a request that changed the store was a
  POST with the bearer token, and it carried a capability whose signature verifies under the server's
  key, whose claims name this request's resource, action and operation, whose body digest is that of this
  body, which expires within two minutes and has not expired, and whose owner is the owner of the resource.
\<close>

theorem ledger_write_needs_capability:
  assumes "snd (authorizeLedgerRequests sv asked now r s) \<noteq> s" and "sv_capabilityKey sv \<noteq> []"
  shows "post_method r \<and> bearer_ok sv r \<and>
    (\<exists>scope owner claims encoded sig payload.
       ledgerCapabilityScopeForRequest (sv_codec sv) r (hr_Body r) = Some scope \<and>
       split_char (CHR ''.'') (hr_Header r ledgerCapabilityHeader) = [encoded, sig] \<and>
       hx_base64 (sv_codec sv) sig = Some (hx_hmac (sv_codec sv) (sv_capabilityKey sv) encoded) \<and>
       hx_base64 (sv_codec sv) encoded = Some payload \<and> hx_claims (sv_codec sv) payload = Some claims \<and>
       cl_ResourceKind claims = sc_ResourceKind scope \<and> cl_ResourceID claims = sc_ResourceID scope \<and>
       cl_Action claims = sc_Action scope \<and> cl_OperationID claims = sc_OperationID scope \<and>
       unix_seconds asked < cl_ExpiresAt claims \<and> cl_ExpiresAt claims \<le> unix_seconds asked + 120 \<and>
       cl_BodySHA256 claims = hx_sha256hex (sv_codec sv) (hr_Body r) \<and>
       enrichLedgerOwnerScope r s scope = Some owner \<and> ledgerOwnerClaimsMatch claims owner)"
proof -
  have post: "post_method r"
    using assms(1) authorize_cases [of sv asked now r s] route_change_is_post [of sv now r s] by auto
  then have "\<not> open_path r" by (auto simp: open_path_def post_method_def)
  from changed_authorised [OF assms(1) this] assms(2) obtain scope owner claims
    where b: "bearer_ok sv r" and a: "authorised sv asked r s scope owner claims" by blast
  then obtain encoded sig payload where
    "split_char (CHR ''.'') (hr_Header r ledgerCapabilityHeader) = [encoded, sig]"
    "hx_base64 (sv_codec sv) sig = Some (hx_hmac (sv_codec sv) (sv_capabilityKey sv) encoded)"
    "hx_base64 (sv_codec sv) encoded = Some payload" "hx_claims (sv_codec sv) payload = Some claims"
    "cl_ResourceKind claims = sc_ResourceKind scope" "cl_ResourceID claims = sc_ResourceID scope"
    "cl_Action claims = sc_Action scope" "cl_OperationID claims = sc_OperationID scope"
    "unix_seconds asked < cl_ExpiresAt claims" "cl_ExpiresAt claims \<le> unix_seconds asked + 120"
    "cl_BodySHA256 claims = hx_sha256hex (sv_codec sv) (hr_Body r)"
    unfolding authorised_def preverify_Some by (auto simp: unix_seconds_def gotime_defs)
  with a b post show ?thesis
    unfolding authorised_def by blast
qed

section \<open>A caller sees its own receipts\<close>

text \<open>The path is made of the router's segments.\<close>

definition plain_path :: "http_request \<Rightarrow> bool" where
  "plain_path r \<longleftrightarrow> hr_Path r = concat (map (\<lambda>segment. CHR ''/'' # segment) (hr_Segments r))"

lemma split_char_none: "c \<notin> set s \<Longrightarrow> split_char c s = [s]"
  by (induction s) auto

lemma split_char_ne: "split_char c s \<noteq> []"
  by (induction s) (auto split: list.splits)

lemma split_char_app: "c \<notin> set p \<Longrightarrow> split_char c (p @ c # s) = p # split_char c s"
  by (induction p) auto

lemma trim_slashes_id: "s \<noteq> [] \<Longrightarrow> hd s \<noteq> CHR ''/'' \<Longrightarrow> last s \<noteq> CHR ''/'' \<Longrightarrow> trim_slashes (CHR ''/'' # s) = s"
proof -
  assume s: "s \<noteq> []" "hd s \<noteq> CHR ''/''" "last s \<noteq> CHR ''/''"
  then have "dropWhile (\<lambda>c. c = CHR ''/'') s = s" "dropWhile (\<lambda>c. c = CHR ''/'') (rev s) = rev s"
    by (simp_all add: dropWhile_eq_self_iff hd_rev)
  then show ?thesis by (simp add: trim_slashes_def)
qed

lemma receipt_path_parts:
  assumes "plain_path r" and "hr_Segments r = [''ledger'', ''receipts'', c]" and "CHR ''/'' \<notin> set c" and "c \<noteq> []"
  shows "path_parts r = [''ledger'', ''receipts'', c]"
proof -
  let ?slash = "CHR ''/''"
  have l: "last c \<noteq> ?slash"
  proof
    assume "last c = ?slash"
    with last_in_set [OF assms(4)] have "?slash \<in> set c" by simp
    with assms(3) show False ..
  qed
  have p: "hr_Path r = ?slash # (''ledger'' @ ?slash # ''receipts'' @ ?slash # c)"
    using assms(1,2) by (simp add: plain_path_def)
  have "trim_slashes (hr_Path r) = ''ledger'' @ ?slash # ''receipts'' @ ?slash # c"
    unfolding p by (intro trim_slashes_id) (simp_all add: assms(4) l)
  moreover have "split_char ?slash (''ledger'' @ ?slash # ''receipts'' @ ?slash # c) = [''ledger'', ''receipts'', c]"
    by (subst split_char_app, simp, subst split_char_app, simp, simp only: split_char_none [OF assms(3)])
  ultimately show ?thesis by (simp only: path_parts_def)
qed

lemma receipt_id_plain: "receipt_ok n k r \<Longrightarrow> CHR ''/'' \<notin> set k \<and> k \<noteq> []"
proof -
  assume "receipt_ok n k r"
  then obtain m where k: "k = ''receipt_'' @ replicate (6 - length (nat_text m)) (CHR ''0'') @ nat_text m"
    by (auto simp: receipt_ok_def pad_text_def)
  have "\<not> is_digit (CHR ''/'')" by (simp add: is_digit_def code_def)
  then have "CHR ''/'' \<notin> set (nat_text m)" using digits_nat_text [of m] by (auto simp: list_all_iff)
  then show ?thesis unfolding k by auto
qed

lemma enrich_receipt:
  assumes "path_parts r = [''ledger'', ''receipts'', c]" and "enrichLedgerOwnerScope r s scope = Some owner"
    and "Receipt c s = Inr rc" and "ri_AccountID (rc_Input rc) \<noteq> []"
  shows "sc_AccountID owner = ri_AccountID (rc_Input rc)"
  using assms by (auto simp: enrichLedgerOwnerScope_def Let_def split: if_splits)

lemma read_scope_action:
  assumes "ledgerCapabilityScopeForRequest x r body = Some scope" and "path_parts r = [''ledger'', ''receipts'', c]"
    and "hr_Method r \<noteq> ''POST''" and "hr_Path r = CHR ''/'' # ''ledger/receipts/'' @ c"
  shows "sc_Action scope = ''read_receipt''"
  using assms
  by (auto simp: ledgerCapabilityScopeForRequest_def Let_def split: option.splits if_splits)


lemma collection_path_parts:
  assumes "plain_path r" and "hr_Segments r = [''ledger'', ''receipts'']"
  shows "hr_Path r = ''/ledger/receipts'' \<and> path_parts r = [''ledger'', ''receipts'']"
proof -
  have p: "hr_Path r = ''/ledger/receipts''" using assms by (simp add: plain_path_def)
  show ?thesis unfolding path_parts_def p by code_simp
qed

lemma list_scope:
  assumes "ledgerCapabilityScopeForRequest x r body = Some scope" and "hr_Path r = ''/ledger/receipts''"
    and "path_parts r = [''ledger'', ''receipts'']" and "hr_Method r \<noteq> ''POST''"
  shows "sc_Action scope = ''list_receipts'' \<and> sc_AccountID scope = trim_space (hr_Query r ''accountId'') \<and> sc_AccountID scope \<noteq> []"
  using assms
  by (auto simp: ledgerCapabilityScopeForRequest_def Let_def split: option.splits if_splits)

lemma list_receipts_account:
  assumes "ListReceipts cc q s = Inr p" and "rc \<in> set (rp_Receipts p)" and "rq_AccountID q \<noteq> []"
  shows "ri_AccountID (rc_Input rc) = rq_AccountID q"
proof -
  obtain q' cursor where q: "normalizeReceiptQuery cc q = Inr (q', cursor)"
    using assms(1) by (auto simp: ListReceipts_def split: sum.splits)
  have a: "rq_AccountID q' = rq_AccountID q"
    using q by (auto simp: normalizeReceiptQuery_def Let_def split: if_splits option.splits)
  obtain r0 where "receipt_matches q' r0" "rc = clone_receipt r0"
    using assms(1,2) q by (auto simp: ListReceipts_def Let_def split: if_splits dest!: in_set_takeD)
  with a assms(3) show ?thesis
    by (simp add: receipt_matches_def wants_def Let_def clone_receipt_def clone_receipt_input_def)
qed

lemma handle_list_account:
  assumes "handle_list_receipts cc r s = (200, AnsReceiptPage p)" and "rc \<in> set (rp_Receipts p)" and "hr_Query r ''accountId'' \<noteq> []"
  shows "ri_AccountID (rc_Input rc) = hr_Query r ''accountId''"
proof -
  obtain q where "ListReceipts cc q s = Inr p" "rq_AccountID q = hr_Query r ''accountId''"
    using assms(1) by (auto simp: handle_list_receipts_def answer_def store_failure_def Let_def
        split: if_splits option.splits sum.splits)
  with list_receipts_account assms(2,3) show ?thesis by metis
qed

lemma receipt_read_bound:
  assumes "ledger_reachable d u s" and "sv_capabilityKey sv \<noteq> []" and "plain_path r"
    and "authorizeLedgerRequests sv asked now r s = ((200, AnsReceipt rc), s')"
    and segs: "hr_Segments r = [''ledger'', ''receipts'', c]" and get: "get_method r"
  shows "\<exists>scope owner claims. authorised sv asked r s scope owner claims \<and> cl_AccountID claims \<noteq> [] \<and>
         ri_AccountID (rc_Input rc) \<in> {[], cl_AccountID claims}"
proof -
  have path: "hr_Path r = CHR ''/'' # ''ledger/receipts/'' @ c" using assms(3) segs by (simp add: plain_path_def)
  then have "\<not> open_path r" by (simp add: open_path_def)
  with served_authorised [OF assms(4)] assms(2) obtain scope owner claims
    where a: "authorised sv asked r s scope owner claims" and route: "route sv now r s = ((200, AnsReceipt rc), s')" by auto
  have "c \<noteq> []" and rc: "Receipt c s = Inr rc"
    using route segs get by (auto simp: route_def route_item_def handle_read_receipt_def answer_def store_failure_def
        split: if_splits sum.splits option.splits)
  then obtain r0 where "map_of (ms_receipts s) c = Some r0" by (auto simp: Receipt_def split: option.splits)
  from receipt_id_plain [OF store_okD(1) [OF reachable_store_ok [OF assms(1)] this]]
  have parts: "path_parts r = [''ledger'', ''receipts'', c]"
    using receipt_path_parts [OF assms(3) segs] by blast
  have "hr_Method r \<noteq> ''POST''" using get by (auto simp: get_method_def)
  with a parts path have "cl_Action claims = ''read_receipt''"
    using read_scope_action [of "sv_codec sv" r "hr_Body r" scope c] by (auto simp: authorised_def preverify_Some)
  with a have "cl_AccountID claims \<noteq> []" "cl_AccountID claims = sc_AccountID owner"
    by (auto simp: authorised_def ledgerOwnerClaimsMatch_def)
  moreover have "ri_AccountID (rc_Input rc) \<noteq> [] \<Longrightarrow> sc_AccountID owner = ri_AccountID (rc_Input rc)"
    using enrich_receipt [OF parts _ rc] a unfolding authorised_def by blast
  ultimately have "ri_AccountID (rc_Input rc) \<in> {[], cl_AccountID claims}"
    by (cases "ri_AccountID (rc_Input rc) = []") simp_all
  with a \<open>cl_AccountID claims \<noteq> []\<close> show ?thesis by blast
qed

lemma receipt_list_bound:
  assumes "sv_capabilityKey sv \<noteq> []" and "plain_path r"
    and "authorizeLedgerRequests sv asked now r s = ((200, AnsReceiptPage p), s')"
    and segs: "hr_Segments r = [''ledger'', ''receipts'']" and get: "get_method r"
  shows "\<exists>scope owner claims. authorised sv asked r s scope owner claims \<and> cl_AccountID claims \<noteq> [] \<and>
         (\<forall>rc \<in> set (rp_Receipts p). trim_space (ri_AccountID (rc_Input rc)) = cl_AccountID claims)"
proof -
  have path: "hr_Path r = ''/ledger/receipts''" and parts: "path_parts r = [''ledger'', ''receipts'']"
    using collection_path_parts [OF assms(2) segs] by auto
  then have "\<not> open_path r" by (simp add: open_path_def)
  with served_authorised [OF assms(3)] assms(1) obtain scope owner claims
    where a: "authorised sv asked r s scope owner claims" and route: "route sv now r s = ((200, AnsReceiptPage p), s')" by auto
  have post: "hr_Method r \<noteq> ''POST''" using get by (auto simp: get_method_def)
  then have list: "handle_list_receipts (sv_cursor sv) r s = (200, AnsReceiptPage p)"
    using route segs get by (auto simp: route_def route_collection_def post_method_def)
  have scope: "sc_Action scope = ''list_receipts''" "sc_AccountID scope = trim_space (hr_Query r ''accountId'')" "sc_AccountID scope \<noteq> []"
    using list_scope [OF _ path parts post] a by (auto simp: authorised_def)
  have "owner = scope" using a parts by (simp add: authorised_def enrichLedgerOwnerScope_def)
  with a scope have "cl_AccountID claims = trim_space (hr_Query r ''accountId'')" "cl_AccountID claims \<noteq> []"
    by (auto simp: authorised_def ledgerOwnerClaimsMatch_def preverify_Some split: if_splits)
  moreover from this have "hr_Query r ''accountId'' \<noteq> []" by auto
  ultimately show ?thesis using a handle_list_account [OF list] by metis
qed

text \<open>
  C26: a caller sees its own receipts. With capabilities enabled, a receipt read by its identifier belongs
  to the account the capability names, or to no account; and every receipt of a listed page belongs to
  that account, up to surrounding white space of the name.
\<close>

theorem ledger_reads_are_owner_bound:
  assumes "ledger_reachable d u s" and "sv_capabilityKey sv \<noteq> []" and "plain_path r"
    and "authorizeLedgerRequests sv asked now r s = (resp, s')"
  shows "(hr_Segments r = [''ledger'', ''receipts'', c] \<longrightarrow> get_method r \<longrightarrow> resp = (200, AnsReceipt rc) \<longrightarrow>
      (\<exists>scope owner claims. authorised sv asked r s scope owner claims \<and> cl_AccountID claims \<noteq> [] \<and>
         ri_AccountID (rc_Input rc) \<in> {[], cl_AccountID claims})) \<and>
    (hr_Segments r = [''ledger'', ''receipts''] \<longrightarrow> get_method r \<longrightarrow> resp = (200, AnsReceiptPage p) \<longrightarrow>
      (\<exists>scope owner claims. authorised sv asked r s scope owner claims \<and> cl_AccountID claims \<noteq> [] \<and>
         (\<forall>rc \<in> set (rp_Receipts p). trim_space (ri_AccountID (rc_Input rc)) = cl_AccountID claims)))"
  using receipt_read_bound [OF assms(1-3)] receipt_list_bound [OF assms(2,3)] assms(4) by blast

end
