(* ===== verification/Console_Values.thy ===== *)
theory Console_Values
  imports OPL_Prelude "HOL-Library.Monad_Syntax"
begin

text \<open>
  The control plane's access to dynamically typed rows (\<^verbatim>\<open>server.go\<close>, \<^verbatim>\<open>app_state.go\<close>,
  \<^verbatim>\<open>auth_accounts.go\<close>, \<^verbatim>\<open>routes_billing.go\<close>, \<^verbatim>\<open>table_store.go\<close> of
  \<^verbatim>\<open>services/control-plane/internal/server\<close>): typed fields with a fallback, integers that JSON can carry,
  identifiers. A row is a \<open>gomap\<close>.
\<close>

section \<open>Fields of a row\<close>

definition stringValue :: "goval \<Rightarrow> string" where
  "stringValue v = (case as_str v of Some s \<Rightarrow> s | None \<Rightarrow> [])"

definition stringField :: "gomap \<Rightarrow> string \<Rightarrow> string \<Rightarrow> string" where
  "stringField input key fallback =
     (case as_str (mget input key) of
        Some v \<Rightarrow> if \<not> blank v then v else fallback
      | None \<Rightarrow> fallback)"

definition numberField :: "gomap \<Rightarrow> string \<Rightarrow> gofloat \<Rightarrow> gofloat" where
  "numberField input key fallback =
     (case mget input key of
        GFloat KFloat64 f \<Rightarrow> f
      | GInt KInt i \<Rightarrow> float_of_int i
      | GInt KInt64 i \<Rightarrow> float_of_int i
      | GInt KInt32 i \<Rightarrow> float_of_int i
      | _ \<Rightarrow> fallback)"

definition cloneMap :: "gomap \<Rightarrow> gomap" where
  "cloneMap input = (case input of None \<Rightarrow> Some [] | Some kvs \<Rightarrow> Some kvs)"

definition mapField :: "gomap \<Rightarrow> string \<Rightarrow> gomap" where
  "mapField input key = cloneMap (as_obj (mget input key))"

definition confirmed :: "gomap \<Rightarrow> string \<Rightarrow> bool" where
  "confirmed input key = (case as_bool (mget input key) of Some b \<Rightarrow> b | None \<Rightarrow> False)"

fun firstNonEmpty :: "string list \<Rightarrow> string" where
  "firstNonEmpty [] = []"
| "firstNonEmpty (v # vs) = (if \<not> blank v then v else firstNonEmpty vs)"

definition maxJSONSafeInteger :: gofloat where
  "maxJSONSafeInteger = Fin (of_int max_json_safe)"

definition float_le :: "gofloat \<Rightarrow> gofloat \<Rightarrow> bool" where
  "float_le f g \<longleftrightarrow> float_less f g \<or> float_eq f g"

text \<open>The value and whether it is a positive integer that a float represents exactly.\<close>

definition positiveIntegerField :: "gomap \<Rightarrow> string \<Rightarrow> int \<times> bool" where
  "positiveIntegerField input key =
     (let v = numberField input key (Fin 0)
      in (int64_of_float v, float_less (Fin 0) v \<and> float_le v maxJSONSafeInteger \<and> float_is_int v))"

definition requiredNonNegativeInteger :: "gomap \<Rightarrow> string \<Rightarrow> int \<times> bool" where
  "requiredNonNegativeInteger input key =
     (case mget input key of
        GInt KInt i \<Rightarrow> (i, 0 \<le> i)
      | GInt KInt64 i \<Rightarrow> (i, 0 \<le> i)
      | GFloat KFloat64 f \<Rightarrow>
          (case f of
             Fin q \<Rightarrow>
               if q \<noteq> of_int (trunc_rat q) \<or> q < 0 \<or> q \<ge> 9223372036854775808 then (0, False)
               else (int64_of_float f, 0 \<le> int64_of_float f)
           | _ \<Rightarrow> (0, False))
      | GNum s \<Rightarrow> (case parse_int64 s of None \<Rightarrow> (0, False) | Some i \<Rightarrow> (i, 0 \<le> i))
      | _ \<Rightarrow> (0, False))"

definition requiredPositiveInteger :: "gomap \<Rightarrow> string \<Rightarrow> int \<times> bool" where
  "requiredPositiveInteger input key =
     (let (v, ok) = requiredNonNegativeInteger input key in (v, ok \<and> v > 0))"

section \<open>Identifiers\<close>

definition id_rune :: "char \<Rightarrow> bool" where
  "id_rune c \<longleftrightarrow> is_lower c \<or> is_digit c"

text \<open>Letters and digits are kept, every run of other characters becomes one dash.\<close>

fun compact_runes :: "bool \<Rightarrow> string \<Rightarrow> string" where
  "compact_runes lastDash [] = []"
| "compact_runes lastDash (c # cs) =
     (if id_rune c then c # compact_runes False cs
      else if \<not> lastDash then CHR ''-'' # compact_runes True cs
      else compact_runes lastDash cs)"

definition trim_dashes :: "string \<Rightarrow> string" where
  "trim_dashes s =
     rev (dropWhile (\<lambda>c. c = CHR ''-'') (rev (dropWhile (\<lambda>c. c = CHR ''-'') s)))"

definition compactID :: "string \<Rightarrow> string" where
  "compactID v =
     (let result = trim_dashes (compact_runes False (to_lower v));
          result = (if length result > 48 then trim_dashes (take 48 result) else result)
      in if result = [] then ''resource'' else result)"

definition validAccountID :: "string \<Rightarrow> bool" where
  "validAccountID v \<longleftrightarrow> length v \<ge> 3 \<and> length v \<le> 48 \<and> v = compactID v"

text \<open>
  \<^verbatim>\<open>stableID\<close>: SHA-1 in hexadecimal of the parts, each followed by a zero byte. The hash is a parameter.
\<close>

definition stableID :: "(string \<Rightarrow> string) \<Rightarrow> string list \<Rightarrow> string" where
  "stableID sha1hex parts = sha1hex (concat (map (\<lambda>p. p @ [CHR 0x00]) parts))"

section \<open>Facts on fields\<close>

lemma stringValue_GStr [simp]: "stringValue (GStr s) = s"
  by (simp add: stringValue_def)

lemma mapField_Some [simp]: "mget input key = GObj kvs \<Longrightarrow> mapField input key = Some kvs"
  by (simp add: mapField_def cloneMap_def)

lemma positiveIntegerField_sound:
  assumes "positiveIntegerField input key = (i, True)"
  shows "0 < i" and "i \<le> max_json_safe" and "numberField input key (Fin 0) = Fin (of_int i)"
proof -
  obtain q where q: "numberField input key (Fin 0) = Fin q"
    using assms by (cases "numberField input key (Fin 0)")
      (auto simp: positiveIntegerField_def Let_def float_is_int_def)
  then have f: "0 < q" "q \<le> of_int max_json_safe" "q = of_int (trunc_rat q)" "i = int64_of_float (Fin q)"
    using assms by (auto simp: positiveIntegerField_def Let_def float_is_int_def float_le_def maxJSONSafeInteger_def)
  define n where "n = trunc_rat q"
  have n: "q = of_int n" using f(3) by (simp add: n_def)
  then have b: "0 < n" "n \<le> max_json_safe" using f(1,2) by auto
  then have "in_int64 n" by (simp add: int64_defs max_json_safe_def)
  then have "i = n" using f(4) n by (simp add: int64_of_float_of_int)
  with b n q show "0 < i" "i \<le> max_json_safe" "numberField input key (Fin 0) = Fin (of_int i)" by auto
qed

lemma requiredPositiveInteger_pos: "requiredPositiveInteger input key = (i, True) \<Longrightarrow> 0 < i"
  by (auto simp: requiredPositiveInteger_def split: prod.splits)

section \<open>Facts on identifiers\<close>

text \<open>A canonical identifier: letters, digits and single inner dashes.\<close>

fun single_dashes :: "string \<Rightarrow> bool" where
  "single_dashes (a # b # cs) = ((a = CHR ''-'' \<longrightarrow> b \<noteq> CHR ''-'') \<and> single_dashes (b # cs))"
| "single_dashes _ = True"

definition canonical_id :: "string \<Rightarrow> bool" where
  "canonical_id s \<longleftrightarrow>
     s \<noteq> [] \<and> length s \<le> 48 \<and> list_all (\<lambda>c. id_rune c \<or> c = CHR ''-'') s \<and> single_dashes s \<and>
     hd s \<noteq> CHR ''-'' \<and> last s \<noteq> CHR ''-''"

lemma id_rune_not_dash [simp]: "\<not> id_rune (CHR ''-'')"
  by (simp add: id_rune_def char_class_defs)

lemma single_dashes_Cons:
  "single_dashes (a # s) \<longleftrightarrow> (s \<noteq> [] \<and> a = CHR ''-'' \<longrightarrow> hd s \<noteq> CHR ''-'') \<and> single_dashes s"
  by (cases s) auto

lemma single_dashes_append:
  "single_dashes (s @ t) \<longleftrightarrow>
     single_dashes s \<and> single_dashes t \<and> (s \<noteq> [] \<and> t \<noteq> [] \<and> last s = CHR ''-'' \<longrightarrow> hd t \<noteq> CHR ''-'')"
  by (induction s) (auto simp: single_dashes_Cons)

lemma compact_runes_shape:
  "list_all (\<lambda>c. id_rune c \<or> c = CHR ''-'') (compact_runes b s) \<and> single_dashes (compact_runes b s) \<and>
   (b \<and> compact_runes b s \<noteq> [] \<longrightarrow> hd (compact_runes b s) \<noteq> CHR ''-'')"
  by (induction b s rule: compact_runes.induct) (auto simp: single_dashes_Cons)

lemma trim_dashes_split: "\<exists>u v. s = u @ trim_dashes s @ v"
proof -
  let ?d = "\<lambda>c. c = CHR ''-''"
  have "s = takeWhile ?d s @ dropWhile ?d s" by simp
  moreover have "dropWhile ?d s = rev (dropWhile ?d (rev (dropWhile ?d s))) @ rev (takeWhile ?d (rev (dropWhile ?d s)))"
    by (simp flip: rev_append)
  ultimately show ?thesis unfolding trim_dashes_def by metis
qed

lemma trim_dashes_ends:
  assumes "trim_dashes s \<noteq> []"
  shows "hd (trim_dashes s) \<noteq> CHR ''-''" and "last (trim_dashes s) \<noteq> CHR ''-''"
proof -
  let ?d = "\<lambda>c. c = CHR ''-''"
  let ?t = "dropWhile ?d s"
  have ne: "dropWhile ?d (rev ?t) \<noteq> []" using assms by (simp add: trim_dashes_def)
  then show "last (trim_dashes s) \<noteq> CHR ''-''"
    using hd_dropWhile [of ?d "rev ?t"] by (simp add: trim_dashes_def last_rev)
  have t: "?t \<noteq> []"
  proof
    assume e: "?t = []"
    show False using ne unfolding e by simp
  qed
  have "last (dropWhile ?d (rev ?t)) = last (rev ?t)"
    using ne by (metis dropWhile_eq_self_iff last_appendR takeWhile_dropWhile_id)
  then have "hd (trim_dashes s) = hd ?t"
    using ne t by (simp add: trim_dashes_def hd_rev last_rev)
  with hd_dropWhile [OF t] show "hd (trim_dashes s) \<noteq> CHR ''-''" by simp
qed

lemma trim_dashes_id: "s \<noteq> [] \<Longrightarrow> hd s \<noteq> CHR ''-'' \<Longrightarrow> last s \<noteq> CHR ''-'' \<Longrightarrow> trim_dashes s = s"
proof -
  have keep: "xs \<noteq> [] \<Longrightarrow> hd xs \<noteq> CHR ''-'' \<Longrightarrow> dropWhile (\<lambda>c. c = CHR ''-'') xs = xs" for xs
    by (cases xs) auto
  assume "s \<noteq> []" "hd s \<noteq> CHR ''-''" "last s \<noteq> CHR ''-''"
  then show ?thesis using keep [of s] keep [of "rev s"] by (simp add: trim_dashes_def hd_rev)
qed

lemma trim_dashes_keeps:
  assumes "list_all P s" and "single_dashes s"
  shows "list_all P (trim_dashes s)" and "single_dashes (trim_dashes s)" and "length (trim_dashes s) \<le> length s"
proof -
  obtain u v where s: "s = u @ trim_dashes s @ v" using trim_dashes_split by blast
  then have "list_all P (u @ trim_dashes s @ v)" "single_dashes (u @ trim_dashes s @ v)" using assms by simp_all
  then show "list_all P (trim_dashes s)" and "single_dashes (trim_dashes s)"
    by (simp_all add: single_dashes_append)
  show "length (trim_dashes s) \<le> length s" using arg_cong [OF s, of length] by simp
qed

lemma compactID_is_canonical: "canonical_id (compactID v)"
proof -
  let ?ok = "\<lambda>c. id_rune c \<or> c = CHR ''-''"
  define r where "r = trim_dashes (compact_runes False (to_lower v))"
  define r' where "r' = (if length r > 48 then trim_dashes (take 48 r) else r)"
  have r: "list_all ?ok r" "single_dashes r"
    unfolding r_def using trim_dashes_keeps compact_runes_shape by blast+
  have "list_all ?ok (take 48 r)" "single_dashes (take 48 r)"
    using r single_dashes_append [of "take 48 r" "drop 48 r"] by (auto simp: list_all_iff dest: in_set_takeD)
  then have r': "list_all ?ok r'" "single_dashes r'" "length r' \<le> 48"
    using r trim_dashes_keeps [of ?ok "take 48 r"] by (auto simp: r'_def)
  have "r' \<noteq> [] \<Longrightarrow> hd r' \<noteq> CHR ''-'' \<and> last r' \<noteq> CHR ''-''"
    unfolding r'_def using trim_dashes_ends [of "take 48 r"] trim_dashes_ends [of "compact_runes False (to_lower v)"]
    by (auto simp: r_def)
  moreover have "canonical_id ''resource''"
    by (simp add: canonical_id_def id_rune_def char_class_defs)
  ultimately show ?thesis
    using r' unfolding compactID_def Let_def r_def [symmetric] r'_def [symmetric]
    by (simp add: canonical_id_def)
qed

lemma lower_byte_id: "id_rune c \<or> c = CHR ''-'' \<Longrightarrow> lower_byte c = c"
  by (auto simp: lower_byte_def id_rune_def is_upper_def is_lower_def is_digit_def)

lemma to_lower_canonical: "list_all (\<lambda>c. id_rune c \<or> c = CHR ''-'') s \<Longrightarrow> to_lower s = s"
proof (induction s)
  case (Cons c s)
  then have "c \<noteq> CHR 0xC4" "c \<noteq> CHR 0xE2" by (auto simp: id_rune_def char_class_defs)
  with Cons lower_byte_id [of c] show ?case by (simp add: to_lower.simps has_prefix_def)
qed (simp add: to_lower.simps)

lemma compact_runes_canonical:
  "list_all (\<lambda>c. id_rune c \<or> c = CHR ''-'') s \<Longrightarrow> single_dashes s \<Longrightarrow>
     (b \<longrightarrow> s = [] \<or> hd s \<noteq> CHR ''-'') \<Longrightarrow> compact_runes b s = s"
  by (induction b s rule: compact_runes.induct) (auto simp: single_dashes_Cons)

lemma compactID_fixed: "canonical_id s \<Longrightarrow> compactID s = s"
  by (simp add: canonical_id_def compactID_def Let_def to_lower_canonical compact_runes_canonical trim_dashes_id)

text \<open>
  Compacting is a projection onto the canonical identifiers (letters, digits and single inner
  dashes, at most 48 characters): it always yields one, and leaves one unchanged. So an account
  identifier is valid exactly when it is canonical and has at least three characters.
\<close>

theorem compactID_canonical:
  "canonical_id (compactID v) \<and> compactID (compactID v) = compactID v \<and>
   (validAccountID w \<longleftrightarrow> canonical_id w \<and> 3 \<le> length w)"
proof -
  have "validAccountID w \<longleftrightarrow> canonical_id w \<and> 3 \<le> length w"
    using compactID_is_canonical [of w] compactID_fixed [of w]
    by (auto simp: validAccountID_def canonical_id_def)
  then show ?thesis using compactID_is_canonical compactID_fixed by blast
qed

end
