(* ===== verification/Provider_Facts.thy ===== *)
theory Provider_Facts
  imports Console_Values Go_Calendar
begin

text \<open>
  The provider's facts on resources
  (\<^verbatim>\<open>services/control-plane/internal/server/fabric_provider_facts.go\<close>, the types from
  \<^verbatim>\<open>clients/fabric.go\<close>): the batched read of the facts, which answers every question with exactly one
  fact, and the judgements made on a fact. The Fabric client is a parameter.
\<close>

section \<open>Facts\<close>

record provider_fact_input =
  pfi_AccountID :: string
  pfi_WorkspaceID :: string
  pfi_ResourceType :: string
  pfi_ResourceID :: string

record provider_resource_facts =
  prf_PackageOrSpec :: string
  prf_ProviderID :: string
  prf_Zone :: string
  prf_Status :: string
  prf_CreatedAt :: string
  prf_ExpiresAt :: string
  prf_LastReadAt :: string

record provider_fact =
  pf_AccountID :: string
  pf_WorkspaceID :: string
  pf_ResourceType :: string
  pf_ResourceID :: string
  pf_Available :: bool
  pf_Facts :: provider_resource_facts
  pf_ErrorCode :: string

definition providerFactKey :: "provider_fact_input \<Rightarrow> string" where
  "providerFactKey input =
     pfi_AccountID input @ byte 0 # pfi_WorkspaceID input @ byte 0 # pfi_ResourceType input @ byte 0 # pfi_ResourceID input"

definition providerFactResultKey :: "provider_fact \<Rightarrow> string" where
  "providerFactResultKey pf =
     pf_AccountID pf @ byte 0 # pf_WorkspaceID pf @ byte 0 # pf_ResourceType pf @ byte 0 # pf_ResourceID pf"

section \<open>The batched read\<close>

datatype facts_error = ErrProviderFactsInvalid | ErrFactsClient string

type_synonym facts_client = "provider_fact_input list \<Rightarrow> string + provider_fact list"

text \<open>
  \<^verbatim>\<open>Service.ProviderFactsBatch\<close>: a Fabric client that does not serve facts is \<open>None\<close>.
\<close>

definition ProviderFactsBatch :: "facts_client option \<Rightarrow> provider_fact_input list \<Rightarrow> facts_error + provider_fact list" where
  "ProviderFactsBatch client items =
     (case client of
        None \<Rightarrow> Inl (ErrFactsClient ''fabric_provider_facts_unavailable'')
      | Some c \<Rightarrow> (case c items of Inl err \<Rightarrow> Inl (ErrFactsClient err) | Inr facts \<Rightarrow> Inr facts))"

definition complete_input :: "provider_fact_input \<Rightarrow> bool" where
  "complete_input input \<longleftrightarrow>
     pfi_AccountID input \<noteq> [] \<and> pfi_WorkspaceID input \<noteq> [] \<and> pfi_ResourceType input \<noteq> [] \<and> pfi_ResourceID input \<noteq> []"

text \<open>The keys a batch asks for; \<open>None\<close> where an input is incomplete or asked twice.\<close>

fun requested_keys :: "provider_fact_input list \<Rightarrow> string list \<Rightarrow> string list option" where
  "requested_keys [] requested = Some requested"
| "requested_keys (input # inputs) requested =
     (if \<not> complete_input input then None
      else if providerFactKey input \<in> set requested then None
      else requested_keys inputs (requested @ [providerFactKey input]))"

text \<open>The facts of an answer are added; one that was not asked for, or that is known already, is refused.\<close>

fun add_facts :: "string list \<Rightarrow> provider_fact list \<Rightarrow> (string \<times> provider_fact) list \<Rightarrow> (string \<times> provider_fact) list option" where
  "add_facts requested [] result = Some result"
| "add_facts requested (pf # facts) result =
     (let key = providerFactResultKey pf in
      if key \<notin> set requested then None
      else if map_of result key \<noteq> None then None
      else add_facts requested facts ((key, pf) # result))"

function read_batches :: "facts_client option \<Rightarrow> provider_fact_input list \<Rightarrow> (string \<times> provider_fact) list \<Rightarrow>
    facts_error + (string \<times> provider_fact) list" where
  "read_batches client inputs result =
     (if inputs = [] then Inr result
      else
        (case requested_keys (take 50 inputs) [] of
           None \<Rightarrow> Inl ErrProviderFactsInvalid
         | Some requested \<Rightarrow>
             (case ProviderFactsBatch client (take 50 inputs) of
                Inl err \<Rightarrow> Inl err
              | Inr facts \<Rightarrow>
                  (case add_facts requested facts result of
                     None \<Rightarrow> Inl ErrProviderFactsInvalid
                   | Some result' \<Rightarrow>
                       if list_all (\<lambda>key. map_of result' key \<noteq> None) requested
                       then read_batches client (drop 50 inputs) result'
                       else Inl ErrProviderFactsInvalid))))"
  by pat_completeness auto
termination by (relation "measure (\<lambda>(_, inputs, _). length inputs)") auto

declare read_batches.simps [simp del]

definition readProviderFacts :: "facts_client option \<Rightarrow> provider_fact_input list \<Rightarrow> facts_error + (string \<times> provider_fact) list" where
  "readProviderFacts client inputs = read_batches client inputs []"

definition readProviderFact :: "facts_client option \<Rightarrow> provider_fact_input \<Rightarrow> facts_error + provider_fact option" where
  "readProviderFact client input =
     (case readProviderFacts client [input] of
        Inl err \<Rightarrow> Inl err
      | Inr facts \<Rightarrow> Inr (map_of facts (providerFactKey input)))"

text \<open>The first input with a key is kept.\<close>

fun unique_inputs :: "string list \<Rightarrow> provider_fact_input list \<Rightarrow> provider_fact_input list" where
  "unique_inputs seen [] = []"
| "unique_inputs seen (input # inputs) =
     (if providerFactKey input \<in> set seen then unique_inputs seen inputs
      else input # unique_inputs (providerFactKey input # seen) inputs)"

definition uniqueProviderFactInputs :: "provider_fact_input list \<Rightarrow> provider_fact_input list" where
  "uniqueProviderFactInputs inputs = unique_inputs [] inputs"

section \<open>Judging a fact\<close>

definition gone_statuses :: "string list" where
  "gone_statuses = [''external_deleted'', ''deleted'', ''missing'', ''not_found'']"

definition providerFactStatusUsable :: "string \<Rightarrow> string \<Rightarrow> bool" where
  "providerFactStatusUsable resourceType status =
     (let v = to_lower (trim_space status) in v \<noteq> [] \<and> v \<notin> set gone_statuses)"

definition providerFactCovers :: "provider_fact_input \<Rightarrow> provider_fact \<Rightarrow> string \<Rightarrow> gotime \<Rightarrow> bool" where
  "providerFactCovers input pf expectedProviderID minimumExpiry =
     (let f = pf_Facts pf in
      if providerFactResultKey pf \<noteq> providerFactKey input \<or> \<not> pf_Available pf \<or> \<not> blank (pf_ErrorCode pf) \<or>
         blank (prf_ProviderID f) \<or> blank (prf_PackageOrSpec f) \<or> blank (prf_Zone f) \<or>
         \<not> providerFactStatusUsable (pfi_ResourceType input) (prf_Status f) \<or> blank (prf_LastReadAt f) then False
      else if expectedProviderID \<noteq> [] \<and> prf_ProviderID f \<noteq> expectedProviderID then False
      else
        (case rfc3339_parse (prf_ExpiresAt f) of
           None \<Rightarrow> False
         | Some expiresAt \<Rightarrow>
             \<not> t_before (t_utc expiresAt) (t_utc minimumExpiry) \<and> rfc3339_parse (prf_LastReadAt f) \<noteq> None))"

definition providerFactConfirmedAbsent :: "provider_fact_input \<Rightarrow> provider_fact \<Rightarrow> bool" where
  "providerFactConfirmedAbsent input pf =
     (if providerFactResultKey pf \<noteq> providerFactKey input \<or> \<not> pf_Available pf \<or> \<not> blank (pf_ErrorCode pf) then False
      else to_lower (trim_space (prf_Status (pf_Facts pf))) \<in> set gone_statuses \<and>
           rfc3339_parse (prf_LastReadAt (pf_Facts pf)) \<noteq> None)"

definition projectProviderFact :: "gomap \<Rightarrow> provider_fact \<Rightarrow> gomap" where
  "projectProviderFact row pf =
     (let result = cloneMap row;
          result = (if prf_ProviderID (pf_Facts pf) \<noteq> []
                    then mset_key result ''providerResourceId'' (GStr (prf_ProviderID (pf_Facts pf))) else result);
          result = mset_key result ''providerStatus'' (GStr (prf_Status (pf_Facts pf)));
          result = mset_key result ''lastProviderSyncAt'' (GStr (prf_LastReadAt (pf_Facts pf)))
      in mset_key result ''lastProviderSyncError'' (GStr []))"

section \<open>What a read returns\<close>

lemma requested_keys_Some:
  "requested_keys inputs ks = Some r \<longleftrightarrow>
     r = ks @ map providerFactKey inputs \<and> list_all complete_input inputs \<and>
     distinct (map providerFactKey inputs) \<and> set (map providerFactKey inputs) \<inter> set ks = {}"
  by (induction inputs arbitrary: ks) auto

definition keyed_facts :: "(string \<times> provider_fact) list \<Rightarrow> bool" where
  "keyed_facts result \<longleftrightarrow> distinct (map fst result) \<and> (\<forall>(k, f) \<in> set result. providerFactResultKey f = k)"

lemma add_facts_sound:
  "add_facts requested facts result = Some result' \<Longrightarrow> keyed_facts result \<Longrightarrow>
     keyed_facts result' \<and> fst ` set result' \<subseteq> fst ` set result \<union> set requested \<and> set result \<subseteq> set result'"
proof (induction facts arbitrary: result)
  case (Cons f facts)
  then have "add_facts requested facts ((providerFactResultKey f, f) # result) = Some result'"
    and n: "map_of result (providerFactResultKey f) = None" "providerFactResultKey f \<in> set requested"
    by (auto simp: Let_def split: if_splits)
  from Cons.IH [OF this(1)] n Cons.prems(2) show ?case
    by (auto simp: keyed_facts_def map_of_eq_None_iff)
qed simp

lemma read_batches_sound:
  "read_batches client inputs result = Inr facts \<Longrightarrow> keyed_facts result \<Longrightarrow>
     keyed_facts facts \<and> set result \<subseteq> set facts \<and> list_all complete_input inputs \<and>
     fst ` set facts = fst ` set result \<union> providerFactKey ` set inputs"
proof (induction client inputs result rule: read_batches.induct)
  case (1 client inputs result)
  show ?case
  proof (cases "inputs = []")
    case True
    then show ?thesis using 1 by (simp add: read_batches.simps)
  next
    case False
    let ?b = "take 50 inputs"
    obtain items result' where r: "requested_keys ?b [] = Some (map providerFactKey ?b)"
        "ProviderFactsBatch client ?b = Inr items" "add_facts (map providerFactKey ?b) items result = Some result'"
        "list_all (\<lambda>key. map_of result' key \<noteq> None) (map providerFactKey ?b)"
        "read_batches client (drop 50 inputs) result' = Inr facts"
      using "1.prems"(1) False
      by (subst (asm) read_batches.simps) (auto simp: requested_keys_Some split: option.splits sum.splits if_splits)
    from add_facts_sound [OF r(3) "1.prems"(2)] have a: "keyed_facts result'"
        "fst ` set result' \<subseteq> fst ` set result \<union> providerFactKey ` set ?b" "set result \<subseteq> set result'" by auto
    from "1.IH" [OF False r(1,2,3,4,5) a(1)]
    have ih: "keyed_facts facts" "set result' \<subseteq> set facts" "list_all complete_input (drop 50 inputs)"
        "fst ` set facts = fst ` set result' \<union> providerFactKey ` set (drop 50 inputs)" by auto
    have "providerFactKey ` set ?b \<subseteq> fst ` set result'"
      using r(4) by (auto simp: list_all_iff map_of_eq_None_iff)
    moreover have "set inputs = set ?b \<union> set (drop 50 inputs)"
      by (metis append_take_drop_id set_append)
    moreover have "list_all complete_input ?b" using r(1) by (simp add: requested_keys_Some)
    ultimately show ?thesis
      using a ih by (auto simp: list_all_iff image_Un)
  qed
qed

text \<open>
  C27: a read of provider facts answers every question with exactly one fact and no other: the keys of the
  result are those of the inputs, each once, and the fact under a key is about the resource of that key.
\<close>

theorem provider_facts_exact:
  assumes "readProviderFacts client inputs = Inr facts"
  shows "distinct (map fst facts) \<and> set (map fst facts) = set (map providerFactKey inputs) \<and>
    (\<forall>input \<in> set inputs. complete_input input \<and>
       (\<exists>f. map_of facts (providerFactKey input) = Some f \<and> providerFactResultKey f = providerFactKey input))"
proof -
  have s: "keyed_facts facts" "list_all complete_input inputs" "fst ` set facts = providerFactKey ` set inputs"
    using read_batches_sound [OF assms [unfolded readProviderFacts_def]] by (auto simp: keyed_facts_def)
  have "\<exists>f. map_of facts (providerFactKey input) = Some f \<and> providerFactResultKey f = providerFactKey input"
    if "input \<in> set inputs" for input
  proof -
    have "providerFactKey input \<in> fst ` set facts" using that s(3) by simp
    then obtain f where "map_of facts (providerFactKey input) = Some f"
      by (metis domD dom_map_of_conv_image_fst)
    with s(1) show ?thesis by (auto simp: keyed_facts_def dest: map_of_SomeD)
  qed
  with s show ?thesis by (auto simp: keyed_facts_def list_all_iff)
qed

text \<open>A client that answers each input with its fact makes the read succeed, whatever the number of batches.\<close>

lemma add_facts_answers:
  "distinct (map providerFactKey items) \<Longrightarrow> \<forall>i \<in> set items. providerFactResultKey (answer i) = providerFactKey i \<Longrightarrow>
   set (map providerFactKey items) \<subseteq> set requested \<Longrightarrow> set (map providerFactKey items) \<inter> fst ` set result = {} \<Longrightarrow>
     add_facts requested (map answer items) result = Some (rev (map (\<lambda>i. (providerFactKey i, answer i)) items) @ result)"
  by (induction items arbitrary: result) (auto simp: Let_def map_of_eq_None_iff)

lemma read_batches_answers:
  assumes "\<forall>items. set items \<subseteq> set inputs \<longrightarrow> c items = Inr (map answer items)"
    and "\<forall>i \<in> set inputs. providerFactResultKey (answer i) = providerFactKey i \<and> complete_input i"
    and "distinct (map providerFactKey inputs)" and "set (map providerFactKey inputs) \<inter> fst ` set result = {}"
  shows "read_batches (Some c) inputs result =
    Inr (rev (map (\<lambda>i. (providerFactKey i, answer i)) inputs) @ result)"
  using assms
proof (induction "Some c" inputs result rule: read_batches.induct)
  case (1 inputs result)
  show ?case
  proof (cases "inputs = []")
    case True
    then show ?thesis by (simp add: read_batches.simps)
  next
    case False
    let ?b = "take 50 inputs" and ?d = "drop 50 inputs" and ?m = "\<lambda>i. (providerFactKey i, answer i)"
    have sub: "set ?b \<subseteq> set inputs" "set ?d \<subseteq> set inputs" by (rule set_take_subset, rule set_drop_subset)
    have dis: "distinct (map providerFactKey ?b)" "distinct (map providerFactKey ?d)"
        "set (map providerFactKey ?b) \<inter> set (map providerFactKey ?d) = {}"
      using "1.prems"(3) by (metis distinct_append map_append append_take_drop_id)+
    have b: "requested_keys ?b [] = Some (map providerFactKey ?b)"
      using "1.prems"(2) sub(1) dis(1) by (auto simp: requested_keys_Some list_all_iff)
    have p: "ProviderFactsBatch (Some c) ?b = Inr (map answer ?b)"
      using "1.prems"(1) sub(1) by (simp add: ProviderFactsBatch_def)
    let ?r = "rev (map ?m ?b) @ result"
    have a: "add_facts (map providerFactKey ?b) (map answer ?b) result = Some ?r"
      using "1.prems"(2,4) sub(1) dis(1) by (intro add_facts_answers) auto
    have l: "list_all (\<lambda>key. map_of ?r key \<noteq> None) (map providerFactKey ?b)"
      by (auto simp: list_all_iff map_of_eq_None_iff image_iff)
    have "read_batches (Some c) ?d ?r = Inr (rev (map ?m ?d) @ ?r)"
    proof (rule "1.hyps" [OF False b p a l])
      show "\<forall>items. set items \<subseteq> set ?d \<longrightarrow> c items = Inr (map answer items)" using "1.prems"(1) sub(2) by blast
      show "\<forall>i \<in> set ?d. providerFactResultKey (answer i) = providerFactKey i \<and> complete_input i"
        using "1.prems"(2) sub(2) by blast
      show "distinct (map providerFactKey ?d)" by (rule dis(2))
      have "fst ` set ?r = set (map providerFactKey ?b) \<union> fst ` set result" by (simp add: image_Un image_image)
      then show "set (map providerFactKey ?d) \<inter> fst ` set ?r = {}"
        using "1.prems"(4) sub(2) dis(3) by auto
    qed
    moreover have "rev (map ?m inputs) @ result = rev (map ?m (?b @ ?d)) @ result" by simp
    then have "rev (map ?m inputs) @ result = rev (map ?m ?d) @ ?r"
      by (simp only: map_append rev_append append_assoc)
    ultimately show ?thesis
      using False b p a l by (subst read_batches.simps) (simp only: option.case sum.case if_True if_False refl)
  qed
qed

lemma unique_inputs_facts:
  "distinct (map providerFactKey (unique_inputs seen inputs)) \<and>
   set (map providerFactKey (unique_inputs seen inputs)) = set (map providerFactKey inputs) - set seen \<and>
   set (unique_inputs seen inputs) \<subseteq> set inputs"
  by (induction seen inputs rule: unique_inputs.induct) auto

lemma uniqueProviderFactInputs_facts:
  "distinct (map providerFactKey (uniqueProviderFactInputs inputs))"
  "set (map providerFactKey (uniqueProviderFactInputs inputs)) = set (map providerFactKey inputs)"
  "set (uniqueProviderFactInputs inputs) \<subseteq> set inputs"
  using unique_inputs_facts [of "[]" inputs] by (auto simp: uniqueProviderFactInputs_def)

lemma covers_not_absent: "providerFactCovers input f expected t \<Longrightarrow> \<not> providerFactConfirmedAbsent input f"
  by (auto simp: providerFactCovers_def providerFactConfirmedAbsent_def providerFactStatusUsable_def Let_def
      split: if_splits)

section \<open>A provider that answers\<close>

definition sample_facts_input :: "string \<Rightarrow> string \<Rightarrow> provider_fact_input" where
  "sample_facts_input kind id' =
     \<lparr>pfi_AccountID = ''acct-1'', pfi_WorkspaceID = ''ws-1'', pfi_ResourceType = kind, pfi_ResourceID = id'\<rparr>"

definition sample_answer :: "provider_fact_input \<Rightarrow> provider_fact" where
  "sample_answer input =
     \<lparr>pf_AccountID = pfi_AccountID input, pf_WorkspaceID = pfi_WorkspaceID input,
      pf_ResourceType = pfi_ResourceType input, pf_ResourceID = pfi_ResourceID input, pf_Available = True,
      pf_Facts = \<lparr>prf_PackageOrSpec = ''basic'', prf_ProviderID = ''ins-1'', prf_Zone = ''z1'', prf_Status = ''RUNNING'',
        prf_CreatedAt = ''2026-01-01T00:00:00Z'', prf_ExpiresAt = ''2026-09-01T00:00:00Z'', prf_LastReadAt = ''2026-07-02T00:00:00Z''\<rparr>,
      pf_ErrorCode = []\<rparr>"

definition sample_facts_client :: facts_client where
  "sample_facts_client items = Inr (map sample_answer items)"

lemma sample_read:
  "readProviderFacts (Some sample_facts_client) [sample_facts_input ''compute'' ''c-1'', sample_facts_input ''storage'' ''s-1''] =
    Inr (rev (map (\<lambda>i. (providerFactKey i, sample_answer i))
      [sample_facts_input ''compute'' ''c-1'', sample_facts_input ''storage'' ''s-1'']))"
proof -
  have "read_batches (Some sample_facts_client) [sample_facts_input ''compute'' ''c-1'', sample_facts_input ''storage'' ''s-1''] [] =
    Inr (rev (map (\<lambda>i. (providerFactKey i, sample_answer i))
      [sample_facts_input ''compute'' ''c-1'', sample_facts_input ''storage'' ''s-1'']) @ [])"
    by (rule read_batches_answers) (simp_all add: sample_facts_client_def sample_facts_input_def sample_answer_def
        providerFactKey_def providerFactResultKey_def complete_input_def byte_def)
  then show ?thesis by (simp add: readProviderFacts_def)
qed

theorem provider_facts_exact_witness:
  "\<exists>facts f. readProviderFacts (Some sample_facts_client) [sample_facts_input ''compute'' ''c-1'', sample_facts_input ''storage'' ''s-1''] = Inr facts \<and>
     map_of facts (providerFactKey (sample_facts_input ''storage'' ''s-1'')) = Some f \<and>
     providerFactResultKey f = providerFactKey (sample_facts_input ''storage'' ''s-1'')"
  using provider_facts_exact [OF sample_read] sample_read by auto

end
