(* ===== verification/Renewal_Operation.thy ===== *)
theory Renewal_Operation
  imports Console_Values
begin

text \<open>
  The record of a workspace renewal (\<^verbatim>\<open>services/control-plane/internal/server/workspace_renewal.go\<close>) and how
  it is read back from its row. The fields that are not part of the JSON text come from the row; JSON
  decoding is a parameter.
\<close>

record renewal_operation =
  wr_ID :: string
  wr_Status :: string
  wr_CreatedAt :: string
  wr_PersistedResult :: string
  wr_RequestHash :: string
  wr_Phase :: string
  wr_AccountID :: string
  wr_OwnerUserID :: string
  wr_WorkspaceID :: string
  wr_PackageID :: string
  wr_StorageGB :: int
  wr_ComputeID :: string
  wr_StorageID :: string
  wr_PriceVersion :: string
  wr_ComputeUSDMicros :: int
  wr_StorageUSDMicros :: int
  wr_TotalUSDMicros :: int
  wr_PeriodStart :: string
  wr_PaidThrough :: string
  wr_RenewedThrough :: string
  wr_RedeemCode :: string
  wr_RefundCode :: string
  wr_ComputePreflightConfirmed :: bool
  wr_StoragePreflightConfirmed :: bool
  wr_ChargeAttempted :: bool
  wr_ChargeConfirmation :: gomap
  wr_PreChargeBalanceUSDMicros :: int
  wr_PostChargeBalanceUSDMicros :: int
  wr_PostChargeBalanceKnown :: bool
  wr_RefundAttempted :: bool
  wr_RefundConfirmation :: gomap
  wr_RefundReason :: string
  wr_RefundReceiptID :: string
  wr_ComputeRenewal :: gomap
  wr_StorageRenewal :: gomap
  wr_ComputeReadback :: gomap
  wr_StorageReadback :: gomap
  wr_EntitlementCommitted :: bool
  wr_ReceiptID :: string
  wr_ErrorCode :: string
  wr_PriorStatus :: string
  wr_PriorErrorCode :: string
  wr_ExpiryStatus :: string
  wr_ExpiryPhase :: string
  wr_ExpiryErrorCode :: string
  wr_ExpiryReceiptID :: string
  wr_ExpiryPeriodStart :: string
  wr_ExpiryPaidThrough :: string
  wr_LeaseToken :: string
  wr_LeaseExpiresAt :: string
  wr_ReviewResolutionKey :: string
  wr_ReviewResolutionFingerprint :: string
  wr_ReviewResolutionDecision :: string
  wr_ReviewResolutionEvidenceRef :: string
  wr_ReviewResolutionReviewer :: string
  wr_ReviewResolutionPhase :: string
  wr_ReviewResolutionResolvedAt :: string
  wr_ReviewResolutionResult :: gomap

datatype renewal_error = ErrInvalidWorkspaceRenewalOperation

definition decodeWorkspaceRenewalOperation ::
    "(string \<Rightarrow> renewal_operation option) \<Rightarrow> gomap \<Rightarrow> renewal_error + renewal_operation" where
  "decodeWorkspaceRenewalOperation unmarshal row =
     (let result = stringValue (mget row ''result'') in
      case unmarshal result of
        None \<Rightarrow> Inl ErrInvalidWorkspaceRenewalOperation
      | Some op \<Rightarrow>
          (let op = op\<lparr>wr_ID := firstNonEmpty [stringValue (mget row ''operationId''), stringValue (mget row ''id'')],
                      wr_Status := stringValue (mget row ''status''), wr_CreatedAt := stringValue (mget row ''createdAt''),
                      wr_PersistedResult := result\<rparr>
           in if wr_ID op = [] \<or> wr_Status op = [] \<or> wr_RequestHash op = [] \<or> wr_AccountID op = [] \<or>
                 wr_WorkspaceID op = [] \<or> wr_PaidThrough op = [] then Inl ErrInvalidWorkspaceRenewalOperation
              else if list_ex (\<lambda>(field, want). stringValue (mget row field) \<noteq> [] \<and> stringValue (mget row field) \<noteq> want)
                [(''accountId'', wr_AccountID op), (''workspaceId'', wr_WorkspaceID op), (''resourceId'', wr_WorkspaceID op),
                 (''resourceKind'', ''workspace_renewal''), (''action'', ''workspace.renewal'')]
              then Inl ErrInvalidWorkspaceRenewalOperation
              else Inr op))"

end
