(* ===== verification/Pricing.thy ===== *)
theory Pricing
  imports Console_Values
begin

text \<open>
  Pricing (\<^verbatim>\<open>services/control-plane/internal/server/pricing.go\<close> and \<^verbatim>\<open>deployment_profile.go\<close>): the catalog,
  the preview of a compute, storage or workspace price, the packages the provider offers, and the
  customer's view of a preview. A preview is a row; its charges are \<^verbatim>\<open>int64\<close> amounts of micro dollars.

  The theorems show that a storage price is the exact product of blocks and block price and cannot
  overflow, that a workspace price is the sum of its components as long as the components are exact
  as floats, and where it is not.
\<close>

section \<open>Deployment profile\<close>

datatype profile_error =
    ErrDeploymentModeRequired | ErrWorkspaceDomainRequired | ErrFabricProviderRequired
  | ErrFabricProviderInvalid | ErrDeploymentModeInvalid

record deployment_profile =
  dp_Mode :: string
  dp_FabricProvider :: string

text \<open>The arguments are \<^verbatim>\<open>OPL_DEPLOYMENT_MODE\<close>, \<^verbatim>\<open>OPL_FABRIC_PROVIDER\<close> and the workspace domain.\<close>

definition deploymentProfileFromEnv :: "string \<Rightarrow> string \<Rightarrow> string \<Rightarrow> profile_error + deployment_profile" where
  "deploymentProfileFromEnv mode_env provider_env workspaceDomain =
     (let mode = trim_space mode_env in
      if mode = [] then Inl ErrDeploymentModeRequired
      else if mode \<in> {''platform_owned'', ''managed_tke'', ''customer_owned''} then
        (if workspaceDomain = [] then Inl ErrWorkspaceDomainRequired
         else let provider = trim_space provider_env in
           if provider = [] then Inl ErrFabricProviderRequired
           else if provider \<in> {''local-docker'', ''tencent-tke''}
           then Inr \<lparr>dp_Mode = mode, dp_FabricProvider = provider\<rparr>
           else Inl ErrFabricProviderInvalid)
      else Inl ErrDeploymentModeInvalid)"

definition customerOwned :: "deployment_profile \<Rightarrow> bool" where
  "customerOwned profile \<longleftrightarrow> dp_Mode profile = ''customer_owned''"

definition resourceBillingEnabled :: "deployment_profile \<Rightarrow> bool" where
  "resourceBillingEnabled profile \<longleftrightarrow> \<not> customerOwned profile"

section \<open>The catalog\<close>

definition pricingCatalogVersion :: string where
  "pricingCatalogVersion = ''pilot-usd-2026-07-v1''"

definition pricingCurrency :: string where
  "pricingCurrency = ''USD''"

definition pricingBillingUnit :: string where
  "pricingBillingUnit = ''calendar_month''"

datatype pricing_error = ErrInvalidPricingInput | ErrPackageUnavailable

record pricing_package =
  pp_ID :: string
  pp_Name :: string
  pp_Available :: bool
  pp_ChargeUSDMicros :: int

record pricing_catalog =
  pc_Version :: string
  pc_Currency :: string
  pc_WalletCurrency :: string
  pc_BillingUnit :: string
  pc_StorageBlockGB :: int
  pc_StorageBlockPriceUSDMicros :: int
  pc_Packages :: "pricing_package list"

definition current_catalog :: pricing_catalog where
  "current_catalog =
     \<lparr>pc_Version = pricingCatalogVersion, pc_Currency = pricingCurrency, pc_WalletCurrency = ''USD'',
      pc_BillingUnit = pricingBillingUnit, pc_StorageBlockGB = 10, pc_StorageBlockPriceUSDMicros = 2580000,
      pc_Packages =
        [\<lparr>pp_ID = ''basic'', pp_Name = ''Basic'', pp_Available = True, pp_ChargeUSDMicros = 50000000\<rparr>,
         \<lparr>pp_ID = ''pro'', pp_Name = ''Pro'', pp_Available = True, pp_ChargeUSDMicros = 214280000\<rparr>]\<rparr>"

definition pricingCatalogByVersion :: "string \<Rightarrow> pricing_catalog option" where
  "pricingCatalogByVersion priceVersion =
     (if priceVersion = pricingCatalogVersion then Some current_catalog else None)"

text \<open>\<open>None\<close> stands for the panic on an unregistered current version.\<close>

definition defaultPricingCatalog :: "pricing_catalog option" where
  "defaultPricingCatalog = pricingCatalogByVersion pricingCatalogVersion"

definition packageByIDFromCatalog :: "pricing_catalog \<Rightarrow> string \<Rightarrow> pricing_package option" where
  "packageByIDFromCatalog catalog packageID = find (\<lambda>plan. pp_ID plan = packageID) (pc_Packages catalog)"

definition catalogStorageLimitGB :: "pricing_catalog \<Rightarrow> int option" where
  "catalogStorageLimitGB catalog =
     (if pc_StorageBlockGB catalog \<le> 0 \<or> pc_StorageBlockGB catalog > max_json_safe \<or>
         pc_StorageBlockPriceUSDMicros catalog \<le> 0 then None
      else
        (let maxBlocks = max_json_safe div pc_StorageBlockGB catalog;
             chargeBlocks = max_int64 div pc_StorageBlockPriceUSDMicros catalog;
             maxBlocks = (if chargeBlocks < maxBlocks then chargeBlocks else maxBlocks)
         in if maxBlocks \<le> 0 then None else Some (wrap64 (maxBlocks * pc_StorageBlockGB catalog))))"

definition checkedAddInt64 :: "int \<Rightarrow> int \<Rightarrow> int option" where
  "checkedAddInt64 left right =
     (if left < 0 \<or> right < 0 \<or> left > wrap64 (max_int64 - right) then None else Some (wrap64 (left + right)))"

section \<open>Previews\<close>

text \<open>The blocks' price of a storage size, with the source's tests on the float.\<close>

definition storage_charge :: "pricing_catalog \<Rightarrow> gofloat \<Rightarrow> int option" where
  "storage_charge catalog sizeGB =
     (case catalogStorageLimitGB catalog of
        None \<Rightarrow> None
      | Some maxStorageGB \<Rightarrow>
          (case sizeGB of
             Fin q \<Rightarrow>
               if float_less sizeGB (float_of_int (pc_StorageBlockGB catalog)) \<or> float_less maxJSONSafeInteger sizeGB \<or>
                  \<not> float_is_int sizeGB \<or> int64_of_float sizeGB > maxStorageGB \<or>
                  int64_of_float sizeGB mod pc_StorageBlockGB catalog \<noteq> 0
               then None
               else Some (wrap64 (int64_of_float sizeGB div pc_StorageBlockGB catalog * pc_StorageBlockPriceUSDMicros catalog))
           | _ \<Rightarrow> None))"

definition price_snapshot :: "pricing_catalog \<Rightarrow> pricing_package \<Rightarrow> string \<Rightarrow> int \<Rightarrow> (string \<times> goval) list" where
  "price_snapshot catalog plan resourceType charge =
     [(''priceVersion'', GStr (pc_Version catalog)), (''pricingVersion'', GStr (pc_Version catalog)),
      (''packageId'', GStr (pp_ID plan)), (''currency'', GStr (pc_Currency catalog)),
      (''displayCurrency'', GStr (pc_Currency catalog)), (''billingUnit'', GStr (pc_BillingUnit catalog)),
      (''chargeUsdMicros'', GInt KInt64 charge), (''resourceType'', GStr resourceType)]"

definition component_preview ::
    "pricing_catalog \<Rightarrow> pricing_package \<Rightarrow> string \<Rightarrow> int \<Rightarrow> (string \<times> goval) list \<Rightarrow> (string \<times> goval) list" where
  "component_preview catalog plan resourceType charge snapshot =
     [(''priceVersion'', GStr (pc_Version catalog)), (''pricingVersion'', GStr (pc_Version catalog)),
      (''resourceType'', GStr resourceType), (''packageId'', GStr (pp_ID plan)),
      (''currency'', GStr (pc_Currency catalog)), (''displayCurrency'', GStr (pc_Currency catalog)),
      (''billingUnit'', GStr (pc_BillingUnit catalog)), (''chargeUsdMicros'', GInt KInt64 charge),
      (''priceSnapshot'', GObj snapshot)]"

text \<open>
  The part of \<^verbatim>\<open>pricingPreviewFromCatalog\<close> that a compute or a storage price takes. A workspace preview
  calls \<^verbatim>\<open>pricingPreviewFromCatalog\<close> again with one of these two types, which is this function.
\<close>

definition componentPricingPreview :: "pricing_catalog \<Rightarrow> gomap \<Rightarrow> pricing_error + (string \<times> goval) list" where
  "componentPricingPreview catalog input =
     (let resourceType = firstNonEmpty [stringField input ''resourceType'' [], ''compute''] in
      if resourceType \<noteq> ''compute'' \<and> resourceType \<noteq> ''storage'' then Inl ErrInvalidPricingInput
      else
        (let packageID = firstNonEmpty [stringField input ''packageId'' [], ''basic''] in
         case packageByIDFromCatalog catalog packageID of
           None \<Rightarrow> Inl ErrInvalidPricingInput
         | Some plan \<Rightarrow>
             if resourceType = ''storage'' then
               (let sizeGB = numberField input ''sizeGb''
                      (numberField input ''sizeGB'' (float_of_int (pc_StorageBlockGB catalog)))
                in case storage_charge catalog sizeGB of
                     None \<Rightarrow> Inl ErrInvalidPricingInput
                   | Some charge \<Rightarrow>
                       Inr (component_preview catalog plan resourceType charge
                              (price_snapshot catalog plan resourceType charge @ [(''sizeGb'', GFloat KFloat64 sizeGB)])))
             else
               Inr (component_preview catalog plan resourceType (pp_ChargeUSDMicros plan)
                      (price_snapshot catalog plan resourceType (pp_ChargeUSDMicros plan)))))"

definition workspacePricingPreview :: "pricing_catalog \<Rightarrow> gomap \<Rightarrow> pricing_error + (string \<times> goval) list" where
  "workspacePricingPreview catalog input =
     (let packageID = trim_space (stringValue (mget input ''packageId''));
          (sizeGB, validSize) = positiveIntegerField input ''sizeGb''
      in if as_str (mget input ''packageId'') = None \<or> packageID = [] \<or> \<not> validSize then Inl ErrInvalidPricingInput
         else
           (let computeInput = mset_key (mset_key (cloneMap input) ''resourceType'' (GStr ''compute'')) ''packageId'' (GStr packageID);
                storageInput = mset_key (mset_key (mset_key (cloneMap input) ''resourceType'' (GStr ''storage''))
                                 ''packageId'' (GStr packageID)) ''sizeGb'' (GInt KInt64 sizeGB)
            in case componentPricingPreview catalog computeInput of
                 Inl err \<Rightarrow> Inl err
               | Inr compute \<Rightarrow>
                 (case componentPricingPreview catalog storageInput of
                    Inl err \<Rightarrow> Inl err
                  | Inr storage \<Rightarrow>
                      (case checkedAddInt64 (int64_of_float (numberField (Some compute) ''chargeUsdMicros'' (Fin 0)))
                              (int64_of_float (numberField (Some storage) ''chargeUsdMicros'' (Fin 0))) of
                         None \<Rightarrow> Inl ErrInvalidPricingInput
                       | Some usdMicros \<Rightarrow> Inr
                           [(''resourceType'', GStr ''workspace''), (''priceVersion'', GStr (pc_Version catalog)),
                            (''pricingVersion'', GStr (pc_Version catalog)),
                            (''packageId'', GStr (stringValue (mget (Some compute) ''packageId''))),
                            (''currency'', GStr (pc_Currency catalog)), (''displayCurrency'', GStr (pc_Currency catalog)),
                            (''billingUnit'', GStr (pc_BillingUnit catalog)), (''compute'', GObj compute), (''storage'', GObj storage),
                            (''totalChargeUsdMicros'', GInt KInt64 usdMicros)]))))"

definition pricingPreviewFromCatalog :: "pricing_catalog \<Rightarrow> gomap \<Rightarrow> pricing_error + (string \<times> goval) list" where
  "pricingPreviewFromCatalog catalog input =
     (if firstNonEmpty [stringField input ''resourceType'' [], ''compute''] = ''workspace''
      then workspacePricingPreview catalog input
      else componentPricingPreview catalog input)"

section \<open>The provider's packages\<close>

definition pool_row :: "goval \<Rightarrow> gomap" where
  "pool_row raw = as_obj raw"

definition pool_available :: "gomap \<Rightarrow> bool" where
  "pool_available pool \<longleftrightarrow> mget pool ''available'' = GBool True"

definition pools_of :: "goval list \<Rightarrow> string \<Rightarrow> gomap list" where
  "pools_of computePools packageID =
     filter (\<lambda>pool. stringValue (mget pool ''packageId'') = packageID) (map pool_row computePools)"

text \<open>Whether the package is offered at all, and whether it is available.\<close>

definition providerPackageAvailable :: "goval list \<Rightarrow> string \<Rightarrow> bool \<times> bool" where
  "providerPackageAvailable computePools packageID =
     (let pools = pools_of computePools packageID in (pools \<noteq> [], list_ex pool_available pools))"

fun package_storage :: "gomap list \<Rightarrow> bool \<Rightarrow> bool \<Rightarrow> int \<Rightarrow> int \<times> bool" where
  "package_storage [] found available sizeGB = (sizeGB, found \<and> available)"
| "package_storage (pool # pools) found available sizeGB =
     (let number = numberField pool ''sizeGb'' (Fin 0); candidate = int64_of_float number in
      if candidate \<le> 0 \<or> \<not> float_eq (float_of_int candidate) number \<or> found \<and> sizeGB \<noteq> candidate then (0, False)
      else package_storage pools True (available \<or> pool_available pool) candidate)"

definition providerPackageStorageGB :: "goval list \<Rightarrow> string \<Rightarrow> int \<times> bool" where
  "providerPackageStorageGB computePools packageID =
     package_storage (pools_of computePools packageID) False False 0"

definition package_row :: "pricing_package \<Rightarrow> gomap" where
  "package_row plan = Some [(''id'', GStr (pp_ID plan)), (''name'', GStr (pp_Name plan)), (''available'', GBool (pp_Available plan))]"

definition packageRows :: "pricing_catalog \<Rightarrow> gomap list" where
  "packageRows catalog = map package_row (pc_Packages catalog)"

text \<open>The name of a package is the last one that is not blank among its pools.\<close>

definition pool_name :: "goval list \<Rightarrow> string \<Rightarrow> string" where
  "pool_name computePools packageID =
     (let names = filter (\<lambda>n. n \<noteq> []) (map (\<lambda>pool. trim_space (stringValue (mget pool ''name''))) (pools_of computePools packageID))
      in if names = [] then [] else last names)"

definition packageRowsForComputePools :: "pricing_catalog \<Rightarrow> goval list \<Rightarrow> gomap list" where
  "packageRowsForComputePools catalog computePools =
     map (\<lambda>row.
        (let packageID = stringValue (mget row ''id'');
             offered = packageID \<noteq> [] \<and> snd (providerPackageAvailable computePools packageID);
             name = (if packageID = [] then [] else pool_name computePools packageID);
             row = (if name \<noteq> [] then mset_key row ''name'' (GStr name) else row)
         in mset_key row ''available'' (GBool (mget row ''available'' = GBool True \<and> offered))))
       (packageRows catalog)"

definition pricingCatalogDTO :: "pricing_catalog \<Rightarrow> gomap list \<Rightarrow> gomap" where
  "pricingCatalogDTO catalog rows = Some
     [(''priceVersion'', GStr (pc_Version catalog)), (''billingUnit'', GStr (pc_BillingUnit catalog)),
      (''displayCurrency'', GStr (pc_Currency catalog)), (''walletCurrency'', GStr (pc_WalletCurrency catalog)),
      (''currency'', GStr (pc_Currency catalog)),
      (''storageSize'', GObj [(''minimumGb'', GInt KInt64 (pc_StorageBlockGB catalog)), (''stepGb'', GInt KInt64 (pc_StorageBlockGB catalog))]),
      (''storageBlockMonthly'', GObj [(''priceVersion'', GStr (pc_Version catalog)), (''currency'', GStr (pc_Currency catalog)),
         (''displayCurrency'', GStr (pc_Currency catalog)), (''blockSizeGb'', GInt KInt64 (pc_StorageBlockGB catalog)),
         (''usdMicros'', GInt KInt64 (pc_StorageBlockPriceUSDMicros catalog))]),
      (''packages'', GArr (map gomap_val rows))]"

definition pricingCatalogResponse :: "deployment_profile \<Rightarrow> goval list \<Rightarrow> gomap" where
  "pricingCatalogResponse deployment computePools =
     mset_key (mset_key (mset_key
       (pricingCatalogDTO current_catalog (packageRowsForComputePools current_catalog computePools))
       ''deploymentMode'' (GStr (dp_Mode deployment)))
       ''fabricProvider'' (GStr (dp_FabricProvider deployment)))
       ''resourceBillingMode'' (GStr (if resourceBillingEnabled deployment then ''enabled'' else ''none''))"

section \<open>The customer's view\<close>

definition snapshot_keys :: "string list" where
  "snapshot_keys = [''resourceType'', ''priceVersion'', ''packageId'', ''currency'', ''displayCurrency'', ''billingUnit'']"

definition customerPricingSnapshotDTO :: "gomap \<Rightarrow> gomap" where
  "customerPricingSnapshotDTO snapshot =
     (let result = Some (map (\<lambda>k. (k, mget snapshot k)) (snapshot_keys @ [''chargeUsdMicros'']))
      in if mhas snapshot ''sizeGb'' then mset_key result ''sizeGb'' (mget snapshot ''sizeGb'') else result)"

lemma member_size: "(k, v) \<in> set kvs \<Longrightarrow> size v < size (GObj kvs)"
  by (induction kvs) auto

lemma mapField_size:
  assumes "mget m k \<noteq> GNil" and "mapField m j = Some kvs"
  shows "size (GObj kvs) < size (GObj (case m of None \<Rightarrow> [] | Some l \<Rightarrow> l))"
proof -
  obtain l where m: "m = Some l" using assms(1) by (cases m) (simp_all add: mget_def)
  have l: "l \<noteq> []" using assms(1) m by (auto simp: mget_def)
  show ?thesis
  proof (cases "mget m j")
    case (GObj o')
    then have "map_of l j = Some (GObj o')" using m by (simp add: mget_def split: option.splits)
    then have "(j, GObj o') \<in> set l" by (rule map_of_SomeD)
    from member_size [OF this] show ?thesis using GObj assms(2) m by (simp add: mapField_def cloneMap_def)
  qed (use assms(2) l m in \<open>auto simp: mapField_def cloneMap_def neq_Nil_conv\<close>)
qed

function customerPricingPreviewDTO :: "gomap \<Rightarrow> gomap" where
  "customerPricingPreviewDTO preview =
     (let result = map (\<lambda>k. (k, mget preview k)) snapshot_keys in
      if mget preview ''resourceType'' = GStr ''workspace'' then
        Some (result @ [(''compute'', gomap_val (customerPricingPreviewDTO (mapField preview ''compute''))),
                        (''storage'', gomap_val (customerPricingPreviewDTO (mapField preview ''storage''))),
                        (''totalChargeUsdMicros'', mget preview ''totalChargeUsdMicros'')])
      else
        Some (result @ [(''chargeUsdMicros'', mget preview ''chargeUsdMicros''),
                        (''priceSnapshot'', gomap_val (customerPricingSnapshotDTO (mapField preview ''priceSnapshot'')))]))"
  by pat_completeness auto
termination
proof (relation "measure (\<lambda>m. size (GObj (case m of None \<Rightarrow> [] | Some l \<Rightarrow> l)))")
  fix preview :: gomap and result
  assume "mget preview ''resourceType'' = GStr ''workspace''"
  then have ne: "mget preview ''resourceType'' \<noteq> GNil" by simp
  show "(mapField preview ''compute'', preview) \<in> measure (\<lambda>m. size (GObj (case m of None \<Rightarrow> [] | Some l \<Rightarrow> l)))"
    using mapField_size [OF ne] by (cases "mapField preview ''compute''") (auto simp: mapField_def cloneMap_def split: option.splits)
  show "(mapField preview ''storage'', preview) \<in> measure (\<lambda>m. size (GObj (case m of None \<Rightarrow> [] | Some l \<Rightarrow> l)))"
    using mapField_size [OF ne] by (cases "mapField preview ''storage''") (auto simp: mapField_def cloneMap_def split: option.splits)
qed simp

declare customerPricingPreviewDTO.simps [simp del]

text \<open>Without resource billing every charge of the view is set to zero.\<close>

definition zero_charge :: "gomap \<Rightarrow> gomap" where
  "zero_charge m = (case m of None \<Rightarrow> None | Some _ \<Rightarrow> mset_key m ''chargeUsdMicros'' (GInt KInt64 0))"

definition zero_component :: "string \<Rightarrow> gomap \<Rightarrow> gomap" where
  "zero_component key preview =
     (case as_obj (mget preview key) of
        None \<Rightarrow> preview
      | Some component \<Rightarrow>
          (let component = zero_charge (Some component);
               component = (case as_obj (mget component ''priceSnapshot'') of
                   None \<Rightarrow> component
                 | Some snapshot \<Rightarrow> mset_key component ''priceSnapshot'' (gomap_val (zero_charge (Some snapshot))))
           in mset_key preview key (gomap_val component)))"

definition applyResourceBillingQuote :: "deployment_profile \<Rightarrow> gomap \<Rightarrow> gomap" where
  "applyResourceBillingQuote deployment preview =
     (if resourceBillingEnabled deployment then preview
      else mset_key (mset_key (mset_key (zero_component ''storage'' (zero_component ''compute'' preview))
             ''chargeUsdMicros'' (GInt KInt64 0)) ''totalChargeUsdMicros'' (GInt KInt64 0))
             ''resourceBillingMode'' (GStr ''none''))"

definition pricingPreviewResponse ::
    "deployment_profile \<Rightarrow> gomap \<Rightarrow> goval list \<Rightarrow> pricing_error + gomap" where
  "pricingPreviewResponse deployment input computePools =
     (case (as_str (mget input ''resourceType''), as_str (mget input ''packageId'')) of
        (Some resourceType, Some packageID) \<Rightarrow>
          if blank packageID then Inl ErrInvalidPricingInput
          else
            (let admitted =
               (if resourceType = ''compute'' then
                  (if snd (providerPackageAvailable computePools packageID) then Inr input else Inl ErrPackageUnavailable)
                else if resourceType = ''workspace'' then
                  (if mhas input ''sizeGb'' \<or> mhas input ''sizeGB'' then Inl ErrInvalidPricingInput
                   else let (sizeGB, available) = providerPackageStorageGB computePools packageID in
                     if available then Inr (mset_key (cloneMap input) ''sizeGb'' (GInt KInt sizeGB)) else Inl ErrPackageUnavailable)
                else if resourceType = ''storage'' then
                  (if \<not> snd (providerPackageAvailable computePools packageID) then Inl ErrPackageUnavailable
                   else if \<not> snd (positiveIntegerField input ''sizeGb'') then Inl ErrInvalidPricingInput else Inr input)
                else Inl ErrInvalidPricingInput)
             in case admitted of
                  Inl err \<Rightarrow> Inl err
                | Inr input \<Rightarrow>
                    (case pricingPreviewFromCatalog current_catalog input of
                       Inl err \<Rightarrow> Inl err
                     | Inr preview \<Rightarrow> Inr (applyResourceBillingQuote deployment (customerPricingPreviewDTO (Some preview)))))
      | _ \<Rightarrow> Inl ErrInvalidPricingInput)"


section \<open>Storage prices\<close>

lemma storage_limit_bounds:
  assumes "catalogStorageLimitGB catalog = Some m"
  shows "0 < pc_StorageBlockGB catalog" "0 < pc_StorageBlockPriceUSDMicros catalog" "m \<le> max_json_safe"
    and "m div pc_StorageBlockGB catalog * pc_StorageBlockPriceUSDMicros catalog \<le> max_int64"
proof -
  let ?b = "pc_StorageBlockGB catalog" and ?p = "pc_StorageBlockPriceUSDMicros catalog"
  show b: "0 < ?b" and p: "0 < ?p"
    using assms by (auto simp: catalogStorageLimitGB_def split: if_splits)
  have below: "a div c * c \<le> a" if "0 < c" for a c :: int
    using that by (simp flip: minus_mod_eq_div_mult)
  define k where "k = min (max_int64 div ?p) (max_json_safe div ?b)"
  have m: "m = wrap64 (k * ?b)" "0 < k"
    using assms by (auto simp: catalogStorageLimitGB_def k_def min_def Let_def split: if_splits)
  have "k * ?b \<le> max_json_safe div ?b * ?b" using b by (intro mult_right_mono) (auto simp: k_def)
  also have "\<dots> \<le> max_json_safe" using b by (rule below)
  finally have kb: "k * ?b \<le> max_json_safe" .
  moreover have "0 \<le> k * ?b" using m(2) b by simp
  ultimately have "m = k * ?b" using m by (simp add: wrap64_id int64_defs max_json_safe_def)
  with kb show "m \<le> max_json_safe" by simp
  have "k * ?p \<le> max_int64 div ?p * ?p" using p by (intro mult_right_mono) (auto simp: k_def)
  also have "\<dots> \<le> max_int64" using p by (rule below)
  finally show "m div ?b * ?p \<le> max_int64" using b \<open>m = k * ?b\<close> by simp
qed

text \<open>
  C32: a storage price, whatever the catalog: the size is a positive whole number of blocks, the price is
  exactly the number of blocks times the block price, and the multiplication does not overflow.
\<close>

theorem storage_charge_exact:
  assumes "storage_charge catalog sizeGB = Some charge" and "pc_StorageBlockGB catalog \<le> max_json_safe"
  shows "\<exists>n. sizeGB = Fin (of_int n) \<and> pc_StorageBlockGB catalog \<le> n \<and> pc_StorageBlockGB catalog dvd n \<and>
    charge = n div pc_StorageBlockGB catalog * pc_StorageBlockPriceUSDMicros catalog \<and> 0 < charge \<and> charge \<le> max_int64"
proof -
  let ?b = "pc_StorageBlockGB catalog" and ?p = "pc_StorageBlockPriceUSDMicros catalog"
  obtain m q where m: "catalogStorageLimitGB catalog = Some m" and q: "sizeGB = Fin q"
      "\<not> float_less (Fin q) (float_of_int ?b)" "\<not> float_less maxJSONSafeInteger (Fin q)" "q = of_int (trunc_rat q)"
      "int64_of_float (Fin q) \<le> m" "int64_of_float (Fin q) mod ?b = 0"
      "charge = wrap64 (int64_of_float (Fin q) div ?b * ?p)"
    using assms(1) unfolding storage_charge_def
    by (auto simp: float_is_int_def split: option.splits gofloat.splits if_splits)
  note bounds = storage_limit_bounds [OF m]
  define n where "n = trunc_rat q"
  have n: "q = of_int n" using q(4) by (simp add: n_def)
  have "round53 ?b = ?b" using bounds(1) assms(2) by (intro round53_exact) (simp add: max_json_safe_def)
  then have bn: "?b \<le> n" using q(2) n by (simp add: float_of_int_def)
  have "n \<le> max_json_safe" using q(3) n by (simp add: maxJSONSafeInteger_def)
  then have i: "int64_of_float (Fin q) = n"
    using bn bounds(1) n by (simp add: int64_of_float_of_int int64_defs max_json_safe_def)
  have "n div ?b * ?p \<le> m div ?b * ?p"
    using q(5) i bounds by (intro mult_right_mono zdiv_mono1) auto
  with bounds(4) have le: "n div ?b * ?p \<le> max_int64" by linarith
  have pos: "0 < n div ?b * ?p"
    using bn bounds by (simp add: pos_imp_zdiv_pos_iff)
  have "charge = n div ?b * ?p"
    using q(7) i le pos by (simp add: wrap64_id int64_defs)
  moreover have "?b dvd n" using q(6) i by (simp add: dvd_eq_mod_eq_0)
  ultimately show ?thesis using n q(1) bn le pos by auto
qed

section \<open>Workspace prices\<close>

lemma component_preview_get:
  "mget (Some (component_preview catalog plan rt charge snapshot)) ''chargeUsdMicros'' = GInt KInt64 charge"
  "mget (Some (component_preview catalog plan rt charge snapshot)) ''priceSnapshot'' = GObj snapshot"
  "mget (Some (component_preview catalog plan rt charge snapshot)) ''resourceType'' = GStr rt"
  "mget (Some (component_preview catalog plan rt charge snapshot)) ''packageId'' = GStr (pp_ID plan)"
  by (simp_all add: component_preview_def mget_def)

lemma componentPricingPreview_shape:
  assumes "componentPricingPreview catalog input = Inr p"
  shows "\<exists>plan rt charge snapshot. p = component_preview catalog plan rt charge snapshot \<and> plan \<in> set (pc_Packages catalog) \<and>
    (rt = ''compute'' \<and> charge = pp_ChargeUSDMicros plan \<or>
     rt = ''storage'' \<and> storage_charge catalog (numberField input ''sizeGb''
        (numberField input ''sizeGB'' (float_of_int (pc_StorageBlockGB catalog)))) = Some charge)"
  using assms unfolding componentPricingPreview_def packageByIDFromCatalog_def
  by (auto simp: Let_def find_Some_iff simp del: firstNonEmpty.simps split: if_splits option.splits)
    (blast intro: nth_mem)+

lemma charge_through_float:
  "\<bar>c\<bar> < 2 ^ 53 \<Longrightarrow> int64_of_float (numberField (Some (component_preview catalog plan rt c snapshot)) ''chargeUsdMicros'' (Fin 0)) = c"
  by (simp add: numberField_def component_preview_get float_of_int_def round53_exact int64_of_float_of_int int64_defs abs_less_iff)

text \<open>
  The total of a workspace preview is the sum of its compute and its storage charge, provided both
  are amounts a float holds exactly (below \<open>2 ^ 53\<close> micro dollars, about nine billion dollars).
\<close>

theorem workspace_total_is_sum:
  assumes "workspacePricingPreview catalog input = Inr p"
    and "mget (Some p) ''compute'' = GObj compute" and "mget (Some p) ''storage'' = GObj storage"
    and "mget (Some compute) ''chargeUsdMicros'' = GInt KInt64 c" and "mget (Some storage) ''chargeUsdMicros'' = GInt KInt64 s"
    and "\<bar>c\<bar> < 2 ^ 53" and "\<bar>s\<bar> < 2 ^ 53"
  shows "mget (Some p) ''totalChargeUsdMicros'' = GInt KInt64 (c + s) \<and> 0 \<le> c \<and> 0 \<le> s"
proof -
  obtain compute' storage' i j usd where p: "componentPricingPreview catalog i = Inr compute'"
      "componentPricingPreview catalog j = Inr storage'"
      "checkedAddInt64 (int64_of_float (numberField (Some compute') ''chargeUsdMicros'' (Fin 0)))
         (int64_of_float (numberField (Some storage') ''chargeUsdMicros'' (Fin 0))) = Some usd"
      "mget (Some p) ''compute'' = GObj compute'" "mget (Some p) ''storage'' = GObj storage'"
      "mget (Some p) ''totalChargeUsdMicros'' = GInt KInt64 usd"
    using assms(1) unfolding workspacePricingPreview_def
    by (auto simp: Let_def mget_def split: if_splits sum.splits option.splits prod.splits)
  then have eq: "compute' = compute" "storage' = storage" using assms(2,3) by simp_all
  obtain plan rt snap where cc: "compute = component_preview catalog plan rt c snap"
    using componentPricingPreview_shape [OF p(1)] assms(4) eq by (auto simp: component_preview_get)
  obtain plan' rt' snap' where ss: "storage = component_preview catalog plan' rt' s snap'"
    using componentPricingPreview_shape [OF p(2)] assms(5) eq by (auto simp: component_preview_get)
  have "checkedAddInt64 c s = Some usd"
    using p(3) charge_through_float [OF assms(6)] charge_through_float [OF assms(7)] unfolding eq cc ss by simp
  with assms(6,7) have "usd = c + s" "0 \<le> c" "0 \<le> s"
    by (auto simp: checkedAddInt64_def wrap64_id int64_defs abs_less_iff split: if_splits)
  with p(6) show ?thesis by simp
qed

definition drifting_input :: gomap where
  "drifting_input = Some [(''resourceType'', GStr ''workspace''), (''packageId'', GStr ''basic''),
     (''sizeGb'', GFloat KFloat64 (Fin 35000000000010))]"

definition preview_charge :: "gomap \<Rightarrow> string \<Rightarrow> int" where
  "preview_charge p key =
     (case mget (mapField p key) ''chargeUsdMicros'' of GInt k i \<Rightarrow> i | _ \<Rightarrow> 0)"

text \<open>
  Beyond that bound the total is not the sum: the charges go through \<^verbatim>\<open>float64\<close>, and for a workspace
  of 35000000000010 GB the total differs from the sum of the two charges of the same preview.
\<close>

theorem workspace_total_drifts:
  "\<exists>p. pricingPreviewFromCatalog current_catalog drifting_input = Inr p \<and>
     mget (Some p) ''totalChargeUsdMicros'' \<noteq>
       GInt KInt64 (preview_charge (Some p) ''compute'' + preview_charge (Some p) ''storage'')"
proof -
  have "case pricingPreviewFromCatalog current_catalog drifting_input of
      Inl _ \<Rightarrow> False
    | Inr p \<Rightarrow> mget (Some p) ''totalChargeUsdMicros'' \<noteq>
        GInt KInt64 (preview_charge (Some p) ''compute'' + preview_charge (Some p) ''storage'')"
    by code_simp
  then show ?thesis by (auto split: sum.splits)
qed

section \<open>Packages\<close>

lemma package_storage_sound:
  "package_storage pools found available sz = (n, True) \<Longrightarrow>
     (\<forall>pool \<in> set pools. numberField pool ''sizeGb'' (Fin 0) = float_of_int n) \<and>
     (pools \<noteq> [] \<longrightarrow> 0 < n) \<and> (pools = [] \<longrightarrow> n = sz) \<and> (found \<longrightarrow> n = sz) \<and>
     (available \<or> list_ex pool_available pools)"
proof (induction pools arbitrary: found available sz)
  case (Cons pool pools)
  let ?f = "numberField pool ''sizeGb'' (Fin 0)"
  let ?c = "int64_of_float ?f"
  have step: "package_storage pools True (available \<or> pool_available pool) ?c = (n, True)"
    and c: "0 < ?c" "float_eq (float_of_int ?c) ?f" "found \<longrightarrow> sz = ?c"
    using Cons.prems by (auto simp: Let_def split: if_splits)
  from Cons.IH [OF step] have "n = ?c" by simp
  moreover have "?f = float_of_int ?c" using c(2) by (cases ?f) (auto simp: float_of_int_def)
  ultimately show ?case using Cons.IH [OF step] c by auto
qed simp

text \<open>
  The storage size of a package is unanimous: when the provider's pools give one, it is positive,
  every pool of the package states exactly it, and at least one of them is available.
\<close>

theorem package_storage_unanimous:
  assumes "providerPackageStorageGB computePools packageID = (n, True)"
  shows "0 < n \<and> (\<forall>pool \<in> set (pools_of computePools packageID). numberField pool ''sizeGb'' (Fin 0) = float_of_int n) \<and>
    providerPackageAvailable computePools packageID = (True, True)"
proof -
  note facts = package_storage_sound [OF assms [unfolded providerPackageStorageGB_def]]
  moreover from this have "pools_of computePools packageID \<noteq> []" by auto
  ultimately show ?thesis by (simp add: providerPackageAvailable_def Let_def)
qed



section \<open>Quotes without resource billing\<close>

lemma zero_charge_Some:
  obtains z where "zero_charge (Some c) = Some z" and "mget (Some z) ''chargeUsdMicros'' = GInt KInt64 0"
    and "mget (Some z) ''priceSnapshot'' = mget (Some c) ''priceSnapshot''"
proof -
  obtain z where z: "mset_key (Some c) ''chargeUsdMicros'' (GInt KInt64 0) = Some z" by (simp add: mset_key_def)
  have "mget (Some z) ''chargeUsdMicros'' = GInt KInt64 0" "mget (Some z) ''priceSnapshot'' = mget (Some c) ''priceSnapshot''"
    by (simp_all flip: z)
  with z show thesis by (intro that [of z]) (simp_all add: zero_charge_def)
qed

lemma zero_component_other: "k \<noteq> j \<Longrightarrow> mget (zero_component k p) j = mget p j"
  by (simp add: zero_component_def Let_def split: option.split)

text \<open>A component without charges: its own and its price snapshot's are zero.\<close>

definition free_component :: "(string \<times> goval) list \<Rightarrow> bool" where
  "free_component c \<longleftrightarrow>
     mget (Some c) ''chargeUsdMicros'' = GInt KInt64 0 \<and>
     (case mget (Some c) ''priceSnapshot'' of GObj s \<Rightarrow> mget (Some s) ''chargeUsdMicros'' = GInt KInt64 0 | _ \<Rightarrow> True)"

lemma zero_component_free:
  assumes "mget p k = GObj c"
  shows "\<exists>c'. mget (zero_component k p) k = GObj c' \<and> free_component c'"
proof -
  obtain z where z: "zero_charge (Some c) = Some z" "mget (Some z) ''chargeUsdMicros'' = GInt KInt64 0"
      "mget (Some z) ''priceSnapshot'' = mget (Some c) ''priceSnapshot''"
    by (rule zero_charge_Some)
  show ?thesis
  proof (cases "as_obj (mget (Some c) ''priceSnapshot'')")
    case None
    then show ?thesis
      using assms z by (cases "mget (Some c) ''priceSnapshot''") (auto simp: zero_component_def Let_def gomap_val_def free_component_def)
  next
    case (Some s)
    obtain s' where s': "zero_charge (Some s) = Some s'" "mget (Some s') ''chargeUsdMicros'' = GInt KInt64 0"
      by (rule zero_charge_Some)
    obtain z' where z': "mset_key (Some z) ''priceSnapshot'' (GObj s') = Some z'" by (simp add: mset_key_def)
    have "mget (Some z') ''chargeUsdMicros'' = GInt KInt64 0" "mget (Some z') ''priceSnapshot'' = GObj s'"
      using z(2) by (simp_all flip: z')
    then show ?thesis
      using assms z Some s' z' by (simp add: zero_component_def Let_def gomap_val_def free_component_def)
  qed
qed

text \<open>
  Where the deployment does not bill resources, a quote's top-level charges are zero, and so is the
  charge of each of its components and of the component's price snapshot.
\<close>

theorem unbilled_quote_is_free:
  assumes "\<not> resourceBillingEnabled deployment"
  shows "mget (applyResourceBillingQuote deployment preview) ''chargeUsdMicros'' = GInt KInt64 0 \<and>
    mget (applyResourceBillingQuote deployment preview) ''totalChargeUsdMicros'' = GInt KInt64 0 \<and>
    (mget preview ''compute'' = GObj c \<longrightarrow>
       (\<exists>c'. mget (applyResourceBillingQuote deployment preview) ''compute'' = GObj c' \<and> free_component c')) \<and>
    (mget preview ''storage'' = GObj s \<longrightarrow>
       (\<exists>s'. mget (applyResourceBillingQuote deployment preview) ''storage'' = GObj s' \<and> free_component s'))"
  using assms zero_component_free [of preview "''compute''" c]
    zero_component_free [of "zero_component ''compute'' preview" "''storage''" s]
  by (auto simp: applyResourceBillingQuote_def zero_component_other)

section \<open>Examples\<close>

definition sample_pools :: "goval list" where
  "sample_pools =
     [GObj [(''packageId'', GStr ''basic''), (''available'', GBool True), (''sizeGb'', GFloat KFloat64 (Fin 20))],
      GObj [(''packageId'', GStr ''basic''), (''available'', GBool False), (''sizeGb'', GFloat KFloat64 (Fin 20))]]"

definition sample_workspace_input :: gomap where
  "sample_workspace_input = Some [(''resourceType'', GStr ''workspace''), (''packageId'', GStr ''basic''),
     (''sizeGb'', GFloat KFloat64 (Fin 20))]"

definition customer_deployment :: deployment_profile where
  "customer_deployment = \<lparr>dp_Mode = ''customer_owned'', dp_FabricProvider = ''tencent-tke''\<rparr>"

text \<open>
  The quote of a single resource is not free in the same sense: with a customer-owned deployment the
  charge of a compute quote is zero, but its price snapshot still states the catalog's price.
\<close>

theorem unbilled_compute_quote_keeps_snapshot_charge:
  "\<exists>q s. pricingPreviewResponse customer_deployment
       (Some [(''resourceType'', GStr ''compute''), (''packageId'', GStr ''basic'')]) sample_pools = Inr q \<and>
     mget q ''chargeUsdMicros'' = GInt KInt64 0 \<and> mget q ''priceSnapshot'' = GObj s \<and>
     mget (Some s) ''chargeUsdMicros'' = GInt KInt64 50000000"
proof -
  have "case pricingPreviewResponse customer_deployment
       (Some [(''resourceType'', GStr ''compute''), (''packageId'', GStr ''basic'')]) sample_pools of
      Inl _ \<Rightarrow> False
    | Inr q \<Rightarrow> mget q ''chargeUsdMicros'' = GInt KInt64 0 \<and>
        (case mget q ''priceSnapshot'' of GObj s \<Rightarrow> mget (Some s) ''chargeUsdMicros'' = GInt KInt64 50000000 | _ \<Rightarrow> False)"
    by code_simp
  then show ?thesis by (auto split: sum.splits goval.splits)
qed

theorem storage_charge_exact_witness:
  "storage_charge current_catalog (Fin 20) = Some 5160000 \<and>
   (\<exists>n. (Fin 20 = Fin (of_int n)) \<and> pc_StorageBlockGB current_catalog dvd n \<and> 5160000 \<le> max_int64)"
proof -
  have s: "storage_charge current_catalog (Fin 20) = Some 5160000" by code_simp
  have "pc_StorageBlockGB current_catalog \<le> max_json_safe" by code_simp
  from storage_charge_exact [OF s this] s show ?thesis by auto
qed

theorem workspace_total_is_sum_witness:
  "\<exists>p. workspacePricingPreview current_catalog sample_workspace_input = Inr p \<and>
     mget (Some p) ''totalChargeUsdMicros'' = GInt KInt64 (50000000 + 5160000)"
proof -
  have "case workspacePricingPreview current_catalog sample_workspace_input of
      Inl _ \<Rightarrow> False
    | Inr p \<Rightarrow>
        (case (mget (Some p) ''compute'', mget (Some p) ''storage'') of
           (GObj c, GObj s) \<Rightarrow> mget (Some c) ''chargeUsdMicros'' = GInt KInt64 50000000 \<and>
             mget (Some s) ''chargeUsdMicros'' = GInt KInt64 5160000
         | _ \<Rightarrow> False)"
    by code_simp
  then obtain p c s where p: "workspacePricingPreview current_catalog sample_workspace_input = Inr p"
      "mget (Some p) ''compute'' = GObj c" "mget (Some p) ''storage'' = GObj s"
      "mget (Some c) ''chargeUsdMicros'' = GInt KInt64 50000000" "mget (Some s) ''chargeUsdMicros'' = GInt KInt64 5160000"
    by (auto split: sum.splits goval.splits)
  from workspace_total_is_sum [OF p] p(1) show ?thesis by simp
qed

theorem package_storage_unanimous_witness:
  "0 < (20::int) \<and> (\<forall>pool \<in> set (pools_of sample_pools ''basic''). numberField pool ''sizeGb'' (Fin 0) = float_of_int 20) \<and>
   providerPackageAvailable sample_pools ''basic'' = (True, True)"
proof -
  have "providerPackageStorageGB sample_pools ''basic'' = (20, True)" by code_simp
  from package_storage_unanimous [OF this] show ?thesis .
qed

theorem unbilled_quote_is_free_witness:
  "mget (applyResourceBillingQuote customer_deployment sample_workspace_input) ''totalChargeUsdMicros'' = GInt KInt64 0"
  using unbilled_quote_is_free [of customer_deployment sample_workspace_input]
  by (simp add: resourceBillingEnabled_def customerOwned_def customer_deployment_def)

end
