(* ===== verification/Monthly_Billing.thy ===== *)
theory Monthly_Billing
  imports Pricing Go_Calendar
begin

text \<open>
  Monthly billing (\<^verbatim>\<open>services/control-plane/internal/server/monthly_billing.go\<close>): the calendar of billing
  months, the price snapshot a billed row carries and its upgrade from the older form, the account's
  mapping to a Gateway user, the codes of a charge and a refund, and the provider's preflight.
\<close>

section \<open>Charges and codes\<close>

definition monthlyChargeConfirmationMatches :: "gomap \<Rightarrow> string \<Rightarrow> int \<Rightarrow> int \<Rightarrow> bool" where
  "monthlyChargeConfirmationMatches confirmation redeem userID chargeUSDMicros \<longleftrightarrow>
     mlen confirmation = 4 \<and> redeem \<noteq> [] \<and> chargeUSDMicros > 0 \<and>
     stringValue (mget confirmation ''code'') = redeem \<and>
     float_eq (numberField confirmation ''userId'' (Fin (- 1))) (float_of_int userID) \<and>
     float_eq (numberField confirmation ''chargeUsdMicros'' (Fin (- 1))) (float_of_int chargeUSDMicros) \<and>
     stringValue (mget confirmation ''status'') = ''used''"

definition monthly_code :: "(string \<Rightarrow> string) \<Rightarrow> string \<Rightarrow> string \<Rightarrow> string \<Rightarrow> string" where
  "monthly_code sha1hex kind environment operationID =
     (let environment = (if environment = [] then ''local'' else environment)
      in ''opl:'' @ take 28 (stableID sha1hex [kind, environment, operationID]))"

definition monthlyRedeemCode :: "(string \<Rightarrow> string) \<Rightarrow> string \<Rightarrow> string \<Rightarrow> string" where
  "monthlyRedeemCode sha1hex = monthly_code sha1hex ''sub2api-monthly-charge-v1''"

definition monthlyRefundCode :: "(string \<Rightarrow> string) \<Rightarrow> string \<Rightarrow> string \<Rightarrow> string" where
  "monthlyRefundCode sha1hex = monthly_code sha1hex ''sub2api-monthly-refund-v1''"

section \<open>The account's Gateway user\<close>

datatype monthly_error =
    ErrMonthlyAccountUnmapped
  | ErrSub2APIAccountMappingConflict
  | ErrMonthlyPreflightInvalid
  | ErrFabric string \<comment> \<open>an error of the Fabric client\<close>
  | ErrTables string \<comment> \<open>an error of the tables\<close>

definition account_user :: "gomap \<Rightarrow> int" where
  "account_user account = int64_of_float (numberField account ''sub2apiUserId'' (Fin 0))"

definition validateSub2APIAccountMapping :: "gomap list \<Rightarrow> gomap \<Rightarrow> monthly_error option" where
  "validateSub2APIAccountMapping accounts row =
     (if account_user row \<le> 0 then None
      else if list_ex (\<lambda>existing. stringValue (mget existing ''id'') \<noteq> stringValue (mget row ''id'') \<and>
                account_user existing = account_user row) accounts
      then Some ErrSub2APIAccountMappingConflict else None)"

text \<open>The first account with the identifier decides. The argument is what \<^verbatim>\<open>ListAccounts\<close> returns.\<close>

definition sub2APIUserID :: "monthly_error + gomap list \<Rightarrow> string \<Rightarrow> monthly_error + int" where
  "sub2APIUserID listed accountID =
     (case listed of Inl err \<Rightarrow> Inl err | Inr accounts \<Rightarrow>
      case find (\<lambda>account. stringValue (mget account ''id'') = accountID) accounts of
        None \<Rightarrow> Inl ErrMonthlyAccountUnmapped
      | Some account \<Rightarrow>
          if account_user account > 0 then
            (case validateSub2APIAccountMapping accounts account of
               Some err \<Rightarrow> Inl err
             | None \<Rightarrow> Inr (account_user account))
          else Inl ErrMonthlyAccountUnmapped)"

section \<open>The provider's preflight\<close>

record monthly_preflight_input =
  mpi_ResourceType :: string
  mpi_PackageID :: string
  mpi_SizeGB :: int
  mpi_Zone :: string

record monthly_preflight =
  mp_ResourceType :: string
  mp_PackageID :: string
  mp_SizeGB :: int
  mp_Zone :: string
  mp_Available :: bool

definition monthlyPreflightConfirmed :: "monthly_preflight_input \<Rightarrow> monthly_preflight \<Rightarrow> bool" where
  "monthlyPreflightConfirmed input result \<longleftrightarrow>
     mp_ResourceType result = mpi_ResourceType input \<and> mp_PackageID result = mpi_PackageID input \<and>
     mp_SizeGB result = mpi_SizeGB input \<and> mp_Zone result = mpi_Zone input \<and> mp_Available result"

text \<open>The arguments are the Fabric client, the zone of the environment and the operation's package and size.\<close>

definition preflightWorkspaceLaunchMonthly ::
    "(monthly_preflight_input \<Rightarrow> monthly_error + monthly_preflight) \<Rightarrow> string \<Rightarrow> string \<Rightarrow> int \<Rightarrow> monthly_error option" where
  "preflightWorkspaceLaunchMonthly preflight zone_env packageID sizeGB =
     (let launchZone = trim_space zone_env;
          check = (\<lambda>input. case preflight input of
              Inl err \<Rightarrow> Some err
            | Inr result \<Rightarrow> if monthlyPreflightConfirmed input result then None else Some ErrMonthlyPreflightInvalid)
      in if launchZone = [] then Some ErrMonthlyPreflightInvalid
         else case check \<lparr>mpi_ResourceType = ''compute'', mpi_PackageID = packageID, mpi_SizeGB = 0, mpi_Zone = launchZone\<rparr> of
                Some err \<Rightarrow> Some err
              | None \<Rightarrow> check \<lparr>mpi_ResourceType = ''storage'', mpi_PackageID = packageID, mpi_SizeGB = sizeGB, mpi_Zone = launchZone\<rparr>)"

section \<open>The price snapshot of a row\<close>

definition monthlyResourceType :: "gomap \<Rightarrow> string" where
  "monthlyResourceType row =
     (let resourceType = stringValue (mget row ''resourceType'') in
      if resourceType = ''compute'' \<or> resourceType = ''storage'' then resourceType
      else if float_less (Fin 0) (numberField row ''sizeGb'' (Fin 0)) then ''storage'' else ''compute'')"

definition canonicalMonthlyPriceSnapshotValid :: "gomap \<Rightarrow> bool" where
  "canonicalMonthlyPriceSnapshotValid row =
     (let snapshot = as_obj (mget row ''priceSnapshot'');
          (chargeUSDMicros, validCharge) = requiredPositiveInteger row ''chargeUsdMicros'';
          (snapshotCharge, validSnapshotCharge) = requiredPositiveInteger snapshot ''chargeUsdMicros'';
          resourceType = stringValue (mget row ''resourceType'');
          packageID = trim_space (stringValue (mget row ''packageId''))
      in case as_str (mget row ''priceVersion'') of
           None \<Rightarrow> False
         | Some priceVersion \<Rightarrow>
             if blank priceVersion \<or> mget row ''currency'' \<noteq> GStr pricingCurrency \<or> snapshot = None \<or>
                resourceType \<noteq> ''compute'' \<and> resourceType \<noteq> ''storage'' \<or> packageID = [] \<or>
                \<not> validCharge \<or> \<not> validSnapshotCharge \<or> chargeUSDMicros \<noteq> snapshotCharge \<or>
                mget snapshot ''priceVersion'' \<noteq> GStr priceVersion \<or> mget snapshot ''currency'' \<noteq> GStr pricingCurrency \<or>
                mget snapshot ''billingUnit'' \<noteq> GStr pricingBillingUnit \<or>
                mget snapshot ''resourceType'' \<noteq> GStr resourceType \<or> mget snapshot ''packageId'' \<noteq> GStr packageID
             then False
             else if resourceType = ''storage'' then
               (let (sizeGB, validSize) = requiredPositiveInteger row ''sizeGb'';
                    (snapshotSizeGB, validSnapshotSize) = requiredPositiveInteger snapshot ''sizeGb''
                in validSize \<and> validSnapshotSize \<and> sizeGB = snapshotSizeGB)
             else \<not> mhas snapshot ''sizeGb'')"

text \<open>Whether a snapshot is available, and the row, which the older form's upgrade changes.\<close>

definition monthlyPriceSnapshotAvailable :: "gomap \<Rightarrow> bool \<times> gomap" where
  "monthlyPriceSnapshotAvailable row =
     (if mhas row ''priceVersion'' \<or> mhas row ''currency'' \<or> mhas row ''priceSnapshot''
      then (canonicalMonthlyPriceSnapshotValid row, row)
      else
        (let priceVersion = trim_space (stringValue (mget row ''pricingVersion''));
             (monthlyPriceCNYCents, validCNY) = requiredNonNegativeInteger row ''monthlyPriceCnyCents'';
             (chargeUSDMicros, validCharge) = requiredNonNegativeInteger row ''chargeUsdMicros'';
             resourceType = monthlyResourceType row;
             packageID = trim_space (stringValue (mget row ''packageId''))
         in if priceVersion = [] \<or> packageID = [] \<or> \<not> validCNY \<or> monthlyPriceCNYCents \<le> 0 \<or> \<not> validCharge \<or> chargeUSDMicros \<le> 0
            then (False, row)
            else
              (let snapshot = [(''resourceType'', GStr resourceType), (''priceVersion'', GStr priceVersion),
                     (''packageId'', GStr packageID), (''currency'', GStr pricingCurrency),
                     (''billingUnit'', GStr pricingBillingUnit), (''chargeUsdMicros'', GInt KInt64 chargeUSDMicros)];
                   (sizeGB, ok) = requiredPositiveInteger row ''sizeGb'';
                   upgraded = (\<lambda>snapshot. mset_key (mset_key (mset_key (mset_key row ''resourceType'' (GStr resourceType))
                     ''priceVersion'' (GStr priceVersion)) ''currency'' (GStr pricingCurrency)) ''priceSnapshot'' (GObj snapshot))
               in if resourceType = ''storage'' then
                    (if \<not> ok then (False, row) else (True, upgraded (snapshot @ [(''sizeGb'', GInt KInt64 sizeGB)])))
                  else (True, upgraded snapshot))))"

section \<open>Billing months\<close>

definition nextBillingMonth :: "gotime \<Rightarrow> int \<Rightarrow> gotime" where
  "nextBillingMonth current anchorDay =
     (let current = t_utc current;
          (year, month, _) = t_date current;
          (year, month) = (if month + 1 > 12 then (year + 1, 1) else (year, month + 1));
          (_, _, lastDay) = t_date (go_date year (month + 1) 0 0);
          anchorDay = (if anchorDay > lastDay then lastDay else anchorDay)
      in go_date year month anchorDay (time_of_day current))"

section \<open>Billing months keep their anchor\<close>

text \<open>The month after a month, as a year and a month from 1 to 12.\<close>

definition next_month :: "int \<times> int \<Rightarrow> int \<times> int" where
  "next_month ym = (if snd ym = 12 then (fst ym + 1, 1) else (fst ym, snd ym + 1))"

lemma time_of_day_range: "0 \<le> time_of_day t" "time_of_day t < day_ns"
  by (simp_all add: time_of_day_def day_ns_def)

lemma nextBillingMonth_eq:
  assumes t: "t_date (t_utc t) = (y, m, d)" and n: "next_month (y, m) = (y', m')" and a: "1 \<le> a"
  shows "nextBillingMonth t a = go_date y' m' (min a (days_in_month y' m')) (time_of_day (t_utc t))"
    and "valid_date y' m' (min a (days_in_month y' m'))"
    and "date_days y' m' e = date_days y m (days_in_month y m) + e"
proof -
  have v: "valid_date y m d" using civil_valid t by (metis t_date_def)
  have m: "1 \<le> m" "m \<le> 12" using v by (auto simp: valid_date_def)
  have m': "1 \<le> m'" "m' \<le> 12" and ym: "y' = (if m = 12 then y + 1 else y)" "m' = (if m = 12 then 1 else m + 1)"
    using n m by (auto simp: next_month_def split: if_splits)
  show "date_days y' m' e = date_days y m (days_in_month y m) + e"
    unfolding ym by (rule date_days_next_month [OF m])
  have dim: "1 \<le> days_in_month y' m'" using days_in_month_pos [of y' m'] by linarith
  then show "valid_date y' m' (min a (days_in_month y' m'))" using m' a by (simp add: valid_date_def)
  have last: "valid_date y' m' (days_in_month y' m')" using m' dim by (simp add: valid_date_def)
  have "go_date y' (m' + 1) 0 0 = go_date y' m' (days_in_month y' m') 0"
    using date_days_next_month [OF m', of y' 0] m' by (cases "m' = 12") (auto simp: go_date_def Let_def)
  then have "t_date (go_date y' (m' + 1) 0 0) = (y', m', days_in_month y' m')"
    using t_date_go_date(1) [OF last, of 0] by (simp add: day_ns_def)
  then show "nextBillingMonth t a = go_date y' m' (min a (days_in_month y' m')) (time_of_day (t_utc t))"
    using t ym m by (auto simp: nextBillingMonth_def Let_def min_def)
qed

lemma next_month_valid: "next_month (y, m) = (y', m') \<Longrightarrow> 1 \<le> m \<Longrightarrow> m \<le> 12 \<Longrightarrow> 1 \<le> m' \<and> m' \<le> 12"
  by (auto simp: next_month_def split: if_splits)

lemma nextBillingMonth_date:
  assumes "t_date (t_utc t) = (y, m, d)" and "next_month (y, m) = (y', m')" and "1 \<le> a"
  shows "t_date (nextBillingMonth t a) = (y', m', min a (days_in_month y' m'))"
    and "time_of_day (nextBillingMonth t a) = time_of_day (t_utc t)"
    and "t_utc (nextBillingMonth t a) = nextBillingMonth t a"
    and "inst t < inst (nextBillingMonth t a)"
proof -
  note eq = nextBillingMonth_eq [OF assms]
  note g = t_date_go_date [OF eq(2) time_of_day_range]
  show "t_date (nextBillingMonth t a) = (y', m', min a (days_in_month y' m'))"
    and "time_of_day (nextBillingMonth t a) = time_of_day (t_utc t)" unfolding eq(1) by (rule g)+
  show "t_utc (nextBillingMonth t a) = nextBillingMonth t a"
    using g(4) unfolding eq(1) t_utc_def by (metis gotime.collapse)
  have v: "valid_date y m d" and dd: "date_days y m d = inst t div day_ns"
    using civil_valid assms(1) by (metis t_date_def, metis (no_types) add.right_neutral civil_valid gotime.sel local_ns_def mult_zero_left t_date_def t_utc_def)
  have "date_days y m d \<le> date_days y m (days_in_month y m)" using v by (simp add: date_days_def valid_date_def)
  also have "\<dots> < date_days y' m' (min a (days_in_month y' m'))"
    using eq(2) by (simp add: eq(3) valid_date_def)
  finally have "inst t div day_ns < date_days y' m' (min a (days_in_month y' m'))" by (simp add: dd)
  then have "(inst t div day_ns + 1) * day_ns \<le> date_days y' m' (min a (days_in_month y' m')) * day_ns"
    by (intro mult_right_mono) (auto simp: day_ns_def)
  moreover have "inst t < (inst t div day_ns + 1) * day_ns"
    by (simp add: day_ns_def)
  ultimately show "inst t < inst (nextBillingMonth t a)"
    unfolding eq(1) g(3) using time_of_day_range(1) [of "t_utc t"] by linarith
qed

text \<open>
  C25: billing months do not drift. From any instant, the k-th next billing month falls in the k-th
  following calendar month, on the anchor day or on the month's last day where the month is shorter,
  at the same time of day; and each one is later than the one before.
\<close>

theorem billing_months_keep_anchor:
  assumes "1 \<le> a" and "t_date (t_utc t) = (y, m, d)"
  shows "t_date (((\<lambda>s. nextBillingMonth s a) ^^ Suc k) t) =
      (let (y', m') = (next_month ^^ Suc k) (y, m) in (y', m', min a (days_in_month y' m'))) \<and>
    time_of_day (((\<lambda>s. nextBillingMonth s a) ^^ Suc k) t) = time_of_day (t_utc t) \<and>
    inst (((\<lambda>s. nextBillingMonth s a) ^^ k) t) < inst (((\<lambda>s. nextBillingMonth s a) ^^ Suc k) t)"
proof -
  let ?f = "\<lambda>s. nextBillingMonth s a"
  have step: "t_date ((?f ^^ Suc k) t) = (let (y', m') = (next_month ^^ Suc k) (y, m) in (y', m', min a (days_in_month y' m'))) \<and>
      time_of_day ((?f ^^ Suc k) t) = time_of_day (t_utc t) \<and> t_utc ((?f ^^ Suc k) t) = (?f ^^ Suc k) t" for k
  proof (induction k)
    case 0
    show ?case
      using nextBillingMonth_date [OF assms(2) _ assms(1)] by (cases "next_month (y, m)") simp
  next
    case (Suc k)
    obtain y1 m1 where 1: "(next_month ^^ Suc k) (y, m) = (y1, m1)" by (cases "(next_month ^^ Suc k) (y, m)")
    obtain y2 m2 where 2: "next_month (y1, m1) = (y2, m2)" by (cases "next_month (y1, m1)")
    have d: "t_date (t_utc ((?f ^^ Suc k) t)) = (y1, m1, min a (days_in_month y1 m1))"
      using Suc 1 by simp
    have 3: "(next_month ^^ Suc (Suc k)) (y, m) = (y2, m2)" using 1 2 by simp
    have 4: "(?f ^^ Suc (Suc k)) t = nextBillingMonth ((?f ^^ Suc k) t) a" by simp
    show ?case
      unfolding 3 4 using nextBillingMonth_date(1,2,3) [OF d 2 assms(1)] Suc by simp
  qed
  have "inst ((?f ^^ k) t) < inst ((?f ^^ Suc k) t)"
    using nextBillingMonth_date(4) [OF _ _ assms(1)] by (cases "t_date (t_utc ((?f ^^ k) t))") (metis funpow.simps(2) comp_apply surj_pair)
  with step show ?thesis by blast
qed

section \<open>The older price form\<close>

lemma requiredPositiveInteger_cong: "mget m k = mget m' k \<Longrightarrow> requiredPositiveInteger m k = requiredPositiveInteger m' k"
  by (simp add: requiredPositiveInteger_def requiredNonNegativeInteger_def)

lemma requiredPositiveInteger_int: "mget m k = GInt KInt64 i \<Longrightarrow> 0 < i \<Longrightarrow> requiredPositiveInteger m k = (i, True)"
  by (simp add: requiredPositiveInteger_def requiredNonNegativeInteger_def)

lemma monthlyResourceType_cases: "monthlyResourceType row = ''compute'' \<or> monthlyResourceType row = ''storage''"
  by (auto simp: monthlyResourceType_def Let_def)

text \<open>
  A row whose price is available leaves the function with a canonical snapshot: either it had one
  that is valid, or the older form (price version, CNY price, charge) was rewritten into one whose
  charge, package, version and size agree with the row.
\<close>

theorem available_price_is_canonical:
  assumes "monthlyPriceSnapshotAvailable row = (True, row')"
  shows "canonicalMonthlyPriceSnapshotValid row' \<and>
    (\<forall>k. k \<notin> {''resourceType'', ''priceVersion'', ''currency'', ''priceSnapshot''} \<longrightarrow> mget row' k = mget row k)"
proof (cases "mhas row ''priceVersion'' \<or> mhas row ''currency'' \<or> mhas row ''priceSnapshot''")
  case True
  with assms show ?thesis by (auto simp: monthlyPriceSnapshotAvailable_def)
next
  case False
  define pv where "pv = trim_space (stringValue (mget row ''pricingVersion''))"
  define pkg where "pkg = trim_space (stringValue (mget row ''packageId''))"
  define rt where "rt = monthlyResourceType row"
  obtain charge where charge: "requiredNonNegativeInteger row ''chargeUsdMicros'' = (charge, True)" "0 < charge"
    and ne: "pv \<noteq> []" "pkg \<noteq> []"
    and size: "rt = ''storage'' \<Longrightarrow> snd (requiredPositiveInteger row ''sizeGb'')"
    and row': "row' = mset_key (mset_key (mset_key (mset_key row ''resourceType'' (GStr rt)) ''priceVersion'' (GStr pv))
      ''currency'' (GStr pricingCurrency)) ''priceSnapshot''
      (GObj ([(''resourceType'', GStr rt), (''priceVersion'', GStr pv), (''packageId'', GStr pkg), (''currency'', GStr pricingCurrency),
        (''billingUnit'', GStr pricingBillingUnit), (''chargeUsdMicros'', GInt KInt64 charge)] @
        (if rt = ''storage'' then [(''sizeGb'', GInt KInt64 (fst (requiredPositiveInteger row ''sizeGb'')))] else [])))"
    using assms False monthlyResourceType_cases [of row]
    unfolding monthlyPriceSnapshotAvailable_def pv_def pkg_def rt_def
    by (auto simp: Let_def split: if_splits prod.splits)
  have pos: "rt = ''storage'' \<Longrightarrow> 0 < fst (requiredPositiveInteger row ''sizeGb'')"
    using size by (cases "requiredPositiveInteger row ''sizeGb''") (auto dest: requiredPositiveInteger_pos)
  have pv: "\<not> blank pv" using ne by (simp add: pv_def blank_def)
  have charge': "requiredPositiveInteger row' ''chargeUsdMicros'' = (charge, True)"
    using charge by (subst requiredPositiveInteger_cong [of _ _ row]) (simp_all add: row' requiredPositiveInteger_def)
  have size': "requiredPositiveInteger row' ''sizeGb'' = requiredPositiveInteger row ''sizeGb''"
    by (rule requiredPositiveInteger_cong) (simp add: row')
  have rt: "rt = ''compute'' \<or> rt = ''storage''" using monthlyResourceType_cases by (simp add: rt_def)
  have "canonicalMonthlyPriceSnapshotValid row'"
    using rt ne pv charge(2) size pos
    unfolding canonicalMonthlyPriceSnapshotValid_def charge' size'
    by (cases "requiredPositiveInteger row ''sizeGb''")
      (auto simp: row' Let_def pkg_def [symmetric] mget_def [of "Some _"] mhas_def requiredPositiveInteger_int)
  then show ?thesis by (simp add: row')
qed

section \<open>The account's Gateway user is its own\<close>

text \<open>
  C31: a Gateway user is resolved only for an account that maps to it alone: the user is positive, it is
  the mapping of the account, and no account with another identifier maps to the same user.
\<close>

theorem gateway_user_is_exclusive:
  assumes "sub2APIUserID (Inr accounts) accountID = Inr userID"
  shows "0 < userID \<and>
    (\<exists>account \<in> set accounts. stringValue (mget account ''id'') = accountID \<and> account_user account = userID) \<and>
    (\<forall>other \<in> set accounts. stringValue (mget other ''id'') \<noteq> accountID \<longrightarrow> account_user other \<noteq> userID)"
proof -
  obtain account where a: "find (\<lambda>account. stringValue (mget account ''id'') = accountID) accounts = Some account"
      "0 < account_user account" "validateSub2APIAccountMapping accounts account = None" "userID = account_user account"
    using assms by (auto simp: sub2APIUserID_def split: option.splits if_splits)
  have "account \<in> set accounts" "stringValue (mget account ''id'') = accountID"
    using a(1) by (auto simp: find_Some_iff)
  with a show ?thesis
    by (auto simp: validateSub2APIAccountMapping_def list_ex_iff split: if_splits)
qed

text \<open>
  The launch preflight passes only when the provider confirmed, for the zone of the environment, the
  requested package as compute and the requested size as storage.
\<close>

theorem launch_preflight_confirms_both:
  assumes "preflightWorkspaceLaunchMonthly preflight zone_env packageID sizeGB = None"
  shows "\<exists>c s. preflight \<lparr>mpi_ResourceType = ''compute'', mpi_PackageID = packageID, mpi_SizeGB = 0, mpi_Zone = trim_space zone_env\<rparr> = Inr c \<and>
    preflight \<lparr>mpi_ResourceType = ''storage'', mpi_PackageID = packageID, mpi_SizeGB = sizeGB, mpi_Zone = trim_space zone_env\<rparr> = Inr s \<and>
    mp_Available c \<and> mp_Available s \<and> mp_SizeGB s = sizeGB \<and> mp_PackageID c = packageID \<and> mp_PackageID s = packageID \<and>
    mp_Zone c = trim_space zone_env \<and> mp_Zone s = trim_space zone_env \<and> trim_space zone_env \<noteq> []"
  using assms unfolding preflightWorkspaceLaunchMonthly_def monthlyPreflightConfirmed_def
  by (auto simp: Let_def split: if_splits sum.splits option.splits)

section \<open>Examples\<close>

definition sample_legacy_row :: gomap where
  "sample_legacy_row = Some [(''id'', GStr ''st-1''), (''pricingVersion'', GStr ''v0''), (''monthlyPriceCnyCents'', GInt KInt64 100),
     (''chargeUsdMicros'', GInt KInt64 2580000), (''packageId'', GStr ''basic''), (''sizeGb'', GInt KInt64 10)]"

definition sample_accounts :: "gomap list" where
  "sample_accounts =
     [Some [(''id'', GStr ''acct-1''), (''sub2apiUserId'', GFloat KFloat64 (Fin 42))],
      Some [(''id'', GStr ''acct-2''), (''sub2apiUserId'', GFloat KFloat64 (Fin 43))]]"

definition sample_preflight :: "monthly_preflight_input \<Rightarrow> monthly_error + monthly_preflight" where
  "sample_preflight input = Inr
     \<lparr>mp_ResourceType = mpi_ResourceType input, mp_PackageID = mpi_PackageID input, mp_SizeGB = mpi_SizeGB input,
      mp_Zone = mpi_Zone input, mp_Available = True\<rparr>"

theorem billing_months_keep_anchor_witness:
  "t_date (((\<lambda>s. nextBillingMonth s 31) ^^ Suc 1) (go_date 2026 1 31 0)) = (2026, 3, 31)"
proof -
  have d: "t_date (t_utc (go_date 2026 1 31 0)) = (2026, 1, 31)" by code_simp
  have m: "(next_month ^^ Suc 1) (2026, 1) = (2026, 3)" by (simp add: next_month_def)
  from billing_months_keep_anchor [OF _ d, of 31 1, unfolded m] show ?thesis by (simp add: days_in_month_def)
qed

theorem available_price_is_canonical_witness:
  "canonicalMonthlyPriceSnapshotValid (snd (monthlyPriceSnapshotAvailable sample_legacy_row))"
proof -
  have "fst (monthlyPriceSnapshotAvailable sample_legacy_row)" by code_simp
  then have "monthlyPriceSnapshotAvailable sample_legacy_row = (True, snd (monthlyPriceSnapshotAvailable sample_legacy_row))"
    by (metis prod.collapse)
  from available_price_is_canonical [OF this] show ?thesis by blast
qed

theorem gateway_user_is_exclusive_witness:
  "\<exists>account \<in> set sample_accounts. stringValue (mget account ''id'') = ''acct-1'' \<and> account_user account = 42"
proof -
  have "sub2APIUserID (Inr sample_accounts) ''acct-1'' = Inr 42" by code_simp
  from gateway_user_is_exclusive [OF this] show ?thesis by blast
qed

theorem launch_preflight_confirms_both_witness:
  "\<exists>c. sample_preflight \<lparr>mpi_ResourceType = ''compute'', mpi_PackageID = ''basic'', mpi_SizeGB = 0, mpi_Zone = trim_space ''z1''\<rparr> = Inr c \<and>
     mp_Available c"
proof -
  have "preflightWorkspaceLaunchMonthly sample_preflight ''z1'' ''basic'' 20 = None" by code_simp
  from launch_preflight_confirms_both [OF this] show ?thesis by blast
qed

end
