(* ===== verification/Gateway_Client.thy ===== *)
theory Gateway_Client
  imports Console_Values Go_Calendar
begin

text \<open>
  What the control plane reads from the Gateway (\<^verbatim>\<open>services/control-plane/internal/clients/sub2api.go\<close>):
  the entries of the balance history.
\<close>

record history_entry =
  he_Code :: string
  he_Type :: string
  he_ValueUSDMicros :: int
  he_Status :: string
  he_UsedBy :: "int option"
  he_UsedAt :: "gotime option"
  he_CreatedAt :: gotime

end
