(* ===== verification/Reconciliation.thy ===== *)
theory Reconciliation
  imports Provider_Facts Renewal_Operation Monthly_Billing Gateway_Client Ledger_Types
begin

text \<open>
  The billing reconciliation of the control plane
  (\<^verbatim>\<open>services/control-plane/internal/server/billing_projection.go\<close>): every billed resource is compared with
  the Gateway's balance history, the provider's facts and the ledger's receipts, and the differences are
  reported. The tables, the Gateway, the provider, the ledger client and the JSON decoder are parameters,
  collected in the record \<open>reconciliation_source\<close>; what they return for a given argument is fixed during
  one run, which asks each question once.
\<close>

section \<open>What the reconciliation reads\<close>

definition maxReconciliationReceiptPages :: nat where
  "maxReconciliationReceiptPages = 100"

record client_receipt =
  cr_ReceiptID :: string
  cr_Type :: string
  cr_Status :: string
  cr_AccountID :: string
  cr_WorkspaceID :: string
  cr_RequestID :: string
  cr_Cost :: gomap

record client_receipt_query =
  cq_AccountID :: string
  cq_TypePrefix :: string
  cq_Cursor :: string
  cq_Limit :: int

record client_receipt_page =
  cp_Receipts :: "client_receipt list"
  cp_NextCursor :: string
  cp_HasMore :: bool

type_synonym receipt_lister = "client_receipt_query \<Rightarrow> string + client_receipt_page"

record reconciliation_source =
  rs_computes :: "string + gomap list"
  rs_storages :: "string + gomap list"
  rs_workspaces :: "string + gomap list"
  rs_renewals :: "string + gomap list" \<comment> \<open>the runtime operations with action \<^verbatim>\<open>workspace.renewal\<close>\<close>
  rs_accounts :: "monthly_error + gomap list"
  rs_unmarshal :: "string \<Rightarrow> renewal_operation option"
  rs_history :: "int \<Rightarrow> string list \<Rightarrow> string + (string \<times> history_entry) list"
  rs_receipts :: "receipt_lister option"
  rs_facts :: "facts_client option"
  rs_sha1hex :: "string \<Rightarrow> string"

record reconciliation_resource =
  rr_type :: string
  rr_row :: gomap

record reconciliation_exception =
  rx_type :: string
  rx_id :: string
  rx_code :: string

record account_facts =
  af_userID :: int
  af_history :: "(string \<times> history_entry) list"
  af_historyError :: bool
  af_receipts :: "client_receipt list"
  af_receiptError :: bool

definition findRecord :: "gomap list \<Rightarrow> string \<Rightarrow> gomap" where
  "findRecord rows id' =
     (case find (\<lambda>row. stringValue (mget row ''id'') = id') rows of None \<Rightarrow> None | Some row \<Rightarrow> row)"

section \<open>The receipts of an account\<close>

definition BillingReceipts :: "receipt_lister option \<Rightarrow> client_receipt_query \<Rightarrow> string + client_receipt_page" where
  "BillingReceipts client query =
     (case client of
        None \<Rightarrow> Inl ''ledger_receipt_list_unavailable''
      | Some list \<Rightarrow> if cq_AccountID query = [] then Inl ''billing_account_id_required'' else list query)"

fun receipt_pages_loop :: "nat \<Rightarrow> receipt_lister option \<Rightarrow> string \<Rightarrow> string \<Rightarrow> string list \<Rightarrow> client_receipt list \<Rightarrow>
    string + client_receipt list" where
  "receipt_pages_loop 0 client accountID cursor seen receipts = Inl ''ledger_receipt_page_limit_exceeded''"
| "receipt_pages_loop (Suc n) client accountID cursor seen receipts =
     (case BillingReceipts client \<lparr>cq_AccountID = accountID, cq_TypePrefix = [], cq_Cursor = cursor, cq_Limit = 100\<rparr> of
        Inl err \<Rightarrow> Inl err
      | Inr page' \<Rightarrow>
          if list_ex (\<lambda>r. cr_AccountID r \<noteq> accountID) (cp_Receipts page') then Inl ''ledger_receipt_identity_mismatch''
          else
            (let receipts = receipts @ cp_Receipts page' in
             if \<not> cp_HasMore page' then Inr receipts
             else if cp_NextCursor page' = [] \<or> cp_NextCursor page' \<in> set seen then Inl ''ledger_receipt_pagination_invalid''
             else receipt_pages_loop n client accountID (cp_NextCursor page') (cp_NextCursor page' # seen) receipts))"

definition reconciliationLedgerReceipts :: "receipt_lister option \<Rightarrow> string \<Rightarrow> string + client_receipt list" where
  "reconciliationLedgerReceipts client accountID =
     receipt_pages_loop maxReconciliationReceiptPages client accountID [] [] []"

section \<open>The resources\<close>

text \<open>A renewal counts when it took effect and the workspace is paid through the time it bought.\<close>

definition effective_renewal :: "(string \<Rightarrow> renewal_operation option) \<Rightarrow> gomap list \<Rightarrow> gomap \<Rightarrow> renewal_operation option" where
  "effective_renewal unmarshal workspaces row =
     (case decodeWorkspaceRenewalOperation unmarshal row of
        Inl _ \<Rightarrow> None
      | Inr op \<Rightarrow>
          (let workspace = findRecord workspaces (wr_WorkspaceID op) in
           case (rfc3339_parse (stringValue (mget workspace ''paidThrough'')), rfc3339_parse (wr_RenewedThrough op)) of
             (Some paid, Some renewed) \<Rightarrow>
               if workspace = None \<or>
                  (wr_Status op \<noteq> ''active'' \<and> \<not> (wr_Status op = ''verifying'' \<and> wr_EntitlementCommitted op)) \<or>
                  \<not> t_equal paid renewed
               then None else Some op
           | _ \<Rightarrow> None))"

text \<open>Per workspace the renewal with the largest \<^verbatim>\<open>paidThrough\<close> text is kept, the earlier one on a tie.\<close>

definition keep_renewal :: "renewal_operation \<Rightarrow> (string \<times> renewal_operation) list \<Rightarrow> (string \<times> renewal_operation) list" where
  "keep_renewal op renewals =
     (case map_of renewals (wr_WorkspaceID op) of
        None \<Rightarrow> AList.update (wr_WorkspaceID op) op renewals
      | Some current \<Rightarrow>
          if wr_PaidThrough current < wr_PaidThrough op then AList.update (wr_WorkspaceID op) op renewals else renewals)"

definition workspace_renewals :: "(string \<Rightarrow> renewal_operation option) \<Rightarrow> gomap list \<Rightarrow> gomap list \<Rightarrow> (string \<times> renewal_operation) list" where
  "workspace_renewals unmarshal workspaces rows =
     fold (\<lambda>row renewals.
         case effective_renewal unmarshal workspaces row of None \<Rightarrow> renewals | Some op \<Rightarrow> keep_renewal op renewals)
       rows []"

definition workspaceRenewalBillingReconciliationRow :: "gomap \<Rightarrow> renewal_operation \<Rightarrow> gomap" where
  "workspaceRenewalBillingReconciliationRow workspace op =
     Some [(''id'', GStr (wr_WorkspaceID op)), (''accountId'', GStr (wr_AccountID op)),
       (''workspaceId'', GStr (wr_WorkspaceID op)), (''billingOperationId'', GStr (wr_ID op)),
       (''sub2apiRedeemCode'', GStr (wr_RedeemCode op)), (''chargeUsdMicros'', GInt KInt64 (wr_TotalUSDMicros op)),
       (''sub2apiUserId'', GInt KInt64 (int64_of_float (numberField (wr_ChargeConfirmation op) ''userId'' (Fin 0)))),
       (''postChargeBalanceUsdMicros'', GInt KInt64 (wr_PostChargeBalanceUSDMicros op)),
       (''lastReceiptId'', GStr (wr_ReceiptID op)), (''priceVersion'', GStr (wr_PriceVersion op)),
       (''periodStart'', GStr (wr_PaidThrough op)), (''paidThrough'', GStr (wr_RenewedThrough op)),
       (''computeAllocationId'', GStr (wr_ComputeID op)), (''storageId'', GStr (wr_StorageID op)),
       (''storageGb'', GInt KInt64 (wr_StorageGB op)),
       (''computeChargeUsdMicros'', GInt KInt64 (wr_ComputeUSDMicros op)),
       (''storageChargeUsdMicros'', GInt KInt64 (wr_StorageUSDMicros op)),
       (''workspaceRenewalStatus'', GStr (wr_Status op)), (''workspaceState'', GStr (stringValue (mget workspace ''state'')))]"

definition billed_rows :: "string \<Rightarrow> string list \<Rightarrow> gomap list \<Rightarrow> reconciliation_resource list" where
  "billed_rows kind children rows =
     map (\<lambda>row. \<lparr>rr_type = kind, rr_row = row\<rparr>)
       (filter (\<lambda>row. stringValue (mget row ''billingStatus'') = ''active'' \<and> stringValue (mget row ''id'') \<notin> set children) rows)"

definition resource_key :: "reconciliation_resource \<Rightarrow> string \<times> string" where
  "resource_key r = (rr_type r, stringValue (mget (rr_row r) ''id''))"

definition reconciliation_resources ::
    "(string \<Rightarrow> renewal_operation option) \<Rightarrow> gomap list \<Rightarrow> gomap list \<Rightarrow> gomap list \<Rightarrow> gomap list \<Rightarrow> reconciliation_resource list" where
  "reconciliation_resources unmarshal computes storages workspaces operations =
     (let renewals = workspace_renewals unmarshal workspaces operations;
          renewed = map (\<lambda>(workspaceID, op).
            \<lparr>rr_type = ''workspace'', rr_row = workspaceRenewalBillingReconciliationRow (findRecord workspaces workspaceID) op\<rparr>) renewals
      in sort_key resource_key
           (renewed @ billed_rows ''compute'' (map (wr_ComputeID \<circ> snd) renewals) computes @
            billed_rows ''storage'' (map (wr_StorageID \<circ> snd) renewals) storages))"

section \<open>The three comparisons\<close>

definition validLocalBillingReconciliationFact :: "string \<Rightarrow> gomap \<Rightarrow> bool" where
  "validLocalBillingReconciliationFact resourceType row =
     (let str = (\<lambda>k. stringValue (mget row k));
          (charge, validCharge) = requiredNonNegativeInteger row ''chargeUsdMicros''
      in if resourceType = ''workspace'' then
           (let (computeCharge, validComputeCharge) = requiredNonNegativeInteger row ''computeChargeUsdMicros'';
                (storageCharge, validStorageCharge) = requiredNonNegativeInteger row ''storageChargeUsdMicros'';
                (userID, validUserID) = requiredNonNegativeInteger row ''sub2apiUserId'';
                (balance, validBalance) = requiredNonNegativeInteger row ''postChargeBalanceUsdMicros''
            in str ''id'' \<noteq> [] \<and> str ''accountId'' \<noteq> [] \<and> str ''workspaceId'' = str ''id'' \<and>
               str ''billingOperationId'' \<noteq> [] \<and> str ''sub2apiRedeemCode'' \<noteq> [] \<and> validCharge \<and> validComputeCharge \<and>
               validStorageCharge \<and> validUserID \<and> validBalance \<and> userID > 0 \<and> charge > 0 \<and> computeCharge > 0 \<and>
               storageCharge > 0 \<and> charge = wrap64 (computeCharge + storageCharge) \<and> str ''priceVersion'' \<noteq> [] \<and>
               str ''computeAllocationId'' \<noteq> [] \<and> str ''storageId'' \<noteq> [] \<and>
               float_less (Fin 0) (numberField row ''storageGb'' (Fin 0)))
         else (resourceType = ''compute'' \<or> resourceType = ''storage'') \<and> str ''id'' \<noteq> [] \<and> str ''accountId'' \<noteq> [] \<and>
              str ''workspaceId'' \<noteq> [] \<and> str ''billingOperationId'' \<noteq> [] \<and> str ''sub2apiRedeemCode'' \<noteq> [] \<and>
              validCharge \<and> charge > 0 \<and> str ''providerResourceId'' \<noteq> [] \<and> str ''lastReceiptId'' \<noteq> [])"

text \<open>The codes: the empty text means that nothing is wrong.\<close>

definition sub2APIReconciliationCode :: "gomap \<Rightarrow> int \<Rightarrow> (string \<times> history_entry) list \<Rightarrow> string" where
  "sub2APIReconciliationCode row userID history =
     (case map_of history (stringValue (mget row ''sub2apiRedeemCode'')) of
        None \<Rightarrow> ''sub2api_charge_missing''
      | Some entry \<Rightarrow>
          (let (charge, validCharge) = requiredNonNegativeInteger row ''chargeUsdMicros'' in
           if \<not> validCharge \<or> he_Type entry \<noteq> ''balance'' \<or> he_Status entry \<noteq> ''used'' \<or> he_UsedBy entry = None \<or>
              the (he_UsedBy entry) \<noteq> userID \<or> he_ValueUSDMicros entry \<noteq> - charge
           then ''sub2api_charge_mismatch'' else []))"

definition billingReconciliationProviderInputs :: "reconciliation_resource \<Rightarrow> provider_fact_input list" where
  "billingReconciliationProviderInputs resource =
     (let row = rr_row resource;
          input = (\<lambda>kind id'. \<lparr>pfi_AccountID = stringValue (mget row ''accountId''),
                     pfi_WorkspaceID = stringValue (mget row ''workspaceId''), pfi_ResourceType = kind, pfi_ResourceID = id'\<rparr>)
      in if rr_type resource = ''workspace''
         then [input ''compute'' (stringValue (mget row ''computeAllocationId'')),
               input ''storage'' (stringValue (mget row ''storageId''))]
         else [input (rr_type resource) (stringValue (mget row ''id''))])"

fun fabric_inputs_code :: "reconciliation_resource \<Rightarrow> gotime \<Rightarrow> (string \<times> provider_fact) list \<Rightarrow> provider_fact_input list \<Rightarrow> string" where
  "fabric_inputs_code resource paidThrough facts [] = []"
| "fabric_inputs_code resource paidThrough facts (input # inputs) =
     (case map_of facts (providerFactKey input) of
        None \<Rightarrow> ''fabric_provider_fact_missing''
      | Some pf \<Rightarrow>
          if providerFactConfirmedAbsent input pf then ''fabric_provider_fact_missing''
          else
            (let expectedProviderID = (if rr_type resource \<noteq> ''workspace''
                                       then stringValue (mget (rr_row resource) ''providerResourceId'') else [])
             in if \<not> providerFactCovers input pf expectedProviderID paidThrough then ''fabric_provider_fact_mismatch''
                else fabric_inputs_code resource paidThrough facts inputs))"

definition fabricReconciliationCode :: "reconciliation_resource \<Rightarrow> (string \<times> provider_fact) list \<Rightarrow> string" where
  "fabricReconciliationCode resource facts =
     (case rfc3339_parse (stringValue (mget (rr_row resource) ''paidThrough'')) of
        None \<Rightarrow> ''fabric_provider_fact_mismatch''
      | Some paidThrough \<Rightarrow> fabric_inputs_code resource paidThrough facts (billingReconciliationProviderInputs resource))"

text \<open>Two amounts that are present and equal.\<close>

definition same_amount :: "int \<times> bool \<Rightarrow> int \<times> bool \<Rightarrow> bool" where
  "same_amount a b \<longleftrightarrow> snd a \<and> snd b \<and> fst a = fst b"

definition workspace_receipt_matches :: "gomap \<Rightarrow> int \<Rightarrow> client_receipt \<Rightarrow> bool" where
  "workspace_receipt_matches row currentUserID r =
     (let str = (\<lambda>k. stringValue (mget row k)); cost = cr_Cost r; cstr = (\<lambda>k. stringValue (mget cost k));
          components = mapField cost ''components''; compute = mapField components ''compute''; storage = mapField components ''storage'';
          amount = requiredNonNegativeInteger
      in cr_Type r = ''billing.workspace_renewed.v1'' \<and> cr_Status r = ''completed'' \<and>
         cr_AccountID r = str ''accountId'' \<and> cr_WorkspaceID r = str ''workspaceId'' \<and> cr_RequestID r = str ''billingOperationId'' \<and>
         cstr ''resourceType'' = ''workspace'' \<and> cstr ''resourceId'' = str ''id'' \<and>
         cstr ''priceVersion'' = str ''priceVersion'' \<and> cstr ''currency'' = pricingCurrency \<and> cstr ''billingUnit'' = pricingBillingUnit \<and>
         cstr ''sub2apiRedeemCode'' = str ''sub2apiRedeemCode'' \<and>
         same_amount (amount cost ''sub2apiUserId'') (amount row ''sub2apiUserId'') \<and>
         fst (amount cost ''sub2apiUserId'') = currentUserID \<and>
         same_amount (amount cost ''postChargeBalanceUsdMicros'') (amount row ''postChargeBalanceUsdMicros'') \<and>
         cstr ''periodStart'' = str ''periodStart'' \<and> cstr ''paidThrough'' = str ''paidThrough'' \<and>
         same_amount (amount cost ''totalUsdMicros'') (amount row ''chargeUsdMicros'') \<and>
         same_amount (amount compute ''chargeUsdMicros'') (amount row ''computeChargeUsdMicros'') \<and>
         same_amount (amount storage ''chargeUsdMicros'') (amount row ''storageChargeUsdMicros'') \<and>
         stringValue (mget compute ''resourceType'') = ''compute'' \<and> stringValue (mget storage ''resourceType'') = ''storage'' \<and>
         stringValue (mget compute ''resourceId'') = str ''computeAllocationId'' \<and>
         stringValue (mget storage ''resourceId'') = str ''storageId'' \<and>
         int64_of_float (numberField storage ''sizeGb'' (Fin (- 1))) = int64_of_float (numberField row ''storageGb'' (Fin (- 2))))"

definition resource_receipt_matches :: "string \<Rightarrow> gomap \<Rightarrow> client_receipt \<Rightarrow> bool" where
  "resource_receipt_matches resourceType row r =
     (let str = (\<lambda>k. stringValue (mget row k)); cost = cr_Cost r;
          expectedType = (if has_prefix (str ''billingOperationId'') ''renewal-''
                          then ''billing.resource_renewed.v1'' else ''billing.resource_purchased.v1'')
      in cr_Type r = expectedType \<and> cr_Status r = ''completed'' \<and> cr_AccountID r = str ''accountId'' \<and>
         cr_WorkspaceID r = str ''workspaceId'' \<and> cr_RequestID r = str ''billingOperationId'' \<and>
         stringValue (mget cost ''resourceType'') = resourceType \<and> stringValue (mget cost ''resourceId'') = str ''id'' \<and>
         same_amount (requiredNonNegativeInteger cost ''chargeUsdMicros'') (requiredNonNegativeInteger row ''chargeUsdMicros''))"

definition ledgerReconciliationCode :: "string \<Rightarrow> gomap \<Rightarrow> int \<Rightarrow> client_receipt list \<Rightarrow> string" where
  "ledgerReconciliationCode resourceType row currentUserID receipts =
     (let matches = filter (\<lambda>r. cr_ReceiptID r = stringValue (mget row ''lastReceiptId'')) receipts in
      case matches of
        [] \<Rightarrow> ''ledger_receipt_missing''
      | r # _ \<Rightarrow>
          if resourceType = ''workspace'' then
            (if length matches \<noteq> 1 \<or> \<not> workspace_receipt_matches row currentUserID r
             then ''ledger_receipt_mismatch'' else [])
          else
            (if length matches \<noteq> 1 \<or> \<not> resource_receipt_matches resourceType row r
             then ''ledger_receipt_mismatch'' else []))"

section \<open>The report\<close>

definition newBillingReconciliationException :: "reconciliation_resource \<Rightarrow> string \<Rightarrow> reconciliation_exception" where
  "newBillingReconciliationException resource exception_code =
     \<lparr>rx_type = rr_type resource, rx_id = stringValue (mget (rr_row resource) ''id''), rx_code = exception_code\<rparr>"

definition exception_item :: "reconciliation_exception \<Rightarrow> goval" where
  "exception_item x =
     GObj [(''resourceType'', GStr (rx_type x)), (''resourceId'', GStr (rx_id x)), (''code'', GStr (rx_code x))]"

definition reconciliationReport :: "string \<Rightarrow> int \<Rightarrow> int \<Rightarrow> reconciliation_exception list \<Rightarrow> gomap" where
  "reconciliationReport id' checked matched exceptions =
     Some [(''id'', GStr id'), (''status'', GStr (if length exceptions > 0 then ''mismatch'' else ''ok'')),
       (''counts'', GObj [(''billingOperations'', GInt KInt checked), (''matched'', GInt KInt matched),
                          (''exceptions'', GInt KInt (int (length exceptions)))]),
       (''exceptions'', GArr (map exception_item exceptions))]"

text \<open>The redeem codes of an account's resources, each once, in order.\<close>

definition account_codes :: "reconciliation_resource list \<Rightarrow> string \<Rightarrow> string list" where
  "account_codes resources accountID =
     fold (\<lambda>resource codes.
         let redeem = stringValue (mget (rr_row resource) ''sub2apiRedeemCode'') in
         if stringValue (mget (rr_row resource) ''accountId'') \<noteq> accountID \<or> accountID = [] \<or> redeem = [] \<or> redeem \<in> set codes
         then codes else codes @ [redeem])
       resources []"

definition load_account_facts :: "reconciliation_source \<Rightarrow> reconciliation_resource list \<Rightarrow> string \<Rightarrow> account_facts" where
  "load_account_facts src resources accountID =
     (let (userID, history, historyError) =
            (case sub2APIUserID (rs_accounts src) accountID of
               Inl _ \<Rightarrow> (0, [], True)
             | Inr userID \<Rightarrow>
                 (case rs_history src userID (account_codes resources accountID) of
                    Inl _ \<Rightarrow> (userID, [], True)
                  | Inr history \<Rightarrow> (userID, history, False)));
          (receipts, receiptError) =
            (case reconciliationLedgerReceipts (rs_receipts src) accountID of
               Inl _ \<Rightarrow> ([], True) | Inr receipts \<Rightarrow> (receipts, False))
      in \<lparr>af_userID = userID, af_history = history, af_historyError = historyError,
          af_receipts = receipts, af_receiptError = receiptError\<rparr>)"

text \<open>The codes of one resource; no code means that the resource matched.\<close>

definition resource_codes ::
    "facts_error + (string \<times> provider_fact) list \<Rightarrow> account_facts \<Rightarrow> reconciliation_resource \<Rightarrow> string list" where
  "resource_codes providerFacts facts resource =
     (let row = rr_row resource in
      if \<not> validLocalBillingReconciliationFact (rr_type resource) row then [''billing_operation_invalid'']
      else
        filter (\<lambda>c. c \<noteq> [])
          [if af_historyError facts then ''sub2api_balance_history_unavailable''
           else sub2APIReconciliationCode row (af_userID facts) (af_history facts),
           case providerFacts of
             Inl _ \<Rightarrow> ''fabric_provider_facts_unavailable''
           | Inr pfs \<Rightarrow> fabricReconciliationCode resource pfs,
           if af_receiptError facts then ''ledger_receipts_unavailable''
           else ledgerReconciliationCode (rr_type resource) row (af_userID facts) (af_receipts facts)])"

definition exception_key :: "reconciliation_exception \<Rightarrow> string \<times> string \<times> string" where
  "exception_key x = (rx_type x, rx_id x, rx_code x)"

definition resources_report :: "reconciliation_source \<Rightarrow> string \<Rightarrow> reconciliation_resource list \<Rightarrow> gomap" where
  "resources_report src reportID resources =
     (if resources = [] then reconciliationReport reportID 0 0 []
      else
        (let providerFacts = readProviderFacts (rs_facts src)
               (uniqueProviderFactInputs (concat (map billingReconciliationProviderInputs resources)));
             codes = (\<lambda>resource. resource_codes providerFacts
               (load_account_facts src resources (stringValue (mget (rr_row resource) ''accountId''))) resource);
             exceptions = concat (map (\<lambda>resource. map (newBillingReconciliationException resource) (codes resource)) resources);
             matched = length (filter (\<lambda>resource. codes resource = []) resources)
         in reconciliationReport reportID (int (length resources)) (int matched) (sort_key exception_key exceptions)))"

definition report_resources :: "reconciliation_source \<Rightarrow> string + reconciliation_resource list" where
  "report_resources src =
     (case rs_computes src of Inl err \<Rightarrow> Inl err | Inr computes \<Rightarrow>
      case rs_storages src of Inl err \<Rightarrow> Inl err | Inr storages \<Rightarrow>
      case rs_workspaces src of Inl err \<Rightarrow> Inl err | Inr workspaces \<Rightarrow>
      case rs_renewals src of Inl err \<Rightarrow> Inl err | Inr operations \<Rightarrow>
        Inr (reconciliation_resources (rs_unmarshal src) computes storages workspaces operations))"

definition billingReconciliationReport :: "reconciliation_source \<Rightarrow> string \<Rightarrow> string + gomap" where
  "billingReconciliationReport src idempotencyKey =
     (case report_resources src of
        Inl err \<Rightarrow> Inl err
      | Inr resources \<Rightarrow>
          Inr (resources_report src (''reconciliation-'' @ take 18 (stableID (rs_sha1hex src) [idempotencyKey])) resources))"

section \<open>The guard on new workspaces\<close>

text \<open>
  The stored reconciliation row decides whether new workspaces are blocked. The argument \<open>stored\<close> is what
  the table returns: an error, no row, or a row.
\<close>

definition billingReconciliationBlockState :: "gomap \<Rightarrow> string + bool" where
  "billingReconciliationBlockState row =
     (let status = stringValue (mget row ''status''); guard = mapField row ''guard'';
          guardStatus = stringValue (mget guard ''status''); reason = stringValue (mget guard ''reason'')
      in case as_bool (mget guard ''blockNewWorkspaces'') of
           None \<Rightarrow> Inl ''billing_reconciliation_guard_invalid''
         | Some blocked \<Rightarrow>
             if stringValue (mget row ''id'') = [] \<or> (status \<noteq> ''ok'' \<and> status \<noteq> ''mismatch'') \<or> guardStatus \<noteq> status \<or>
                reason = [] \<or> blocked \<noteq> (status = ''mismatch'')
             then Inl ''billing_reconciliation_guard_invalid'' else Inr blocked)"

definition guard_projection :: "string \<Rightarrow> bool \<Rightarrow> string \<Rightarrow> gomap" where
  "guard_projection status blocked reason =
     Some [(''reports'', GInt KInt 0),
       (''guard'', GObj [(''status'', GStr status), (''blockNewWorkspaces'', GBool blocked), (''reason'', GStr reason)])]"

definition reconciliationProjectionLocked :: "string + gomap option \<Rightarrow> gomap" where
  "reconciliationProjectionLocked stored =
     (case stored of
        Inl _ \<Rightarrow> guard_projection ''unavailable'' True ''billing_reconciliation_unavailable''
      | Inr None \<Rightarrow> guard_projection ''not_required'' False ''billing_reconciliation_not_required''
      | Inr (Some row) \<Rightarrow>
          (case billingReconciliationBlockState row of
             Inl _ \<Rightarrow> guard_projection ''unavailable'' True ''billing_reconciliation_invalid''
           | Inr _ \<Rightarrow> mset_key row ''reports'' (GInt KInt 1)))"

definition reconciliationBlocksNewWorkspaces :: "string + gomap option \<Rightarrow> gomap \<times> bool \<times> string option" where
  "reconciliationBlocksNewWorkspaces stored =
     (case stored of
        Inl err \<Rightarrow> (None, True, Some err)
      | Inr None \<Rightarrow> (guard_projection ''not_required'' False ''billing_reconciliation_not_required'', False, None)
      | Inr (Some row) \<Rightarrow>
          (case billingReconciliationBlockState row of
             Inl err \<Rightarrow> (None, True, Some err)
           | Inr blocked \<Rightarrow> (mset_key row ''reports'' (GInt KInt 1), blocked, None)))"

definition billingReconciliationIdentityMatches :: "gomap \<Rightarrow> gomap \<Rightarrow> bool" where
  "billingReconciliationIdentityMatches current desired =
     (case (billingReconciliationBlockState current, billingReconciliationBlockState desired) of
        (Inr currentBlocked, Inr desiredBlocked) \<Rightarrow>
          stringValue (mget current ''id'') = stringValue (mget desired ''id'') \<and>
          stringValue (mget current ''status'') = stringValue (mget desired ''status'') \<and> currentBlocked = desiredBlocked \<and>
          stringValue (mget (mapField current ''guard'') ''reason'') = stringValue (mget (mapField desired ''guard'') ''reason'')
      | _ \<Rightarrow> False)"

text \<open>Two values have the same JSON text when their normalised forms agree.\<close>

definition billingReconciliationContentMatches :: "gomap \<Rightarrow> gomap \<Rightarrow> bool" where
  "billingReconciliationContentMatches current desired \<longleftrightarrow>
     billingReconciliationIdentityMatches current desired \<and> mhas current ''report'' \<and> mhas desired ''report'' \<and>
     marshalable (mget current ''report'') \<and> marshalable (mget desired ''report'') \<and>
     json_normalize (mget current ''report'') = json_normalize (mget desired ''report'')"

definition billingReconciliationAuditID :: "(string \<Rightarrow> string) \<Rightarrow> string \<Rightarrow> string" where
  "billingReconciliationAuditID sha1hex resultID =
     ''audit-'' @ take 12 (stableID sha1hex [''billing.reconciliation'', ''billing_reconciliation'', resultID])"

definition billingReconciliationAuditIdentityMatches :: "(string \<Rightarrow> string) \<Rightarrow> gomap \<Rightarrow> gomap \<Rightarrow> bool" where
  "billingReconciliationAuditIdentityMatches sha1hex row desired =
     (let resultID = stringValue (mget desired ''id''); str = (\<lambda>k. stringValue (mget row k)) in
      case as_obj (mget row ''after'') of
        None \<Rightarrow> False
      | Some after \<Rightarrow>
          str ''id'' = billingReconciliationAuditID sha1hex resultID \<and> str ''actorUserId'' \<noteq> [] \<and>
          str ''action'' = ''billing.reconciliation'' \<and> str ''resourceKind'' = ''billing_reconciliation'' \<and>
          str ''resourceId'' = resultID \<and> str ''result'' = ''succeeded'' \<and>
          billingReconciliationContentMatches (Some after) desired)"

record reconciliation_mutation =
  bm_Row :: gomap
  bm_AuditEvent :: gomap
  bm_ExpectedCurrentGuardID :: string

definition validateBillingReconciliationMutation :: "(string \<Rightarrow> string) \<Rightarrow> reconciliation_mutation \<Rightarrow> string option" where
  "validateBillingReconciliationMutation sha1hex mutation =
     (let row = bm_Row mutation; audit = bm_AuditEvent mutation in
      case billingReconciliationBlockState row of
        Inl err \<Rightarrow> Some err
      | Inr _ \<Rightarrow>
          if stringValue (mget (mapField row ''report'') ''id'') \<noteq> stringValue (mget row ''id'')
          then Some ''billing_reconciliation_report_invalid''
          else if \<not> billingReconciliationAuditIdentityMatches sha1hex audit row
          then Some ''billing_reconciliation_audit_invalid''
          else if rfc3339_parse (stringValue (mget audit ''createdAt'')) = None
          then Some ''billing_reconciliation_audit_invalid''
          else None)"

section \<open>Codes of a resource\<close>

definition fabric_codes :: "string list" where
  "fabric_codes = [''fabric_provider_facts_unavailable'', ''fabric_provider_fact_missing'', ''fabric_provider_fact_mismatch'']"

lemma fabric_inputs_code_cases:
  "fabric_inputs_code resource t facts inputs \<noteq> [] \<Longrightarrow> fabric_inputs_code resource t facts inputs \<in> set fabric_codes"
  by (induction inputs) (auto simp: fabric_codes_def Let_def split: option.splits if_splits)

lemma fabric_inputs_code_Nil:
  "fabric_inputs_code resource t facts inputs = [] \<longleftrightarrow>
     (\<forall>input \<in> set inputs. \<exists>f. map_of facts (providerFactKey input) = Some f \<and>
        providerFactCovers input f (if rr_type resource \<noteq> ''workspace''
          then stringValue (mget (rr_row resource) ''providerResourceId'') else []) t)"
  by (induction inputs) (auto simp: Let_def covers_not_absent split: option.splits)

lemma fabricReconciliationCode_cases:
  "fabricReconciliationCode resource facts \<noteq> [] \<Longrightarrow> fabricReconciliationCode resource facts \<in> set fabric_codes"
  unfolding fabricReconciliationCode_def
  by (auto split: option.splits dest: fabric_inputs_code_cases) (simp add: fabric_codes_def)

lemma sub2APIReconciliationCode_cases:
  "sub2APIReconciliationCode row u h \<in> {[], ''sub2api_charge_missing'', ''sub2api_charge_mismatch''}"
  by (auto simp: sub2APIReconciliationCode_def split: option.splits prod.splits)

lemma ledgerReconciliationCode_cases:
  "ledgerReconciliationCode kind row u rs \<in> {[], ''ledger_receipt_missing'', ''ledger_receipt_mismatch''}"
  unfolding ledgerReconciliationCode_def Let_def by (simp split: list.split)

definition fabric_code :: "facts_error + (string \<times> provider_fact) list \<Rightarrow> reconciliation_resource \<Rightarrow> string" where
  "fabric_code pfs resource =
     (case pfs of Inl _ \<Rightarrow> ''fabric_provider_facts_unavailable'' | Inr fs \<Rightarrow> fabricReconciliationCode resource fs)"

lemma fabric_code_cases: "fabric_code pfs resource \<noteq> [] \<Longrightarrow> fabric_code pfs resource \<in> set fabric_codes"
  by (auto simp: fabric_code_def fabricReconciliationCode_cases split: sum.splits) (simp add: fabric_codes_def)

lemma resource_codes_alt:
  "resource_codes pfs facts resource =
     (if \<not> validLocalBillingReconciliationFact (rr_type resource) (rr_row resource) then [''billing_operation_invalid'']
      else filter (\<lambda>c. c \<noteq> [])
        [if af_historyError facts then ''sub2api_balance_history_unavailable''
         else sub2APIReconciliationCode (rr_row resource) (af_userID facts) (af_history facts),
         fabric_code pfs resource,
         if af_receiptError facts then ''ledger_receipts_unavailable''
         else ledgerReconciliationCode (rr_type resource) (rr_row resource) (af_userID facts) (af_receipts facts)])"
  by (simp add: resource_codes_def fabric_code_def Let_def)

text \<open>The ledger knows every code but those of the provider's facts.\<close>

lemma fabric_codes_unknown: "c \<in> set fabric_codes \<Longrightarrow> c \<notin> set reconciliationExceptionCodes"
  by (auto simp: fabric_codes_def reconciliationExceptionCodes_def)

lemma resource_codes_known:
  assumes "c \<in> set (resource_codes pfs facts resource)"
  shows "c \<in> set reconciliationExceptionCodes \<longleftrightarrow> c \<notin> set fabric_codes"
proof -
  have "c \<in> set fabric_codes \<or> c \<in> set reconciliationExceptionCodes"
    using assms fabric_code_cases [of pfs resource]
      sub2APIReconciliationCode_cases [of "rr_row resource" "af_userID facts" "af_history facts"]
      ledgerReconciliationCode_cases [of "rr_type resource" "rr_row resource" "af_userID facts" "af_receipts facts"]
    by (auto simp: resource_codes_alt reconciliationExceptionCodes_def split: if_splits)
  then show ?thesis using fabric_codes_unknown by blast
qed

section \<open>The guard is closed unless it is known to be open\<close>

lemma block_state_open:
  "billingReconciliationBlockState row = Inr False \<longleftrightarrow>
     stringValue (mget row ''id'') \<noteq> [] \<and> stringValue (mget row ''status'') = ''ok'' \<and>
     stringValue (mget (mapField row ''guard'') ''status'') = ''ok'' \<and>
     stringValue (mget (mapField row ''guard'') ''reason'') \<noteq> [] \<and>
     mget (mapField row ''guard'') ''blockNewWorkspaces'' = GBool False"
  by (auto simp: billingReconciliationBlockState_def Let_def split: option.splits if_splits)

lemma block_state_flag:
  "billingReconciliationBlockState row = Inr blocked \<Longrightarrow>
     mget (mapField row ''guard'') ''blockNewWorkspaces'' = GBool blocked"
  by (auto simp: billingReconciliationBlockState_def Let_def split: option.splits if_splits)

text \<open>
  C21: the guard fails closed. New workspaces are let through only when no reconciliation was ever
  recorded, or when the stored row is complete, consistent and says \<^verbatim>\<open>ok\<close>; a table that cannot be read and
  a row that is damaged both block. The projection shown to operators states the same decision.
\<close>

theorem reconciliation_guard_fails_closed:
  "(fst (snd (reconciliationBlocksNewWorkspaces stored)) = False \<longleftrightarrow>
      stored = Inr None \<or>
      (\<exists>row. stored = Inr (Some row) \<and> stringValue (mget row ''id'') \<noteq> [] \<and> stringValue (mget row ''status'') = ''ok'' \<and>
         stringValue (mget (mapField row ''guard'') ''status'') = ''ok'' \<and>
         stringValue (mget (mapField row ''guard'') ''reason'') \<noteq> [] \<and>
         mget (mapField row ''guard'') ''blockNewWorkspaces'' = GBool False)) \<and>
   mget (mapField (reconciliationProjectionLocked stored) ''guard'') ''blockNewWorkspaces'' =
     GBool (fst (snd (reconciliationBlocksNewWorkspaces stored)))"
proof (cases stored)
  case (Inl err)
  then show ?thesis
    by (simp add: reconciliationBlocksNewWorkspaces_def reconciliationProjectionLocked_def guard_projection_def
        mapField_def cloneMap_def mget_def)
next
  case (Inr row)
  note defs = reconciliationBlocksNewWorkspaces_def reconciliationProjectionLocked_def
  show ?thesis
  proof (cases row)
    case None
    with Inr show ?thesis
      by (simp add: defs guard_projection_def mapField_def cloneMap_def mget_def)
  next
    case (Some r)
    have g: "mapField (mset_key r ''reports'' v) ''guard'' = mapField r ''guard''" for v by (simp add: mapField_def)
    show ?thesis
    proof (cases "billingReconciliationBlockState r")
      case (Inl err)
      with block_state_open [of r] show ?thesis
        by (simp add: defs Inr Some) (simp add: guard_projection_def mapField_def cloneMap_def mget_def)
    next
      case (Inr blocked)
      with block_state_open [of r] block_state_flag [OF Inr] show ?thesis
        by (cases blocked) (auto simp: defs \<open>stored = Inr row\<close> Some g)
    qed
  qed
qed

section \<open>What a green report rests on\<close>

lemma resources_report_status:
  "mget (resources_report src rid resources) ''status'' = GStr ''ok'' \<longleftrightarrow>
     (\<forall>r \<in> set resources. resource_codes (readProviderFacts (rs_facts src)
        (uniqueProviderFactInputs (concat (map billingReconciliationProviderInputs resources))))
        (load_account_facts src resources (stringValue (mget (rr_row r) ''accountId''))) r = [])"
  by (simp add: resources_report_def reconciliationReport_def Let_def mget_def)

lemma history_code_Nil:
  "sub2APIReconciliationCode row u h = [] \<Longrightarrow>
     \<exists>entry. map_of h (stringValue (mget row ''sub2apiRedeemCode'')) = Some entry \<and> he_Type entry = ''balance'' \<and>
       he_Status entry = ''used'' \<and> he_UsedBy entry = Some u \<and>
       requiredNonNegativeInteger row ''chargeUsdMicros'' = (- he_ValueUSDMicros entry, True)"
  by (auto simp: sub2APIReconciliationCode_def split: option.splits prod.splits if_splits)

lemma ledger_code_Nil:
  "ledgerReconciliationCode kind row u rs = [] \<Longrightarrow>
     \<exists>r. filter (\<lambda>r. cr_ReceiptID r = stringValue (mget row ''lastReceiptId'')) rs = [r] \<and>
       (if kind = ''workspace'' then workspace_receipt_matches row u r else resource_receipt_matches kind row r)"
  unfolding ledgerReconciliationCode_def Let_def
  by (auto split: list.splits if_splits)

lemma fabric_code_Nil:
  "fabric_code pfs resource = [] \<Longrightarrow>
     \<exists>fs t. pfs = Inr fs \<and> rfc3339_parse (stringValue (mget (rr_row resource) ''paidThrough'')) = Some t \<and>
       (\<forall>input \<in> set (billingReconciliationProviderInputs resource). \<exists>f. map_of fs (providerFactKey input) = Some f \<and>
          providerFactCovers input f (if rr_type resource \<noteq> ''workspace''
            then stringValue (mget (rr_row resource) ''providerResourceId'') else []) t)"
  by (auto simp: fabric_code_def fabricReconciliationCode_def fabric_inputs_code_Nil split: sum.splits option.splits)

text \<open>What stands behind a resource that matched, given what was read.\<close>

definition resource_backed :: "(string \<times> provider_fact) list \<Rightarrow> account_facts \<Rightarrow> reconciliation_resource \<Rightarrow> bool" where
  "resource_backed fs facts r \<longleftrightarrow>
     validLocalBillingReconciliationFact (rr_type r) (rr_row r) \<and>
     (\<exists>entry. map_of (af_history facts) (stringValue (mget (rr_row r) ''sub2apiRedeemCode'')) = Some entry \<and>
        he_Type entry = ''balance'' \<and> he_Status entry = ''used'' \<and> he_UsedBy entry = Some (af_userID facts) \<and>
        requiredNonNegativeInteger (rr_row r) ''chargeUsdMicros'' = (- he_ValueUSDMicros entry, True)) \<and>
     (\<exists>t. rfc3339_parse (stringValue (mget (rr_row r) ''paidThrough'')) = Some t \<and>
        (\<forall>input \<in> set (billingReconciliationProviderInputs r). \<exists>f. map_of fs (providerFactKey input) = Some f \<and>
           providerFactCovers input f (if rr_type r \<noteq> ''workspace''
             then stringValue (mget (rr_row r) ''providerResourceId'') else []) t)) \<and>
     (\<exists>receipt. filter (\<lambda>x. cr_ReceiptID x = stringValue (mget (rr_row r) ''lastReceiptId'')) (af_receipts facts) = [receipt] \<and>
        (if rr_type r = ''workspace'' then workspace_receipt_matches (rr_row r) (af_userID facts) receipt
         else resource_receipt_matches (rr_type r) (rr_row r) receipt))"

lemma resource_codes_Nil:
  assumes "resource_codes pfs facts r = []"
  shows "\<exists>fs. pfs = Inr fs \<and> \<not> af_historyError facts \<and> \<not> af_receiptError facts \<and> resource_backed fs facts r"
proof -
  have v: "validLocalBillingReconciliationFact (rr_type r) (rr_row r)"
    and h: "\<not> af_historyError facts" "sub2APIReconciliationCode (rr_row r) (af_userID facts) (af_history facts) = []"
    and f: "fabric_code pfs r = []"
    and l: "\<not> af_receiptError facts" "ledgerReconciliationCode (rr_type r) (rr_row r) (af_userID facts) (af_receipts facts) = []"
    using assms by (auto simp: resource_codes_alt split: if_splits)
  from fabric_code_Nil [OF f] obtain fs where "pfs = Inr fs"
    "\<exists>t. rfc3339_parse (stringValue (mget (rr_row r) ''paidThrough'')) = Some t \<and>
        (\<forall>input \<in> set (billingReconciliationProviderInputs r). \<exists>f. map_of fs (providerFactKey input) = Some f \<and>
           providerFactCovers input f (if rr_type r \<noteq> ''workspace''
             then stringValue (mget (rr_row r) ''providerResourceId'') else []) t)" by blast
  with v h l history_code_Nil [OF h(2)] ledger_code_Nil [OF l(2)] show ?thesis
    unfolding resource_backed_def by blast
qed

lemma load_account_facts_ok:
  assumes "\<not> af_historyError (load_account_facts src resources a)" and "\<not> af_receiptError (load_account_facts src resources a)"
  shows "sub2APIUserID (rs_accounts src) a = Inr (af_userID (load_account_facts src resources a)) \<and>
    rs_history src (af_userID (load_account_facts src resources a)) (account_codes resources a) =
      Inr (af_history (load_account_facts src resources a)) \<and>
    reconciliationLedgerReceipts (rs_receipts src) a = Inr (af_receipts (load_account_facts src resources a))"
  using assms by (auto simp: load_account_facts_def Let_def split: sum.splits prod.splits)

text \<open>
  C9: a report with status \<^verbatim>\<open>ok\<close> rests on evidence for every billed resource: the row is complete and its
  charge the sum of its parts, the Gateway's history has the used charge of exactly that amount by the
  user the account maps to, the provider's facts cover the paid period, and exactly one receipt of the
  account has the row's receipt identifier, and it agrees with the row.
\<close>

theorem green_report_is_backed:
  assumes "billingReconciliationReport src key = Inr report" and "mget report ''status'' = GStr ''ok''"
  shows "\<exists>resources. report_resources src = Inr resources \<and>
    (\<forall>r \<in> set resources. \<exists>fs facts.
       readProviderFacts (rs_facts src)
         (uniqueProviderFactInputs (concat (map billingReconciliationProviderInputs resources))) = Inr fs \<and>
       sub2APIUserID (rs_accounts src) (stringValue (mget (rr_row r) ''accountId'')) = Inr (af_userID facts) \<and>
       rs_history src (af_userID facts) (account_codes resources (stringValue (mget (rr_row r) ''accountId''))) =
         Inr (af_history facts) \<and>
       reconciliationLedgerReceipts (rs_receipts src) (stringValue (mget (rr_row r) ''accountId'')) = Inr (af_receipts facts) \<and>
       resource_backed fs facts r)"
proof -
  obtain resources rid where r: "report_resources src = Inr resources" "report = resources_report src rid resources"
    using assms(1) by (auto simp: billingReconciliationReport_def split: sum.splits)
  show ?thesis
  proof (intro exI [of _ resources] conjI ballI r(1))
    fix x assume x: "x \<in> set resources"
    let ?facts = "load_account_facts src resources (stringValue (mget (rr_row x) ''accountId''))"
    have "resource_codes (readProviderFacts (rs_facts src)
        (uniqueProviderFactInputs (concat (map billingReconciliationProviderInputs resources)))) ?facts x = []"
      using assms(2) x by (simp only: r(2) resources_report_status)
    from resource_codes_Nil [OF this] obtain fs where "readProviderFacts (rs_facts src)
        (uniqueProviderFactInputs (concat (map billingReconciliationProviderInputs resources))) = Inr fs"
      "\<not> af_historyError ?facts" "\<not> af_receiptError ?facts" "resource_backed fs ?facts x" by blast
    with load_account_facts_ok [of src resources "stringValue (mget (rr_row x) ''accountId'')"]
    show "\<exists>fs facts. readProviderFacts (rs_facts src)
         (uniqueProviderFactInputs (concat (map billingReconciliationProviderInputs resources))) = Inr fs \<and>
       sub2APIUserID (rs_accounts src) (stringValue (mget (rr_row x) ''accountId'')) = Inr (af_userID facts) \<and>
       rs_history src (af_userID facts) (account_codes resources (stringValue (mget (rr_row x) ''accountId''))) =
         Inr (af_history facts) \<and>
       reconciliationLedgerReceipts (rs_receipts src) (stringValue (mget (rr_row x) ''accountId'')) = Inr (af_receipts facts) \<and>
       resource_backed fs facts x" by blast
  qed
qed

section \<open>Which reports the ledger accepts\<close>

lemma exception_resources_total:
  "\<forall>e \<in> set es. exception_resource e \<noteq> None \<Longrightarrow> \<exists>rs. exception_resources es = Some rs"
  by (induction es) auto

lemma exception_item_normal:
  "exception_resource (json_normalize (exception_item x)) =
     (if rx_type x \<in> {''compute'', ''storage'', ''workspace''} \<and> isOpaqueReference (rx_id x) \<and>
         rx_code x \<in> set reconciliationExceptionCodes
      then Some (rx_type x @ byte 0 # rx_id x) else None)"
  by (simp add: exception_item_def exception_resource_def mget_def map_prod_def)

lemma report_keys_plain:
  "forbidden_key ''id'' = False" "forbidden_key ''status'' = False" "forbidden_key ''counts'' = False"
  "forbidden_key ''exceptions'' = False" "forbidden_key ''billingOperations'' = False" "forbidden_key ''matched'' = False"
  "forbidden_key ''resourceType'' = False" "forbidden_key ''resourceId'' = False" "forbidden_key ''code'' = False"
  by code_simp+

lemma report_scan: "json_scan forbidden_key (gomap_val (reconciliationReport rid checked matched xs)) = False"
  by (auto simp: reconciliationReport_def gomap_val_def report_keys_plain list_ex_iff exception_item_def)

lemma report_normal:
  fixes rid checked matched xs
  defines "report \<equiv> reconciliationReport rid checked matched xs"
  obtains kvs where "json_normalize (gomap_val report) = GObj kvs" "marshalable (gomap_val report)"
    "\<not> containsForbiddenJSONKey (GObj kvs)" "mget (Some kvs) ''id'' = GStr rid"
    "mget (Some kvs) ''status'' = GStr (if length xs > 0 then ''mismatch'' else ''ok'')"
    "mget (Some kvs) ''exceptions'' = GArr (map (\<lambda>x. json_normalize (exception_item x)) xs)"
proof -
  have wf: "wf_gomap report" by (simp add: report_def reconciliationReport_def wf_gomap_def)
  obtain rs where rs: "report = Some rs" by (simp add: report_def reconciliationReport_def)
  obtain kvs where kvs: "clone_map report = Some kvs" by (simp add: rs clone_map_Some)
  then have n: "json_normalize (gomap_val report) = GObj kvs"
    by (simp add: rs clone_map_Some gomap_val_def)
  have m: "marshalable (gomap_val report)"
    by (auto simp: report_def reconciliationReport_def gomap_val_def list_all_iff exception_item_def)
  have "\<not> containsForbiddenJSONKey (GObj kvs)"
    using report_scan [of rid checked matched xs]
    by (simp add: containsForbiddenJSONKey_def json_scan_iff key_within_normalize report_def flip: n)
  moreover have "mget (Some kvs) k = json_normalize (mget report k)" for k
    using mget_clone [OF wf, of k] by (simp add: kvs)
  ultimately show thesis
    using that [OF n m] by (simp add: report_def reconciliationReport_def mget_def comp_def)
qed

lemma report_accepted_iff:
  assumes "\<not> blank rid" and "0 \<le> matched"
    and "\<And>x. x \<in> set xs \<Longrightarrow> rx_type x \<in> {''compute'', ''storage'', ''workspace''} \<and> isOpaqueReference (rx_id x)"
    and "checked = matched + int (card ((\<lambda>x. rx_type x @ byte 0 # rx_id x) ` set xs))"
  shows "validateReconciliationReport (reconciliationReport rid checked matched xs) = None \<longleftrightarrow>
    (\<forall>x \<in> set xs. rx_code x \<in> set reconciliationExceptionCodes)" (is "?accepted \<longleftrightarrow> ?known")
proof
  let ?report = "reconciliationReport rid checked matched xs" and ?es = "map (\<lambda>x. json_normalize (exception_item x)) xs"
  obtain kvs where k: "json_normalize (gomap_val ?report) = GObj kvs" "marshalable (gomap_val ?report)"
    "\<not> containsForbiddenJSONKey (GObj kvs)" "mget (Some kvs) ''id'' = GStr rid"
    "mget (Some kvs) ''status'' = GStr (if length xs > 0 then ''mismatch'' else ''ok'')"
    "mget (Some kvs) ''exceptions'' = GArr ?es"
    by (rule report_normal)
  show ?known if ?accepted
  proof -
    from report_factsD [OF that] k(1,6) obtain rs where "exception_resources ?es = Some rs"
      by (auto simp: report_facts_def)
    then show ?thesis using exception_resources_distinct [of ?es rs] by (auto simp: exception_item_normal split: if_splits)
  qed
  show ?accepted if ?known
  proof -
    have e: "exception_resource (json_normalize (exception_item x)) = Some (rx_type x @ byte 0 # rx_id x)"
      if "x \<in> set xs" for x using \<open>?known\<close> assms(3) [OF that] that by (simp add: exception_item_normal)
    then obtain rs where rs: "exception_resources ?es = Some rs"
      using exception_resources_total [of ?es] by auto
    from exception_resources_distinct [OF rs] have "distinct rs" "set rs = (\<lambda>x. rx_type x @ byte 0 # rx_id x) ` set xs"
      using e by (auto simp: image_iff)
    then have "int (length rs) = int (card ((\<lambda>x. rx_type x @ byte 0 # rx_id x) ` set xs))"
      by (metis distinct_card)
    then have "report_facts ?report kvs rid (if length xs > 0 then ''mismatch'' else ''ok'')
        [(''billingOperations'', GInt KInt checked), (''matched'', GInt KInt matched), (''exceptions'', GInt KInt (int (length xs)))]
        ?es checked matched rs"
      using k rs assms(1,2,4) unfolding report_facts_def
      by (auto simp: reconciliationReport_def mget_def integerValue_def unsigned_kind_def)
    then show ?thesis by (rule report_factsI)
  qed
qed

definition report_codes :: "reconciliation_source \<Rightarrow> reconciliation_resource list \<Rightarrow> reconciliation_resource \<Rightarrow> string list" where
  "report_codes src resources r =
     resource_codes (readProviderFacts (rs_facts src)
         (uniqueProviderFactInputs (concat (map billingReconciliationProviderInputs resources))))
       (load_account_facts src resources (stringValue (mget (rr_row r) ''accountId''))) r"

definition report_exceptions :: "reconciliation_source \<Rightarrow> reconciliation_resource list \<Rightarrow> reconciliation_exception list" where
  "report_exceptions src resources =
     concat (map (\<lambda>r. map (newBillingReconciliationException r) (report_codes src resources r)) resources)"

lemma resources_report_alt:
  "resources_report src rid resources =
     reconciliationReport rid (int (length resources)) (int (length (filter (\<lambda>r. report_codes src resources r = []) resources)))
       (sort_key exception_key (report_exceptions src resources))"
  by (simp add: resources_report_def report_codes_def report_exceptions_def Let_def)

lemma report_resource_types:
  "report_resources src = Inr resources \<Longrightarrow> r \<in> set resources \<Longrightarrow> rr_type r \<in> {''compute'', ''storage'', ''workspace''}"
  by (auto simp: report_resources_def reconciliation_resources_def billed_rows_def Let_def split: sum.splits)

text \<open>The ledger's key of a resource separates the resources of a report.\<close>

lemma type_key_inj:
  assumes "k \<in> {''compute'', ''storage'', ''workspace''}" and "k' \<in> {''compute'', ''storage'', ''workspace''}"
    and "k @ byte 0 # i = k' @ byte 0 # i'"
  shows "k = k' \<and> i = i'"
  using assms by (auto simp: byte_def)

lemma exceptional_resources:
  assumes "distinct (map resource_key resources)" and "\<And>r. r \<in> set resources \<Longrightarrow> rr_type r \<in> {''compute'', ''storage'', ''workspace''}"
  shows "card ((\<lambda>x. rx_type x @ byte 0 # rx_id x) ` set (report_exceptions src resources)) =
    length (filter (\<lambda>r. report_codes src resources r \<noteq> []) resources)"
proof -
  let ?key = "\<lambda>r. rr_type r @ byte 0 # stringValue (mget (rr_row r) ''id'')"
    and ?bad = "filter (\<lambda>r. report_codes src resources r \<noteq> []) resources"
  have "(\<lambda>x. rx_type x @ byte 0 # rx_id x) ` set (report_exceptions src resources) = ?key ` set ?bad"
  proof -
    have "(\<lambda>x. rx_type x @ byte 0 # rx_id x) ` set (report_exceptions src resources) =
        (\<Union>r \<in> set resources. (\<lambda>_. ?key r) ` set (report_codes src resources r))"
      by (simp add: report_exceptions_def newBillingReconciliationException_def image_UN image_image)
    also have "\<dots> = ?key ` set ?bad" by (auto simp: image_constant_conv split: if_splits)
    finally show ?thesis .
  qed
  moreover have "inj_on ?key (set ?bad)"
  proof (rule inj_onI)
    fix x y assume x: "x \<in> set ?bad" and y: "y \<in> set ?bad" and e: "?key x = ?key y"
    then have m: "x \<in> set resources" "y \<in> set resources" by auto
    have "resource_key x = resource_key y"
      using type_key_inj [OF assms(2) [OF m(1)] assms(2) [OF m(2)] e] by (simp add: resource_key_def)
    with assms(1) m show "x = y" by (auto simp: distinct_map dest: inj_onD)
  qed
  moreover have "distinct ?bad" using assms(1) by (simp add: distinct_map)
  ultimately show ?thesis by (simp only: card_image distinct_card)
qed

lemma report_exception_facts:
  assumes "x \<in> set (report_exceptions src resources)"
  shows "\<exists>r \<in> set resources. rx_type x = rr_type r \<and> rx_id x = stringValue (mget (rr_row r) ''id'') \<and>
    rx_code x \<in> set (report_codes src resources r)"
  using assms by (auto simp: report_exceptions_def newBillingReconciliationException_def)

lemma reconciliation_id_not_blank: "\<not> blank (''reconciliation-'' @ s)"
proof -
  have "list_all (\<lambda>r. hd r \<noteq> CHR ''r'') space_runes" by code_simp
  from not_blank_Cons [OF this] show ?thesis by simp
qed

text \<open>
  C22: which reports the ledger accepts. The report of distinct resources with opaque identifiers passes
  the ledger's validation exactly when no resource has one of the three codes for the provider's facts:
  those codes are unknown to the ledger, so a report with a provider exception cannot be recorded.
\<close>

theorem report_accepted_unless_provider_exception:
  assumes "billingReconciliationReport src key = Inr report" and "report_resources src = Inr resources"
    and "distinct (map resource_key resources)"
    and "\<forall>r \<in> set resources. isOpaqueReference (stringValue (mget (rr_row r) ''id''))"
  shows "validateReconciliationReport report = None \<longleftrightarrow>
    (\<forall>r \<in> set resources. set (report_codes src resources r) \<inter> set fabric_codes = {})"
proof -
  let ?good = "filter (\<lambda>r. report_codes src resources r = []) resources"
    and ?xs = "sort_key exception_key (report_exceptions src resources)"
    and ?rid = "''reconciliation-'' @ take 18 (stableID (rs_sha1hex src) [key])"
  have report: "report = reconciliationReport ?rid (int (length resources)) (int (length ?good)) ?xs"
    using assms(1,2) by (simp add: billingReconciliationReport_def resources_report_alt)
  have types: "rr_type r \<in> {''compute'', ''storage'', ''workspace''}" if "r \<in> set resources" for r
    using report_resource_types [OF assms(2) that] .
  have "validateReconciliationReport report = None \<longleftrightarrow> (\<forall>x \<in> set ?xs. rx_code x \<in> set reconciliationExceptionCodes)"
    unfolding report
  proof (rule report_accepted_iff)
    show "\<not> blank ?rid" by (rule reconciliation_id_not_blank)
    fix x assume "x \<in> set ?xs"
    then show "rx_type x \<in> {''compute'', ''storage'', ''workspace''} \<and> isOpaqueReference (rx_id x)"
      using report_exception_facts [of x src resources] types assms(4) by (metis set_sort)
  next
    have "length resources = length ?good + length (filter (\<lambda>r. report_codes src resources r \<noteq> []) resources)"
      by (rule sum_length_filter_compl [symmetric])
    then show "int (length resources) = int (length ?good) + int (card ((\<lambda>x. rx_type x @ byte 0 # rx_id x) ` set ?xs))"
      using exceptional_resources [OF assms(3) types] by simp
  qed simp
  also have "\<dots> \<longleftrightarrow> (\<forall>r \<in> set resources. \<forall>c \<in> set (report_codes src resources r). c \<in> set reconciliationExceptionCodes)"
    by (fastforce simp: report_exceptions_def newBillingReconciliationException_def)
  also have "\<dots> \<longleftrightarrow> (\<forall>r \<in> set resources. set (report_codes src resources r) \<inter> set fabric_codes = {})"
    using resource_codes_known unfolding report_codes_def by blast
  finally show ?thesis .
qed

end
