(* ===== verification/Ledger_Paging.thy ===== *)
theory Ledger_Paging
  imports Ledger_Invariants
begin

text \<open>
  The Ledger's list operations as keyset pagers: \<^verbatim>\<open>ListReceipts\<close> and \<^verbatim>\<open>ListEvidenceIndex\<close> are
  interpreted in the locale \<open>keyset_list\<close>, and the loop of \<^verbatim>\<open>ExportEvidenceIndex\<close> is proved from it.
\<close>


section \<open>Pages of receipts\<close>

definition receipt_fetch :: "memory_store \<Rightarrow> cursor_codec \<times> receipt_query \<Rightarrow> string \<Rightarrow> ledger_error + receipt page" where
  "receipt_fetch s q c =
     (case ListReceipts (fst q) ((snd q)\<lparr>rq_Cursor := c\<rparr>) s of
        Inl err \<Rightarrow> Inl err
      | Inr p \<Rightarrow> Inr (rp_Receipts p, rp_NextCursor p, rp_HasMore p))"

definition receipt_limit :: "cursor_codec \<times> receipt_query \<Rightarrow> nat" where
  "receipt_limit q = (if rq_Limit (snd q) = 0 then 50 else nat (rq_Limit (snd q)))"

definition receipt_query_ok :: "memory_store \<Rightarrow> cursor_codec \<times> receipt_query \<Rightarrow> bool" where
  "receipt_query_ok s q \<longleftrightarrow>
     store_ok s \<and> codec_ok (fst q) \<and> 0 \<le> rq_Limit (snd q) \<and> rq_Limit (snd q) \<le> 100 \<and>
     (rq_Type (snd q) = [] \<or> rq_TypePrefix (snd q) = [])"

lemma stored_receipt:
  assumes "store_ok s" and "r \<in> set (map snd (ms_receipts s))"
  obtains k where "receipt_ok (ms_nextID s) k r"
proof -
  obtain k where "(k, r) \<in> set (ms_receipts s)" using assms(2) by auto
  then have "map_of (ms_receipts s) k = Some r" using store_okD(6) [OF assms(1)] by simp
  from that [OF store_okD(1) [OF assms(1) this]] show thesis .
qed

lemma clone_stored: "store_ok s \<Longrightarrow> r \<in> set (map snd (ms_receipts s)) \<Longrightarrow> clone_receipt r = r"
  by (erule stored_receipt, assumption) (simp add: receipt_ok_def)

lemma receipt_keys_distinct:
  assumes "store_ok s" shows "distinct (map receipt_key (map snd (ms_receipts s)))"
proof -
  have "map rc_ReceiptID (map snd (ms_receipts s)) = map fst (ms_receipts s)"
    using store_okD(1,6) [OF assms] by (auto simp: receipt_ok_def)
  then have "distinct (map rc_ReceiptID (map snd (ms_receipts s)))"
    using store_okD(6) [OF assms] by (simp only:)
  then have "distinct (map snd (map receipt_key (map snd (ms_receipts s))))"
    by (simp add: receipt_key_def comp_def)
  then show ?thesis unfolding distinct_map [of snd] by blast
qed

lemma after_cursor_key:
  "inst t \<noteq> 0 \<Longrightarrow> receipt_after_cursor (t, k) r \<longleftrightarrow> receipt_key r < (inst t, k)"
  by (auto simp: receipt_after_cursor_def receipt_key_def gotime_defs less_prod_def' not_le not_less)

lemma receipt_matches_cursor [simp]: "receipt_matches (q\<lparr>rq_Cursor := c\<rparr>) = receipt_matches q"
  "receipt_matches (q\<lparr>rq_Limit := l\<rparr>) = receipt_matches q"
  by (auto simp: receipt_matches_def fun_eq_iff)

lemma receipt_page_at:
  assumes ok: "receipt_query_ok s (cc, q)"
    and n: "normalizeReceiptQuery cc (q\<lparr>rq_Cursor := c\<rparr>) = Inr (q', cursor)"
    and sel: "\<And>r. receipt_after_cursor cursor r = P r"
  shows "receipt_fetch s (cc, q) c =
    Inr (page_of (encodeReceiptCursor cc) (receipt_limit (cc, q))
      (sort_desc receipt_key (filter (\<lambda>r. receipt_matches q r \<and> P r) (map snd (ms_receipts s)))))"
proof -
  have q': "receipt_matches q' = receipt_matches q" "nat (rq_Limit q') = receipt_limit (cc, q)" "0 < receipt_limit (cc, q)"
    using n ok unfolding normalizeReceiptQuery_def receipt_limit_def receipt_query_ok_def
    by (auto simp: Let_def DefaultReceiptPageSize_def split: if_splits option.splits)
  have "map clone_receipt (filter P (map snd (ms_receipts s))) = filter P (map snd (ms_receipts s))" for P
    using ok clone_stored [of s] by (intro map_idI) (simp add: receipt_query_ok_def)
  then show ?thesis
    by (simp add: receipt_fetch_def ListReceipts_def Let_def n sel q' page_of_cut)
qed

lemma ascii_id:
  assumes "ascii_text prefix" shows "ascii_text (prefix @ pad_text 6 m)"
proof -
  have "list_all (\<lambda>c. code c < 128) (nat_text m)"
    using digits_nat_text [of m] by (auto simp: list_all_iff is_digit_def)
  with assms show ?thesis by (auto simp: ascii_text_def pad_text_def code_def list_all_iff)
qed

lemma codec_okD:
  assumes "codec_ok cc" "time_marshalable t" "ascii_text k"
  obtains t' where "cc_encode cc t k \<noteq> []" "cc_decode cc (cc_encode cc t k) = Some (t', k)" "inst t' = inst t"
  using assms unfolding codec_ok_def by blast

lemma stored_cursor:
  assumes "receipt_query_ok s (cc, q)" and "r \<in> set (map snd (ms_receipts s))"
  obtains t where "encodeReceiptCursor cc r \<noteq> []" and "cc_decode cc (encodeReceiptCursor cc r) = Some (t, rc_ReceiptID r)"
    and "inst t = inst (rc_CreatedAt r)" and "inst t \<noteq> 0" and "rc_ReceiptID r \<noteq> []"
proof -
  have s: "store_ok s" and cc: "codec_ok cc"
    using assms by (auto simp: receipt_query_ok_def)
  obtain k where "receipt_ok (ms_nextID s) k r" using stored_receipt [OF s assms(2)] .
  then obtain m where k: "time_marshalable (rc_CreatedAt r)" "rc_ReceiptID r = ''receipt_'' @ pad_text 6 m"
      "inst (rc_CreatedAt r) \<noteq> 0"
    unfolding receipt_ok_def by auto
  moreover have "ascii_text (''receipt_'' @ pad_text 6 m)"
    by (rule ascii_id) (simp add: ascii_text_def code_def)
  ultimately show thesis
    using codec_okD [OF cc k(1), of "rc_ReceiptID r"] that unfolding encodeReceiptCursor_def by (metis append_is_Nil_conv list.distinct(1))
qed

interpretation receipt_pages: keyset_list receipt_fetch "\<lambda>s. map snd (ms_receipts s)" "\<lambda>q. receipt_matches (snd q)"
  receipt_key "\<lambda>q. encodeReceiptCursor (fst q)" receipt_limit receipt_query_ok
proof
  fix s q assume ok: "receipt_query_ok s q"
  obtain cc qq where q: "q = (cc, qq)" by (cases q)
  show "0 < receipt_limit q" using ok by (simp add: receipt_limit_def receipt_query_ok_def)
  show "distinct (map receipt_key (map snd (ms_receipts s)))"
    using ok receipt_keys_distinct by (simp add: receipt_query_ok_def)
  have "\<exists>q'. normalizeReceiptQuery cc (qq\<lparr>rq_Cursor := []\<rparr>) = Inr (q', zero_time, [])"
    using ok by (auto simp: q normalizeReceiptQuery_def receipt_query_ok_def Let_def DefaultReceiptPageSize_def MaxReceiptPageSize_def)
  then show "receipt_fetch s q [] = Inr (page_of (encodeReceiptCursor (fst q)) (receipt_limit q)
      (sort_desc receipt_key (filter (receipt_matches (snd q)) (map snd (ms_receipts s)))))"
    using receipt_page_at [OF ok [unfolded q], of "[]" _ "(zero_time, [])" "\<lambda>_. True"]
    by (auto simp: q receipt_after_cursor_def gotime_defs)
  fix e assume e: "e \<in> set (map snd (ms_receipts s))"
  obtain t where t: "encodeReceiptCursor cc e \<noteq> []" "cc_decode cc (encodeReceiptCursor cc e) = Some (t, rc_ReceiptID e)"
      "inst t = inst (rc_CreatedAt e)" "inst t \<noteq> 0" "rc_ReceiptID e \<noteq> []"
    by (rule stored_cursor [OF ok [unfolded q] e])
  then show "encodeReceiptCursor (fst q) e \<noteq> []" by (simp add: q)
  have "\<exists>q'. normalizeReceiptQuery cc (qq\<lparr>rq_Cursor := encodeReceiptCursor cc e\<rparr>) = Inr (q', t, rc_ReceiptID e)"
    using ok t by (auto simp: q normalizeReceiptQuery_def receipt_query_ok_def Let_def DefaultReceiptPageSize_def
        MaxReceiptPageSize_def gotime_defs)
  moreover have "receipt_after_cursor (t, rc_ReceiptID e) r \<longleftrightarrow> receipt_key r < receipt_key e" for r
    using t(3,4) after_cursor_key by (simp add: receipt_key_def [of e])
  ultimately show "receipt_fetch s q (encodeReceiptCursor (fst q) e) = Inr (page_of (encodeReceiptCursor (fst q)) (receipt_limit q)
      (sort_desc receipt_key (filter (\<lambda>x. receipt_matches (snd q) x \<and> receipt_key x < receipt_key e) (map snd (ms_receipts s)))))"
    using receipt_page_at [OF ok [unfolded q], of _ _ "(t, rc_ReceiptID e)" "\<lambda>r. receipt_key r < receipt_key e"]
    by (auto simp: q)
  fix e' assume e': "e' \<in> set (map snd (ms_receipts s))" "encodeReceiptCursor (fst q) e = encodeReceiptCursor (fst q) e'"
  show "receipt_key e = receipt_key e'"
    by (rule stored_cursor [OF ok [unfolded q] e'(1)]) (use t e'(2) in \<open>auto simp: q receipt_key_def\<close>)
qed

section \<open>Pages of the evidence index\<close>

definition evidence_fetch :: "memory_store \<Rightarrow> cursor_codec \<times> evidence_query \<Rightarrow> string \<Rightarrow> ledger_error + evidence_entry page" where
  "evidence_fetch s q c =
     (case ListEvidenceIndex (fst q) ((snd q)\<lparr>eq_Cursor := c\<rparr>) s of
        Inl err \<Rightarrow> Inl err
      | Inr p \<Rightarrow> Inr (ep_Entries p, ep_NextCursor p, ep_HasMore p))"

definition evidence_limit :: "cursor_codec \<times> evidence_query \<Rightarrow> nat" where
  "evidence_limit q = (if eq_Limit (snd q) = 0 then 100 else nat (eq_Limit (snd q)))"

definition evidence_query_ok :: "memory_store \<Rightarrow> cursor_codec \<times> evidence_query \<Rightarrow> bool" where
  "evidence_query_ok s q \<longleftrightarrow>
     store_ok s \<and> codec_ok (fst q) \<and> 0 \<le> eq_Limit (snd q) \<and> eq_Limit (snd q) \<le> 500"

lemma stored_evidence:
  assumes "store_ok s" and "e \<in> set (map snd (ms_evidenceIndex s))"
  obtains k where "evidence_ok (ms_nextID s) k e"
proof -
  obtain k where "(k, e) \<in> set (ms_evidenceIndex s)" using assms(2) by auto
  then have "map_of (ms_evidenceIndex s) k = Some e" using store_okD(7) [OF assms(1)] by simp
  from that [OF store_okD(2) [OF assms(1) this]] show thesis .
qed

lemma clone_stored_evidence: "store_ok s \<Longrightarrow> e \<in> set (map snd (ms_evidenceIndex s)) \<Longrightarrow> clone_evidence e = e"
  by (erule stored_evidence, assumption) (simp add: evidence_ok_def)

lemma evidence_keys_distinct:
  assumes "store_ok s" shows "distinct (map evidence_key (map snd (ms_evidenceIndex s)))"
proof -
  have "map ee_EvidenceID (map snd (ms_evidenceIndex s)) = map fst (ms_evidenceIndex s)"
    using store_okD(2,7) [OF assms] by (auto simp: evidence_ok_def)
  then have "distinct (map ee_EvidenceID (map snd (ms_evidenceIndex s)))"
    using store_okD(7) [OF assms] by (simp only:)
  then have "distinct (map snd (map evidence_key (map snd (ms_evidenceIndex s))))"
    by (simp add: evidence_key_def comp_def)
  then show ?thesis unfolding distinct_map [of snd] by blast
qed

lemma evidence_after_key:
  "inst t \<noteq> 0 \<Longrightarrow> evidence_after_cursor (t, k) e \<longleftrightarrow> evidence_key e < (inst t, k)"
  by (auto simp: evidence_after_cursor_def evidence_key_def gotime_defs less_prod_def' not_le not_less)

lemma evidence_matches_cursor [simp]: "evidence_matches (q\<lparr>eq_Cursor := c\<rparr>) = evidence_matches q"
  "evidence_matches (q\<lparr>eq_Limit := l\<rparr>) = evidence_matches q"
  by (auto simp: evidence_matches_def fun_eq_iff)

lemma evidence_page_at:
  assumes ok: "evidence_query_ok s (cc, q)"
    and n: "normalizeEvidenceIndexQuery cc (q\<lparr>eq_Cursor := c\<rparr>) = Inr (q', cursor)"
    and sel: "\<And>e. evidence_after_cursor cursor e = P e"
  shows "evidence_fetch s (cc, q) c =
    Inr (page_of (encodeEvidenceIndexCursor cc) (evidence_limit (cc, q))
      (sort_desc evidence_key (filter (\<lambda>e. evidence_matches q e \<and> P e) (map snd (ms_evidenceIndex s)))))"
proof -
  have q': "evidence_matches q' = evidence_matches q" "nat (eq_Limit q') = evidence_limit (cc, q)" "0 < evidence_limit (cc, q)"
    using n ok unfolding normalizeEvidenceIndexQuery_def evidence_limit_def evidence_query_ok_def
    by (auto simp: Let_def DefaultEvidenceIndexPageSize_def split: if_splits option.splits)
  have "map clone_evidence (filter P (map snd (ms_evidenceIndex s))) = filter P (map snd (ms_evidenceIndex s))" for P
    using ok clone_stored_evidence [of s] by (intro map_idI) (simp add: evidence_query_ok_def)
  then show ?thesis
    by (simp add: evidence_fetch_def ListEvidenceIndex_def Let_def n sel q' page_of_cut)
qed

lemma evidence_cursor:
  assumes "evidence_query_ok s (cc, q)" and "e \<in> set (map snd (ms_evidenceIndex s))"
  obtains t where "encodeEvidenceIndexCursor cc e \<noteq> []"
    and "cc_decode cc (encodeEvidenceIndexCursor cc e) = Some (t, ee_EvidenceID e)"
    and "inst t = inst (ei_ObservedAt (ee_Input e))" and "inst t \<noteq> 0" and "ee_EvidenceID e \<noteq> []"
proof -
  have s: "store_ok s" and cc: "codec_ok cc"
    using assms by (auto simp: evidence_query_ok_def)
  obtain k where "evidence_ok (ms_nextID s) k e" using stored_evidence [OF s assms(2)] .
  then obtain m where k: "time_marshalable (ei_ObservedAt (ee_Input e))" "ee_EvidenceID e = ''evidence_'' @ pad_text 6 m"
      "inst (ei_ObservedAt (ee_Input e)) \<noteq> 0"
    unfolding evidence_ok_def by (auto simp: is_zero_def)
  moreover have "ascii_text (''evidence_'' @ pad_text 6 m)"
    by (rule ascii_id) (simp add: ascii_text_def code_def)
  ultimately show thesis
    using codec_okD [OF cc k(1), of "ee_EvidenceID e"] that unfolding encodeEvidenceIndexCursor_def
    by (metis append_is_Nil_conv list.distinct(1))
qed

interpretation evidence_pages: keyset_list evidence_fetch "\<lambda>s. map snd (ms_evidenceIndex s)" "\<lambda>q. evidence_matches (snd q)"
  evidence_key "\<lambda>q. encodeEvidenceIndexCursor (fst q)" evidence_limit evidence_query_ok
proof
  fix s q assume ok: "evidence_query_ok s q"
  obtain cc qq where q: "q = (cc, qq)" by (cases q)
  show "0 < evidence_limit q" using ok by (simp add: evidence_limit_def evidence_query_ok_def)
  show "distinct (map evidence_key (map snd (ms_evidenceIndex s)))"
    using ok evidence_keys_distinct by (simp add: evidence_query_ok_def)
  have "\<exists>q'. normalizeEvidenceIndexQuery cc (qq\<lparr>eq_Cursor := []\<rparr>) = Inr (q', zero_time, [])"
    using ok by (auto simp: q normalizeEvidenceIndexQuery_def evidence_query_ok_def Let_def
        DefaultEvidenceIndexPageSize_def MaxEvidenceIndexPageSize_def)
  then show "evidence_fetch s q [] = Inr (page_of (encodeEvidenceIndexCursor (fst q)) (evidence_limit q)
      (sort_desc evidence_key (filter (evidence_matches (snd q)) (map snd (ms_evidenceIndex s)))))"
    using evidence_page_at [OF ok [unfolded q], of "[]" _ "(zero_time, [])" "\<lambda>_. True"]
    by (auto simp: q evidence_after_cursor_def gotime_defs)
  fix e assume e: "e \<in> set (map snd (ms_evidenceIndex s))"
  obtain t where t: "encodeEvidenceIndexCursor cc e \<noteq> []"
      "cc_decode cc (encodeEvidenceIndexCursor cc e) = Some (t, ee_EvidenceID e)"
      "inst t = inst (ei_ObservedAt (ee_Input e))" "inst t \<noteq> 0" "ee_EvidenceID e \<noteq> []"
    by (rule evidence_cursor [OF ok [unfolded q] e])
  then show "encodeEvidenceIndexCursor (fst q) e \<noteq> []" by (simp add: q)
  have "\<exists>q'. normalizeEvidenceIndexQuery cc (qq\<lparr>eq_Cursor := encodeEvidenceIndexCursor cc e\<rparr>) = Inr (q', t, ee_EvidenceID e)"
    using ok t by (auto simp: q normalizeEvidenceIndexQuery_def evidence_query_ok_def Let_def
        DefaultEvidenceIndexPageSize_def MaxEvidenceIndexPageSize_def gotime_defs)
  moreover have "evidence_after_cursor (t, ee_EvidenceID e) r \<longleftrightarrow> evidence_key r < evidence_key e" for r
    using t(3,4) evidence_after_key by (simp add: evidence_key_def [of e])
  ultimately show "evidence_fetch s q (encodeEvidenceIndexCursor (fst q) e) =
      Inr (page_of (encodeEvidenceIndexCursor (fst q)) (evidence_limit q)
        (sort_desc evidence_key (filter (\<lambda>x. evidence_matches (snd q) x \<and> evidence_key x < evidence_key e) (map snd (ms_evidenceIndex s)))))"
    using evidence_page_at [OF ok [unfolded q], of _ _ "(t, ee_EvidenceID e)" "\<lambda>r. evidence_key r < evidence_key e"]
    by (auto simp: q)
  fix e' assume e': "e' \<in> set (map snd (ms_evidenceIndex s))" "encodeEvidenceIndexCursor (fst q) e = encodeEvidenceIndexCursor (fst q) e'"
  show "evidence_key e = evidence_key e'"
    by (rule evidence_cursor [OF ok [unfolded q] e'(1)]) (use t e'(2) in \<open>auto simp: q evidence_key_def\<close>)
qed

definition evidence_entries :: "evidence_query \<Rightarrow> memory_store \<Rightarrow> evidence_entry list" where
  "evidence_entries query s = sort_desc evidence_key (filter (evidence_matches query) (map snd (ms_evidenceIndex s)))"

definition export_result :: "evidence_entry list \<Rightarrow> ledger_error + evidence_export" where
  "export_result es =
     (if length es \<le> 5000 then Inr \<lparr>ex_SchemaVersion = 1, ex_Entries = es\<rparr> else Inl ErrEvidenceIndexExportTooLarge)"

lemma export_loop_from:
  assumes ok: "evidence_query_ok s (cc, query)" and limit: "eq_Limit query = 500"
    and k: "k < 10" "10 - k \<le> fuel" and n: "k = 0 \<or> 500 * k < length (evidence_entries query s)"
  shows "export_loop fuel cc
      (query\<lparr>eq_Cursor := cursor_at (encodeEvidenceIndexCursor cc) (evidence_entries query s) (500 * k)\<rparr>)
      (take (500 * k) (evidence_entries query s)) s = Some (export_result (evidence_entries query s))"
  using k n
proof (induction fuel arbitrary: k)
  case 0
  then show ?case by simp
next
  case (Suc fuel)
  let ?es = "evidence_entries query s" and ?c = "cursor_at (encodeEvidenceIndexCursor cc) (evidence_entries query s)"
  have le: "500 * k \<le> length ?es" using Suc.prems(3) by auto
  have "evidence_fetch s (cc, query) (?c (500 * k)) =
      Inr (take 500 (drop (500 * k) ?es), if 500 * k + 500 < length ?es then ?c (500 * k + 500) else [], 500 * k + 500 < length ?es)"
    using evidence_pages.pages.fetch_at [OF ok, of "500 * k"] le
    by (simp add: evidence_entries_def evidence_limit_def limit)
  then obtain p where p: "ListEvidenceIndex cc (query\<lparr>eq_Cursor := ?c (500 * k)\<rparr>) s = Inr p"
      "ep_Entries p = take 500 (drop (500 * k) ?es)" "ep_HasMore p = (500 * k + 500 < length ?es)"
      "500 * k + 500 < length ?es \<Longrightarrow> ep_NextCursor p = ?c (500 * Suc k)"
    by (auto simp: evidence_fetch_def add.commute split: sum.splits)
  have acc: "take (500 * k) ?es @ ep_Entries p = take (500 * Suc k) ?es"
    by (simp add: p(2) take_add [symmetric] add.commute)
  show ?case
  proof (cases "500 * Suc k < length ?es")
    case False
    then show ?thesis using p acc Suc.prems(1) by (simp add: export_result_def Let_def)
  next
    case True
    show ?thesis
    proof (cases "Suc k = 10")
      case ten: True
      then show ?thesis
        using p True acc by (simp add: export_result_def Let_def MaxEvidenceIndexExportSize_def)
    next
      case False
      then have "Suc k < 10" "10 - Suc k \<le> fuel" using Suc.prems by auto
      from Suc.IH [OF this] True p acc \<open>Suc k < 10\<close> show ?thesis
        by (simp add: Let_def MaxEvidenceIndexExportSize_def)
    qed
  qed
qed

section \<open>Properties of the pages\<close>

definition receipt_entries :: "receipt_query \<Rightarrow> memory_store \<Rightarrow> receipt list" where
  "receipt_entries query s = sort_desc receipt_key (filter (receipt_matches query) (map snd (ms_receipts s)))"

text \<open>
  C18: the pages of a receipt query tile the list of the receipts that match, newest first: the page at
  the cursor of position \<open>n\<close> holds the next \<open>limit\<close> receipts, says whether more follow, and its cursor is
  the one of position \<open>n + limit\<close>. No receipt is skipped and none is shown twice.
\<close>

theorem receipt_pages_tile:
  assumes "ledger_reachable d u s" and "codec_ok cc" and "1 \<le> rq_Limit query" and "rq_Limit query \<le> 100"
    and "rq_Type query = [] \<or> rq_TypePrefix query = []" and "n \<le> length (receipt_entries query s)"
  shows "ListReceipts cc (query\<lparr>rq_Cursor := cursor_at (encodeReceiptCursor cc) (receipt_entries query s) n\<rparr>) s =
    Inr \<lparr>rp_Receipts = take (nat (rq_Limit query)) (drop n (receipt_entries query s)),
         rp_NextCursor = (if n + nat (rq_Limit query) < length (receipt_entries query s)
           then cursor_at (encodeReceiptCursor cc) (receipt_entries query s) (n + nat (rq_Limit query)) else []),
         rp_HasMore = (n + nat (rq_Limit query) < length (receipt_entries query s))\<rparr>"
proof -
  have "receipt_query_ok s (cc, query)"
    using assms(2-5) reachable_store_ok [OF assms(1)] by (auto simp: receipt_query_ok_def)
  from receipt_pages.pages.fetch_at [OF this, of n] assms(3,6) show ?thesis
    by (auto simp: receipt_fetch_def receipt_entries_def receipt_limit_def split: sum.splits)
qed

text \<open>
  C19: the evidence export reads every matching entry exactly once and in order when there are at most
  5000, and refuses with the size error otherwise; ten pages always suffice, so the loop ends.
\<close>

theorem evidence_export_complete:
  assumes "ledger_reachable d u s" and "codec_ok cc" and "10 \<le> fuel"
  shows "ExportEvidenceIndex fuel cc query s =
    Some (if length (evidence_entries query s) \<le> 5000
          then Inr \<lparr>ex_SchemaVersion = 1, ex_Entries = evidence_entries query s\<rparr>
          else Inl ErrEvidenceIndexExportTooLarge)"
proof -
  let ?q = "query\<lparr>eq_Limit := 500\<rparr>"
  have ok: "evidence_query_ok s (cc, ?q)"
    using assms(2) reachable_store_ok [OF assms(1)] by (simp add: evidence_query_ok_def)
  have q: "query\<lparr>eq_Cursor := [], eq_Limit := 500\<rparr> = query\<lparr>eq_Limit := 500, eq_Cursor := []\<rparr>" by simp
  show ?thesis
    using export_loop_from [OF ok, of 0 fuel] assms(3)
    unfolding ExportEvidenceIndex_def MaxEvidenceIndexPageSize_def q
    by (simp add: cursor_at_def export_result_def evidence_entries_def)
qed

end
