(* ===== verification/Ledger_Client.thy ===== *)
theory Ledger_Client
  imports Ledger_Http Reconciliation Ledger_Paging
begin

text \<open>
  The control plane's client of the ledger (\<^verbatim>\<open>services/control-plane/internal/clients/ledger.go\<close>): the
  capability it signs for a request, the requests for recording and listing receipts, and the receipts
  it decodes from an answer. The transport delivers a request and its answer unchanged; base64 and the JSON
  encoders are parameters, collected with the decoders of the server.
\<close>

section \<open>Signing\<close>

record client_codec =
  ck_server :: http_codec \<comment> \<open>the hashes and decoders both sides share\<close>
  ck_base64 :: "string \<Rightarrow> string" \<comment> \<open>\<^verbatim>\<open>base64.RawURLEncoding.EncodeToString\<close>\<close>
  ck_claims :: "capability_claims \<Rightarrow> string" \<comment> \<open>\<^verbatim>\<open>json.Marshal\<close> of the claims\<close>
  ck_receipt :: "receipt_input \<Rightarrow> string"
  ck_float :: "gofloat \<Rightarrow> string" \<comment> \<open>the JSON literal of a float\<close>
  ck_page_size :: "receipt_page \<Rightarrow> nat" \<comment> \<open>the bytes of an encoded page\<close>

definition signed_claims :: "client_codec \<Rightarrow> capability_scope \<Rightarrow> string \<Rightarrow> gotime \<Rightarrow> capability_claims" where
  "signed_claims c scope body now =
     \<lparr>cl_Version = 1, cl_Caller = ''control-plane'', cl_AccountID = sc_AccountID scope, cl_WorkspaceID = sc_WorkspaceID scope,
      cl_ResourceKind = sc_ResourceKind scope, cl_ResourceID = sc_ResourceID scope, cl_Action = sc_Action scope,
      cl_OperationID = sc_OperationID scope, cl_ExpiresAt = unix_seconds (GoTime (inst now + 60000000000) (zone now)),
      cl_BodySHA256 = hx_sha256hex (ck_server c) body\<rparr>"

definition signLedgerCapability :: "client_codec \<Rightarrow> string \<Rightarrow> capability_scope \<Rightarrow> string \<Rightarrow> gotime \<Rightarrow> string" where
  "signLedgerCapability c key scope body now =
     (if key = [] then []
      else
        (let encoded = ck_base64 c (ck_claims c (signed_claims c scope body now))
         in encoded @ CHR ''.'' # ck_base64 c (hx_hmac (ck_server c) key encoded)))"

text \<open>
  The kind, identifier and action of a request come from its path: for the paths used here, those of the
  receipts, with or without a query.
\<close>

definition ledgerResourceKind :: "string list \<Rightarrow> bool \<Rightarrow> string" where
  "ledgerResourceKind parts queried =
     (if length parts < 2 \<or> parts ! 0 \<noteq> ''ledger'' then []
      else if parts ! 1 = ''reconciliation'' then ''reconciliation''
      else if parts ! 1 = ''receipts'' then (if length parts = 2 \<and> queried then ''receipt_collection'' else ''receipt'')
      else [])"

definition ledgerAction :: "string list \<Rightarrow> bool \<Rightarrow> string" where
  "ledgerAction parts queried =
     (if length parts < 2 \<or> parts ! 0 \<noteq> ''ledger'' then []
      else if parts ! 1 = ''reconciliation'' then ''record_reconciliation''
      else if parts ! 1 = ''receipts'' then
        (if length parts = 2 \<and> queried then ''list_receipts''
         else if length parts > 2 then ''read_receipt'' else ''record_receipt'')
      else [])"

text \<open>The owner of a posted value is read from the value and, where present, from its JSON object.\<close>

definition ledgerClientScopeFromInput :: "client_codec \<Rightarrow> string list \<Rightarrow> receipt_input \<Rightarrow> string \<Rightarrow> string \<Rightarrow> capability_scope" where
  "ledgerClientScopeFromInput c parts input body operationID =
     (let field = (\<lambda>name fallback. case hx_object (ck_server c) body of
             None \<Rightarrow> fallback
           | Some obj \<Rightarrow> (case as_str (mget obj name) of None \<Rightarrow> fallback | Some s \<Rightarrow> s))
      in \<lparr>sc_AccountID = field ''accountId'' (ri_AccountID input), sc_WorkspaceID = field ''workspaceId'' (ri_WorkspaceID input),
          sc_ResourceKind = ledgerResourceKind parts False, sc_ResourceID = operationID, sc_Action = ledgerAction parts False,
          sc_OperationID = operationID\<rparr>)"

definition client_header :: "string \<Rightarrow> string \<Rightarrow> string \<Rightarrow> string \<Rightarrow> string" where
  "client_header token idempotencyKey capability name =
     (if name = ''Authorization'' then ''Bearer '' @ token
      else if name = ''Idempotency-Key'' then idempotencyKey
      else if name = ledgerCapabilityHeader then capability
      else [])"

section \<open>Requests\<close>

record ledger_client =
  lc_codec :: client_codec
  lc_token :: string
  lc_capabilityKey :: string

definition record_receipt_request :: "ledger_client \<Rightarrow> receipt_input \<Rightarrow> string \<Rightarrow> gotime \<Rightarrow> http_request" where
  "record_receipt_request lc input idempotencyKey now =
     (let body = ck_receipt (lc_codec lc) input; parts = [''ledger'', ''receipts''];
          scope = ledgerClientScopeFromInput (lc_codec lc) parts input body idempotencyKey
      in \<lparr>hr_Method = ''POST'', hr_Path = ''/ledger/receipts'', hr_Segments = parts, hr_URI = ''/ledger/receipts'',
          hr_Query = (\<lambda>_. []),
          hr_Header = client_header (lc_token lc) idempotencyKey
            (signLedgerCapability (lc_codec lc) (lc_capabilityKey lc) scope body now),
          hr_Body = body\<rparr>)"

definition list_values :: "client_receipt_query \<Rightarrow> string \<Rightarrow> string" where
  "list_values query name =
     (if name = ''accountId'' then cq_AccountID query
      else if name = ''limit'' then int_text (cq_Limit query)
      else if name = ''typePrefix'' then cq_TypePrefix query
      else if name = ''cursor'' then cq_Cursor query
      else [])"

text \<open>The escaped text of the query is a parameter: it only enters the digest of the request.\<close>

definition list_receipts_request :: "ledger_client \<Rightarrow> (client_receipt_query \<Rightarrow> string) \<Rightarrow> client_receipt_query \<Rightarrow> gotime \<Rightarrow> http_request" where
  "list_receipts_request lc encode query now =
     (let uri = ''/ledger/receipts?'' @ encode query; parts = [''ledger'', ''receipts''];
          scope = \<lparr>sc_AccountID = cq_AccountID query, sc_WorkspaceID = [], sc_ResourceKind = ledgerResourceKind parts True,
            sc_ResourceID = cq_AccountID query, sc_Action = ledgerAction parts True,
            sc_OperationID = ''request:'' @ hx_sha256hex (ck_server (lc_codec lc)) (''GET '' @ uri)\<rparr>
      in \<lparr>hr_Method = ''GET'', hr_Path = ''/ledger/receipts'', hr_Segments = parts, hr_URI = uri,
          hr_Query = list_values query,
          hr_Header = client_header (lc_token lc) []
            (signLedgerCapability (lc_codec lc) (lc_capabilityKey lc) scope [] now),
          hr_Body = []\<rparr>)"

section \<open>Answers\<close>

text \<open>
  A value as the client decodes it: numbers are literals (\<^verbatim>\<open>UseNumber\<close>). An empty map is left out of the
  answer.
\<close>

primrec wire_value :: "(gofloat \<Rightarrow> string) \<Rightarrow> goval \<Rightarrow> goval" where
  "wire_value ft GNil = GNil"
| "wire_value ft (GBool b) = GBool b"
| "wire_value ft (GStr s) = GStr s"
| "wire_value ft (GNum s) = GNum s"
| "wire_value ft (GInt k i) = GNum (int_text i)"
| "wire_value ft (GFloat k f) = GNum (ft f)"
| "wire_value ft (GArr vs) = GArr (map (wire_value ft) vs)"
| "wire_value ft (GObj kvs) = GObj (map (map_prod id (wire_value ft)) kvs)"

definition wire_map :: "(gofloat \<Rightarrow> string) \<Rightarrow> gomap \<Rightarrow> gomap" where
  "wire_map ft m = (if mlen m = 0 then None else map_option (map (map_prod id (wire_value ft))) (clone_map m))"

definition wire_receipt :: "(gofloat \<Rightarrow> string) \<Rightarrow> receipt \<Rightarrow> client_receipt" where
  "wire_receipt ft r =
     (let i = rc_Input r in
      \<lparr>cr_ReceiptID = rc_ReceiptID r, cr_Type = ri_Type i, cr_Status = ri_Status i, cr_AccountID = ri_AccountID i,
       cr_WorkspaceID = ri_WorkspaceID i, cr_RequestID = ri_RequestID i, cr_Cost = wire_map ft (ri_Cost i)\<rparr>)"

definition maxLedgerResponseBytes :: nat where
  "maxLedgerResponseBytes = 1048576"

text \<open>
  \<^verbatim>\<open>ListReceipts\<close> of the client against a server and its store: the clocks are those of signing, of the
  server's check and of its handler.
\<close>

definition client_ListReceipts ::
    "ledger_client \<Rightarrow> (client_receipt_query \<Rightarrow> string) \<Rightarrow> ledger_server \<Rightarrow> gotime \<times> gotime \<times> (gotime \<times> gotime) \<Rightarrow> memory_store \<Rightarrow>
     client_receipt_query \<Rightarrow> string + client_receipt_page" where
  "client_ListReceipts lc encode sv clocks s query =
     (let query = (if cq_Limit query = 0 then query\<lparr>cq_Limit := 50\<rparr> else query) in
      if cq_Limit query < 1 \<or> cq_Limit query > 100 then Inl ''ledger receipt limit must be between 1 and 100''
      else
        (case fst (authorizeLedgerRequests sv (fst (snd clocks)) (snd (snd clocks)) (list_receipts_request lc encode query (fst clocks)) s) of
           (status, AnsReceiptPage p) \<Rightarrow>
             if status < 200 \<or> status \<ge> 300 then Inl ''ledger request failed''
             else if ck_page_size (lc_codec lc) p > maxLedgerResponseBytes then Inl ''ledger response too large''
             else Inr \<lparr>cp_Receipts = map (wire_receipt (ck_float (lc_codec lc))) (rp_Receipts p), cp_NextCursor = rp_NextCursor p, cp_HasMore = rp_HasMore p\<rparr>
         | _ \<Rightarrow> Inl ''ledger request failed''))"

section \<open>The server accepts what the client signs\<close>

text \<open>What the encoders promise: decoding inverts encoding, and an encoded text has no period.\<close>

definition client_codec_ok :: "client_codec \<Rightarrow> bool" where
  "client_codec_ok c \<longleftrightarrow>
     (\<forall>s. hx_base64 (ck_server c) (ck_base64 c s) = Some s \<and> CHR ''.'' \<notin> set (ck_base64 c s)) \<and>
     (\<forall>claims. hx_claims (ck_server c) (ck_claims c claims) = Some claims)"

text \<open>The server's clock is at most a minute away from the client's, in whole seconds.\<close>

definition clocks_agree :: "gotime \<Rightarrow> gotime \<Rightarrow> bool" where
  "clocks_agree signed asked \<longleftrightarrow> unix_seconds asked < unix_seconds signed + 60 \<and> unix_seconds signed \<le> unix_seconds asked + 60"

lemma unix_minute: "unix_seconds (GoTime (inst t + 60000000000) z) = unix_seconds t + 60"
  using div_mult_self1 [of "1000000000 :: int" "inst t" 60] by (simp add: unix_seconds_def)

lemma preverify_signed:
  assumes "client_codec_ok c" and "key \<noteq> []" and "clocks_agree signed asked"
    and "sc_ResourceKind scope = sc_ResourceKind expected" and "sc_ResourceID scope = sc_ResourceID expected"
    and "sc_Action scope = sc_Action expected" and "sc_OperationID scope = sc_OperationID expected"
  shows "preverifyLedgerCapability (ck_server c) (signLedgerCapability c key scope body signed) key expected body (t_utc asked) =
    Some (signed_claims c scope body signed)"
proof -
  let ?encoded = "ck_base64 c (ck_claims c (signed_claims c scope body signed))"
  let ?sig = "ck_base64 c (hx_hmac (ck_server c) key ?encoded)"
  have "split_char (CHR ''.'') (?encoded @ CHR ''.'' # ?sig) = [?encoded, ?sig]"
    using assms(1) by (simp add: client_codec_ok_def split_char_app split_char_none)
  with assms show ?thesis
    unfolding preverify_Some
    by (simp add: signLedgerCapability_def Let_def client_codec_ok_def signed_claims_def unix_minute clocks_agree_def)
      (simp add: unix_seconds_def gotime_defs)
qed

lemma signed_request_served:
  assumes "hr_Header r ''Authorization'' = ''Bearer '' @ sv_token sv" and "sv_token sv \<noteq> []"
    and "length (hr_Body r) \<le> maxJSONBodyBytes"
    and "sv_capabilityKey sv \<noteq> [] \<Longrightarrow> ledgerCapabilityScopeForRequest (sv_codec sv) r (hr_Body r) = Some scope \<and>
      preverifyLedgerCapability (sv_codec sv) (hr_Header r ledgerCapabilityHeader) (sv_capabilityKey sv) scope (hr_Body r) (t_utc asked) = Some claims \<and>
      enrichLedgerOwnerScope r s scope = Some owner \<and> ledgerOwnerClaimsMatch claims owner"
  shows "authorizeLedgerRequests sv asked now r s = route sv now r s"
  using assms by (cases "sv_capabilityKey sv = []") (simp_all add: authorizeLedgerRequests_def authenticate_def)

definition client_of :: "ledger_client \<Rightarrow> ledger_server \<Rightarrow> bool" where
  "client_of lc sv \<longleftrightarrow> lc_token lc = sv_token sv \<and> sv_token sv \<noteq> [] \<and> lc_capabilityKey lc = sv_capabilityKey sv \<and>
     ck_server (lc_codec lc) = sv_codec sv \<and> client_codec_ok (lc_codec lc)"

lemma collection_parts: "split_char (CHR ''/'') (trim_slashes ''/ledger/receipts'') = [''ledger'', ''receipts'']"
  by code_simp

lemma header_names:
  "client_header token key capability ''Authorization'' = ''Bearer '' @ token"
  "client_header token key capability ''Idempotency-Key'' = key"
  "client_header token key capability ledgerCapabilityHeader = capability"
  by (simp_all add: client_header_def ledgerCapabilityHeader_def)

text \<open>The JSON object of a receipt carries its account, where it has one, and its workspace.\<close>

definition receipt_encoder_ok :: "client_codec \<Rightarrow> bool" where
  "receipt_encoder_ok c \<longleftrightarrow>
     (\<forall>i. ck_receipt c i \<noteq> [] \<and> (\<exists>obj. hx_object (ck_server c) (ck_receipt c i) = Some obj \<and>
        mget obj ''accountId'' = (if ri_AccountID i = [] then GNil else GStr (ri_AccountID i)) \<and>
        mget obj ''workspaceId'' = GStr (ri_WorkspaceID i)))"

text \<open>
  C17: the ledger serves what the control plane signs. A receipt posted by the client with the server's
  token and capability key reaches the handler: for every receipt whose account, workspace and key have no
  surrounding white space and whose body is within the limit, and clocks that differ by less than a minute.
\<close>

theorem signed_receipt_is_served:
  assumes "client_of lc sv" and "receipt_encoder_ok (lc_codec lc)" and "clocks_agree signed asked"
    and "trim_space key = key" and "key \<noteq> []"
    and "trim_space (ri_AccountID input) = ri_AccountID input" and "trim_space (ri_WorkspaceID input) = ri_WorkspaceID input"
    and "length (ck_receipt (lc_codec lc) input) \<le> maxJSONBodyBytes"
  shows "authorizeLedgerRequests sv asked now (record_receipt_request lc input key signed) s =
    handle_record_receipt (sv_codec sv) (sv_digest sv) (fst now) (record_receipt_request lc input key signed) s"
proof -
  let ?r = "record_receipt_request lc input key signed" and ?c = "lc_codec lc"
  let ?scope = "\<lparr>sc_AccountID = ri_AccountID input, sc_WorkspaceID = ri_WorkspaceID input, sc_ResourceKind = ''receipt'',
     sc_ResourceID = key, sc_Action = ''record_receipt'', sc_OperationID = key\<rparr>"
  have c: "lc_token lc = sv_token sv" "sv_token sv \<noteq> []" "lc_capabilityKey lc = sv_capabilityKey sv"
      "ck_server ?c = sv_codec sv" "client_codec_ok ?c" using assms(1) by (simp_all add: client_of_def)
  obtain obj where o: "hx_object (sv_codec sv) (ck_receipt ?c input) = Some obj" "ck_receipt ?c input \<noteq> []"
      "mget obj ''accountId'' = (if ri_AccountID input = [] then GNil else GStr (ri_AccountID input))"
      "mget obj ''workspaceId'' = GStr (ri_WorkspaceID input)"
    using assms(2) c(4) by (metis receipt_encoder_ok_def)
  have owner_text: "object_text obj ''accountId'' = ri_AccountID input" "object_text obj ''workspaceId'' = ri_WorkspaceID input"
    using o by (simp_all add: object_text_def str_or_empty_def)
  have signed: "ledgerClientScopeFromInput ?c [''ledger'', ''receipts''] input (ck_receipt ?c input) key = ?scope"
    using o c(4) by (simp add: ledgerClientScopeFromInput_def ledgerResourceKind_def ledgerAction_def)
  have r: "hr_Method ?r = ''POST''" "hr_Path ?r = ''/ledger/receipts''" "hr_Segments ?r = [''ledger'', ''receipts'']"
      "hr_Header ?r = client_header (sv_token sv) key (signLedgerCapability ?c (sv_capabilityKey sv) ?scope (ck_receipt ?c input) signed)"
      "hr_Body ?r = ck_receipt ?c input"
    by (simp_all add: record_receipt_request_def Let_def c signed)
  have scope: "ledgerCapabilityScopeForRequest (sv_codec sv) ?r (hr_Body ?r) = Some ?scope"
    using assms(4-7) o(1,2) by (simp add: ledgerCapabilityScopeForRequest_def r header_names owner_text)
  have parts: "path_parts ?r = [''ledger'', ''receipts'']" by (simp only: path_parts_def r collection_parts)
  have "authorizeLedgerRequests sv asked now ?r s = route sv now ?r s"
  proof (rule signed_request_served)
    show "hr_Header ?r ''Authorization'' = ''Bearer '' @ sv_token sv" by (simp add: r header_names)
    show "length (hr_Body ?r) \<le> maxJSONBodyBytes" using assms(8) by (simp add: r)
    assume "sv_capabilityKey sv \<noteq> []"
    with preverify_signed [OF c(5) _ assms(3), of "sv_capabilityKey sv" ?scope ?scope "ck_receipt ?c input"]
    show "ledgerCapabilityScopeForRequest (sv_codec sv) ?r (hr_Body ?r) = Some ?scope \<and>
      preverifyLedgerCapability (sv_codec sv) (hr_Header ?r ledgerCapabilityHeader) (sv_capabilityKey sv) ?scope (hr_Body ?r) (t_utc asked) =
        Some (signed_claims ?c ?scope (ck_receipt ?c input) signed) \<and>
      enrichLedgerOwnerScope ?r s ?scope = Some ?scope \<and>
      ledgerOwnerClaimsMatch (signed_claims ?c ?scope (ck_receipt ?c input) signed) ?scope"
      using scope
      by (simp only: r(4,5) header_names c(4))
        (simp add: enrichLedgerOwnerScope_def parts ledgerOwnerClaimsMatch_def signed_claims_def)
  qed (rule c(2))
  then show ?thesis by (simp add: route_def route_collection_def r post_method_def)
qed


lemma listed_scope:
  assumes "client_of lc sv" and "cq_AccountID query \<noteq> []" and "trim_space (cq_AccountID query) = cq_AccountID query"
    and "clocks_agree signed asked"
  shows "authorizeLedgerRequests sv asked now (list_receipts_request lc encode query signed) s =
    (handle_list_receipts (sv_cursor sv) (list_receipts_request lc encode query signed) s, s)"
proof -
  let ?r = "list_receipts_request lc encode query signed" and ?c = "lc_codec lc"
  let ?uri = "''/ledger/receipts?'' @ encode query"
  let ?scope = "\<lparr>sc_AccountID = cq_AccountID query, sc_WorkspaceID = [], sc_ResourceKind = ''receipt_collection'',
     sc_ResourceID = cq_AccountID query, sc_Action = ''list_receipts'',
     sc_OperationID = ''request:'' @ hx_sha256hex (sv_codec sv) (''GET '' @ ?uri)\<rparr>"
  have c: "lc_token lc = sv_token sv" "sv_token sv \<noteq> []" "lc_capabilityKey lc = sv_capabilityKey sv"
      "ck_server ?c = sv_codec sv" "client_codec_ok ?c" using assms(1) by (simp_all add: client_of_def)
  have r: "hr_Method ?r = ''GET''" "hr_Path ?r = ''/ledger/receipts''" "hr_Segments ?r = [''ledger'', ''receipts'']"
      "hr_Header ?r = client_header (sv_token sv) [] (signLedgerCapability ?c (sv_capabilityKey sv) ?scope [] signed)"
      "hr_Body ?r = []" "hr_Query ?r = list_values query" "hr_URI ?r = ?uri"
    by (simp_all add: list_receipts_request_def Let_def c ledgerResourceKind_def ledgerAction_def)
  have scope: "ledgerCapabilityScopeForRequest (sv_codec sv) ?r (hr_Body ?r) = Some ?scope"
    using assms(2,3) by (simp add: ledgerCapabilityScopeForRequest_def r header_names list_values_def requestOperationID_def
        object_text_def str_or_empty_def mget_def)
  have parts: "path_parts ?r = [''ledger'', ''receipts'']" by (simp only: path_parts_def r collection_parts)
  have "authorizeLedgerRequests sv asked now ?r s = route sv now ?r s"
  proof (rule signed_request_served)
    show "hr_Header ?r ''Authorization'' = ''Bearer '' @ sv_token sv" by (simp add: r header_names)
    show "length (hr_Body ?r) \<le> maxJSONBodyBytes" by (simp add: r)
    assume "sv_capabilityKey sv \<noteq> []"
    with preverify_signed [OF c(5) _ assms(4), of "sv_capabilityKey sv" ?scope ?scope "[]"]
    show "ledgerCapabilityScopeForRequest (sv_codec sv) ?r (hr_Body ?r) = Some ?scope \<and>
      preverifyLedgerCapability (sv_codec sv) (hr_Header ?r ledgerCapabilityHeader) (sv_capabilityKey sv) ?scope (hr_Body ?r) (t_utc asked) =
        Some (signed_claims ?c ?scope [] signed) \<and>
      enrichLedgerOwnerScope ?r s ?scope = Some ?scope \<and>
      ledgerOwnerClaimsMatch (signed_claims ?c ?scope [] signed) ?scope"
      using scope
      by (simp only: r(4,5) header_names c(4))
        (simp add: enrichLedgerOwnerScope_def parts ledgerOwnerClaimsMatch_def signed_claims_def)
  qed (rule c(2))
  then show ?thesis by (simp add: route_def route_collection_def r post_method_def get_method_def)
qed

section \<open>The reconciliation reads every receipt of an account\<close>

definition account_query :: "string \<Rightarrow> receipt_query" where
  "account_query a = \<lparr>rq_AccountID = a, rq_OrganizationID = [], rq_WorkspaceID = [], rq_ProjectID = [], rq_TaskID = [],
     rq_JobID = [], rq_Type = [], rq_TypePrefix = [], rq_Status = [], rq_Cursor = [], rq_Limit = 100\<rparr>"

definition account_receipts :: "string \<Rightarrow> memory_store \<Rightarrow> receipt list" where
  "account_receipts a s = receipt_entries (account_query a) s"

text \<open>A client and a server that agree, with a store the server can reach and answers within the client's limit.\<close>

definition ledger_link :: "ledger_client \<Rightarrow> ledger_server \<Rightarrow> gotime \<times> gotime \<times> (gotime \<times> gotime) \<Rightarrow> memory_store \<Rightarrow> bool" where
  "ledger_link lc sv clocks s \<longleftrightarrow>
     client_of lc sv \<and> codec_ok (sv_cursor sv) \<and> ledger_reachable (sv_digest sv) (sv_urls sv) s \<and>
     clocks_agree (fst clocks) (fst (snd clocks)) \<and>
     (\<forall>p. length (rp_Receipts p) \<le> 100 \<longrightarrow> ck_page_size (lc_codec lc) p \<le> maxLedgerResponseBytes)"

lemma client_page:
  assumes link: "ledger_link lc sv clocks s" and a: "a \<noteq> []" "trim_space a = a" and n: "n \<le> length (account_receipts a s)"
  defines "es \<equiv> account_receipts a s" and "cur \<equiv> cursor_at (encodeReceiptCursor (sv_cursor sv)) (account_receipts a s)"
  shows "client_ListReceipts lc encode sv clocks s \<lparr>cq_AccountID = a, cq_TypePrefix = [], cq_Cursor = cur n, cq_Limit = 100\<rparr> =
    Inr \<lparr>cp_Receipts = map (wire_receipt (ck_float (lc_codec lc))) (take 100 (drop n es)),
         cp_NextCursor = (if n + 100 < length es then cur (n + 100) else []), cp_HasMore = (n + 100 < length es)\<rparr>"
proof -
  let ?q = "account_query a" and ?cq = "\<lparr>cq_AccountID = a, cq_TypePrefix = [], cq_Cursor = cur n, cq_Limit = 100\<rparr>"
  have ok: "receipt_query_ok s (sv_cursor sv, ?q)"
    using link reachable_store_ok by (auto simp: ledger_link_def receipt_query_ok_def account_query_def)
  have "receipt_fetch s (sv_cursor sv, ?q) (cur n) =
      Inr (take 100 (drop n es), if n + 100 < length es then cur (n + 100) else [], n + 100 < length es)"
    using receipt_pages.pages.fetch_at [OF ok, of n] n
    unfolding es_def cur_def account_receipts_def receipt_entries_def by (simp add: receipt_limit_def account_query_def)
  then obtain p where p: "ListReceipts (sv_cursor sv) (?q\<lparr>rq_Cursor := cur n\<rparr>) s = Inr p"
      "rp_Receipts p = take 100 (drop n es)" "rp_NextCursor p = (if n + 100 < length es then cur (n + 100) else [])"
      "rp_HasMore p = (n + 100 < length es)"
    by (auto simp: receipt_fetch_def split: sum.splits)
  have parse: "parse_int64 (int_text 100) = Some 100" by (intro parse_int_text) (simp add: int64_defs)
  let ?r = "list_receipts_request lc encode ?cq (fst clocks)"
  have q: "hr_Query ?r = list_values ?cq" by (simp add: list_receipts_request_def Let_def)
  have "handle_list_receipts (sv_cursor sv) ?r s = (200, AnsReceiptPage p)"
    using p(1) by (simp add: handle_list_receipts_def q list_values_def parse account_query_def MaxReceiptPageSize_def answer_def)
  moreover have "ck_page_size (lc_codec lc) p \<le> maxLedgerResponseBytes"
    using link p(2) by (simp add: ledger_link_def)
  moreover have "authorizeLedgerRequests sv (fst (snd clocks)) (snd (snd clocks)) ?r s = (handle_list_receipts (sv_cursor sv) ?r s, s)"
    using link a by (intro listed_scope) (simp_all add: ledger_link_def)
  ultimately show ?thesis using p(2-4) by (simp add: client_ListReceipts_def)
qed

lemma account_receipts_own:
  assumes "r \<in> set (account_receipts a s)" and "a \<noteq> []"
  shows "cr_AccountID (wire_receipt ft r) = a"
  using assms by (auto simp: account_receipts_def receipt_entries_def receipt_matches_def account_query_def wants_def
      wire_receipt_def Let_def)

lemma receipt_loop_from:
  assumes link: "ledger_link lc sv clocks s" and a: "a \<noteq> []" "trim_space a = a"
    and k: "n + k = 100" "k = 0 \<or> 100 * k < length (account_receipts a s)"
    and seen: "set seen \<subseteq> (\<lambda>j. cursor_at (encodeReceiptCursor (sv_cursor sv)) (account_receipts a s) (100 * j)) ` {1..k}"
  shows "receipt_pages_loop n (Some (client_ListReceipts lc encode sv clocks s)) a
      (cursor_at (encodeReceiptCursor (sv_cursor sv)) (account_receipts a s) (100 * k)) seen
      (map (wire_receipt (ck_float (lc_codec lc))) (take (100 * k) (account_receipts a s))) =
    (if length (account_receipts a s) \<le> 10000 then Inr (map (wire_receipt (ck_float (lc_codec lc))) (account_receipts a s))
     else Inl ''ledger_receipt_page_limit_exceeded'')"
  using k seen
proof (induction n arbitrary: k seen)
  case 0
  then show ?case by simp
next
  case (Suc n)
  let ?es = "account_receipts a s" and ?cur = "cursor_at (encodeReceiptCursor (sv_cursor sv)) (account_receipts a s)"
  have le: "100 * k \<le> length ?es" using Suc.prems(2) by auto
  have ok: "receipt_query_ok s (sv_cursor sv, account_query a)"
    using link reachable_store_ok by (auto simp: ledger_link_def receipt_query_ok_def account_query_def)
  have own: "list_ex (\<lambda>r. cr_AccountID r \<noteq> a) (map (wire_receipt (ck_float (lc_codec lc))) (take 100 (drop (100 * k) ?es))) = False"
    using account_receipts_own [OF _ a(1)] by (auto simp: list_ex_iff dest!: in_set_takeD in_set_dropD)
  have acc: "take (100 * k) ?es @ take 100 (drop (100 * k) ?es) = take (100 * Suc k) ?es"
    by (simp add: take_add [symmetric] add.commute)
  show ?case
  proof (cases "100 * Suc k < length ?es")
    case False
    then have "take (100 * Suc k) ?es = ?es" "length ?es \<le> 10000" using Suc.prems(1) by simp_all
    with False own acc show ?thesis
      by (simp add: BillingReceipts_def a(1) client_page [OF link a le] Let_def flip: map_append)
  next
    case True
    have inj: "100 * Suc k = 100 * j" if "?cur (100 * Suc k) = ?cur (100 * j)" "j \<in> {1..k}" for j
      using receipt_pages.pages.cursor_at_inj [OF ok, of "100 * Suc k" "100 * j"] that True
      by (simp add: account_receipts_def receipt_entries_def)
    have new: "?cur (100 * Suc k) \<notin> set seen"
    proof
      assume "?cur (100 * Suc k) \<in> set seen"
      with Suc.prems(3) obtain j where "j \<in> {1..k}" "?cur (100 * Suc k) = ?cur (100 * j)" by blast
      with inj show False by fastforce
    qed
    have ne: "?cur (100 * Suc k) \<noteq> []"
      using receipt_pages.pages.cursor_at_ne [OF ok, of "100 * Suc k"] True
      by (simp add: account_receipts_def receipt_entries_def)
    have seen': "set (?cur (100 * Suc k) # seen) \<subseteq> (\<lambda>j. ?cur (100 * j)) ` {1..Suc k}"
    proof -
      have "?cur (100 * Suc k) \<in> (\<lambda>j. ?cur (100 * j)) ` {1..Suc k}" by (intro imageI) simp
      moreover have "(\<lambda>j. ?cur (100 * j)) ` {1..k} \<subseteq> (\<lambda>j. ?cur (100 * j)) ` {1..Suc k}" by (intro image_mono) auto
      ultimately show ?thesis using Suc.prems(3) by (simp only: list.set insert_subset) blast
    qed
    have "n + Suc k = 100" using Suc.prems(1) by simp
    from Suc.IH [OF this _ seen'] True
    have ih: "receipt_pages_loop n (Some (client_ListReceipts lc encode sv clocks s)) a (?cur (100 * Suc k))
        (?cur (100 * Suc k) # seen) (map (wire_receipt (ck_float (lc_codec lc))) (take (100 * Suc k) ?es)) =
      (if length ?es \<le> 10000 then Inr (map (wire_receipt (ck_float (lc_codec lc))) ?es) else Inl ''ledger_receipt_page_limit_exceeded'')" by blast
    have more: "100 * k + 100 = 100 * Suc k" by simp
    have page: "BillingReceipts (Some (client_ListReceipts lc encode sv clocks s))
        \<lparr>cq_AccountID = a, cq_TypePrefix = [], cq_Cursor = ?cur (100 * k), cq_Limit = 100\<rparr> =
      Inr \<lparr>cp_Receipts = map (wire_receipt (ck_float (lc_codec lc))) (take 100 (drop (100 * k) ?es)), cp_NextCursor = ?cur (100 * Suc k), cp_HasMore = True\<rparr>"
      using client_page [OF link a le, of encode] True a(1) by (simp only: BillingReceipts_def more) simp
    show ?thesis
      using own new ne ih acc
      by (simp only: receipt_pages_loop.simps page sum.case client_receipt_page.simps if_False Let_def de_Morgan_disj
          not_not simp_thms map_append [symmetric])
  qed
qed



section \<open>Through this client no resource ever matches\<close>

text \<open>Every receipt the client returns is the decoded form of a stored receipt.\<close>

lemma listed_are_stored:
  assumes "ListReceipts cc q s = Inr p" and "r \<in> set (rp_Receipts p)"
  shows "\<exists>r0 \<in> set (map snd (ms_receipts s)). r = clone_receipt r0"
proof -
  obtain q' cursor where "normalizeReceiptQuery cc q = Inr (q', cursor)"
    using assms(1) by (auto simp: ListReceipts_def split: sum.splits)
  then have "r \<in> set (sort_desc receipt_key (map clone_receipt (filter (\<lambda>r. receipt_matches q' r \<and> receipt_after_cursor cursor r)
      (map snd (ms_receipts s)))))"
    using assms by (auto simp: ListReceipts_def Let_def split: if_splits dest!: in_set_takeD)
  then show ?thesis by auto
qed

lemma handle_list_stored:
  assumes "handle_list_receipts cc r s = (status, AnsReceiptPage p)" and "x \<in> set (rp_Receipts p)"
  shows "\<exists>r0 \<in> set (map snd (ms_receipts s)). x = clone_receipt r0"
proof -
  obtain q where "ListReceipts cc q s = Inr p"
    using assms(1) by (auto simp: handle_list_receipts_def answer_def store_failure_def Let_def
        split: if_splits option.splits sum.splits)
  from listed_are_stored [OF this assms(2)] show ?thesis .
qed

lemma page_answer_is_list:
  assumes "hr_Segments r = [''ledger'', ''receipts'']" and "hr_Method r = ''GET''"
    and "fst (authorizeLedgerRequests sv asked now r s) = (status, AnsReceiptPage p)"
  shows "handle_list_receipts (sv_cursor sv) r s = (status, AnsReceiptPage p)"
proof -
  have "authorizeLedgerRequests sv asked now r s = route sv now r s"
    using assms(3) unfolding authorizeLedgerRequests_def authenticate_def Let_def by (auto split: option.splits if_splits)
  with assms show ?thesis by (simp add: route_def route_collection_def post_method_def get_method_def)
qed

lemma client_receipts_stored:
  assumes "client_ListReceipts lc encode sv clocks s query = Inr p" and "x \<in> set (cp_Receipts p)"
  shows "\<exists>r0 \<in> set (map snd (ms_receipts s)). x = wire_receipt (ck_float (lc_codec lc)) (clone_receipt r0)"
proof -
  let ?q = "if cq_Limit query = 0 then query\<lparr>cq_Limit := 50\<rparr> else query"
  let ?r = "list_receipts_request lc encode ?q (fst clocks)"
  obtain status p0 where f: "fst (authorizeLedgerRequests sv (fst (snd clocks)) (snd (snd clocks)) ?r s) = (status, AnsReceiptPage p0)"
      "cp_Receipts p = map (wire_receipt (ck_float (lc_codec lc))) (rp_Receipts p0)"
    using assms(1) unfolding client_ListReceipts_def Let_def by (auto split: prod.splits http_answer.splits if_splits)
  have "hr_Segments ?r = [''ledger'', ''receipts'']" "hr_Method ?r = ''GET''"
    by (simp_all add: list_receipts_request_def Let_def)
  from page_answer_is_list [OF this f(1)] have "handle_list_receipts (sv_cursor sv) ?r s = (status, AnsReceiptPage p0)" .
  from handle_list_stored [OF this] f(2) assms(2) show ?thesis by auto
qed

lemma loop_receipts:
  assumes "receipt_pages_loop n (Some list) a cursor seen acc = Inr rs"
    and "\<And>q p x. list q = Inr p \<Longrightarrow> x \<in> set (cp_Receipts p) \<Longrightarrow> P x" and "\<And>x. x \<in> set acc \<Longrightarrow> P x" and "x \<in> set rs"
  shows "P x"
  using assms(1,3,4)
proof (induction n arbitrary: cursor seen acc)
  case (Suc n)
  from Suc.prems(1) obtain p where "list \<lparr>cq_AccountID = a, cq_TypePrefix = [], cq_Cursor = cursor, cq_Limit = 100\<rparr> = Inr p"
      "rs = acc @ cp_Receipts p \<or>
       receipt_pages_loop n (Some list) a (cp_NextCursor p) (cp_NextCursor p # seen) (acc @ cp_Receipts p) = Inr rs"
    by (auto simp: BillingReceipts_def Let_def split: sum.splits if_splits)
  moreover have "P y" if "y \<in> set (acc @ cp_Receipts p)" for y
    using that Suc.prems(2) assms(2) calculation(1) by auto
  ultimately show ?case using Suc.IH Suc.prems(3) by blast
qed simp

lemma int64_of_positive: "float_less (Fin 0) f \<Longrightarrow> int64_of_float f \<noteq> - 1"
  by (cases f) (auto simp: int64_of_float_def trunc_rat_def int64_defs floor_eq_iff)

text \<open>Decoded values have no native numbers.\<close>

lemma mget_wire_map: "mget (Some (map (map_prod id (wire_value ft)) kvs)) k = wire_value ft (mget (Some kvs) k)"
  by (auto simp: mget_def map_of_map map_prod_def split: option.splits)

lemma mapField_wire:
  assumes "m = Some (map (map_prod id (wire_value ft)) kvs)"
  shows "\<exists>kvs'. mapField m k = Some (map (map_prod id (wire_value ft)) kvs')"
proof -
  have "mget m k = wire_value ft (mget (Some kvs) k)" unfolding assms by (rule mget_wire_map)
  then show ?thesis by (cases "mget (Some kvs) k") (auto simp: mapField_def cloneMap_def intro: exI [of _ "[]"])
qed

lemma numberField_wire: "numberField (Some (map (map_prod id (wire_value ft)) kvs)) k d = d"
  unfolding numberField_def mget_wire_map by (cases "mget (Some kvs) k") simp_all

lemma mapField_wire_receipt: "\<exists>kvs. mapField (cr_Cost (wire_receipt ft r)) k = Some (map (map_prod id (wire_value ft)) kvs)"
proof (cases "cr_Cost (wire_receipt ft r)")
  case None
  then show ?thesis by (auto simp: mapField_def cloneMap_def mget_def intro: exI [of _ "[]"])
next
  case (Some m)
  then obtain kvs where "cr_Cost (wire_receipt ft r) = Some (map (map_prod id (wire_value ft)) kvs)"
    by (auto simp: wire_receipt_def wire_map_def Let_def split: if_splits)
  from mapField_wire [OF this] show ?thesis .
qed

lemma wire_size: "numberField (mapField (mapField (cr_Cost (wire_receipt ft r)) ''components'') ''storage'') ''sizeGb'' d = d"
proof -
  obtain kvs where "mapField (cr_Cost (wire_receipt ft r)) ''components'' = Some (map (map_prod id (wire_value ft)) kvs)"
    using mapField_wire_receipt by blast
  from mapField_wire [OF this, of "''storage''"] show ?thesis using numberField_wire by metis
qed

lemma workspace_never_matches:
  assumes "float_less (Fin 0) (numberField row ''storageGb'' (Fin 0))"
  shows "\<not> workspace_receipt_matches row u (wire_receipt ft r)"
proof
  assume "workspace_receipt_matches row u (wire_receipt ft r)"
  then have "int64_of_float (numberField row ''storageGb'' (Fin (- 2))) = - 1"
    unfolding workspace_receipt_matches_def Let_def wire_size by (simp add: int64_of_float_def int64_defs trunc_rat_def)
  moreover have "numberField row ''storageGb'' (Fin (- 2)) = numberField row ''storageGb'' (Fin 0)"
    using assms by (auto simp: numberField_def split: goval.splits int_kind.splits float_kind.splits)
  ultimately show False using int64_of_positive [OF assms] by simp
qed

lemma resource_never_matches:
  assumes "ri_Type (rc_Input r) \<notin> set retired_receipt_types"
  shows "\<not> resource_receipt_matches kind row (wire_receipt ft r)"
  using assms by (auto simp: resource_receipt_matches_def Let_def wire_receipt_def retired_receipt_types_def split: if_splits)

lemma client_code_not_empty:
  assumes "ledger_reachable (sv_digest sv) (sv_urls sv) s" and "rs_receipts src = Some (client_ListReceipts lc encode sv clocks s)"
  shows "report_codes src resources r \<noteq> []"
proof
  let ?a = "stringValue (mget (rr_row r) ''accountId'')" and ?ft = "ck_float (lc_codec lc)"
  let ?facts = "load_account_facts src resources ?a"
  assume "report_codes src resources r = []"
  then obtain fs where ok: "\<not> af_historyError ?facts" "\<not> af_receiptError ?facts" and b: "resource_backed fs ?facts r"
    unfolding report_codes_def by (blast dest: resource_codes_Nil)
  from b obtain x where x: "filter (\<lambda>y. cr_ReceiptID y = stringValue (mget (rr_row r) ''lastReceiptId'')) (af_receipts ?facts) = [x]"
      and m: "if rr_type r = ''workspace'' then workspace_receipt_matches (rr_row r) (af_userID ?facts) x
          else resource_receipt_matches (rr_type r) (rr_row r) x"
      and valid: "validLocalBillingReconciliationFact (rr_type r) (rr_row r)"
    unfolding resource_backed_def by blast
  from arg_cong [OF x, of set] have x: "x \<in> set (af_receipts ?facts)" by auto
  from load_account_facts_ok [OF ok] have rs: "reconciliationLedgerReceipts (rs_receipts src) ?a = Inr (af_receipts ?facts)" by blast
  have "\<exists>r0 \<in> set (map snd (ms_receipts s)). x = wire_receipt ?ft (clone_receipt r0)"
  proof (rule loop_receipts)
    show "receipt_pages_loop maxReconciliationReceiptPages (Some (client_ListReceipts lc encode sv clocks s)) ?a [] [] [] =
        Inr (af_receipts ?facts)"
      using rs by (simp add: assms(2) reconciliationLedgerReceipts_def)
  qed (use client_receipts_stored x in \<open>blast | simp\<close>)+
  then obtain k r0 where r0: "(k, r0) \<in> set (ms_receipts s)" "x = wire_receipt ?ft (clone_receipt r0)" by auto
  have "ri_Type (rc_Input (clone_receipt r0)) \<notin> set retired_receipt_types"
    using store_okD(1,6) [OF reachable_store_ok [OF assms(1)]] r0(1)
    by (auto simp: map_of_eq_Some_iff receipt_ok_def)
  with m resource_never_matches r0(2) have w: "rr_type r = ''workspace''" by (auto split: if_splits)
  with valid have "float_less (Fin 0) (numberField (rr_row r) ''storageGb'' (Fin 0))"
    by (simp add: validLocalBillingReconciliationFact_def Let_def split: prod.splits)
  from workspace_never_matches [OF this] m w r0(2) show False by simp
qed


end
