(* ===== verification/Ledger_Examples.thy ===== *)
theory Ledger_Examples
  imports Ledger_Paging
begin

text \<open>
  The properties of the Ledger's store at concrete inputs: a sample receipt recorded in a new store, a
  sample reconciliation report, and a concrete cursor codec that satisfies the codec's law.
\<close>

section \<open>A concrete digest and a concrete codec\<close>

definition sample_digest :: digest where
  "sample_digest v = (case as_obj v of None \<Rightarrow> [] | Some kvs \<Rightarrow> str_or_empty (mget (Some kvs) ''type''))"

definition sample_urls :: url_parser where
  "sample_urls s = None"

definition sample_now :: gotime where
  "sample_now = GoTime 63900000000000000000 0"

text \<open>The sign, the decimal instant, a period and the identifier.\<close>

definition plain_codec :: cursor_codec where
  "plain_codec =
     \<lparr>cc_encode = (\<lambda>t k. (if inst t < 0 then CHR ''-'' else CHR ''+'') # nat_text (nat \<bar>inst t\<bar>) @ CHR ''.'' # k),
      cc_decode = (\<lambda>s. case s of
          [] \<Rightarrow> None
        | c # cs \<Rightarrow>
            (case parse_digits (takeWhile is_digit cs) of
               None \<Rightarrow> None
             | Some n \<Rightarrow> Some (GoTime (if c = CHR ''-'' then - int n else int n) 0, drop 1 (dropWhile is_digit cs))))\<rparr>"

lemma plain_codec_ok: "codec_ok plain_codec"
proof -
  have "\<not> is_digit (CHR ''.'')" by (simp add: is_digit_def code_def)
  then have "takeWhile is_digit (nat_text n @ CHR ''.'' # k) = nat_text n"
    "dropWhile is_digit (nat_text n @ CHR ''.'' # k) = CHR ''.'' # k" for n k
    using digits_nat_text [of n] by (simp_all add: list_all_iff takeWhile_append dropWhile_append)
  then show ?thesis by (auto simp: codec_ok_def plain_codec_def)
qed

lemma sample_clock: "clock_ok sample_now"
  by code_simp

section \<open>Witnesses\<close>

definition sample_store :: memory_store where
  "sample_store = snd (RecordReceipt sample_digest sample_now sample_purchase_receipt NewMemoryStore)"

definition sample_created_receipt :: receipt_input where
  "sample_created_receipt = sample_purchase_receipt\<lparr>ri_Type := ''workspace.created'', ri_Cost := None\<rparr>"

lemma sample_created_accepted: "validateReceiptInput sample_created_receipt = None"
  by code_simp

lemma new_store [simp]:
  "ms_idempotency NewMemoryStore k = None" "ms_reconciliationIdempotency NewMemoryStore k = None"
  by (simp_all add: NewMemoryStore_def)

lemma sample_recorded:
  "RecordReceipt sample_digest sample_now sample_purchase_receipt NewMemoryStore =
     (Inr (fresh_receipt sample_now sample_purchase_receipt NewMemoryStore), sample_store)"
  by (simp add: sample_store_def RecordReceipt_fresh sample_purchase_accepted)

lemma sample_fresh: "\<not> rc_Replayed (fresh_receipt sample_now sample_purchase_receipt NewMemoryStore)"
  "rc_ReceiptID (fresh_receipt sample_now sample_purchase_receipt NewMemoryStore) = ''receipt_000001''"
  by (simp_all add: fresh_receipt_def) code_simp

lemma reachable_new: "ledger_reachable d u NewMemoryStore"
  by (simp add: ledger_reachable_def ledger_steps.none)

lemma sample_reachable: "ledger_reachable sample_digest sample_urls sample_store"
proof -
  have "ledger_steps sample_digest sample_urls NewMemoryStore
      (exec sample_digest sample_urls (CmdRecordReceipt sample_now sample_purchase_receipt) NewMemoryStore)"
    by (rule ledger_steps.more [OF ledger_steps.none]) (simp add: sample_clock)
  then show ?thesis by (simp add: ledger_reachable_def sample_store_def)
qed

lemma sample_stored:
  "map_of (ms_receipts sample_store) ''receipt_000001'' = Some (fresh_receipt sample_now sample_purchase_receipt NewMemoryStore)"
  using RecordReceipt_first(4) [OF sample_recorded sample_fresh(1)] by (simp add: sample_fresh(2))

theorem receipt_recorded_exactly_once_witness:
  "\<exists>r'. RecordReceipt sample_digest sample_now sample_purchase_receipt sample_store = (Inr r', sample_store) \<and>
     rc_Replayed r' \<and> rc_ReceiptID r' = ''receipt_000001''"
  using receipt_recorded_exactly_once [where u = sample_urls and now' = sample_now,
      OF reachable_new sample_clock sample_recorded sample_fresh(1) ledger_steps.none]
  by (auto simp: sample_fresh(2))

theorem reused_receipt_key_conflicts_witness:
  "RecordReceipt sample_digest sample_now sample_created_receipt sample_store = (Inl ErrIdempotencyConflict, sample_store)"
proof -
  have "receipt_hash sample_digest sample_created_receipt \<noteq> receipt_hash sample_digest sample_purchase_receipt"
    by code_simp
  moreover have "ri_IdempotencyKey sample_created_receipt = ri_IdempotencyKey sample_purchase_receipt"
    by (simp add: sample_created_receipt_def)
  ultimately show ?thesis
    by (intro reused_receipt_key_conflicts [OF sample_recorded ledger_steps.none sample_created_accepted])
qed


theorem stored_receipts_name_no_secret_witness:
  "map_of (ms_receipts sample_store) ''receipt_000001'' \<noteq> None \<and> to_lower ''accountId'' \<notin> set forbidden_keys"
proof -
  have "clone_map sample_owner \<in> set (receipt_maps (rc_Input (fresh_receipt sample_now sample_purchase_receipt NewMemoryStore)))"
    by (simp add: fresh_receipt_def clone_receipt_def clone_receipt_input_def receipt_maps_def sample_purchase_receipt_def)
  moreover have "key_within (gomap_val (clone_map sample_owner)) ''accountId''"
    using sample_owner_key by (simp add: gomap_val_clone key_within_normalize)
  ultimately show ?thesis
    using stored_receipts_name_no_secret [OF sample_reachable sample_stored] sample_stored by simp
qed

definition sample_deletion_request :: receipt_privacy_delete_input where
  "sample_deletion_request = \<lparr>pdi_ReceiptID = ''receipt_000001'', pdi_Reason = ''request'', pdi_IdempotencyKey = ''k-1''\<rparr>"

theorem privacy_delete_is_guarded_witness:
  "\<exists>res s' r'. PrivacyDeleteReceipt sample_digest sample_now sample_now sample_deletion_request sample_store = (Inr res, s') \<and>
     map_of (ms_receipts s') ''receipt_000001'' = Some r' \<and> ri_Actor (rc_Input r') = None \<and> ri_Owner (rc_Input r') = None"
proof -
  have "ms_idempotency sample_store (privacy_key sample_deletion_request) = None"
    by (simp add: sample_store_def RecordReceipt_fresh sample_purchase_accepted privacy_key_def sample_deletion_request_def)
      (simp add: sample_purchase_receipt_def)
  then obtain res s' where r: "PrivacyDeleteReceipt sample_digest sample_now sample_now sample_deletion_request sample_store = (Inr res, s')"
      "\<not> rr_Replayed res"
    using sample_stored
    by (auto simp: PrivacyDeleteReceipt_eq sample_deletion_request_def privacy_accepts_def commit_retention_effect
        fresh_receipt_def empty_retention_def gotime_defs sample_now_def)
  from privacy_delete_is_guarded [OF sample_reachable r] r(1) show ?thesis
    by (auto simp: sample_deletion_request_def)
qed

definition sample_reconciliation :: reconciliation_input where
  "sample_reconciliation = \<lparr>rci_Report = sample_report, rci_IdempotencyKey = ''k-2''\<rparr>"

theorem reconciliation_recorded_exactly_once_witness:
  "\<exists>r s1. RecordReconciliation sample_digest sample_now sample_reconciliation NewMemoryStore = (Inr r, s1) \<and>
     RecordReconciliation sample_digest sample_now sample_reconciliation s1 = (Inr (r\<lparr>rcr_Replayed := True\<rparr>), s1)"
proof -
  have "\<not> blank ''k-2''" by code_simp
  then have v: "validateReconciliationInput sample_reconciliation = None"
    by (simp add: validateReconciliationInput_def sample_reconciliation_def sample_report_accepted)
  have wf: "well_formed_report (rci_Report sample_reconciliation)" by code_simp
  obtain r s1 where r: "RecordReconciliation sample_digest sample_now sample_reconciliation NewMemoryStore = (Inr r, s1)"
      "\<not> rcr_Replayed r"
    by (simp add: RecordReconciliation_eq v fresh_reconciliation_def clone_reconciliation_def)
  from reconciliation_recorded_exactly_once [where u = sample_urls and now' = sample_now,
      OF reachable_new wf r ledger_steps.none] r(1)
  show ?thesis by blast
qed

definition colliding_receipt :: receipt_input where
  "colliding_receipt = empty_receipt_input
     \<lparr>ri_Type := ''workspace.note'', ri_Status := ''completed'', ri_Surface := ''control_plane'',
      ri_WorkspaceID := ''ws-1'', ri_IdempotencyKey := ''receipt-retention:k-3''\<rparr>"

definition sample_retention_request :: receipt_retention_input where
  "sample_retention_request =
     \<lparr>rti_ReceiptID = ''receipt_000001'', rti_RetainUntil = sample_now, rti_LegalHold = True, rti_IdempotencyKey = ''k-3''\<rparr>"

theorem receipt_key_blocks_retention_update_witness:
  "\<exists>s err. UpdateReceiptRetention sample_digest sample_retention_request s = (Inl err, s) \<and>
     map_of (ms_receipts s) ''receipt_000001'' \<noteq> None"
proof -
  have v: "validateReceiptInput colliding_receipt = None" by code_simp
  obtain r s where r: "RecordReceipt sample_digest sample_now colliding_receipt NewMemoryStore = (Inr r, s)"
      "\<not> rc_Replayed r" "rc_ReceiptID r = ''receipt_000001''"
    using sample_fresh(2) by (simp add: RecordReceipt_fresh [OF v] fresh_receipt_def)
  have "ri_IdempotencyKey colliding_receipt = ''receipt-retention:'' @ rti_IdempotencyKey sample_retention_request"
    by (simp add: colliding_receipt_def sample_retention_request_def)
  from receipt_key_blocks_retention_update [OF r(1,2) ledger_steps.none this] RecordReceipt_first(4) [OF r(1,2)] r(3)
  show ?thesis by fastforce
qed

definition sample_query :: receipt_query where
  "sample_query =
     \<lparr>rq_AccountID = ''acct-1'', rq_OrganizationID = [], rq_WorkspaceID = [], rq_ProjectID = [], rq_TaskID = [],
      rq_JobID = [], rq_Type = [], rq_TypePrefix = [], rq_Status = [], rq_Cursor = [], rq_Limit = 1\<rparr>"

theorem receipt_pages_tile_witness:
  "\<exists>p. ListReceipts plain_codec sample_query sample_store = Inr p \<and> rp_Receipts p = take 1 (receipt_entries sample_query sample_store)"
proof -
  have q: "sample_query\<lparr>rq_Cursor := cursor_at (encodeReceiptCursor plain_codec) (receipt_entries sample_query sample_store) 0\<rparr> = sample_query"
    by (simp add: cursor_at_def sample_query_def)
  show ?thesis
    using receipt_pages_tile [OF sample_reachable plain_codec_ok, of sample_query 0, unfolded q]
    by (simp add: sample_query_def)
qed

definition sample_evidence_query :: evidence_query where
  "sample_evidence_query =
     \<lparr>eq_OperationID = ''op-1'', eq_CandidateSHA = [], eq_CandidateTree = [], eq_ImageDigest = [], eq_ReceiptID = [],
      eq_ReceiptType = [], eq_Status = [], eq_Cursor = [], eq_Limit = 0\<rparr>"

theorem evidence_export_complete_witness:
  "\<exists>x. ExportEvidenceIndex 10 plain_codec sample_evidence_query sample_store = Some x"
  using evidence_export_complete [OF sample_reachable plain_codec_ok, of 10 sample_evidence_query] by simp

end
