(* ===== verification/Ledger_Http_Examples.thy ===== *)
theory Ledger_Http_Examples
  imports Ledger_Http Ledger_Examples
begin

text \<open>
  The properties of the ledger's HTTP interface at concrete requests: a purchase receipt is posted to a
  new store, and read back, each with a capability. The codec of the example keeps texts as they are.
\<close>

definition claims_for :: "string \<Rightarrow> string \<Rightarrow> string \<Rightarrow> string \<Rightarrow> string \<Rightarrow> capability_claims" where
  "claims_for kind resource action operation body =
     \<lparr>cl_Version = 1, cl_Caller = ''control-plane'', cl_AccountID = ''acct-1'', cl_WorkspaceID = ''ws-1'',
      cl_ResourceKind = kind, cl_ResourceID = resource, cl_Action = action, cl_OperationID = operation,
      cl_ExpiresAt = unix_seconds sample_now + 60, cl_BodySHA256 = body\<rparr>"

definition sample_key :: string where
  "sample_key = ''op-1:purchase-receipt''"

definition sample_codec :: http_codec where
  "sample_codec =
     \<lparr>hx_sha256hex = (\<lambda>s. s), hx_hmac = (\<lambda>key s. key @ s), hx_base64 = Some,
      hx_claims = (\<lambda>s. if s = ''write'' then Some (claims_for ''receipt'' sample_key ''record_receipt'' sample_key ''body'')
                       else Some (claims_for ''receipt'' ''receipt_000001'' ''read_receipt'' ''request:GET /ledger/receipts/receipt_000001'' [])),
      hx_object = (\<lambda>_. Some (Some [(''accountId'', GStr ''acct-1''), (''workspaceId'', GStr ''ws-1'')])),
      hx_receipt = (\<lambda>_. Some sample_purchase_receipt), hx_retention = (\<lambda>_. None), hx_privacy = (\<lambda>_. None),
      hx_reconciliation = (\<lambda>_. None), hx_evidence = (\<lambda>_. None)\<rparr>"

definition sample_server :: ledger_server where
  "sample_server = \<lparr>sv_codec = sample_codec, sv_digest = sample_digest, sv_urls = sample_urls, sv_cursor = plain_codec,
     sv_token = ''t'', sv_capabilityKey = ''k''\<rparr>"

definition sample_header :: "string \<Rightarrow> string \<Rightarrow> string" where
  "sample_header capability name =
     (if name = ''Authorization'' then ''Bearer t'' else if name = ''Idempotency-Key'' then sample_key
      else if name = ledgerCapabilityHeader then capability else [])"

definition sample_post :: http_request where
  "sample_post = \<lparr>hr_Method = ''POST'', hr_Path = ''/ledger/receipts'', hr_Segments = [''ledger'', ''receipts''],
     hr_URI = ''/ledger/receipts'', hr_Query = (\<lambda>_. []), hr_Header = sample_header ''write.kwrite'', hr_Body = ''body''\<rparr>"

definition sample_get :: http_request where
  "sample_get = \<lparr>hr_Method = ''GET'', hr_Path = ''/ledger/receipts/receipt_000001'',
     hr_Segments = [''ledger'', ''receipts'', ''receipt_000001''], hr_URI = ''/ledger/receipts/receipt_000001'',
     hr_Query = (\<lambda>_. []), hr_Header = sample_header ''read.kread'', hr_Body = []\<rparr>"

lemma sample_decoder: "decoder_ok (sv_codec sample_server)"
  by (simp add: decoder_ok_def sample_server_def sample_codec_def)

lemma sample_post_changes:
  "snd (authorizeLedgerRequests sample_server sample_now (sample_now, sample_now) sample_post NewMemoryStore) \<noteq> NewMemoryStore"
proof -
  have "ms_nextID (snd (authorizeLedgerRequests sample_server sample_now (sample_now, sample_now) sample_post NewMemoryStore)) = 1"
    by code_simp
  then show ?thesis by (auto simp: NewMemoryStore_def)
qed

definition sample_read_scope :: capability_scope where
  "sample_read_scope = \<lparr>sc_AccountID = [], sc_WorkspaceID = [], sc_ResourceKind = ''receipt'', sc_ResourceID = ''receipt_000001'',
     sc_Action = ''read_receipt'', sc_OperationID = ''request:GET /ledger/receipts/receipt_000001''\<rparr>"

lemma sample_get_parts:
  "path_parts sample_get = [''ledger'', ''receipts'', ''receipt_000001'']"
  "ledgerCapabilityScopeForRequest sample_codec sample_get [] = Some sample_read_scope"
  "preverifyLedgerCapability sample_codec (hr_Header sample_get ledgerCapabilityHeader) ''k'' sample_read_scope [] (t_utc sample_now) =
     Some (claims_for ''receipt'' ''receipt_000001'' ''read_receipt'' ''request:GET /ledger/receipts/receipt_000001'' [])"
  "open_path sample_get = False" "hr_Header sample_get ''Authorization'' = ''Bearer t''"
  by code_simp+

definition sample_read_receipt :: receipt where
  "sample_read_receipt = clone_receipt (fresh_receipt sample_now sample_purchase_receipt NewMemoryStore)"

lemma sample_http_read: "Receipt ''receipt_000001'' sample_store = Inr sample_read_receipt"
  by (simp add: Receipt_def sample_stored sample_read_receipt_def)

lemma sample_read_owner: "ri_AccountID (rc_Input sample_read_receipt) = ''acct-1''" "ri_WorkspaceID (rc_Input sample_read_receipt) = ''ws-1''"
  by (simp_all add: sample_read_receipt_def fresh_receipt_def clone_receipt_def clone_receipt_input_def sample_purchase_receipt_def)

lemma sample_get_answered:
  "authorizeLedgerRequests sample_server sample_now (sample_now, sample_now) sample_get sample_store =
     ((200, AnsReceipt sample_read_receipt), sample_store)"
proof -
  have "enrichLedgerOwnerScope sample_get sample_store sample_read_scope =
      Some (sample_read_scope\<lparr>sc_AccountID := ''acct-1'', sc_WorkspaceID := ''ws-1''\<rparr>)"
    by (simp add: enrichLedgerOwnerScope_def sample_get_parts sample_http_read sample_read_owner sample_read_scope_def)
  moreover have "ledgerOwnerClaimsMatch
      (claims_for ''receipt'' ''receipt_000001'' ''read_receipt'' ''request:GET /ledger/receipts/receipt_000001'' [])
      (sample_read_scope\<lparr>sc_AccountID := ''acct-1'', sc_WorkspaceID := ''ws-1''\<rparr>)"
    by (simp add: ledgerOwnerClaimsMatch_def claims_for_def)
  moreover have "route sample_server (sample_now, sample_now) sample_get sample_store = ((200, AnsReceipt sample_read_receipt), sample_store)"
    by (simp add: route_def route_item_def sample_get_def get_method_def handle_read_receipt_def answer_def sample_http_read)
  moreover have "hr_Body sample_get = []" by (simp add: sample_get_def)
  ultimately show ?thesis
    by (simp add: authorizeLedgerRequests_def authenticate_def sample_get_parts sample_server_def)
qed

theorem http_request_is_one_command_witness:
  "ledger_reachable sample_digest sample_urls
     (snd (authorizeLedgerRequests sample_server sample_now (sample_now, sample_now) sample_post NewMemoryStore))"
  using http_request_is_one_command [of "(sample_now, sample_now)" sample_server sample_now sample_post NewMemoryStore]
    sample_clock sample_decoder reachable_new by (simp add: sample_server_def)

theorem ledger_write_needs_capability_witness:
  "bearer_ok sample_server sample_post \<and>
   (\<exists>claims. hx_claims sample_codec ''write'' = Some claims \<and> cl_Action claims = ''record_receipt'' \<and>
      cl_BodySHA256 claims = hx_sha256hex sample_codec (hr_Body sample_post))"
proof -
  have "sv_capabilityKey sample_server \<noteq> []" by (simp add: sample_server_def)
  from ledger_write_needs_capability [OF sample_post_changes this]
  have "bearer_ok sample_server sample_post" by blast
  then show ?thesis by (simp add: sample_codec_def claims_for_def sample_post_def)
qed

theorem ledger_reads_are_owner_bound_witness:
  "\<exists>scope owner claims. authorised sample_server sample_now sample_get sample_store scope owner claims \<and>
     ri_AccountID (rc_Input sample_read_receipt) \<in> {[], cl_AccountID claims}"
proof -
  have s: "sv_capabilityKey sample_server \<noteq> []" "plain_path sample_get" "get_method sample_get"
    "hr_Segments sample_get = [''ledger'', ''receipts'', ''receipt_000001'']"
    by (simp_all add: sample_server_def plain_path_def sample_get_def get_method_def)
  from ledger_reads_are_owner_bound [OF sample_reachable s(1,2) sample_get_answered] s(3,4) show ?thesis by blast
qed

end
