(* ===== verification/Text_Codec.thy ===== *)
theory Text_Codec
  imports Ledger_Http
begin

text \<open>
  A concrete encoding of lists of texts, for instances of the codecs that the components take as parameters.
\<close>

text \<open>Two letters per byte, and lists of texts separated by a period.\<close>

fun letters :: "string \<Rightarrow> string" where
  "letters [] = []"
| "letters (c # s) = byte (65 + code c div 16) # byte (65 + code c mod 16) # letters s"

fun unletters :: "string \<Rightarrow> string" where
  "unletters (a # b # s) = byte ((code a - 65) * 16 + (code b - 65)) # unletters s"
| "unletters _ = []"

fun join_texts :: "string list \<Rightarrow> string" where
  "join_texts [] = []"
| "join_texts (s # ss) = letters s @ CHR ''.'' # join_texts ss"

definition split_texts :: "string \<Rightarrow> string list" where
  "split_texts s = map unletters (butlast (split_char (CHR ''.'') s))"

definition int_of_text :: "string \<Rightarrow> int" where
  "int_of_text s =
     (let digits = (\<lambda>s. case parse_digits s of None \<Rightarrow> 0 | Some n \<Rightarrow> int n)
      in case s of [] \<Rightarrow> 0 | c # cs \<Rightarrow> if c = CHR ''-'' then - digits cs else digits s)"

lemma code_less: "code c < 256"
  by (simp add: code_def)

lemma byte_code: "byte (code c) = c"
  by (simp add: code_def byte_def)

lemma code_nibbles: "code (byte (65 + code c div 16)) = 65 + code c div 16" "code (byte (65 + code c mod 16)) = 65 + code c mod 16"
  using code_less [of c] by (auto intro!: code_byte)

lemma unletters_letters [simp]: "unletters (letters s) = s"
  by (induction s) (simp_all add: code_nibbles byte_code)

lemma letters_no_period: "CHR ''.'' \<notin> set (letters s)"
proof (induction s)
  case (Cons c s)
  have "code (CHR ''.'') = 46" by (simp add: code_def)
  then have "byte (65 + code c div 16) \<noteq> CHR ''.''" "byte (65 + code c mod 16) \<noteq> CHR ''.''"
    using code_nibbles [of c] by fastforce+
  with Cons show ?case by auto
qed simp

lemma split_join: "split_texts (join_texts ss) = ss"
proof -
  have "split_char (CHR ''.'') (join_texts ss) = map letters ss @ [[]]"
    by (induction ss) (simp_all add: split_char_app letters_no_period)
  then show ?thesis by (simp add: split_texts_def comp_def)
qed

lemma int_of_int_text: "int_of_text (int_text i) = i"
proof (cases "i < 0")
  case True
  then show ?thesis by (simp add: int_of_text_def int_text_def parse_digits_def dec_val_nat_text)
next
  case False
  obtain c cs where n: "nat_text (nat i) = c # cs" by (cases "nat_text (nat i)") auto
  with digits_nat_text [of "nat i"] have "c \<noteq> CHR ''-''" by (auto simp: is_digit_def code_def)
  with False n show ?thesis
    using dec_val_nat_text [of "nat i"] by (simp add: int_of_text_def int_text_def parse_digits_def)
qed

end
