(* ===== verification/Reconciliation_Examples.thy ===== *)
theory Reconciliation_Examples
  imports Ledger_Client Ledger_Http_Examples Text_Codec
begin

text \<open>
  The reconciliation and the ledger's client at concrete inputs: one billed compute resource with the
  evidence of the Gateway, the provider and the ledger, and a pair of encoders that satisfies the laws the
  client relies on.
\<close>

section \<open>A billed resource with its evidence\<close>

definition sample_row :: gomap where
  "sample_row = Some [(''id'', GStr ''c-1''), (''accountId'', GStr ''acct-1''), (''workspaceId'', GStr ''ws-1''),
     (''billingStatus'', GStr ''active''), (''billingOperationId'', GStr ''op-1''), (''sub2apiRedeemCode'', GStr ''rc-1''),
     (''chargeUsdMicros'', GInt KInt64 100), (''providerResourceId'', GStr ''ins-1''), (''lastReceiptId'', GStr ''receipt_000001''),
     (''paidThrough'', GStr ''2026-08-01T00:00:00Z'')]"

definition sample_old_receipt :: client_receipt where
  "sample_old_receipt = \<lparr>cr_ReceiptID = ''receipt_000001'', cr_Type = ''billing.resource_purchased.v1'', cr_Status = ''completed'',
     cr_AccountID = ''acct-1'', cr_WorkspaceID = ''ws-1'', cr_RequestID = ''op-1'',
     cr_Cost = Some [(''resourceType'', GStr ''compute''), (''resourceId'', GStr ''c-1''), (''chargeUsdMicros'', GNum ''100'')]\<rparr>"

definition sample_history :: "int \<Rightarrow> string list \<Rightarrow> string + (string \<times> history_entry) list" where
  "sample_history user codes = Inr [(''rc-1'', \<lparr>he_Code = ''rc-1'', he_Type = ''balance'', he_ValueUSDMicros = - 100,
     he_Status = ''used'', he_UsedBy = Some user, he_UsedAt = None, he_CreatedAt = sample_now\<rparr>)]"

definition sample_source :: "receipt_lister \<Rightarrow> reconciliation_source" where
  "sample_source lister =
     \<lparr>rs_computes = Inr [sample_row], rs_storages = Inr [], rs_workspaces = Inr [], rs_renewals = Inr [],
      rs_accounts = Inr sample_accounts, rs_unmarshal = (\<lambda>_. None), rs_history = sample_history,
      rs_receipts = Some lister, rs_facts = Some sample_facts_client, rs_sha1hex = (\<lambda>s. s)\<rparr>"

definition old_receipts :: receipt_lister where
  "old_receipts q = Inr \<lparr>cp_Receipts = [sample_old_receipt], cp_NextCursor = [], cp_HasMore = False\<rparr>"

definition sample_resource :: reconciliation_resource where
  "sample_resource = \<lparr>rr_type = ''compute'', rr_row = sample_row\<rparr>"

lemma sample_resources: "report_resources (sample_source lister) = Inr [sample_resource]"
  by (simp add: report_resources_def sample_source_def reconciliation_resources_def workspace_renewals_def
      billed_rows_def sample_resource_def sample_row_def mget_def stringValue_def Let_def)

lemma sample_codes: "report_codes (sample_source old_receipts) [sample_resource] sample_resource = []"
  by code_simp

lemma sample_report:
  "\<exists>report. billingReconciliationReport (sample_source old_receipts) ''k'' = Inr report \<and> mget report ''status'' = GStr ''ok''"
  using sample_codes
  by (simp add: billingReconciliationReport_def sample_resources resources_report_alt report_exceptions_def
      reconciliationReport_def mget_def)

theorem green_report_is_backed_witness:
  "\<exists>fs facts. sub2APIUserID (Inr sample_accounts) ''acct-1'' = Inr (af_userID facts) \<and> resource_backed fs facts sample_resource"
proof -
  from sample_report obtain report where "billingReconciliationReport (sample_source old_receipts) ''k'' = Inr report"
    "mget report ''status'' = GStr ''ok''" by blast
  from green_report_is_backed [OF this] show ?thesis
    by (auto simp: sample_resources) (auto simp: sample_source_def sample_resource_def sample_row_def mget_def stringValue_def)
qed

theorem report_accepted_unless_provider_exception_witness:
  "\<exists>report. billingReconciliationReport (sample_source old_receipts) ''k'' = Inr report \<and> validateReconciliationReport report = None"
proof -
  from sample_report obtain report where r: "billingReconciliationReport (sample_source old_receipts) ''k'' = Inr report" by blast
  have "isOpaqueReference (stringValue (mget (rr_row sample_resource) ''id''))" by code_simp
  then have "validateReconciliationReport report = None"
    using report_accepted_unless_provider_exception [OF r sample_resources] by (simp add: sample_codes)
  with r show ?thesis by blast
qed

section \<open>Encoders that satisfy the laws\<close>

definition claims_text :: "capability_claims \<Rightarrow> string" where
  "claims_text c = join_texts [int_text (cl_Version c), cl_Caller c, cl_AccountID c, cl_WorkspaceID c, cl_ResourceKind c,
     cl_ResourceID c, cl_Action c, cl_OperationID c, int_text (cl_ExpiresAt c), cl_BodySHA256 c]"

definition claims_of_text :: "string \<Rightarrow> capability_claims option" where
  "claims_of_text s =
     (case split_texts s of
        [v, caller, account, workspace, kind, resource, action, operation, expires, body] \<Rightarrow>
          Some \<lparr>cl_Version = int_of_text v, cl_Caller = caller, cl_AccountID = account, cl_WorkspaceID = workspace,
            cl_ResourceKind = kind, cl_ResourceID = resource, cl_Action = action, cl_OperationID = operation,
            cl_ExpiresAt = int_of_text expires, cl_BodySHA256 = body\<rparr>
      | _ \<Rightarrow> None)"

definition owner_object :: "string \<Rightarrow> gomap option" where
  "owner_object s =
     (case split_texts s of
        [account, workspace] \<Rightarrow>
          Some (Some ((if account = [] then [] else [(''accountId'', GStr account)]) @ [(''workspaceId'', GStr workspace)]))
      | _ \<Rightarrow> None)"

definition full_codec :: client_codec where
  "full_codec =
     \<lparr>ck_server = sample_codec\<lparr>hx_base64 := (\<lambda>s. Some (unletters s)), hx_claims := claims_of_text, hx_object := owner_object\<rparr>,
      ck_base64 = letters, ck_claims = claims_text,
      ck_receipt = (\<lambda>i. join_texts [ri_AccountID i, ri_WorkspaceID i]), ck_float = (\<lambda>_. ''0''),
      ck_page_size = (\<lambda>p. 1024 * length (rp_Receipts p))\<rparr>"

definition full_server :: ledger_server where
  "full_server = sample_server\<lparr>sv_codec := ck_server full_codec\<rparr>"

definition full_client :: ledger_client where
  "full_client = \<lparr>lc_codec = full_codec, lc_token = ''t'', lc_capabilityKey = ''k''\<rparr>"

lemma full_codec_ok: "client_codec_ok full_codec"
  by (simp add: client_codec_ok_def full_codec_def letters_no_period claims_text_def claims_of_text_def split_join int_of_int_text del: join_texts.simps)

lemma full_client_of: "client_of full_client full_server"
  using full_codec_ok by (simp add: client_of_def full_client_def full_server_def sample_server_def)

lemma full_encoder: "receipt_encoder_ok full_codec"
proof -
  have ne: "join_texts [a, b] \<noteq> []" for a b by simp
  show ?thesis
    by (simp add: ne receipt_encoder_ok_def full_codec_def owner_object_def split_join mget_def del: join_texts.simps)
qed

lemma full_clocks: "clocks_agree sample_now sample_now"
  by (simp add: clocks_agree_def)

theorem signed_receipt_is_served_witness:
  "authorizeLedgerRequests full_server sample_now (sample_now, sample_now)
      (record_receipt_request full_client sample_purchase_receipt sample_key sample_now) NewMemoryStore =
   handle_record_receipt (sv_codec full_server) (sv_digest full_server) sample_now
      (record_receipt_request full_client sample_purchase_receipt sample_key sample_now) NewMemoryStore"
proof -
  have "trim_space sample_key = sample_key" "sample_key \<noteq> []"
    "trim_space (ri_AccountID sample_purchase_receipt) = ri_AccountID sample_purchase_receipt"
    "trim_space (ri_WorkspaceID sample_purchase_receipt) = ri_WorkspaceID sample_purchase_receipt"
    "length (ck_receipt (lc_codec full_client) sample_purchase_receipt) \<le> maxJSONBodyBytes"
    by code_simp+
  from signed_receipt_is_served [OF full_client_of _ full_clocks this] full_encoder show ?thesis
    by (simp add: full_client_def)
qed

lemma full_link: "ledger_link full_client full_server (sample_now, sample_now, sample_now, sample_now) sample_store"
  using full_client_of plain_codec_ok sample_reachable full_clocks
  by (simp add: ledger_link_def full_server_def sample_server_def full_client_def full_codec_def maxLedgerResponseBytes_def)



end
