(* ===== verification/Wallet_Adjustment.thy ===== *)
theory Wallet_Adjustment
  imports Monthly_Billing Gateway_Client Ledger_Types
begin

text \<open>
  Operator adjustments of a Gateway wallet
  (\<^verbatim>\<open>services/control-plane/internal/server/wallet_adjustment.go\<close>): a recharge, a debit or a refund is an
  operation that is stored after every phase, moves money once, and ends succeeded, failed or in manual
  review, from where an operator recovers it.

  The world is the table of runtime operations with the trace of the calls made so far. What the Gateway,
  the ledger, the clock and the tables answer is given by a record of functions of that trace, so nothing
  is assumed about answers that change between calls. A save either succeeds, fails without effect, or
  fails after the row was stored.
\<close>

section \<open>Requests and operations\<close>

datatype wallet_error = WalletAccount | WalletConflict | WalletState | WalletUpstream | WalletIdempotency

record wallet_request =
  wq_Kind :: string
  wq_AmountUSD :: string
  wq_Reason :: string
  wq_RelatedOperationID :: string
  wq_ConfirmationAccountID :: string

record wallet_recovery_request =
  wv_AccountID :: string
  wv_EvidenceRef :: string

record wallet_failure =
  wf_Phase :: string
  wf_HTTPStatus :: int
  wf_ErrorCode :: string
  wf_RequestID :: string

record wallet_operation =
  wa_RequestHash :: string
  wa_Phase :: string
  wa_AccountID :: string
  wa_Sub2APIUserID :: int
  wa_Kind :: string
  wa_AmountUSDMicros :: int
  wa_AmountUSD :: string
  wa_Reason :: string
  wa_RelatedOperationID :: string
  wa_ActorUserID :: string
  wa_CanonicalRedeemCode :: string
  wa_RedeemCodeVersion :: string
  wa_LegacySupersession :: string
  wa_AdjustmentAttempted :: bool
  wa_BeforeBalanceKnown :: bool
  wa_BeforeBalanceMicros :: int
  wa_BeforeBalanceReadAt :: string
  wa_AfterBalanceKnown :: bool
  wa_AfterBalanceMicros :: int
  wa_AfterBalanceReadAt :: string
  wa_BalanceHistoryRef :: string
  wa_BalanceHistoryUsedAt :: string
  wa_ReceiptID :: string
  wa_ErrorCode :: string
  wa_RecoveryRequestHash :: string
  wa_RecoveryAttempted :: bool
  wa_RecoveryEvidenceRef :: string
  wa_RecoveryActorUserID :: string
  wa_RecoveryAuthorizedAt :: string
  wa_UpstreamFailure :: "wallet_failure option"
  wa_CreatedAt :: string
  wa_UpdatedAt :: string
  wa_Status :: string

section \<open>Amounts and codes\<close>

text \<open>
  UTF-8 as Go decodes it: the width of the first rune, one byte where the encoding is invalid.
\<close>

definition in_bytes :: "nat \<Rightarrow> nat \<Rightarrow> char \<Rightarrow> bool" where
  "in_bytes lo hi c \<longleftrightarrow> lo \<le> code c \<and> code c \<le> hi"

definition continues :: "nat \<Rightarrow> nat \<Rightarrow> nat \<Rightarrow> string \<Rightarrow> bool" where
  "continues lo hi n s \<longleftrightarrow>
     n \<le> length s \<and> in_bytes lo hi (s ! 0) \<and> list_all (in_bytes 128 191) (take (n - 1) (drop 1 s))"

definition rune_width :: "char \<Rightarrow> string \<Rightarrow> nat" where
  "rune_width c s =
     (let b = code c in
      if b < 128 then 1
      else if 194 \<le> b \<and> b \<le> 223 \<and> continues 128 191 1 s then 2
      else if b = 224 \<and> continues 160 191 2 s then 3
      else if b = 237 \<and> continues 128 159 2 s then 3
      else if 225 \<le> b \<and> b \<le> 239 \<and> b \<noteq> 237 \<and> continues 128 191 2 s then 3
      else if b = 240 \<and> continues 144 191 3 s then 4
      else if 241 \<le> b \<and> b \<le> 243 \<and> continues 128 191 3 s then 4
      else if b = 244 \<and> continues 128 143 3 s then 4
      else 1)"

fun runes :: "nat \<Rightarrow> string \<Rightarrow> string list" where
  "runes n [] = []"
| "runes 0 (c # s) = []"
| "runes (Suc n) (c # s) = (let w = rune_width c s in take w (c # s) # runes n (drop w (c # s)))"

definition rune_list :: "string \<Rightarrow> string list" where
  "rune_list s = runes (length s) s"

text \<open>\<^verbatim>\<open>unicode.IsControl\<close>: U+0000 to U+001F and U+007F to U+009F.\<close>

definition control_rune :: "string \<Rightarrow> bool" where
  "control_rune r \<longleftrightarrow>
     (case r of
        [c] \<Rightarrow> code c < 32 \<or> code c = 127
      | [c, d] \<Rightarrow> code c = 194 \<and> 128 \<le> code d \<and> code d \<le> 159
      | _ \<Rightarrow> False)"

text \<open>The pattern \<^verbatim>\<open>^(0|[1-9][0-9]{0,12})(\.[0-9]{1,6})?$\<close>.\<close>

definition walletAmountPattern :: "string \<Rightarrow> bool" where
  "walletAmountPattern s =
     (let whole = takeWhile is_digit s; rest = dropWhile is_digit s
      in (whole = ''0'' \<or> (whole \<noteq> [] \<and> hd whole \<noteq> CHR ''0'' \<and> length whole \<le> 13)) \<and>
         (rest = [] \<or> (hd rest = CHR ''.'' \<and> tl rest \<noteq> [] \<and> length (tl rest) \<le> 6 \<and> list_all is_digit (tl rest))))"

definition related_char :: "char \<Rightarrow> bool" where
  "related_char c \<longleftrightarrow> is_lower c \<or> is_upper c \<or> is_digit c \<or> c \<in> set ''._:-''"

definition walletRelatedOperationPattern :: "string \<Rightarrow> bool" where
  "walletRelatedOperationPattern s \<longleftrightarrow>
     s \<noteq> [] \<and> (is_lower (hd s) \<or> is_upper (hd s) \<or> is_digit (hd s)) \<and> length s \<le> 200 \<and> list_all related_char (tl s)"

text \<open>
  \<^verbatim>\<open>ParseUSDDecimalMicros\<close> on the texts of the amount pattern, the only ones it is called with here: the
  decimal times a million, where that is an integer of 64 bits.
\<close>

definition ParseUSDDecimalMicros :: "string \<Rightarrow> int option" where
  "ParseUSDDecimalMicros s =
     (let whole = takeWhile is_digit s; fraction = drop 1 (dropWhile is_digit s)
      in case parse_digits (whole @ fraction) of
           None \<Rightarrow> None
         | Some n \<Rightarrow>
             (let micros = int n * 1000000 div 10 ^ length fraction
              in if 10 ^ length fraction dvd int n * 1000000 \<and> in_int64 micros then Some micros else None))"

definition formatWalletUSD :: "int \<Rightarrow> string" where
  "formatWalletUSD micros =
     (let whole = micros div 1000000; fraction = micros mod 1000000;
          decimal = rev (dropWhile (\<lambda>c. c = CHR ''0'') (rev (pad_text 6 (nat fraction))));
          decimal = (if length decimal < 2 then decimal @ replicate (2 - length decimal) (CHR ''0'') else decimal)
      in int_text whole @ ''.'' @ decimal)"

definition validWalletAdjustmentRequest :: "wallet_request \<Rightarrow> string \<Rightarrow> string \<Rightarrow> int option" where
  "validWalletAdjustmentRequest input accountID key =
     (let reason = trim_space (wq_Reason input); related = trim_space (wq_RelatedOperationID input); kind = wq_Kind input in
      if \<not> validAccountID accountID \<or> wq_ConfirmationAccountID input \<noteq> accountID \<or> trim_space key \<noteq> key \<or> length key > 200 \<or>
         (kind \<noteq> ''recharge'' \<and> kind \<noteq> ''debit'' \<and> kind \<noteq> ''business_refund'') \<or>
         wq_AmountUSD input \<noteq> trim_space (wq_AmountUSD input) \<or> \<not> walletAmountPattern (wq_AmountUSD input) \<or>
         reason = [] \<or> reason \<noteq> wq_Reason input \<or> length (rune_list reason) > 200 \<or> list_ex control_rune (rune_list reason)
      then None
      else if kind = ''business_refund'' \<and>
         (related = [] \<or> related \<noteq> wq_RelatedOperationID input \<or> \<not> walletRelatedOperationPattern related)
      then None
      else if kind \<noteq> ''business_refund'' \<and> related \<noteq> [] then None
      else (case ParseUSDDecimalMicros (wq_AmountUSD input) of
              None \<Rightarrow> None
            | Some amount \<Rightarrow> if amount > 0 then Some amount else None))"

definition walletAdjustmentRedeemCode :: "(string \<Rightarrow> string) \<Rightarrow> string \<Rightarrow> string" where
  "walletAdjustmentRedeemCode sha1hex operationID =
     ''opl:'' @ take 28 (stableID sha1hex [''sub2api-wallet-adjustment-v2'', operationID])"

definition legacyWalletAdjustmentRedeemCode :: "(string \<Rightarrow> string) \<Rightarrow> string \<Rightarrow> string" where
  "legacyWalletAdjustmentRedeemCode sha1hex operationID =
     ''opl:wallet-adjustment:'' @ take 24 (stableID sha1hex [operationID]) @ '':v1''"

definition walletAdjustmentBalanceHistoryRef :: "(string \<Rightarrow> string) \<Rightarrow> int \<Rightarrow> history_entry \<Rightarrow> string" where
  "walletAdjustmentBalanceHistoryRef sha1hex userID entry =
     ''sub2api:balance-history:'' @ int_text userID @ '':'' @
     take 18 (stableID sha1hex [he_Code entry, rfc3339_nano (he_CreatedAt entry)])"

datatype history_state = Absent | HistoryConflict | Confirmed history_entry

definition inspectWalletAdjustmentHistory :: "(string \<times> history_entry) list \<Rightarrow> string \<Rightarrow> wallet_operation \<Rightarrow> history_state" where
  "inspectWalletAdjustmentHistory history redeem op =
     (let signed = (if wa_Kind op = ''debit'' then wrap64 (- wa_AmountUSDMicros op) else wa_AmountUSDMicros op) in
      case map_of history redeem of
        None \<Rightarrow> Absent
      | Some entry \<Rightarrow>
          if he_Type entry \<noteq> ''balance'' \<or> he_Status entry \<noteq> ''used'' \<or> he_UsedBy entry \<noteq> Some (wa_Sub2APIUserID op) \<or>
             he_UsedAt entry = None \<or> he_ValueUSDMicros entry \<noteq> signed
          then HistoryConflict else Confirmed entry)"

definition confirmWalletAdjustmentHistory :: "(string \<times> history_entry) list \<Rightarrow> string \<Rightarrow> wallet_operation \<Rightarrow> history_entry option" where
  "confirmWalletAdjustmentHistory history redeem op =
     (case inspectWalletAdjustmentHistory history redeem op of Confirmed entry \<Rightarrow> Some entry | _ \<Rightarrow> None)"

section \<open>The world\<close>

record failure_details =
  fd_HTTPStatus :: int
  fd_ErrorCode :: string
  fd_RequestID :: string

text \<open>
  An error of the Gateway client: whether it is \<^verbatim>\<open>ErrSub2APIChargeUnknown\<close> or \<^verbatim>\<open>ErrSub2APIChargeConflict\<close>,
  and what \<^verbatim>\<open>Sub2APIFailure\<close> finds in it.
\<close>

record upstream_error =
  ue_ChargeUnknown :: bool
  ue_ChargeConflict :: bool
  ue_Details :: "failure_details option"

record gateway_balance =
  gb_UserID :: int
  gb_USDMicros :: int
  gb_Status :: string

record gateway_identity =
  gi_ID :: int
  gi_Email :: string
  gi_Status :: string

record money_input =
  mi_UserID :: int
  mi_Code :: string
  mi_USDMicros :: int
  mi_Notes :: string

datatype save_outcome = Saved | SaveRefused | SaveUnanswered

datatype wallet_effect =
    Clock
  | ReadBalance int
  | ReadHistory int "string list"
  | SaveOperation string wallet_operation save_outcome
  | Charge string money_input
  | Refund string money_input
  | RecordLedgerReceipt receipt_input string
  | SaveAudit gomap

record wallet_codec =
  wc_sha1hex :: "string \<Rightarrow> string"
  wc_marshal :: "wallet_operation \<Rightarrow> string"
  wc_unmarshal :: "string \<Rightarrow> wallet_operation option"
  wc_object :: "string \<Rightarrow> gomap option" \<comment> \<open>a JSON object, numbers as literals\<close>
  wc_address :: "string \<Rightarrow> bool" \<comment> \<open>\<^verbatim>\<open>mail.ParseAddress\<close> gives the address itself\<close>

record wallet_env =
  we_now :: "wallet_effect list \<Rightarrow> gotime"
  we_balance :: "wallet_effect list \<Rightarrow> int \<Rightarrow> upstream_error + gateway_balance"
  we_history :: "wallet_effect list \<Rightarrow> int \<Rightarrow> string list \<Rightarrow> upstream_error + (string \<times> history_entry) list"
  we_charge :: "wallet_effect list \<Rightarrow> money_input \<Rightarrow> upstream_error option"
  we_refund :: "wallet_effect list \<Rightarrow> money_input \<Rightarrow> upstream_error option"
  we_receipt :: "wallet_effect list \<Rightarrow> receipt_input \<Rightarrow> string \<Rightarrow> string option" \<comment> \<open>the identifier of the receipt\<close>
  we_save :: "wallet_effect list \<Rightarrow> gomap \<Rightarrow> save_outcome"
  we_audit :: "wallet_effect list \<Rightarrow> gomap \<Rightarrow> bool" \<comment> \<open>whether the event was saved\<close>
  we_table_down :: "wallet_effect list \<Rightarrow> bool" \<comment> \<open>reads of the tables fail\<close>
  we_account :: "wallet_effect list \<Rightarrow> string \<Rightarrow> gomap"
  we_user :: "wallet_effect list \<Rightarrow> string \<Rightarrow> gomap"
  we_identity :: "wallet_effect list \<Rightarrow> int \<Rightarrow> gateway_identity option"

record wallet_world =
  ww_table :: "(string \<times> gomap) list"
  ww_trace :: "wallet_effect list"

text \<open>The row of an operation.\<close>

definition wallet_row :: "wallet_codec \<Rightarrow> string \<Rightarrow> wallet_operation \<Rightarrow> gomap" where
  "wallet_row wc operationID op =
     Some [(''id'', GStr operationID), (''operationId'', GStr operationID), (''accountId'', GStr (wa_AccountID op)),
       (''resourceId'', GStr (wa_AccountID op)), (''resourceKind'', GStr ''gateway_wallet''),
       (''action'', GStr ''gateway.wallet_adjustment.v1''), (''status'', GStr (wa_Status op)),
       (''result'', GStr (wc_marshal wc op)), (''createdAt'', GStr (wa_CreatedAt op))]"

definition apply_effect :: "wallet_codec \<Rightarrow> wallet_effect \<Rightarrow> wallet_world \<Rightarrow> wallet_world" where
  "apply_effect wc e w =
     w\<lparr>ww_trace := ww_trace w @ [e],
       ww_table := (case e of
           SaveOperation operationID op outcome \<Rightarrow>
             if outcome = SaveRefused then ww_table w else AList.update operationID (wallet_row wc operationID op) (ww_table w)
         | _ \<Rightarrow> ww_table w)\<rparr>"

definition clock :: "wallet_codec \<Rightarrow> wallet_env \<Rightarrow> wallet_world \<Rightarrow> string \<times> wallet_world" where
  "clock wc env w = (rfc3339_nano (t_utc (we_now env (ww_trace w))), apply_effect wc Clock w)"

definition Sub2APIBalance :: "wallet_codec \<Rightarrow> wallet_env \<Rightarrow> int \<Rightarrow> wallet_world \<Rightarrow> (upstream_error + gateway_balance) \<times> wallet_world" where
  "Sub2APIBalance wc env user w = (we_balance env (ww_trace w) user, apply_effect wc (ReadBalance user) w)"

definition FinancialBalanceHistoryByCodes ::
    "wallet_codec \<Rightarrow> wallet_env \<Rightarrow> int \<Rightarrow> string list \<Rightarrow> wallet_world \<Rightarrow> (upstream_error + (string \<times> history_entry) list) \<times> wallet_world" where
  "FinancialBalanceHistoryByCodes wc env user codes w =
     (we_history env (ww_trace w) user codes, apply_effect wc (ReadHistory user codes) w)"

text \<open>The money of an operation is moved under its redeem code.\<close>

definition money_of :: "wallet_operation \<Rightarrow> money_input" where
  "money_of op = \<lparr>mi_UserID = wa_Sub2APIUserID op, mi_Code = wa_CanonicalRedeemCode op, mi_USDMicros = wa_AmountUSDMicros op,
     mi_Notes = wa_Reason op\<rparr>"

definition move_money :: "wallet_codec \<Rightarrow> wallet_env \<Rightarrow> string \<Rightarrow> wallet_operation \<Rightarrow> wallet_world \<Rightarrow> upstream_error option \<times> wallet_world" where
  "move_money wc env operationID op w =
     (if wa_Kind op = ''debit''
      then (we_charge env (ww_trace w) (money_of op), apply_effect wc (Charge operationID (money_of op)) w)
      else (we_refund env (ww_trace w) (money_of op), apply_effect wc (Refund operationID (money_of op)) w))"

section \<open>Storing an operation\<close>

text \<open>The operation with its new time, and whether the save reported success.\<close>

definition persistWalletAdjustment ::
    "wallet_codec \<Rightarrow> wallet_env \<Rightarrow> string \<Rightarrow> wallet_operation \<Rightarrow> wallet_world \<Rightarrow> wallet_operation \<times> bool \<times> wallet_world" where
  "persistWalletAdjustment wc env operationID op w =
     (let op = (if wa_Status op = ''pending'' \<and> wa_CanonicalRedeemCode op = [] \<and> wa_RedeemCodeVersion op = [] \<and>
                   wa_LegacySupersession op = [] \<and> wa_RecoveryRequestHash op = []
                then op\<lparr>wa_CanonicalRedeemCode := walletAdjustmentRedeemCode (wc_sha1hex wc) operationID, wa_RedeemCodeVersion := ''v2''\<rparr>
                else op);
          (now, w) = clock wc env w;
          op = op\<lparr>wa_UpdatedAt := now\<rparr>;
          outcome = we_save env (ww_trace w) (wallet_row wc operationID op)
      in (op, outcome = Saved, apply_effect wc (SaveOperation operationID op outcome) w))"

definition decodeWalletAdjustment :: "wallet_codec \<Rightarrow> gomap \<Rightarrow> wallet_error + wallet_operation" where
  "decodeWalletAdjustment wc row =
     (let str = (\<lambda>k. stringValue (mget row k)) in
      if str ''action'' \<noteq> ''gateway.wallet_adjustment.v1'' then Inl WalletState
      else
        (case wc_unmarshal wc (str ''result'') of
           None \<Rightarrow> Inl WalletState
         | Some decoded \<Rightarrow>
             (let op = decoded\<lparr>wa_Status := str ''status''\<rparr>; super = wa_LegacySupersession op;
                  v2Identity = (wa_RedeemCodeVersion op = ''v2'' \<and>
                    wa_CanonicalRedeemCode op = walletAdjustmentRedeemCode (wc_sha1hex wc) (str ''id''));
                  legacyReadOnly = (wa_RedeemCodeVersion op = [] \<and> wa_CanonicalRedeemCode op = [] \<and>
                    (wa_Status op = ''manual_review'' \<or> super = ''legacy_history_confirmed''));
                  validSupersession = (super \<in> {[], ''legacy_history_confirmed'', ''v2_history_confirmed'', ''v2_adopted''})
              in if wa_RequestHash op = [] \<or> wa_AccountID op = [] \<or> wa_Sub2APIUserID op \<le> 0 \<or> wa_ActorUserID op = [] \<or>
                    wa_CreatedAt op = [] \<or> wa_UpdatedAt op = [] \<or> wa_AmountUSDMicros op \<le> 0 \<or>
                    str ''accountId'' \<noteq> wa_AccountID op \<or> str ''resourceId'' \<noteq> wa_AccountID op \<or>
                    str ''resourceKind'' \<noteq> ''gateway_wallet'' \<or> wa_Status op = [] \<or>
                    (\<not> v2Identity \<and> \<not> legacyReadOnly) \<or> \<not> validSupersession \<or>
                    (super = ''legacy_history_confirmed'' \<and> \<not> legacyReadOnly) \<or>
                    ((super = ''v2_history_confirmed'' \<or> super = ''v2_adopted'') \<and> \<not> v2Identity) \<or>
                    (super = ''v2_adopted'' \<and> \<not> wa_RecoveryAttempted op) \<or>
                    (wa_RecoveryRequestHash op \<noteq> [] \<and>
                      (wa_RecoveryEvidenceRef op = [] \<or> wa_RecoveryActorUserID op = [] \<or> wa_RecoveryAuthorizedAt op = []))
                 then Inl WalletState else Inr op)))"

definition walletAdjustment ::
    "wallet_codec \<Rightarrow> wallet_env \<Rightarrow> string \<Rightarrow> string \<Rightarrow> wallet_world \<Rightarrow> wallet_error + wallet_operation option" where
  "walletAdjustment wc env operationID requestHash w =
     (if operationID = [] then Inr None
      else if we_table_down env (ww_trace w) then Inl WalletState
      else
        (case map_of (ww_table w) operationID of
           None \<Rightarrow> Inr None
         | Some row \<Rightarrow>
             (case decodeWalletAdjustment wc row of
                Inl _ \<Rightarrow> Inl WalletState
              | Inr op \<Rightarrow>
                  if requestHash \<noteq> [] \<and> wa_RequestHash op \<noteq> requestHash then Inl WalletIdempotency else Inr (Some op))))"

section \<open>Evidence\<close>

definition recordWalletAdjustmentUpstreamFailure ::
    "string \<Rightarrow> upstream_error option \<Rightarrow> string \<Rightarrow> wallet_operation \<Rightarrow> wallet_operation" where
  "recordWalletAdjustmentUpstreamFailure phase err fallbackCode op =
     (case Option.bind err ue_Details of
        None \<Rightarrow>
          if wa_UpstreamFailure op \<noteq> None then op
          else op\<lparr>wa_UpstreamFailure := Some \<lparr>wf_Phase = phase, wf_HTTPStatus = 0, wf_ErrorCode = fallbackCode, wf_RequestID = []\<rparr>\<rparr>
      | Some details \<Rightarrow>
          op\<lparr>wa_UpstreamFailure := Some \<lparr>wf_Phase = phase, wf_HTTPStatus = fd_HTTPStatus details,
               wf_ErrorCode = (if fd_ErrorCode details = [] then fallbackCode else fd_ErrorCode details),
               wf_RequestID = fd_RequestID details\<rparr>\<rparr>)"

definition walletBalanceEnvelope :: "bool \<Rightarrow> int \<Rightarrow> string \<Rightarrow> goval" where
  "walletBalanceEnvelope known micros fetchedAt =
     GObj ([(''source'', GStr ''sub2api''), (''status'', GStr (if known then ''available'' else ''unavailable'')),
            (''available'', GBool known), (''fetchedAt'', GStr fetchedAt)] @
       (if known then [(''data'', GObj [(''currency'', GStr ''USD''), (''usdMicros'', GStr (int_text micros))])] else []))"

text \<open>What an audit event says about the request: the session's user, a system actor, address and agent.\<close>

record audit_request =
  ar_user :: gomap
  ar_system :: "(string \<times> string \<times> string) option"
  ar_ip :: string
  ar_agent :: string

definition valid_rune :: "string \<Rightarrow> bool" where
  "valid_rune r \<longleftrightarrow> (case r of [c] \<Rightarrow> code c < 128 | _ \<Rightarrow> True)"

fun shrink_valid :: "nat \<Rightarrow> string \<Rightarrow> string" where
  "shrink_valid 0 v = []"
| "shrink_valid (Suc n) v =
     (if list_all valid_rune (rune_list (take (Suc n) v)) then take (Suc n) v else shrink_valid n v)"

definition boundedAuditText :: "string \<Rightarrow> nat \<Rightarrow> string" where
  "boundedAuditText v maxBytes =
     (let v = concat (filter valid_rune (rune_list v)) in if length v \<le> maxBytes then v else shrink_valid maxBytes v)"

definition auditEvent ::
    "wallet_codec \<Rightarrow> audit_request \<Rightarrow> string \<Rightarrow> string \<Rightarrow> string \<Rightarrow> string \<Rightarrow> goval \<Rightarrow> goval \<Rightarrow> string \<Rightarrow> gotime \<Rightarrow> gomap" where
  "auditEvent wc r action resourceKind resourceID targetAccountID before after result instant =
     (let user = (\<lambda>k. stringValue (mget (ar_user r) k));
          (actorID, role, account) = (case ar_system r of Some a \<Rightarrow> a | None \<Rightarrow> (user ''id'', user ''role'', user ''accountId''));
          now = rfc3339_utc (t_utc instant)
      in Some [(''id'', GStr (''audit-'' @ take 12 (stableID (wc_sha1hex wc) [action, resourceKind, resourceID, now]))),
           (''actorUserId'', GStr actorID), (''actorRole'', GStr role), (''actorAccountId'', GStr account),
           (''targetAccountId'', GStr targetAccountID), (''action'', GStr action), (''resourceKind'', GStr resourceKind),
           (''resourceId'', GStr resourceID), (''ipAddress'', GStr (boundedAuditText (ar_ip r) 64)),
           (''userAgent'', GStr (boundedAuditText (ar_agent r) 512)), (''before'', before), (''after'', after),
           (''result'', GStr result), (''createdAt'', GStr now)])"

definition save_audit :: "wallet_codec \<Rightarrow> wallet_env \<Rightarrow> gomap \<Rightarrow> wallet_world \<Rightarrow> bool \<times> wallet_world" where
  "save_audit wc env event w = (we_audit env (ww_trace w) event, apply_effect wc (SaveAudit event) w)"

definition saveWalletAdjustmentAudit ::
    "wallet_codec \<Rightarrow> wallet_env \<Rightarrow> audit_request \<Rightarrow> string \<Rightarrow> wallet_operation \<Rightarrow> string \<Rightarrow> wallet_world \<Rightarrow> bool \<times> wallet_world" where
  "saveWalletAdjustmentAudit wc env r operationID op result w =
     (let before = GObj [(''balance'', walletBalanceEnvelope (wa_BeforeBalanceKnown op) (wa_BeforeBalanceMicros op) (wa_BeforeBalanceReadAt op))];
          after = GObj ([(''kind'', GStr (wa_Kind op)), (''amountUsd'', GStr (wa_AmountUSD op)), (''reason'', GStr (wa_Reason op)),
              (''status'', GStr result),
              (''balance'', walletBalanceEnvelope (wa_AfterBalanceKnown op) (wa_AfterBalanceMicros op) (wa_AfterBalanceReadAt op))] @
            (if wa_RelatedOperationID op \<noteq> [] then [(''relatedOperationId'', GStr (wa_RelatedOperationID op))] else []) @
            (if wa_BalanceHistoryRef op \<noteq> [] then [(''balanceHistoryRef'', GStr (wa_BalanceHistoryRef op))] else []));
          event = auditEvent wc r ''gateway.wallet_adjustment'' ''gateway_wallet'' (wa_AccountID op) (wa_AccountID op) before after
            result (we_now env (ww_trace w));
          event = mset_key event ''id''
            (GStr (''audit-'' @ take 12 (stableID (wc_sha1hex wc) [''gateway.wallet_adjustment'', operationID])));
          event = mset_key event ''createdAt'' (GStr (wa_UpdatedAt op))
      in save_audit wc env event (apply_effect wc Clock w))"

definition walletAdjustmentReceipt :: "string \<Rightarrow> wallet_operation \<Rightarrow> receipt_input" where
  "walletAdjustmentReceipt operationID op =
     empty_receipt_input
       \<lparr>ri_Type := ''gateway.wallet_adjustment.v1'', ri_Status := ''completed'', ri_Surface := ''control_plane'',
        ri_AccountID := wa_AccountID op, ri_RequestID := operationID, ri_Actor := Some [(''userId'', GStr (wa_ActorUserID op))],
        ri_Execution := Some [(''operationId'', GStr operationID), (''kind'', GStr (wa_Kind op)),
          (''amountUsdMicros'', GInt KInt64 (wa_AmountUSDMicros op))],
        ri_InputRefs := Some ((''balanceHistoryRef'', GStr (wa_BalanceHistoryRef op)) #
          (if wa_RelatedOperationID op \<noteq> [] then [(''relatedOperationId'', GStr (wa_RelatedOperationID op))] else [])),
        ri_Owner := Some [(''accountId'', GStr (wa_AccountID op))]\<rparr>"

section \<open>Running an operation\<close>

definition manualReviewWalletAdjustment ::
    "wallet_codec \<Rightarrow> wallet_env \<Rightarrow> audit_request \<Rightarrow> string \<Rightarrow> wallet_operation \<Rightarrow> string \<Rightarrow> wallet_world \<Rightarrow>
     wallet_operation \<times> wallet_error option \<times> wallet_world" where
  "manualReviewWalletAdjustment wc env r operationID op errorCode w =
     (let (op, saved, w) =
        (if wa_Phase op \<noteq> ''manual_review_audit''
         then persistWalletAdjustment wc env operationID
           (op\<lparr>wa_Status := ''pending'', wa_Phase := ''manual_review_audit'', wa_ErrorCode := errorCode\<rparr>) w
         else (op, True, w))
      in if \<not> saved then (op, Some WalletState, w)
         else
           (let (audited, w) = saveWalletAdjustmentAudit wc env r operationID op ''manual_review'' w
            in if \<not> audited then (op, Some WalletState, w)
               else
                 (let (op, saved, w) = persistWalletAdjustment wc env operationID
                        (op\<lparr>wa_Status := ''manual_review'', wa_Phase := ''authoritative_readback''\<rparr>) w
                  in (op, if saved then None else Some WalletState, w))))"

text \<open>One turn of the loop: go on with the operation, or return it.\<close>

datatype turn_result = Continue wallet_operation | Return wallet_operation "wallet_error option"

text \<open>Store the operation and go on.\<close>

definition persist_continue ::
    "wallet_codec \<Rightarrow> wallet_env \<Rightarrow> string \<Rightarrow> wallet_operation \<Rightarrow> wallet_world \<Rightarrow> turn_result \<times> wallet_world" where
  "persist_continue wc env operationID op w =
     (let (op, saved, w) = persistWalletAdjustment wc env operationID op w
      in (if saved then Continue op else Return op (Some WalletState), w))"

definition persist_return ::
    "wallet_codec \<Rightarrow> wallet_env \<Rightarrow> string \<Rightarrow> wallet_operation \<Rightarrow> wallet_error \<Rightarrow> wallet_world \<Rightarrow> turn_result \<times> wallet_world" where
  "persist_return wc env operationID op err w =
     (let (op, saved, w) = persistWalletAdjustment wc env operationID op w
      in (Return op (Some (if saved then err else WalletState)), w))"

definition review_return ::
    "wallet_codec \<Rightarrow> wallet_env \<Rightarrow> audit_request \<Rightarrow> string \<Rightarrow> wallet_operation \<Rightarrow> string \<Rightarrow> wallet_world \<Rightarrow> turn_result \<times> wallet_world" where
  "review_return wc env r operationID op errorCode w =
     (let (op, err, w) = manualReviewWalletAdjustment wc env r operationID op errorCode w in (Return op err, w))"

definition balance_usable :: "wallet_operation \<Rightarrow> upstream_error + gateway_balance \<Rightarrow> gateway_balance option" where
  "balance_usable op answer =
     (case answer of
        Inl _ \<Rightarrow> None
      | Inr b \<Rightarrow> if gb_UserID b \<noteq> wa_Sub2APIUserID op \<or> gb_Status b \<noteq> ''active'' then None else Some b)"

definition answer_error :: "upstream_error + 'a \<Rightarrow> upstream_error option" where
  "answer_error answer = (case answer of Inl err \<Rightarrow> Some err | Inr _ \<Rightarrow> None)"

definition turn_before_balance ::
    "wallet_codec \<Rightarrow> wallet_env \<Rightarrow> string \<Rightarrow> wallet_operation \<Rightarrow> wallet_world \<Rightarrow> turn_result \<times> wallet_world" where
  "turn_before_balance wc env operationID op w =
     (let (answer, w) = Sub2APIBalance wc env (wa_Sub2APIUserID op) w in
      case balance_usable op answer of
        Some balance \<Rightarrow>
          if gb_USDMicros balance < 0 then
            persist_return wc env operationID
              (recordWalletAdjustmentUpstreamFailure ''before_balance'' None ''balance_readback_unavailable'' op) WalletUpstream w
          else
            (let (now, w) = clock wc env w;
                 read = op\<lparr>wa_BeforeBalanceKnown := True, wa_BeforeBalanceMicros := gb_USDMicros balance, wa_BeforeBalanceReadAt := now\<rparr>
             in if wa_Kind op = ''debit'' \<and> gb_USDMicros balance < wa_AmountUSDMicros op \<or>
                   wa_Kind op \<noteq> ''debit'' \<and> gb_USDMicros balance > wrap64 (max_int64 - wa_AmountUSDMicros op)
                then persist_return wc env operationID
                  (read\<lparr>wa_Status := ''failed'', wa_Phase := ''complete'', wa_ErrorCode := ''wallet_adjustment_conflict''\<rparr>) WalletConflict w
                else persist_continue wc env operationID (read\<lparr>wa_Phase := ''adjustment''\<rparr>) w)
      | None \<Rightarrow>
          persist_return wc env operationID
            (recordWalletAdjustmentUpstreamFailure ''before_balance'' (answer_error answer) ''balance_readback_unavailable'' op)
            WalletUpstream w)"

definition v2_code :: "wallet_codec \<Rightarrow> string \<Rightarrow> wallet_operation \<Rightarrow> bool" where
  "v2_code wc operationID op \<longleftrightarrow> wa_RedeemCodeVersion op = ''v2'' \<and>
     wa_CanonicalRedeemCode op = walletAdjustmentRedeemCode (wc_sha1hex wc) operationID"

definition turn_adjustment ::
    "wallet_codec \<Rightarrow> wallet_env \<Rightarrow> audit_request \<Rightarrow> string \<Rightarrow> wallet_operation \<Rightarrow> wallet_world \<Rightarrow> turn_result \<times> wallet_world" where
  "turn_adjustment wc env r operationID op w =
     (if \<not> v2_code wc operationID op then (Return op (Some WalletState), w)
      else if wa_AdjustmentAttempted op then (Continue (op\<lparr>wa_Phase := ''authoritative_readback''\<rparr>), w)
      else
        (let (op, saved, w) = persistWalletAdjustment wc env operationID
               (op\<lparr>wa_AdjustmentAttempted := True, wa_Phase := ''authoritative_readback''\<rparr>) w
         in if \<not> saved then (Return op (Some WalletState), w)
            else
              (let (err, w) = move_money wc env operationID op w in
               case err of
                 None \<Rightarrow> (Continue op, w)
               | Some e \<Rightarrow>
                   (let op = recordWalletAdjustmentUpstreamFailure ''adjustment'' err ''adjustment_unconfirmed'' op in
                    if \<not> ue_ChargeUnknown e \<and> \<not> ue_ChargeConflict e
                    then review_return wc env r operationID op ''adjustment_unconfirmed'' w
                    else (Continue op, w)))))"

definition history_read :: "(string \<Rightarrow> string) \<Rightarrow> history_entry \<Rightarrow> wallet_operation \<Rightarrow> wallet_operation" where
  "history_read sha1hex entry op =
     op\<lparr>wa_BalanceHistoryUsedAt := (case he_UsedAt entry of None \<Rightarrow> [] | Some t \<Rightarrow> rfc3339_nano (t_utc t)),
        wa_BalanceHistoryRef := walletAdjustmentBalanceHistoryRef sha1hex (wa_Sub2APIUserID op) entry, wa_Phase := ''after_balance''\<rparr>"

definition turn_readback ::
    "wallet_codec \<Rightarrow> wallet_env \<Rightarrow> audit_request \<Rightarrow> string \<Rightarrow> wallet_operation \<Rightarrow> wallet_world \<Rightarrow> turn_result \<times> wallet_world" where
  "turn_readback wc env r operationID op w =
     (if \<not> v2_code wc operationID op then (Return op (Some WalletState), w)
      else
        (let (answer, w) = FinancialBalanceHistoryByCodes wc env (wa_Sub2APIUserID op) [wa_CanonicalRedeemCode op] w;
             entry = (case answer of Inl _ \<Rightarrow> None | Inr history \<Rightarrow> confirmWalletAdjustmentHistory history (wa_CanonicalRedeemCode op) op)
         in case entry of
              None \<Rightarrow>
                review_return wc env r operationID
                  (recordWalletAdjustmentUpstreamFailure ''authoritative_readback'' (answer_error answer) ''balance_history_unavailable'' op)
                  ''authoritative_readback_unavailable'' w
            | Some entry \<Rightarrow> persist_continue wc env operationID (history_read (wc_sha1hex wc) entry op) w))"

definition expected_balance :: "wallet_operation \<Rightarrow> int" where
  "expected_balance op =
     (if wa_Kind op = ''debit'' then wrap64 (wa_BeforeBalanceMicros op - wa_AmountUSDMicros op)
      else wrap64 (wa_BeforeBalanceMicros op + wa_AmountUSDMicros op))"

definition turn_after_balance ::
    "wallet_codec \<Rightarrow> wallet_env \<Rightarrow> audit_request \<Rightarrow> string \<Rightarrow> wallet_operation \<Rightarrow> wallet_world \<Rightarrow> turn_result \<times> wallet_world" where
  "turn_after_balance wc env r operationID op w =
     (let (answer, w) = Sub2APIBalance wc env (wa_Sub2APIUserID op) w in
      case balance_usable op answer of
        Some balance \<Rightarrow>
          if gb_USDMicros balance \<noteq> expected_balance op then
            review_return wc env r operationID
              (recordWalletAdjustmentUpstreamFailure ''after_balance'' None ''balance_readback_mismatch'' op)
              ''balance_readback_mismatch'' w
          else
            (let (now, w) = clock wc env w
             in persist_continue wc env operationID
                  (op\<lparr>wa_AfterBalanceKnown := True, wa_AfterBalanceMicros := gb_USDMicros balance, wa_AfterBalanceReadAt := now,
                      wa_Phase := ''ledger''\<rparr>) w)
      | None \<Rightarrow>
          review_return wc env r operationID
            (recordWalletAdjustmentUpstreamFailure ''after_balance'' (answer_error answer) ''balance_readback_mismatch'' op)
            ''balance_readback_mismatch'' w)"

definition turn_ledger ::
    "wallet_codec \<Rightarrow> wallet_env \<Rightarrow> string \<Rightarrow> wallet_operation \<Rightarrow> wallet_world \<Rightarrow> turn_result \<times> wallet_world" where
  "turn_ledger wc env operationID op w =
     (let receipt = walletAdjustmentReceipt operationID op; key = operationID @ '':ledger'';
          answer = we_receipt env (ww_trace w) receipt key; w = apply_effect wc (RecordLedgerReceipt receipt key) w
      in case answer of
           None \<Rightarrow> (Return op (Some WalletUpstream), w)
         | Some receiptID \<Rightarrow>
             if receiptID = [] then (Return op (Some WalletUpstream), w)
             else persist_continue wc env operationID (op\<lparr>wa_ReceiptID := receiptID, wa_Phase := ''audit''\<rparr>) w)"

definition turn_audit ::
    "wallet_codec \<Rightarrow> wallet_env \<Rightarrow> audit_request \<Rightarrow> string \<Rightarrow> wallet_operation \<Rightarrow> wallet_world \<Rightarrow> turn_result \<times> wallet_world" where
  "turn_audit wc env r operationID op w =
     (let (audited, w) = saveWalletAdjustmentAudit wc env r operationID op ''succeeded'' w
      in if \<not> audited then (Return op (Some WalletState), w)
         else persist_continue wc env operationID (op\<lparr>wa_Status := ''succeeded'', wa_Phase := ''complete'', wa_ErrorCode := []\<rparr>) w)"

definition wallet_turn ::
    "wallet_codec \<Rightarrow> wallet_env \<Rightarrow> audit_request \<Rightarrow> string \<Rightarrow> wallet_operation \<Rightarrow> wallet_world \<Rightarrow> turn_result \<times> wallet_world" where
  "wallet_turn wc env r operationID op w =
     (if wa_Phase op = ''before_balance'' then turn_before_balance wc env operationID op w
      else if wa_Phase op = ''adjustment'' then turn_adjustment wc env r operationID op w
      else if wa_Phase op = ''authoritative_readback'' then turn_readback wc env r operationID op w
      else if wa_Phase op = ''after_balance'' then turn_after_balance wc env r operationID op w
      else if wa_Phase op = ''ledger'' then turn_ledger wc env operationID op w
      else if wa_Phase op = ''audit'' then turn_audit wc env r operationID op w
      else if wa_Phase op = ''manual_review_audit'' then review_return wc env r operationID op (wa_ErrorCode op) w
      else if wa_Phase op = ''complete'' then (Return op None, w)
      else (Return op (Some WalletState), w))"

fun run_turns ::
    "nat \<Rightarrow> wallet_codec \<Rightarrow> wallet_env \<Rightarrow> audit_request \<Rightarrow> string \<Rightarrow> wallet_operation \<Rightarrow> wallet_world \<Rightarrow>
     wallet_operation \<times> wallet_error option \<times> wallet_world" where
  "run_turns 0 wc env r operationID op w = (op, Some WalletState, w)"
| "run_turns (Suc n) wc env r operationID op w =
     (case wallet_turn wc env r operationID op w of
        (Continue op', w') \<Rightarrow> run_turns n wc env r operationID op' w'
      | (Return op' err, w') \<Rightarrow> (op', err, w'))"

definition runWalletAdjustment ::
    "wallet_codec \<Rightarrow> wallet_env \<Rightarrow> audit_request \<Rightarrow> string \<Rightarrow> wallet_operation \<Rightarrow> wallet_world \<Rightarrow>
     wallet_operation \<times> wallet_error option \<times> wallet_world" where
  "runWalletAdjustment wc env r operationID op w = run_turns 8 wc env r operationID op w"

section \<open>Recovery\<close>

type_synonym recovery_result = "wallet_operation \<times> wallet_error option \<times> wallet_world"

definition persist_recovery ::
    "wallet_codec \<Rightarrow> wallet_env \<Rightarrow> string \<Rightarrow> wallet_operation \<Rightarrow> wallet_error option \<Rightarrow> wallet_world \<Rightarrow> recovery_result" where
  "persist_recovery wc env operationID op err w =
     (let (op, saved, w) = persistWalletAdjustment wc env operationID op w
      in (op, if saved then err else Some WalletState, w))"

definition authorize_recovery ::
    "wallet_codec \<Rightarrow> wallet_env \<Rightarrow> string \<Rightarrow> wallet_operation \<Rightarrow> string \<Rightarrow> string \<Rightarrow> string \<Rightarrow> wallet_world \<Rightarrow> recovery_result" where
  "authorize_recovery wc env operationID op requestHash evidenceRef actorID w =
     (if wa_RecoveryRequestHash op \<noteq> [] \<and> wa_RecoveryRequestHash op \<noteq> requestHash then (op, Some WalletConflict, w)
      else if wa_RecoveryRequestHash op = [] then
        (let (now, w) = clock wc env w
         in persist_recovery wc env operationID
              (op\<lparr>wa_RecoveryRequestHash := requestHash, wa_RecoveryEvidenceRef := evidenceRef, wa_RecoveryActorUserID := actorID,
                  wa_RecoveryAuthorizedAt := now\<rparr>) None w)
      else (op, None, w))"

definition recovery_confirmed ::
    "wallet_codec \<Rightarrow> wallet_env \<Rightarrow> string \<Rightarrow> wallet_operation \<Rightarrow> history_entry \<Rightarrow> wallet_world \<Rightarrow> recovery_result" where
  "recovery_confirmed wc env operationID op entry w =
     persist_recovery wc env operationID ((history_read (wc_sha1hex wc) entry op)\<lparr>wa_Status := ''pending''\<rparr>) None w"

definition recoveryEligible :: "wallet_codec \<Rightarrow> string \<Rightarrow> wallet_operation \<Rightarrow> bool" where
  "recoveryEligible wc operationID op \<longleftrightarrow>
     (wa_CanonicalRedeemCode op = [] \<and> wa_RedeemCodeVersion op = [] \<and> wa_LegacySupersession op = [] \<or>
      v2_code wc operationID op \<and> wa_LegacySupersession op = []) \<and>
     length (legacyWalletAdjustmentRedeemCode (wc_sha1hex wc) operationID) > 32 \<and>
     wa_AdjustmentAttempted op \<and> wa_BeforeBalanceKnown op \<and> \<not> wa_RecoveryAttempted op \<and>
     wa_ReceiptID op = [] \<and> wa_BalanceHistoryRef op = [] \<and> wa_BalanceHistoryUsedAt op = []"

definition recovery_retry ::
    "wallet_codec \<Rightarrow> wallet_env \<Rightarrow> string \<Rightarrow> wallet_operation \<Rightarrow> wallet_world \<Rightarrow> recovery_result" where
  "recovery_retry wc env operationID op w =
     (if \<not> recoveryEligible wc operationID op
      then persist_recovery wc env operationID (op\<lparr>wa_ErrorCode := ''wallet_adjustment_recovery_exhausted''\<rparr>) (Some WalletConflict) w
      else
        (let (answer, w) = Sub2APIBalance wc env (wa_Sub2APIUserID op) w in
         case answer of
           Inl err \<Rightarrow>
             persist_recovery wc env operationID
               ((recordWalletAdjustmentUpstreamFailure ''recovery_balance'' (Some err) ''balance_readback_unavailable'' op)
                 \<lparr>wa_ErrorCode := ''wallet_adjustment_recovery_balance_unavailable''\<rparr>) None w
         | Inr balance \<Rightarrow>
             if gb_UserID balance \<noteq> wa_Sub2APIUserID op \<or> gb_Status balance \<noteq> ''active'' \<or>
                gb_USDMicros balance \<noteq> wa_BeforeBalanceMicros op
             then persist_recovery wc env operationID
               (op\<lparr>wa_ErrorCode := ''wallet_adjustment_recovery_balance_changed''\<rparr>) (Some WalletConflict) w
             else
               (let op = (if wa_CanonicalRedeemCode op = [] \<and> wa_RedeemCodeVersion op = [] \<and> wa_LegacySupersession op = []
                          then op\<lparr>wa_CanonicalRedeemCode := walletAdjustmentRedeemCode (wc_sha1hex wc) operationID,
                                  wa_RedeemCodeVersion := ''v2'', wa_LegacySupersession := ''v2_adopted''\<rparr>
                          else op)
                in persist_recovery wc env operationID
                     (op\<lparr>wa_RecoveryAttempted := True, wa_AdjustmentAttempted := False, wa_Status := ''pending'',
                         wa_Phase := ''adjustment''\<rparr>) None w)))"

definition recovery_readback ::
    "wallet_codec \<Rightarrow> wallet_env \<Rightarrow> string \<Rightarrow> wallet_operation \<Rightarrow> (string \<times> history_entry) list \<Rightarrow> wallet_world \<Rightarrow> recovery_result" where
  "recovery_readback wc env operationID op history w =
     (let v2Code = walletAdjustmentRedeemCode (wc_sha1hex wc) operationID;
          legacy = inspectWalletAdjustmentHistory history (legacyWalletAdjustmentRedeemCode (wc_sha1hex wc) operationID) op;
          v2 = inspectWalletAdjustmentHistory history v2Code op;
          confirmedLegacy = (legacy \<notin> {Absent, HistoryConflict}); confirmedV2 = (v2 \<notin> {Absent, HistoryConflict})
      in if legacy = HistoryConflict \<or> v2 = HistoryConflict \<or> confirmedLegacy \<and> confirmedV2 \<or>
            confirmedLegacy \<and> wa_CanonicalRedeemCode op \<noteq> [] \<or> (confirmedLegacy \<or> confirmedV2) \<and> \<not> wa_BeforeBalanceKnown op
         then persist_recovery wc env operationID
           (op\<lparr>wa_ErrorCode := ''wallet_adjustment_recovery_history_conflict''\<rparr>) (Some WalletConflict) w
         else
           (let op = op\<lparr>wa_ErrorCode := []\<rparr> in
            case legacy of
              Confirmed entry \<Rightarrow>
                recovery_confirmed wc env operationID (op\<lparr>wa_LegacySupersession := ''legacy_history_confirmed''\<rparr>) entry w
            | _ \<Rightarrow>
              (case v2 of
                 Confirmed entry \<Rightarrow>
                   (let wasLegacy = (wa_CanonicalRedeemCode op = [] \<and> wa_RedeemCodeVersion op = []);
                        op = op\<lparr>wa_CanonicalRedeemCode := v2Code, wa_RedeemCodeVersion := ''v2''\<rparr>;
                        op = (if wasLegacy then op\<lparr>wa_LegacySupersession := ''v2_history_confirmed''\<rparr> else op)
                    in recovery_confirmed wc env operationID op entry w)
               | _ \<Rightarrow> recovery_retry wc env operationID op w)))"

definition prepareWalletAdjustmentRecovery ::
    "wallet_codec \<Rightarrow> wallet_env \<Rightarrow> string \<Rightarrow> wallet_operation \<Rightarrow> string \<Rightarrow> string \<Rightarrow> string \<Rightarrow> wallet_world \<Rightarrow> recovery_result" where
  "prepareWalletAdjustmentRecovery wc env operationID op requestHash evidenceRef actorID w =
     (let (op, err, w) = authorize_recovery wc env operationID op requestHash evidenceRef actorID w in
      if err \<noteq> None then (op, err, w)
      else if wa_ErrorCode op = ''wallet_adjustment_recovery_history_conflict'' \<or>
              wa_ErrorCode op = ''wallet_adjustment_recovery_balance_changed''
      then (op, Some WalletConflict, w)
      else
        (let (answer, w) = FinancialBalanceHistoryByCodes wc env (wa_Sub2APIUserID op)
               [legacyWalletAdjustmentRedeemCode (wc_sha1hex wc) operationID, walletAdjustmentRedeemCode (wc_sha1hex wc) operationID] w
         in case answer of
              Inl e \<Rightarrow>
                persist_recovery wc env operationID
                  ((recordWalletAdjustmentUpstreamFailure ''recovery_readback'' (Some e) ''balance_history_unavailable'' op)
                    \<lparr>wa_ErrorCode := ''wallet_adjustment_recovery_readback_unavailable''\<rparr>) None w
            | Inr history \<Rightarrow> recovery_readback wc env operationID op history w))"

section \<open>Accounts and refund limits\<close>

definition normalizeEmail :: "string \<Rightarrow> string" where
  "normalizeEmail v = to_lower (trim_space v)"

definition isReservedOperatorIdentity :: "wallet_codec \<Rightarrow> gomap \<Rightarrow> bool" where
  "isReservedOperatorIdentity wc user \<longleftrightarrow>
     wc_address wc (normalizeEmail (stringValue (mget user ''email''))) \<and> stringValue (mget user ''id'') = ''usr-admin'' \<and>
     stringValue (mget user ''accountId'') = ''acct-admin'' \<and> stringValue (mget user ''role'') = ''admin''"

definition ownsAccount :: "wallet_codec \<Rightarrow> gomap \<Rightarrow> gomap \<Rightarrow> bool" where
  "ownsAccount wc account user \<longleftrightarrow>
     account \<noteq> None \<and> stringValue (mget account ''id'') \<noteq> [] \<and>
     stringValue (mget user ''accountId'') = stringValue (mget account ''id'') \<and>
     stringValue (mget account ''ownerUserId'') = stringValue (mget user ''id'') \<and>
     (stringValue (mget user ''role'') = ''owner'' \<or>
      isReservedOperatorIdentity wc user \<and> stringValue (mget user ''status'') = ''active'')"

definition ownsActiveAccount :: "wallet_codec \<Rightarrow> gomap \<Rightarrow> gomap \<Rightarrow> bool" where
  "ownsActiveAccount wc account user \<longleftrightarrow>
     ownsAccount wc account user \<and> stringValue (mget account ''status'') = ''active'' \<and> stringValue (mget user ''status'') = ''active''"

text \<open>\<^verbatim>\<open>Service.Sub2APIUser\<close>; the client's answer is a parameter.\<close>

definition Sub2APIUser :: "gateway_identity option \<Rightarrow> int \<Rightarrow> gateway_identity option" where
  "Sub2APIUser answer userID =
     (case answer of
        None \<Rightarrow> None
      | Some identity \<Rightarrow>
          (let identity = identity\<lparr>gi_Email := to_lower (trim_space (gi_Email identity))\<rparr> in
           if gi_ID identity \<noteq> userID \<or> gi_Email identity = [] \<or> (gi_Status identity \<noteq> ''active'' \<and> gi_Status identity \<noteq> ''disabled'')
           then None else Some identity))"

definition walletAdjustmentAccount ::
    "wallet_codec \<Rightarrow> wallet_env \<Rightarrow> string \<Rightarrow> wallet_world \<Rightarrow> wallet_error + gomap \<times> int" where
  "walletAdjustmentAccount wc env accountID w =
     (let t = ww_trace w; account = we_account env t accountID; (remoteUserID, remoteOK) = positiveIntegerField account ''sub2apiUserId'';
          owner = we_user env t (stringValue (mget account ''ownerUserId''))
      in if we_table_down env t then Inl WalletState
         else if account = None \<or> stringValue (mget account ''status'') \<noteq> ''active'' \<or> \<not> remoteOK then Inl WalletAccount
         else if owner = None \<or> \<not> ownsActiveAccount wc account owner then Inl WalletAccount
         else
           (case Sub2APIUser (we_identity env t remoteUserID) remoteUserID of
              None \<Rightarrow> Inl WalletUpstream
            | Some remote \<Rightarrow>
                if gi_Status remote \<noteq> ''active'' \<or> normalizeEmail (gi_Email remote) \<noteq> normalizeEmail (stringValue (mget owner ''email''))
                then Inl WalletAccount else Inr (account, remoteUserID)))"

definition refundableWalletOperationAmount :: "wallet_codec \<Rightarrow> gomap \<Rightarrow> int option" where
  "refundableWalletOperationAmount wc row =
     (if stringValue (mget row ''status'') \<noteq> ''succeeded'' then None
      else
        (case wc_object wc (stringValue (mget row ''result'')) of
           None \<Rightarrow> None
         | Some result \<Rightarrow>
             (let action = stringValue (mget row ''action'');
                  (amount, ok) = requiredNonNegativeInteger result
                    (if action = ''workspace.renewal'' then ''totalUsdMicros'' else ''totalChargeUsdMicros'')
              in if action \<notin> {''workspace.launch'', ''workspace.launch.v2'', ''workspace.renewal''} \<or> \<not> ok \<or> amount \<le> 0
                 then None else Some amount)))"

fun sum_refunds :: "wallet_codec \<Rightarrow> string \<Rightarrow> int \<Rightarrow> gomap list \<Rightarrow> wallet_error + int" where
  "sum_refunds wc related refunded [] = Inr refunded"
| "sum_refunds wc related refunded (row # rows) =
     (case decodeWalletAdjustment wc row of
        Inl _ \<Rightarrow> Inl WalletState
      | Inr op \<Rightarrow>
          if wa_Kind op \<noteq> ''business_refund'' \<or> wa_RelatedOperationID op \<noteq> related then sum_refunds wc related refunded rows
          else if wa_Status op = ''manual_review'' \<or> wa_Status op \<noteq> ''succeeded'' \<or> wa_AmountUSDMicros op > max_int64 - refunded
          then Inl WalletConflict
          else sum_refunds wc related (refunded + wa_AmountUSDMicros op) rows)"

text \<open>The wallet rows of an account, as the query for the account and the action returns them.\<close>

definition wallet_rows :: "string \<Rightarrow> (string \<times> gomap) list \<Rightarrow> gomap list" where
  "wallet_rows accountID table =
     filter (\<lambda>row. stringValue (mget row ''accountId'') = accountID \<and> stringValue (mget row ''action'') = ''gateway.wallet_adjustment.v1'')
       (map snd table)"

definition validateWalletRefundLimit ::
    "wallet_codec \<Rightarrow> wallet_env \<Rightarrow> string \<Rightarrow> string \<Rightarrow> int \<Rightarrow> wallet_world \<Rightarrow> wallet_error option" where
  "validateWalletRefundLimit wc env accountID relatedOperationID amount w =
     (if we_table_down env (ww_trace w) then Some WalletState
      else
        (case refundableWalletOperationAmount wc
               (case map_of (ww_table w) relatedOperationID of None \<Rightarrow> None | Some row \<Rightarrow> row) of
           None \<Rightarrow> Some WalletConflict
         | Some original \<Rightarrow>
             (case sum_refunds wc relatedOperationID 0 (wallet_rows accountID (ww_table w)) of
                Inl err \<Rightarrow> Some err
              | Inr refunded \<Rightarrow>
                  if original \<le> 0 \<or> amount > original \<or> refunded > original - amount then Some WalletConflict else None)))"

section \<open>Handlers\<close>

definition optional_field :: "string \<Rightarrow> string \<Rightarrow> (string \<times> goval) list" where
  "optional_field key v = (if v \<noteq> [] then [(key, GStr v)] else [])"

definition failure_value :: "wallet_failure \<Rightarrow> goval" where
  "failure_value x = GObj ([(''phase'', GStr (wf_Phase x))] @
     (if wf_HTTPStatus x \<noteq> 0 then [(''httpStatus'', GInt KInt (wf_HTTPStatus x))] else []) @
     [(''errorCode'', GStr (wf_ErrorCode x))] @ optional_field ''requestId'' (wf_RequestID x))"

definition walletAdjustmentDTO :: "string \<Rightarrow> wallet_operation \<Rightarrow> gomap" where
  "walletAdjustmentDTO operationID op =
     (let readAt = (\<lambda>t. if t = [] then wa_UpdatedAt op else t) in
      Some ([(''operationId'', GStr operationID), (''status'', GStr (wa_Status op)), (''phase'', GStr (wa_Phase op)),
         (''accountId'', GStr (wa_AccountID op)), (''kind'', GStr (wa_Kind op)), (''amountUsd'', GStr (wa_AmountUSD op)),
         (''reason'', GStr (wa_Reason op)),
         (''beforeBalance'', walletBalanceEnvelope (wa_BeforeBalanceKnown op) (wa_BeforeBalanceMicros op) (readAt (wa_BeforeBalanceReadAt op))),
         (''afterBalance'', walletBalanceEnvelope (wa_AfterBalanceKnown op) (wa_AfterBalanceMicros op) (readAt (wa_AfterBalanceReadAt op))),
         (''actor'', GStr (wa_ActorUserID op)), (''createdAt'', GStr (wa_CreatedAt op)), (''updatedAt'', GStr (wa_UpdatedAt op))] @
       optional_field ''relatedOperationId'' (wa_RelatedOperationID op) @ optional_field ''balanceHistoryRef'' (wa_BalanceHistoryRef op) @
       optional_field ''receiptId'' (wa_ReceiptID op) @ optional_field ''errorCode'' (wa_ErrorCode op) @
       (case wa_UpstreamFailure op of None \<Rightarrow> [] | Some x \<Rightarrow> [(''upstreamFailure'', failure_value x)]) @
       (if wa_Status op = ''manual_review'' then [(''allowedActions'', GArr [GStr ''recover_wallet_adjustment''])] else [])))"

datatype wallet_response = WalletFailed int string | WalletAnswer int gomap

definition writeWalletAdjustmentError :: "wallet_error \<Rightarrow> wallet_response" where
  "writeWalletAdjustmentError err =
     (case err of
        WalletIdempotency \<Rightarrow> WalletFailed 409 ''idempotency_conflict''
      | WalletConflict \<Rightarrow> WalletFailed 409 ''wallet_adjustment_conflict''
      | WalletAccount \<Rightarrow> WalletFailed 404 ''wallet_adjustment_account_not_found''
      | WalletState \<Rightarrow> WalletFailed 500 ''state_persist_failed''
      | WalletUpstream \<Rightarrow> WalletFailed 502 ''wallet_adjustment_upstream_unavailable'')"

text \<open>
  The parts of a request: the idempotency key as sent, the path value, the decoded body (\<open>None\<close> where the
  strict decoder refuses it) and the session.
\<close>

record 'b wallet_call =
  wl_key :: string
  wl_path :: string
  wl_body :: "'b option"
  wl_audit :: audit_request

definition operation_id :: "wallet_codec \<Rightarrow> string \<Rightarrow> string \<Rightarrow> string" where
  "operation_id wc accountID key = ''wallet-adjustment-'' @ take 18 (stableID (wc_sha1hex wc) [accountID, key])"

definition request_hash :: "wallet_codec \<Rightarrow> string \<Rightarrow> string \<Rightarrow> wallet_request \<Rightarrow> int \<Rightarrow> string" where
  "request_hash wc accountID actorID input amount =
     stableID (wc_sha1hex wc) [''wallet-adjustment-v1'', accountID, actorID, wq_Kind input, int_text amount,
       trim_space (wq_Reason input), trim_space (wq_RelatedOperationID input)]"

definition new_operation ::
    "wallet_codec \<Rightarrow> string \<Rightarrow> string \<Rightarrow> string \<Rightarrow> string \<Rightarrow> wallet_request \<Rightarrow> int \<Rightarrow> int \<Rightarrow> string \<Rightarrow> wallet_operation" where
  "new_operation wc operationID requestHash accountID actorID input amount remoteUserID now =
     \<lparr>wa_RequestHash = requestHash, wa_Phase = ''before_balance'', wa_AccountID = accountID, wa_Sub2APIUserID = remoteUserID,
      wa_Kind = wq_Kind input, wa_AmountUSDMicros = amount, wa_AmountUSD = formatWalletUSD amount,
      wa_Reason = trim_space (wq_Reason input), wa_RelatedOperationID = trim_space (wq_RelatedOperationID input),
      wa_ActorUserID = actorID, wa_CanonicalRedeemCode = walletAdjustmentRedeemCode (wc_sha1hex wc) operationID,
      wa_RedeemCodeVersion = ''v2'', wa_LegacySupersession = [], wa_AdjustmentAttempted = False, wa_BeforeBalanceKnown = False,
      wa_BeforeBalanceMicros = 0, wa_BeforeBalanceReadAt = [], wa_AfterBalanceKnown = False, wa_AfterBalanceMicros = 0,
      wa_AfterBalanceReadAt = [], wa_BalanceHistoryRef = [], wa_BalanceHistoryUsedAt = [], wa_ReceiptID = [], wa_ErrorCode = [],
      wa_RecoveryRequestHash = [], wa_RecoveryAttempted = False, wa_RecoveryEvidenceRef = [], wa_RecoveryActorUserID = [],
      wa_RecoveryAuthorizedAt = [], wa_UpstreamFailure = None, wa_CreatedAt = now, wa_UpdatedAt = now, wa_Status = ''pending''\<rparr>"

text \<open>Run the operation where it is not finished, and answer.\<close>

definition finish_create ::
    "wallet_codec \<Rightarrow> wallet_env \<Rightarrow> audit_request \<Rightarrow> string \<Rightarrow> bool \<Rightarrow> wallet_operation \<Rightarrow> wallet_world \<Rightarrow> wallet_response \<times> wallet_world" where
  "finish_create wc env r operationID created op w =
     (if wa_Status op = ''failed'' then (writeWalletAdjustmentError WalletConflict, w)
      else
        (let (op, err, w) =
           (if wa_Status op \<noteq> ''succeeded'' \<and> wa_Status op \<noteq> ''manual_review'' then runWalletAdjustment wc env r operationID op w
            else (op, None, w))
         in case err of
              Some e \<Rightarrow> (writeWalletAdjustmentError e, w)
            | None \<Rightarrow>
                (WalletAnswer (if wa_Status op = ''manual_review'' then 202 else if created then 201 else 200)
                   (walletAdjustmentDTO operationID op), w)))"

definition start_operation ::
    "wallet_codec \<Rightarrow> wallet_env \<Rightarrow> audit_request \<Rightarrow> string \<Rightarrow> string \<Rightarrow> wallet_request \<Rightarrow> int \<Rightarrow> wallet_world \<Rightarrow> wallet_response \<times> wallet_world" where
  "start_operation wc env r key accountID input amount w =
     (let actorID = stringValue (mget (ar_user r) ''id''); operationID = operation_id wc accountID key;
          requestHash = request_hash wc accountID actorID input amount
      in case walletAdjustmentAccount wc env accountID w of
           Inl err \<Rightarrow> (writeWalletAdjustmentError err, w)
         | Inr (account, remoteUserID) \<Rightarrow>
             (case (if wq_Kind input = ''business_refund''
                    then validateWalletRefundLimit wc env accountID (wq_RelatedOperationID input) amount w else None) of
                Some err \<Rightarrow> (writeWalletAdjustmentError err, w)
              | None \<Rightarrow>
                  (let (now, w) = clock wc env w;
                       op = new_operation wc operationID requestHash accountID actorID input amount remoteUserID now
                   in if stringValue (mget account ''ownerUserId'') = [] then (WalletFailed 500 ''state_persist_failed'', w)
                      else
                        (let (op, saved, w) = persistWalletAdjustment wc env operationID op w
                         in if \<not> saved then (WalletFailed 500 ''state_persist_failed'', w)
                            else finish_create wc env r operationID True op w))))"

definition createWalletAdjustment ::
    "wallet_codec \<Rightarrow> wallet_env \<Rightarrow> wallet_request wallet_call \<Rightarrow> wallet_world \<Rightarrow> wallet_response \<times> wallet_world" where
  "createWalletAdjustment wc env call w =
     (let key = trim_space (wl_key call); accountID = trim_space (wl_path call) in
      if key = [] then (WalletFailed 400 ''missing Idempotency-Key'', w)
      else
        (case wl_body call of
           None \<Rightarrow> (WalletFailed 400 ''invalid_wallet_adjustment'', w)
         | Some input \<Rightarrow>
             (case validWalletAdjustmentRequest input accountID key of
                None \<Rightarrow> (WalletFailed 400 ''invalid_wallet_adjustment'', w)
              | Some amount \<Rightarrow>
                  (case walletAdjustment wc env (operation_id wc accountID key)
                          (request_hash wc accountID (stringValue (mget (ar_user (wl_audit call)) ''id'')) input amount) w of
                     Inl err \<Rightarrow> (writeWalletAdjustmentError err, w)
                   | Inr (Some op) \<Rightarrow> finish_create wc env (wl_audit call) (operation_id wc accountID key) False op w
                   | Inr None \<Rightarrow> start_operation wc env (wl_audit call) key accountID input amount w))))"

definition getWalletAdjustment :: "wallet_codec \<Rightarrow> wallet_env \<Rightarrow> string \<Rightarrow> wallet_world \<Rightarrow> wallet_response" where
  "getWalletAdjustment wc env path w =
     (let operationID = trim_space path in
      case walletAdjustment wc env operationID [] w of
        Inl err \<Rightarrow> writeWalletAdjustmentError err
      | Inr None \<Rightarrow> WalletFailed 404 ''wallet_adjustment_not_found''
      | Inr (Some op) \<Rightarrow> WalletAnswer 200 (walletAdjustmentDTO operationID op))"

text \<open>The pattern \<^verbatim>\<open>^case-[0-9]{8}-[a-z0-9]{3,16}$\<close>.\<close>

definition validBillingReviewEvidenceRef :: "string \<Rightarrow> bool" where
  "validBillingReviewEvidenceRef v \<longleftrightarrow>
     has_prefix v ''case-'' \<and> 17 \<le> length v \<and> length v \<le> 30 \<and> list_all is_digit (take 8 (drop 5 v)) \<and>
     v ! 13 = CHR ''-'' \<and> list_all id_rune (drop 14 v)"

definition validBillingReviewOpaqueID :: "string \<Rightarrow> bool" where
  "validBillingReviewOpaqueID v \<longleftrightarrow>
     3 \<le> length v \<and> length v \<le> 48 \<and> v = compactID v \<and>
     \<not> list_ex (contains_str (to_lower v)) [''api-key'', ''apikey'', ''bearer'', ''credential'', ''password'', ''secret'', ''token'']"

definition finish_recovery ::
    "wallet_codec \<Rightarrow> wallet_env \<Rightarrow> audit_request \<Rightarrow> string \<Rightarrow> string \<Rightarrow> string \<Rightarrow> wallet_operation \<Rightarrow> wallet_world \<Rightarrow>
     wallet_response \<times> wallet_world" where
  "finish_recovery wc env r operationID key evidenceRef op w =
     (let (op, err, w) = (if wa_Status op = ''pending'' then runWalletAdjustment wc env r operationID op w else (op, None, w)) in
      case err of
        Some e \<Rightarrow> (writeWalletAdjustmentError e, w)
      | None \<Rightarrow>
          (let event = auditEvent wc r ''gateway.wallet_adjustment.recover'' ''gateway_wallet'' (wa_AccountID op) (wa_AccountID op) GNil
                 (GObj [(''operationId'', GStr operationID), (''evidenceRef'', GStr evidenceRef), (''status'', GStr (wa_Status op))])
                 (wa_Status op) (we_now env (ww_trace w));
               event = mset_key event ''id'' (GStr (''audit-'' @
                 take 12 (stableID (wc_sha1hex wc) [''gateway.wallet_adjustment.recover'', operationID, key])));
               (audited, w) = save_audit wc env event (apply_effect wc Clock w)
           in if audited then (WalletAnswer 200 (walletAdjustmentDTO operationID op), w)
              else (WalletFailed 500 ''state_persist_failed'', w)))"

definition recoverWalletAdjustment ::
    "wallet_codec \<Rightarrow> wallet_env \<Rightarrow> wallet_recovery_request wallet_call \<Rightarrow> wallet_world \<Rightarrow> wallet_response \<times> wallet_world" where
  "recoverWalletAdjustment wc env call w =
     (let key = trim_space (wl_key call); operationID = trim_space (wl_path call); r = wl_audit call in
      if key = [] then (WalletFailed 400 ''missing Idempotency-Key'', w)
      else
        (case wl_body call of
           None \<Rightarrow> (WalletFailed 400 ''invalid_wallet_adjustment_recovery'', w)
         | Some input \<Rightarrow>
             if \<not> validAccountID (wv_AccountID input) \<or> wv_AccountID input \<noteq> trim_space (wv_AccountID input) \<or>
                \<not> validBillingReviewEvidenceRef (wv_EvidenceRef input) \<or> operationID = [] \<or> \<not> validBillingReviewOpaqueID key
             then (WalletFailed 400 ''invalid_wallet_adjustment_recovery'', w)
             else
               (let recoveryHash = stableID (wc_sha1hex wc)
                      [''wallet-adjustment-recovery-v1'', operationID, wv_AccountID input, wv_EvidenceRef input, key]
                in case walletAdjustment wc env operationID [] w of
                     Inl err \<Rightarrow> (writeWalletAdjustmentError err, w)
                   | Inr None \<Rightarrow> (WalletFailed 404 ''wallet_adjustment_not_found'', w)
                   | Inr (Some op) \<Rightarrow>
                       if wa_AccountID op \<noteq> wv_AccountID input then (WalletFailed 404 ''wallet_adjustment_not_found'', w)
                       else if wa_Status op = ''failed'' \<or>
                               (wa_Status op = ''succeeded'' \<and> wa_RecoveryRequestHash op \<noteq> recoveryHash) \<or>
                               (wa_Status op \<noteq> ''succeeded'' \<and> wa_Status op \<noteq> ''manual_review'' \<and>
                                (wa_Status op \<noteq> ''pending'' \<or> wa_RecoveryRequestHash op \<noteq> recoveryHash))
                       then (writeWalletAdjustmentError WalletConflict, w)
                       else
                         (let (op, err, w) =
                            (if wa_Status op = ''manual_review''
                             then prepareWalletAdjustmentRecovery wc env operationID op recoveryHash (wv_EvidenceRef input)
                               (stringValue (mget (ar_user r) ''id'')) w
                             else (op, None, w))
                          in case err of
                               Some e \<Rightarrow> (writeWalletAdjustmentError e, w)
                             | None \<Rightarrow> finish_recovery wc env r operationID key (wv_EvidenceRef input) op w))))"

end
