(* ===== verification/Wallet_Safety.thy ===== *)
theory Wallet_Safety
  imports Wallet_Adjustment
begin

text \<open>
  Money moves of wallet adjustments. An operation in hand accounts for the moves made so far; every piece of
  the code keeps this, at every one of its effects, so it also holds where a run is cut off. From this the
  bound on the moves of an operation follows for every history of requests.
\<close>

section \<open>Money moves\<close>

fun moves_money :: "string \<Rightarrow> wallet_effect \<Rightarrow> bool" where
  "moves_money operationID (Charge operationID' _) = (operationID' = operationID)"
| "moves_money operationID (Refund operationID' _) = (operationID' = operationID)"
| "moves_money operationID _ = False"

definition money_moves :: "string \<Rightarrow> wallet_world \<Rightarrow> nat" where
  "money_moves operationID w = length (filter (moves_money operationID) (ww_trace w))"

text \<open>How many moves an operation accounts for: one per attempt, and one per recovery.\<close>

definition attempts :: "wallet_operation \<Rightarrow> nat" where
  "attempts op = (if wa_AdjustmentAttempted op then 1 else 0) + (if wa_RecoveryAttempted op then 1 else 0)"

text \<open>The move an operation makes: always the same user, amount and redeem code.\<close>

definition move_of :: "wallet_codec \<Rightarrow> string \<Rightarrow> wallet_operation \<Rightarrow> wallet_effect" where
  "move_of wc operationID op =
     (let money = \<lparr>mi_UserID = wa_Sub2APIUserID op, mi_Code = walletAdjustmentRedeemCode (wc_sha1hex wc) operationID,
            mi_USDMicros = wa_AmountUSDMicros op, mi_Notes = wa_Reason op\<rparr>
      in if wa_Kind op = ''debit'' then Charge operationID money else Refund operationID money)"

text \<open>All moves so far are moves of this operation, and no more than it accounts for.\<close>

definition accounts_for :: "wallet_codec \<Rightarrow> string \<Rightarrow> wallet_operation \<Rightarrow> wallet_world \<Rightarrow> bool" where
  "accounts_for wc operationID op w \<longleftrightarrow>
     (\<forall>e \<in> set (ww_trace w). moves_money operationID e \<longrightarrow> e = move_of wc operationID op) \<and> money_moves operationID w \<le> attempts op"

definition money_accounted :: "wallet_codec \<Rightarrow> string \<Rightarrow> wallet_world \<Rightarrow> bool" where
  "money_accounted wc operationID w \<longleftrightarrow>
     money_moves operationID w = 0 \<or>
     (\<exists>op. map_of (ww_table w) operationID = Some (wallet_row wc operationID op) \<and> accounts_for wc operationID op w)"

text \<open>What the account of an operation depends on.\<close>

definition account_key :: "wallet_operation \<Rightarrow> nat \<times> int \<times> int \<times> string \<times> bool" where
  "account_key op = (attempts op, wa_Sub2APIUserID op, wa_AmountUSDMicros op, wa_Reason op, wa_Kind op = ''debit'')"

lemma accounts_for_key: "account_key op' = account_key op \<Longrightarrow> accounts_for wc i op' w = accounts_for wc i op w"
  by (simp add: account_key_def accounts_for_def move_of_def)

lemma accounts_for_none: "money_moves i w = 0 \<Longrightarrow> accounts_for wc i op w"
  by (auto simp: accounts_for_def money_moves_def filter_empty_conv)

text \<open>A path of effects along which the accounting holds at every point, also where a run is cut off.\<close>

inductive accounted_path :: "wallet_codec \<Rightarrow> string \<Rightarrow> wallet_world \<Rightarrow> wallet_world \<Rightarrow> bool" for wc operationID w where
  here: "money_accounted wc operationID w \<Longrightarrow> accounted_path wc operationID w w"
| more: "accounted_path wc operationID w w' \<Longrightarrow> money_accounted wc operationID (apply_effect wc e w') \<Longrightarrow>
    accounted_path wc operationID w (apply_effect wc e w')"

lemma path_end: "accounted_path wc i w w' \<Longrightarrow> money_accounted wc i w'"
  by (induction rule: accounted_path.induct) auto

lemma path_start: "accounted_path wc i w w' \<Longrightarrow> money_accounted wc i w"
  by (induction rule: accounted_path.induct) auto

lemma path_trans:
  assumes "accounted_path wc i w' w''" and "accounted_path wc i w w'"
  shows "accounted_path wc i w w''"
  using assms by (induction rule: accounted_path.induct) (auto intro: accounted_path.more)

definition quiet :: "wallet_effect \<Rightarrow> bool" where
  "quiet e \<longleftrightarrow> (case e of SaveOperation _ _ _ \<Rightarrow> False | Charge _ _ \<Rightarrow> False | Refund _ _ \<Rightarrow> False | _ \<Rightarrow> True)"

lemma quiet_effects [simp]: "quiet Clock" "quiet (ReadBalance u)" "quiet (ReadHistory u cs)" "quiet (RecordLedgerReceipt x k)" "quiet (SaveAudit a)"
  by (simp_all add: quiet_def)

lemma apply_quiet:
  assumes "quiet e"
  shows "ww_table (apply_effect wc e w) = ww_table w" "money_moves i (apply_effect wc e w) = money_moves i w"
  using assms by (cases e; simp add: quiet_def apply_effect_def money_moves_def)+

lemma apply_unmoved:
  assumes "\<not> moves_money i e"
  shows "accounts_for wc i op (apply_effect wc e w) = accounts_for wc i op w"
  using assms by (auto simp: accounts_for_def apply_effect_def money_moves_def)

lemma quiet_unmoved: "quiet e \<Longrightarrow> \<not> moves_money i e"
  by (cases e) (simp_all add: quiet_def)

lemma apply_save:
  "money_moves i (apply_effect wc (SaveOperation j op outcome) w) = money_moves i w"
  "map_of (ww_table (apply_effect wc (SaveOperation j op outcome) w)) i =
     (if i = j \<and> outcome \<noteq> SaveRefused then Some (wallet_row wc j op) else map_of (ww_table w) i)"
  by (simp_all add: apply_effect_def money_moves_def update_conv')

text \<open>What the operation in hand accounts for.\<close>

definition holds_account :: "wallet_codec \<Rightarrow> string \<Rightarrow> string \<Rightarrow> wallet_operation \<Rightarrow> wallet_world \<Rightarrow> bool" where
  "holds_account wc i operationID op w \<longleftrightarrow> (operationID = i \<longrightarrow> accounts_for wc i op w)"

text \<open>A piece of code that keeps the accounting and returns an operation that accounts for all moves.\<close>

definition keeps_account :: "wallet_codec \<Rightarrow> string \<Rightarrow> string \<Rightarrow> wallet_world \<Rightarrow> wallet_operation \<Rightarrow> wallet_world \<Rightarrow> bool" where
  "keeps_account wc i operationID w op' w' \<longleftrightarrow> accounted_path wc i w w' \<and> holds_account wc i operationID op' w'"

lemma keeps_path: "keeps_account wc i j w op' w' \<Longrightarrow> accounted_path wc i w w'"
  by (simp add: keeps_account_def)

lemma keeps_after: "accounted_path wc i w w' \<Longrightarrow> keeps_account wc i j w' op'' w'' \<Longrightarrow> keeps_account wc i j w op'' w''"
  by (auto simp: keeps_account_def intro: path_trans)

lemma path_quiet: "money_accounted wc i w \<Longrightarrow> quiet e \<Longrightarrow> accounted_path wc i w (apply_effect wc e w)"
  by (rule accounted_path.more [OF accounted_path.here]) (simp_all add: money_accounted_def apply_quiet apply_unmoved quiet_unmoved)

lemma holds_quiet: "quiet e \<Longrightarrow> holds_account wc i j op (apply_effect wc e w) = holds_account wc i j op w"
  by (simp add: holds_account_def apply_unmoved quiet_unmoved)

lemma keeps_here: "money_accounted wc i w \<Longrightarrow> holds_account wc i j op w \<Longrightarrow> keeps_account wc i j w op w"
  by (simp add: keeps_account_def accounted_path.here)

lemma keeps_quiet:
  assumes "quiet e" "keeps_account wc i j (apply_effect wc e w) op' w'" "money_accounted wc i w"
  shows "keeps_account wc i j w op' w'"
  using assms path_quiet keeps_after by blast

lemma persist_facts:
  assumes "persistWalletAdjustment wc env j op w = (op', saved, w')"
  shows "account_key op' = account_key op" "wa_RecoveryAttempted op' = wa_RecoveryAttempted op" "wa_AdjustmentAttempted op' = wa_AdjustmentAttempted op"
    "money_moves i w' = money_moves i w" "saved \<Longrightarrow> map_of (ww_table w') j = Some (wallet_row wc j op')"
    "\<exists>outcome. w' = apply_effect wc (SaveOperation j op' outcome) (apply_effect wc Clock w)"
    "v2_code wc j op \<Longrightarrow> wa_CanonicalRedeemCode op' = walletAdjustmentRedeemCode (wc_sha1hex wc) j"
  using assms by (auto simp: persistWalletAdjustment_def clock_def Let_def apply_save apply_quiet attempts_def account_key_def
      v2_code_def split: if_splits)

lemma persist_accounts:
  assumes "persistWalletAdjustment wc env j op w = (op', saved, w')"
  shows "accounts_for wc i x w' = accounts_for wc i x w"
proof -
  obtain outcome where "w' = apply_effect wc (SaveOperation j op' outcome) (apply_effect wc Clock w)"
    using persist_facts(6) [OF assms] by blast
  then show ?thesis by (simp add: apply_unmoved)
qed

lemma persist_keeps:
  assumes "persistWalletAdjustment wc env j op w = (op', saved, w')" and "money_accounted wc i w" and "holds_account wc i j op w"
  shows "keeps_account wc i j w op' w'"
proof -
  obtain outcome where w': "w' = apply_effect wc (SaveOperation j op' outcome) (apply_effect wc Clock w)"
    using persist_facts(6) [OF assms(1)] by blast
  have h: "holds_account wc i j op' w'"
    using assms(3) by (simp add: holds_account_def persist_accounts [OF assms(1)] accounts_for_key [OF persist_facts(1) [OF assms(1)]])
  have "money_accounted wc i w'"
  proof (cases "i = j \<and> outcome \<noteq> SaveRefused")
    case True
    then have "map_of (ww_table w') i = Some (wallet_row wc i op')" by (simp add: w' apply_save)
    with h True show ?thesis by (auto simp: money_accounted_def holds_account_def)
  next
    case False
    then have "map_of (ww_table w') i = map_of (ww_table w) i" by (simp only: w' apply_save apply_quiet quiet_effects if_False)
    with assms(2) show ?thesis by (simp add: money_accounted_def persist_facts(4) [OF assms(1)] persist_accounts [OF assms(1)])
  qed
  then have "accounted_path wc i w w'"
    unfolding w' by (intro accounted_path.more [OF path_quiet [OF assms(2)]]) simp_all
  with h show ?thesis by (simp add: keeps_account_def)
qed

subsection \<open>Every turn keeps the accounting\<close>

fun turn_operation :: "turn_result \<Rightarrow> wallet_operation" where
  "turn_operation (Continue op) = op"
| "turn_operation (Return op _) = op"

lemma keeps_accounted: "keeps_account wc i j w op w' \<Longrightarrow> money_accounted wc i w'"
  by (auto simp: keeps_account_def dest: path_end)

lemma keeps_holds: "keeps_account wc i j w op w' \<Longrightarrow> holds_account wc i j op w'"
  by (simp add: keeps_account_def)

text \<open>
  A step of the code with its result: started in an accounted world with an operation that accounts for the
  moves, it keeps the account.
\<close>

definition step_keeps :: "wallet_codec \<Rightarrow> string \<Rightarrow> string \<Rightarrow> wallet_operation \<Rightarrow> wallet_world \<Rightarrow> wallet_operation \<Rightarrow> wallet_world \<Rightarrow> bool" where
  "step_keeps wc i j op w op' w' \<longleftrightarrow>
     (money_accounted wc i w \<longrightarrow> holds_account wc i j op w \<longrightarrow> keeps_account wc i j w op' w')"

lemma step_refl [simp]: "step_keeps wc i j op w op w"
  by (simp add: step_keeps_def keeps_here)

lemma step_trans: "step_keeps wc i j op w op' w' \<Longrightarrow> step_keeps wc i j op' w' op'' w'' \<Longrightarrow> step_keeps wc i j op w op'' w''"
  unfolding step_keeps_def by (meson keeps_accounted keeps_after keeps_holds keeps_path)

lemma step_quiet [simp]: "quiet e \<Longrightarrow> step_keeps wc i j op w op (apply_effect wc e w)"
  by (auto simp: step_keeps_def keeps_account_def path_quiet holds_quiet)

lemma step_same: "account_key op' = account_key op \<Longrightarrow> step_keeps wc i j op w op' w"
  unfolding step_keeps_def keeps_account_def holds_account_def by (metis accounted_path.here accounts_for_key)

lemma step_from: "account_key op = account_key op0 \<Longrightarrow> step_keeps wc i j op w op' w' \<Longrightarrow> step_keeps wc i j op0 w op' w'"
  using step_trans step_same by blast

lemma step_quiet_first: "quiet e \<Longrightarrow> step_keeps wc i j op (apply_effect wc e w) op' w' \<Longrightarrow> step_keeps wc i j op w op' w'"
  using step_trans step_quiet by blast

lemma persist_step: "persistWalletAdjustment wc env j op w = (op', saved, w') \<Longrightarrow> step_keeps wc i j op w op' w'"
  by (auto simp: step_keeps_def dest: persist_keeps)

text \<open>Introduction rules for the results of the pieces, in the order the code composes them.\<close>

named_theorems account_intros \<open>steps that keep the account\<close>

lemma step_extend [account_intros]: "quiet e \<Longrightarrow> step_keeps wc i j op w op1 w1 \<Longrightarrow> step_keeps wc i j op w op1 (apply_effect wc e w1)"
  using step_trans step_quiet by blast

lemma persist_step' [account_intros]:
  assumes "step_keeps wc i j op w op1 w1"
  shows "step_keeps wc i j op w (fst (persistWalletAdjustment wc env j op1 w1)) (snd (snd (persistWalletAdjustment wc env j op1 w1)))"
  by (rule step_trans [OF assms persist_step [where saved = "fst (snd (persistWalletAdjustment wc env j op1 w1))"]]) simp

lemma persist_continue_step [account_intros]:
  assumes "step_keeps wc i j op w op1 w1"
  shows "step_keeps wc i j op w (turn_operation (fst (persist_continue wc env j op1 w1))) (snd (persist_continue wc env j op1 w1))"
  using persist_step' [OF assms] by (simp add: persist_continue_def split_def Let_def)

lemma persist_return_step [account_intros]:
  assumes "step_keeps wc i j op w op1 w1"
  shows "step_keeps wc i j op w (turn_operation (fst (persist_return wc env j op1 err w1))) (snd (persist_return wc env j op1 err w1))"
  using persist_step' [OF assms] by (simp add: persist_return_def split_def Let_def)

lemma persist_recovery_step [account_intros]:
  assumes "step_keeps wc i j op w op1 w1"
  shows "step_keeps wc i j op w (fst (persist_recovery wc env j op1 err w1)) (snd (snd (persist_recovery wc env j op1 err w1)))"
  using persist_step' [OF assms] by (simp add: persist_recovery_def split_def Let_def)

lemma account_key_failure [simp]: "account_key (recordWalletAdjustmentUpstreamFailure p e c op) = account_key op"
  by (simp add: recordWalletAdjustmentUpstreamFailure_def account_key_def attempts_def split: option.splits)

lemma account_key_history [simp]: "account_key (history_read h entry op) = account_key op"
  by (simp add: history_read_def account_key_def attempts_def)

lemma account_key_update [simp]:
  "account_key (wa_Status_update a op) = account_key op" "account_key (wa_Phase_update a op) = account_key op"
  "account_key (wa_ErrorCode_update a op) = account_key op" "account_key (wa_BeforeBalanceKnown_update b op) = account_key op"
  "account_key (wa_BeforeBalanceMicros_update n op) = account_key op" "account_key (wa_BeforeBalanceReadAt_update a op) = account_key op"
  "account_key (wa_AfterBalanceKnown_update b op) = account_key op" "account_key (wa_AfterBalanceMicros_update n op) = account_key op"
  "account_key (wa_AfterBalanceReadAt_update a op) = account_key op" "account_key (wa_ReceiptID_update a op) = account_key op"
  "account_key (wa_CanonicalRedeemCode_update a op) = account_key op" "account_key (wa_RedeemCodeVersion_update a op) = account_key op"
  "account_key (wa_LegacySupersession_update a op) = account_key op" "account_key (wa_RecoveryRequestHash_update a op) = account_key op"
  "account_key (wa_RecoveryEvidenceRef_update a op) = account_key op" "account_key (wa_RecoveryActorUserID_update a op) = account_key op"
  "account_key (wa_RecoveryAuthorizedAt_update a op) = account_key op"
  by (simp_all add: account_key_def attempts_def)

lemma audit_step [account_intros]:
  assumes "step_keeps wc i j op w op1 w1"
  shows "step_keeps wc i j op w op1 (snd (saveWalletAdjustmentAudit wc env r j op2 result w1))"
  using assms unfolding saveWalletAdjustmentAudit_def save_audit_def Let_def by (simp add: step_extend)

lemma step_cong: "account_key op' = account_key op1 \<Longrightarrow> step_keeps wc i j op w op' w1 = step_keeps wc i j op w op1 w1"
  using step_trans step_same by metis

lemmas step_updates [simp] =
  account_key_update [THEN step_cong] account_key_failure [THEN step_cong] account_key_history [THEN step_cong]

lemma review_step [account_intros]:
  assumes "step_keeps wc i j op w op1 w1"
  shows "step_keeps wc i j op w (fst (manualReviewWalletAdjustment wc env r j op1 c w1)) (snd (snd (manualReviewWalletAdjustment wc env r j op1 c w1)))"
  unfolding manualReviewWalletAdjustment_def Let_def split_def
  using assms by (auto intro!: account_intros)

lemma review_return_step [account_intros]:
  assumes "step_keeps wc i j op w op1 w1"
  shows "step_keeps wc i j op w (turn_operation (fst (review_return wc env r j op1 c w1))) (snd (review_return wc env r j op1 c w1))"
  using review_step [OF assms] by (simp add: review_return_def split_def Let_def)

lemma before_balance_step:
  "step_keeps wc i j op w (turn_operation (fst (turn_before_balance wc env j op w))) (snd (turn_before_balance wc env j op w))"
  unfolding turn_before_balance_def Sub2APIBalance_def clock_def Let_def
  by (auto split: option.split intro!: account_intros)

lemma readback_step:
  "step_keeps wc i j op w (turn_operation (fst (turn_readback wc env r j op w))) (snd (turn_readback wc env r j op w))"
  unfolding turn_readback_def FinancialBalanceHistoryByCodes_def Let_def
  by (auto split: option.split intro!: account_intros)

lemma after_balance_step:
  "step_keeps wc i j op w (turn_operation (fst (turn_after_balance wc env r j op w))) (snd (turn_after_balance wc env r j op w))"
  unfolding turn_after_balance_def Sub2APIBalance_def clock_def Let_def
  by (auto split: option.split intro!: account_intros)

lemma ledger_step:
  "step_keeps wc i j op w (turn_operation (fst (turn_ledger wc env j op w))) (snd (turn_ledger wc env j op w))"
  unfolding turn_ledger_def Let_def
  by (auto split: option.split intro!: account_intros)

lemma audit_turn_step:
  "step_keeps wc i j op w (turn_operation (fst (turn_audit wc env r j op w))) (snd (turn_audit wc env r j op w))"
  unfolding turn_audit_def Let_def split_def
  by (auto intro!: account_intros)

text \<open>An operation that is about to make its first attempt accounts for one move more.\<close>

lemma attempt_account:
  assumes "accounts_for wc i op w" and "\<not> wa_AdjustmentAttempted op"
  shows "accounts_for wc i (op\<lparr>wa_AdjustmentAttempted := True, wa_Phase := p\<rparr>) w"
    and "Suc (money_moves i w) \<le> attempts (op\<lparr>wa_AdjustmentAttempted := True, wa_Phase := p\<rparr>)"
  using assms by (auto simp: accounts_for_def move_of_def attempts_def)

lemma attempt_step:
  assumes "\<not> wa_AdjustmentAttempted op"
    and "persistWalletAdjustment wc env j (op\<lparr>wa_AdjustmentAttempted := True, wa_Phase := p\<rparr>) w = (op1, saved, w1)"
  shows "step_keeps wc i j op w op1 w1"
  using persist_step [OF assms(2), of i] attempt_account(1) [OF _ assms(1)]
  unfolding step_keeps_def keeps_account_def holds_account_def by blast

lemma move_is_move_of:
  assumes "wa_CanonicalRedeemCode op = walletAdjustmentRedeemCode (wc_sha1hex wc) j"
  shows "snd (move_money wc env j op w) = apply_effect wc (move_of wc j op) w"
  using assms by (simp add: move_money_def move_of_def money_of_def Let_def)

lemma moves_of [simp]: "moves_money i (move_of wc j op) = (i = j)"
  by (auto simp: move_of_def Let_def)

lemma apply_move: "money_moves i (apply_effect wc (move_of wc j op) w) = money_moves i w + (if i = j then 1 else 0)"
  "ww_table (apply_effect wc (move_of wc j op) w) = ww_table w"
  by (simp_all add: apply_effect_def money_moves_def) (simp add: move_of_def Let_def)

lemma move_step:
  assumes "v2_code wc j op" and "\<not> wa_AdjustmentAttempted op"
    and p: "persistWalletAdjustment wc env j (op\<lparr>wa_AdjustmentAttempted := True, wa_Phase := ph\<rparr>) w = (op1, True, w1)"
  shows "step_keeps wc i j op w op1 (snd (move_money wc env j op1 w1))"
proof -
  let ?op = "op\<lparr>wa_AdjustmentAttempted := True, wa_Phase := ph\<rparr>" and ?w = "apply_effect wc (move_of wc j op1) w1"
  have "v2_code wc j ?op" using assms(1) by (simp add: v2_code_def)
  from persist_facts(7) [OF p this] have w: "snd (move_money wc env j op1 w1) = ?w" by (rule move_is_move_of)
  have key: "account_key op1 = account_key ?op" by (rule persist_facts(1) [OF p])
  show ?thesis unfolding w step_keeps_def
  proof (intro impI)
    assume a: "money_accounted wc i w" and h: "holds_account wc i j op w"
    with attempt_step [OF assms(2) p, of i] have k: "keeps_account wc i j w op1 w1" by (simp add: step_keeps_def)
    have acc: "accounts_for wc i op1 ?w" if "j = i"
    proof -
      from k that have "accounts_for wc i op1 w1" by (simp add: keeps_account_def holds_account_def)
      moreover have "accounts_for wc i op w" using h that by (simp add: holds_account_def)
      from attempt_account(2) [OF this assms(2), of ph] key have "Suc (money_moves i w1) \<le> attempts op1"
        by (simp add: persist_facts(4) [OF p] account_key_def)
      ultimately show ?thesis using that
        by (auto simp: accounts_for_def apply_move) (auto simp: apply_effect_def)
    qed
    have "money_accounted wc i ?w"
    proof (cases "j = i")
      case True
      with acc persist_facts(5) [OF p] show ?thesis by (auto simp: money_accounted_def apply_move)
    next
      case False
      with keeps_accounted [OF k] show ?thesis by (simp add: money_accounted_def apply_move apply_unmoved)
    qed
    then have "accounted_path wc i w ?w" by (rule accounted_path.more [OF keeps_path [OF k]])
    with acc show "keeps_account wc i j w op1 ?w" by (simp add: keeps_account_def holds_account_def)
  qed
qed

lemma adjustment_step:
  "step_keeps wc i j op w (turn_operation (fst (turn_adjustment wc env r j op w))) (snd (turn_adjustment wc env r j op w))"
proof (cases "v2_code wc j op \<and> \<not> wa_AdjustmentAttempted op")
  case False
  then show ?thesis by (auto simp: turn_adjustment_def)
next
  case True
  let ?op = "op\<lparr>wa_AdjustmentAttempted := True, wa_Phase := ''authoritative_readback''\<rparr>"
  obtain op1 saved w1 where p: "persistWalletAdjustment wc env j ?op w = (op1, saved, w1)" by (rule prod_cases3)
  show ?thesis
  proof (cases saved)
    case False
    with True p show ?thesis using attempt_step [OF _ p, of i] by (simp add: turn_adjustment_def)
  next
    case s: True
    then have "step_keeps wc i j op w op1 (snd (move_money wc env j op1 w1))" using move_step [of wc j op env] p True by simp
    with True p s show ?thesis
      by (auto simp: turn_adjustment_def Let_def split_def split: option.split intro!: account_intros)
  qed
qed

lemma turn_step:
  "step_keeps wc i j op w (turn_operation (fst (wallet_turn wc env r j op w))) (snd (wallet_turn wc env r j op w))"
  using before_balance_step adjustment_step readback_step after_balance_step ledger_step audit_turn_step
  by (simp add: wallet_turn_def account_intros)

lemma run_turns_step:
  "step_keeps wc i j op w (fst (run_turns n wc env r j op w)) (snd (snd (run_turns n wc env r j op w)))"
proof (induction n arbitrary: op w)
  case (Suc n)
  obtain t w' where t: "wallet_turn wc env r j op w = (t, w')" by fastforce
  with turn_step [of wc i j op w env r] have "step_keeps wc i j op w (turn_operation t) w'" by simp
  with t show ?case using step_trans [OF _ Suc] by (cases t) auto
qed simp

lemma run_step [account_intros]:
  assumes "step_keeps wc i j op w op1 w1"
  shows "step_keeps wc i j op w (fst (runWalletAdjustment wc env r j op1 w1)) (snd (snd (runWalletAdjustment wc env r j op1 w1)))"
  unfolding runWalletAdjustment_def by (rule step_trans [OF assms run_turns_step])

lemma authorize_step [account_intros]:
  "step_keeps wc i j op w (fst (authorize_recovery wc env j op h e a w)) (snd (snd (authorize_recovery wc env j op h e a w)))"
  by (auto simp: authorize_recovery_def clock_def Let_def intro!: account_intros)

lemma retry_step [account_intros]:
  assumes "step_keeps wc i j op w op1 w1"
  shows "step_keeps wc i j op w (fst (recovery_retry wc env j op1 w1)) (snd (snd (recovery_retry wc env j op1 w1)))"
proof -
  have switch: "step_keeps wc i j op w (x\<lparr>wa_RecoveryAttempted := True, wa_AdjustmentAttempted := False\<rparr>) w1"
    if "recoveryEligible wc j op1" "account_key x = account_key op1" "wa_RecoveryAttempted x = wa_RecoveryAttempted op1"
    for x
  proof -
    from that have "account_key (x\<lparr>wa_RecoveryAttempted := True, wa_AdjustmentAttempted := False\<rparr>) = account_key op1"
      by (auto simp: recoveryEligible_def account_key_def attempts_def)
    from step_cong [OF this] assms show ?thesis by blast
  qed
  show ?thesis
    unfolding recovery_retry_def Sub2APIBalance_def Let_def
    using assms by (auto split: sum.split intro!: account_intros switch)
qed

lemma recovery_readback_step [account_intros]:
  assumes "step_keeps wc i j op w op1 w1"
  shows "step_keeps wc i j op w (fst (recovery_readback wc env j op1 history w1)) (snd (snd (recovery_readback wc env j op1 history w1)))"
  unfolding recovery_readback_def recovery_confirmed_def Let_def
  using assms by (auto split: history_state.split intro!: account_intros)

lemma prepare_step [account_intros]:
  "step_keeps wc i j op w (fst (prepareWalletAdjustmentRecovery wc env j op h e a w))
     (snd (snd (prepareWalletAdjustmentRecovery wc env j op h e a w)))"
  unfolding prepareWalletAdjustmentRecovery_def FinancialBalanceHistoryByCodes_def Let_def split_def
  by (auto split: sum.split intro!: account_intros)

subsection \<open>The handlers\<close>

text \<open>What the JSON codec promises: decoding a stored operation gives it back, without the status.\<close>

definition wallet_codec_ok :: "wallet_codec \<Rightarrow> bool" where
  "wallet_codec_ok wc \<longleftrightarrow> (\<forall>op. wc_unmarshal wc (wc_marshal wc op) = Some (op\<lparr>wa_Status := []\<rparr>))"

lemma step_path: "step_keeps wc i j op w op' w' \<Longrightarrow> money_accounted wc i w \<Longrightarrow> holds_account wc i j op w \<Longrightarrow> accounted_path wc i w w'"
  by (simp add: step_keeps_def keeps_account_def)

lemma decode_account:
  assumes "wallet_codec_ok wc" and "decodeWalletAdjustment wc (wallet_row wc j op0) = Inr op"
  shows "account_key op = account_key op0"
proof -
  have "mget (wallet_row wc j op0) ''result'' = GStr (wc_marshal wc op0)" by (simp add: wallet_row_def mget_def)
  with assms have "\<exists>s. op = op0\<lparr>wa_Status := s\<rparr>"
    by (auto simp: decodeWalletAdjustment_def wallet_codec_ok_def Let_def stringValue_def split: if_splits)
  then show ?thesis by auto
qed

lemma loaded_account:
  assumes "wallet_codec_ok wc" and "walletAdjustment wc env j h w = Inr (Some op)" and "money_accounted wc i w"
  shows "holds_account wc i j op w"
proof (cases "money_moves i w = 0")
  case True
  then show ?thesis by (simp add: holds_account_def accounts_for_none)
next
  case False
  obtain row where row: "map_of (ww_table w) j = Some row" "decodeWalletAdjustment wc row = Inr op"
    using assms(2) by (auto simp: walletAdjustment_def split: if_splits option.splits sum.splits)
  from False assms(3) obtain op0 where op0: "map_of (ww_table w) i = Some (wallet_row wc i op0)" "accounts_for wc i op0 w"
    by (auto simp: money_accounted_def)
  show ?thesis unfolding holds_account_def
  proof
    assume "j = i"
    with row op0 have "decodeWalletAdjustment wc (wallet_row wc i op0) = Inr op" by simp
    from accounts_for_key [OF decode_account [OF assms(1) this]] op0(2) show "accounts_for wc i op w" by simp
  qed
qed

lemma fresh_account:
  assumes "walletAdjustment wc env j h w = Inr None" and "j \<noteq> []" and "money_accounted wc i w"
  shows "holds_account wc i j op w"
proof -
  have "map_of (ww_table w) j = None"
    using assms(1,2) by (auto simp: walletAdjustment_def split: if_splits option.splits sum.splits)
  then show ?thesis using assms(3) by (auto simp: holds_account_def money_accounted_def accounts_for_none)
qed

lemma finish_create_path:
  assumes "money_accounted wc i w" and "holds_account wc i j op w"
  shows "accounted_path wc i w (snd (finish_create wc env r j created op w))"
proof -
  have "step_keeps wc i j op w (fst (runWalletAdjustment wc env r j op w)) (snd (snd (runWalletAdjustment wc env r j op w)))"
    by (intro account_intros step_refl)
  from step_path [OF this assms] show ?thesis
    using accounted_path.here [OF assms(1)] by (simp add: finish_create_def split_def Let_def split: option.split)
qed

lemma holds_key: "account_key op' = account_key op \<Longrightarrow> holds_account wc i j op w \<Longrightarrow> holds_account wc i j op' w"
  using accounts_for_key [of op' op wc i w] by (simp add: holds_account_def)

lemma create_path:
  assumes "wallet_codec_ok wc" and "money_accounted wc i w"
  shows "accounted_path wc i w (snd (createWalletAdjustment wc env call w))"
proof -
  let ?a = "trim_space (wl_path call)" and ?k = "trim_space (wl_key call)" and ?r = "wl_audit call"
  let ?j = "operation_id wc ?a ?k"
  have ne: "?j \<noteq> []" by (simp add: operation_id_def)
  have here: "accounted_path wc i w w" by (rule accounted_path.here [OF assms(2)])
  have start: "accounted_path wc i w (snd (start_operation wc env ?r ?k ?a input amount w))"
    if none: "walletAdjustment wc env ?j h w = Inr None" for input amount h
  proof -
    let ?op = "\<lambda>u now. new_operation wc ?j (request_hash wc ?a (stringValue (mget (ar_user ?r) ''id'')) input amount) ?a
      (stringValue (mget (ar_user ?r) ''id'')) input amount u now"
    have c: "accounted_path wc i w (apply_effect wc Clock w)" by (rule path_quiet [OF assms(2)]) simp
    have p: "accounted_path wc i w (snd (snd (persistWalletAdjustment wc env ?j (?op u now) (apply_effect wc Clock w))))"
      and f: "accounted_path wc i w (snd (finish_create wc env ?r ?j True (fst (persistWalletAdjustment wc env ?j (?op u now) (apply_effect wc Clock w)))
        (snd (snd (persistWalletAdjustment wc env ?j (?op u now) (apply_effect wc Clock w))))))" for u now
    proof -
      obtain op1 saved w1 where s: "persistWalletAdjustment wc env ?j (?op u now) (apply_effect wc Clock w) = (op1, saved, w1)"
        by (rule prod_cases3)
      have "holds_account wc i ?j (?op u now) (apply_effect wc Clock w)"
        using fresh_account [OF none ne assms(2)] by (simp add: holds_quiet)
      from persist_keeps [OF s path_end [OF c] this] have k: "keeps_account wc i ?j (apply_effect wc Clock w) op1 w1" .
      from path_trans [OF keeps_path [OF k] c] have w1: "accounted_path wc i w w1" .
      then show "accounted_path wc i w (snd (snd (persistWalletAdjustment wc env ?j (?op u now) (apply_effect wc Clock w))))"
        by (simp add: s)
      from path_trans [OF finish_create_path [OF keeps_accounted [OF k] keeps_holds [OF k]] w1]
      show "accounted_path wc i w (snd (finish_create wc env ?r ?j True (fst (persistWalletAdjustment wc env ?j (?op u now) (apply_effect wc Clock w)))
        (snd (snd (persistWalletAdjustment wc env ?j (?op u now) (apply_effect wc Clock w))))))" by (simp add: s)
    qed
    show ?thesis
      using here c p f by (simp add: start_operation_def clock_def Let_def split_def split: sum.split option.split)
  qed
  have load: "accounted_path wc i w (snd (finish_create wc env ?r ?j False op w))"
    if "walletAdjustment wc env ?j h w = Inr (Some op)" for op h
    by (rule finish_create_path [OF assms(2) loaded_account [OF assms(1) that assms(2)]])
  show ?thesis
    using here start load by (simp add: createWalletAdjustment_def Let_def split: option.split sum.split)
qed

lemma finish_recovery_path:
  assumes "money_accounted wc i w" and "holds_account wc i j op w"
  shows "accounted_path wc i w (snd (finish_recovery wc env r j key evidence op w))"
proof -
  let ?ran = "if wa_Status op = ''pending'' then runWalletAdjustment wc env r j op w else (op, None, w)"
  have "step_keeps wc i j op w (fst ?ran) (snd (snd ?ran))" by (auto intro!: account_intros)
  from step_path [OF this assms] have p: "accounted_path wc i w (snd (snd ?ran))" .
  obtain op1 err w1 where ran: "?ran = (op1, err, w1)" by (rule prod_cases3)
  with p have w1: "accounted_path wc i w w1" by simp
  have "accounted_path wc i w1 (apply_effect wc Clock w1)" by (rule path_quiet [OF path_end [OF w1]]) simp
  then have c: "accounted_path wc i w1 (apply_effect wc (SaveAudit event) (apply_effect wc Clock w1))" for event
    by (rule accounted_path.more) (simp add: path_end money_accounted_def apply_quiet apply_unmoved quiet_unmoved,
      use path_end [OF w1] in \<open>simp add: money_accounted_def\<close>)
  from path_trans [OF this w1] show ?thesis
    using w1 unfolding finish_recovery_def ran by (simp add: save_audit_def Let_def split: option.split)
qed

lemma recover_path:
  assumes "wallet_codec_ok wc" and "money_accounted wc i w"
  shows "accounted_path wc i w (snd (recoverWalletAdjustment wc env call w))"
proof -
  let ?j = "trim_space (wl_path call)" and ?r = "wl_audit call"
  have here: "accounted_path wc i w w" by (rule accounted_path.here [OF assms(2)])
  have run: "accounted_path wc i w (snd (finish_recovery wc env ?r ?j key evidence op w))"
    and prepared: "accounted_path wc i w (snd (snd (prepareWalletAdjustmentRecovery wc env ?j op h evidence actor w)))"
    and finished: "accounted_path wc i w (snd (finish_recovery wc env ?r ?j key evidence
        (fst (prepareWalletAdjustmentRecovery wc env ?j op h evidence actor w))
        (snd (snd (prepareWalletAdjustmentRecovery wc env ?j op h evidence actor w)))))"
    if "walletAdjustment wc env ?j [] w = Inr (Some op)" for op h key evidence actor
  proof -
    have h: "holds_account wc i ?j op w" by (rule loaded_account [OF assms(1) that assms(2)])
    show "accounted_path wc i w (snd (finish_recovery wc env ?r ?j key evidence op w))" by (rule finish_recovery_path [OF assms(2) h])
    have k: "keeps_account wc i ?j w (fst (prepareWalletAdjustmentRecovery wc env ?j op h evidence actor w))
        (snd (snd (prepareWalletAdjustmentRecovery wc env ?j op h evidence actor w)))"
      using prepare_step [of wc i ?j op w env h evidence actor] assms(2) h by (simp add: step_keeps_def)
    then show "accounted_path wc i w (snd (snd (prepareWalletAdjustmentRecovery wc env ?j op h evidence actor w)))" by (rule keeps_path)
    then show "accounted_path wc i w (snd (finish_recovery wc env ?r ?j key evidence
        (fst (prepareWalletAdjustmentRecovery wc env ?j op h evidence actor w))
        (snd (snd (prepareWalletAdjustmentRecovery wc env ?j op h evidence actor w)))))"
      using path_trans [OF finish_recovery_path [OF keeps_accounted [OF k] keeps_holds [OF k]]] by blast
  qed
  show ?thesis
    using here run prepared finished
    by (simp add: recoverWalletAdjustment_def Let_def split_def split: option.split sum.split)
qed

section \<open>Histories\<close>

text \<open>A run may be cut off after any of its effects.\<close>

definition cut_off :: "wallet_codec \<Rightarrow> wallet_world \<Rightarrow> wallet_world \<Rightarrow> wallet_world \<Rightarrow> bool" where
  "cut_off wc w w1 w' \<longleftrightarrow> (\<exists>es n. w1 = fold (apply_effect wc) es w \<and> w' = fold (apply_effect wc) (take n es) w)"

text \<open>The wallet rows of a table.\<close>

definition wallet_part :: "(string \<times> gomap) list \<Rightarrow> string \<Rightarrow> gomap option" where
  "wallet_part table j =
     (case map_of table j of
        None \<Rightarrow> None
      | Some row \<Rightarrow> if stringValue (mget row ''action'') = ''gateway.wallet_adjustment.v1'' then Some row else None)"

lemma wallet_part_row:
  "map_of table j = Some (wallet_row wc j op) \<Longrightarrow> wallet_part table j = Some (wallet_row wc j op)"
  by (simp add: wallet_part_def wallet_row_def mget_def stringValue_def)

text \<open>Balances are numbers of 64 bits.\<close>

definition typed_env :: "wallet_env \<Rightarrow> bool" where
  "typed_env env \<longleftrightarrow> (\<forall>t u b. we_balance env t u = Inr b \<longrightarrow> in_int64 (gb_USDMicros b))"

text \<open>
  The histories of the wallet: requests to create and to recover adjustments, each with any answers of the
  environment and each possibly cut off, and changes of rows that are not wallet adjustments.
\<close>

inductive wallet_history :: "wallet_codec \<Rightarrow> (string \<times> gomap) list \<Rightarrow> wallet_world \<Rightarrow> bool" for wc table where
  start: "wallet_history wc table \<lparr>ww_table = table, ww_trace = []\<rparr>"
| create: "wallet_history wc table w \<Longrightarrow> typed_env env \<Longrightarrow> cut_off wc w (snd (createWalletAdjustment wc env call w)) w' \<Longrightarrow> wallet_history wc table w'"
| recover: "wallet_history wc table w \<Longrightarrow> typed_env env \<Longrightarrow> cut_off wc w (snd (recoverWalletAdjustment wc env call' w)) w' \<Longrightarrow> wallet_history wc table w'"
| other: "wallet_history wc table w \<Longrightarrow> wallet_part table' = wallet_part (ww_table w) \<Longrightarrow>
    wallet_history wc table (w\<lparr>ww_table := table'\<rparr>)"

lemma fold_trace: "ww_trace (fold (apply_effect wc) es w) = ww_trace w @ es"
  by (induction es arbitrary: w) (simp_all add: apply_effect_def)

lemma path_effects:
  assumes "accounted_path wc i w w'"
  shows "\<exists>es. w' = fold (apply_effect wc) es w \<and> (\<forall>n. money_accounted wc i (fold (apply_effect wc) (take n es) w))"
  using assms
proof (induction rule: accounted_path.induct)
  case here
  then show ?case by (intro exI [of _ "[]"]) simp
next
  case (more w' e)
  then obtain es where es: "w' = fold (apply_effect wc) es w" "\<forall>n. money_accounted wc i (fold (apply_effect wc) (take n es) w)" by blast
  have "money_accounted wc i (fold (apply_effect wc) (take n (es @ [e])) w)" for n
  proof (cases "n \<le> length es")
    case True
    then show ?thesis using es(2) by simp
  next
    case False
    then have "take n (es @ [e]) = es @ [e]" by simp
    then show ?thesis using more.hyps(2) es(1) by simp
  qed
  with es(1) show ?case by (intro exI [of _ "es @ [e]"]) simp
qed

lemma cut_off_accounted:
  assumes "accounted_path wc i w w1" and "cut_off wc w w1 w'"
  shows "money_accounted wc i w'"
proof -
  obtain es where es: "w1 = fold (apply_effect wc) es w" "\<And>n. money_accounted wc i (fold (apply_effect wc) (take n es) w)"
    using path_effects [OF assms(1)] by blast
  obtain es' n where es': "w1 = fold (apply_effect wc) es' w" "w' = fold (apply_effect wc) (take n es') w"
    using assms(2) by (auto simp: cut_off_def)
  have "es' = es" using es(1) es'(1) by (metis fold_trace same_append_eq)
  with es(2) es'(2) show ?thesis by blast
qed

lemma history_accounted:
  assumes "wallet_codec_ok wc" and "wallet_history wc table w"
  shows "money_accounted wc i w"
  using assms(2)
proof (induction rule: wallet_history.induct)
  case start
  then show ?case by (simp add: money_accounted_def money_moves_def)
next
  case (create w env call w')
  then show ?case using cut_off_accounted create_path [OF assms(1)] by blast
next
  case (recover w env call' w')
  then show ?case using cut_off_accounted recover_path [OF assms(1)] by blast
next
  case (other w table')
  show ?case
  proof (cases "money_moves i w = 0")
    case True
    then show ?thesis by (simp add: money_accounted_def money_moves_def)
  next
    case False
    with other.IH obtain op where op: "map_of (ww_table w) i = Some (wallet_row wc i op)" "accounts_for wc i op w"
      by (auto simp: money_accounted_def)
    from wallet_part_row [OF op(1)] other.hyps(2) have "wallet_part table' i = Some (wallet_row wc i op)" by simp
    then have "map_of table' i = Some (wallet_row wc i op)" by (auto simp: wallet_part_def split: option.splits if_splits)
    with op(2) show ?thesis by (auto simp: money_accounted_def accounts_for_def money_moves_def)
  qed
qed

text \<open>
  C1: money moves at most once per attempt. In every history of the wallet, with any answers of the
  Gateway, the ledger and the database, and with runs cut off at any point, an adjustment moves money at most
  twice: every move is the same charge or refund of the same user and amount under the redeem code of
  the operation, each one is accounted for by an attempt that was stored before, and a second one only by a
  recovery.
\<close>

theorem wallet_moves_money_once:
  assumes "wallet_codec_ok wc" and "wallet_history wc table w" and "money_moves i w \<noteq> 0"
  shows "\<exists>op. map_of (ww_table w) i = Some (wallet_row wc i op) \<and>
    (\<forall>e \<in> set (ww_trace w). moves_money i e \<longrightarrow> e = move_of wc i op) \<and>
    money_moves i w \<le> (if wa_RecoveryAttempted op then 2 else 1) \<and>
    (wa_AdjustmentAttempted op \<or> wa_RecoveryAttempted op)"
proof -
  from history_accounted [OF assms(1,2), of i] assms(3) obtain op where
    "map_of (ww_table w) i = Some (wallet_row wc i op)" "accounts_for wc i op w" by (auto simp: money_accounted_def)
  with assms(3) show ?thesis
    by (intro exI [of _ op]) (auto simp: accounts_for_def attempts_def split: if_splits)
qed

end
