(* ===== verification/Wallet_Outcome.thy ===== *)
theory Wallet_Outcome
  imports Wallet_Safety
begin

text \<open>
  What a finished wallet adjustment rests on. The invariant of stored operations says, phase by phase, what
  is known about the balances, the history entry and the receipt; every save of the code establishes it.
\<close>

section \<open>The invariant of an operation\<close>

definition sized :: "wallet_operation \<Rightarrow> bool" where
  "sized op \<longleftrightarrow> 0 < wa_AmountUSDMicros op \<and> in_int64 (wa_AmountUSDMicros op)"

text \<open>The balance before is known and leaves room for the adjustment.\<close>

definition funded :: "wallet_operation \<Rightarrow> bool" where
  "funded op \<longleftrightarrow> wa_BeforeBalanceKnown op \<and> 0 \<le> wa_BeforeBalanceMicros op \<and> in_int64 (wa_BeforeBalanceMicros op) \<and>
     (if wa_Kind op = ''debit'' then wa_AmountUSDMicros op \<le> wa_BeforeBalanceMicros op
      else wa_BeforeBalanceMicros op \<le> max_int64 - wa_AmountUSDMicros op)"

text \<open>The balance after is known and differs by exactly the amount.\<close>

definition settled :: "wallet_operation \<Rightarrow> bool" where
  "settled op \<longleftrightarrow> wa_AfterBalanceKnown op \<and>
     wa_AfterBalanceMicros op = (if wa_Kind op = ''debit'' then wa_BeforeBalanceMicros op - wa_AmountUSDMicros op
                                 else wa_BeforeBalanceMicros op + wa_AmountUSDMicros op)"

definition wallet_op_ok :: "wallet_operation \<Rightarrow> bool" where
  "wallet_op_ok op \<longleftrightarrow> sized op \<and>
     (if wa_Phase op = ''before_balance'' then wa_Status op = ''pending''
      else if wa_Phase op \<in> {''adjustment'', ''authoritative_readback'', ''manual_review_audit''}
      then funded op \<and> wa_Status op \<in> {''pending'', ''manual_review''}
      else if wa_Phase op = ''after_balance'' then funded op \<and> wa_BalanceHistoryRef op \<noteq> [] \<and> wa_Status op = ''pending''
      else if wa_Phase op = ''ledger'' then funded op \<and> wa_BalanceHistoryRef op \<noteq> [] \<and> settled op \<and> wa_Status op = ''pending''
      else if wa_Phase op = ''audit''
      then funded op \<and> wa_BalanceHistoryRef op \<noteq> [] \<and> settled op \<and> wa_ReceiptID op \<noteq> [] \<and> wa_Status op = ''pending''
      else wa_Phase op = ''complete'' \<and>
        (wa_Status op = ''failed'' \<or>
         wa_Status op = ''succeeded'' \<and> funded op \<and> wa_BalanceHistoryRef op \<noteq> [] \<and> settled op \<and> wa_ReceiptID op \<noteq> []))"

text \<open>A run whose saves all have the invariant.\<close>

definition saves_ok :: "wallet_codec \<Rightarrow> wallet_world \<Rightarrow> wallet_world \<Rightarrow> bool" where
  "saves_ok wc w w' \<longleftrightarrow>
     (\<exists>es. w' = fold (apply_effect wc) es w \<and> (\<forall>j op outcome. SaveOperation j op outcome \<in> set es \<longrightarrow> wallet_op_ok op))"

named_theorems outcome_intros \<open>runs whose saves have the invariant\<close>

lemma saves_refl [outcome_intros]: "saves_ok wc w w"
  unfolding saves_ok_def by (intro exI [of _ "[]"]) simp

lemma saves_more:
  assumes "saves_ok wc w w'" and "\<And>j op outcome. e = SaveOperation j op outcome \<Longrightarrow> wallet_op_ok op"
  shows "saves_ok wc w (apply_effect wc e w')"
proof -
  obtain es where es: "w' = fold (apply_effect wc) es w" "\<forall>j op outcome. SaveOperation j op outcome \<in> set es \<longrightarrow> wallet_op_ok op"
    using assms(1) by (auto simp: saves_ok_def)
  show ?thesis unfolding saves_ok_def
  proof (intro exI [of _ "es @ [e]"] conjI allI impI)
    show "apply_effect wc e w' = fold (apply_effect wc) (es @ [e]) w" by (simp add: es(1))
    fix j op outcome assume "SaveOperation j op outcome \<in> set (es @ [e])"
    then show "wallet_op_ok op" using es(2) assms(2) [of j op outcome] by auto
  qed
qed

lemma saves_quiet [outcome_intros]: "quiet e \<Longrightarrow> saves_ok wc w w' \<Longrightarrow> saves_ok wc w (apply_effect wc e w')"
  by (rule saves_more) (auto simp: quiet_def)

lemma saves_trans: "saves_ok wc w w1 \<Longrightarrow> saves_ok wc w1 w2 \<Longrightarrow> saves_ok wc w w2"
proof -
  assume "saves_ok wc w w1" "saves_ok wc w1 w2"
  then obtain es es' where "w1 = fold (apply_effect wc) es w" "w2 = fold (apply_effect wc) es' w1"
      "\<forall>j op outcome. SaveOperation j op outcome \<in> set es \<longrightarrow> wallet_op_ok op"
      "\<forall>j op outcome. SaveOperation j op outcome \<in> set es' \<longrightarrow> wallet_op_ok op"
    unfolding saves_ok_def by blast
  then show ?thesis unfolding saves_ok_def by (intro exI [of _ "es @ es'"]) (simp, blast)
qed

lemma saves_move [outcome_intros]: "saves_ok wc w w' \<Longrightarrow> saves_ok wc w (snd (move_money wc env j op w'))"
  by (auto simp: move_money_def intro: saves_more)

lemma saves_audit [outcome_intros]: "saves_ok wc w w' \<Longrightarrow> saves_ok wc w (snd (saveWalletAdjustmentAudit wc env r j op result w'))"
  unfolding saveWalletAdjustmentAudit_def save_audit_def Let_def by (simp add: saves_quiet)

definition ok_result :: "wallet_codec \<Rightarrow> wallet_world \<Rightarrow> wallet_operation \<Rightarrow> wallet_world \<Rightarrow> bool" where
  "ok_result wc w op' w' \<longleftrightarrow> wallet_op_ok op' \<and> saves_ok wc w w'"

lemma ok_resultI [intro]: "wallet_op_ok op' \<Longrightarrow> saves_ok wc w w' \<Longrightarrow> ok_result wc w op' w'"
  by (simp add: ok_result_def)

lemma op_ok_updates [simp]:
  "wallet_op_ok (wa_CanonicalRedeemCode_update a op) = wallet_op_ok op" "wallet_op_ok (wa_RedeemCodeVersion_update a op) = wallet_op_ok op"
  "wallet_op_ok (wa_UpdatedAt_update a op) = wallet_op_ok op" "wallet_op_ok (wa_LegacySupersession_update a op) = wallet_op_ok op"
  "wallet_op_ok (wa_RecoveryRequestHash_update a op) = wallet_op_ok op" "wallet_op_ok (wa_RecoveryEvidenceRef_update a op) = wallet_op_ok op"
  "wallet_op_ok (wa_RecoveryActorUserID_update a op) = wallet_op_ok op" "wallet_op_ok (wa_RecoveryAuthorizedAt_update a op) = wallet_op_ok op"
  "wallet_op_ok (wa_ErrorCode_update a op) = wallet_op_ok op" "wallet_op_ok (wa_UpstreamFailure_update f op) = wallet_op_ok op"
  "wallet_op_ok (wa_AdjustmentAttempted_update b op) = wallet_op_ok op" "wallet_op_ok (wa_RecoveryAttempted_update b op) = wallet_op_ok op"
  by (simp_all add: wallet_op_ok_def sized_def funded_def settled_def)

lemma op_ok_failure [simp]: "wallet_op_ok (recordWalletAdjustmentUpstreamFailure p e c op) = wallet_op_ok op"
  by (simp add: recordWalletAdjustmentUpstreamFailure_def split: option.split)

lemma persist_ok [simp]: "wallet_op_ok (fst (persistWalletAdjustment wc env j op w)) = wallet_op_ok op"
  by (simp add: persistWalletAdjustment_def clock_def Let_def)

lemma persist_fields [simp]:
  "wa_Phase (fst (persistWalletAdjustment wc env j op w)) = wa_Phase op"
  "wa_Status (fst (persistWalletAdjustment wc env j op w)) = wa_Status op"
  "sized (fst (persistWalletAdjustment wc env j op w)) = sized op"
  "funded (fst (persistWalletAdjustment wc env j op w)) = funded op"
  by (simp_all add: persistWalletAdjustment_def clock_def Let_def sized_def funded_def)

lemma persist_saves [outcome_intros]:
  assumes "wallet_op_ok op" and "saves_ok wc w w1"
  shows "saves_ok wc w (snd (snd (persistWalletAdjustment wc env j op w1)))"
proof -
  obtain op' saved w' where p: "persistWalletAdjustment wc env j op w1 = (op', saved, w')" by (rule prod_cases3)
  obtain outcome where "w' = apply_effect wc (SaveOperation j op' outcome) (apply_effect wc Clock w1)"
    using persist_facts(6) [OF p] by blast
  moreover have "wallet_op_ok op'" using persist_ok [of wc env j op w1] p assms(1) by simp
  moreover have "saves_ok wc w (apply_effect wc Clock w1)" using assms(2) by (simp add: saves_quiet)
  ultimately show ?thesis by (auto simp: p intro: saves_more)
qed

lemma persist_continue_ok [outcome_intros]:
  "wallet_op_ok op1 \<Longrightarrow> saves_ok wc w w1 \<Longrightarrow>
   ok_result wc w (turn_operation (fst (persist_continue wc env j op1 w1))) (snd (persist_continue wc env j op1 w1))"
  by (simp add: persist_continue_def split_def Let_def ok_result_def persist_saves)

lemma persist_return_ok [outcome_intros]:
  "wallet_op_ok op1 \<Longrightarrow> saves_ok wc w w1 \<Longrightarrow>
   ok_result wc w (turn_operation (fst (persist_return wc env j op1 err w1))) (snd (persist_return wc env j op1 err w1))"
  by (simp add: persist_return_def split_def Let_def ok_result_def persist_saves)

lemma persist_recovery_ok [outcome_intros]:
  "wallet_op_ok op1 \<Longrightarrow> saves_ok wc w w1 \<Longrightarrow>
   ok_result wc w (fst (persist_recovery wc env j op1 err w1)) (snd (snd (persist_recovery wc env j op1 err w1)))"
  by (simp add: persist_recovery_def split_def Let_def ok_result_def persist_saves)

lemma sized_updates [simp]:
  "sized (wa_Status_update a op) = sized op" "sized (wa_Phase_update a op) = sized op" "sized (wa_ErrorCode_update a op) = sized op"
  "sized (recordWalletAdjustmentUpstreamFailure p e c op) = sized op" "sized (wa_AdjustmentAttempted_update b op) = sized op"
  by (simp_all add: sized_def recordWalletAdjustmentUpstreamFailure_def split: option.split)

lemma funded_updates [simp]:
  "funded (wa_Status_update a op) = funded op" "funded (wa_Phase_update a op) = funded op" "funded (wa_ErrorCode_update a op) = funded op"
  "funded (recordWalletAdjustmentUpstreamFailure p e c op) = funded op" "funded (wa_AdjustmentAttempted_update b op) = funded op"
  by (simp_all add: funded_def recordWalletAdjustmentUpstreamFailure_def split: option.split)

text \<open>Manual review only needs the balance before.\<close>

lemma review_phases:
  assumes "sized op" and "funded op"
  shows "wallet_op_ok (op\<lparr>wa_Status := ''pending'', wa_Phase := ''manual_review_audit''\<rparr>)"
    and "wallet_op_ok (op\<lparr>wa_Status := ''manual_review'', wa_Phase := ''authoritative_readback''\<rparr>)"
  using assms by (simp_all add: wallet_op_ok_def)

lemma review_ok:
  assumes "sized op1" "funded op1" "saves_ok wc w w1" "wa_Phase op1 = ''manual_review_audit'' \<Longrightarrow> wallet_op_ok op1"
  shows "ok_result wc w (fst (manualReviewWalletAdjustment wc env r j op1 c w1)) (snd (snd (manualReviewWalletAdjustment wc env r j op1 c w1)))"
  unfolding manualReviewWalletAdjustment_def Let_def split_def
  using assms by (auto intro!: outcome_intros ok_resultI review_phases)

lemma review_return_ok [outcome_intros]:
  assumes "sized op1" "funded op1" "saves_ok wc w w1" "wa_Phase op1 = ''manual_review_audit'' \<Longrightarrow> wallet_op_ok op1"
  shows "ok_result wc w (turn_operation (fst (review_return wc env r j op1 c w1))) (snd (review_return wc env r j op1 c w1))"
  using review_ok [OF assms] by (simp add: review_return_def split_def Let_def)

section \<open>Every turn keeps the invariant\<close>

lemma before_balance_ok:
  assumes "typed_env env" "wallet_op_ok op" "wa_Phase op = ''before_balance''"
  shows "ok_result wc w (turn_operation (fst (turn_before_balance wc env j op w))) (snd (turn_before_balance wc env j op w))"
proof -
  have s: "sized op" "wa_Status op = ''pending''" using assms(2,3) by (simp_all add: wallet_op_ok_def)
  then have room: "wrap64 (max_int64 - wa_AmountUSDMicros op) = max_int64 - wa_AmountUSDMicros op"
    by (intro wrap64_id) (simp add: sized_def int64_defs)
  have read: "in_int64 (gb_USDMicros b)" if "balance_usable op (we_balance env t u) = Some b" for b t u
    using assms(1) that by (auto simp: typed_env_def balance_usable_def split: sum.splits if_splits)
  have go: "wallet_op_ok (op\<lparr>wa_BeforeBalanceKnown := True, wa_BeforeBalanceMicros := n, wa_BeforeBalanceReadAt := now, wa_Phase := ''adjustment''\<rparr>)"
    if "in_int64 n" "0 \<le> n" "wa_Kind op = ''debit'' \<longrightarrow> wa_AmountUSDMicros op \<le> n"
      "wa_Kind op \<noteq> ''debit'' \<longrightarrow> n \<le> max_int64 - wa_AmountUSDMicros op" for n now
    using that s by (simp add: wallet_op_ok_def sized_def funded_def)
  have stop: "wallet_op_ok (op\<lparr>wa_BeforeBalanceKnown := True, wa_BeforeBalanceMicros := n, wa_BeforeBalanceReadAt := now,
      wa_Status := ''failed'', wa_Phase := ''complete'', wa_ErrorCode := c\<rparr>)" for n now c
    using s by (simp add: wallet_op_ok_def sized_def)
  show ?thesis
    unfolding turn_before_balance_def Sub2APIBalance_def clock_def Let_def room
    using assms(2) by (auto split: option.split dest!: read intro!: outcome_intros go stop)
qed

lemma adjustment_ok:
  assumes "wallet_op_ok op" "wa_Phase op = ''adjustment''"
  shows "ok_result wc w (turn_operation (fst (turn_adjustment wc env r j op w))) (snd (turn_adjustment wc env r j op w))"
proof -
  have f: "sized op" "funded op" using assms by (simp_all add: wallet_op_ok_def)
  have go: "wallet_op_ok (op\<lparr>wa_Phase := ''authoritative_readback''\<rparr>)"
    "wallet_op_ok (op\<lparr>wa_AdjustmentAttempted := True, wa_Phase := ''authoritative_readback''\<rparr>)"
    using assms by (simp_all add: wallet_op_ok_def)
  show ?thesis
    unfolding turn_adjustment_def Let_def split_def
    using assms(1) f go by (auto split: option.split intro!: outcome_intros)
qed

lemma confirmed_entry: "confirmWalletAdjustmentHistory history redeem op = Some entry \<Longrightarrow> he_UsedAt entry \<noteq> None"
  by (auto simp: confirmWalletAdjustmentHistory_def inspectWalletAdjustmentHistory_def Let_def split: history_state.splits option.splits if_splits)

lemma history_ref_ne [simp]: "wa_BalanceHistoryRef (history_read h entry op) \<noteq> []"
  by (simp add: history_read_def walletAdjustmentBalanceHistoryRef_def)

lemma history_read_ok:
  assumes "sized op" "funded op" "wa_Status op = ''pending''"
  shows "wallet_op_ok (history_read h entry op)"
proof -
  have "wa_Phase (history_read h entry op) = ''after_balance''" "wa_Status (history_read h entry op) = ''pending''"
    "sized (history_read h entry op)" "funded (history_read h entry op)"
    using assms by (simp_all add: history_read_def sized_def funded_def)
  then show ?thesis by (simp add: wallet_op_ok_def)
qed

text \<open>A run starts with a pending operation.\<close>

lemma readback_ok:
  assumes "wallet_op_ok op" "wa_Phase op = ''authoritative_readback''" "wa_Status op = ''pending''"
  shows "ok_result wc w (turn_operation (fst (turn_readback wc env r j op w))) (snd (turn_readback wc env r j op w))"
proof -
  have f: "sized op" "funded op" using assms by (simp_all add: wallet_op_ok_def)
  show ?thesis
    unfolding turn_readback_def FinancialBalanceHistoryByCodes_def Let_def
    using assms f by (auto split: option.split intro!: outcome_intros history_read_ok)
qed

lemma expected_exact:
  assumes "sized op" "funded op"
  shows "expected_balance op = (if wa_Kind op = ''debit'' then wa_BeforeBalanceMicros op - wa_AmountUSDMicros op
    else wa_BeforeBalanceMicros op + wa_AmountUSDMicros op)"
  using assms unfolding expected_balance_def
  by (auto simp: sized_def funded_def int64_defs intro!: wrap64_id split: if_splits)

lemma after_balance_ok:
  assumes "wallet_op_ok op" "wa_Phase op = ''after_balance''"
  shows "ok_result wc w (turn_operation (fst (turn_after_balance wc env r j op w))) (snd (turn_after_balance wc env r j op w))"
proof -
  have f: "sized op" "funded op" "wa_BalanceHistoryRef op \<noteq> []" "wa_Status op = ''pending''" using assms by (simp_all add: wallet_op_ok_def)
  have go: "wallet_op_ok (op\<lparr>wa_AfterBalanceKnown := True, wa_AfterBalanceMicros := expected_balance op, wa_AfterBalanceReadAt := now, wa_Phase := ''ledger''\<rparr>)" for now
    using f expected_exact [OF f(1,2)] by (simp add: wallet_op_ok_def sized_def funded_def settled_def)
  show ?thesis
    unfolding turn_after_balance_def Sub2APIBalance_def clock_def Let_def
    using assms f by (auto split: option.split intro!: outcome_intros go)
qed

lemma ledger_ok:
  assumes "wallet_op_ok op" "wa_Phase op = ''ledger''"
  shows "ok_result wc w (turn_operation (fst (turn_ledger wc env j op w))) (snd (turn_ledger wc env j op w))"
proof -
  have go: "wallet_op_ok (op\<lparr>wa_ReceiptID := x, wa_Phase := ''audit''\<rparr>)" if "x \<noteq> []" for x
    using assms that by (simp add: wallet_op_ok_def sized_def funded_def settled_def)
  show ?thesis unfolding turn_ledger_def Let_def using assms by (auto split: option.split intro!: outcome_intros go)
qed

lemma audit_ok:
  assumes "wallet_op_ok op" "wa_Phase op = ''audit''"
  shows "ok_result wc w (turn_operation (fst (turn_audit wc env r j op w))) (snd (turn_audit wc env r j op w))"
proof -
  have go: "wallet_op_ok (op\<lparr>wa_Status := ''succeeded'', wa_Phase := ''complete''\<rparr>)"
    using assms by (simp add: wallet_op_ok_def sized_def funded_def settled_def)
  show ?thesis unfolding turn_audit_def Let_def split_def using assms by (auto intro!: outcome_intros go)
qed

lemma turn_ok:
  assumes "typed_env env" "wallet_op_ok op" "wa_Status op \<noteq> ''manual_review''"
  shows "ok_result wc w (turn_operation (fst (wallet_turn wc env r j op w))) (snd (wallet_turn wc env r j op w))"
proof -
  have review: "ok_result wc w (turn_operation (fst (review_return wc env r j op c w))) (snd (review_return wc env r j op c w))"
    if "wa_Phase op = ''manual_review_audit''" for c
    using assms(2) that by (intro outcome_intros) (simp_all add: wallet_op_ok_def)
  have "wa_Status op = ''pending''" if "wa_Phase op = ''authoritative_readback''"
    using assms(2,3) that by (simp add: wallet_op_ok_def)
  with review before_balance_ok adjustment_ok readback_ok after_balance_ok ledger_ok audit_ok assms show ?thesis
    by (simp add: wallet_turn_def) (auto intro!: ok_resultI outcome_intros)
qed

text \<open>A turn that goes on leaves an operation that is not in manual review.\<close>

lemma continue_status:
  assumes "fst (wallet_turn wc env r j op w) = Continue op'" "wa_Status op \<noteq> ''manual_review''"
  shows "wa_Status op' \<noteq> ''manual_review''"
proof -
  have failure: "wa_Status (recordWalletAdjustmentUpstreamFailure p e c x) = wa_Status x" for p e c x
    by (simp add: recordWalletAdjustmentUpstreamFailure_def split: option.split)
  have pc: "wa_Status y = wa_Status x" if "fst (persist_continue wc env j x w1) = Continue y" for x y w1
    using that persist_fields(2) [of wc env j x w1] by (auto simp: persist_continue_def split_def Let_def split: if_splits)
  have pr: "fst (persist_return wc env j x err w1) \<noteq> Continue y" for x y err w1 by (simp add: persist_return_def split_def Let_def)
  have rr: "fst (review_return wc env r j x c w1) \<noteq> Continue y" for x y c w1 by (simp add: review_return_def split_def Let_def)
  show ?thesis
    using assms
    by (simp add: wallet_turn_def turn_before_balance_def turn_adjustment_def turn_readback_def turn_after_balance_def turn_ledger_def
        turn_audit_def Sub2APIBalance_def FinancialBalanceHistoryByCodes_def clock_def Let_def split_def pr rr history_read_def failure
        split: if_splits option.splits)
      (auto dest!: pc simp: failure history_read_def)
qed

lemma run_turns_ok:
  assumes "typed_env env" "wallet_op_ok op" "wa_Status op \<noteq> ''manual_review''" "saves_ok wc w0 w"
  shows "ok_result wc w0 (fst (run_turns n wc env r j op w)) (snd (snd (run_turns n wc env r j op w)))"
  using assms(2-4)
proof (induction n arbitrary: op w)
  case 0
  then show ?case by auto
next
  case (Suc n)
  obtain t w' where t: "wallet_turn wc env r j op w = (t, w')" by fastforce
  have ok: "wallet_op_ok (turn_operation t)" "saves_ok wc w0 w'"
    using turn_ok [OF assms(1) Suc.prems(1,2), of wc w r j] t saves_trans [OF Suc.prems(3)] by (auto simp: ok_result_def)
  show ?case
  proof (cases t)
    case (Continue op')
    with t have "fst (wallet_turn wc env r j op w) = Continue op'" by simp
    from continue_status [OF this Suc.prems(2)] Suc.IH ok t Continue show ?thesis by simp
  next
    case (Return op' err)
    with ok t show ?thesis by auto
  qed
qed

section \<open>Recovery and the handlers\<close>

lemma more_updates [simp]:
  "sized (wa_RecoveryRequestHash_update a op) = sized op" "sized (wa_RecoveryEvidenceRef_update a op) = sized op"
  "sized (wa_RecoveryActorUserID_update a op) = sized op" "sized (wa_RecoveryAuthorizedAt_update a op) = sized op"
  "sized (wa_LegacySupersession_update a op) = sized op" "sized (wa_CanonicalRedeemCode_update a op) = sized op"
  "sized (wa_RedeemCodeVersion_update a op) = sized op" "sized (wa_RecoveryAttempted_update b op) = sized op"
  "funded (wa_RecoveryRequestHash_update a op) = funded op" "funded (wa_RecoveryEvidenceRef_update a op) = funded op"
  "funded (wa_RecoveryActorUserID_update a op) = funded op" "funded (wa_RecoveryAuthorizedAt_update a op) = funded op"
  "funded (wa_LegacySupersession_update a op) = funded op" "funded (wa_CanonicalRedeemCode_update a op) = funded op"
  "funded (wa_RedeemCodeVersion_update a op) = funded op" "funded (wa_RecoveryAttempted_update b op) = funded op"
  by (simp_all add: sized_def funded_def)

lemma authorize_ok:
  assumes "wallet_op_ok op"
  shows "ok_result wc w (fst (authorize_recovery wc env j op h e a w)) (snd (snd (authorize_recovery wc env j op h e a w)))"
    and "sized (fst (authorize_recovery wc env j op h e a w)) = sized op" "funded (fst (authorize_recovery wc env j op h e a w)) = funded op"
  using assms by (auto simp: authorize_recovery_def persist_recovery_def clock_def Let_def split_def intro!: outcome_intros)

lemma retry_ok:
  assumes "wallet_op_ok op1" "sized op1" "funded op1" "saves_ok wc w w1"
  shows "ok_result wc w (fst (recovery_retry wc env j op1 w1)) (snd (snd (recovery_retry wc env j op1 w1)))"
proof -
  have go: "wallet_op_ok (x\<lparr>wa_Status := ''pending'', wa_Phase := ''adjustment''\<rparr>)" if "sized x" "funded x" for x
    using that by (simp add: wallet_op_ok_def)
  show ?thesis
    unfolding recovery_retry_def Sub2APIBalance_def Let_def
    using assms by (auto split: sum.split intro!: outcome_intros go)
qed

lemma confirmed_ok:
  assumes "sized op1" "funded op1" "saves_ok wc w w1"
  shows "ok_result wc w (fst (recovery_confirmed wc env j op1 entry w1)) (snd (snd (recovery_confirmed wc env j op1 entry w1)))"
proof -
  have "(history_read h entry op1)\<lparr>wa_Status := ''pending''\<rparr> = history_read h entry (op1\<lparr>wa_Status := ''pending''\<rparr>)" for h
    by (simp add: history_read_def)
  then show ?thesis
    unfolding recovery_confirmed_def using assms by (auto intro!: outcome_intros history_read_ok)
qed

lemma recovery_readback_ok:
  assumes "wallet_op_ok op1" "sized op1" "funded op1" "saves_ok wc w w1"
  shows "ok_result wc w (fst (recovery_readback wc env j op1 history w1)) (snd (snd (recovery_readback wc env j op1 history w1)))"
  unfolding recovery_readback_def Let_def
  using assms by (auto split: history_state.split intro!: outcome_intros retry_ok confirmed_ok)

lemma prepare_ok:
  assumes "wallet_op_ok op" "sized op" "funded op"
  shows "ok_result wc w (fst (prepareWalletAdjustmentRecovery wc env j op h e a w)) (snd (snd (prepareWalletAdjustmentRecovery wc env j op h e a w)))"
proof -
  note a = authorize_ok [OF assms(1), where wc = wc and w = w and env = env and j = j and h = h and e = e and a = a]
  have s: "saves_ok wc w (snd (snd (authorize_recovery wc env j op h e a w)))" "wallet_op_ok (fst (authorize_recovery wc env j op h e a w))"
    using a(1) by (simp_all add: ok_result_def)
  show ?thesis
    unfolding prepareWalletAdjustmentRecovery_def FinancialBalanceHistoryByCodes_def Let_def split_def
    using a s assms(2,3) by (auto split: sum.split intro!: outcome_intros recovery_readback_ok)
qed

lemma finish_create_ok:
  assumes "typed_env env" "wallet_op_ok op" "saves_ok wc w0 w"
  shows "saves_ok wc w0 (snd (finish_create wc env r j created op w))"
  using assms(3) run_turns_ok [OF assms(1,2) _ assms(3), of 8 r j]
  by (auto simp: finish_create_def runWalletAdjustment_def ok_result_def Let_def split_def split: option.split)

lemma finish_recovery_ok:
  assumes "typed_env env" "wallet_op_ok op" "saves_ok wc w0 w"
  shows "saves_ok wc w0 (snd (finish_recovery wc env r j key evidence op w))"
proof -
  let ?ran = "if wa_Status op = ''pending'' then runWalletAdjustment wc env r j op w else (op, None, w)"
  obtain op1 err w1 where ran: "?ran = (op1, err, w1)" by (rule prod_cases3)
  have "saves_ok wc w0 (snd (snd ?ran))"
    using assms(3) run_turns_ok [OF assms(1,2) _ assms(3), of 8 r j] by (simp add: runWalletAdjustment_def ok_result_def)
  then have "saves_ok wc w0 w1" by (simp only: ran snd_conv)
  then show ?thesis
    unfolding finish_recovery_def ran by (auto simp: save_audit_def Let_def split: option.split intro!: outcome_intros)
qed

text \<open>Every stored wallet row is the row of an operation with the invariant.\<close>

definition wallet_rows_ok :: "wallet_codec \<Rightarrow> (string \<times> gomap) list \<Rightarrow> bool" where
  "wallet_rows_ok wc table \<longleftrightarrow> (\<forall>j row. wallet_part table j = Some row \<longrightarrow> (\<exists>op. row = wallet_row wc j op \<and> wallet_op_ok op))"

lemma decode_row:
  assumes "wallet_codec_ok wc" "decodeWalletAdjustment wc (wallet_row wc j op0) = Inr op"
  shows "op = op0"
proof -
  have "mget (wallet_row wc j op0) ''result'' = GStr (wc_marshal wc op0)" "mget (wallet_row wc j op0) ''status'' = GStr (wa_Status op0)"
    by (simp_all add: wallet_row_def mget_def)
  with assms show ?thesis
    by (auto simp: decodeWalletAdjustment_def wallet_codec_ok_def Let_def stringValue_def split: if_splits)
qed

lemma loaded_ok:
  assumes "wallet_codec_ok wc" "wallet_rows_ok wc (ww_table w)" "walletAdjustment wc env j h w = Inr (Some op)"
  shows "wallet_op_ok op"
proof -
  obtain row where row: "map_of (ww_table w) j = Some row" "decodeWalletAdjustment wc row = Inr op"
    using assms(3) by (auto simp: walletAdjustment_def split: if_splits option.splits sum.splits)
  then have "wallet_part (ww_table w) j = Some row"
    by (auto simp: wallet_part_def decodeWalletAdjustment_def Let_def split: if_splits)
  with assms(2) obtain op0 where op0: "row = wallet_row wc j op0" "wallet_op_ok op0" by (auto simp: wallet_rows_ok_def)
  from decode_row [OF assms(1)] row(2) op0(1) have "op = op0" by blast
  with op0(2) show ?thesis by simp
qed

lemma create_ok:
  assumes "wallet_codec_ok wc" "typed_env env" "wallet_rows_ok wc (ww_table w)"
  shows "saves_ok wc w (snd (createWalletAdjustment wc env call w))"
proof -
  have amount: "0 < amount \<and> in_int64 amount" if "validWalletAdjustmentRequest input a k = Some amount" for input a k amount
    using that by (auto simp: validWalletAdjustmentRequest_def ParseUSDDecimalMicros_def Let_def split: if_splits option.splits)
  have new: "wallet_op_ok (new_operation wc j h a actor input amount u now)" if "0 < amount" "in_int64 amount" for j h a actor input amount u now
    using that by (simp add: new_operation_def wallet_op_ok_def sized_def)
  have start: "saves_ok wc w (snd (start_operation wc env r k a input amount w))" if "0 < amount" "in_int64 amount" for r k a input amount
    unfolding start_operation_def clock_def Let_def split_def
    using new [OF that] by (auto split: sum.split option.split intro!: outcome_intros finish_create_ok [OF assms(2)])
  have load: "saves_ok wc w (snd (finish_create wc env r j False op w))" if "walletAdjustment wc env j h w = Inr (Some op)" for r j op h
    using finish_create_ok [OF assms(2) loaded_ok [OF assms(1,3) that] saves_refl] .
  show ?thesis
    using load start amount
    by (auto simp: createWalletAdjustment_def Let_def split: option.split sum.split intro!: saves_refl)
qed

lemma recover_ok:
  assumes "wallet_codec_ok wc" "typed_env env" "wallet_rows_ok wc (ww_table w)"
  shows "saves_ok wc w (snd (recoverWalletAdjustment wc env call w))"
proof -
  let ?j = "trim_space (wl_path call)" and ?r = "wl_audit call"
  have run: "saves_ok wc w (snd (finish_recovery wc env ?r ?j key evidence op w))"
    if "walletAdjustment wc env ?j [] w = Inr (Some op)" for op key evidence
    by (rule finish_recovery_ok [OF assms(2) loaded_ok [OF assms(1,3) that] saves_refl])
  have prepared: "ok_result wc w (fst (prepareWalletAdjustmentRecovery wc env ?j op h e a w)) (snd (snd (prepareWalletAdjustmentRecovery wc env ?j op h e a w)))"
    if "walletAdjustment wc env ?j [] w = Inr (Some op)" "wa_Status op = ''manual_review''" for op h e a
  proof (rule prepare_ok)
    show ok: "wallet_op_ok op" by (rule loaded_ok [OF assms(1,3) that(1)])
    show "sized op" "funded op" using ok that(2) by (auto simp: wallet_op_ok_def split: if_splits)
  qed
  have finished: "saves_ok wc w (snd (finish_recovery wc env ?r ?j key evidence
        (fst (prepareWalletAdjustmentRecovery wc env ?j op h e a w)) (snd (snd (prepareWalletAdjustmentRecovery wc env ?j op h e a w)))))"
    if "walletAdjustment wc env ?j [] w = Inr (Some op)" "wa_Status op = ''manual_review''" for op h e a key evidence
    using prepared [OF that] by (auto simp: ok_result_def intro!: finish_recovery_ok [OF assms(2)])
  show ?thesis
    using run finished prepared
    by (simp add: recoverWalletAdjustment_def ok_result_def Let_def split_def saves_refl split: option.split sum.split)
qed

section \<open>Histories\<close>

lemma effects_rows_ok:
  assumes "wallet_rows_ok wc (ww_table w)" "\<forall>j op outcome. SaveOperation j op outcome \<in> set es \<longrightarrow> wallet_op_ok op"
  shows "wallet_rows_ok wc (ww_table (fold (apply_effect wc) es w))"
  using assms
proof (induction es arbitrary: w)
  case (Cons e es)
  have "wallet_rows_ok wc (ww_table (apply_effect wc e w))"
  proof (cases e)
    case (SaveOperation j op outcome)
    then have "wallet_op_ok op" using Cons.prems(2) by auto
    with Cons.prems(1) SaveOperation show ?thesis
      by (auto simp: wallet_rows_ok_def apply_effect_def wallet_part_def update_conv' split: if_splits option.splits)
  qed (use Cons.prems(1) in \<open>simp_all add: apply_effect_def\<close>)
  from Cons.IH [OF this] Cons.prems(2) show ?case by (metis fold_simps(2) list.set_intros(2))
qed simp

lemma cut_off_rows_ok:
  assumes "saves_ok wc w w1" "cut_off wc w w1 w'" "wallet_rows_ok wc (ww_table w)"
  shows "wallet_rows_ok wc (ww_table w')"
proof -
  obtain es where es: "w1 = fold (apply_effect wc) es w" "\<forall>j op outcome. SaveOperation j op outcome \<in> set es \<longrightarrow> wallet_op_ok op"
    using assms(1) by (auto simp: saves_ok_def)
  obtain es' n where es': "w1 = fold (apply_effect wc) es' w" "w' = fold (apply_effect wc) (take n es') w"
    using assms(2) by (auto simp: cut_off_def)
  have "es' = es" using es(1) es'(1) by (metis fold_trace same_append_eq)
  with es(2) have "\<forall>j op outcome. SaveOperation j op outcome \<in> set (take n es') \<longrightarrow> wallet_op_ok op" by (meson in_set_takeD)
  from effects_rows_ok [OF assms(3) this] es'(2) show ?thesis by simp
qed

lemma history_rows_ok:
  assumes "wallet_codec_ok wc" "wallet_history wc table w" "wallet_rows_ok wc table"
  shows "wallet_rows_ok wc (ww_table w)"
  using assms(2)
proof (induction rule: wallet_history.induct)
  case start
  then show ?case using assms(3) by simp
next
  case (create w env call w')
  then show ?case using cut_off_rows_ok create_ok [OF assms(1)] by blast
next
  case (recover w env call' w')
  then show ?case using cut_off_rows_ok recover_ok [OF assms(1)] by blast
next
  case (other w table')
  then show ?case by (simp add: wallet_rows_ok_def)
qed

text \<open>
  C6: a succeeded adjustment is backed by evidence. In every history that starts without wallet rows, an
  adjustment that is stored as succeeded has both balances read from the Gateway, which differ by exactly its
  amount and are numbers of 64 bits without wrap-around, a debit never takes more than there was, and the
  adjustment has a reference to the Gateway's history entry and a ledger receipt.
\<close>

theorem wallet_success_is_backed:
  assumes "wallet_codec_ok wc" and "wallet_history wc table w" and "\<forall>j. wallet_part table j = None"
    and "map_of (ww_table w) j = Some row" and "decodeWalletAdjustment wc row = Inr op" and "wa_Status op = ''succeeded''"
  shows "wa_BeforeBalanceKnown op \<and> wa_AfterBalanceKnown op \<and> 0 \<le> wa_AfterBalanceMicros op \<and> in_int64 (wa_AfterBalanceMicros op) \<and>
    wa_AfterBalanceMicros op = (if wa_Kind op = ''debit'' then wa_BeforeBalanceMicros op - wa_AmountUSDMicros op
      else wa_BeforeBalanceMicros op + wa_AmountUSDMicros op) \<and>
    wa_BalanceHistoryRef op \<noteq> [] \<and> wa_ReceiptID op \<noteq> []"
proof -
  have "wallet_rows_ok wc table" using assms(3) by (simp add: wallet_rows_ok_def)
  from history_rows_ok [OF assms(1,2) this] have rows: "wallet_rows_ok wc (ww_table w)" .
  have "wallet_part (ww_table w) j = Some row"
    using assms(4,5) by (auto simp: wallet_part_def decodeWalletAdjustment_def Let_def split: if_splits)
  with rows obtain op0 where op0: "row = wallet_row wc j op0" "wallet_op_ok op0" by (auto simp: wallet_rows_ok_def)
  from decode_row [OF assms(1)] assms(5) op0(1) have "op = op0" by blast
  with op0(2) assms(6) have "funded op" "settled op" "wa_BalanceHistoryRef op \<noteq> []" "wa_ReceiptID op \<noteq> []" "sized op"
    by (auto simp: wallet_op_ok_def split: if_splits)
  then show ?thesis by (auto simp: funded_def settled_def sized_def int64_defs split: if_splits)
qed

end
