(* ===== verification/Wallet_Progress.thy ===== *)
theory Wallet_Progress
  imports Wallet_Outcome
begin

text \<open>
  Progress of wallet adjustments: the bound of the loop is never reached, and with an environment that
  answers an adjustment completes.
\<close>

section \<open>The loop is long enough\<close>

text \<open>How many turns a phase is away from the end.\<close>

definition phase_rank :: "string \<Rightarrow> nat" where
  "phase_rank p =
     (if p = ''before_balance'' then 6 else if p = ''adjustment'' then 5 else if p = ''authoritative_readback'' then 4
      else if p = ''after_balance'' then 3 else if p = ''ledger'' then 2 else if p = ''audit'' then 1 else 0)"

lemma failure_phase [simp]: "wa_Phase (recordWalletAdjustmentUpstreamFailure p e c x) = wa_Phase x"
  by (simp add: recordWalletAdjustmentUpstreamFailure_def split: option.split)

lemma history_read_phase [simp]: "wa_Phase (history_read h entry op) = ''after_balance''"
  by (simp add: history_read_def)

lemma continue_rank:
  assumes "fst (wallet_turn wc env r j op w) = Continue op'"
  shows "phase_rank (wa_Phase op') < phase_rank (wa_Phase op)"
proof -
  have pc: "wa_Phase y = wa_Phase x" if "fst (persist_continue wc env j x w1) = Continue y" for x y w1
    using that persist_fields(1) [of wc env j x w1] by (auto simp: persist_continue_def split_def Let_def split: if_splits)
  have pr: "fst (persist_return wc env j x err w1) \<noteq> Continue y" for x y err w1 by (simp add: persist_return_def split_def Let_def)
  have rr: "fst (review_return wc env r j x c w1) \<noteq> Continue y" for x y c w1 by (simp add: review_return_def split_def Let_def)
  show ?thesis
    using assms
    by (simp add: wallet_turn_def turn_before_balance_def turn_adjustment_def turn_readback_def turn_after_balance_def turn_ledger_def
        turn_audit_def Sub2APIBalance_def FinancialBalanceHistoryByCodes_def clock_def Let_def split_def pr rr
        split: if_splits option.splits)
      (auto dest!: pc simp: phase_rank_def)
qed

lemma run_turns_enough:
  "phase_rank (wa_Phase op) < n \<Longrightarrow> run_turns (n + k) wc env r j op w = run_turns n wc env r j op w"
proof (induction n arbitrary: op w)
  case (Suc n)
  obtain t w' where t: "wallet_turn wc env r j op w = (t, w')" by fastforce
  show ?case
  proof (cases t)
    case (Continue op')
    then have "phase_rank (wa_Phase op') < phase_rank (wa_Phase op)" using continue_rank [of wc env r j op w op'] t by simp
    then have "phase_rank (wa_Phase op') < n" using Suc.prems by simp
    from Suc.IH [OF this] t Continue show ?thesis by simp
  qed (use t in simp)
qed simp


section \<open>A healthy environment\<close>

definition balance_after :: "wallet_operation \<Rightarrow> int \<Rightarrow> int" where
  "balance_after op before = (if wa_Kind op = ''debit'' then before - wa_AmountUSDMicros op else before + wa_AmountUSDMicros op)"

definition moved :: "string \<Rightarrow> wallet_effect list \<Rightarrow> bool" where
  "moved j t \<longleftrightarrow> list_ex (moves_money j) t"

text \<open>
  The table, the ledger and the audit log accept what they are given, and the Gateway applies the move of the
  operation at once: from then on the balance is the new one and the history has the entry.
\<close>

definition healthy_env :: "wallet_codec \<Rightarrow> wallet_env \<Rightarrow> string \<Rightarrow> wallet_operation \<Rightarrow> int \<Rightarrow> history_entry \<Rightarrow> bool" where
  "healthy_env wc env j op before entry \<longleftrightarrow>
     (\<forall>t row. we_save env t row = Saved) \<and> (\<forall>t event. we_audit env t event) \<and>
     (\<forall>t x k. \<exists>c cs. we_receipt env t x k = Some (c # cs)) \<and> (\<forall>t m. we_charge env t m = None \<and> we_refund env t m = None) \<and>
     (\<forall>t. we_balance env t (wa_Sub2APIUserID op) = Inr \<lparr>gb_UserID = wa_Sub2APIUserID op,
        gb_USDMicros = (if moved j t then balance_after op before else before), gb_Status = ''active''\<rparr>) \<and>
     (\<forall>t redeem. moved j t \<longrightarrow> we_history env t (wa_Sub2APIUserID op) [redeem] = Inr [(redeem, entry)]) \<and>
     he_Type entry = ''balance'' \<and> he_Status entry = ''used'' \<and> he_UsedBy entry = Some (wa_Sub2APIUserID op) \<and>
     he_UsedAt entry \<noteq> None \<and> he_ValueUSDMicros entry = (if wa_Kind op = ''debit'' then - wa_AmountUSDMicros op else wa_AmountUSDMicros op)"

text \<open>The operation up to what the phases add.\<close>

definition same_order :: "wallet_codec \<Rightarrow> string \<Rightarrow> wallet_operation \<Rightarrow> wallet_operation \<Rightarrow> bool" where
  "same_order wc j op' op \<longleftrightarrow> wa_Sub2APIUserID op' = wa_Sub2APIUserID op \<and> wa_Kind op' = wa_Kind op \<and>
     wa_AmountUSDMicros op' = wa_AmountUSDMicros op \<and> v2_code wc j op' \<and> wa_RequestHash op' = wa_RequestHash op \<and>
     wa_AccountID op' = wa_AccountID op \<and> wa_ActorUserID op' = wa_ActorUserID op \<and> wa_CreatedAt op' = wa_CreatedAt op \<and>
     wa_LegacySupersession op' = wa_LegacySupersession op \<and> wa_RecoveryRequestHash op' = wa_RecoveryRequestHash op"

lemma time_text_ne: "rfc3339_nano t \<noteq> []"
  by (simp add: rfc3339_nano_def Let_def split_def)

lemma healthy_persist:
  assumes "healthy_env wc env j op before entry" and "v2_code wc j x"
  obtains op' w' where "persistWalletAdjustment wc env j x w = (op', True, w')" "\<exists>t. op' = x\<lparr>wa_UpdatedAt := t\<rparr>"
    "moved j (ww_trace w') = moved j (ww_trace w)" "map_of (ww_table w') j = Some (wallet_row wc j op')"
    "wa_UpdatedAt op' \<noteq> []"
proof -
  let ?op = "x\<lparr>wa_UpdatedAt := rfc3339_nano (t_utc (we_now env (ww_trace w)))\<rparr>"
  let ?w = "apply_effect wc (SaveOperation j ?op Saved) (apply_effect wc Clock w)"
  have "wa_RedeemCodeVersion x \<noteq> []" using assms(2) by (simp add: v2_code_def)
  moreover have "we_save env t row = Saved" for t row using assms(1) by (simp add: healthy_env_def)
  ultimately have "persistWalletAdjustment wc env j x w = (?op, True, ?w)"
    by (simp add: persistWalletAdjustment_def clock_def Let_def)
  moreover have "moved j (ww_trace ?w) = moved j (ww_trace w)" by (simp add: apply_effect_def moved_def)
  moreover have "map_of (ww_table ?w) j = Some (wallet_row wc j ?op)" by (simp add: apply_save)
  moreover have "wa_UpdatedAt ?op \<noteq> []" by (simp add: time_text_ne)
  ultimately show thesis by (intro that) blast+
qed

lemma healthy_continue:
  assumes "healthy_env wc env j op before entry" and "v2_code wc j x"
  obtains op' w' where "persist_continue wc env j x w = (Continue op', w')" "\<exists>t. op' = x\<lparr>wa_UpdatedAt := t\<rparr>"
    "moved j (ww_trace w') = moved j (ww_trace w)" "map_of (ww_table w') j = Some (wallet_row wc j op')"
    "wa_UpdatedAt op' \<noteq> []"
proof (rule healthy_persist [OF assms, of w])
  fix op' w' assume "persistWalletAdjustment wc env j x w = (op', True, w')" "\<exists>t. op' = x\<lparr>wa_UpdatedAt := t\<rparr>"
    "moved j (ww_trace w') = moved j (ww_trace w)" "map_of (ww_table w') j = Some (wallet_row wc j op')"
    "wa_UpdatedAt op' \<noteq> []"
  then show thesis using that by (simp add: persist_continue_def)
qed

lemma moved_quiet [simp]: "quiet e \<Longrightarrow> moved j (ww_trace (apply_effect wc e w)) = moved j (ww_trace w)"
  by (cases e) (auto simp: quiet_def apply_effect_def moved_def)

lemma healthy_before:
  assumes h: "healthy_env wc env j op before entry" and s: "same_order wc j x op" "wa_Phase x = ''before_balance''"
    and room: "0 \<le> before" "wa_Kind op = ''debit'' \<longrightarrow> wa_AmountUSDMicros op \<le> before"
      "wa_Kind op \<noteq> ''debit'' \<longrightarrow> before \<le> max_int64 - wa_AmountUSDMicros op" "sized op"
    and "\<not> moved j (ww_trace w)" "\<not> wa_AdjustmentAttempted x"
  shows "\<exists>y w'. wallet_turn wc env r j x w = (Continue y, w') \<and> same_order wc j y op \<and> wa_Phase y = ''adjustment'' \<and>
    wa_BeforeBalanceMicros y = before \<and> \<not> wa_AdjustmentAttempted y"
proof -
  have no: "wrap64 (max_int64 - wa_AmountUSDMicros op) = max_int64 - wa_AmountUSDMicros op"
    using room(4) by (intro wrap64_id) (simp add: sized_def int64_defs)
  let ?w = "apply_effect wc Clock (apply_effect wc (ReadBalance (wa_Sub2APIUserID op)) w)"
  let ?now = "rfc3339_nano (t_utc (we_now env (ww_trace (apply_effect wc (ReadBalance (wa_Sub2APIUserID op)) w))))"
  let ?x = "x\<lparr>wa_BeforeBalanceKnown := True, wa_BeforeBalanceMicros := before, wa_BeforeBalanceReadAt := ?now, wa_Phase := ''adjustment''\<rparr>"
  have v: "v2_code wc j ?x" using s(1) by (simp add: same_order_def v2_code_def)
  have turn: "wallet_turn wc env r j x w = persist_continue wc env j ?x ?w"
    using h s room assms(8) no
    by (auto simp: wallet_turn_def turn_before_balance_def Sub2APIBalance_def clock_def Let_def same_order_def healthy_env_def balance_usable_def)
  obtain y w' where "persist_continue wc env j ?x ?w = (Continue y, w')" "\<exists>t. y = ?x\<lparr>wa_UpdatedAt := t\<rparr>"
    by (rule healthy_continue [OF h v, of ?w])
  with turn s(1) assms(9) show ?thesis by (auto simp: same_order_def v2_code_def)
qed

lemma healthy_adjustment:
  assumes h: "healthy_env wc env j op before entry" and s: "same_order wc j x op" "wa_Phase x = ''adjustment''" "\<not> wa_AdjustmentAttempted x"
  shows "\<exists>y w'. wallet_turn wc env r j x w = (Continue y, w') \<and> same_order wc j y op \<and> wa_Phase y = ''authoritative_readback'' \<and>
    wa_BeforeBalanceMicros y = wa_BeforeBalanceMicros x \<and> moved j (ww_trace w')"
proof -
  let ?x = "x\<lparr>wa_AdjustmentAttempted := True, wa_Phase := ''authoritative_readback''\<rparr>"
  have v: "v2_code wc j ?x" "v2_code wc j x" using s(1) by (simp_all add: same_order_def v2_code_def)
  obtain y w1 where p: "persistWalletAdjustment wc env j ?x w = (y, True, w1)" "\<exists>t. y = ?x\<lparr>wa_UpdatedAt := t\<rparr>"
    by (rule healthy_persist [OF h v(1), of w])
  have ok: "fst (move_money wc env j y w1) = None" using h by (simp add: move_money_def healthy_env_def)
  have "moved j (ww_trace (snd (move_money wc env j y w1)))" by (simp add: move_money_def apply_effect_def moved_def)
  with p ok s v show ?thesis
    by (auto simp: wallet_turn_def turn_adjustment_def Let_def split_def same_order_def v2_code_def)
qed

lemma healthy_readback:
  assumes h: "healthy_env wc env j op before entry" and s: "same_order wc j x op" "wa_Phase x = ''authoritative_readback''"
    and m: "moved j (ww_trace w)" and "sized op"
  shows "\<exists>y w'. wallet_turn wc env r j x w = (Continue y, w') \<and> same_order wc j y op \<and> wa_Phase y = ''after_balance'' \<and>
    wa_BeforeBalanceMicros y = wa_BeforeBalanceMicros x \<and> moved j (ww_trace w')"
proof -
  let ?w = "apply_effect wc (ReadHistory (wa_Sub2APIUserID op) [wa_CanonicalRedeemCode x]) w"
  let ?x = "history_read (wc_sha1hex wc) entry x"
  have v: "v2_code wc j ?x" "v2_code wc j x" using s(1) by (simp_all add: same_order_def v2_code_def history_read_def)
  have neg: "wrap64 (- wa_AmountUSDMicros op) = - wa_AmountUSDMicros op"
    using assms(5) by (intro wrap64_id) (simp add: sized_def int64_defs)
  have "confirmWalletAdjustmentHistory [(wa_CanonicalRedeemCode x, entry)] (wa_CanonicalRedeemCode x) x = Some entry"
    using h s(1) neg
    by (auto simp: confirmWalletAdjustmentHistory_def inspectWalletAdjustmentHistory_def healthy_env_def same_order_def Let_def)
  then have turn: "wallet_turn wc env r j x w = persist_continue wc env j ?x ?w"
    using h s m v by (auto simp: wallet_turn_def turn_readback_def FinancialBalanceHistoryByCodes_def same_order_def healthy_env_def)
  obtain y w' where "persist_continue wc env j ?x ?w = (Continue y, w')" "\<exists>t. y = ?x\<lparr>wa_UpdatedAt := t\<rparr>"
      "moved j (ww_trace w') = moved j (ww_trace ?w)"
    by (rule healthy_continue [OF h v(1), of ?w])
  with turn s(1) m show ?thesis by (auto simp: same_order_def v2_code_def history_read_def)
qed

lemma healthy_after:
  assumes h: "healthy_env wc env j op before entry" and s: "same_order wc j x op" "wa_Phase x = ''after_balance''"
    and b: "wa_BeforeBalanceMicros x = before" and m: "moved j (ww_trace w)" and room: "in_int64 (balance_after op before)"
  shows "\<exists>y w'. wallet_turn wc env r j x w = (Continue y, w') \<and> same_order wc j y op \<and> wa_Phase y = ''ledger'' \<and>
    wa_BeforeBalanceMicros y = before \<and> wa_AfterBalanceMicros y = balance_after op before \<and> moved j (ww_trace w')"
proof -
  let ?w1 = "apply_effect wc (ReadBalance (wa_Sub2APIUserID op)) w"
  let ?x = "x\<lparr>wa_AfterBalanceKnown := True, wa_AfterBalanceMicros := balance_after op before,
    wa_AfterBalanceReadAt := rfc3339_nano (t_utc (we_now env (ww_trace ?w1))), wa_Phase := ''ledger''\<rparr>"
  have v: "v2_code wc j ?x" using s(1) by (simp add: same_order_def v2_code_def)
  have "expected_balance x = balance_after op before"
    using s(1) b wrap64_id [OF room] by (auto simp: expected_balance_def balance_after_def same_order_def)
  then have turn: "wallet_turn wc env r j x w = persist_continue wc env j ?x (apply_effect wc Clock ?w1)"
    using h s m by (auto simp: wallet_turn_def turn_after_balance_def Sub2APIBalance_def clock_def Let_def same_order_def healthy_env_def
        balance_usable_def)
  obtain y w' where "persist_continue wc env j ?x (apply_effect wc Clock ?w1) = (Continue y, w')" "\<exists>t. y = ?x\<lparr>wa_UpdatedAt := t\<rparr>"
      "moved j (ww_trace w') = moved j (ww_trace (apply_effect wc Clock ?w1))"
    by (rule healthy_continue [OF h v, of "apply_effect wc Clock ?w1"])
  with turn s(1) b m show ?thesis by (auto simp: same_order_def v2_code_def)
qed

lemma healthy_ledger:
  assumes h: "healthy_env wc env j op before entry" and s: "same_order wc j x op" "wa_Phase x = ''ledger''"
  shows "\<exists>y w'. wallet_turn wc env r j x w = (Continue y, w') \<and> same_order wc j y op \<and> wa_Phase y = ''audit'' \<and>
    wa_BeforeBalanceMicros y = wa_BeforeBalanceMicros x \<and> wa_AfterBalanceMicros y = wa_AfterBalanceMicros x \<and> wa_ReceiptID y \<noteq> [] \<and>
    moved j (ww_trace w') = moved j (ww_trace w)"
proof -
  let ?a = "RecordLedgerReceipt (walletAdjustmentReceipt j x) (j @ '':ledger'')"
  obtain c cs where receipt: "we_receipt env (ww_trace w) (walletAdjustmentReceipt j x) (j @ '':ledger'') = Some (c # cs)"
    using h unfolding healthy_env_def by blast
  let ?x = "x\<lparr>wa_ReceiptID := c # cs, wa_Phase := ''audit''\<rparr>"
  have v: "v2_code wc j ?x" using s(1) by (simp add: same_order_def v2_code_def)
  have turn: "wallet_turn wc env r j x w = persist_continue wc env j ?x (apply_effect wc ?a w)"
    using s receipt by (simp add: wallet_turn_def turn_ledger_def Let_def)
  obtain y w' where "persist_continue wc env j ?x (apply_effect wc ?a w) = (Continue y, w')" "\<exists>t. y = ?x\<lparr>wa_UpdatedAt := t\<rparr>"
      "moved j (ww_trace w') = moved j (ww_trace (apply_effect wc ?a w))"
    by (rule healthy_continue [OF h v, of "apply_effect wc ?a w"])
  with turn s(1) show ?thesis by (auto simp: same_order_def v2_code_def)
qed

lemma healthy_audit:
  assumes h: "healthy_env wc env j op before entry" and s: "same_order wc j x op" "wa_Phase x = ''audit''"
  shows "\<exists>y w'. wallet_turn wc env r j x w = (Continue y, w') \<and> wa_Status y = ''succeeded'' \<and> wa_Phase y = ''complete'' \<and>
    wa_BeforeBalanceMicros y = wa_BeforeBalanceMicros x \<and> wa_AfterBalanceMicros y = wa_AfterBalanceMicros x \<and>
    wa_ReceiptID y = wa_ReceiptID x \<and> same_order wc j y op \<and> moved j (ww_trace w') = moved j (ww_trace w) \<and>
    map_of (ww_table w') j = Some (wallet_row wc j y) \<and> wa_UpdatedAt y \<noteq> []"
proof -
  let ?x = "x\<lparr>wa_Status := ''succeeded'', wa_Phase := ''complete'', wa_ErrorCode := []\<rparr>"
  let ?w = "snd (saveWalletAdjustmentAudit wc env r j x ''succeeded'' w)"
  have v: "v2_code wc j ?x" using s(1) by (simp add: same_order_def v2_code_def)
  have "fst (saveWalletAdjustmentAudit wc env r j x ''succeeded'' w)"
    using h unfolding saveWalletAdjustmentAudit_def save_audit_def healthy_env_def Let_def by simp
  then have turn: "wallet_turn wc env r j x w = persist_continue wc env j ?x ?w"
    using s by (simp add: wallet_turn_def turn_audit_def Let_def split_def)
  obtain y w' where "persist_continue wc env j ?x ?w = (Continue y, w')" "\<exists>t. y = ?x\<lparr>wa_UpdatedAt := t\<rparr>"
      "moved j (ww_trace w') = moved j (ww_trace ?w)" "map_of (ww_table w') j = Some (wallet_row wc j y)"
      "wa_UpdatedAt y \<noteq> []"
    by (rule healthy_continue [OF h v, of ?w])
  moreover have "moved j (ww_trace ?w) = moved j (ww_trace w)"
    unfolding saveWalletAdjustmentAudit_def save_audit_def Let_def by simp
  ultimately show ?thesis using turn s(1) by (auto simp: same_order_def v2_code_def)
qed

lemma healthy_run:
  assumes h: "healthy_env wc env j op before entry" and "same_order wc j op op" and "wa_Phase op = ''before_balance''"
    and "\<not> wa_AdjustmentAttempted op" and "sized op" and "0 \<le> before" and "in_int64 before" and "0 \<le> balance_after op before"
    and "balance_after op before \<le> max_int64" and "\<not> moved j (ww_trace w)"
  shows "\<exists>op' w'. runWalletAdjustment wc env r j op w = (op', None, w') \<and> wa_Status op' = ''succeeded'' \<and>
    wa_BeforeBalanceMicros op' = before \<and> wa_AfterBalanceMicros op' = balance_after op before \<and> wa_ReceiptID op' \<noteq> [] \<and>
    same_order wc j op' op \<and> moved j (ww_trace w') \<and> map_of (ww_table w') j = Some (wallet_row wc j op') \<and> wa_UpdatedAt op' \<noteq> []"
proof -
  have room: "wa_Kind op = ''debit'' \<longrightarrow> wa_AmountUSDMicros op \<le> before"
      "wa_Kind op \<noteq> ''debit'' \<longrightarrow> before \<le> max_int64 - wa_AmountUSDMicros op" "in_int64 (balance_after op before)"
    using assms(8,9) by (auto simp: balance_after_def int64_defs)
  obtain x1 w1 where 1: "wallet_turn wc env r j op w = (Continue x1, w1)" "same_order wc j x1 op" "wa_Phase x1 = ''adjustment''"
      "wa_BeforeBalanceMicros x1 = before" "\<not> wa_AdjustmentAttempted x1"
    using healthy_before [OF h assms(2,3,6) room(1,2) assms(5,10,4)] by blast
  obtain x2 w2 where 2: "wallet_turn wc env r j x1 w1 = (Continue x2, w2)" "same_order wc j x2 op" "wa_Phase x2 = ''authoritative_readback''"
      "wa_BeforeBalanceMicros x2 = before" "moved j (ww_trace w2)"
    using healthy_adjustment [OF h 1(2,3,5), of r w1] 1(4) by metis
  obtain x3 w3 where 3: "wallet_turn wc env r j x2 w2 = (Continue x3, w3)" "same_order wc j x3 op" "wa_Phase x3 = ''after_balance''"
      "wa_BeforeBalanceMicros x3 = before" "moved j (ww_trace w3)"
    using healthy_readback [OF h 2(2,3,5) assms(5), of r] 2(4) by metis
  obtain x4 w4 where 4: "wallet_turn wc env r j x3 w3 = (Continue x4, w4)" "same_order wc j x4 op" "wa_Phase x4 = ''ledger''"
      "wa_BeforeBalanceMicros x4 = before" "wa_AfterBalanceMicros x4 = balance_after op before" "moved j (ww_trace w4)"
    using healthy_after [OF h 3(2-5) room(3), of r] by blast
  obtain x5 w5 where 5: "wallet_turn wc env r j x4 w4 = (Continue x5, w5)" "same_order wc j x5 op" "wa_Phase x5 = ''audit''"
      "wa_BeforeBalanceMicros x5 = before" "wa_AfterBalanceMicros x5 = balance_after op before" "wa_ReceiptID x5 \<noteq> []"
      "moved j (ww_trace w5)"
    using healthy_ledger [OF h 4(2,3), of r w4] 4(4,5,6) by metis
  obtain x6 w6 where 6: "wallet_turn wc env r j x5 w5 = (Continue x6, w6)" "wa_Status x6 = ''succeeded''" "wa_Phase x6 = ''complete''"
      "wa_BeforeBalanceMicros x6 = before" "wa_AfterBalanceMicros x6 = balance_after op before" "wa_ReceiptID x6 \<noteq> []"
      "same_order wc j x6 op" "moved j (ww_trace w6)" "map_of (ww_table w6) j = Some (wallet_row wc j x6)" "wa_UpdatedAt x6 \<noteq> []"
    using healthy_audit [OF h 5(2,3), of r w5] 5(4-7) by metis
  have "wallet_turn wc env r j x6 w6 = (Return x6 None, w6)" using 6(3) by (simp add: wallet_turn_def)
  then have "run_turns 8 wc env r j op w = (x6, None, w6)"
    by (simp add: eval_nat_numeral 1(1) 2(1) 3(1) 4(1) 5(1) 6(1))
  with 6 show ?thesis by (simp add: runWalletAdjustment_def)
qed

lemma healthy_cong:
  assumes "wa_Sub2APIUserID op' = wa_Sub2APIUserID op" "wa_Kind op' = wa_Kind op" "wa_AmountUSDMicros op' = wa_AmountUSDMicros op"
  shows "healthy_env wc env j op' before entry = healthy_env wc env j op before entry" "balance_after op' before = balance_after op before"
  using assms by (simp_all add: healthy_env_def balance_after_def)

text \<open>A request that may start: the account is active and mapped, and a refund is within its limit.\<close>

definition may_start :: "wallet_codec \<Rightarrow> wallet_env \<Rightarrow> string \<Rightarrow> wallet_request \<Rightarrow> int \<Rightarrow> int \<Rightarrow> wallet_world \<Rightarrow> bool" where
  "may_start wc env accountID input amount user w \<longleftrightarrow>
     \<not> we_table_down env (ww_trace w) \<and>
     (\<exists>account. walletAdjustmentAccount wc env accountID w = Inr (account, user) \<and> stringValue (mget account ''ownerUserId'') \<noteq> []) \<and>
     (wq_Kind input = ''business_refund'' \<longrightarrow>
        validateWalletRefundLimit wc env accountID (wq_RelatedOperationID input) amount w = None)"

lemma healthy_create:
  assumes "trim_space (wl_key call) = key" and "key \<noteq> []" and "trim_space (wl_path call) = accountID" and "wl_body call = Some input"
    and "validWalletAdjustmentRequest input accountID key = Some amount" and "j = operation_id wc accountID key"
    and "map_of (ww_table w) j = None" and "may_start wc env accountID input amount user w"
    and "\<forall>h a now. healthy_env wc env j (new_operation wc j h accountID a input amount user now) before entry"
    and "0 \<le> before" and "in_int64 before" and "after = (if wq_Kind input = ''debit'' then before - amount else before + amount)"
    and "0 \<le> after" and "after \<le> max_int64" and "\<not> moved j (ww_trace w)"
  shows "\<exists>op w'. createWalletAdjustment wc env call w = (WalletAnswer 201 (walletAdjustmentDTO j op), w') \<and> wa_Status op = ''succeeded'' \<and>
    wa_BeforeBalanceMicros op = before \<and> wa_AfterBalanceMicros op = after \<and> wa_ReceiptID op \<noteq> [] \<and>
    moved j (ww_trace w') \<and> map_of (ww_table w') j = Some (wallet_row wc j op) \<and> wa_UpdatedAt op \<noteq> [] \<and>
    (\<exists>now. now \<noteq> [] \<and> same_order wc j op (new_operation wc j
       (request_hash wc accountID (stringValue (mget (ar_user (wl_audit call)) ''id'')) input amount) accountID
       (stringValue (mget (ar_user (wl_audit call)) ''id'')) input amount user now))"
proof -
  let ?actor = "stringValue (mget (ar_user (wl_audit call)) ''id'')" and ?r = "wl_audit call"
  let ?hash = "request_hash wc accountID ?actor input amount" and ?w = "apply_effect wc Clock w"
  let ?op = "new_operation wc j ?hash accountID ?actor input amount user (rfc3339_nano (t_utc (we_now env (ww_trace w))))"
  have amount: "0 < amount" "in_int64 amount"
    using assms(5) by (auto simp: validWalletAdjustmentRequest_def ParseUSDDecimalMicros_def Let_def split: if_splits option.splits)
  have op: "wa_Kind ?op = wq_Kind input" "wa_AmountUSDMicros ?op = amount" "wa_Sub2APIUserID ?op = user" "wa_Phase ?op = ''before_balance''"
      "\<not> wa_AdjustmentAttempted ?op" "v2_code wc j ?op" "wa_Status ?op = ''pending''"
    by (simp_all add: new_operation_def v2_code_def)
  have h: "healthy_env wc env j ?op before entry" using assms(9) by blast
  obtain x w1 where p: "persistWalletAdjustment wc env j ?op ?w = (x, True, w1)" "\<exists>t. x = ?op\<lparr>wa_UpdatedAt := t\<rparr>"
      "moved j (ww_trace w1) = moved j (ww_trace ?w)"
    by (rule healthy_persist [OF h op(6), of ?w])
  then have x: "wa_Kind x = wq_Kind input" "wa_AmountUSDMicros x = amount" "wa_Sub2APIUserID x = user" "wa_Phase x = ''before_balance''"
      "\<not> wa_AdjustmentAttempted x" "same_order wc j x x" "wa_Status x = ''pending''"
    using op by (auto simp: same_order_def v2_code_def)
  have hx: "healthy_env wc env j x before entry" using h x op healthy_cong(1) [of x ?op] by simp
  have after: "balance_after x before = after" using assms(12) x by (simp add: balance_after_def)
  have "sized x" using amount x(2) by (simp add: sized_def)
  moreover have "\<not> moved j (ww_trace w1)" using p(3) assms(15) by simp
  ultimately obtain op' w' where run: "runWalletAdjustment wc env ?r j x w1 = (op', None, w')" "wa_Status op' = ''succeeded''"
      "wa_BeforeBalanceMicros op' = before" "wa_AfterBalanceMicros op' = after" "wa_ReceiptID op' \<noteq> []" "moved j (ww_trace w')"
      "map_of (ww_table w') j = Some (wallet_row wc j op')" "wa_UpdatedAt op' \<noteq> []" "same_order wc j op' x"
    using healthy_run [OF hx x(6,4,5) _ assms(10,11)] assms(13,14) after by metis
  obtain account where "walletAdjustmentAccount wc env accountID w = Inr (account, user)" "stringValue (mget account ''ownerUserId'') \<noteq> []"
      "\<not> we_table_down env (ww_trace w)"
      "wq_Kind input = ''business_refund'' \<longrightarrow> validateWalletRefundLimit wc env accountID (wq_RelatedOperationID input) amount w = None"
    using assms(8) by (auto simp: may_start_def)
  then have start: "start_operation wc env ?r key accountID input amount w = finish_create wc env ?r j True x w1"
    using p(1) by (simp add: start_operation_def clock_def Let_def assms(6) [symmetric])
  have "walletAdjustment wc env j ?hash w = Inr None"
    using assms(7,8) by (simp add: walletAdjustment_def may_start_def)
  then have "createWalletAdjustment wc env call w = finish_create wc env ?r j True x w1"
    using assms(1-5) start by (simp add: createWalletAdjustment_def Let_def assms(6) [symmetric])
  moreover have "finish_create wc env ?r j True x w1 = (WalletAnswer 201 (walletAdjustmentDTO j op'), w')"
    using run x(7) by (simp add: finish_create_def)
  moreover have "same_order wc j op' ?op" using run(9) p(2) by (auto simp: same_order_def)
  moreover have "rfc3339_nano (t_utc (we_now env (ww_trace w))) \<noteq> []" by (rule time_text_ne)
  ultimately show ?thesis using run by (intro exI [of _ op'] exI [of _ w']) auto
qed


end
