(* ===== verification/Wallet_Limits.thy ===== *)
theory Wallet_Limits
  imports Wallet_Adjustment
begin

text \<open>
  Amounts, refund limits and receipts of wallet adjustments: the text of an amount is read back as the
  amount, refunds of an operation never exceed what was charged for it, and the ledger accepts the receipt
  of an adjustment.
\<close>

section \<open>Amounts\<close>

definition fraction_digits :: "int \<Rightarrow> string" where
  "fraction_digits fraction =
     (let decimal = rev (dropWhile (\<lambda>c. c = CHR ''0'') (rev (pad_text 6 (nat fraction))))
      in if length decimal < 2 then decimal @ replicate (2 - length decimal) (CHR ''0'') else decimal)"

lemma formatWalletUSD_alt: "formatWalletUSD micros = int_text (micros div 1000000) @ CHR ''.'' # fraction_digits (micros mod 1000000)"
  by (simp add: formatWalletUSD_def fraction_digits_def Let_def)

lemma pad6:
  assumes "0 \<le> f" "f < 1000000"
  shows "length (pad_text 6 (nat f)) = 6" "dec_val 0 (pad_text 6 (nat f)) = Some (nat f)" "list_all is_digit (pad_text 6 (nat f))"
proof -
  have "length (nat_text (nat f)) \<le> 6" using assms by (intro length_nat_text) auto
  then show "length (pad_text 6 (nat f)) = 6" by (simp add: pad_text_def)
  have "pad_text 6 (nat f) \<noteq> []" by (simp add: pad_text_def)
  with parse_pad_text [of 6 "nat f"] show "dec_val 0 (pad_text 6 (nat f)) = Some (nat f)" by (simp add: parse_digits_def)
  show "list_all is_digit (pad_text 6 (nat f))"
    using digits_nat_text [of "nat f"] by (auto simp: pad_text_def list_all_iff is_digit_def code_def)
qed

lemma fraction_facts:
  assumes "0 \<le> f" "f < 1000000"
  defines "d \<equiv> fraction_digits f"
  shows "2 \<le> length d" "length d \<le> 6" "d @ replicate (6 - length d) (CHR ''0'') = pad_text 6 (nat f)" "list_all is_digit d"
proof -
  let ?s = "pad_text 6 (nat f)"
  define e where "e = rev (dropWhile (\<lambda>c. c = CHR ''0'') (rev ?s))"
  have s: "?s = e @ replicate (6 - length e) (CHR ''0'')"
    using trim_zeros [of ?s] pad6(1) [OF assms(1,2)] by (simp add: e_def)
  then have le: "length e \<le> 6" using arg_cong [OF s, of length] pad6(1) [OF assms(1,2)] by simp
  have d: "d = (if length e < 2 then e @ replicate (2 - length e) (CHR ''0'') else e)"
    by (simp add: d_def fraction_digits_def e_def Let_def)
  then show l: "2 \<le> length d" "length d \<le> 6" using le by auto
  have "replicate (6 - length e) (CHR ''0'') = replicate (2 - length e) (CHR ''0'') @ replicate 4 (CHR ''0'')" if "length e < 2"
    using that by (simp flip: replicate_add)
  then show r: "d @ replicate (6 - length d) (CHR ''0'') = ?s" using s by (simp add: d)
  have "set d \<subseteq> set ?s" unfolding r [symmetric] by simp
  with pad6(3) [OF assms(1,2)] show "list_all is_digit d" by (auto simp: list_all_iff)
qed

lemma nat_text_head: "0 < n \<Longrightarrow> hd (nat_text n) \<noteq> CHR ''0''"
proof (induction n rule: nat_text.induct)
  case (1 n)
  show ?case
  proof (cases "n < 10")
    case True
    have "code (digit_char n) = 48 + n" using True by (simp add: digit_char_def code_def byte_def)
    moreover have "code (CHR ''0'') = 48" by (simp add: code_def)
    ultimately have "digit_char n \<noteq> CHR ''0''" using "1.prems" by force
    with True show ?thesis by (subst nat_text.simps) simp
  next
    case False
    with 1 have "hd (nat_text (n div 10)) \<noteq> CHR ''0''" by simp
    with False show ?thesis by (subst nat_text.simps) simp
  qed
qed

text \<open>
  C33: the text of an amount is read back. For every amount of 64 bits that is not negative the text the
  operation shows is a text the request pattern admits and that the parser reads as exactly this amount.
\<close>

theorem wallet_amount_round_trip:
  assumes "0 \<le> micros" and "in_int64 micros"
  shows "walletAmountPattern (formatWalletUSD micros) \<and> ParseUSDDecimalMicros (formatWalletUSD micros) = Some micros"
proof -
  define w f d where "w = nat (micros div 1000000)" and "f = micros mod 1000000" and "d = fraction_digits f"
  have whole: "0 \<le> micros div 1000000" using assms(1) pos_imp_zdiv_nonneg_iff [of 1000000 micros] by simp
  have f: "0 \<le> f" "f < 1000000" and m: "micros = int w * 1000000 + f" using whole by (simp_all add: f_def w_def)
  note d = fraction_facts [OF f, folded d_def]
  from whole have shown: "formatWalletUSD micros = nat_text w @ CHR ''.'' # d"
    by (simp add: formatWalletUSD_alt d_def f_def w_def int_text_def)
  have nd: "\<not> is_digit (CHR ''.'')" by (simp add: is_digit_def code_def)
  have parts: "takeWhile is_digit (formatWalletUSD micros) = nat_text w" "dropWhile is_digit (formatWalletUSD micros) = CHR ''.'' # d"
    using digits_nat_text [of w] nd by (simp_all add: shown list_all_iff takeWhile_append dropWhile_append)
  have "w < 10 ^ 13" using assms(2) m f by (simp add: int64_defs)
  then have len: "length (nat_text w) \<le> 13" by (intro length_nat_text) auto
  have "nat_text 0 = ''0''" by code_simp
  then have pat: "walletAmountPattern (formatWalletUSD micros)"
    using d nat_text_head [of w] len by (cases "w = 0") (auto simp: walletAmountPattern_def parts Let_def)
  obtain n where n: "dec_val 0 (nat_text w @ d) = Some n" "n * 10 ^ (6 - length d) = w * 1000000 + nat f"
  proof -
    have "dec_val 0 (nat_text w @ pad_text 6 (nat f)) = Some (w * 10 ^ 6 + nat f)"
      using dec_val_shift [OF pad6(2) [OF f]] pad6(1) [OF f] by (simp add: dec_val_append dec_val_nat_text)
    then have "dec_val 0 ((nat_text w @ d) @ replicate (6 - length d) (CHR ''0'')) = Some (w * 10 ^ 6 + nat f)" using d(3) by simp
    then show thesis using that by (simp only: dec_val_append [of 0 "nat_text w @ d"]) (auto simp: dec_val_zero_tail split: option.splits)
  qed
  have "int n * 10 ^ (6 - length d) = micros" using arg_cong [OF n(2), of int] m f by simp
  moreover have "(1000000::int) = 10 ^ (6 - length d) * 10 ^ length d" using d(2) by (simp flip: power_add)
  ultimately have "int n * 1000000 = micros * 10 ^ length d" by (metis mult.assoc)
  then have "ParseUSDDecimalMicros (formatWalletUSD micros) = Some micros"
    using n(1) assms(2) by (simp add: ParseUSDDecimalMicros_def parts parse_digits_def Let_def)
  with pat show ?thesis ..
qed

section \<open>Refund limits\<close>

text \<open>The refunds of an account for one operation.\<close>

definition refunds_for :: "wallet_codec \<Rightarrow> string \<Rightarrow> gomap list \<Rightarrow> wallet_operation list" where
  "refunds_for wc related rows =
     filter (\<lambda>op. wa_Kind op = ''business_refund'' \<and> wa_RelatedOperationID op = related)
       (concat (map (\<lambda>row. case decodeWalletAdjustment wc row of Inl _ \<Rightarrow> [] | Inr op \<Rightarrow> [op]) rows))"

lemma sum_refunds_exact:
  "sum_refunds wc related n rows = Inr m \<Longrightarrow>
     (\<forall>op \<in> set (refunds_for wc related rows). wa_Status op = ''succeeded'') \<and>
     m = n + sum_list (map wa_AmountUSDMicros (refunds_for wc related rows))"
proof (induction wc related n rows rule: sum_refunds.induct)
  case (2 wc related n row rows)
  obtain op where op: "decodeWalletAdjustment wc row = Inr op" using 2(3) by (auto split: sum.splits)
  show ?case
  proof (cases "wa_Kind op = ''business_refund'' \<and> wa_RelatedOperationID op = related")
    case True
    then have s: "wa_Status op = ''succeeded''" "sum_refunds wc related (n + wa_AmountUSDMicros op) rows = Inr m"
      "\<not> wa_AmountUSDMicros op > max_int64 - n"
      using 2(3) op by (auto split: if_splits)
    have "(\<forall>op \<in> set (refunds_for wc related rows). wa_Status op = ''succeeded'') \<and>
        m = n + wa_AmountUSDMicros op + sum_list (map wa_AmountUSDMicros (refunds_for wc related rows))"
      using 2(2) [OF op] s True by simp
    with op True s show ?thesis by (auto simp: refunds_for_def)
  next
    case False
    then have "sum_refunds wc related n rows = Inr m" using 2(3) op by auto
    with 2(1) [OF op] False op show ?thesis by (auto simp: refunds_for_def)
  qed
qed (simp add: refunds_for_def)


text \<open>
  C24: the limit is kept per account and not per operation. An account without wallet adjustments is granted
  a refund up to the full charge of any operation, also of another account and also when that account was
  refunded in full.
\<close>

theorem refund_limit_ignores_owner:
  assumes "map_of (ww_table w) related = Some row" and "refundableWalletOperationAmount wc row = Some original"
    and "wallet_rows accountID (ww_table w) = []" and "amount \<le> original" and "\<not> we_table_down env (ww_trace w)"
  shows "validateWalletRefundLimit wc env accountID related amount w = None"
proof -
  have "0 < original" using assms(2) by (auto simp: refundableWalletOperationAmount_def Let_def split: if_splits option.splits prod.splits)
  with assms show ?thesis by (simp add: validateWalletRefundLimit_def)
qed

section \<open>Receipts\<close>

text \<open>SHA-1 in hexadecimal has forty lower-case digits.\<close>

definition hex_digest :: "(string \<Rightarrow> string) \<Rightarrow> bool" where
  "hex_digest h \<longleftrightarrow> (\<forall>s. length (h s) = 40 \<and> list_all id_rune (h s))"

lemma opaque_id_rune: "id_rune c \<Longrightarrow> opaque_char c"
  by (auto simp: id_rune_def opaque_char_def)

lemma hex_opaque: "hex_digest h \<Longrightarrow> list_all opaque_char (take n (stableID h parts))"
  by (auto simp: hex_digest_def stableID_def list_all_iff opaque_id_rune dest: in_set_takeD)

lemma opaque_texts: "list_all opaque_char ''wallet-adjustment-''" "list_all opaque_char ''sub2api:balance-history:''" "list_all opaque_char '':''"
  by code_simp+

lemma operation_id_opaque:
  assumes "hex_digest (wc_sha1hex wc)"
  shows "isOpaqueReference (operation_id wc a k)"
proof -
  have "list_all opaque_char (operation_id wc a k)"
    unfolding operation_id_def list_all_append using hex_opaque [OF assms] opaque_texts(1) by blast
  moreover have "length (operation_id wc a k) \<le> 255" "operation_id wc a k \<noteq> []" by (simp_all add: operation_id_def)
  ultimately show ?thesis by (simp add: isOpaqueReference_def)
qed

lemma history_ref_opaque:
  assumes "hex_digest h" and "0 < u" and "in_int64 u"
  shows "isOpaqueReference (walletAdjustmentBalanceHistoryRef h u entry)"
proof -
  have u: "int_text u = nat_text (nat u)" using assms(2) by (simp add: int_text_def)
  have "nat u < 10 ^ 19" using assms(2,3) by (simp add: int64_defs)
  then have len: "length (nat_text (nat u)) \<le> 19" by (intro length_nat_text) auto
  have "list_all opaque_char (nat_text (nat u))"
    using digits_nat_text [of "nat u"] by (simp add: list_all_iff opaque_char_def)
  then have "list_all opaque_char (walletAdjustmentBalanceHistoryRef h u entry)"
    unfolding walletAdjustmentBalanceHistoryRef_def list_all_append u using hex_opaque [OF assms(1)] opaque_texts(2,3) by blast
  moreover have "length (walletAdjustmentBalanceHistoryRef h u entry) \<le> 255" "walletAdjustmentBalanceHistoryRef h u entry \<noteq> []"
    using len by (simp_all add: walletAdjustmentBalanceHistoryRef_def u)
  ultimately show ?thesis by (simp add: isOpaqueReference_def)
qed

lemma related_opaque: "walletRelatedOperationPattern s \<Longrightarrow> isOpaqueReference s"
  by (cases s) (auto simp: walletRelatedOperationPattern_def isOpaqueReference_def related_char_def opaque_char_def list_all_iff)

lemma valid_request_facts:
  assumes "validWalletAdjustmentRequest input accountID key = Some amount"
  shows "0 < amount" "accountID \<noteq> []" "wq_Kind input \<in> {''recharge'', ''debit'', ''business_refund''}"
    "wq_Kind input = ''business_refund'' \<Longrightarrow> walletRelatedOperationPattern (trim_space (wq_RelatedOperationID input))"
    "wq_Kind input \<noteq> ''business_refund'' \<Longrightarrow> trim_space (wq_RelatedOperationID input) = []"
  using assms unfolding validWalletAdjustmentRequest_def Let_def validAccountID_def
  by (auto split: if_splits option.splits)

text \<open>No key of the receipt names a secret.\<close>

lemma plain_keys:
  "\<not> forbidden_key ''userId''" "\<not> forbidden_key ''operationId''" "\<not> forbidden_key ''kind''" "\<not> forbidden_key ''amountUsdMicros''" "\<not> forbidden_key ''balanceHistoryRef''" "\<not> forbidden_key ''relatedOperationId''" "\<not> forbidden_key ''accountId''" "\<not> forbidden_key ''type''" "\<not> forbidden_key ''status''" "\<not> forbidden_key ''surface''" "\<not> forbidden_key ''organizationId''" "\<not> forbidden_key ''workspaceId''" "\<not> forbidden_key ''projectId''" "\<not> forbidden_key ''taskId''" "\<not>
  forbidden_key ''requestId''" "\<not> forbidden_key ''approvalId''" "\<not> forbidden_key ''jobId''" "\<not> forbidden_key ''artifactId''"
  "\<not> forbidden_key ''reviewId''" "\<not> forbidden_key ''continuationId''" "\<not> forbidden_key ''supersedesReceiptId''" "\<not>
  forbidden_key ''actor''" "\<not> forbidden_key ''plan''" "\<not> forbidden_key ''execution''" "\<not> forbidden_key ''environment''" "\<not>
  forbidden_key ''inputRefs''" "\<not> forbidden_key ''outputRefs''" "\<not> forbidden_key ''reviewerChecks''" "\<not> forbidden_key ''cost''"
  "\<not> forbidden_key ''owner''" "\<not> forbidden_key ''continuation''"
  by code_simp+

lemma scan_forbidden: "\<not> containsForbiddenReceiptKey v \<longleftrightarrow> marshalable v \<and> \<not> json_scan forbidden_key v"
  by (auto simp: forbidden_scan json_scan_iff)

lemma wallet_receipt_keys: "\<not> containsForbiddenReceiptKey (receipt_input_json ((walletAdjustmentReceipt j op)\<lparr>ri_IdempotencyKey := k\<rparr>))"
  unfolding scan_forbidden
  by (simp add: walletAdjustmentReceipt_def receipt_input_json_def receipt_texts_json_def receipt_maps_def receipt_map_tags_def gomap_val_def
      empty_receipt_input_def plain_keys)

text \<open>
  C16: the ledger accepts the receipt of an adjustment. For an adjustment made from a valid request, with the
  reference of the Gateway's history entry, the ledger's validation admits the receipt under the key the
  control plane uses, so the last step of an adjustment is never refused for its form.
\<close>

theorem wallet_receipt_accepted:
  assumes "validWalletAdjustmentRequest input accountID key = Some amount" and "hex_digest (wc_sha1hex wc)"
    and "isOpaqueReference actorID" and "0 < u" and "in_int64 u"
    and "op = (new_operation wc j h accountID actorID input amount u now)
           \<lparr>wa_BalanceHistoryRef := walletAdjustmentBalanceHistoryRef (wc_sha1hex wc) u entry\<rparr>"
    and "j = operation_id wc accountID key"
  shows "validateReceiptInput ((walletAdjustmentReceipt j op)\<lparr>ri_IdempotencyKey := j @ '':ledger''\<rparr>) = None"
proof -
  let ?r = "(walletAdjustmentReceipt j op)\<lparr>ri_IdempotencyKey := j @ '':ledger''\<rparr>"
  note f = valid_request_facts [OF assms(1)]
  have j: "isOpaqueReference j" "j \<noteq> []" using operation_id_opaque [OF assms(2)] assms(7) by (simp_all add: operation_id_def)
  have ref: "isOpaqueReference (walletAdjustmentBalanceHistoryRef (wc_sha1hex wc) u entry)"
    by (rule history_ref_opaque [OF assms(2,4,5)])
  have op: "wa_AccountID op = accountID" "wa_Kind op = wq_Kind input" "wa_AmountUSDMicros op = amount" "wa_ActorUserID op = actorID"
      "wa_RelatedOperationID op = trim_space (wq_RelatedOperationID input)"
      "wa_BalanceHistoryRef op = walletAdjustmentBalanceHistoryRef (wc_sha1hex wc) u entry"
    by (simp_all add: assms(6) new_operation_def)
  have "validWalletAdjustmentReceipt ?r"
  proof (cases "wq_Kind input = ''business_refund''")
    case True
    have "trim_space (wq_RelatedOperationID input) \<noteq> []" using f(4) [OF True] by (auto simp: walletRelatedOperationPattern_def)
    with True related_opaque [OF f(4) [OF True]] f(1,2) j ref assms(3) show ?thesis
      by (simp add: validWalletAdjustmentReceipt_def walletAdjustmentReceipt_def op empty_receipt_input_def str_field_def int_field_def
          integerValue_def unsigned_kind_def mget_def mlen_def)
  next
    case False
    with f j ref assms(3) show ?thesis
      by (auto simp: validWalletAdjustmentReceipt_def walletAdjustmentReceipt_def op empty_receipt_input_def str_field_def int_field_def
          integerValue_def unsigned_kind_def mget_def mlen_def)
  qed
  moreover have "billingCostValid ?r" by (simp add: billingCostValid_def walletAdjustmentReceipt_def has_prefix_def)
  ultimately show ?thesis
    using wallet_receipt_keys [where j = j and op = op and k = "j @ '':ledger''"]
    by (simp add: validateReceiptInput_def)
      (simp add: walletAdjustmentReceipt_def empty_receipt_input_def historicalArtifactReceiptType_def historicalReviewReceiptType_def
        mlen_def allowedStatus_def)
qed

end
