(* ===== verification/Wallet_Examples.thy ===== *)
theory Wallet_Examples
  imports Wallet_Progress Wallet_Limits Text_Codec
begin

text \<open>
  Wallet adjustments at a concrete request: a recharge of sixty dollars that runs through with an
  environment that answers, and a codec that satisfies the law of the stored operations.
\<close>

section \<open>A codec for operations\<close>

definition bool_text :: "bool \<Rightarrow> string" where
  "bool_text b = (if b then ''1'' else [])"

definition failure_texts :: "wallet_failure option \<Rightarrow> string list" where
  "failure_texts f = (case f of None \<Rightarrow> [] | Some x \<Rightarrow> [wf_Phase x, int_text (wf_HTTPStatus x), wf_ErrorCode x, wf_RequestID x])"

definition failure_of_texts :: "string list \<Rightarrow> wallet_failure option" where
  "failure_of_texts fs =
     (if length fs < 4 then None
      else Some \<lparr>wf_Phase = fs ! 0, wf_HTTPStatus = int_of_text (fs ! 1), wf_ErrorCode = fs ! 2, wf_RequestID = fs ! 3\<rparr>)"

definition operation_texts :: "wallet_operation \<Rightarrow> string list" where
  "operation_texts op =
     [wa_RequestHash op, wa_Phase op, wa_AccountID op, int_text (wa_Sub2APIUserID op), wa_Kind op, int_text
      (wa_AmountUSDMicros op), wa_AmountUSD op, wa_Reason op, wa_RelatedOperationID op, wa_ActorUserID op,
      wa_CanonicalRedeemCode op, wa_RedeemCodeVersion op, wa_LegacySupersession op, bool_text (wa_AdjustmentAttempted op),
      bool_text (wa_BeforeBalanceKnown op), int_text (wa_BeforeBalanceMicros op), wa_BeforeBalanceReadAt op, bool_text
      (wa_AfterBalanceKnown op), int_text (wa_AfterBalanceMicros op), wa_AfterBalanceReadAt op, wa_BalanceHistoryRef op,
      wa_BalanceHistoryUsedAt op, wa_ReceiptID op, wa_ErrorCode op, wa_RecoveryRequestHash op, bool_text (wa_RecoveryAttempted
      op), wa_RecoveryEvidenceRef op, wa_RecoveryActorUserID op, wa_RecoveryAuthorizedAt op, wa_CreatedAt op, wa_UpdatedAt op,
      []] @ failure_texts (wa_UpstreamFailure op)"

definition operation_of_texts :: "string list \<Rightarrow> wallet_operation option" where
  "operation_of_texts fs =
     (if length fs < 32 then None
      else Some
       \<lparr>wa_RequestHash = fs ! 0, wa_Phase = fs ! 1, wa_AccountID = fs ! 2, wa_Sub2APIUserID = int_of_text (fs ! 3), wa_Kind = fs
        ! 4, wa_AmountUSDMicros = int_of_text (fs ! 5), wa_AmountUSD = fs ! 6, wa_Reason = fs ! 7, wa_RelatedOperationID = fs !
        8, wa_ActorUserID = fs ! 9, wa_CanonicalRedeemCode = fs ! 10, wa_RedeemCodeVersion = fs ! 11, wa_LegacySupersession = fs
        ! 12, wa_AdjustmentAttempted = (fs ! 13 \<noteq> []), wa_BeforeBalanceKnown = (fs ! 14 \<noteq> []),
        wa_BeforeBalanceMicros = int_of_text (fs ! 15), wa_BeforeBalanceReadAt = fs ! 16, wa_AfterBalanceKnown = (fs ! 17
        \<noteq> []), wa_AfterBalanceMicros = int_of_text (fs ! 18), wa_AfterBalanceReadAt = fs ! 19, wa_BalanceHistoryRef = fs
        ! 20, wa_BalanceHistoryUsedAt = fs ! 21, wa_ReceiptID = fs ! 22, wa_ErrorCode = fs ! 23, wa_RecoveryRequestHash = fs !
        24, wa_RecoveryAttempted = (fs ! 25 \<noteq> []), wa_RecoveryEvidenceRef = fs ! 26, wa_RecoveryActorUserID = fs ! 27,
        wa_RecoveryAuthorizedAt = fs ! 28, wa_UpstreamFailure = failure_of_texts (drop 32 fs), wa_CreatedAt = fs ! 29,
        wa_UpdatedAt = fs ! 30, wa_Status = fs ! 31\<rparr>)"

lemma failure_round_trip: "failure_of_texts (failure_texts f) = f"
  by (cases f) (simp_all add: failure_of_texts_def failure_texts_def int_of_int_text)

lemma bool_text_iff [simp]: "bool_text b = [] \<longleftrightarrow> \<not> b"
  by (simp add: bool_text_def)

lemma operation_round_trip: "operation_of_texts (operation_texts op) = Some (op\<lparr>wa_Status := []\<rparr>)"
  by (simp add: operation_of_texts_def operation_texts_def int_of_int_text failure_round_trip)

definition sample_wallet_codec :: wallet_codec where
  "sample_wallet_codec =
     \<lparr>wc_sha1hex = (\<lambda>_. replicate 40 (CHR ''a'')), wc_marshal = (\<lambda>op. join_texts (operation_texts op)),
      wc_unmarshal = (\<lambda>s. operation_of_texts (split_texts s)), wc_object = (\<lambda>_. Some (Some [(''totalChargeUsdMicros'', GNum ''100'')])), wc_address = (\<lambda>_. True)\<rparr>"

lemma sample_wallet_codec_ok: "wallet_codec_ok sample_wallet_codec"
  by (simp add: wallet_codec_ok_def sample_wallet_codec_def split_join operation_round_trip)

section \<open>An environment that answers\<close>

definition sample_call :: "wallet_request wallet_call" where
  "sample_call = \<lparr>wl_key = ''key-1'', wl_path = ''acct-1'',
     wl_body = Some \<lparr>wq_Kind = ''recharge'', wq_AmountUSD = ''60.00'', wq_Reason = ''top up'', wq_RelatedOperationID = [],
       wq_ConfirmationAccountID = ''acct-1''\<rparr>,
     wl_audit = \<lparr>ar_user = Some [(''id'', GStr ''usr-admin'')], ar_system = None, ar_ip = ''::1'', ar_agent = ''cli''\<rparr>\<rparr>"

definition sample_id :: string where
  "sample_id = ''wallet-adjustment-aaaaaaaaaaaaaaaaaa''"

definition sample_moment :: gotime where
  "sample_moment = GoTime 63900000000000000000 0"

definition sample_entry :: history_entry where
  "sample_entry = \<lparr>he_Code = ''opl'', he_Type = ''balance'', he_ValueUSDMicros = 60000000, he_Status = ''used'', he_UsedBy = Some 42,
     he_UsedAt = Some sample_moment, he_CreatedAt = sample_moment\<rparr>"

definition sample_env :: wallet_env where
  "sample_env =
     \<lparr>we_now = (\<lambda>_. sample_moment),
      we_balance = (\<lambda>t u. Inr \<lparr>gb_UserID = u, gb_USDMicros = (if moved sample_id t then 160000000 else 100000000), gb_Status = ''active''\<rparr>),
      we_history = (\<lambda>t u codes. Inr (if moved sample_id t then map (\<lambda>c. (c, sample_entry)) codes else [])),
      we_charge = (\<lambda>_ _. None), we_refund = (\<lambda>_ _. None), we_receipt = (\<lambda>_ _ _. Some ''receipt_000001''),
      we_save = (\<lambda>_ _. Saved), we_audit = (\<lambda>_ _. True), we_table_down = (\<lambda>_. False),
      we_account = (\<lambda>_ _. Some [(''id'', GStr ''acct-1''), (''status'', GStr ''active''), (''ownerUserId'', GStr ''usr-1''),
        (''sub2apiUserId'', GInt KInt64 42)]),
      we_user = (\<lambda>_ _. Some [(''id'', GStr ''usr-1''), (''accountId'', GStr ''acct-1''), (''role'', GStr ''owner''),
        (''status'', GStr ''active''), (''email'', GStr ''a@b.c'')]),
      we_identity = (\<lambda>_ u. Some \<lparr>gi_ID = u, gi_Email = ''a@b.c'', gi_Status = ''active''\<rparr>)\<rparr>"

definition sample_start :: wallet_world where
  "sample_start = \<lparr>ww_table = [], ww_trace = []\<rparr>"

definition sample_world :: wallet_world where
  "sample_world = snd (createWalletAdjustment sample_wallet_codec sample_env sample_call sample_start)"

lemma sample_typed: "typed_env sample_env"
  by (auto simp: typed_env_def sample_env_def int64_defs)

lemma path_cut_off: "accounted_path wc i w w' \<Longrightarrow> cut_off wc w w' w'"
proof -
  assume "accounted_path wc i w w'"
  then obtain es where "w' = fold (apply_effect wc) es w" using path_effects by blast
  then show ?thesis unfolding cut_off_def by (intro exI [of _ es] exI [of _ "length es"]) simp
qed

lemma sample_history: "wallet_history sample_wallet_codec [] sample_world"
proof -
  have start: "wallet_history sample_wallet_codec [] sample_start" unfolding sample_start_def by (rule wallet_history.start)
  have "accounted_path sample_wallet_codec [] sample_start sample_world"
    unfolding sample_world_def
    by (rule create_path [OF sample_wallet_codec_ok]) (simp add: money_accounted_def money_moves_def sample_start_def)
  from wallet_history.create [OF start sample_typed path_cut_off [OF this [unfolded sample_world_def]]]
  show ?thesis by (simp add: sample_world_def)
qed

text \<open>The operation the request starts.\<close>

definition sample_request :: wallet_request where
  "sample_request = \<lparr>wq_Kind = ''recharge'', wq_AmountUSD = ''60.00'', wq_Reason = ''top up'', wq_RelatedOperationID = [],
     wq_ConfirmationAccountID = ''acct-1''\<rparr>"

definition sample_hash :: string where
  "sample_hash = request_hash sample_wallet_codec ''acct-1'' ''usr-admin'' sample_request 60000000"

definition sample_operation :: "string \<Rightarrow> wallet_operation" where
  "sample_operation now = new_operation sample_wallet_codec sample_id sample_hash ''acct-1'' ''usr-admin'' sample_request 60000000 42 now"

lemma sample_request_ok: "validWalletAdjustmentRequest sample_request ''acct-1'' ''key-1'' = Some 60000000"
  by code_simp

lemma sample_texts: "trim_space ''key-1'' = ''key-1''" "trim_space ''acct-1'' = ''acct-1''"
    "operation_id sample_wallet_codec ''acct-1'' ''key-1'' = sample_id"
  by code_simp+

lemma sample_account: "case walletAdjustmentAccount sample_wallet_codec sample_env ''acct-1'' sample_start of
    Inr (account, user) \<Rightarrow> stringValue (mget account ''ownerUserId'') = ''usr-1'' \<and> user = 42 | Inl _ \<Rightarrow> False"
  by code_simp

lemma sample_may_start: "may_start sample_wallet_codec sample_env ''acct-1'' sample_request 60000000 42 sample_start"
proof -
  have "\<not> we_table_down sample_env (ww_trace sample_start)" by (simp add: sample_env_def)
  with sample_account show ?thesis by (auto simp: may_start_def sample_request_def split: sum.splits)
qed

lemma sample_healthy:
  "healthy_env sample_wallet_codec sample_env sample_id (new_operation sample_wallet_codec sample_id h ''acct-1'' a sample_request 60000000 42 now)
     100000000 sample_entry"
  by (simp add: healthy_env_def sample_env_def sample_entry_def balance_after_def new_operation_def sample_request_def)

lemma sample_call_parts:
  "trim_space (wl_key sample_call) = ''key-1''" "trim_space (wl_path sample_call) = ''acct-1''" "wl_body sample_call = Some sample_request"
  using sample_texts by (simp_all add: sample_call_def sample_request_def)

lemma sample_balance: "(160000000::int) = (if wq_Kind sample_request = ''debit'' then 100000000 - 60000000 else 100000000 + 60000000)"
  "(0::int) \<le> 100000000" "in_int64 100000000" "(0::int) \<le> 160000000" "(160000000::int) \<le> max_int64"
  "map_of (ww_table sample_start) sample_id = None" "\<not> moved sample_id (ww_trace sample_start)"
  by (simp_all add: sample_request_def int64_defs sample_start_def moved_def)


text \<open>The stored operation of the sample decodes and has succeeded.\<close>

lemma sample_wallet_stored:
  "\<exists>op. map_of (ww_table sample_world) sample_id = Some (wallet_row sample_wallet_codec sample_id op) \<and>
     decodeWalletAdjustment sample_wallet_codec (wallet_row sample_wallet_codec sample_id op) = Inr op \<and> wa_Status op = ''succeeded'' \<and>
     moved sample_id (ww_trace sample_world)"
proof -
  let ?actor = "stringValue (mget (ar_user (wl_audit sample_call)) ''id'')"
  have actor: "?actor = ''usr-admin''" by (simp add: sample_call_def mget_def stringValue_def)
  have "\<forall>h a now. healthy_env sample_wallet_codec sample_env sample_id
      (new_operation sample_wallet_codec sample_id h ''acct-1'' a sample_request 60000000 42 now) 100000000 sample_entry"
    using sample_healthy by blast
  from healthy_create [OF sample_call_parts(1) _ sample_call_parts(2,3) sample_request_ok sample_texts(3) [symmetric]
      sample_balance(6) sample_may_start this sample_balance(2,3,1,4,5,7)]
  obtain op w' now where c: "createWalletAdjustment sample_wallet_codec sample_env sample_call sample_start =
        (WalletAnswer 201 (walletAdjustmentDTO sample_id op), w')" "wa_Status op = ''succeeded''" "moved sample_id (ww_trace w')"
      "map_of (ww_table w') sample_id = Some (wallet_row sample_wallet_codec sample_id op)" "wa_UpdatedAt op \<noteq> []" "now \<noteq> []"
      "same_order sample_wallet_codec sample_id op (new_operation sample_wallet_codec sample_id
         (request_hash sample_wallet_codec ''acct-1'' ?actor sample_request 60000000) ''acct-1'' ?actor sample_request 60000000 42 now)"
    by (metis list.distinct(1))
  have w': "sample_world = w'" by (simp add: sample_world_def c(1))
  have hash: "request_hash sample_wallet_codec ''acct-1'' ?actor sample_request 60000000 \<noteq> []"
    by (simp add: request_hash_def stableID_def sample_wallet_codec_def)
  have o: "wa_RequestHash op \<noteq> []" "wa_AccountID op = ''acct-1''" "wa_Sub2APIUserID op = 42" "wa_ActorUserID op = ''usr-admin''"
      "wa_CreatedAt op = now" "wa_AmountUSDMicros op = 60000000" "v2_code sample_wallet_codec sample_id op"
      "wa_LegacySupersession op = []" "wa_RecoveryRequestHash op = []"
    using c(7) hash actor by (simp_all add: same_order_def new_operation_def)
  have r: "mget (wallet_row wc j x) ''action'' = GStr ''gateway.wallet_adjustment.v1''" "mget (wallet_row wc j x) ''result'' = GStr (wc_marshal wc x)"
      "mget (wallet_row wc j x) ''status'' = GStr (wa_Status x)" "mget (wallet_row wc j x) ''id'' = GStr j"
      "mget (wallet_row wc j x) ''accountId'' = GStr (wa_AccountID x)" "mget (wallet_row wc j x) ''resourceId'' = GStr (wa_AccountID x)"
      "mget (wallet_row wc j x) ''resourceKind'' = GStr ''gateway_wallet''" for wc j x
    by (simp_all add: wallet_row_def mget_def)
  have "decodeWalletAdjustment sample_wallet_codec (wallet_row sample_wallet_codec sample_id op) = Inr op"
    using sample_wallet_codec_ok o c(2,5,6)
    by (simp add: decodeWalletAdjustment_def wallet_codec_ok_def r stringValue_def v2_code_def Let_def)
  with c w' show ?thesis by blast
qed

lemma sample_moved: "money_moves sample_id sample_world \<noteq> 0"
  using sample_wallet_stored by (auto simp: money_moves_def moved_def list_ex_iff filter_empty_conv)

theorem wallet_moves_money_once_witness:
  "money_moves sample_id sample_world \<noteq> 0 \<and> money_moves sample_id sample_world \<le> 2"
proof -
  have "money_moves sample_id sample_world \<le> 2"
    using wallet_moves_money_once [OF sample_wallet_codec_ok sample_history sample_moved] by (auto split: if_splits)
  with sample_moved show ?thesis by simp
qed

theorem wallet_success_is_backed_witness:
  "\<exists>op. map_of (ww_table sample_world) sample_id = Some (wallet_row sample_wallet_codec sample_id op) \<and>
     wa_AfterBalanceKnown op \<and> wa_ReceiptID op \<noteq> []"
proof -
  obtain op where op: "map_of (ww_table sample_world) sample_id = Some (wallet_row sample_wallet_codec sample_id op)"
      "decodeWalletAdjustment sample_wallet_codec (wallet_row sample_wallet_codec sample_id op) = Inr op" "wa_Status op = ''succeeded''"
    using sample_wallet_stored by blast
  have "\<forall>j. wallet_part [] j = None" by (simp add: wallet_part_def)
  from wallet_success_is_backed [OF sample_wallet_codec_ok sample_history this op] op(1) show ?thesis by blast
qed

section \<open>Limits and receipts\<close>

theorem wallet_amount_round_trip_witness: "ParseUSDDecimalMicros (formatWalletUSD 60000000) = Some 60000000"
  using wallet_amount_round_trip [of 60000000] by (simp add: int64_defs)

definition sample_launch :: gomap where
  "sample_launch = Some [(''id'', GStr ''launch-1''), (''accountId'', GStr ''acct-2''), (''action'', GStr ''workspace.launch.v2''),
     (''status'', GStr ''succeeded''), (''result'', GStr ''{}'')]"

definition sample_refund_world :: wallet_world where
  "sample_refund_world = \<lparr>ww_table = [(''launch-1'', sample_launch)], ww_trace = []\<rparr>"

lemma sample_refund_facts:
  "map_of (ww_table sample_refund_world) ''launch-1'' = Some sample_launch"
  "refundableWalletOperationAmount sample_wallet_codec sample_launch = Some 100"
  "wallet_rows ''acct-1'' (ww_table sample_refund_world) = []"
  by (simp add: sample_refund_world_def) code_simp+

theorem refund_limit_ignores_owner_witness:
  "validateWalletRefundLimit sample_wallet_codec sample_env ''acct-1'' ''launch-1'' 100 sample_refund_world = None"
  by (rule refund_limit_ignores_owner [OF sample_refund_facts]) (simp_all add: sample_env_def)


theorem wallet_receipt_accepted_witness:
  "validateReceiptInput ((walletAdjustmentReceipt sample_id
     ((new_operation sample_wallet_codec sample_id sample_hash ''acct-1'' ''usr-admin'' sample_request 60000000 42 [])
       \<lparr>wa_BalanceHistoryRef := walletAdjustmentBalanceHistoryRef (wc_sha1hex sample_wallet_codec) 42 sample_entry\<rparr>))
     \<lparr>ri_IdempotencyKey := sample_id @ '':ledger''\<rparr>) = None"
proof (rule wallet_receipt_accepted [OF sample_request_ok])
  show "hex_digest (wc_sha1hex sample_wallet_codec)" by (simp add: hex_digest_def sample_wallet_codec_def) code_simp
  show "isOpaqueReference ''usr-admin''" by code_simp
qed (simp_all add: int64_defs sample_texts(3))

end
