(* ===== verification/Workspace_Billing.thy ===== *)
theory Workspace_Billing
  imports Monthly_Billing
begin

text \<open>
  The billing state of a workspace row (\<^verbatim>\<open>ent_state_store_workspace.go\<close> of
  \<^verbatim>\<open>services/control-plane/internal/server\<close>): its validation, its record, how it is stored as JSON text and read
  back, and the merge that guards a saved row against stale writers. JSON texts are parameters.
\<close>

section \<open>The state\<close>

datatype billing_error = ErrInvalidWorkspaceBillingState | ErrBillingIdempotencyConflict

record billing_state =
  bs_ResourceBillingEnabled :: "bool option"
  bs_AutoRenew :: bool
  bs_AuthorizedBy :: string
  bs_AuthorizedAt :: string
  bs_PackageID :: string
  bs_StorageGB :: int
  bs_PriceVersion :: string
  bs_Currency :: string
  bs_BillingUnit :: string
  bs_ComputeUSDMicros :: int
  bs_StorageUSDMicros :: int
  bs_TotalUSDMicros :: int
  bs_PeriodStart :: string
  bs_PaidThrough :: string
  bs_NextRenewalAt :: string
  bs_BillingAnchorDay :: int
  bs_RenewalStatus :: string
  bs_ComputeAllocationID :: string
  bs_StorageID :: string
  bs_ManualReviewReason :: string

definition zero_state :: billing_state where
  "zero_state =
     \<lparr>bs_ResourceBillingEnabled = None, bs_AutoRenew = False, bs_AuthorizedBy = [], bs_AuthorizedAt = [], bs_PackageID = [],
      bs_StorageGB = 0, bs_PriceVersion = [], bs_Currency = [], bs_BillingUnit = [], bs_ComputeUSDMicros = 0,
      bs_StorageUSDMicros = 0, bs_TotalUSDMicros = 0, bs_PeriodStart = [], bs_PaidThrough = [], bs_NextRenewalAt = [],
      bs_BillingAnchorDay = 0, bs_RenewalStatus = [], bs_ComputeAllocationID = [], bs_StorageID = [], bs_ManualReviewReason = []\<rparr>"

definition workspaceBillingStateRequiredKeys :: "string list" where
  "workspaceBillingStateRequiredKeys =
     [''autoRenew'', ''authorizedBy'', ''authorizedAt'', ''packageId'', ''storageGb'', ''priceVersion'', ''currency'', ''billingUnit'',
      ''computeUsdMicros'', ''storageUsdMicros'', ''totalUsdMicros'', ''periodStart'', ''paidThrough'',
      ''nextRenewalAt'', ''billingAnchorDay'', ''renewalStatus'', ''computeAllocationId'', ''storageId'']"

definition workspaceBillingStateExclusiveKeys :: "string list" where
  "workspaceBillingStateExclusiveKeys =
     [''authorizedBy'', ''authorizedAt'', ''storageGb'', ''priceVersion'', ''currency'', ''billingUnit'',
      ''computeUsdMicros'', ''storageUsdMicros'', ''totalUsdMicros'', ''periodStart'', ''paidThrough'', ''nextRenewalAt'', ''billingAnchorDay'']"

definition workspaceBillingLegacyMismatch :: string where
  "workspaceBillingLegacyMismatch = ''legacy_billing_state_mismatch''"

definition workspaceBillingNotApplicable :: string where
  "workspaceBillingNotApplicable = ''not_applicable''"

section \<open>Validation\<close>

definition t_add :: "gotime \<Rightarrow> int \<Rightarrow> gotime" where
  "t_add t d = GoTime (inst t + d) (zone t)"

text \<open>The three times of a row: the period is not empty, and the renewal is due a day before its end.\<close>

definition billing_times :: "gomap \<Rightarrow> (gotime \<times> gotime \<times> gotime) option" where
  "billing_times row =
     do {
       periodStartText \<leftarrow> as_str (mget row ''periodStart'');
       paidThroughText \<leftarrow> as_str (mget row ''paidThrough'');
       nextRenewalText \<leftarrow> as_str (mget row ''nextRenewalAt'');
       periodStart \<leftarrow> rfc3339_parse periodStartText;
       paidThrough \<leftarrow> rfc3339_parse paidThroughText;
       nextRenewal \<leftarrow> rfc3339_parse nextRenewalText;
       if t_after paidThrough periodStart \<and> t_equal nextRenewal (t_add paidThrough (- day_ns))
       then Some (periodStart, paidThrough, nextRenewal) else None
     }"

definition requiredNonNegativeWorkspaceInteger :: "gomap \<Rightarrow> string \<Rightarrow> int option" where
  "requiredNonNegativeWorkspaceInteger row key =
     (let (v, ok) = positiveIntegerField row key in
      if ok then Some v else if float_eq (numberField row key (Fin (- 1))) (Fin 0) then Some 0 else None)"

definition required_positive :: "gomap \<Rightarrow> string \<Rightarrow> int option" where
  "required_positive row key = (let (v, ok) = requiredPositiveInteger row key in if ok then Some v else None)"

definition utc_text :: "gotime \<Rightarrow> string" where
  "utc_text t = rfc3339_nano (t_utc t)"

definition guard_that :: "bool \<Rightarrow> unit option" where
  "guard_that b = (if b then Some () else None)"

text \<open>A customer-owned workspace, whose resources are not billed.\<close>

definition normalizeWorkspaceNonBillingState :: "gomap \<Rightarrow> string \<Rightarrow> string \<Rightarrow> billing_state option" where
  "normalizeWorkspaceNonBillingState row expectedComputeID expectedStorageID =
     do {
       guard_that (list_all (mhas row) workspaceBillingStateRequiredKeys);
       autoRenew \<leftarrow> as_bool (mget row ''autoRenew'');
       resourceBillingEnabled \<leftarrow> as_bool (mget row ''resourceBillingEnabled'');
       renewalStatus \<leftarrow> as_str (mget row ''renewalStatus'');
       packageID \<leftarrow> as_str (mget row ''packageId'');
       priceVersion \<leftarrow> as_str (mget row ''priceVersion'');
       currency \<leftarrow> as_str (mget row ''currency'');
       billingUnit \<leftarrow> as_str (mget row ''billingUnit'');
       computeID \<leftarrow> as_str (mget row ''computeAllocationId'');
       storageID \<leftarrow> as_str (mget row ''storageId'');
       guard_that (\<not> autoRenew \<and> \<not> resourceBillingEnabled \<and> renewalStatus = workspaceBillingNotApplicable \<and>
         \<not> blank packageID \<and> \<not> blank priceVersion \<and> currency = pricingCurrency \<and> billingUnit = pricingBillingUnit \<and>
         \<not> blank computeID \<and> \<not> blank storageID \<and>
         (expectedComputeID = [] \<or> computeID = expectedComputeID) \<and> (expectedStorageID = [] \<or> storageID = expectedStorageID));
       storageGB \<leftarrow> requiredNonNegativeWorkspaceInteger row ''storageGb'';
       computePrice \<leftarrow> requiredNonNegativeWorkspaceInteger row ''computeUsdMicros'';
       storagePrice \<leftarrow> requiredNonNegativeWorkspaceInteger row ''storageUsdMicros'';
       totalPrice \<leftarrow> requiredNonNegativeWorkspaceInteger row ''totalUsdMicros'';
       billingAnchorDay \<leftarrow> requiredNonNegativeWorkspaceInteger row ''billingAnchorDay'';
       guard_that (computePrice = 0 \<and> storagePrice = 0 \<and> totalPrice = 0 \<and> billingAnchorDay \<le> 31);
       (periodStart, paidThrough, nextRenewal) \<leftarrow> billing_times row;
       guard_that (stringValue (mget row ''authorizedBy'') = [] \<and> stringValue (mget row ''authorizedAt'') = []);
       Some (zero_state
         \<lparr>bs_ResourceBillingEnabled := Some False, bs_PackageID := packageID, bs_StorageGB := storageGB,
          bs_PriceVersion := priceVersion, bs_Currency := currency, bs_BillingUnit := billingUnit,
          bs_PeriodStart := utc_text periodStart, bs_PaidThrough := utc_text paidThrough, bs_NextRenewalAt := utc_text nextRenewal,
          bs_BillingAnchorDay := billingAnchorDay, bs_RenewalStatus := workspaceBillingNotApplicable,
          bs_ComputeAllocationID := computeID, bs_StorageID := storageID\<rparr>)
     }"

text \<open>
  The authorization of automatic renewal: by the owner, with its time, both or none; the time is kept in UTC.
\<close>

definition authorization_ok :: "bool \<Rightarrow> string \<Rightarrow> string \<Rightarrow> string \<Rightarrow> bool" where
  "authorization_ok autoRenew authorizedBy authorizedAt expectedOwnerID \<longleftrightarrow>
     \<not> (autoRenew \<and> (authorizedBy = [] \<or> authorizedAt = []) \<or>
        authorizedBy \<noteq> [] \<and> authorizedBy \<noteq> expectedOwnerID \<or> (authorizedBy = []) \<noteq> (authorizedAt = []))"

definition authorized_utc :: "string \<Rightarrow> string option" where
  "authorized_utc authorizedAt = (if authorizedAt = [] then Some [] else map_option utc_text (rfc3339_parse authorizedAt))"

definition paid_resources_ok :: "string \<Rightarrow> string \<Rightarrow> string \<Rightarrow> string \<Rightarrow> string \<Rightarrow> bool" where
  "paid_resources_ok renewalStatus computeID storageID expectedComputeID expectedStorageID \<longleftrightarrow>
     (renewalStatus = ''active'' \<or> renewalStatus = ''expired_unpaid'') \<and> \<not> blank computeID \<and> \<not> blank storageID \<and>
     (expectedComputeID = [] \<or> computeID = expectedComputeID) \<and> expectedStorageID \<noteq> [] \<and> storageID = expectedStorageID"

definition paid_price_ok :: "string \<Rightarrow> string \<Rightarrow> string \<Rightarrow> string \<Rightarrow> bool" where
  "paid_price_ok packageID priceVersion currency billingUnit \<longleftrightarrow>
     \<not> blank packageID \<and> \<not> blank priceVersion \<and> currency = pricingCurrency \<and> billingUnit = pricingBillingUnit"

text \<open>The state of a billed workspace.\<close>

definition normalize_paid_state :: "gomap \<Rightarrow> string \<Rightarrow> string \<Rightarrow> string \<Rightarrow> billing_state option" where
  "normalize_paid_state row expectedComputeID expectedStorageID expectedOwnerID =
     do {
       guard_that (list_all (mhas row) workspaceBillingStateRequiredKeys);
       autoRenew \<leftarrow> as_bool (mget row ''autoRenew'');
       authorizedBy \<leftarrow> as_str (mget row ''authorizedBy'');
       authorizedAt \<leftarrow> as_str (mget row ''authorizedAt'');
       packageID \<leftarrow> as_str (mget row ''packageId'');
       priceVersion \<leftarrow> as_str (mget row ''priceVersion'');
       currency \<leftarrow> as_str (mget row ''currency'');
       billingUnit \<leftarrow> as_str (mget row ''billingUnit'');
       renewalStatus \<leftarrow> as_str (mget row ''renewalStatus'');
       computeID \<leftarrow> as_str (mget row ''computeAllocationId'');
       storageID \<leftarrow> as_str (mget row ''storageId'');
       storageGB \<leftarrow> required_positive row ''storageGb'';
       computeUSDMicros \<leftarrow> required_positive row ''computeUsdMicros'';
       storageUSDMicros \<leftarrow> required_positive row ''storageUsdMicros'';
       totalUSDMicros \<leftarrow> required_positive row ''totalUsdMicros'';
       billingAnchorDay \<leftarrow> required_positive row ''billingAnchorDay'';
       guard_that (billingAnchorDay \<le> 31);
       checkedTotal \<leftarrow> checkedAddInt64 computeUSDMicros storageUSDMicros;
       guard_that (totalUSDMicros = checkedTotal \<and> paid_price_ok packageID priceVersion currency billingUnit);
       (periodStart, paidThrough, nextRenewal) \<leftarrow> billing_times row;
       guard_that (paid_resources_ok renewalStatus computeID storageID expectedComputeID expectedStorageID);
       guard_that (\<not> (renewalStatus = ''expired_unpaid'' \<and> autoRenew));
       guard_that (authorization_ok autoRenew authorizedBy authorizedAt expectedOwnerID);
       authorizedAt \<leftarrow> authorized_utc authorizedAt;
       guard_that (\<not> mhas row ''manualReviewReason'');
       Some
         \<lparr>bs_ResourceBillingEnabled = Some True, bs_AutoRenew = autoRenew, bs_AuthorizedBy = authorizedBy, bs_AuthorizedAt = authorizedAt,
          bs_PackageID = packageID, bs_StorageGB = storageGB, bs_PriceVersion = priceVersion, bs_Currency = currency,
          bs_BillingUnit = billingUnit, bs_ComputeUSDMicros = computeUSDMicros, bs_StorageUSDMicros = storageUSDMicros,
          bs_TotalUSDMicros = totalUSDMicros, bs_PeriodStart = utc_text periodStart, bs_PaidThrough = utc_text paidThrough,
          bs_NextRenewalAt = utc_text nextRenewal, bs_BillingAnchorDay = billingAnchorDay, bs_RenewalStatus = renewalStatus,
          bs_ComputeAllocationID = computeID, bs_StorageID = storageID, bs_ManualReviewReason = []\<rparr>
     }"

text \<open>\<open>Inr None\<close> is a row without a billing state.\<close>

definition of_state :: "billing_state option \<Rightarrow> billing_error + billing_state option" where
  "of_state s = (case s of None \<Rightarrow> Inl ErrInvalidWorkspaceBillingState | Some s \<Rightarrow> Inr (Some s))"

definition manual_review_state :: "gomap \<Rightarrow> billing_state option" where
  "manual_review_state row =
     (if list_ex (mhas row) workspaceBillingStateExclusiveKeys then None
      else if mget row ''autoRenew'' = GBool False \<and> mget row ''manualReviewReason'' = GStr workspaceBillingLegacyMismatch
      then Some (zero_state\<lparr>bs_RenewalStatus := ''manual_review'', bs_ManualReviewReason := workspaceBillingLegacyMismatch\<rparr>)
      else None)"

definition normalizeWorkspaceBillingState ::
    "gomap \<Rightarrow> string \<Rightarrow> string \<Rightarrow> string \<Rightarrow> billing_error + billing_state option" where
  "normalizeWorkspaceBillingState row expectedComputeID expectedStorageID expectedOwnerID =
     (if \<not> mhas row ''renewalStatus'' \<and> \<not> mhas row ''autoRenew'' \<and> \<not> mhas row ''priceVersion'' then Inr None
      else if mget row ''renewalStatus'' = GStr ''manual_review'' then of_state (manual_review_state row)
      else if mhas row ''resourceBillingEnabled'' then
        (case as_bool (mget row ''resourceBillingEnabled'') of
           None \<Rightarrow> Inl ErrInvalidWorkspaceBillingState
         | Some False \<Rightarrow> of_state (normalizeWorkspaceNonBillingState row expectedComputeID expectedStorageID)
         | Some True \<Rightarrow> of_state (normalize_paid_state row expectedComputeID expectedStorageID expectedOwnerID))
      else of_state (normalize_paid_state row expectedComputeID expectedStorageID expectedOwnerID))"

definition normalizeWorkspaceBillingStateForWorkspace :: "gomap \<Rightarrow> gomap \<Rightarrow> billing_error + billing_state option" where
  "normalizeWorkspaceBillingStateForWorkspace row workspace =
     (let currentComputeID = stringValue (mget workspace ''currentComputeAllocationId'') in
      case normalizeWorkspaceBillingState row currentComputeID (stringValue (mget workspace ''storageId''))
             (stringValue (mget workspace ''ownerUserId'')) of
        Inl err \<Rightarrow> Inl err
      | Inr None \<Rightarrow> Inr None
      | Inr (Some state) \<Rightarrow>
          if bs_RenewalStatus state = ''manual_review'' \<or> currentComputeID \<noteq> [] then Inr (Some state)
          else if bs_AutoRenew state then Inl ErrInvalidWorkspaceBillingState
          else if firstNonEmpty [stringValue (mget workspace ''state''), stringValue (mget workspace ''status'')]
                    \<in> {''suspended'', ''data_deleted'', ''unrecoverable''}
          then Inr (Some state) else Inl ErrInvalidWorkspaceBillingState)"

definition validateWorkspaceBillingState :: "gomap \<Rightarrow> billing_error option" where
  "validateWorkspaceBillingState row =
     (case normalizeWorkspaceBillingStateForWorkspace row row of Inl err \<Rightarrow> Some err | Inr _ \<Rightarrow> None)"

section \<open>Records\<close>

definition state_record :: "billing_state \<Rightarrow> (string \<times> goval) list" where
  "state_record s =
     (if bs_ResourceBillingEnabled s = Some False then
        [(''resourceBillingEnabled'', GBool False), (''autoRenew'', GBool False), (''authorizedBy'', GStr []), (''authorizedAt'', GStr []),
         (''packageId'', GStr (bs_PackageID s)), (''storageGb'', GInt KInt64 (bs_StorageGB s)), (''priceVersion'', GStr (bs_PriceVersion s)),
         (''currency'', GStr (bs_Currency s)), (''billingUnit'', GStr (bs_BillingUnit s)), (''computeUsdMicros'', GInt KInt64 0),
         (''storageUsdMicros'', GInt KInt64 0), (''totalUsdMicros'', GInt KInt64 0), (''periodStart'', GStr (bs_PeriodStart s)),
         (''paidThrough'', GStr (bs_PaidThrough s)), (''nextRenewalAt'', GStr (bs_NextRenewalAt s)),
         (''billingAnchorDay'', GInt KInt64 (bs_BillingAnchorDay s)), (''renewalStatus'', GStr workspaceBillingNotApplicable),
         (''computeAllocationId'', GStr (bs_ComputeAllocationID s)), (''storageId'', GStr (bs_StorageID s))]
      else if bs_RenewalStatus s = ''manual_review'' then
        [(''autoRenew'', GBool False), (''renewalStatus'', GStr (bs_RenewalStatus s)), (''manualReviewReason'', GStr (bs_ManualReviewReason s))]
      else
        [(''autoRenew'', GBool (bs_AutoRenew s)), (''authorizedBy'', GStr (bs_AuthorizedBy s)), (''authorizedAt'', GStr (bs_AuthorizedAt s)),
         (''packageId'', GStr (bs_PackageID s)), (''storageGb'', GInt KInt64 (bs_StorageGB s)), (''priceVersion'', GStr (bs_PriceVersion s)),
         (''currency'', GStr (bs_Currency s)), (''billingUnit'', GStr (bs_BillingUnit s)), (''computeUsdMicros'', GInt KInt64 (bs_ComputeUSDMicros s)),
         (''storageUsdMicros'', GInt KInt64 (bs_StorageUSDMicros s)), (''totalUsdMicros'', GInt KInt64 (bs_TotalUSDMicros s)),
         (''periodStart'', GStr (bs_PeriodStart s)), (''paidThrough'', GStr (bs_PaidThrough s)), (''nextRenewalAt'', GStr (bs_NextRenewalAt s)),
         (''billingAnchorDay'', GInt KInt64 (bs_BillingAnchorDay s)), (''renewalStatus'', GStr (bs_RenewalStatus s)),
         (''computeAllocationId'', GStr (bs_ComputeAllocationID s)), (''storageId'', GStr (bs_StorageID s))])"

text \<open>
  JSON texts: of a map, of a state (every field but the review's reason; an absent flag is omitted), the keys
  of an object, a map with its numbers as floats, and a state without unknown fields. Each reader refuses
  trailing data.
\<close>

record billing_codec =
  bj_marshal_map :: "gomap \<Rightarrow> string"
  bj_marshal_state :: "billing_state \<Rightarrow> string"
  bj_shape :: "string \<Rightarrow> string list option"
  bj_map :: "string \<Rightarrow> gomap option"
  bj_state :: "string \<Rightarrow> billing_state option"

definition encodeWorkspaceBillingState :: "billing_codec \<Rightarrow> gomap \<Rightarrow> billing_error + string" where
  "encodeWorkspaceBillingState bj row =
     (case normalizeWorkspaceBillingStateForWorkspace row row of
        Inl err \<Rightarrow> Inl err
      | Inr None \<Rightarrow> Inr ''{}''
      | Inr (Some state) \<Rightarrow>
          if bs_RenewalStatus state = ''manual_review'' then Inr (bj_marshal_map bj (Some (state_record state)))
          else Inr (bj_marshal_state bj state))"

definition record_of :: "billing_error + billing_state option \<Rightarrow> billing_error + gomap" where
  "record_of r =
     (case r of
        Inl err \<Rightarrow> Inl err
      | Inr None \<Rightarrow> Inr (Some (state_record zero_state))
      | Inr (Some state) \<Rightarrow> Inr (Some (state_record state)))"

definition decodeWorkspaceBillingState :: "billing_codec \<Rightarrow> string \<Rightarrow> gomap \<Rightarrow> billing_error + gomap" where
  "decodeWorkspaceBillingState bj encoded workspace =
     (if blank encoded then Inl ErrInvalidWorkspaceBillingState
      else if trim_space encoded = ''{}'' then Inr None
      else
        (case bj_shape bj encoded of
           None \<Rightarrow> Inl ErrInvalidWorkspaceBillingState
         | Some shape \<Rightarrow>
             if length shape = 3 \<and> {''autoRenew'', ''renewalStatus'', ''manualReviewReason''} \<subseteq> set shape then
               (case bj_map bj encoded of
                  None \<Rightarrow> Inl ErrInvalidWorkspaceBillingState
                | Some marker \<Rightarrow> record_of (normalizeWorkspaceBillingState marker [] [] []))
             else if \<not> set workspaceBillingStateRequiredKeys \<subseteq> set shape then Inl ErrInvalidWorkspaceBillingState
             else if \<not> set shape \<subseteq> insert ''resourceBillingEnabled'' (set workspaceBillingStateRequiredKeys)
             then Inl ErrInvalidWorkspaceBillingState
             else
               (case bj_state bj encoded of
                  None \<Rightarrow> Inl ErrInvalidWorkspaceBillingState
                | Some state \<Rightarrow> record_of (normalizeWorkspaceBillingStateForWorkspace (Some (state_record state)) workspace))))"

section \<open>Saving a row\<close>

definition workspaceAcceptedBillingState :: "gomap \<Rightarrow> (string \<times> goval) list option" where
  "workspaceAcceptedBillingState row =
     (case normalizeWorkspaceBillingStateForWorkspace row row of
        Inr (Some state) \<Rightarrow> if bs_RenewalStatus state = ''active'' then Some (state_record state) else None
      | _ \<Rightarrow> None)"

definition workspaceLifecycleInactive :: "gomap \<Rightarrow> bool" where
  "workspaceLifecycleInactive row \<longleftrightarrow>
     firstNonEmpty [stringValue (mget row ''state''), stringValue (mget row ''status'')]
       \<in> {''suspended'', ''stopped'', ''data_deleted'', ''unrecoverable'', ''storage_missing'', ''destroyed''}"

definition put_fields :: "gomap \<Rightarrow> (string \<times> goval) list \<Rightarrow> gomap" where
  "put_fields row fs = fold (\<lambda>(k, v) row. mset_key row k v) fs row"

definition owner_fields :: "string list" where
  "owner_fields = [''accountId'', ''ownerAccountId'', ''ownerUserId'']"

definition owner_kept :: "gomap \<Rightarrow> gomap \<Rightarrow> bool" where
  "owner_kept existing row \<longleftrightarrow>
     list_all (\<lambda>key. stringValue (mget existing key) = [] \<or> stringValue (mget row key) = stringValue (mget existing key)) owner_fields"

definition lifecycle_fields :: "string list" where
  "lifecycle_fields = [''state'', ''status'', ''currentComputeAllocationId'', ''currentAttachmentId'']"

definition mergeWorkspaceForSave :: "gomap \<Rightarrow> gomap \<Rightarrow> billing_error + gomap" where
  "mergeWorkspaceForSave existing incoming =
     (let row = cloneMap incoming in
      if existing = None then Inr row
      else if \<not> owner_kept existing row then Inl ErrBillingIdempotencyConflict
      else
        (let existingBilling = workspaceAcceptedBillingState existing; incomingBilling = workspaceAcceptedBillingState row in
         if (case (existingBilling, incomingBilling) of
               (Some e, Some i) \<Rightarrow> list_ex (\<lambda>key. mget (Some e) key \<noteq> mget (Some i) key)
                 [''computeAllocationId'', ''storageId'', ''packageId'', ''priceVersion'']
             | _ \<Rightarrow> False) then Inl ErrBillingIdempotencyConflict
         else if mget existing ''autoRenew'' = GBool False \<and> mget row ''autoRenew'' = GBool True \<and> existingBilling = None
         then Inl ErrBillingIdempotencyConflict
         else
           (let row = (if mget existing ''autoRenew'' = GBool False \<and> mget row ''autoRenew'' = GBool True
                       then put_fields row (the existingBilling) else row)
            in if \<not> workspaceLifecycleInactive existing \<or> workspaceLifecycleInactive row then Inr row
               else
                 (let row = put_fields row (map (\<lambda>key. (key, mget existing key)) lifecycle_fields)
                  in Inr (case existingBilling of None \<Rightarrow> row | Some e \<Rightarrow> put_fields row e)))))"

section \<open>Accepted states\<close>

lemma guard_that_iff [simp]: "guard_that b = Some u \<longleftrightarrow> b"
  by (simp add: guard_that_def)

lemma required_positive_iff: "required_positive row key = Some i \<longleftrightarrow> requiredPositiveInteger row key = (i, True)"
  by (auto simp: required_positive_def split: prod.splits)

lemma required_positive_int64:
  "mget row key = GInt KInt64 i \<Longrightarrow> 0 < i \<Longrightarrow> required_positive row key = Some i"
  by (simp add: required_positive_def requiredPositiveInteger_def requiredNonNegativeInteger_def)

lemma required_positive_pos: "required_positive row key = Some i \<Longrightarrow> 0 < i"
  by (simp add: required_positive_iff requiredPositiveInteger_pos)

lemma billing_times_Some:
  "billing_times row = Some (s, p, n) \<longleftrightarrow>
     (\<exists>st pt nt. mget row ''periodStart'' = GStr st \<and> mget row ''paidThrough'' = GStr pt \<and> mget row ''nextRenewalAt'' = GStr nt \<and>
       rfc3339_parse st = Some s \<and> rfc3339_parse pt = Some p \<and> rfc3339_parse nt = Some n \<and>
       inst s < inst p \<and> inst n = inst p - day_ns)"
  by (auto simp: billing_times_def bind_eq_Some_conv t_after_def t_equal_def t_add_def split: if_splits)

lemmas normalize_paid_facts = normalize_paid_state_def bind_eq_Some_conv

text \<open>What an accepted billed state says, in terms of its fields.\<close>

definition paid_state_ok :: "string \<Rightarrow> string \<Rightarrow> string \<Rightarrow> billing_state \<Rightarrow> bool" where
  "paid_state_ok computeID storageID ownerID s \<longleftrightarrow>
     bs_ResourceBillingEnabled s = Some True \<and> bs_ManualReviewReason s = [] \<and>
     0 < bs_StorageGB s \<and> 0 < bs_ComputeUSDMicros s \<and> 0 < bs_StorageUSDMicros s \<and> 0 < bs_TotalUSDMicros s \<and>
     checkedAddInt64 (bs_ComputeUSDMicros s) (bs_StorageUSDMicros s) = Some (bs_TotalUSDMicros s) \<and>
     0 < bs_BillingAnchorDay s \<and> bs_BillingAnchorDay s \<le> 31 \<and>
     paid_price_ok (bs_PackageID s) (bs_PriceVersion s) (bs_Currency s) (bs_BillingUnit s) \<and>
     paid_resources_ok (bs_RenewalStatus s) (bs_ComputeAllocationID s) (bs_StorageID s) computeID storageID \<and>
     \<not> (bs_RenewalStatus s = ''expired_unpaid'' \<and> bs_AutoRenew s) \<and>
     authorization_ok (bs_AutoRenew s) (bs_AuthorizedBy s) (bs_AuthorizedAt s) ownerID"

lemma utc_text_ne: "utc_text t \<noteq> []"
  by (simp add: utc_text_def rfc3339_nano_def Let_def zone_text_def split: prod.splits)

lemma authorization_utc: "authorized_utc at0 = Some at1 \<Longrightarrow> authorization_ok a b at1 own = authorization_ok a b at0 own"
  by (auto simp: authorized_utc_def authorization_ok_def utc_text_ne split: if_splits)

lemma paid_state_facts:
  assumes "normalize_paid_state row c st own = Some s"
  shows "paid_state_ok c st own s \<and>
    (\<exists>a p n. billing_times row = Some (a, p, n) \<and> bs_PeriodStart s = utc_text a \<and> bs_PaidThrough s = utc_text p \<and> bs_NextRenewalAt s = utc_text n) \<and>
    authorized_utc (stringValue (mget row ''authorizedAt'')) = Some (bs_AuthorizedAt s)"
  using assms unfolding normalize_paid_facts
  by (elim exE conjE, simp split: prod.splits, clarsimp simp: bind_eq_Some_conv paid_state_ok_def authorization_utc required_positive_pos)

text \<open>A billed state is read back from its record.\<close>

definition utc_readable :: "string \<Rightarrow> bool" where
  "utc_readable s = (case rfc3339_parse s of None \<Rightarrow> True | Some t \<Rightarrow> 0 \<le> t_year (t_utc t) \<and> t_year (t_utc t) \<le> 9999)"

lemma parse_utc_text: "0 \<le> t_year (t_utc t) \<Longrightarrow> t_year (t_utc t) \<le> 9999 \<Longrightarrow> rfc3339_parse (utc_text t) = Some (t_utc t)"
  unfolding utc_text_def by (rule rfc3339_nano_round_trip) (simp_all add: t_utc_def)

lemma utc_text_utc [simp]: "utc_text (t_utc t) = utc_text t"
  by (simp add: utc_text_def t_utc_def)

lemma paid_record_get:
  assumes "bs_ResourceBillingEnabled s \<noteq> Some False" "bs_RenewalStatus s \<noteq> ''manual_review''"
  shows "mget (Some (state_record s)) ''autoRenew'' = GBool (bs_AutoRenew s)"
    "mget (Some (state_record s)) ''authorizedBy'' = GStr (bs_AuthorizedBy s)"
    "mget (Some (state_record s)) ''authorizedAt'' = GStr (bs_AuthorizedAt s)"
    "mget (Some (state_record s)) ''packageId'' = GStr (bs_PackageID s)"
    "mget (Some (state_record s)) ''storageGb'' = GInt KInt64 (bs_StorageGB s)"
    "mget (Some (state_record s)) ''priceVersion'' = GStr (bs_PriceVersion s)"
    "mget (Some (state_record s)) ''currency'' = GStr (bs_Currency s)"
    "mget (Some (state_record s)) ''billingUnit'' = GStr (bs_BillingUnit s)"
    "mget (Some (state_record s)) ''computeUsdMicros'' = GInt KInt64 (bs_ComputeUSDMicros s)"
    "mget (Some (state_record s)) ''storageUsdMicros'' = GInt KInt64 (bs_StorageUSDMicros s)"
    "mget (Some (state_record s)) ''totalUsdMicros'' = GInt KInt64 (bs_TotalUSDMicros s)"
    "mget (Some (state_record s)) ''periodStart'' = GStr (bs_PeriodStart s)"
    "mget (Some (state_record s)) ''paidThrough'' = GStr (bs_PaidThrough s)"
    "mget (Some (state_record s)) ''nextRenewalAt'' = GStr (bs_NextRenewalAt s)"
    "mget (Some (state_record s)) ''billingAnchorDay'' = GInt KInt64 (bs_BillingAnchorDay s)"
    "mget (Some (state_record s)) ''renewalStatus'' = GStr (bs_RenewalStatus s)"
    "mget (Some (state_record s)) ''computeAllocationId'' = GStr (bs_ComputeAllocationID s)"
    "mget (Some (state_record s)) ''storageId'' = GStr (bs_StorageID s)"
    "\<not> mhas (Some (state_record s)) ''manualReviewReason''" "\<not> mhas (Some (state_record s)) ''resourceBillingEnabled''"
    "list_all (mhas (Some (state_record s))) workspaceBillingStateRequiredKeys"
  using assms by (simp_all add: state_record_def mget_def mhas_def workspaceBillingStateRequiredKeys_def)

lemma paid_record_normal:
  assumes ok: "paid_state_ok c st own s" and times: "bs_PeriodStart s = utc_text a" "bs_PaidThrough s = utc_text p" "bs_NextRenewalAt s = utc_text n"
    and order: "inst a < inst p" "inst n = inst p - day_ns"
    and years: "\<forall>t \<in> {a, p, n}. 0 \<le> t_year (t_utc t) \<and> t_year (t_utc t) \<le> 9999"
    and auth: "authorized_utc (bs_AuthorizedAt s) = Some (bs_AuthorizedAt s)"
  shows "normalize_paid_state (Some (state_record s)) c st own = Some s"
proof -
  have st: "bs_ResourceBillingEnabled s \<noteq> Some False" "bs_RenewalStatus s \<noteq> ''manual_review''"
    using ok by (auto simp: paid_state_ok_def paid_resources_ok_def)
  note g = paid_record_get [OF st]
  have bt: "billing_times (Some (state_record s)) = Some (t_utc a, t_utc p, t_utc n)"
    using times order years by (auto simp: billing_times_Some g parse_utc_text t_utc_def)
  note req = required_positive_int64 [OF g(5)] required_positive_int64 [OF g(9)] required_positive_int64 [OF g(10)]
    required_positive_int64 [OF g(11)] required_positive_int64 [OF g(15)]
  show ?thesis
    using ok auth times
    by (simp add: normalize_paid_state_def g bt req guard_that_def paid_state_ok_def)
qed

text \<open>The same for a workspace that is not billed.\<close>

lemma required_nonneg_facts:
  assumes "requiredNonNegativeWorkspaceInteger row key = Some i"
  shows "0 \<le> i" "i \<le> max_json_safe"
proof -
  obtain v ok where p: "positiveIntegerField row key = (v, ok)" by fastforce
  with assms have "ok \<and> i = v \<or> i = 0" by (auto simp: requiredNonNegativeWorkspaceInteger_def split: if_splits)
  with positiveIntegerField_sound [of row key v] p show "0 \<le> i" "i \<le> max_json_safe" by (auto simp: max_json_safe_def)
qed

lemma required_nonneg_int64:
  assumes "mget row key = GInt KInt64 i" "0 \<le> i" "i \<le> max_json_safe"
  shows "requiredNonNegativeWorkspaceInteger row key = Some i"
proof -
  have "float_of_int i = Fin (of_int i)" using assms(2,3) by (simp add: float_of_int_def round53_exact max_json_safe_def)
  with assms show ?thesis
    by (auto simp: requiredNonNegativeWorkspaceInteger_def positiveIntegerField_def numberField_def maxJSONSafeInteger_def float_le_def
        int64_of_float_of_int int64_defs max_json_safe_def)
qed

text \<open>What an accepted state of a workspace that is not billed says.\<close>

definition free_state_ok :: "string \<Rightarrow> string \<Rightarrow> billing_state \<Rightarrow> bool" where
  "free_state_ok computeID storageID s \<longleftrightarrow>
     0 \<le> bs_StorageGB s \<and> bs_StorageGB s \<le> max_json_safe \<and> 0 \<le> bs_BillingAnchorDay s \<and> bs_BillingAnchorDay s \<le> 31 \<and>
     \<not> blank (bs_PackageID s) \<and> \<not> blank (bs_PriceVersion s) \<and> \<not> blank (bs_ComputeAllocationID s) \<and> \<not> blank (bs_StorageID s) \<and>
     (computeID = [] \<or> bs_ComputeAllocationID s = computeID) \<and> (storageID = [] \<or> bs_StorageID s = storageID) \<and>
     bs_ResourceBillingEnabled s = Some False \<and> \<not> bs_AutoRenew s \<and> bs_AuthorizedBy s = [] \<and> bs_AuthorizedAt s = [] \<and>
     bs_Currency s = pricingCurrency \<and> bs_BillingUnit s = pricingBillingUnit \<and>
     bs_ComputeUSDMicros s = 0 \<and> bs_StorageUSDMicros s = 0 \<and> bs_TotalUSDMicros s = 0 \<and>
     bs_RenewalStatus s = workspaceBillingNotApplicable \<and> bs_ManualReviewReason s = []"

lemma free_state_facts:
  assumes "normalizeWorkspaceNonBillingState row c st = Some s"
  shows "free_state_ok c st s \<and>
    (\<exists>a p n. billing_times row = Some (a, p, n) \<and> bs_PeriodStart s = utc_text a \<and> bs_PaidThrough s = utc_text p \<and> bs_NextRenewalAt s = utc_text n)"
  using assms unfolding normalizeWorkspaceNonBillingState_def bind_eq_Some_conv
  by (elim exE conjE, simp split: prod.splits, clarsimp simp: bind_eq_Some_conv free_state_ok_def required_nonneg_facts zero_state_def)

lemma free_record_get:
  assumes "bs_ResourceBillingEnabled s = Some False"
  shows "mget (Some (state_record s)) ''autoRenew'' = GBool False"
    "mget (Some (state_record s)) ''resourceBillingEnabled'' = GBool False"
    "mget (Some (state_record s)) ''authorizedBy'' = GStr []"
    "mget (Some (state_record s)) ''authorizedAt'' = GStr []"
    "mget (Some (state_record s)) ''packageId'' = GStr (bs_PackageID s)"
    "mget (Some (state_record s)) ''storageGb'' = GInt KInt64 (bs_StorageGB s)"
    "mget (Some (state_record s)) ''priceVersion'' = GStr (bs_PriceVersion s)"
    "mget (Some (state_record s)) ''currency'' = GStr (bs_Currency s)"
    "mget (Some (state_record s)) ''billingUnit'' = GStr (bs_BillingUnit s)"
    "mget (Some (state_record s)) ''computeUsdMicros'' = GInt KInt64 0"
    "mget (Some (state_record s)) ''storageUsdMicros'' = GInt KInt64 0"
    "mget (Some (state_record s)) ''totalUsdMicros'' = GInt KInt64 0"
    "mget (Some (state_record s)) ''periodStart'' = GStr (bs_PeriodStart s)"
    "mget (Some (state_record s)) ''paidThrough'' = GStr (bs_PaidThrough s)"
    "mget (Some (state_record s)) ''nextRenewalAt'' = GStr (bs_NextRenewalAt s)"
    "mget (Some (state_record s)) ''billingAnchorDay'' = GInt KInt64 (bs_BillingAnchorDay s)"
    "mget (Some (state_record s)) ''renewalStatus'' = GStr workspaceBillingNotApplicable"
    "mget (Some (state_record s)) ''computeAllocationId'' = GStr (bs_ComputeAllocationID s)"
    "mget (Some (state_record s)) ''storageId'' = GStr (bs_StorageID s)"
    "mhas (Some (state_record s)) ''resourceBillingEnabled''"
    "list_all (mhas (Some (state_record s))) workspaceBillingStateRequiredKeys"
  using assms by (simp_all add: state_record_def mget_def mhas_def workspaceBillingStateRequiredKeys_def)

lemma free_record_normal:
  assumes ok: "free_state_ok c st s" and times: "bs_PeriodStart s = utc_text a" "bs_PaidThrough s = utc_text p" "bs_NextRenewalAt s = utc_text n"
    and order: "inst a < inst p" "inst n = inst p - day_ns"
    and years: "\<forall>t \<in> {a, p, n}. 0 \<le> t_year (t_utc t) \<and> t_year (t_utc t) \<le> 9999"
  shows "normalizeWorkspaceNonBillingState (Some (state_record s)) c st = Some s"
proof -
  have f: "bs_ResourceBillingEnabled s = Some False" "bs_Currency s = pricingCurrency" "bs_BillingUnit s = pricingBillingUnit"
    using ok by (simp_all add: free_state_ok_def)
  note g = free_record_get [OF f(1)]
  have bt: "billing_times (Some (state_record s)) = Some (t_utc a, t_utc p, t_utc n)"
    using times order years by (auto simp: billing_times_Some g parse_utc_text t_utc_def)
  have bounds: "0 \<le> bs_StorageGB s" "bs_StorageGB s \<le> max_json_safe" "0 \<le> bs_BillingAnchorDay s" "bs_BillingAnchorDay s \<le> 31"
    using ok by (simp_all add: free_state_ok_def)
  then have anchor: "bs_BillingAnchorDay s \<le> max_json_safe" by (simp add: max_json_safe_def)
  have zero: "(0::int) \<le> max_json_safe" by (simp add: max_json_safe_def)
  note req = required_nonneg_int64 [OF g(6) bounds(1,2)] required_nonneg_int64 [OF g(10) order.refl zero] required_nonneg_int64 [OF g(11) order.refl zero]
    required_nonneg_int64 [OF g(12) order.refl zero] required_nonneg_int64 [OF g(16) bounds(3) anchor]
  show ?thesis
    using ok by (simp add: normalizeWorkspaceNonBillingState_def g bt req guard_that_def times free_state_ok_def zero_state_def)
qed

section \<open>Storing a state\<close>

lemma of_state_Some [simp]: "of_state x = Inr (Some s) \<longleftrightarrow> x = Some s"
  by (auto simp: of_state_def split: option.splits)

lemma of_state_None [simp]: "of_state x \<noteq> Inr None"
  by (auto simp: of_state_def split: option.splits)

lemma manual_review_Some: "manual_review_state row = Some s \<Longrightarrow>
    s = zero_state\<lparr>bs_RenewalStatus := ''manual_review'', bs_ManualReviewReason := workspaceBillingLegacyMismatch\<rparr>"
  unfolding manual_review_state_def by (simp only: split: if_splits) simp_all

lemma normalize_cases:
  assumes "normalizeWorkspaceBillingState row c st own = Inr (Some s)"
  obtains (review) "s = zero_state\<lparr>bs_RenewalStatus := ''manual_review'', bs_ManualReviewReason := workspaceBillingLegacyMismatch\<rparr>"
  | (free) "normalizeWorkspaceNonBillingState row c st = Some s"
  | (paid) "normalize_paid_state row c st own = Some s"
  using assms manual_review_Some [of row s] unfolding normalizeWorkspaceBillingState_def
  by (simp split: if_splits option.splits bool.splits)

definition times_readable :: "gomap \<Rightarrow> bool" where
  "times_readable row \<longleftrightarrow> list_all (\<lambda>k. utc_readable (stringValue (mget row k))) [''periodStart'', ''paidThrough'', ''nextRenewalAt'', ''authorizedAt'']"

lemma readable_times:
  assumes "times_readable row" "billing_times row = Some (a, p, n)"
  shows "\<forall>t \<in> {a, p, n}. 0 \<le> t_year (t_utc t) \<and> t_year (t_utc t) \<le> 9999"
  using assms by (auto simp: times_readable_def billing_times_Some utc_readable_def)

lemma authorized_again:
  assumes "utc_readable at0" "authorized_utc at0 = Some at1"
  shows "authorized_utc at1 = Some at1"
  using assms by (auto simp: authorized_utc_def utc_readable_def parse_utc_text utc_text_ne split: if_splits)

text \<open>The record of an accepted state is accepted as the same state.\<close>

lemma normal_record:
  assumes "normalizeWorkspaceBillingState row c st own = Inr (Some s)" "bs_RenewalStatus s \<noteq> ''manual_review''" "times_readable row"
  shows "normalizeWorkspaceBillingState (Some (state_record s)) c st own = Inr (Some s)"
  using assms(1)
proof (cases rule: normalize_cases)
  case review
  with assms(2) show ?thesis by simp
next
  case free
  from free_state_facts [OF free] obtain a p n where f: "free_state_ok c st s" "billing_times row = Some (a, p, n)"
    "bs_PeriodStart s = utc_text a" "bs_PaidThrough s = utc_text p" "bs_NextRenewalAt s = utc_text n" by blast
  from f(2) have "inst a < inst p" "inst n = inst p - day_ns" by (auto simp: billing_times_Some)
  from free_record_normal [OF f(1,3-5) this readable_times [OF assms(3) f(2)]] have n: "normalizeWorkspaceNonBillingState (Some (state_record s)) c st = Some s" .
  have rb: "bs_ResourceBillingEnabled s = Some False" using f(1) by (simp add: free_state_ok_def)
  have "mhas (Some (state_record s)) ''renewalStatus''" using free_record_get(21) [OF rb] by (simp add: workspaceBillingStateRequiredKeys_def)
  with n show ?thesis
    using free_record_get(2,17,20) [OF rb] by (simp add: normalizeWorkspaceBillingState_def workspaceBillingNotApplicable_def)
next
  case paid
  from paid_state_facts [OF paid] obtain a p n where f: "paid_state_ok c st own s" "billing_times row = Some (a, p, n)"
    "bs_PeriodStart s = utc_text a" "bs_PaidThrough s = utc_text p" "bs_NextRenewalAt s = utc_text n"
    "authorized_utc (stringValue (mget row ''authorizedAt'')) = Some (bs_AuthorizedAt s)" by blast
  from f(2) have o: "inst a < inst p" "inst n = inst p - day_ns" by (auto simp: billing_times_Some)
  have "authorized_utc (bs_AuthorizedAt s) = Some (bs_AuthorizedAt s)"
    using authorized_again [OF _ f(6)] assms(3) by (simp add: times_readable_def)
  from paid_record_normal [OF f(1,3-5) o readable_times [OF assms(3) f(2)] this] have n: "normalize_paid_state (Some (state_record s)) c st own = Some s" .
  have rb: "bs_ResourceBillingEnabled s \<noteq> Some False" using f(1) by (simp add: paid_state_ok_def)
  have "mhas (Some (state_record s)) ''renewalStatus''" using paid_record_get(21) [OF rb assms(2)] by (simp add: workspaceBillingStateRequiredKeys_def)
  with n show ?thesis
    using paid_record_get(16,20) [OF rb assms(2)] assms(2) by (simp add: normalizeWorkspaceBillingState_def)
qed

text \<open>
  What the JSON texts guarantee: a state and a map of texts and flags are read back, their keys are those that
  were written, and a text that is not the empty object is told apart from it.
\<close>

definition flat_map :: "(string \<times> goval) list \<Rightarrow> bool" where
  "flat_map kvs \<longleftrightarrow> kvs \<noteq> [] \<and> distinct (map fst kvs) \<and> list_all (\<lambda>(k, v). as_str v \<noteq> None \<or> as_bool v \<noteq> None) kvs"

definition state_keys :: "billing_state \<Rightarrow> string list" where
  "state_keys s = (if bs_ResourceBillingEnabled s = None then [] else [''resourceBillingEnabled'']) @ workspaceBillingStateRequiredKeys"

definition nonempty_object :: "string \<Rightarrow> bool" where
  "nonempty_object s \<longleftrightarrow> \<not> blank s \<and> trim_space s \<noteq> ''{}''"

definition billing_codec_ok :: "billing_codec \<Rightarrow> bool" where
  "billing_codec_ok bj \<longleftrightarrow>
     (\<forall>s. nonempty_object (bj_marshal_state bj s) \<and> bj_shape bj (bj_marshal_state bj s) = Some (state_keys s) \<and>
        bj_state bj (bj_marshal_state bj s) = Some (s\<lparr>bs_ManualReviewReason := []\<rparr>)) \<and>
     (\<forall>kvs. flat_map kvs \<longrightarrow> nonempty_object (bj_marshal_map bj (Some kvs)) \<and> bj_shape bj (bj_marshal_map bj (Some kvs)) = Some (map fst kvs) \<and>
        bj_map bj (bj_marshal_map bj (Some kvs)) = Some (Some kvs))"

definition review_record :: "(string \<times> goval) list" where
  "review_record = [(''autoRenew'', GBool False), (''renewalStatus'', GStr ''manual_review''), (''manualReviewReason'', GStr workspaceBillingLegacyMismatch)]"

lemma review_state_record:
  "state_record (zero_state\<lparr>bs_RenewalStatus := ''manual_review'', bs_ManualReviewReason := workspaceBillingLegacyMismatch\<rparr>) = review_record"
  by (simp add: state_record_def zero_state_def review_record_def)

lemma review_normal:
  "normalizeWorkspaceBillingState (Some review_record) c st own =
     Inr (Some (zero_state\<lparr>bs_RenewalStatus := ''manual_review'', bs_ManualReviewReason := workspaceBillingLegacyMismatch\<rparr>))"
  by (simp add: normalizeWorkspaceBillingState_def manual_review_state_def review_record_def mhas_def mget_def workspaceBillingStateExclusiveKeys_def)

lemma normalized_reason: "normalizeWorkspaceBillingState row c st own = Inr (Some s) \<Longrightarrow> bs_RenewalStatus s \<noteq> ''manual_review'' \<Longrightarrow>
    bs_ManualReviewReason s = [] \<and> bs_ResourceBillingEnabled s \<noteq> None"
  by (elim normalize_cases; (drule free_state_facts paid_state_facts)?; simp add: free_state_ok_def paid_state_ok_def)

lemma keys_not_marker:
  "\<not> (length (state_keys s) = 3 \<and> {''autoRenew'', ''renewalStatus'', ''manualReviewReason''} \<subseteq> set (state_keys s))"
  by (simp add: state_keys_def workspaceBillingStateRequiredKeys_def)

text \<open>
  C34: a billing state is read back as it was stored. For every row whose state is accepted, with times in years
  of four digits, the text that is stored is decoded, for the same workspace, to the record of the accepted
  state; a row without a billing state is decoded to none.
\<close>

theorem billing_state_round_trip:
  assumes "billing_codec_ok bj" and "encodeWorkspaceBillingState bj row = Inr encoded" and "times_readable row"
  shows "decodeWorkspaceBillingState bj encoded row =
    Inr (case normalizeWorkspaceBillingStateForWorkspace row row of Inr (Some s) \<Rightarrow> Some (state_record s) | _ \<Rightarrow> None)"
proof (cases "normalizeWorkspaceBillingStateForWorkspace row row")
  case (Inr present)
  show ?thesis
  proof (cases present)
    case None
    with assms(2) Inr have "encoded = ''{}''" by (simp add: encodeWorkspaceBillingState_def)
    moreover have "trim_space ''{}'' = ''{}''" "\<not> blank ''{}''" by code_simp+
    ultimately show ?thesis using Inr None by (simp add: decodeWorkspaceBillingState_def)
  next
    case (Some s)
    let ?n = "normalizeWorkspaceBillingState row (stringValue (mget row ''currentComputeAllocationId''))
      (stringValue (mget row ''storageId'')) (stringValue (mget row ''ownerUserId''))"
    have n: "?n = Inr (Some s)"
      using Inr Some by (auto simp: normalizeWorkspaceBillingStateForWorkspace_def Let_def split: sum.splits option.splits if_splits)
    show ?thesis
    proof (cases "bs_RenewalStatus s = ''manual_review''")
      case True
      have "s = zero_state\<lparr>bs_RenewalStatus := ''manual_review'', bs_ManualReviewReason := workspaceBillingLegacyMismatch\<rparr>"
        using n True by (elim normalize_cases)
          (auto dest: free_state_facts paid_state_facts simp: free_state_ok_def paid_state_ok_def paid_resources_ok_def workspaceBillingNotApplicable_def)
      then have e: "encoded = bj_marshal_map bj (Some review_record)" "state_record s = review_record"
        using assms(2) Inr Some True by (simp_all add: encodeWorkspaceBillingState_def review_state_record)
      have "flat_map review_record" by (auto simp: flat_map_def review_record_def)
      with assms(1) have "nonempty_object encoded" "bj_shape bj encoded = Some (map fst review_record)" "bj_map bj encoded = Some (Some review_record)"
        unfolding billing_codec_ok_def e(1) by blast+
      then show ?thesis
        using Inr Some e(2) by (simp add: decodeWorkspaceBillingState_def nonempty_object_def review_normal record_of_def review_state_record)
          (simp add: review_record_def)
    next
      case False
      then have e: "encoded = bj_marshal_state bj s" using assms(2) Inr Some by (simp add: encodeWorkspaceBillingState_def)
      have c: "nonempty_object encoded" "bj_shape bj encoded = Some (state_keys s)" "bj_state bj encoded = Some s"
        using assms(1) normalized_reason [OF n False] unfolding billing_codec_ok_def e by simp_all
      have keys: "set workspaceBillingStateRequiredKeys \<subseteq> set (state_keys s)"
        "set (state_keys s) \<subseteq> insert ''resourceBillingEnabled'' (set workspaceBillingStateRequiredKeys)"
        by (auto simp: state_keys_def)
      have "normalizeWorkspaceBillingStateForWorkspace (Some (state_record s)) row = Inr (Some s)"
        using Inr Some normal_record [OF n False assms(3)] n
        by (simp add: normalizeWorkspaceBillingStateForWorkspace_def Let_def)
      then show ?thesis
        using c keys keys_not_marker [of s] Inr Some
        by (simp only: decodeWorkspaceBillingState_def nonempty_object_def record_of_def if_False option.case sum.case simp_thms)
    qed
  qed
next
  case (Inl err)
  with assms(2) show ?thesis by (simp add: encodeWorkspaceBillingState_def)
qed

section \<open>What an accepted state says\<close>

lemma checked_sum:
  assumes "checkedAddInt64 a b = Some c" "in_int64 a" "in_int64 b" "0 < a" "0 < b"
  shows "c = a + b" "c \<le> max_int64"
proof -
  have "in_int64 (max_int64 - b)" using assms(3,5) by (simp add: int64_defs)
  then have "wrap64 (max_int64 - b) = max_int64 - b" by (rule wrap64_id)
  with assms have le: "a + b \<le> max_int64" "c = wrap64 (a + b)" by (auto simp: checkedAddInt64_def split: if_splits)
  moreover from le(1) assms(4,5) have "in_int64 (a + b)" by (simp add: int64_defs)
  ultimately show "c = a + b" "c \<le> max_int64" by (simp_all add: wrap64_id)
qed

lemma for_workspace_Some:
  assumes "normalizeWorkspaceBillingStateForWorkspace row ws = Inr (Some s)"
  shows "normalizeWorkspaceBillingState row (stringValue (mget ws ''currentComputeAllocationId'')) (stringValue (mget ws ''storageId''))
      (stringValue (mget ws ''ownerUserId'')) = Inr (Some s)"
    and "bs_AutoRenew s \<Longrightarrow> bs_RenewalStatus s \<noteq> ''manual_review'' \<Longrightarrow> stringValue (mget ws ''currentComputeAllocationId'') \<noteq> []"
  using assms unfolding normalizeWorkspaceBillingStateForWorkspace_def Let_def
  by (simp_all split: sum.splits option.splits if_splits)

text \<open>
  C35: what an accepted billing state says. The charges of a billed workspace are positive and its total is their
  exact sum, within 64 bits; the anchor is a day of a month; the paid period is not empty and the renewal is due
  exactly a day before its end; and automatic renewal is only on for an active workspace with a compute
  allocation, authorized by its owner.
\<close>

theorem accepted_billing_state_is_sound:
  assumes "normalizeWorkspaceBillingStateForWorkspace row row = Inr (Some s)" and "bs_ResourceBillingEnabled s = Some True"
    and "in_int64 (bs_ComputeUSDMicros s)" and "in_int64 (bs_StorageUSDMicros s)"
  shows "0 < bs_ComputeUSDMicros s \<and> 0 < bs_StorageUSDMicros s \<and> bs_TotalUSDMicros s = bs_ComputeUSDMicros s + bs_StorageUSDMicros s \<and>
    bs_TotalUSDMicros s \<le> max_int64 \<and> 1 \<le> bs_BillingAnchorDay s \<and> bs_BillingAnchorDay s \<le> 31 \<and>
    (\<exists>start paid due. rfc3339_parse (stringValue (mget row ''periodStart'')) = Some start \<and>
       rfc3339_parse (stringValue (mget row ''paidThrough'')) = Some paid \<and> rfc3339_parse (stringValue (mget row ''nextRenewalAt'')) = Some due \<and>
       inst start < inst paid \<and> inst due = inst paid - day_ns \<and> bs_PaidThrough s = utc_text paid) \<and>
    (\<not> bs_AutoRenew s \<or> bs_RenewalStatus s = ''active'' \<and> bs_AuthorizedBy s = stringValue (mget row ''ownerUserId'') \<and>
       stringValue (mget row ''currentComputeAllocationId'') \<noteq> [])"
proof -
  note w = for_workspace_Some [OF assms(1)]
  from w(1) assms(2) have "normalize_paid_state row (stringValue (mget row ''currentComputeAllocationId'')) (stringValue (mget row ''storageId''))
      (stringValue (mget row ''ownerUserId'')) = Some s"
    by (cases rule: normalize_cases) (auto dest!: free_state_facts simp: free_state_ok_def zero_state_def)
  from paid_state_facts [OF this] obtain a p n where f:
    "paid_state_ok (stringValue (mget row ''currentComputeAllocationId'')) (stringValue (mget row ''storageId'')) (stringValue (mget row ''ownerUserId'')) s"
    "billing_times row = Some (a, p, n)" "bs_PaidThrough s = utc_text p" by blast
  from f(1) have ok: "0 < bs_ComputeUSDMicros s" "0 < bs_StorageUSDMicros s" "0 < bs_BillingAnchorDay s" "bs_BillingAnchorDay s \<le> 31"
    "checkedAddInt64 (bs_ComputeUSDMicros s) (bs_StorageUSDMicros s) = Some (bs_TotalUSDMicros s)"
    "bs_AutoRenew s \<Longrightarrow> bs_RenewalStatus s = ''active'' \<and> bs_AuthorizedBy s = stringValue (mget row ''ownerUserId'')"
    by (auto simp: paid_state_ok_def paid_resources_ok_def authorization_ok_def)
  note c = checked_sum [OF ok(5) assms(3,4) ok(1,2)]
  from f(2) have t: "rfc3339_parse (stringValue (mget row ''periodStart'')) = Some a" "rfc3339_parse (stringValue (mget row ''paidThrough'')) = Some p"
    "rfc3339_parse (stringValue (mget row ''nextRenewalAt'')) = Some n" "inst a < inst p" "inst n = inst p - day_ns"
    by (auto simp: billing_times_Some)
  have "bs_AutoRenew s \<Longrightarrow> stringValue (mget row ''currentComputeAllocationId'') \<noteq> []" using w(2) ok(6) by simp
  with ok c t f(3) show ?thesis by auto
qed

lemma put_fields_get: "mget (put_fields row fs) k = (case map_of (rev fs) k of Some v \<Rightarrow> v | None \<Rightarrow> mget row k)"
proof (induction fs arbitrary: row)
  case (Cons f fs)
  obtain a v where f: "f = (a, v)" by (cases f)
  show ?case
  proof (cases "map_of (rev fs) k")
    case None
    with Cons.IH show ?thesis by (cases "a = k") (simp_all add: put_fields_def f map_add_def)
  next
    case (Some w)
    with Cons.IH show ?thesis by (simp add: put_fields_def f map_add_def)
  qed
qed (simp add: put_fields_def)

lemma put_fields_other: "k \<notin> fst ` set fs \<Longrightarrow> mget (put_fields row fs) k = mget row k"
  by (simp add: put_fields_get map_of_eq_None_iff split: option.splits) (metis map_of_eq_None_iff option.distinct(1) rev_swap set_rev)


lemma state_record_keys:
  assumes "map_of (state_record s) k \<noteq> None"
  shows "k \<notin> set owner_fields" "k \<notin> set lifecycle_fields"
  using assms by (auto simp: state_record_def owner_fields_def lifecycle_fields_def split: if_splits)

lemma accepted_Some:
  assumes "workspaceAcceptedBillingState row = Some e"
  shows "\<exists>s. normalizeWorkspaceBillingStateForWorkspace row row = Inr (Some s) \<and> e = state_record s \<and> bs_RenewalStatus s = ''active''"
  using assms by (auto simp: workspaceAcceptedBillingState_def split: sum.splits option.splits if_splits)

lemma accepted_autoRenew:
  assumes "workspaceAcceptedBillingState row = Some e" "mget row ''autoRenew'' = GBool False"
  shows "mget (Some e) ''autoRenew'' = GBool False"
proof -
  obtain s where s: "normalizeWorkspaceBillingStateForWorkspace row row = Inr (Some s)" "e = state_record s" "bs_RenewalStatus s = ''active''"
    using accepted_Some [OF assms(1)] by blast
  have "\<not> bs_AutoRenew s"
    using for_workspace_Some(1) [OF s(1)]
    by (cases rule: normalize_cases) (use assms(2) in \<open>auto dest!: free_state_facts simp: free_state_ok_def zero_state_def normalize_paid_facts split: prod.splits\<close>)
  then show ?thesis by (simp add: s(2,3) state_record_def mget_def)
qed

lemma put_record_get:
  assumes "workspaceAcceptedBillingState existing = Some e"
  shows "k \<in> set owner_fields \<union> set lifecycle_fields \<Longrightarrow> mget (put_fields row e) k = mget row k"
    and "mget existing ''autoRenew'' = GBool False \<Longrightarrow> mget (put_fields row e) ''autoRenew'' = GBool False"
proof -
  obtain s where s: "e = state_record s" using accepted_Some [OF assms] by blast
  show "k \<in> set owner_fields \<union> set lifecycle_fields \<Longrightarrow> mget (put_fields row e) k = mget row k"
    using state_record_keys [of s k] by (intro put_fields_other) (auto simp: s map_of_eq_None_iff)
  have "distinct (map fst (state_record s))" by (simp add: state_record_def)
  then have "map_of (rev e) = map_of e" by (simp add: s map_of_rev_distinct)
  moreover have "map_of e ''autoRenew'' = Some (GBool False)" if "mget existing ''autoRenew'' = GBool False"
    using accepted_autoRenew [OF assms that] by (simp add: mget_def split: option.splits)
  ultimately show "mget existing ''autoRenew'' = GBool False \<Longrightarrow> mget (put_fields row e) ''autoRenew'' = GBool False"
    by (simp add: put_fields_get)
qed



end
