(* ===== verification/Workspace_Billing_Examples.thy ===== *)
theory Workspace_Billing_Examples
  imports Workspace_Billing Text_Codec
begin

text \<open>
  The properties of the billing state of a workspace at concrete rows, with a codec that satisfies the laws of its
  JSON texts.
\<close>

section \<open>A codec\<close>

definition flag_texts :: "bool option \<Rightarrow> string" where
  "flag_texts b = (case b of None \<Rightarrow> [] | Some True \<Rightarrow> ''t'' | Some False \<Rightarrow> ''f'')"

definition flag_of_texts :: "string \<Rightarrow> bool option" where
  "flag_of_texts s = (if s = [] then None else Some (s = ''t''))"

definition state_texts :: "billing_state \<Rightarrow> string list" where
  "state_texts s =
     [flag_texts (bs_ResourceBillingEnabled s), flag_texts (Some (bs_AutoRenew s)), bs_AuthorizedBy s, bs_AuthorizedAt s, bs_PackageID s,
      int_text (bs_StorageGB s), bs_PriceVersion s, bs_Currency s, bs_BillingUnit s, int_text (bs_ComputeUSDMicros s),
      int_text (bs_StorageUSDMicros s), int_text (bs_TotalUSDMicros s), bs_PeriodStart s, bs_PaidThrough s, bs_NextRenewalAt s,
      int_text (bs_BillingAnchorDay s), bs_RenewalStatus s, bs_ComputeAllocationID s, bs_StorageID s]"

definition state_of_texts :: "string list \<Rightarrow> billing_state" where
  "state_of_texts fs =
     \<lparr>bs_ResourceBillingEnabled = flag_of_texts (fs ! 0), bs_AutoRenew = (fs ! 1 = ''t''), bs_AuthorizedBy = fs ! 2, bs_AuthorizedAt = fs ! 3,
      bs_PackageID = fs ! 4, bs_StorageGB = int_of_text (fs ! 5), bs_PriceVersion = fs ! 6, bs_Currency = fs ! 7, bs_BillingUnit = fs ! 8,
      bs_ComputeUSDMicros = int_of_text (fs ! 9), bs_StorageUSDMicros = int_of_text (fs ! 10), bs_TotalUSDMicros = int_of_text (fs ! 11),
      bs_PeriodStart = fs ! 12, bs_PaidThrough = fs ! 13, bs_NextRenewalAt = fs ! 14, bs_BillingAnchorDay = int_of_text (fs ! 15),
      bs_RenewalStatus = fs ! 16, bs_ComputeAllocationID = fs ! 17, bs_StorageID = fs ! 18, bs_ManualReviewReason = []\<rparr>"

fun field_texts :: "(string \<times> goval) list \<Rightarrow> string list" where
  "field_texts [] = []"
| "field_texts ((k, v) # kvs) =
     k # (case v of GStr s \<Rightarrow> CHR ''s'' # s | GBool b \<Rightarrow> flag_texts (Some b) | _ \<Rightarrow> []) # field_texts kvs"

definition value_of_text :: "string \<Rightarrow> goval" where
  "value_of_text s = (case s of c # cs \<Rightarrow> if c = CHR ''s'' then GStr cs else GBool (s = ''t'') | [] \<Rightarrow> GNil)"

fun fields_of_texts :: "string list \<Rightarrow> (string \<times> goval) list" where
  "fields_of_texts (k # v # fs) = (k, value_of_text v) # fields_of_texts fs"
| "fields_of_texts _ = []"

lemma flag_round_trip: "flag_of_texts (flag_texts b) = b" "(flag_texts (Some c) = ''t'') = c"
  by (cases b; simp add: flag_of_texts_def flag_texts_def split: bool.splits) (simp add: flag_texts_def split: bool.splits)

lemma state_round_trip: "state_of_texts (state_texts s) = s\<lparr>bs_ManualReviewReason := []\<rparr>"
  by (simp add: state_of_texts_def state_texts_def flag_round_trip int_of_int_text)

lemma fields_round_trip:
  "list_all (\<lambda>(k, v). as_str v \<noteq> None \<or> as_bool v \<noteq> None) kvs \<Longrightarrow> fields_of_texts (field_texts kvs) = kvs"
proof (induction kvs rule: field_texts.induct)
  case (2 k v kvs)
  then have "value_of_text (case v of GStr s \<Rightarrow> CHR ''s'' # s | GBool b \<Rightarrow> flag_texts (Some b) | _ \<Rightarrow> []) = v"
    by (cases v) (auto simp: value_of_text_def flag_texts_def split: bool.splits)
  with 2 show ?case by simp
qed simp

definition sample_billing_codec :: billing_codec where
  "sample_billing_codec =
     (let texts = (\<lambda>s. split_texts (tl s)); is_state = (\<lambda>s. hd s = CHR ''S'') in
      \<lparr>bj_marshal_map = (\<lambda>m. CHR ''M'' # join_texts (field_texts (case m of None \<Rightarrow> [] | Some kvs \<Rightarrow> kvs))),
       bj_marshal_state = (\<lambda>s. CHR ''S'' # join_texts (state_texts s)),
       bj_shape = (\<lambda>s. Some (if is_state s then state_keys (state_of_texts (texts s)) else map fst (fields_of_texts (texts s)))),
       bj_map = (\<lambda>s. Some (Some (fields_of_texts (texts s)))),
       bj_state = (\<lambda>s. Some (state_of_texts (texts s)))\<rparr>)"

lemma letter_no_space: "c \<in> {CHR ''M'', CHR ''S'', CHR ''.''} \<Longrightarrow> r \<in> set space_runes \<union> set (map rev space_runes) \<Longrightarrow> \<not> has_prefix (c # t) r"
  by (auto simp: space_runes_def has_prefix_def)

lemma joined_object:
  assumes "c \<in> {CHR ''M'', CHR ''S''}" "fs \<noteq> []"
  shows "nonempty_object (c # join_texts fs)"
proof -
  have "\<exists>u. join_texts fs = u @ ''.''" using assms(2)
  proof (induction fs)
    case (Cons s ss)
    then show ?case by (cases ss) auto
  qed simp
  then obtain u where u: "join_texts fs = u @ ''.''" by blast
  have "trim_left_of space_runes (c # join_texts fs) = c # join_texts fs"
    using letter_no_space assms(1) by (intro trim_left_of_stop) fastforce
  moreover have "trim_left_of (map rev space_runes) (rev (c # join_texts fs)) = rev (c # join_texts fs)"
    using letter_no_space unfolding u by (intro trim_left_of_stop) fastforce
  ultimately have "trim_space (c # join_texts fs) = c # join_texts fs" by (simp only: trim_space_def rev_rev_ident)
  with assms(1) show ?thesis by (auto simp: nonempty_object_def blank_def)
qed

lemma sample_billing_codec_ok: "billing_codec_ok sample_billing_codec"
proof -
  have keys: "state_keys (s\<lparr>bs_ManualReviewReason := []\<rparr>) = state_keys s" for s by (simp add: state_keys_def)
  have ne: "field_texts kvs \<noteq> []" if "kvs \<noteq> []" for kvs
    using that by (cases kvs rule: field_texts.cases) auto
  have "state_texts s \<noteq> []" for s by (simp add: state_texts_def)
  then show ?thesis
    using ne by (simp add: billing_codec_ok_def sample_billing_codec_def Let_def split_join state_round_trip keys flat_map_def
        fields_round_trip joined_object)
qed

section \<open>A workspace\<close>

definition sample_workspace :: gomap where
  "sample_workspace = Some
     [(''id'', GStr ''ws-1''), (''accountId'', GStr ''acct-1''), (''ownerUserId'', GStr ''usr-1''), (''state'', GStr ''running''),
      (''currentComputeAllocationId'', GStr ''c-1''), (''storageId'', GStr ''s-1''), (''computeAllocationId'', GStr ''c-1''),
      (''autoRenew'', GBool True), (''authorizedBy'', GStr ''usr-1''), (''authorizedAt'', GStr ''2026-01-31T10:00:00Z''),
      (''packageId'', GStr ''basic''), (''storageGb'', GInt KInt64 10), (''priceVersion'', GStr ''v1''), (''currency'', GStr ''USD''),
      (''billingUnit'', GStr ''calendar_month''), (''computeUsdMicros'', GInt KInt64 100), (''storageUsdMicros'', GInt KInt64 23),
      (''totalUsdMicros'', GInt KInt64 123), (''periodStart'', GStr ''2026-01-31T10:00:00Z''), (''paidThrough'', GStr ''2026-02-28T10:00:00Z''),
      (''nextRenewalAt'', GStr ''2026-02-27T10:00:00Z''), (''billingAnchorDay'', GInt KInt64 31), (''renewalStatus'', GStr ''active'')]"

definition sample_state :: billing_state where
  "sample_state =
     \<lparr>bs_ResourceBillingEnabled = Some True, bs_AutoRenew = True, bs_AuthorizedBy = ''usr-1'', bs_AuthorizedAt = ''2026-01-31T10:00:00Z'',
      bs_PackageID = ''basic'', bs_StorageGB = 10, bs_PriceVersion = ''v1'', bs_Currency = ''USD'', bs_BillingUnit = ''calendar_month'',
      bs_ComputeUSDMicros = 100, bs_StorageUSDMicros = 23, bs_TotalUSDMicros = 123, bs_PeriodStart = ''2026-01-31T10:00:00Z'',
      bs_PaidThrough = ''2026-02-28T10:00:00Z'', bs_NextRenewalAt = ''2026-02-27T10:00:00Z'', bs_BillingAnchorDay = 31,
      bs_RenewalStatus = ''active'', bs_ComputeAllocationID = ''c-1'', bs_StorageID = ''s-1'', bs_ManualReviewReason = []\<rparr>"

lemma sample_workspace_state: "normalizeWorkspaceBillingStateForWorkspace sample_workspace sample_workspace = Inr (Some sample_state)"
  by code_simp

lemma sample_times_readable: "times_readable sample_workspace"
  by code_simp

theorem billing_state_round_trip_witness:
  "decodeWorkspaceBillingState sample_billing_codec (bj_marshal_state sample_billing_codec sample_state) sample_workspace =
     Inr (Some (state_record sample_state))"
proof -
  have "encodeWorkspaceBillingState sample_billing_codec sample_workspace = Inr (bj_marshal_state sample_billing_codec sample_state)"
    unfolding encodeWorkspaceBillingState_def sample_workspace_state by (simp add: sample_state_def)
  from billing_state_round_trip [OF sample_billing_codec_ok this sample_times_readable] show ?thesis
    by (simp add: sample_workspace_state)
qed

theorem accepted_billing_state_is_sound_witness:
  "bs_TotalUSDMicros sample_state = 100 + 23 \<and> bs_AuthorizedBy sample_state = ''usr-1''"
  using accepted_billing_state_is_sound [OF sample_workspace_state]
  by (simp add: sample_state_def int64_defs)

text \<open>A stale writer finds the workspace stopped and its renewal switched off: its row is saved with the stored fields.\<close>

definition stopped_workspace :: gomap where
  "stopped_workspace = put_fields sample_workspace [(''state'', GStr ''stopped''), (''autoRenew'', GBool False)]"

lemma stale_save: "mergeWorkspaceForSave stopped_workspace sample_workspace =
    Inr (put_fields (put_fields (put_fields sample_workspace (state_record (sample_state\<lparr>bs_AutoRenew := False\<rparr>)))
      [(''state'', GStr ''stopped''), (''status'', GNil), (''currentComputeAllocationId'', GStr ''c-1''), (''currentAttachmentId'', GNil)])
      (state_record (sample_state\<lparr>bs_AutoRenew := False\<rparr>)))"
  by code_simp


end
