(* ===== verification/Workspace_Renewal.thy ===== *)
theory Workspace_Renewal
  imports Workspace_Billing Reconciliation Wallet_Adjustment "HOL-Library.State_Monad"
begin

text \<open>
  The monthly renewal of a workspace (\<^verbatim>\<open>services/control-plane/internal/server/workspace_renewal.go\<close>): the
  operation, how it is claimed under a lease and stored by compare-and-swap, the loop that preflights, charges,
  renews at the provider, verifies, commits the new period and records the receipt, the refund, the expiry of an
  unpaid workspace, and the resolution of an operation under manual review.

  The world holds the rows of the renewal operations and the tables of workspaces and resources, with the trace of
  the effects made so far; the code is written in the state monad over it. What the Gateway, the Fabric, the ledger,
  the clock and the database answer is given by a record of functions of the trace. After every effect other
  writers may change the tables of workspaces and resources in any way, and the rows of other operations are
  whatever the environment says. An error is the list of its texts: \<open>[]\<close> is \<^verbatim>\<open>nil\<close>, appending is
  \<^verbatim>\<open>errors.Join\<close> and membership \<^verbatim>\<open>errors.Is\<close>. Locks are left out: a run is a sequence of effects, cut off anywhere.
\<close>

section \<open>The operation\<close>

type_synonym errs = "string list"

record renewal_codec =
  rc_sha1hex :: "string \<Rightarrow> string"
  rc_marshal :: "renewal_operation \<Rightarrow> string"
  rc_unmarshal :: "string \<Rightarrow> renewal_operation option"
  rc_fact :: "gomap \<Rightarrow> provider_fact option" \<comment> \<open>a map decoded as a provider fact\<close>
  rc_json :: "gomap \<Rightarrow> string" \<comment> \<open>\<^verbatim>\<open>mustJSON\<close>\<close>
  rc_environment :: string \<comment> \<open>\<^verbatim>\<open>monthlyEnvironment()\<close>\<close>

definition monthlyRenewalLead :: int where
  "monthlyRenewalLead = day_ns"

definition workspaceRenewalLeaseDuration :: int where
  "workspaceRenewalLeaseDuration = 300000000000"

definition zero_operation :: renewal_operation where
  "zero_operation =
     \<lparr>wr_ID = [], wr_Status = [], wr_CreatedAt = [], wr_PersistedResult = [], wr_RequestHash = [], wr_Phase = [], wr_AccountID = [],
      wr_OwnerUserID = [], wr_WorkspaceID = [], wr_PackageID = [], wr_StorageGB = 0, wr_ComputeID = [], wr_StorageID = [],
      wr_PriceVersion = [], wr_ComputeUSDMicros = 0, wr_StorageUSDMicros = 0, wr_TotalUSDMicros = 0, wr_PeriodStart = [],
      wr_PaidThrough = [], wr_RenewedThrough = [], wr_RedeemCode = [], wr_RefundCode = [], wr_ComputePreflightConfirmed = False,
      wr_StoragePreflightConfirmed = False, wr_ChargeAttempted = False, wr_ChargeConfirmation = None, wr_PreChargeBalanceUSDMicros = 0,
      wr_PostChargeBalanceUSDMicros = 0, wr_PostChargeBalanceKnown = False, wr_RefundAttempted = False, wr_RefundConfirmation = None,
      wr_RefundReason = [], wr_RefundReceiptID = [], wr_ComputeRenewal = None, wr_StorageRenewal = None, wr_ComputeReadback = None,
      wr_StorageReadback = None, wr_EntitlementCommitted = False, wr_ReceiptID = [], wr_ErrorCode = [], wr_PriorStatus = [],
      wr_PriorErrorCode = [], wr_ExpiryStatus = [], wr_ExpiryPhase = [], wr_ExpiryErrorCode = [], wr_ExpiryReceiptID = [],
      wr_ExpiryPeriodStart = [], wr_ExpiryPaidThrough = [], wr_LeaseToken = [], wr_LeaseExpiresAt = [], wr_ReviewResolutionKey = [],
      wr_ReviewResolutionFingerprint = [], wr_ReviewResolutionDecision = [], wr_ReviewResolutionEvidenceRef = [],
      wr_ReviewResolutionReviewer = [], wr_ReviewResolutionPhase = [], wr_ReviewResolutionResolvedAt = [], wr_ReviewResolutionResult = None\<rparr>"

definition workspaceRenewalOperationID :: "renewal_codec \<Rightarrow> string \<Rightarrow> gotime \<Rightarrow> string" where
  "workspaceRenewalOperationID rc workspaceID paidThrough =
     ''workspace-renewal-'' @ take 18 (stableID (rc_sha1hex rc) [workspaceID, utc_text paidThrough])"

definition renewal_request_hash :: "renewal_codec \<Rightarrow> renewal_operation \<Rightarrow> string" where
  "renewal_request_hash rc op =
     stableID (rc_sha1hex rc)
       [''workspace-renewal-v1'', wr_AccountID op, wr_OwnerUserID op, wr_WorkspaceID op, wr_PackageID op, wr_ComputeID op, wr_StorageID op,
        wr_PriceVersion op, int_text (wr_StorageGB op), int_text (wr_ComputeUSDMicros op), int_text (wr_StorageUSDMicros op),
        int_text (wr_TotalUSDMicros op), wr_PeriodStart op, wr_PaidThrough op]"

definition t_day :: "gotime \<Rightarrow> int" where
  "t_day t = snd (snd (t_date t))"

definition int_field :: "gomap \<Rightarrow> string \<Rightarrow> int" where
  "int_field row key = int64_of_float (numberField row key (Fin 0))"

definition billing_anchor :: "gomap \<Rightarrow> gotime \<Rightarrow> int" where
  "billing_anchor workspace paidThrough = int64_of_float (numberField workspace ''billingAnchorDay'' (float_of_int (t_day paidThrough)))"

definition newWorkspaceRenewalOperation :: "renewal_codec \<Rightarrow> gomap \<Rightarrow> gotime \<Rightarrow> string + renewal_operation" where
  "newWorkspaceRenewalOperation rc workspace now =
     (let str = (\<lambda>key. stringValue (mget workspace key)) in
      case rfc3339_parse (str ''paidThrough'') of
        None \<Rightarrow> Inl ''invalid_workspace_billing_state''
      | Some paidThrough \<Rightarrow>
          (let renewedThrough = nextBillingMonth paidThrough (billing_anchor workspace paidThrough);
               id = workspaceRenewalOperationID rc (str ''id'') paidThrough;
               op = zero_operation
                 \<lparr>wr_ID := id, wr_Status := ''claimed'', wr_CreatedAt := utc_text now, wr_Phase := ''preflight_compute'',
                  wr_AccountID := str ''accountId'', wr_OwnerUserID := str ''ownerUserId'', wr_WorkspaceID := str ''id'',
                  wr_PackageID := str ''packageId'', wr_StorageGB := int_field workspace ''storageGb'',
                  wr_ComputeID := str ''computeAllocationId'', wr_StorageID := str ''storageId'', wr_PriceVersion := str ''priceVersion'',
                  wr_ComputeUSDMicros := int_field workspace ''computeUsdMicros'', wr_StorageUSDMicros := int_field workspace ''storageUsdMicros'',
                  wr_TotalUSDMicros := int_field workspace ''totalUsdMicros'', wr_PeriodStart := str ''periodStart'',
                  wr_PaidThrough := utc_text paidThrough, wr_RenewedThrough := utc_text renewedThrough,
                  wr_RedeemCode := monthlyRedeemCode (rc_sha1hex rc) (rc_environment rc) id,
                  wr_RefundCode := monthlyRefundCode (rc_sha1hex rc) (rc_environment rc) id\<rparr>;
               op = op\<lparr>wr_RequestHash := renewal_request_hash rc op\<rparr>
           in if wr_AccountID op = [] \<or> wr_OwnerUserID op = [] \<or> wr_WorkspaceID op = [] \<or> wr_PackageID op = [] \<or> wr_ComputeID op = [] \<or>
                 wr_StorageID op = [] \<or> wr_StorageGB op \<le> 0 \<or> wr_ComputeUSDMicros op \<le> 0 \<or> wr_StorageUSDMicros op \<le> 0 \<or> wr_TotalUSDMicros op \<le> 0
              then Inl ''invalid_workspace_billing_state'' else Inr op))"

definition workspaceRenewalOperationRow :: "renewal_codec \<Rightarrow> renewal_operation \<Rightarrow> gomap" where
  "workspaceRenewalOperationRow rc op =
     Some [(''id'', GStr (wr_ID op)), (''operationId'', GStr (wr_ID op)), (''accountId'', GStr (wr_AccountID op)),
       (''workspaceId'', GStr (wr_WorkspaceID op)), (''resourceId'', GStr (wr_WorkspaceID op)), (''resourceKind'', GStr ''workspace_renewal''),
       (''action'', GStr ''workspace.renewal''), (''status'', GStr (wr_Status op)), (''result'', GStr (rc_marshal rc op)),
       (''computeAllocationId'', GStr (wr_ComputeID op)), (''storageId'', GStr (wr_StorageID op)),
       (''periodStart'', GStr (wr_PaidThrough op)), (''createdAt'', GStr (wr_CreatedAt op))]"

abbreviation decode_renewal :: "renewal_codec \<Rightarrow> gomap \<Rightarrow> renewal_error + renewal_operation" where
  "decode_renewal rc \<equiv> decodeWorkspaceRenewalOperation (rc_unmarshal rc)"

definition workspaceRenewalClaimIdentityMatches :: "renewal_codec \<Rightarrow> gomap \<Rightarrow> gomap \<Rightarrow> bool" where
  "workspaceRenewalClaimIdentityMatches rc current desired =
     (case (decode_renewal rc current, decode_renewal rc desired) of
        (Inr existing, Inr next) \<Rightarrow>
          wr_ID existing = wr_ID next \<and> wr_AccountID existing = wr_AccountID next \<and> wr_WorkspaceID existing = wr_WorkspaceID next \<and>
          wr_PaidThrough existing = wr_PaidThrough next \<and> wr_RequestHash existing = wr_RequestHash next
      | _ \<Rightarrow> False)"

definition terminalWorkspaceRenewal :: "renewal_operation \<Rightarrow> bool" where
  "terminalWorkspaceRenewal op \<longleftrightarrow>
     (wr_Status op \<in> {''active'', ''cancelled'', ''manual_review''} \<or>
      wr_Status op = ''refunded'' \<and> wr_Phase op = ''complete'' \<or>
      wr_Status op = ''expired_unpaid'' \<and> (wr_ExpiryStatus op = ''expired_unpaid'' \<or> wr_Phase op = ''complete'')) \<and>
     (wr_ExpiryStatus op = [] \<or> wr_ExpiryPhase op = ''complete'')"

definition workspaceRenewalFinancialRecoveryRequired :: "renewal_operation \<Rightarrow> bool" where
  "workspaceRenewalFinancialRecoveryRequired op \<longleftrightarrow>
     wr_Status op = ''manual_review'' \<or> wr_ChargeAttempted op \<or> wr_ChargeConfirmation op \<noteq> None \<or>
     wr_RefundAttempted op \<or> wr_RefundConfirmation op \<noteq> None \<or> wr_EntitlementCommitted op"

definition runtimeOperationsVersion :: "renewal_codec \<Rightarrow> gomap list \<Rightarrow> string \<Rightarrow> string" where
  "runtimeOperationsVersion rc rows workspaceID =
     stableID (rc_sha1hex rc) (sort (map
       (\<lambda>row. rc_json rc (Some [(''id'', mget row ''id''), (''action'', mget row ''action''), (''status'', mget row ''status''),
          (''result'', mget row ''result'')]))
       (filter (\<lambda>row. stringValue (mget row ''workspaceId'') = workspaceID) rows)))"

definition workspaceDeleteAction :: string where
  "workspaceDeleteAction = ''workspace.delete.v2''"

definition workspaceDeleteBlocksRenewal :: "gomap \<Rightarrow> bool" where
  "workspaceDeleteBlocksRenewal row \<longleftrightarrow> stringValue (mget row ''action'') = workspaceDeleteAction"

section \<open>Patches of the workspace row\<close>

record workspace_patch =
  wp_ExpectedPaidThrough :: string
  wp_ExpectedFields :: "(string \<times> string) list"
  wp_Fields :: "(string \<times> goval) list"

definition workspaceRenewalPatchFields :: "string list" where
  "workspaceRenewalPatchFields =
     [''periodStart'', ''paidThrough'', ''nextRenewalAt'', ''renewalStatus'', ''autoRenew'', ''authorizedBy'', ''authorizedAt'',
      ''state'', ''status'', ''currentComputeAllocationId'']"

definition billing_error_text :: "billing_error \<Rightarrow> string" where
  "billing_error_text e =
     (case e of ErrInvalidWorkspaceBillingState \<Rightarrow> ''invalid_workspace_billing_state'' | ErrBillingIdempotencyConflict \<Rightarrow> ''idempotency_conflict'')"

definition mergeWorkspaceRenewalPatch :: "gomap \<Rightarrow> (string \<times> goval) list \<Rightarrow> string + gomap" where
  "mergeWorkspaceRenewalPatch current patch =
     (if current = None \<or> patch = [] then Inl ''invalid_workspace_renewal_patch''
      else if \<not> list_all (\<lambda>(key, _). key \<in> set workspaceRenewalPatchFields) patch then Inl ''invalid_workspace_renewal_patch''
      else
        (let merged = put_fields (cloneMap current) patch in
         case validateWorkspaceBillingState merged of Some err \<Rightarrow> Inl (billing_error_text err) | None \<Rightarrow> Inr merged))"

definition workspaceRenewalExpectedFieldsMatch :: "gomap \<Rightarrow> (string \<times> string) list \<Rightarrow> bool" where
  "workspaceRenewalExpectedFieldsMatch current expected \<longleftrightarrow> list_all (\<lambda>(field, v). stringValue (mget current field) = v) expected"

section \<open>The world\<close>

record gateway_key =
  gk_ID :: int
  gk_UserID :: int
  gk_Name :: string
  gk_Status :: string

record gateway_charge =
  gc_Code :: string
  gc_UserID :: int
  gc_USDMicros :: int
  gc_Status :: string

record resource_mutation =
  rm_ID :: string
  rm_OperationID :: string
  rm_AccountID :: string
  rm_WorkspaceID :: string
  rm_Status :: string
  rm_ProviderRequestID :: string

text \<open>The effects. A charge and a refund carry the identifier of their operation.\<close>

datatype renewal_effect =
    ReadClock
  | ReadRenewalFacts "provider_fact_input list"
  | Preflight monthly_preflight_input
  | ReadKeys int string
  | ReadWalletBalance int
  | ReadWalletHistory int "string list"
  | ChargeWallet string money_input
  | RefundWallet string money_input
  | RenewResource string string string string string \<comment> \<open>type, account, workspace, identifier, key\<close>
  | SaveResource string gomap save_outcome
  | SaveRenewal renewal_operation "(workspace_patch \<times> gomap) option" save_outcome \<comment> \<open>with the patch and the new row of the workspace\<close>
  | RecordRenewalReceipt receipt_input string

type_synonym renewal_trace = "renewal_effect list"

type_synonym table = "(string \<times> gomap) list"

record resource_tables =
  rt_workspaces :: table
  rt_computes :: table
  rt_storages :: table

record renewal_env =
  re_now :: "renewal_trace \<Rightarrow> gotime"
  re_down :: "renewal_trace \<Rightarrow> bool" \<comment> \<open>reads of the tables fail\<close>
  re_save :: "renewal_trace \<Rightarrow> save_outcome"
  re_disturb :: "renewal_trace \<Rightarrow> resource_tables \<Rightarrow> resource_tables" \<comment> \<open>other writers\<close>
  re_others :: "renewal_trace \<Rightarrow> gomap list" \<comment> \<open>rows of the operations of other actions\<close>
  re_accounts :: "renewal_trace \<Rightarrow> monthly_error + gomap list"
  re_facts :: "renewal_trace \<Rightarrow> facts_client option"
  re_preflight :: "renewal_trace \<Rightarrow> monthly_preflight_input \<Rightarrow> errs + monthly_preflight"
  re_keys :: "renewal_trace \<Rightarrow> int \<Rightarrow> string \<Rightarrow> errs + gateway_key list"
  re_balance :: "renewal_trace \<Rightarrow> int \<Rightarrow> errs + gateway_balance"
  re_history :: "renewal_trace \<Rightarrow> int \<Rightarrow> string list \<Rightarrow> errs + (string \<times> history_entry) list"
  re_charge :: "renewal_trace \<Rightarrow> money_input \<Rightarrow> errs + gateway_charge"
  re_refund :: "renewal_trace \<Rightarrow> money_input \<Rightarrow> errs + gateway_charge"
  re_renew :: "renewal_trace \<Rightarrow> renewal_effect \<Rightarrow> resource_mutation \<times> errs"
  re_receipt :: "renewal_trace \<Rightarrow> receipt_input \<Rightarrow> string \<Rightarrow> errs + string" \<comment> \<open>the identifier of the receipt\<close>

record renewal_world =
  rw_operations :: table
  rw_tables :: resource_tables
  rw_trace :: renewal_trace

text \<open>What an effect writes: a save that is refused writes nothing, one that is not answered does.\<close>

definition write_tables :: "renewal_effect \<Rightarrow> resource_tables \<Rightarrow> resource_tables" where
  "write_tables e t =
     (case e of
        SaveResource resourceType row outcome \<Rightarrow>
          if outcome = SaveRefused then t
          else if resourceType = ''storage'' then t\<lparr>rt_storages := AList.update (stringValue (mget row ''id'')) row (rt_storages t)\<rparr>
          else t\<lparr>rt_computes := AList.update (stringValue (mget row ''id'')) row (rt_computes t)\<rparr>
      | SaveRenewal op (Some (patch, workspace)) outcome \<Rightarrow>
          if outcome = SaveRefused then t else t\<lparr>rt_workspaces := AList.update (wr_WorkspaceID op) workspace (rt_workspaces t)\<rparr>
      | _ \<Rightarrow> t)"

definition write_operations :: "renewal_codec \<Rightarrow> renewal_effect \<Rightarrow> table \<Rightarrow> table" where
  "write_operations rc e ops =
     (case e of
        SaveRenewal op _ outcome \<Rightarrow>
          if outcome = SaveRefused then ops else AList.update (wr_ID op) (workspaceRenewalOperationRow rc op) ops
      | _ \<Rightarrow> ops)"

definition apply_renewal_effect :: "renewal_codec \<Rightarrow> renewal_env \<Rightarrow> renewal_effect \<Rightarrow> renewal_world \<Rightarrow> renewal_world" where
  "apply_renewal_effect rc env e w =
     \<lparr>rw_operations = write_operations rc e (rw_operations w),
      rw_tables = re_disturb env (rw_trace w @ [e]) (write_tables e (rw_tables w)), rw_trace = rw_trace w @ [e]\<rparr>"

type_synonym 'a renewal = "(renewal_world, 'a) state"

definition emit :: "renewal_codec \<Rightarrow> renewal_env \<Rightarrow> renewal_effect \<Rightarrow> unit renewal" where
  "emit rc env e = State_Monad.update (apply_renewal_effect rc env e)"

definition ask :: "(renewal_world \<Rightarrow> 'a) \<Rightarrow> 'a renewal" where
  "ask f = do { w \<leftarrow> State_Monad.get; State_Monad.return (f w) }"

text \<open>A call: its answer depends on what happened so far.\<close>

definition call :: "renewal_codec \<Rightarrow> renewal_env \<Rightarrow> renewal_effect \<Rightarrow> (renewal_trace \<Rightarrow> 'a) \<Rightarrow> 'a renewal" where
  "call rc env e answer = do { a \<leftarrow> ask (\<lambda>w. answer (rw_trace w)); emit rc env e; State_Monad.return a }"

section \<open>Reading the tables\<close>

definition table_row :: "renewal_env \<Rightarrow> (resource_tables \<Rightarrow> table) \<Rightarrow> string \<Rightarrow> gomap option renewal" where
  "table_row env table rowID =
     ask (\<lambda>w. if re_down env (rw_trace w) then None else map_option cloneMap (map_of (table (rw_tables w)) rowID))"

definition getWorkspace :: "renewal_env \<Rightarrow> string \<Rightarrow> gomap option renewal" where
  "getWorkspace env rowID = table_row env rt_workspaces rowID"

definition getCompute :: "renewal_env \<Rightarrow> string \<Rightarrow> gomap option renewal" where
  "getCompute env rowID = table_row env rt_computes rowID"

definition getStorage :: "renewal_env \<Rightarrow> string \<Rightarrow> gomap option renewal" where
  "getStorage env rowID = table_row env rt_storages rowID"

definition database_error :: errs where
  "database_error = [''database error'']"

definition other_operations :: "renewal_env \<Rightarrow> renewal_world \<Rightarrow> gomap list" where
  "other_operations env w = filter (\<lambda>row. stringValue (mget row ''action'') \<noteq> ''workspace.renewal'') (re_others env (rw_trace w))"

definition all_operations :: "renewal_env \<Rightarrow> renewal_world \<Rightarrow> gomap list" where
  "all_operations env w = map snd (rw_operations w) @ other_operations env w"

definition loadWorkspaceRenewalOperation :: "renewal_codec \<Rightarrow> renewal_env \<Rightarrow> string \<Rightarrow> (errs + renewal_operation) renewal" where
  "loadWorkspaceRenewalOperation rc env operationID =
     ask (\<lambda>w. if re_down env (rw_trace w) then Inl database_error
       else
         (case map_of (rw_operations w) operationID of
            None \<Rightarrow> Inl [''billing_review_not_found'']
          | Some row \<Rightarrow>
              if stringValue (mget row ''action'') = ''workspace.renewal'' \<and>
                 firstNonEmpty [stringValue (mget row ''operationId''), stringValue (mget row ''id'')] = operationID
              then (case decode_renewal rc row of Inl _ \<Rightarrow> Inl [''invalid_workspace_renewal_operation''] | Inr op \<Rightarrow> Inr op)
              else Inl [''billing_review_not_found'']))"

definition monthly_error_text :: "monthly_error \<Rightarrow> string" where
  "monthly_error_text e =
     (case e of
        ErrMonthlyAccountUnmapped \<Rightarrow> ''sub2api_account_mapping_required''
      | ErrSub2APIAccountMappingConflict \<Rightarrow> ''sub2api_account_mapping_conflict''
      | ErrMonthlyPreflightInvalid \<Rightarrow> ''fabric_monthly_preflight_invalid''
      | ErrFabric s \<Rightarrow> s
      | ErrTables s \<Rightarrow> s)"

definition gateway_user :: "renewal_env \<Rightarrow> string \<Rightarrow> (errs + int) renewal" where
  "gateway_user env accountID =
     ask (\<lambda>w. case sub2APIUserID (re_accounts env (rw_trace w)) accountID of
        Inl err \<Rightarrow> Inl [monthly_error_text err]
      | Inr userID \<Rightarrow> Inr userID)"

section \<open>Queries of operations\<close>

record operation_query =
  oq_AccountID :: string
  oq_WorkspaceID :: string
  oq_Action :: string
  oq_Statuses :: "string list"
  oq_ExcludedStatuses :: "string list"
  oq_PeriodStart :: string
  oq_Offset :: nat
  oq_Limit :: nat

definition runtimeOperationPageSize :: nat where
  "runtimeOperationPageSize = 100"

definition operation_matches :: "operation_query \<Rightarrow> gomap \<Rightarrow> bool" where
  "operation_matches q row \<longleftrightarrow>
     (oq_AccountID q = [] \<or> stringValue (mget row ''accountId'') = oq_AccountID q) \<and>
     (oq_WorkspaceID q = [] \<or> stringValue (mget row ''workspaceId'') = oq_WorkspaceID q) \<and>
     (oq_Action q = [] \<or> stringValue (mget row ''action'') = oq_Action q) \<and>
     (oq_Statuses q = [] \<or> stringValue (mget row ''status'') \<in> set (oq_Statuses q)) \<and>
     stringValue (mget row ''status'') \<notin> set (oq_ExcludedStatuses q) \<and>
     (oq_PeriodStart q = [] \<or> stringValue (mget row ''periodStart'') = oq_PeriodStart q)"

definition operation_order :: "gomap \<Rightarrow> string \<times> string" where
  "operation_order row = (stringValue (mget row ''createdAt''), stringValue (mget row ''id''))"

text \<open>A page of the matching rows, by time of creation and identifier, and how many match.\<close>

definition PageRuntimeOperations :: "gomap list \<Rightarrow> operation_query \<Rightarrow> gomap list \<times> nat" where
  "PageRuntimeOperations rows q =
     (let matching = filter (operation_matches q) rows
      in (take (oq_Limit q) (drop (oq_Offset q) (sort_key operation_order matching)), length matching))"

lemma operation_matches_page [simp]:
  "operation_matches (q\<lparr>oq_Offset := n\<rparr>) = operation_matches q" "operation_matches (q\<lparr>oq_Limit := n\<rparr>) = operation_matches q"
  by (simp_all add: operation_matches_def fun_eq_iff)

function query_pages :: "gomap list \<Rightarrow> operation_query \<Rightarrow> gomap list \<Rightarrow> gomap list" where
  "query_pages table q rows =
     (let (items, total) = PageRuntimeOperations table q;
          rows = rows @ items;
          offset = oq_Offset q + length items
      in if offset \<ge> total \<or> items = [] then rows else query_pages table (q\<lparr>oq_Offset := offset\<rparr>) rows)"
  by pat_completeness auto

termination
  by (relation "measure (\<lambda>(table, q, rows). length (filter (operation_matches q) table) - oq_Offset q)")
    (auto simp: PageRuntimeOperations_def Let_def)

declare query_pages.simps [simp del]

definition queryRuntimeOperations :: "gomap list \<Rightarrow> operation_query \<Rightarrow> gomap list" where
  "queryRuntimeOperations table q = query_pages table (q\<lparr>oq_Offset := 0, oq_Limit := runtimeOperationPageSize\<rparr>) []"

definition any_operation :: operation_query where
  "any_operation =
     \<lparr>oq_AccountID = [], oq_WorkspaceID = [], oq_Action = [], oq_Statuses = [], oq_ExcludedStatuses = [], oq_PeriodStart = [],
      oq_Offset = 0, oq_Limit = 0\<rparr>"

definition query_operations :: "renewal_env \<Rightarrow> operation_query \<Rightarrow> (errs + gomap list) renewal" where
  "query_operations env q =
     ask (\<lambda>w. if re_down env (rw_trace w) then Inl database_error else Inr (queryRuntimeOperations (all_operations env w) q))"

section \<open>Compare and swap\<close>

definition cas_conflict :: string where
  "cas_conflict = ''workspace_renewal_cas_conflict''"

text \<open>
  A write to the database: it may fail without effect, or after it was committed. The check decides between an
  error and the patch with the new row of the workspace, if it changes.
\<close>

definition save_renewal ::
    "renewal_codec \<Rightarrow> renewal_env \<Rightarrow> renewal_operation \<Rightarrow> (renewal_world \<Rightarrow> errs + (workspace_patch \<times> gomap) option) \<Rightarrow> errs renewal" where
  "save_renewal rc env op check =
     do {
       outcome \<leftarrow> ask (\<lambda>w. re_save env (rw_trace w));
       checked \<leftarrow> ask check;
       if outcome = SaveRefused then
         do { emit rc env (SaveRenewal op None SaveRefused); State_Monad.return database_error }
       else
         (case checked of
            Inl err \<Rightarrow> State_Monad.return err
          | Inr workspace \<Rightarrow>
              do {
                emit rc env (SaveRenewal op workspace outcome);
                State_Monad.return (if outcome = SaveUnanswered then database_error else [])
              })
     }"

record renewal_claim =
  cl_WorkspaceID :: string
  cl_AccountID :: string
  cl_ExpectedPaidThrough :: string
  cl_ExpectedAutoRenew :: bool
  cl_ExpectedOperationsVersion :: string
  cl_ExpectedOperationResult :: string
  cl_DesiredOperation :: renewal_operation

definition claim_workspace_matches :: "renewal_claim \<Rightarrow> renewal_world \<Rightarrow> bool" where
  "claim_workspace_matches claim w =
     (case map_of (rt_workspaces (rw_tables w)) (cl_WorkspaceID claim) of
        None \<Rightarrow> False
      | Some current \<Rightarrow>
          stringValue (mget current ''accountId'') = cl_AccountID claim \<and>
          stringValue (mget current ''paidThrough'') = cl_ExpectedPaidThrough claim \<and>
          mget current ''autoRenew'' = GBool (cl_ExpectedAutoRenew claim))"

definition claim_check :: "renewal_codec \<Rightarrow> renewal_env \<Rightarrow> renewal_claim \<Rightarrow> renewal_world \<Rightarrow> errs + (workspace_patch \<times> gomap) option" where
  "claim_check rc env claim w =
     (let desired = cl_DesiredOperation claim;
          operations = filter (\<lambda>row. stringValue (mget row ''workspaceId'') = cl_WorkspaceID claim) (all_operations env w);
          existing = find (\<lambda>row. stringValue (mget row ''id'') = wr_ID desired) operations in
      if \<not> claim_workspace_matches claim w then Inl [cas_conflict]
      else if list_ex workspaceDeleteBlocksRenewal operations then Inl [cas_conflict]
      else if runtimeOperationsVersion rc operations (cl_WorkspaceID claim) \<noteq> cl_ExpectedOperationsVersion claim then Inl [cas_conflict]
      else if cl_ExpectedOperationResult claim = [] then
        (if existing \<noteq> None \<or> list_ex (\<lambda>row. stringValue (mget row ''id'') = wr_ID desired) (all_operations env w)
         then Inl [cas_conflict] else Inr None)
      else
        (case existing of
           None \<Rightarrow> Inl [cas_conflict]
         | Some row \<Rightarrow>
             if stringValue (mget row ''result'') \<noteq> cl_ExpectedOperationResult claim then Inl [cas_conflict]
             else if \<not> workspaceRenewalClaimIdentityMatches rc row (workspaceRenewalOperationRow rc desired) then Inl [''idempotency_conflict'']
             else Inr None))"

definition ClaimWorkspaceRenewal :: "renewal_codec \<Rightarrow> renewal_env \<Rightarrow> renewal_claim \<Rightarrow> errs renewal" where
  "ClaimWorkspaceRenewal rc env claim = save_renewal rc env (cl_DesiredOperation claim) (claim_check rc env claim)"

text \<open>The operation is stored as expected, and the workspace is as the patch expects it.\<close>

definition persist_current :: "renewal_operation \<Rightarrow> renewal_world \<Rightarrow> bool" where
  "persist_current op w =
     (case map_of (rw_operations w) (wr_ID op) of
        None \<Rightarrow> False
      | Some current \<Rightarrow>
          stringValue (mget current ''result'') = wr_PersistedResult op \<and>
          stringValue (mget current ''workspaceId'') = wr_WorkspaceID op \<and> stringValue (mget current ''action'') = ''workspace.renewal'')"

definition persist_check :: "renewal_operation \<Rightarrow> workspace_patch option \<Rightarrow> renewal_world \<Rightarrow> errs + (workspace_patch \<times> gomap) option" where
  "persist_check op patch w =
     (let merged = (case patch of
          None \<Rightarrow> Inr None
        | Some p \<Rightarrow>
            if wr_WorkspaceID op = [] \<or> wp_ExpectedPaidThrough p = [] then Inl [cas_conflict]
            else
              (case map_of (rt_workspaces (rw_tables w)) (wr_WorkspaceID op) of
                 None \<Rightarrow> Inl [''ent: workspace not found'']
               | Some current \<Rightarrow>
                   if stringValue (mget current ''paidThrough'') \<noteq> wp_ExpectedPaidThrough p \<or>
                      \<not> workspaceRenewalExpectedFieldsMatch current (wp_ExpectedFields p) then Inl [cas_conflict]
                   else (case mergeWorkspaceRenewalPatch current (wp_Fields p) of Inl err \<Rightarrow> Inl [err] | Inr row \<Rightarrow> Inr (Some (p, row)))))
      in case merged of
           Inl err \<Rightarrow> Inl err
         | Inr row \<Rightarrow> if persist_current op w then Inr row else Inl [cas_conflict])"

definition PersistWorkspaceRenewal :: "renewal_codec \<Rightarrow> renewal_env \<Rightarrow> renewal_operation \<Rightarrow> workspace_patch option \<Rightarrow> errs renewal" where
  "PersistWorkspaceRenewal rc env op patch = save_renewal rc env op (persist_check op patch)"

text \<open>Every operation on a renewal returns it, as it is in memory, with its error.\<close>

type_synonym outcome = "renewal_operation \<times> errs"

definition persistWorkspaceRenewal :: "renewal_codec \<Rightarrow> renewal_env \<Rightarrow> renewal_operation \<Rightarrow> workspace_patch option \<Rightarrow> outcome renewal" where
  "persistWorkspaceRenewal rc env op patch =
     do {
       err \<leftarrow> PersistWorkspaceRenewal rc env op patch;
       State_Monad.return (if err \<noteq> [] then (op, err) else (op\<lparr>wr_PersistedResult := rc_marshal rc op\<rparr>, []))
     }"

definition releaseWorkspaceRenewalLease :: "renewal_operation \<Rightarrow> renewal_operation" where
  "releaseWorkspaceRenewalLease op = op\<lparr>wr_LeaseToken := [], wr_LeaseExpiresAt := []\<rparr>"

definition retryWorkspaceRenewal :: "renewal_codec \<Rightarrow> renewal_env \<Rightarrow> renewal_operation \<Rightarrow> string \<Rightarrow> errs \<Rightarrow> outcome renewal" where
  "retryWorkspaceRenewal rc env op errorCode cause =
     do {
       (op, err) \<leftarrow> persistWorkspaceRenewal rc env (releaseWorkspaceRenewalLease (op\<lparr>wr_ErrorCode := errorCode\<rparr>)) None;
       State_Monad.return (op, (if cause = [] then [errorCode] else cause) @ err)
     }"

definition manualReviewWorkspaceRenewal :: "renewal_codec \<Rightarrow> renewal_env \<Rightarrow> renewal_operation \<Rightarrow> string \<Rightarrow> outcome renewal" where
  "manualReviewWorkspaceRenewal rc env op errorCode =
     persistWorkspaceRenewal rc env (releaseWorkspaceRenewalLease (op\<lparr>wr_Status := ''manual_review'', wr_ErrorCode := errorCode\<rparr>)) None"

section \<open>Provider facts of a renewal\<close>

definition zero_fact :: provider_fact where
  "zero_fact =
     \<lparr>pf_AccountID = [], pf_WorkspaceID = [], pf_ResourceType = [], pf_ResourceID = [], pf_Available = False,
      pf_Facts = \<lparr>prf_PackageOrSpec = [], prf_ProviderID = [], prf_Zone = [], prf_Status = [], prf_CreatedAt = [], prf_ExpiresAt = [],
        prf_LastReadAt = []\<rparr>, pf_ErrorCode = []\<rparr>"

definition nonempty_texts :: "(string \<times> string) list \<Rightarrow> (string \<times> goval) list" where
  "nonempty_texts kvs = map (\<lambda>(k, v). (k, GStr v)) (filter (\<lambda>(k, v). v \<noteq> []) kvs)"

text \<open>\<^verbatim>\<open>structToMap\<close> of a fact: empty texts are omitted where its tags say so.\<close>

definition providerFactEvidence :: "provider_fact \<Rightarrow> gomap" where
  "providerFactEvidence pf =
     (let f = pf_Facts pf in
      Some ([(''accountId'', GStr (pf_AccountID pf)), (''workspaceId'', GStr (pf_WorkspaceID pf)), (''resourceType'', GStr (pf_ResourceType pf)),
         (''resourceId'', GStr (pf_ResourceID pf)), (''available'', GBool (pf_Available pf)),
         (''facts'', GObj (nonempty_texts
            [(''packageOrSpec'', prf_PackageOrSpec f), (''providerId'', prf_ProviderID f), (''zone'', prf_Zone f), (''status'', prf_Status f),
             (''createdAt'', prf_CreatedAt f), (''expiresAt'', prf_ExpiresAt f), (''lastReadAt'', prf_LastReadAt f)]))] @
         nonempty_texts [(''errorCode'', pf_ErrorCode pf)]))"

definition providerFactFromEvidence :: "renewal_codec \<Rightarrow> gomap \<Rightarrow> provider_fact option" where
  "providerFactFromEvidence rc evidence = (if mlen evidence = 0 then None else rc_fact rc evidence)"

definition workspaceRenewalProviderFactInput :: "renewal_operation \<Rightarrow> string \<Rightarrow> provider_fact_input" where
  "workspaceRenewalProviderFactInput op resourceType =
     \<lparr>pfi_AccountID = wr_AccountID op, pfi_WorkspaceID = wr_WorkspaceID op, pfi_ResourceType = resourceType,
      pfi_ResourceID = (if resourceType = ''storage'' then wr_StorageID op else wr_ComputeID op)\<rparr>"

text \<open>The fact, and whether the read succeeded.\<close>

definition read_fact :: "renewal_codec \<Rightarrow> renewal_env \<Rightarrow> provider_fact_input \<Rightarrow> (provider_fact \<times> bool) renewal" where
  "read_fact rc env input =
     call rc env (ReadRenewalFacts [input]) (\<lambda>trace.
       case readProviderFact (re_facts env trace) input of
         Inl _ \<Rightarrow> (zero_fact, False)
       | Inr None \<Rightarrow> (zero_fact, True)
       | Inr (Some pf) \<Rightarrow> (pf, True))"

definition resource_identity_ok :: "renewal_operation \<Rightarrow> gomap \<Rightarrow> gomap \<Rightarrow> bool" where
  "resource_identity_ok op compute storage \<longleftrightarrow>
     stringValue (mget compute ''accountId'') = wr_AccountID op \<and> stringValue (mget storage ''accountId'') = wr_AccountID op \<and>
     stringValue (mget compute ''workspaceId'') = wr_WorkspaceID op \<and> stringValue (mget storage ''workspaceId'') = wr_WorkspaceID op \<and>
     stringValue (mget compute ''providerResourceId'') \<noteq> [] \<and> stringValue (mget storage ''providerResourceId'') \<noteq> [] \<and>
     stringValue (mget compute ''packageId'') = wr_PackageID op \<and> int_field storage ''sizeGb'' = wr_StorageGB op \<and>
     stringValue (mget storage ''computeAllocationId'') = wr_ComputeID op"

definition provider_truth_invalid :: string where
  "provider_truth_invalid = ''workspace_renewal_provider_truth_invalid''"

definition workspaceRenewalResources ::
    "renewal_codec \<Rightarrow> renewal_env \<Rightarrow> renewal_operation \<Rightarrow> (string + provider_fact \<times> provider_fact) renewal" where
  "workspaceRenewalResources rc env op =
     do {
       compute \<leftarrow> getCompute env (wr_ComputeID op);
       storage \<leftarrow> getStorage env (wr_StorageID op);
       (case (compute, storage) of
          (Some c, Some s) \<Rightarrow>
            if \<not> resource_identity_ok op c s then State_Monad.return (Inl ''workspace_renewal_resource_identity_mismatch'')
            else
              (case rfc3339_parse (wr_PaidThrough op) of
                 None \<Rightarrow> State_Monad.return (Inl provider_truth_invalid)
               | Some paidThrough \<Rightarrow>
                   (let ci = workspaceRenewalProviderFactInput op ''compute''; si = workspaceRenewalProviderFactInput op ''storage'' in
                    do {
                      answer \<leftarrow> call rc env (ReadRenewalFacts [ci, si]) (\<lambda>trace. readProviderFacts (re_facts env trace) [ci, si]);
                      State_Monad.return (case answer of
                          Inl _ \<Rightarrow> Inl provider_truth_invalid
                        | Inr facts \<Rightarrow>
                            (let pick = (\<lambda>input. case map_of facts (providerFactKey input) of None \<Rightarrow> zero_fact | Some pf \<Rightarrow> pf) in
                             if providerFactCovers ci (pick ci) (stringValue (mget c ''providerResourceId'')) paidThrough \<and>
                                providerFactCovers si (pick si) (stringValue (mget s ''providerResourceId'')) paidThrough
                             then Inr (pick ci, pick si) else Inl provider_truth_invalid))
                    }))
        | _ \<Rightarrow> State_Monad.return (Inl ''workspace_renewal_resource_identity_mismatch''))
     }"

text \<open>The row with the fact, where the fact covers the renewed period and agrees with the evidence kept so far.\<close>

definition readback_row :: "renewal_codec \<Rightarrow> string \<Rightarrow> renewal_operation \<Rightarrow> provider_fact \<Rightarrow> bool \<Rightarrow> gomap option \<Rightarrow> gomap option" where
  "readback_row rc resourceType op pf readOK existing =
     (case existing of
        None \<Rightarrow> None
      | Some row \<Rightarrow>
          (case rfc3339_parse (wr_RenewedThrough op) of
             None \<Rightarrow> None
           | Some renewedThrough \<Rightarrow>
               if \<not> readOK \<or> \<not> providerFactCovers (workspaceRenewalProviderFactInput op resourceType) pf
                    (stringValue (mget row ''providerResourceId'')) renewedThrough then None
               else
                 (case providerFactFromEvidence rc (if resourceType = ''storage'' then wr_StorageReadback op else wr_ComputeReadback op) of
                    Some prior \<Rightarrow>
                      if pf_Available prior \<and> providerFactStatusUsable resourceType (prf_Status (pf_Facts prior)) \<and>
                         (prf_ProviderID (pf_Facts prior) \<noteq> prf_ProviderID (pf_Facts pf) \<or>
                          prf_PackageOrSpec (pf_Facts prior) \<noteq> prf_PackageOrSpec (pf_Facts pf) \<or>
                          prf_Zone (pf_Facts prior) \<noteq> prf_Zone (pf_Facts pf))
                      then None else Some (projectProviderFact row pf)
                  | None \<Rightarrow> Some (projectProviderFact row pf))))"

definition workspaceRenewalProviderReadback ::
    "renewal_codec \<Rightarrow> renewal_env \<Rightarrow> string \<Rightarrow> renewal_operation \<Rightarrow> provider_fact \<Rightarrow> bool \<Rightarrow> gomap option renewal" where
  "workspaceRenewalProviderReadback rc env resourceType op pf readOK =
     do {
       existing \<leftarrow> (if resourceType = ''storage'' then getStorage env (wr_StorageID op) else getCompute env (wr_ComputeID op));
       State_Monad.return (readback_row rc resourceType op pf readOK existing)
     }"

section \<open>Saving a resource\<close>

definition preserveResourceAutoRenew :: "gomap \<Rightarrow> gomap \<Rightarrow> gomap" where
  "preserveResourceAutoRenew current incoming =
     (if mhas current ''autoRenew'' then mset_key (cloneMap incoming) ''autoRenew'' (mget current ''autoRenew'')
      else map_option (AList.delete ''autoRenew'') (cloneMap incoming))"

definition saveResourcePreservingAutoRenew :: "renewal_codec \<Rightarrow> renewal_env \<Rightarrow> string \<Rightarrow> gomap \<Rightarrow> errs renewal" where
  "saveResourcePreservingAutoRenew rc env resourceType row =
     (if stringValue (mget row ''id'') = [] then State_Monad.return [''missing_record_id'']
      else if resourceType \<noteq> ''compute'' \<and> resourceType \<noteq> ''storage'' then State_Monad.return [''invalid_billing_resource_type'']
      else
        do {
          outcome \<leftarrow> ask (\<lambda>w. re_save env (rw_trace w));
          current \<leftarrow> ask (\<lambda>w. map_of ((if resourceType = ''storage'' then rt_storages else rt_computes) (rw_tables w)) (stringValue (mget row ''id'')));
          let saved = (case current of None \<Rightarrow> row | Some c \<Rightarrow> preserveResourceAutoRenew c row);
          let conflict = (case current of None \<Rightarrow> False | Some c \<Rightarrow> stringValue (mget c ''accountId'') \<noteq> stringValue (mget row ''accountId''));
          if outcome = SaveRefused then do { emit rc env (SaveResource resourceType saved SaveRefused); State_Monad.return database_error }
          else if conflict then State_Monad.return [''idempotency_conflict'']
          else
            do {
              emit rc env (SaveResource resourceType saved outcome);
              State_Monad.return (if outcome = SaveUnanswered then database_error else [])
            }
        })"

section \<open>Receipts\<close>

definition workspaceRenewalReceiptCost :: "renewal_operation \<Rightarrow> bool \<Rightarrow> int \<Rightarrow> (string \<times> goval) list" where
  "workspaceRenewalReceiptCost op charged userID =
     [(''priceVersion'', GStr (wr_PriceVersion op)), (''currency'', GStr pricingCurrency), (''billingUnit'', GStr pricingBillingUnit),
      (''totalUsdMicros'', GInt KInt64 (wr_TotalUSDMicros op)),
      (''periodStart'', GStr (if charged then wr_PaidThrough op else wr_PeriodStart op)),
      (''paidThrough'', GStr (if charged then wr_RenewedThrough op else wr_PaidThrough op)),
      (''resourceType'', GStr ''workspace''), (''resourceId'', GStr (wr_WorkspaceID op)),
      (''components'', GObj
         [(''compute'', GObj [(''resourceType'', GStr ''compute''), (''resourceId'', GStr (wr_ComputeID op)),
             (''chargeUsdMicros'', GInt KInt64 (wr_ComputeUSDMicros op))]),
          (''storage'', GObj [(''resourceType'', GStr ''storage''), (''resourceId'', GStr (wr_StorageID op)),
             (''sizeGb'', GInt KInt64 (wr_StorageGB op)), (''chargeUsdMicros'', GInt KInt64 (wr_StorageUSDMicros op))])])] @
     (if charged
      then [(''sub2apiUserId'', GInt KInt64 userID), (''sub2apiRedeemCode'', GStr (wr_RedeemCode op)),
            (''postChargeBalanceUsdMicros'', GInt KInt64 (wr_PostChargeBalanceUSDMicros op))]
      else [])"

definition renewal_receipt :: "string \<Rightarrow> renewal_operation \<Rightarrow> (string \<times> goval) list \<Rightarrow> gomap \<Rightarrow> receipt_input" where
  "renewal_receipt receiptType op execution cost =
     empty_receipt_input
       \<lparr>ri_Type := receiptType, ri_Status := ''completed'', ri_Surface := ''control_plane'', ri_AccountID := wr_AccountID op,
        ri_WorkspaceID := wr_WorkspaceID op, ri_RequestID := wr_ID op, ri_Execution := Some execution, ri_Cost := cost,
        ri_Owner := Some [(''accountId'', GStr (wr_AccountID op)), (''workspaceId'', GStr (wr_WorkspaceID op)),
          (''ownerUserId'', GStr (wr_OwnerUserID op))]\<rparr>"

definition refund_receipt :: "renewal_operation \<Rightarrow> int \<Rightarrow> receipt_input" where
  "refund_receipt op userID =
     renewal_receipt ''billing.workspace_refunded.v1'' op
       [(''resourceType'', GStr ''workspace''), (''resourceId'', GStr (wr_WorkspaceID op)), (''reason'', GStr (wr_RefundReason op)),
        (''computeAllocationId'', GStr (wr_ComputeID op)), (''storageId'', GStr (wr_StorageID op)),
        (''refundConfirmation'', gomap_val (wr_RefundConfirmation op))]
       (put_fields (Some (workspaceRenewalReceiptCost op False 0))
         [(''periodStart'', GStr (wr_PaidThrough op)), (''paidThrough'', GStr (wr_RenewedThrough op)),
          (''sub2apiUserId'', GInt KInt64 userID), (''sub2apiRedeemCode'', GStr (wr_RedeemCode op)),
          (''sub2apiRefundCode'', GStr (wr_RefundCode op)), (''refundUsdMicros'', GInt KInt64 (wr_TotalUSDMicros op))])"

definition renewed_receipt :: "renewal_operation \<Rightarrow> int \<Rightarrow> receipt_input" where
  "renewed_receipt op userID =
     (let input = renewal_receipt ''billing.workspace_renewed.v1'' op
            [(''resourceType'', GStr ''workspace''), (''resourceId'', GStr (wr_WorkspaceID op)),
             (''computeAllocationId'', GStr (wr_ComputeID op)), (''storageId'', GStr (wr_StorageID op)),
             (''computeReadback'', gomap_val (wr_ComputeReadback op)), (''storageReadback'', gomap_val (wr_StorageReadback op))]
            (Some (workspaceRenewalReceiptCost op True userID))
      in if wr_ReviewResolutionKey op \<noteq> []
         then input
           \<lparr>ri_InputRefs := Some [(''evidenceRef'', GStr (wr_ReviewResolutionEvidenceRef op))],
            ri_ReviewerChecks := Some [(''decision'', GStr (wr_ReviewResolutionDecision op)), (''reviewer'', GStr (wr_ReviewResolutionReviewer op)),
              (''evidenceRef'', GStr (wr_ReviewResolutionEvidenceRef op)), (''resolvedAt'', GStr (wr_ReviewResolutionResolvedAt op))]\<rparr>
         else input)"

definition expiry_receipt :: "renewal_operation \<Rightarrow> receipt_input" where
  "expiry_receipt op =
     renewal_receipt ''billing.workspace_expired.v1'' op
       ([(''resourceType'', GStr ''workspace''), (''resourceId'', GStr (wr_WorkspaceID op)), (''reason'', GStr ''expired_unpaid''),
         (''computeAllocationId'', GStr (wr_ComputeID op)), (''storageId'', GStr (wr_StorageID op)),
         (''providerAction'', GStr ''none_expire_by_provider'')] @
        nonempty_texts [(''priorStatus'', wr_PriorStatus op), (''priorErrorCode'', wr_PriorErrorCode op)])
       (put_fields (Some (workspaceRenewalReceiptCost op False 0))
         [(''periodStart'', GStr (wr_ExpiryPeriodStart op)), (''paidThrough'', GStr (wr_ExpiryPaidThrough op))])"

definition RecordMonthlyReceipt :: "renewal_codec \<Rightarrow> renewal_env \<Rightarrow> receipt_input \<Rightarrow> string \<Rightarrow> (errs + string) renewal" where
  "RecordMonthlyReceipt rc env input key = call rc env (RecordRenewalReceipt input key) (\<lambda>trace. re_receipt env trace input key)"

definition recordWorkspaceRefundReceipt :: "renewal_codec \<Rightarrow> renewal_env \<Rightarrow> renewal_operation \<Rightarrow> outcome renewal" where
  "recordWorkspaceRefundReceipt rc env op =
     do {
       user \<leftarrow> gateway_user env (wr_AccountID op);
       (case user of
          Inl err \<Rightarrow> retryWorkspaceRenewal rc env op ''sub2api_account_mapping_required'' err
        | Inr userID \<Rightarrow>
            do {
              receipt \<leftarrow> RecordMonthlyReceipt rc env (refund_receipt op userID) (wr_ID op @ '':refund-receipt'');
              (case receipt of
                 Inl err \<Rightarrow> retryWorkspaceRenewal rc env op ''ledger_refund_receipt_pending'' err
               | Inr receiptID \<Rightarrow>
                   if receiptID = [] then retryWorkspaceRenewal rc env op ''ledger_refund_receipt_invalid'' [''Ledger refund receipt ID missing'']
                   else persistWorkspaceRenewal rc env
                     (releaseWorkspaceRenewalLease (op\<lparr>wr_RefundReceiptID := receiptID, wr_Phase := ''complete'', wr_ErrorCode := []\<rparr>)) None)
            })
     }"

definition recordWorkspaceRenewalReceipt :: "renewal_codec \<Rightarrow> renewal_env \<Rightarrow> renewal_operation \<Rightarrow> outcome renewal" where
  "recordWorkspaceRenewalReceipt rc env op =
     do {
       user \<leftarrow> gateway_user env (wr_AccountID op);
       (case user of
          Inl err \<Rightarrow> retryWorkspaceRenewal rc env op ''sub2api_account_mapping_required'' err
        | Inr userID \<Rightarrow>
            do {
              receipt \<leftarrow> RecordMonthlyReceipt rc env (renewed_receipt op userID) (wr_ID op @ '':receipt'');
              (case receipt of
                 Inl err \<Rightarrow> retryWorkspaceRenewal rc env op ''ledger_receipt_pending'' err
               | Inr receiptID \<Rightarrow>
                   if receiptID = [] then retryWorkspaceRenewal rc env op ''ledger_receipt_invalid'' [''ledger receipt ID missing'']
                   else persistWorkspaceRenewal rc env
                     (releaseWorkspaceRenewalLease
                       (op\<lparr>wr_ReceiptID := receiptID, wr_Status := ''active'', wr_Phase := ''complete'', wr_ErrorCode := []\<rparr>)) None)
            })
     }"

text \<open>The receipt of an expiry; a failure is kept in the operation.\<close>

definition expiry_receipt_failed :: "renewal_codec \<Rightarrow> renewal_env \<Rightarrow> renewal_operation \<Rightarrow> string \<Rightarrow> errs \<Rightarrow> outcome renewal" where
  "expiry_receipt_failed rc env op errorCode cause =
     do {
       (op, err) \<leftarrow> persistWorkspaceRenewal rc env (releaseWorkspaceRenewalLease (op\<lparr>wr_ExpiryErrorCode := errorCode\<rparr>)) None;
       State_Monad.return (op, cause @ err)
     }"

definition recordWorkspaceRenewalExpiryReceipt :: "renewal_codec \<Rightarrow> renewal_env \<Rightarrow> renewal_operation \<Rightarrow> outcome renewal" where
  "recordWorkspaceRenewalExpiryReceipt rc env op =
     (if wr_ExpiryStatus op \<noteq> ''expired_unpaid'' \<or> wr_ExpiryPhase op \<noteq> ''receipt'' then State_Monad.return (op, [])
      else
        do {
          receipt \<leftarrow> RecordMonthlyReceipt rc env (expiry_receipt op) (wr_ID op @ '':expiry-receipt'');
          (case receipt of
             Inl err \<Rightarrow> expiry_receipt_failed rc env op ''ledger_expiry_receipt_pending'' err
           | Inr receiptID \<Rightarrow>
               if receiptID = [] then expiry_receipt_failed rc env op ''ledger_expiry_receipt_invalid'' [''Ledger expiry receipt ID missing'']
               else persistWorkspaceRenewal rc env
                 (releaseWorkspaceRenewalLease
                   (op\<lparr>wr_ExpiryReceiptID := receiptID, wr_ExpiryPhase := ''complete'', wr_ExpiryErrorCode := [],
                       wr_ReceiptID := (if wr_ReceiptID op = [] then receiptID else wr_ReceiptID op)\<rparr>)) None)
        })"

section \<open>The charge\<close>

definition charge_unknown :: string where
  "charge_unknown = ''sub2api charge result unknown''"

definition key_missing :: string where
  "key_missing = ''sub2api workspace key missing''"

definition workspaceReservedKeyName :: "renewal_codec \<Rightarrow> string \<Rightarrow> string" where
  "workspaceReservedKeyName rc workspaceID = ''opl-workspace-'' @ take 12 (stableID (rc_sha1hex rc) [workspaceID])"

definition WorkspaceKeyByIDForConvergence ::
    "renewal_codec \<Rightarrow> renewal_env \<Rightarrow> int \<Rightarrow> int \<Rightarrow> string \<Rightarrow> (errs + gateway_key) renewal" where
  "WorkspaceKeyByIDForConvergence rc env userID keyID name =
     (if userID \<le> 0 \<or> keyID \<le> 0 \<or> blank name then State_Monad.return (Inl [key_missing])
      else
        do {
          answer \<leftarrow> call rc env (ReadKeys userID name) (\<lambda>trace. re_keys env trace userID name);
          State_Monad.return (case answer of
              Inl err \<Rightarrow> Inl err
            | Inr keys \<Rightarrow>
                (case keys of
                   [key] \<Rightarrow> if gk_ID key = keyID \<and> gk_UserID key = userID \<and> gk_Name key = name then Inr key else Inl [key_missing]
                 | _ \<Rightarrow> Inl [key_missing]))
        })"

text \<open>The workspace has an active key at the Gateway: the error of the lookup, or of a key that does not fit.\<close>

definition key_problem :: "renewal_codec \<Rightarrow> renewal_env \<Rightarrow> renewal_operation \<Rightarrow> int \<Rightarrow> errs option renewal" where
  "key_problem rc env op userID =
     do {
       workspace \<leftarrow> getWorkspace env (wr_WorkspaceID op);
       let keyID = int_field (case workspace of None \<Rightarrow> None | Some row \<Rightarrow> row) ''workspaceApiKeyId'';
       key \<leftarrow> WorkspaceKeyByIDForConvergence rc env userID keyID (workspaceReservedKeyName rc (wr_WorkspaceID op));
       State_Monad.return (case key of
           Inl err \<Rightarrow> Some err
         | Inr k \<Rightarrow>
             if workspace = None \<or> gk_ID k \<noteq> keyID \<or> gk_UserID k \<noteq> userID \<or> gk_Status k \<noteq> ''active'' then Some [] else None)
     }"

definition renewal_money :: "renewal_operation \<Rightarrow> int \<Rightarrow> money_input" where
  "renewal_money op userID =
     \<lparr>mi_UserID = userID, mi_Code = wr_RedeemCode op, mi_USDMicros = wr_TotalUSDMicros op,
      mi_Notes = ''OPL Workspace monthly '' @ wr_WorkspaceID op\<rparr>"

definition ChargeSub2API :: "renewal_codec \<Rightarrow> renewal_env \<Rightarrow> renewal_operation \<Rightarrow> int \<Rightarrow> (errs + gateway_charge) renewal" where
  "ChargeSub2API rc env op userID =
     call rc env (ChargeWallet (wr_ID op) (renewal_money op userID)) (\<lambda>trace. re_charge env trace (renewal_money op userID))"

definition read_history :: "renewal_codec \<Rightarrow> renewal_env \<Rightarrow> int \<Rightarrow> string \<Rightarrow> (errs + (string \<times> history_entry) list) renewal" where
  "read_history rc env userID redeem =
     call rc env (ReadWalletHistory userID [redeem]) (\<lambda>trace. re_history env trace userID [redeem])"

definition read_balance :: "renewal_codec \<Rightarrow> renewal_env \<Rightarrow> int \<Rightarrow> (errs + gateway_balance) renewal" where
  "read_balance rc env userID = call rc env (ReadWalletBalance userID) (\<lambda>trace. re_balance env trace userID)"

text \<open>
  Parts of a handler either return from it with an outcome (\<open>Inl\<close>), or go on with an operation and a value (\<open>Inr\<close>).
\<close>

definition leave :: "outcome renewal \<Rightarrow> (outcome + 'a) renewal" where
  "leave c = do { out \<leftarrow> c; State_Monad.return (Inl out) }"

definition proceed :: "(outcome + 'a) renewal \<Rightarrow> ('a \<Rightarrow> outcome renewal) \<Rightarrow> outcome renewal" where
  "proceed c f = do { r \<leftarrow> c; (case r of Inl out \<Rightarrow> State_Monad.return out | Inr x \<Rightarrow> f x) }"

text \<open>An earlier attempt: the history decides whether the charge is repeated, confirmed or in conflict.\<close>

definition charge_again ::
    "renewal_codec \<Rightarrow> renewal_env \<Rightarrow> renewal_operation \<Rightarrow> int \<Rightarrow> (outcome + renewal_operation \<times> (errs + gateway_charge)) renewal" where
  "charge_again rc env op userID =
     do {
       answer \<leftarrow> read_history rc env userID (wr_RedeemCode op);
       (case answer of
          Inl err \<Rightarrow> leave (retryWorkspaceRenewal rc env op ''sub2api_charge_history_unavailable'' err)
        | Inr history \<Rightarrow>
            (let found = sub2APIReconciliationCode
                   (Some [(''sub2apiRedeemCode'', GStr (wr_RedeemCode op)), (''chargeUsdMicros'', GInt KInt64 (wr_TotalUSDMicros op))]) userID history in
             if found = ''sub2api_charge_missing'' then
               do { charge \<leftarrow> ChargeSub2API rc env op userID; State_Monad.return (Inr (op, charge)) }
             else if found \<noteq> [] then leave (manualReviewWorkspaceRenewal rc env op found)
             else State_Monad.return (Inr (op, Inr \<lparr>gc_Code = wr_RedeemCode op, gc_UserID = userID, gc_USDMicros = wr_TotalUSDMicros op,
                    gc_Status = ''used''\<rparr>))))
     }"

text \<open>The first attempt: it is stored before the Gateway is asked.\<close>

definition charge_first ::
    "renewal_codec \<Rightarrow> renewal_env \<Rightarrow> renewal_operation \<Rightarrow> int \<Rightarrow> (outcome + renewal_operation \<times> (errs + gateway_charge)) renewal" where
  "charge_first rc env op userID =
     do {
       answer \<leftarrow> read_balance rc env userID;
       (case answer of
          Inl err \<Rightarrow> leave (retryWorkspaceRenewal rc env op ''sub2api_balance_unavailable'' err)
        | Inr balance \<Rightarrow>
            if gb_USDMicros balance < wr_TotalUSDMicros op then
              leave (do {
                (op, err) \<leftarrow> persistWorkspaceRenewal rc env
                   (releaseWorkspaceRenewalLease (op\<lparr>wr_Status := ''insufficient'', wr_ErrorCode := ''monthly_balance_insufficient''\<rparr>)) None;
                State_Monad.return (op, if err \<noteq> [] then err else [''monthly_balance_insufficient''])
              })
            else
              do {
                (op, err) \<leftarrow> persistWorkspaceRenewal rc env
                   (op\<lparr>wr_PreChargeBalanceUSDMicros := gb_USDMicros balance, wr_ChargeAttempted := True\<rparr>) None;
                if err \<noteq> [] then State_Monad.return (Inl (op, err))
                else do { charge \<leftarrow> ChargeSub2API rc env op userID; State_Monad.return (Inr (op, charge)) }
              })
     }"

definition charge_confirmation :: "gateway_charge \<Rightarrow> gomap" where
  "charge_confirmation c =
     Some [(''code'', GStr (gc_Code c)), (''userId'', GInt KInt64 (gc_UserID c)), (''chargeUsdMicros'', GInt KInt64 (gc_USDMicros c)),
       (''status'', GStr (gc_Status c))]"

definition confirm_charge ::
    "renewal_codec \<Rightarrow> renewal_env \<Rightarrow> int \<Rightarrow> renewal_operation \<times> (errs + gateway_charge) \<Rightarrow> (outcome + renewal_operation) renewal" where
  "confirm_charge rc env userID r =
     (case r of (op, charge) \<Rightarrow>
      case charge of
        Inl err \<Rightarrow>
          if charge_unknown \<in> set err then leave (retryWorkspaceRenewal rc env op ''sub2api_charge_unconfirmed'' err)
          else leave (manualReviewWorkspaceRenewal rc env op ''sub2api_charge_unconfirmed'')
      | Inr c \<Rightarrow>
          if \<not> monthlyChargeConfirmationMatches (charge_confirmation c) (wr_RedeemCode op) userID (wr_TotalUSDMicros op)
          then leave (manualReviewWorkspaceRenewal rc env op ''sub2api_charge_confirmation_invalid'')
          else
            do {
              (op, err) \<leftarrow> persistWorkspaceRenewal rc env (op\<lparr>wr_ChargeConfirmation := charge_confirmation c, wr_ErrorCode := []\<rparr>) None;
              State_Monad.return (if err \<noteq> [] then Inl (op, err) else Inr op)
            })"

definition obtain_charge :: "renewal_codec \<Rightarrow> renewal_env \<Rightarrow> renewal_operation \<Rightarrow> int \<Rightarrow> (outcome + renewal_operation) renewal" where
  "obtain_charge rc env op userID =
     do {
       problem \<leftarrow> key_problem rc env op userID;
       (case problem of
          Some err \<Rightarrow> leave (retryWorkspaceRenewal rc env op ''gateway_key_unavailable'' err)
        | None \<Rightarrow>
            do {
              r \<leftarrow> (if wr_ChargeAttempted op \<or> wr_ErrorCode op = ''sub2api_charge_unconfirmed'' then charge_again rc env op userID
                    else charge_first rc env op userID);
              (case r of Inl out \<Rightarrow> State_Monad.return (Inl out) | Inr x \<Rightarrow> confirm_charge rc env userID x)
            })
     }"

text \<open>The balance after the charge is the balance before it less the charge.\<close>

definition check_post_charge :: "renewal_codec \<Rightarrow> renewal_env \<Rightarrow> int \<Rightarrow> renewal_operation \<Rightarrow> outcome renewal" where
  "check_post_charge rc env userID op =
     do {
       answer \<leftarrow> read_balance rc env userID;
       (case answer of
          Inl err \<Rightarrow> retryWorkspaceRenewal rc env op ''post_charge_balance_unavailable'' err
        | Inr balance \<Rightarrow>
            (let post = gb_USDMicros balance; op = op\<lparr>wr_PostChargeBalanceKnown := True, wr_PostChargeBalanceUSDMicros := post\<rparr> in
             if wr_PreChargeBalanceUSDMicros op < wr_TotalUSDMicros op \<or> post < 0 \<or>
                post \<noteq> wrap64 (wr_PreChargeBalanceUSDMicros op - wr_TotalUSDMicros op)
             then manualReviewWorkspaceRenewal rc env op ''post_charge_balance_invalid''
             else persistWorkspaceRenewal rc env (op\<lparr>wr_Status := ''debited'', wr_Phase := ''provider_compute'', wr_ErrorCode := []\<rparr>) None))
     }"

definition debitWorkspaceRenewal :: "renewal_codec \<Rightarrow> renewal_env \<Rightarrow> renewal_operation \<Rightarrow> outcome renewal" where
  "debitWorkspaceRenewal rc env op =
     do {
       user \<leftarrow> gateway_user env (wr_AccountID op);
       (case user of
          Inl err \<Rightarrow> retryWorkspaceRenewal rc env op ''sub2api_account_mapping_required'' err
        | Inr userID \<Rightarrow>
            proceed (if wr_ChargeConfirmation op = None then obtain_charge rc env op userID else State_Monad.return (Inr op))
              (check_post_charge rc env userID))
     }"

section \<open>The refund\<close>

definition refund_money :: "renewal_operation \<Rightarrow> int \<Rightarrow> money_input" where
  "refund_money op userID =
     \<lparr>mi_UserID = userID, mi_Code = wr_RefundCode op, mi_USDMicros = wr_TotalUSDMicros op,
      mi_Notes = ''OPL Workspace renewal refund '' @ wr_WorkspaceID op\<rparr>"

definition RefundSub2API :: "renewal_codec \<Rightarrow> renewal_env \<Rightarrow> renewal_operation \<Rightarrow> int \<Rightarrow> (errs + gateway_charge) renewal" where
  "RefundSub2API rc env op userID =
     call rc env (RefundWallet (wr_ID op) (refund_money op userID)) (\<lambda>trace. re_refund env trace (refund_money op userID))"

definition refund_again :: "renewal_codec \<Rightarrow> renewal_env \<Rightarrow> renewal_operation \<Rightarrow> int \<Rightarrow> (outcome + errs + gateway_charge) renewal" where
  "refund_again rc env op userID =
     do {
       answer \<leftarrow> read_history rc env userID (wr_RefundCode op);
       (case answer of
          Inl err \<Rightarrow> leave (retryWorkspaceRenewal rc env op ''sub2api_refund_history_unavailable'' err)
        | Inr history \<Rightarrow>
            (case map_of history (wr_RefundCode op) of
               None \<Rightarrow> do { refund \<leftarrow> RefundSub2API rc env op userID; State_Monad.return (Inr refund) }
             | Some entry \<Rightarrow>
                 if he_Type entry \<noteq> ''balance'' \<or> he_Status entry \<noteq> ''used'' \<or> he_UsedBy entry \<noteq> Some userID \<or>
                    he_ValueUSDMicros entry \<noteq> wr_TotalUSDMicros op
                 then leave (manualReviewWorkspaceRenewal rc env op ''sub2api_refund_mismatch'')
                 else State_Monad.return (Inr (Inr \<lparr>gc_Code = wr_RefundCode op, gc_UserID = userID, gc_USDMicros = wr_TotalUSDMicros op,
                        gc_Status = ''used''\<rparr>))))
     }"

definition refund_confirmation :: "gateway_charge \<Rightarrow> gomap" where
  "refund_confirmation c =
     Some [(''code'', GStr (gc_Code c)), (''userId'', GInt KInt64 (gc_UserID c)), (''refundUsdMicros'', GInt KInt64 (gc_USDMicros c)),
       (''status'', GStr (gc_Status c))]"

definition finish_refund :: "renewal_codec \<Rightarrow> renewal_env \<Rightarrow> renewal_operation \<Rightarrow> int \<Rightarrow> errs + gateway_charge \<Rightarrow> outcome renewal" where
  "finish_refund rc env op userID refund =
     (case refund of
        Inl err \<Rightarrow> retryWorkspaceRenewal rc env op ''sub2api_refund_unconfirmed'' (err @ [charge_unknown])
      | Inr c \<Rightarrow>
          if gc_Code c \<noteq> wr_RefundCode op \<or> gc_UserID c \<noteq> userID \<or> gc_USDMicros c \<noteq> wr_TotalUSDMicros op \<or> gc_Status c \<noteq> ''used''
          then retryWorkspaceRenewal rc env op ''sub2api_refund_unconfirmed'' [charge_unknown]
          else
            do {
              (op, err) \<leftarrow> persistWorkspaceRenewal rc env
                 (op\<lparr>wr_RefundConfirmation := refund_confirmation c, wr_Status := ''refunded'', wr_Phase := ''refund_receipt'', wr_ErrorCode := []\<rparr>) None;
              if err \<noteq> [] then State_Monad.return (op, err) else recordWorkspaceRefundReceipt rc env op
            })"

definition refundWorkspaceRenewal :: "renewal_codec \<Rightarrow> renewal_env \<Rightarrow> renewal_operation \<Rightarrow> string \<Rightarrow> outcome renewal" where
  "refundWorkspaceRenewal rc env op reason =
     do {
       user \<leftarrow> gateway_user env (wr_AccountID op);
       (case user of
          Inl err \<Rightarrow> manualReviewWorkspaceRenewal rc env op ''workspace_renewal_refund_account_unmapped''
        | Inr userID \<Rightarrow>
            if wr_RefundAttempted op then proceed (refund_again rc env op userID) (finish_refund rc env op userID)
            else
              do {
                (op, err) \<leftarrow> persistWorkspaceRenewal rc env
                   (op\<lparr>wr_Status := ''refund_pending'', wr_Phase := ''refund'', wr_RefundAttempted := True, wr_RefundReason := reason, wr_ErrorCode := []\<rparr>) None;
                if err \<noteq> [] then State_Monad.return (op, err)
                else do { refund \<leftarrow> RefundSub2API rc env op userID; finish_refund rc env op userID refund }
              })
     }"

section \<open>The provider\<close>

definition providerResourceMutationEvidence :: "resource_mutation \<Rightarrow> gomap" where
  "providerResourceMutationEvidence r =
     Some [(''id'', GStr (rm_ID r)), (''operationId'', GStr (rm_OperationID r)), (''accountId'', GStr (rm_AccountID r)),
       (''workspaceId'', GStr (rm_WorkspaceID r)), (''status'', GStr (rm_Status r)), (''providerRequestId'', GStr (rm_ProviderRequestID r))]"

definition RenewMonthlyResource :: "renewal_codec \<Rightarrow> renewal_env \<Rightarrow> string \<Rightarrow> renewal_operation \<Rightarrow> (resource_mutation \<times> errs) renewal" where
  "RenewMonthlyResource rc env resourceType op =
     (let e = RenewResource resourceType (wr_AccountID op) (wr_WorkspaceID op)
            (if resourceType = ''storage'' then wr_StorageID op else wr_ComputeID op) (wr_ID op @ '':'' @ resourceType)
      in call rc env e (\<lambda>trace. re_renew env trace e))"

text \<open>A read of a resource, with its evidence and, where it is valid, its new row.\<close>

definition read_back ::
    "renewal_codec \<Rightarrow> renewal_env \<Rightarrow> string \<Rightarrow> renewal_operation \<Rightarrow> (renewal_operation \<times> (provider_fact \<times> bool) \<times> gomap option) renewal" where
  "read_back rc env resourceType op =
     do {
       (pf, readOK) \<leftarrow> read_fact rc env (workspaceRenewalProviderFactInput op resourceType);
       row \<leftarrow> workspaceRenewalProviderReadback rc env resourceType op pf readOK;
       State_Monad.return
         (if resourceType = ''storage'' then op\<lparr>wr_StorageReadback := providerFactEvidence pf\<rparr> else op\<lparr>wr_ComputeReadback := providerFactEvidence pf\<rparr>,
          (pf, readOK), row)
     }"

definition verify_compute :: "renewal_codec \<Rightarrow> renewal_env \<Rightarrow> renewal_operation \<Rightarrow> outcome renewal" where
  "verify_compute rc env op =
     do {
       (op, (pf, readOK), row) \<leftarrow> read_back rc env ''compute'' op;
       if readOK \<and> providerFactConfirmedAbsent (workspaceRenewalProviderFactInput op ''compute'') pf
       then refundWorkspaceRenewal rc env op ''fabric_compute_confirmed_absent''
       else
         (case row of
            None \<Rightarrow> manualReviewWorkspaceRenewal rc env op ''fabric_compute_renewal_unconfirmed''
          | Some r \<Rightarrow>
              do {
                err \<leftarrow> saveResourcePreservingAutoRenew rc env ''compute'' r;
                if err \<noteq> [] then State_Monad.return (op, err)
                else persistWorkspaceRenewal rc env (op\<lparr>wr_Phase := ''provider_storage'', wr_ErrorCode := []\<rparr>) None
              })
     }"

definition verify_storage :: "renewal_codec \<Rightarrow> renewal_env \<Rightarrow> renewal_operation \<Rightarrow> outcome renewal" where
  "verify_storage rc env op =
     do {
       (op, (pf, readOK), row) \<leftarrow> read_back rc env ''storage'' op;
       if readOK \<and> providerFactConfirmedAbsent (workspaceRenewalProviderFactInput op ''storage'') pf
       then manualReviewWorkspaceRenewal rc env op ''fabric_storage_confirmed_absent_after_compute_renewed''
       else
         (case row of
            None \<Rightarrow> manualReviewWorkspaceRenewal rc env op ''fabric_storage_renewal_unconfirmed''
          | Some r \<Rightarrow>
              do {
                err \<leftarrow> saveResourcePreservingAutoRenew rc env ''storage'' r;
                if err \<noteq> [] then State_Monad.return (op, err)
                else persistWorkspaceRenewal rc env (op\<lparr>wr_Status := ''verifying'', wr_Phase := ''entitlement'', wr_ErrorCode := []\<rparr>) None
              })
     }"

definition renewWorkspaceProvider :: "renewal_codec \<Rightarrow> renewal_env \<Rightarrow> renewal_operation \<Rightarrow> outcome renewal" where
  "renewWorkspaceProvider rc env op =
     (if wr_Phase op = ''provider_compute'' then
        do {
          (result, err) \<leftarrow> RenewMonthlyResource rc env ''compute'' op;
          persistWorkspaceRenewal rc env
            (op\<lparr>wr_ComputeRenewal := providerResourceMutationEvidence result, wr_Phase := ''verify_compute'',
                wr_ErrorCode := (if err \<noteq> [] then ''fabric_compute_renewal_unconfirmed'' else wr_ErrorCode op)\<rparr>) None
        }
      else if wr_Phase op = ''verify_compute'' then verify_compute rc env op
      else if wr_Phase op = ''provider_storage'' then
        do {
          (result, err) \<leftarrow> RenewMonthlyResource rc env ''storage'' op;
          persistWorkspaceRenewal rc env
            (op\<lparr>wr_StorageRenewal := providerResourceMutationEvidence result, wr_Phase := ''verify_storage'',
                wr_ErrorCode := (if err \<noteq> [] then ''fabric_storage_renewal_unconfirmed'' else wr_ErrorCode op)\<rparr>) None
        }
      else if wr_Phase op = ''verify_storage'' then verify_storage rc env op
      else manualReviewWorkspaceRenewal rc env op ''workspace_renewal_provider_phase_invalid'')"

definition verify_resource :: "renewal_codec \<Rightarrow> renewal_env \<Rightarrow> string \<Rightarrow> renewal_operation \<Rightarrow> (renewal_operation \<times> bool) renewal" where
  "verify_resource rc env resourceType op =
     do {
       (op, _, row) \<leftarrow> read_back rc env resourceType op;
       (case row of
          None \<Rightarrow> State_Monad.return (op, False)
        | Some r \<Rightarrow> do { err \<leftarrow> saveResourcePreservingAutoRenew rc env resourceType r; State_Monad.return (op, err = []) })
     }"

definition verifyWorkspaceRenewalProviderReadback :: "renewal_codec \<Rightarrow> renewal_env \<Rightarrow> renewal_operation \<Rightarrow> (renewal_operation \<times> bool) renewal" where
  "verifyWorkspaceRenewalProviderReadback rc env op =
     do {
       (op, ok) \<leftarrow> verify_resource rc env ''compute'' op;
       if ok then verify_resource rc env ''storage'' op else State_Monad.return (op, False)
     }"

section \<open>The new period\<close>

definition entitlement_fields :: "renewal_operation \<Rightarrow> gotime \<Rightarrow> (string \<times> goval) list" where
  "entitlement_fields op renewedThrough =
     [(''periodStart'', GStr (wr_PaidThrough op)), (''paidThrough'', GStr (wr_RenewedThrough op)),
      (''nextRenewalAt'', GStr (rfc3339_nano (t_add renewedThrough (- monthlyRenewalLead)))), (''renewalStatus'', GStr ''active'')]"

text \<open>An operation that is paid after the workspace was suspended revives it.\<close>

definition revives :: "renewal_operation \<Rightarrow> bool" where
  "revives op \<longleftrightarrow> wr_ExpiryStatus op = ''past_due'' \<and> wr_ExpiryPaidThrough op = wr_PaidThrough op"

definition revival_state_ok :: "renewal_operation \<Rightarrow> gomap \<Rightarrow> bool" where
  "revival_state_ok op workspace \<longleftrightarrow>
     stringValue (mget workspace ''state'') = ''suspended'' \<and> stringValue (mget workspace ''status'') = ''suspended'' \<and>
     stringValue (mget workspace ''currentComputeAllocationId'') = wr_ComputeID op \<and> stringValue (mget workspace ''currentAttachmentId'') \<noteq> []"

definition clear_expiry :: "renewal_operation \<Rightarrow> renewal_operation" where
  "clear_expiry op =
     op\<lparr>wr_PriorStatus := [], wr_PriorErrorCode := [], wr_ExpiryStatus := [], wr_ExpiryPhase := [], wr_ExpiryErrorCode := [],
        wr_ExpiryReceiptID := [], wr_ExpiryPeriodStart := [], wr_ExpiryPaidThrough := []\<rparr>"

definition commitWorkspaceRenewalEntitlement :: "renewal_codec \<Rightarrow> renewal_env \<Rightarrow> renewal_operation \<Rightarrow> outcome renewal" where
  "commitWorkspaceRenewalEntitlement rc env op =
     do {
       found \<leftarrow> getWorkspace env (wr_WorkspaceID op);
       (let workspace = (case found of None \<Rightarrow> None | Some row \<Rightarrow> row); str = (\<lambda>key. stringValue (mget workspace key)) in
        if found = None \<or> str ''accountId'' \<noteq> wr_AccountID op \<or> str ''computeAllocationId'' \<noteq> wr_ComputeID op \<or> str ''storageId'' \<noteq> wr_StorageID op
        then manualReviewWorkspaceRenewal rc env op ''workspace_renewal_identity_mismatch''
        else if str ''paidThrough'' \<noteq> wr_PaidThrough op \<and> str ''paidThrough'' \<noteq> wr_RenewedThrough op
        then manualReviewWorkspaceRenewal rc env op ''workspace_renewal_period_mismatch''
        else
          (case rfc3339_parse (wr_RenewedThrough op) of
             None \<Rightarrow> manualReviewWorkspaceRenewal rc env op ''workspace_renewal_period_invalid''
           | Some renewedThrough \<Rightarrow>
               (let committed = (\<lambda>op. op\<lparr>wr_Status := ''verifying'', wr_Phase := ''receipt'', wr_EntitlementCommitted := True\<rparr>);
                    plain = entitlement_fields op renewedThrough in
                if revives op then
                  (if \<not> revival_state_ok op workspace then manualReviewWorkspaceRenewal rc env op ''workspace_renewal_recovery_state_mismatch''
                   else persistWorkspaceRenewal rc env (committed (clear_expiry op)) (Some
                     \<lparr>wp_ExpectedPaidThrough = wr_PaidThrough op,
                      wp_ExpectedFields = [(''state'', ''suspended''), (''status'', ''suspended''), (''computeAllocationId'', wr_ComputeID op),
                        (''currentComputeAllocationId'', wr_ComputeID op), (''storageId'', wr_StorageID op),
                        (''currentAttachmentId'', str ''currentAttachmentId'')],
                      wp_Fields = plain @ [(''state'', GStr ''running''), (''status'', GStr ''running''),
                        (''currentComputeAllocationId'', GStr (wr_ComputeID op))]\<rparr>))
                else persistWorkspaceRenewal rc env (committed op) (Some
                   \<lparr>wp_ExpectedPaidThrough = wr_PaidThrough op, wp_ExpectedFields = [], wp_Fields = plain\<rparr>))))
     }"

section \<open>Expiry\<close>

definition expiry_patch :: "renewal_operation \<Rightarrow> (string \<times> goval) list \<Rightarrow> workspace_patch option" where
  "expiry_patch op kvs = Some \<lparr>wp_ExpectedPaidThrough = wr_ExpiryPaidThrough op, wp_ExpectedFields = [], wp_Fields = kvs\<rparr>"

definition renewal_off :: "(string \<times> goval) list" where
  "renewal_off = [(''autoRenew'', GBool False), (''authorizedBy'', GStr []), (''authorizedAt'', GStr [])]"

text \<open>One turn: the outcome and whether the loop goes on.\<close>

definition expiry_turn :: "renewal_codec \<Rightarrow> renewal_env \<Rightarrow> renewal_operation \<Rightarrow> (outcome \<times> bool) renewal" where
  "expiry_turn rc env op =
     (let suspended = [(''state'', GStr ''suspended''), (''status'', GStr ''suspended'')];
          store = (\<lambda>op patch. do { (op, err) \<leftarrow> persistWorkspaceRenewal rc env op patch; State_Monad.return ((op, err), err = []) }) in
      if wr_ExpiryPhase op = ''suspend'' then
        do {
          found \<leftarrow> getWorkspace env (wr_WorkspaceID op);
          if found = None then State_Monad.return ((op, [''workspace_expiry_workspace_missing'']), False)
          else if wr_ExpiryStatus op = ''past_due''
          then store (op\<lparr>wr_ExpiryPhase := ''financial'', wr_ExpiryErrorCode := []\<rparr>) (expiry_patch op suspended)
          else store (op\<lparr>wr_ExpiryPhase := ''receipt'', wr_ExpiryErrorCode := []\<rparr>)
                 (expiry_patch op ((''renewalStatus'', GStr ''expired_unpaid'') # suspended @ renewal_off))
        }
      else if wr_ExpiryPhase op = ''financial'' then
        (if wr_Status op \<noteq> ''refunded'' \<and> wr_Status op \<noteq> ''expired_unpaid'' then State_Monad.return ((op, []), False)
         else store (op\<lparr>wr_ExpiryStatus := ''expired_unpaid'', wr_ExpiryPhase := ''receipt'', wr_ExpiryErrorCode := []\<rparr>)
                (expiry_patch op (renewal_off @ [(''renewalStatus'', GStr ''expired_unpaid'')])))
      else if wr_ExpiryPhase op = ''compute'' then
        do {
          out \<leftarrow> persistWorkspaceRenewal rc env (op\<lparr>wr_ExpiryPhase := ''receipt'', wr_ExpiryErrorCode := []\<rparr>) None;
          State_Monad.return (out, False)
        }
      else if wr_ExpiryPhase op = ''receipt'' \<or> wr_ExpiryPhase op = ''complete'' then State_Monad.return ((op, []), False)
      else State_Monad.return ((op, [''invalid Workspace expiry phase'']), False))"

fun expiry_turns :: "nat \<Rightarrow> renewal_codec \<Rightarrow> renewal_env \<Rightarrow> renewal_operation \<Rightarrow> outcome renewal" where
  "expiry_turns 0 rc env op = State_Monad.return (op, [])"
| "expiry_turns (Suc n) rc env op =
     do {
       ((op, err), more) \<leftarrow> expiry_turn rc env op;
       if more then expiry_turns n rc env op else State_Monad.return (op, err)
     }"

definition progressWorkspaceRenewalExpiry :: "renewal_codec \<Rightarrow> renewal_env \<Rightarrow> renewal_operation \<Rightarrow> outcome renewal" where
  "progressWorkspaceRenewalExpiry rc env op = expiry_turns 2 rc env op"

section \<open>The loop\<close>

text \<open>One turn goes on with an operation, or returns.\<close>

datatype renewal_turn = GoOn renewal_operation | Stop outcome

definition go_on :: "outcome renewal \<Rightarrow> renewal_turn renewal" where
  "go_on c = do { (op, err) \<leftarrow> c; State_Monad.return (if err \<noteq> [] then Stop (op, err) else GoOn op) }"

definition stop :: "outcome renewal \<Rightarrow> renewal_turn renewal" where
  "stop c = do { out \<leftarrow> c; State_Monad.return (Stop out) }"

definition preflight_turn ::
    "renewal_codec \<Rightarrow> renewal_env \<Rightarrow> renewal_operation \<Rightarrow> monthly_preflight_input \<Rightarrow> string \<Rightarrow> renewal_operation \<Rightarrow> renewal_turn renewal" where
  "preflight_turn rc env op input failure op' =
     do {
       answer \<leftarrow> call rc env (Preflight input) (\<lambda>trace. re_preflight env trace input);
       (case answer of
          Inl err \<Rightarrow> stop (retryWorkspaceRenewal rc env op failure err)
        | Inr result \<Rightarrow>
            if \<not> monthlyPreflightConfirmed input result then stop (retryWorkspaceRenewal rc env op failure [])
            else go_on (persistWorkspaceRenewal rc env op' None))
     }"

definition claimed_turn :: "renewal_codec \<Rightarrow> renewal_env \<Rightarrow> renewal_operation \<Rightarrow> renewal_turn renewal" where
  "claimed_turn rc env op =
     do {
       answer \<leftarrow> workspaceRenewalResources rc env op;
       (case answer of
          Inl err \<Rightarrow> stop (manualReviewWorkspaceRenewal rc env op err)
        | Inr (computeFact, storageFact) \<Rightarrow>
            (let op = op\<lparr>wr_ComputeReadback := providerFactEvidence computeFact, wr_StorageReadback := providerFactEvidence storageFact\<rparr> in
             if wr_ChargeAttempted op \<or> wr_ChargeConfirmation op \<noteq> None
             then go_on (persistWorkspaceRenewal rc env (op\<lparr>wr_Status := ''debit_pending'', wr_Phase := ''debit''\<rparr>) None)
             else if wr_Phase op = ''preflight_compute'' then
               preflight_turn rc env op
                 \<lparr>mpi_ResourceType = ''compute'', mpi_PackageID = wr_PackageID op, mpi_SizeGB = 0, mpi_Zone = prf_Zone (pf_Facts computeFact)\<rparr>
                 ''fabric_compute_preflight_failed'' (op\<lparr>wr_ComputePreflightConfirmed := True, wr_Phase := ''preflight_storage''\<rparr>)
             else if wr_Phase op = ''preflight_storage'' then
               preflight_turn rc env op
                 \<lparr>mpi_ResourceType = ''storage'', mpi_PackageID = wr_PackageID op, mpi_SizeGB = wr_StorageGB op, mpi_Zone = prf_Zone (pf_Facts storageFact)\<rparr>
                 ''fabric_storage_preflight_failed''
                 (op\<lparr>wr_StoragePreflightConfirmed := True, wr_Status := ''debit_pending'', wr_Phase := ''debit''\<rparr>)
             else stop (manualReviewWorkspaceRenewal rc env op ''workspace_renewal_phase_invalid'')))
     }"

definition verifying_turn :: "renewal_codec \<Rightarrow> renewal_env \<Rightarrow> renewal_operation \<Rightarrow> renewal_turn renewal" where
  "verifying_turn rc env op =
     (if wr_Phase op = ''receipt'' then stop (recordWorkspaceRenewalReceipt rc env op)
      else
        do {
          (op, ok) \<leftarrow> verifyWorkspaceRenewalProviderReadback rc env op;
          if \<not> ok then stop (manualReviewWorkspaceRenewal rc env op provider_truth_invalid)
          else go_on (commitWorkspaceRenewalEntitlement rc env op)
        })"

definition renewal_step :: "renewal_codec \<Rightarrow> renewal_env \<Rightarrow> renewal_operation \<Rightarrow> renewal_turn renewal" where
  "renewal_step rc env op =
     (let status = wr_Status op in
      if status = ''expired_unpaid'' then State_Monad.return (Stop (op, []))
      else if status = ''insufficient'' then
        go_on (persistWorkspaceRenewal rc env (op\<lparr>wr_Status := ''debit_pending'', wr_Phase := ''debit'', wr_ErrorCode := []\<rparr>) None)
      else if status = ''claimed'' then claimed_turn rc env op
      else if status = ''debit_pending'' then go_on (debitWorkspaceRenewal rc env op)
      else if status = ''refund_pending'' then stop (refundWorkspaceRenewal rc env op (wr_RefundReason op))
      else if status = ''debited'' then
        go_on (persistWorkspaceRenewal rc env (op\<lparr>wr_Status := ''provider_renewing'', wr_Phase := ''provider_compute''\<rparr>) None)
      else if status = ''provider_renewing'' then go_on (renewWorkspaceProvider rc env op)
      else if status = ''verifying'' then verifying_turn rc env op
      else if status = ''refunded'' then
        (if wr_Phase op = ''refund_receipt'' then stop (recordWorkspaceRefundReceipt rc env op) else State_Monad.return (Stop (op, [])))
      else if status \<in> {''active'', ''manual_review'', ''cancelled''} then State_Monad.return (Stop (op, []))
      else stop (manualReviewWorkspaceRenewal rc env op ''workspace_renewal_status_invalid''))"

fun renewal_turns :: "nat \<Rightarrow> renewal_codec \<Rightarrow> renewal_env \<Rightarrow> renewal_operation \<Rightarrow> outcome renewal" where
  "renewal_turns 0 rc env op = retryWorkspaceRenewal rc env op ''workspace_renewal_iteration_limit'' [''workspace renewal iteration limit'']"
| "renewal_turns (Suc n) rc env op =
     do {
       t \<leftarrow> renewal_step rc env op;
       (case t of Stop out \<Rightarrow> State_Monad.return out | GoOn op \<Rightarrow> renewal_turns n rc env op)
     }"

definition runWorkspaceRenewal :: "renewal_codec \<Rightarrow> renewal_env \<Rightarrow> renewal_operation \<Rightarrow> errs renewal" where
  "runWorkspaceRenewal rc env op = do { (_, err) \<leftarrow> renewal_turns 16 rc env op; State_Monad.return err }"

section \<open>Processing a workspace\<close>

text \<open>The operation to work on: the last one of the current period, or the first that is not finished or covers the expiry.\<close>

definition covers_expiry :: "gomap \<Rightarrow> renewal_operation \<Rightarrow> bool" where
  "covers_expiry workspace op \<longleftrightarrow>
     (wr_ExpiryStatus op = ''past_due'' \<or> wr_ExpiryStatus op = ''expired_unpaid'') \<and>
     wr_ExpiryPaidThrough op = stringValue (mget workspace ''paidThrough'')"

fun select_operation ::
    "renewal_codec \<Rightarrow> gomap \<Rightarrow> string \<Rightarrow> string \<Rightarrow> gomap list \<Rightarrow> renewal_operation option \<Rightarrow> renewal_error + renewal_operation option" where
  "select_operation rc workspace workspaceID expectedID [] found = Inr found"
| "select_operation rc workspace workspaceID expectedID (row # rows) found =
     (if stringValue (mget row ''action'') \<noteq> ''workspace.renewal'' \<or> stringValue (mget row ''workspaceId'') \<noteq> workspaceID
      then select_operation rc workspace workspaceID expectedID rows found
      else
        (case decode_renewal rc row of
           Inl err \<Rightarrow> Inl err
         | Inr candidate \<Rightarrow>
             if \<not> terminalWorkspaceRenewal candidate \<or> covers_expiry workspace candidate then Inr (Some candidate)
             else select_operation rc workspace workspaceID expectedID rows (if wr_ID candidate = expectedID then Some candidate else found)))"

text \<open>What happens to a workspace: nothing, an error, or an operation is worked on.\<close>

datatype renewal_plan = PlanDone errs | PlanRun renewal_operation

definition mark_expired :: "gomap \<Rightarrow> renewal_operation \<Rightarrow> renewal_operation" where
  "mark_expired workspace op =
     (let op = op\<lparr>wr_PriorStatus := wr_Status op, wr_PriorErrorCode := wr_ErrorCode op, wr_ExpiryStatus := ''expired_unpaid'',
                  wr_ExpiryPhase := ''suspend'', wr_ExpiryPeriodStart := stringValue (mget workspace ''periodStart''),
                  wr_ExpiryPaidThrough := stringValue (mget workspace ''paidThrough'')\<rparr> in
      if workspaceRenewalFinancialRecoveryRequired op then
        (if wr_PaidThrough op = wr_ExpiryPaidThrough op then op\<lparr>wr_ExpiryStatus := ''past_due''\<rparr> else op)
      else op\<lparr>wr_Status := ''expired_unpaid''\<rparr>)"

definition plan_operation ::
    "renewal_codec \<Rightarrow> gomap \<Rightarrow> string \<Rightarrow> gotime \<Rightarrow> gotime \<Rightarrow> gomap list \<Rightarrow> renewal_plan" where
  "plan_operation rc workspace workspaceID paidThrough now operations =
     (if list_ex workspaceDeleteBlocksRenewal operations then PlanDone []
      else
        (case newWorkspaceRenewalOperation rc workspace now of
           Inl err \<Rightarrow> PlanDone [err]
         | Inr expected \<Rightarrow>
             (case select_operation rc workspace workspaceID (wr_ID expected) operations None of
                Inl _ \<Rightarrow> PlanDone [''invalid_workspace_renewal_operation'']
              | Inr found \<Rightarrow>
                  (let expired = \<not> t_before (t_utc now) (t_utc paidThrough);
                       finished = (case found of None \<Rightarrow> False | Some op \<Rightarrow> terminalWorkspaceRenewal op \<and>
                         (\<not> expired \<or> wr_ExpiryStatus op = ''expired_unpaid'' \<and> wr_ExpiryPhase op = ''complete''));
                       early = (found = None \<and> \<not> expired \<and>
                         (mget workspace ''autoRenew'' \<noteq> GBool True \<or> t_before (t_utc now) (t_add (t_utc paidThrough) (- monthlyRenewalLead))));
                       foreign = (case found of None \<Rightarrow> False | Some op \<Rightarrow>
                         wr_RequestHash op \<noteq> wr_RequestHash expected \<and> \<not> wr_EntitlementCommitted op);
                       op = (case found of None \<Rightarrow> expected | Some op \<Rightarrow> op);
                       op = (if expired \<and> wr_ExpiryStatus op = [] then mark_expired workspace op else op)
                   in if finished \<or> early then PlanDone []
                      else if foreign then PlanDone [''idempotency_conflict'']
                      else if wr_LeaseExpiresAt op = [] then PlanRun op
                      else
                        (case rfc3339_parse (wr_LeaseExpiresAt op) of
                           None \<Rightarrow> PlanDone [''invalid_workspace_renewal_lease'']
                         | Some leaseExpiresAt \<Rightarrow> if t_after leaseExpiresAt (t_utc now) then PlanDone [] else PlanRun op)))))"

definition lease_operation :: "renewal_codec \<Rightarrow> gotime \<Rightarrow> gotime \<Rightarrow> renewal_operation \<Rightarrow> renewal_operation" where
  "lease_operation rc now instant op =
     op\<lparr>wr_LeaseToken := stableID (rc_sha1hex rc) [wr_ID op, utc_text now, utc_text instant],
        wr_LeaseExpiresAt := rfc3339_nano (t_add (t_utc now) workspaceRenewalLeaseDuration)\<rparr>"

definition reload :: "renewal_codec \<Rightarrow> renewal_env \<Rightarrow> renewal_operation \<Rightarrow> renewal_operation renewal" where
  "reload rc env op =
     do {
       loaded \<leftarrow> loadWorkspaceRenewalOperation rc env (wr_ID op);
       State_Monad.return (case loaded of Inl _ \<Rightarrow> op | Inr current \<Rightarrow> current)
     }"

text \<open>The claimed operation: its expiry, its renewal, and the receipt of the expiry.\<close>

definition work_operation :: "renewal_codec \<Rightarrow> renewal_env \<Rightarrow> bool \<Rightarrow> renewal_operation \<Rightarrow> errs renewal" where
  "work_operation rc env expired op =
     (let financialExpiryPending = expired \<and> wr_ExpiryStatus op = ''past_due'' in
      do {
        (op, expiryErr) \<leftarrow> (if expired then
            do { (op, err) \<leftarrow> progressWorkspaceRenewalExpiry rc env op; op \<leftarrow> reload rc env op; State_Monad.return (op, err) }
          else State_Monad.return (op, []));
        (op, renewalErr) \<leftarrow> (if wr_Status op \<noteq> ''expired_unpaid'' then
            do { err \<leftarrow> runWorkspaceRenewal rc env op; op \<leftarrow> reload rc env op; State_Monad.return (op, err) }
          else State_Monad.return (op, []));
        if expired then
          do {
            (op, expiryErr) \<leftarrow> (if financialExpiryPending \<and> wr_ExpiryStatus op \<noteq> [] then
                do { (op, err) \<leftarrow> progressWorkspaceRenewalExpiry rc env op; op \<leftarrow> reload rc env op; State_Monad.return (op, expiryErr @ err) }
              else State_Monad.return (op, expiryErr));
            (_, err) \<leftarrow> recordWorkspaceRenewalExpiryReceipt rc env op;
            State_Monad.return (renewalErr @ expiryErr @ err)
          }
        else State_Monad.return (renewalErr @ expiryErr)
      })"

definition claim_of :: "renewal_codec \<Rightarrow> gomap \<Rightarrow> string \<Rightarrow> gomap list \<Rightarrow> renewal_operation \<Rightarrow> renewal_claim" where
  "claim_of rc workspace workspaceID operations op =
     \<lparr>cl_WorkspaceID = workspaceID, cl_AccountID = stringValue (mget workspace ''accountId''),
      cl_ExpectedPaidThrough = stringValue (mget workspace ''paidThrough''), cl_ExpectedAutoRenew = (mget workspace ''autoRenew'' = GBool True),
      cl_ExpectedOperationsVersion = runtimeOperationsVersion rc operations workspaceID,
      cl_ExpectedOperationResult = wr_PersistedResult op, cl_DesiredOperation = op\<rparr>"

fun process_turns :: "nat \<Rightarrow> renewal_codec \<Rightarrow> renewal_env \<Rightarrow> string \<Rightarrow> gotime \<Rightarrow> errs renewal" where
  "process_turns 0 rc env workspaceID now = State_Monad.return [cas_conflict]"
| "process_turns (Suc n) rc env workspaceID now =
     do {
       found \<leftarrow> getWorkspace env workspaceID;
       (case found of
          None \<Rightarrow> State_Monad.return []
        | Some workspace \<Rightarrow>
            (case rfc3339_parse (stringValue (mget workspace ''paidThrough'')) of
               None \<Rightarrow> State_Monad.return [''invalid_workspace_billing_state'']
             | Some paidThrough \<Rightarrow>
                 do {
                   answer \<leftarrow> query_operations env (any_operation\<lparr>oq_WorkspaceID := workspaceID\<rparr>);
                   (case answer of
                      Inl err \<Rightarrow> State_Monad.return err
                    | Inr operations \<Rightarrow>
                        (case plan_operation rc workspace workspaceID paidThrough now operations of
                           PlanDone err \<Rightarrow> State_Monad.return err
                         | PlanRun op \<Rightarrow>
                             do {
                               instant \<leftarrow> call rc env ReadClock (re_now env);
                               let op = lease_operation rc now instant op;
                               err \<leftarrow> ClaimWorkspaceRenewal rc env (claim_of rc workspace workspaceID operations op);
                               if cas_conflict \<in> set err then process_turns n rc env workspaceID now
                               else if err \<noteq> [] then State_Monad.return err
                               else work_operation rc env (\<not> t_before (t_utc now) (t_utc paidThrough)) (op\<lparr>wr_PersistedResult := rc_marshal rc op\<rparr>)
                             }))
                 }))
     }"

definition processWorkspaceRenewal :: "renewal_codec \<Rightarrow> renewal_env \<Rightarrow> string \<Rightarrow> gotime \<Rightarrow> errs renewal" where
  "processWorkspaceRenewal rc env workspaceID now = process_turns 3 rc env workspaceID now"

section \<open>Resolving a review\<close>

record review_input =
  rv_ResourceType :: string
  rv_ResourceID :: string
  rv_AccountID :: string
  rv_BillingOperationID :: string
  rv_Decision :: string
  rv_EvidenceRef :: string
  rv_IdempotencyKey :: string
  rv_Reviewer :: string

definition billingReviewActivateCharged :: string where
  "billingReviewActivateCharged = ''activate_charged_resource''"

definition review_fingerprint :: "renewal_codec \<Rightarrow> review_input \<Rightarrow> string" where
  "review_fingerprint rc input =
     stableID (rc_sha1hex rc) [rv_ResourceType input, rv_ResourceID input, rv_AccountID input, rv_BillingOperationID input, rv_Decision input,
       rv_EvidenceRef input, rv_Reviewer input]"

definition review_input_ok :: "review_input \<Rightarrow> bool" where
  "review_input_ok input \<longleftrightarrow>
     rv_ResourceType input = ''workspace'' \<and> rv_Decision input = billingReviewActivateCharged \<and> rv_ResourceID input \<noteq> [] \<and>
     rv_AccountID input \<noteq> [] \<and> rv_BillingOperationID input \<noteq> [] \<and> rv_IdempotencyKey input \<noteq> [] \<and> rv_Reviewer input \<noteq> []"

text \<open>What a review finds: an earlier result, an error, or an operation to go on with.\<close>

definition review_state :: "renewal_codec \<Rightarrow> review_input \<Rightarrow> renewal_operation \<Rightarrow> (errs + gomap) option" where
  "review_state rc input op =
     (if wr_ReviewResolutionKey op \<noteq> [] \<and>
         (wr_ReviewResolutionKey op \<noteq> rv_IdempotencyKey input \<or> wr_ReviewResolutionFingerprint op \<noteq> review_fingerprint rc input)
      then Some (Inl [''idempotency_conflict''])
      else if wr_ReviewResolutionKey op \<noteq> [] \<and> wr_ReviewResolutionPhase op = ''completed'' \<and> mlen (wr_ReviewResolutionResult op) > 0
      then Some (Inr (cloneMap (wr_ReviewResolutionResult op)))
      else if wr_WorkspaceID op \<noteq> rv_ResourceID input \<or> wr_AccountID op \<noteq> rv_AccountID input \<or> wr_ID op \<noteq> rv_BillingOperationID input
      then Some (Inl [''billing_review_identity_mismatch''])
      else if wr_ReviewResolutionKey op = [] \<and> wr_Status op \<noteq> ''manual_review'' then Some (Inl [''billing_review_not_pending''])
      else if wr_Status op \<noteq> ''manual_review'' \<and> wr_Status op \<noteq> ''verifying'' \<and> wr_Status op \<noteq> ''active''
      then Some (Inl [''billing_review_not_pending''])
      else None)"

definition review_charge_ok :: "renewal_operation \<Rightarrow> int \<Rightarrow> bool" where
  "review_charge_ok op userID \<longleftrightarrow>
     wr_PostChargeBalanceKnown op \<and> wr_PostChargeBalanceUSDMicros op \<ge> 0 \<and>
     monthlyChargeConfirmationMatches (wr_ChargeConfirmation op) (wr_RedeemCode op) userID (wr_TotalUSDMicros op)"

definition start_review :: "renewal_codec \<Rightarrow> renewal_env \<Rightarrow> review_input \<Rightarrow> renewal_operation \<Rightarrow> outcome renewal" where
  "start_review rc env input op =
     (if wr_ReviewResolutionKey op \<noteq> [] then State_Monad.return (op, [])
      else
        do {
          instant \<leftarrow> call rc env ReadClock (re_now env);
          persistWorkspaceRenewal rc env
            (op\<lparr>wr_ReviewResolutionKey := rv_IdempotencyKey input, wr_ReviewResolutionFingerprint := review_fingerprint rc input,
                wr_ReviewResolutionDecision := rv_Decision input, wr_ReviewResolutionEvidenceRef := rv_EvidenceRef input,
                wr_ReviewResolutionReviewer := rv_Reviewer input, wr_ReviewResolutionPhase := ''verify_compute'',
                wr_ReviewResolutionResolvedAt := utc_text instant\<rparr>) None
        })"

text \<open>One of the two verifications: it is skipped where its phase is over.\<close>

definition review_verify ::
    "renewal_codec \<Rightarrow> renewal_env \<Rightarrow> string \<Rightarrow> string \<Rightarrow> (renewal_operation \<Rightarrow> renewal_operation) \<Rightarrow> renewal_operation \<Rightarrow> outcome renewal" where
  "review_verify rc env phase resourceType next op =
     (if wr_Status op \<noteq> ''manual_review'' \<or> wr_ReviewResolutionPhase op \<noteq> phase then State_Monad.return (op, [])
      else
        do {
          (op, _, row) \<leftarrow> read_back rc env resourceType op;
          (case row of
             None \<Rightarrow>
               do {
                 (op, err) \<leftarrow> persistWorkspaceRenewal rc env op None;
                 State_Monad.return (op, if err \<noteq> [] then err else [''billing_review_provider_fact_unconfirmed''])
               }
           | Some r \<Rightarrow>
               do {
                 err \<leftarrow> saveResourcePreservingAutoRenew rc env resourceType r;
                 if err \<noteq> [] then State_Monad.return (op, err) else persistWorkspaceRenewal rc env (next op) None
               })
        })"

definition run_review :: "renewal_codec \<Rightarrow> renewal_env \<Rightarrow> renewal_operation \<Rightarrow> outcome renewal" where
  "run_review rc env op =
     (if wr_Status op \<noteq> ''verifying'' then State_Monad.return (op, [])
      else
        do {
          _ \<leftarrow> call rc env ReadClock (re_now env);
          err \<leftarrow> runWorkspaceRenewal rc env op;
          loaded \<leftarrow> loadWorkspaceRenewalOperation rc env (wr_ID op);
          if err \<noteq> [] then
            (case loaded of
               Inr current \<Rightarrow>
                 if wr_Phase current = ''receipt'' then
                   do {
                     (current, persistErr) \<leftarrow> persistWorkspaceRenewal rc env (current\<lparr>wr_ReviewResolutionPhase := ''receipt''\<rparr>) None;
                     State_Monad.return (current, if persistErr \<noteq> [] then persistErr else [''billing_review_receipt_pending''])
                   }
                 else State_Monad.return (op, err)
             | Inl _ \<Rightarrow> State_Monad.return (op, err))
          else State_Monad.return (case loaded of Inl e \<Rightarrow> (op, e) | Inr current \<Rightarrow> (current, []))
        })"

definition review_result :: "renewal_operation \<Rightarrow> gomap" where
  "review_result op = Some
     [(''resourceType'', GStr ''workspace''), (''resourceId'', GStr (wr_WorkspaceID op)), (''accountId'', GStr (wr_AccountID op)),
      (''billingOperationId'', GStr (wr_ID op)), (''decision'', GStr (wr_ReviewResolutionDecision op)),
      (''evidenceRef'', GStr (wr_ReviewResolutionEvidenceRef op)), (''reviewer'', GStr (wr_ReviewResolutionReviewer op)),
      (''billingStatus'', GStr (wr_Status op)), (''status'', GStr (wr_Status op)), (''providerStatus'', GStr ''renewed''),
      (''receiptId'', GStr (wr_ReceiptID op)), (''resolvedAt'', GStr (wr_ReviewResolutionResolvedAt op))]"

definition finish_review :: "renewal_codec \<Rightarrow> renewal_env \<Rightarrow> renewal_operation \<Rightarrow> outcome renewal" where
  "finish_review rc env op =
     (if wr_Status op \<noteq> ''active'' \<or> wr_ReceiptID op = [] then State_Monad.return (op, [''billing_review_not_pending''])
      else persistWorkspaceRenewal rc env (op\<lparr>wr_ReviewResolutionPhase := ''completed'', wr_ReviewResolutionResult := review_result op\<rparr>) None)"

definition and_then :: "outcome renewal \<Rightarrow> (renewal_operation \<Rightarrow> outcome renewal) \<Rightarrow> outcome renewal" where
  "and_then c f = do { (op, err) \<leftarrow> c; if err \<noteq> [] then State_Monad.return (op, err) else f op }"

definition review_steps :: "renewal_codec \<Rightarrow> renewal_env \<Rightarrow> review_input \<Rightarrow> renewal_operation \<Rightarrow> outcome renewal" where
  "review_steps rc env input op =
     and_then (start_review rc env input op) (\<lambda>op.
     and_then (review_verify rc env ''verify_compute'' ''compute'' (\<lambda>op. op\<lparr>wr_ReviewResolutionPhase := ''verify_storage''\<rparr>) op) (\<lambda>op.
     and_then (review_verify rc env ''verify_storage'' ''storage''
        (\<lambda>op. op\<lparr>wr_Status := ''verifying'', wr_Phase := ''entitlement'', wr_ErrorCode := [], wr_ReviewResolutionPhase := ''entitlement''\<rparr>) op) (\<lambda>op.
     and_then (run_review rc env op) (finish_review rc env))))"

definition resolveWorkspaceRenewalReview :: "renewal_codec \<Rightarrow> renewal_env \<Rightarrow> review_input \<Rightarrow> (errs + gomap) renewal" where
  "resolveWorkspaceRenewalReview rc env input =
     (if \<not> review_input_ok input then State_Monad.return (Inl [''invalid_billing_review_request''])
      else
        do {
          loaded \<leftarrow> loadWorkspaceRenewalOperation rc env (rv_BillingOperationID input);
          (case loaded of
             Inl err \<Rightarrow> State_Monad.return (Inl err)
           | Inr op \<Rightarrow>
               (case review_state rc input op of
                  Some answer \<Rightarrow> State_Monad.return answer
                | None \<Rightarrow>
                    do {
                      user \<leftarrow> gateway_user env (rv_AccountID input);
                      (case user of
                         Inl err \<Rightarrow> State_Monad.return (Inl err)
                       | Inr userID \<Rightarrow>
                           if \<not> review_charge_ok op userID then State_Monad.return (Inl [''billing_review_charge_fact_unconfirmed''])
                           else
                             do {
                               (op, err) \<leftarrow> review_steps rc env input op;
                               State_Monad.return (if err \<noteq> [] then Inl err else Inr (cloneMap (wr_ReviewResolutionResult op)))
                             })
                    }))
        })"

end
