(* ===== verification/Renewal_Worker.thy ===== *)
theory Renewal_Worker
  imports Workspace_Renewal
begin

text \<open>
  The monthly billing worker (\<^verbatim>\<open>renewal_worker.go\<close>): one run walks over the pages of the workspaces and processes
  those that are due or have an operation under verification. The ticker that starts the runs is left out.
\<close>

definition monthlyBillingWorkspacePage :: nat where
  "monthlyBillingWorkspacePage = 50"

definition workspaceRenewalDue :: "billing_state \<Rightarrow> gotime \<Rightarrow> bool" where
  "workspaceRenewalDue state now =
     (case rfc3339_parse (bs_PaidThrough state) of
        None \<Rightarrow> False
      | Some paidThrough \<Rightarrow>
          \<not> t_before (t_utc now) (t_utc paidThrough) \<or>
          bs_AutoRenew state \<and> \<not> t_before (t_utc now) (t_add (t_utc paidThrough) (- monthlyRenewalLead)))"

definition monthlyBusinessOutcome :: "errs \<Rightarrow> bool" where
  "monthlyBusinessOutcome err \<longleftrightarrow> ''monthly_balance_insufficient'' \<in> set err \<or> ''sub2api_account_mapping_required'' \<in> set err"

text \<open>A page of all workspaces by identifier, and how many there are.\<close>

definition PageWorkspaces :: "table \<Rightarrow> nat \<Rightarrow> nat \<Rightarrow> gomap list \<times> nat" where
  "PageWorkspaces rows offset limit =
     (sort_key (\<lambda>row. stringValue (mget row ''id'')) (map (\<lambda>(_, row). cloneMap row) (take limit (drop offset (sort_key fst rows)))), length rows)"

text \<open>One workspace of a page: its error, where it is not a business outcome.\<close>

definition bill_workspace :: "renewal_codec \<Rightarrow> renewal_env \<Rightarrow> gotime \<Rightarrow> string list \<Rightarrow> gomap \<Rightarrow> errs renewal" where
  "bill_workspace rc env now recovering workspace =
     (case normalizeWorkspaceBillingStateForWorkspace workspace workspace of
        Inl err \<Rightarrow> State_Monad.return [billing_error_text err]
      | Inr None \<Rightarrow> State_Monad.return []
      | Inr (Some state) \<Rightarrow>
          (let workspaceID = stringValue (mget workspace ''id'') in
           if workspaceID \<notin> set recovering \<and> \<not> workspaceRenewalDue state now then State_Monad.return []
           else
             do {
               err \<leftarrow> processWorkspaceRenewal rc env workspaceID (t_utc now);
               State_Monad.return (if monthlyBusinessOutcome err then [] else err)
             }))"

fun bill_page :: "renewal_codec \<Rightarrow> renewal_env \<Rightarrow> gotime \<Rightarrow> string list \<Rightarrow> gomap list \<Rightarrow> errs \<Rightarrow> errs renewal" where
  "bill_page rc env now recovering [] errors = State_Monad.return errors"
| "bill_page rc env now recovering (workspace # rows) errors =
     do {
       err \<leftarrow> bill_workspace rc env now recovering workspace;
       bill_page rc env now recovering rows (errors @ err)
     }"

text \<open>
  The loop over the pages. Other writers may add workspaces between the pages, so it has fuel, and \<open>None\<close> means that
  it is still running.
\<close>

fun billing_pages :: "nat \<Rightarrow> renewal_codec \<Rightarrow> renewal_env \<Rightarrow> gotime \<Rightarrow> string list \<Rightarrow> nat \<Rightarrow> errs \<Rightarrow> errs option renewal" where
  "billing_pages 0 rc env now recovering offset errors = State_Monad.return None"
| "billing_pages (Suc n) rc env now recovering offset errors =
     do {
       page \<leftarrow> ask (\<lambda>w. if re_down env (rw_trace w) then None
         else Some (PageWorkspaces (rt_workspaces (rw_tables w)) offset monthlyBillingWorkspacePage));
       (case page of
          None \<Rightarrow> State_Monad.return (Some (errors @ database_error))
        | Some (items, whole) \<Rightarrow>
            do {
              errors \<leftarrow> bill_page rc env now recovering items errors;
              if offset + length items \<ge> whole \<or> items = [] then State_Monad.return (Some errors)
              else billing_pages n rc env now recovering (offset + length items) errors
            })
     }"

definition runMonthlyBillingOnce :: "nat \<Rightarrow> renewal_codec \<Rightarrow> renewal_env \<Rightarrow> gotime \<Rightarrow> errs option renewal" where
  "runMonthlyBillingOnce fuel rc env now =
     do {
       answer \<leftarrow> query_operations env (any_operation\<lparr>oq_Action := ''workspace.renewal'', oq_Statuses := [''verifying'']\<rparr>);
       (case answer of
          Inl err \<Rightarrow> State_Monad.return (Some err)
        | Inr operations \<Rightarrow>
            billing_pages fuel rc env now (filter (\<lambda>i. i \<noteq> []) (map (\<lambda>row. stringValue (mget row ''workspaceId'')) operations)) 0 [])
     }"

end
