(* ===== verification/Renewal_Logic.thy ===== *)
theory Renewal_Logic
  imports Renewal_Worker
begin

text \<open>
  A program logic for the renewal code: a weakest precondition that asks for an invariant after every single effect,
  so that it also holds where a run is cut off, and histories of runs, reviews and cut-off runs.
\<close>

section \<open>Paths\<close>

inductive path :: "renewal_codec \<Rightarrow> renewal_env \<Rightarrow> (renewal_world \<Rightarrow> bool) \<Rightarrow> renewal_world \<Rightarrow> renewal_world \<Rightarrow> bool"
  for rc env J w where
  here: "J w \<Longrightarrow> path rc env J w w"
| more: "path rc env J w w' \<Longrightarrow> J (apply_renewal_effect rc env e w') \<Longrightarrow> path rc env J w (apply_renewal_effect rc env e w')"

lemma path_inv: "path rc env J w w' \<Longrightarrow> J w'"
  by (induction rule: path.induct) auto

lemma renewal_path_trans: "path rc env J w' w'' \<Longrightarrow> path rc env J w w' \<Longrightarrow> path rc env J w w''"
  by (induction rule: path.induct) (auto intro: path.more)

lemma trace_effect [simp]: "rw_trace (apply_renewal_effect rc env e w) = rw_trace w @ [e]"
  by (simp add: apply_renewal_effect_def)

definition grows :: "renewal_world \<Rightarrow> renewal_world \<Rightarrow> bool" where
  "grows w w' \<longleftrightarrow> (\<exists>es. rw_trace w' = rw_trace w @ es)"

lemma grows_refl [simp, intro]: "grows w w"
  by (simp add: grows_def)

lemma grows_trans [trans]: "grows w w' \<Longrightarrow> grows w' w'' \<Longrightarrow> grows w w''"
  by (auto simp: grows_def)

lemma grows_effect [simp, intro]: "grows w (apply_renewal_effect rc env e w)"
  by (simp add: grows_def)

lemma path_grows: "path rc env J w w' \<Longrightarrow> grows w w'"
  by (induction rule: path.induct) (auto intro: grows_trans)

text \<open>The worlds of a path are those of the prefixes of its effects.\<close>

lemma renewal_path_effects:
  assumes "path rc env J w w'"
  shows "w' = fold (apply_renewal_effect rc env) (drop (length (rw_trace w)) (rw_trace w')) w \<and>
    (\<forall>n. J (fold (apply_renewal_effect rc env) (take n (drop (length (rw_trace w)) (rw_trace w'))) w))"
  using assms
proof (induction rule: path.induct)
  case (more w' e)
  obtain es where es: "rw_trace w' = rw_trace w @ es" using path_grows [OF more.hyps(1)] by (auto simp: grows_def)
  have "J (fold (apply_renewal_effect rc env) (take n (es @ [e])) w)" for n
    using more es by (cases "n \<le> length es") (auto simp del: fold_append_concat_rev)
  with more es show ?case by simp
qed simp

section \<open>Weakest preconditions\<close>

definition wp ::
    "renewal_codec \<Rightarrow> renewal_env \<Rightarrow> (renewal_world \<Rightarrow> bool) \<Rightarrow> 'a renewal \<Rightarrow> ('a \<Rightarrow> renewal_world \<Rightarrow> bool) \<Rightarrow> renewal_world \<Rightarrow> bool" where
  "wp rc env J c Q w \<longleftrightarrow> (J w \<longrightarrow> (case run_state c w of (x, w') \<Rightarrow> path rc env J w w' \<and> Q x w'))"

named_theorems wp_rules "decomposition of a weakest precondition by the shape of the program"

lemma wp_return [wp_rules]: "Q x w \<Longrightarrow> wp rc env J (State_Monad.return x) Q w"
  by (simp add: wp_def path.here)

lemma wp_bind [wp_rules]:
  assumes "wp rc env J c (\<lambda>x. wp rc env J (f x) Q) w"
  shows "wp rc env J (c \<bind> f) Q w"
  using assms by (auto simp: wp_def split: prod.splits dest: path_inv intro: renewal_path_trans)

lemma wp_ask [wp_rules]: "(J w \<Longrightarrow> Q (f w) w) \<Longrightarrow> wp rc env J (ask f) Q w"
  by (simp add: wp_def ask_def path.here)

lemma wp_emit:
  assumes "J w \<Longrightarrow> J (apply_renewal_effect rc env e w)" and "J w \<Longrightarrow> Q () (apply_renewal_effect rc env e w)"
  shows "wp rc env J (emit rc env e) Q w"
  using assms by (auto simp: wp_def emit_def State_Monad.update_def intro: path.intros)

lemma wp_call:
  assumes "J w \<Longrightarrow> J (apply_renewal_effect rc env e w)" and "J w \<Longrightarrow> Q (answer (rw_trace w)) (apply_renewal_effect rc env e w)"
  shows "wp rc env J (call rc env e answer) Q w"
  unfolding call_def using assms by (intro wp_bind wp_ask wp_emit wp_return)

lemma wp_if [wp_rules]:
  "(b \<Longrightarrow> wp rc env J c Q w) \<Longrightarrow> (\<not> b \<Longrightarrow> wp rc env J d Q w) \<Longrightarrow> wp rc env J (if b then c else d) Q w"
  by simp

lemma wp_option [wp_rules]:
  "(x = None \<Longrightarrow> wp rc env J c Q w) \<Longrightarrow> (\<And>y. x = Some y \<Longrightarrow> wp rc env J (f y) Q w) \<Longrightarrow>
   wp rc env J (case x of None \<Rightarrow> c | Some y \<Rightarrow> f y) Q w"
  by (cases x) simp_all

lemma wp_sum [wp_rules]:
  "(\<And>y. x = Inl y \<Longrightarrow> wp rc env J (g y) Q w) \<Longrightarrow> (\<And>y. x = Inr y \<Longrightarrow> wp rc env J (f y) Q w) \<Longrightarrow>
   wp rc env J (case x of Inl y \<Rightarrow> g y | Inr y \<Rightarrow> f y) Q w"
  by (cases x) simp_all

lemma wp_prod [wp_rules]:
  "(\<And>a b. x = (a, b) \<Longrightarrow> wp rc env J (f a b) Q w) \<Longrightarrow> wp rc env J (case x of (a, b) \<Rightarrow> f a b) Q w"
  by (cases x) simp

lemma wp_prod_fun [wp_rules]:
  "(\<And>a b. x = (a, b) \<Longrightarrow> wp rc env J (f a b y) Q w) \<Longrightarrow> wp rc env J ((case x of (a, b) \<Rightarrow> f a b) y) Q w"
  by (cases x) simp

lemma wp_let [wp_rules]: "(\<And>y. y = x \<Longrightarrow> wp rc env J (f y) Q w) \<Longrightarrow> wp rc env J (let y = x in f y) Q w"
  by simp

lemma wp_mono:
  assumes "wp rc env J c Q w" and "\<And>x w'. J w' \<Longrightarrow> grows w w' \<Longrightarrow> Q x w' \<Longrightarrow> Q' x w'"
  shows "wp rc env J c Q' w"
  using assms by (auto simp: wp_def split: prod.splits dest: path_inv path_grows)

lemma wp_inv: "(J w \<Longrightarrow> wp rc env J c Q w) \<Longrightarrow> wp rc env J c Q w"
  by (simp add: wp_def)

lemma wp_path: "wp rc env J c Q w \<Longrightarrow> J w \<Longrightarrow> path rc env J w (snd (run_state c w))"
  by (auto simp: wp_def split: prod.splits)

section \<open>Histories\<close>

text \<open>
  The console starts without renewal operations. It processes workspaces and resolves reviews, each to its end or
  cut off after any effect; in between, other writers change the tables of workspaces and resources.
\<close>

definition effects_of :: "'a renewal \<Rightarrow> renewal_world \<Rightarrow> renewal_trace" where
  "effects_of c w = drop (length (rw_trace w)) (rw_trace (snd (run_state c w)))"

definition cut_off :: "renewal_codec \<Rightarrow> renewal_env \<Rightarrow> nat \<Rightarrow> 'a renewal \<Rightarrow> renewal_world \<Rightarrow> renewal_world" where
  "cut_off rc env n c w = fold (apply_renewal_effect rc env) (take n (effects_of c w)) w"

inductive renewal_history :: "renewal_codec \<Rightarrow> renewal_env \<Rightarrow> renewal_world \<Rightarrow> bool" for rc env where
  start: "rw_operations w = [] \<Longrightarrow> rw_trace w = [] \<Longrightarrow> renewal_history rc env w"
| process: "renewal_history rc env w \<Longrightarrow> renewal_history rc env (cut_off rc env n (processWorkspaceRenewal rc env workspaceID now) w)"
| worker: "renewal_history rc env w \<Longrightarrow> renewal_history rc env (cut_off rc env n (runMonthlyBillingOnce fuel rc env now) w)"
| review: "renewal_history rc env w \<Longrightarrow> renewal_history rc env (cut_off rc env n (resolveWorkspaceRenewalReview rc env input) w)"
| others: "renewal_history rc env w \<Longrightarrow> renewal_history rc env (w\<lparr>rw_tables := t\<rparr>)"

lemma run_cut_off:
  assumes "wp rc env J c Q w" "J w"
  shows "J (cut_off rc env n c w)"
  using renewal_path_effects [OF wp_path [OF assms]] by (simp add: cut_off_def effects_of_def)

text \<open>A run that is not cut off.\<close>

lemma cut_off_all:
  assumes "wp rc env J c Q w" "J w" "length (effects_of c w) \<le> n"
  shows "cut_off rc env n c w = snd (run_state c w)"
  using renewal_path_effects [OF wp_path [OF assms(1,2)]] assms(3) by (simp add: cut_off_def effects_of_def)

section \<open>Queries\<close>

text \<open>The pages of a query together are the matching rows in order.\<close>

lemma query_pages_all:
  assumes "0 < oq_Limit q"
  shows "query_pages table q rows = rows @ drop (oq_Offset q) (sort_key operation_order (filter (operation_matches q) table))"
  using assms
proof (induction table q rows rule: query_pages.induct)
  case (1 table q rows)
  let ?all = "sort_key operation_order (filter (operation_matches q) table)"
  let ?items = "take (oq_Limit q) (drop (oq_Offset q) ?all)" and ?total = "length (filter (operation_matches q) table)"
  have page: "PageRuntimeOperations table q = (?items, ?total)" by (simp add: PageRuntimeOperations_def Let_def)
  show ?case
  proof (cases "oq_Offset q + length ?items \<ge> ?total \<or> ?items = []")
    case True
    then have "?items = drop (oq_Offset q) ?all" using 1(2) by (auto simp: min_def split: if_splits)
    with True show ?thesis by (subst query_pages.simps) (simp only: page Let_def prod.case if_True)
  next
    case False
    have "query_pages table q rows = query_pages table (q\<lparr>oq_Offset := oq_Offset q + length ?items\<rparr>) (rows @ ?items)"
      using False by (subst query_pages.simps) (simp only: page Let_def prod.case if_False)
    also have "\<dots> = (rows @ ?items) @ drop (oq_Offset q + length ?items) ?all"
      using 1(1) [OF page [symmetric] refl refl] False 1(2) by simp
    also have "drop (oq_Offset q + length ?items) ?all = drop (length ?items) (drop (oq_Offset q) ?all)" by (simp add: add.commute)
    also have "(rows @ ?items) @ \<dots> = rows @ drop (oq_Offset q) ?all"
      using append_take_drop_id [of "oq_Limit q" "drop (oq_Offset q) ?all"] by (auto simp: min_def)
    finally show ?thesis .
  qed
qed

lemma query_operations_all:
  "queryRuntimeOperations table q = sort_key operation_order (filter (operation_matches q) table)"
  by (simp add: queryRuntimeOperations_def query_pages_all runtimeOperationPageSize_def)
end
