(* ===== verification/Renewal_Safety.thy ===== *)
theory Renewal_Safety
  imports Renewal_Logic
begin

text \<open>
  The money of renewals: every charge and every refund at the Gateway, and every extension of a paid period, is
  backed by what was stored before it. The invariant speaks about the trace and about the rows of the operations;
  what an operation in memory says is stable, so it survives every effect of the code and of other writers.
\<close>

section \<open>What is stored\<close>

fun charges :: "string \<Rightarrow> renewal_effect \<Rightarrow> bool" where
  "charges i (ChargeWallet j m) = (i = j)"
| "charges i _ = False"

fun refunds :: "string \<Rightarrow> renewal_effect \<Rightarrow> bool" where
  "refunds i (RefundWallet j m) = (i = j)"
| "refunds i _ = False"

lemma charges_iff: "charges i e \<longleftrightarrow> (\<exists>m. e = ChargeWallet i m)" "refunds i e \<longleftrightarrow> (\<exists>m. e = RefundWallet i m)"
  by (cases e; auto)+

text \<open>The saves that took effect.\<close>

definition saved :: "renewal_trace \<Rightarrow> renewal_operation \<Rightarrow> bool" where
  "saved tr op \<longleftrightarrow> (\<exists>ws outcome. SaveRenewal op ws outcome \<in> set tr \<and> outcome \<noteq> SaveRefused)"

definition ident :: "renewal_operation \<Rightarrow> string \<times> string \<times> string \<times> int" where
  "ident op = (wr_ID op, wr_RedeemCode op, wr_RefundCode op, wr_TotalUSDMicros op)"

definition charged :: "renewal_operation \<Rightarrow> bool" where
  "charged op \<longleftrightarrow> (\<exists>userID. monthlyChargeConfirmationMatches (wr_ChargeConfirmation op) (wr_RedeemCode op) userID (wr_TotalUSDMicros op))"

text \<open>A confirmation as it was built, or as it is read back, its numbers as floats.\<close>

definition floated :: "goval \<Rightarrow> goval" where
  "floated v = (case v of GInt _ i \<Rightarrow> GFloat KFloat64 (float_of_int i) | _ \<Rightarrow> v)"

definition floated_map :: "gomap \<Rightarrow> gomap" where
  "floated_map m = map_option (map (\<lambda>(k, v). (k, floated v))) m"

definition confirmation_ok :: "renewal_operation \<Rightarrow> bool" where
  "confirmation_ok op \<longleftrightarrow>
     wr_ChargeConfirmation op = None \<or>
     (\<exists>c. wr_ChargeConfirmation op = charge_confirmation c \<or> wr_ChargeConfirmation op = floated_map (charge_confirmation c)) \<and> charged op"

definition paid_statuses :: "string set" where
  "paid_statuses = {''debited'', ''provider_renewing'', ''verifying'', ''active'', ''refund_pending'', ''refunded''}"

definition sound_operation :: "renewal_operation \<Rightarrow> bool" where
  "sound_operation op \<longleftrightarrow>
     (wr_ErrorCode op = ''sub2api_charge_unconfirmed'' \<longrightarrow> wr_ChargeAttempted op) \<and> confirmation_ok op \<and>
     (wr_Status op \<in> paid_statuses \<longrightarrow> charged op) \<and> (wr_RefundAttempted op \<longrightarrow> charged op)"

section \<open>The codec\<close>

text \<open>
  How a stored operation is read back: the fields that are not part of its text are empty, the maps are re-read. An
  empty map is omitted; a map of texts and 64-bit integers or floats is read with its numbers as floats.
\<close>

definition reread :: "(gomap \<Rightarrow> gomap) \<Rightarrow> renewal_operation \<Rightarrow> renewal_operation" where
  "reread rr op =
     op\<lparr>wr_ID := [], wr_Status := [], wr_CreatedAt := [], wr_PersistedResult := [], wr_ChargeConfirmation := rr (wr_ChargeConfirmation op),
        wr_RefundConfirmation := rr (wr_RefundConfirmation op), wr_ComputeRenewal := rr (wr_ComputeRenewal op),
        wr_StorageRenewal := rr (wr_StorageRenewal op), wr_ComputeReadback := rr (wr_ComputeReadback op),
        wr_StorageReadback := rr (wr_StorageReadback op), wr_ReviewResolutionResult := rr (wr_ReviewResolutionResult op)\<rparr>"

definition scalar :: "goval \<Rightarrow> bool" where
  "scalar v = (case v of GStr _ \<Rightarrow> True | GInt KInt64 _ \<Rightarrow> True | GFloat KFloat64 (Fin _) \<Rightarrow> True | _ \<Rightarrow> False)"

definition scalar_map :: "(string \<times> goval) list \<Rightarrow> bool" where
  "scalar_map kvs \<longleftrightarrow> kvs \<noteq> [] \<and> distinct (map fst kvs) \<and> list_all (\<lambda>(k, v). scalar v) kvs"

definition renewal_codec_ok :: "renewal_codec \<Rightarrow> bool" where
  "renewal_codec_ok rc \<longleftrightarrow>
     (\<exists>rr. (\<forall>op. rc_unmarshal rc (rc_marshal rc op) = Some (reread rr op)) \<and> rr None = None \<and> rr (Some []) = None \<and>
        (\<forall>kvs. scalar_map kvs \<longrightarrow> rr (Some kvs) = floated_map (Some kvs)))"

section \<open>The invariant\<close>

text \<open>The history of the code, read just before, does not show it.\<close>

definition unseen :: "renewal_env \<Rightarrow> renewal_trace \<Rightarrow> money_input \<Rightarrow> bool" where
  "unseen env tr m \<longleftrightarrow>
     (\<exists>pre h. tr = pre @ [ReadWalletHistory (mi_UserID m) [mi_Code m]] \<and> re_history env pre (mi_UserID m) [mi_Code m] = Inr h \<and>
        map_of h (mi_Code m) = None)"

text \<open>What backs an effect: the attempt is stored, and a repetition follows a history without the code.\<close>

definition backed :: "renewal_env \<Rightarrow> renewal_trace \<Rightarrow> renewal_effect \<Rightarrow> bool" where
  "backed env tr e =
     (case e of
        ChargeWallet i m \<Rightarrow>
          (\<exists>op. saved tr op \<and> wr_ID op = i \<and> wr_ChargeAttempted op \<and> wr_RedeemCode op = mi_Code m \<and> wr_TotalUSDMicros op = mi_USDMicros m) \<and>
          (list_ex (charges i) tr \<longrightarrow> unseen env tr m)
      | RefundWallet i m \<Rightarrow>
          (\<exists>op. saved tr op \<and> wr_ID op = i \<and> wr_RefundAttempted op \<and> charged op \<and> wr_RefundCode op = mi_Code m \<and> wr_TotalUSDMicros op = mi_USDMicros m) \<and>
          (list_ex (refunds i) tr \<longrightarrow> unseen env tr m)
      | SaveRenewal op (Some (p, row)) outcome \<Rightarrow>
          ''paidThrough'' \<in> fst ` set (wp_Fields p) \<longrightarrow>
            charged op \<and> wp_ExpectedPaidThrough p = wr_PaidThrough op \<and> map_of (wp_Fields p) ''paidThrough'' = Some (GStr (wr_RenewedThrough op))
      | _ \<Rightarrow> True)"

definition all_backed :: "renewal_env \<Rightarrow> renewal_trace \<Rightarrow> bool" where
  "all_backed env tr \<longleftrightarrow> (\<forall>n < length tr. backed env (take n tr) (tr ! n))"

text \<open>A stored operation: it forgets no attempt that was ever stored.\<close>

definition row_sound :: "renewal_codec \<Rightarrow> renewal_trace \<Rightarrow> string \<Rightarrow> gomap \<Rightarrow> bool" where
  "row_sound rc tr i row \<longleftrightarrow>
     (\<exists>op. row = workspaceRenewalOperationRow rc op \<and> wr_ID op = i \<and> saved tr op \<and> sound_operation op \<and>
        (\<forall>s. saved tr s \<longrightarrow> wr_ID s = i \<longrightarrow> (wr_ChargeAttempted s \<longrightarrow> wr_ChargeAttempted op) \<and> (wr_RefundAttempted s \<longrightarrow> wr_RefundAttempted op)))"

definition rows_sound :: "renewal_codec \<Rightarrow> renewal_trace \<Rightarrow> table \<Rightarrow> bool" where
  "rows_sound rc tr ops \<longleftrightarrow>
     (\<forall>i row. map_of ops i = Some row \<longrightarrow> row_sound rc tr i row) \<and> (\<forall>i op. map_of ops i = None \<longrightarrow> saved tr op \<longrightarrow> wr_ID op \<noteq> i)"

text \<open>The identity of an operation, with its codes and its price, never changes.\<close>

definition idents_fixed :: "renewal_trace \<Rightarrow> bool" where
  "idents_fixed tr \<longleftrightarrow> (\<forall>op op'. saved tr op \<longrightarrow> saved tr op' \<longrightarrow> wr_ID op = wr_ID op' \<longrightarrow> ident op = ident op')"

definition money_inv :: "renewal_codec \<Rightarrow> renewal_env \<Rightarrow> renewal_world \<Rightarrow> bool" where
  "money_inv rc env w \<longleftrightarrow>
     renewal_codec_ok rc \<and> distinct (map fst (rw_operations w)) \<and> rows_sound rc (rw_trace w) (rw_operations w) \<and> idents_fixed (rw_trace w) \<and> all_backed env (rw_trace w)"

section \<open>The operation in hand\<close>

text \<open>What may be stored: an operation that was stored before, whose attempts are not forgotten.\<close>

definition storable :: "renewal_codec \<Rightarrow> renewal_world \<Rightarrow> renewal_operation \<Rightarrow> bool" where
  "storable rc w op \<longleftrightarrow>
     (\<exists>s. saved (rw_trace w) s \<and> ident s = ident op) \<and>
     (\<exists>x. wr_PersistedResult op = rc_marshal rc x \<and> (wr_ChargeAttempted x \<longrightarrow> wr_ChargeAttempted op) \<and> (wr_RefundAttempted x \<longrightarrow> wr_RefundAttempted op)) \<and>
     sound_operation op"

definition in_hand :: "renewal_codec \<Rightarrow> renewal_world \<Rightarrow> renewal_operation \<Rightarrow> bool" where
  "in_hand rc w op \<longleftrightarrow>
     storable rc w op \<and>
     (wr_ChargeAttempted op \<longrightarrow> (\<exists>s. saved (rw_trace w) s \<and> ident s = ident op \<and> wr_ChargeAttempted s)) \<and>
     (wr_RefundAttempted op \<longrightarrow> (\<exists>s. saved (rw_trace w) s \<and> ident s = ident op \<and> wr_RefundAttempted s \<and> charged s))"

section \<open>Effects keep the invariant\<close>

definition quiet_effect :: "renewal_effect \<Rightarrow> bool" where
  "quiet_effect e = (case e of ChargeWallet _ _ \<Rightarrow> False | RefundWallet _ _ \<Rightarrow> False | SaveRenewal _ _ outcome \<Rightarrow> outcome = SaveRefused | _ \<Rightarrow> True)"

lemma quiet_renewal_effects [simp]:
  "quiet_effect ReadClock" "quiet_effect (ReadRenewalFacts inputs)" "quiet_effect (Preflight input)" "quiet_effect (ReadKeys u n)"
  "quiet_effect (ReadWalletBalance u)" "quiet_effect (ReadWalletHistory u cs)" "quiet_effect (RenewResource t a wid r k)"
  "quiet_effect (SaveResource t row outcome)" "quiet_effect (SaveRenewal op ws SaveRefused)" "quiet_effect (RecordRenewalReceipt x k)"
  by (simp_all add: quiet_effect_def)

lemma saved_append: "saved (tr @ [e]) op \<longleftrightarrow> saved tr op \<or> (\<exists>ws outcome. e = SaveRenewal op ws outcome \<and> outcome \<noteq> SaveRefused)"
  by (auto simp: saved_def)

lemma saved_grows: "saved (rw_trace w) op \<Longrightarrow> grows w w' \<Longrightarrow> saved (rw_trace w') op"
  unfolding saved_def grows_def by fastforce

lemma saved_take: "saved (take n tr) op \<Longrightarrow> saved tr op"
  by (auto simp: saved_def dest: in_set_takeD)

lemma all_backed_append: "all_backed env (tr @ [e]) \<longleftrightarrow> all_backed env tr \<and> backed env tr e"
  by (auto simp: all_backed_def nth_append less_Suc_eq)

lemma not_saving: "(\<And>op ws outcome. e = SaveRenewal op ws outcome \<Longrightarrow> outcome = SaveRefused) \<Longrightarrow> saved (tr @ [e]) op = saved tr op"
  by (auto simp: saved_append)

text \<open>An effect that stores no operation only has to be backed.\<close>

lemma keep_rows:
  assumes "money_inv rc env w" and "\<And>op ws outcome. e = SaveRenewal op ws outcome \<Longrightarrow> outcome = SaveRefused" and "backed env (rw_trace w) e"
  shows "money_inv rc env (apply_renewal_effect rc env e w)"
proof -
  have s: "saved (rw_trace w @ [e]) op = saved (rw_trace w) op" for op by (rule not_saving) (rule assms(2))
  have "write_operations rc e (rw_operations w) = rw_operations w"
  proof (cases "\<exists>op ws outcome. e = SaveRenewal op ws outcome")
    case True
    then show ?thesis using assms(2) by (auto simp: write_operations_def)
  next
    case False
    then show ?thesis by (cases e) (simp_all add: write_operations_def)
  qed
  moreover have "saved (rw_trace w @ [e]) = saved (rw_trace w)" using s by blast
  then have "rows_sound rc (rw_trace w @ [e]) = rows_sound rc (rw_trace w)" "idents_fixed (rw_trace w @ [e]) = idents_fixed (rw_trace w)"
    by (simp_all add: rows_sound_def row_sound_def idents_fixed_def fun_eq_iff)
  ultimately show ?thesis
    using assms(1,3) by (simp add: money_inv_def apply_renewal_effect_def all_backed_append)
qed

lemma quiet_backed: "quiet_effect e \<Longrightarrow> (\<And>op ws outcome. e = SaveRenewal op ws outcome \<Longrightarrow> ws = None) \<Longrightarrow> backed env tr e"
  by (cases e) (auto simp: quiet_effect_def backed_def)

lemma quiet_keeps:
  assumes "money_inv rc env w" and "quiet_effect e" and "\<And>op ws outcome. e = SaveRenewal op ws outcome \<Longrightarrow> ws = None"
  shows "money_inv rc env (apply_renewal_effect rc env e w)"
  using assms by (intro keep_rows quiet_backed) (auto simp: quiet_effect_def)

lemma money_backed: "money_inv rc env w \<Longrightarrow> n < length (rw_trace w) \<Longrightarrow> backed env (take n (rw_trace w)) (rw_trace w ! n)"
  by (simp add: money_inv_def all_backed_def)

lemma charged_saved:
  assumes "money_inv rc env w" and "list_ex (charges i) (rw_trace w)"
  shows "\<exists>op. saved (rw_trace w) op \<and> wr_ID op = i \<and> wr_ChargeAttempted op"
proof -
  obtain n m where "n < length (rw_trace w)" "rw_trace w ! n = ChargeWallet i m"
    using assms(2) by (auto simp: list_ex_iff in_set_conv_nth charges_iff)
  with money_backed [OF assms(1)] show ?thesis by (fastforce simp: backed_def dest: saved_take)
qed

lemma refunded_saved:
  assumes "money_inv rc env w" and "list_ex (refunds i) (rw_trace w)"
  shows "\<exists>op. saved (rw_trace w) op \<and> wr_ID op = i \<and> wr_RefundAttempted op"
proof -
  obtain n m where "n < length (rw_trace w)" "rw_trace w ! n = RefundWallet i m"
    using assms(2) by (auto simp: list_ex_iff in_set_conv_nth charges_iff)
  with money_backed [OF assms(1)] show ?thesis by (fastforce simp: backed_def dest: saved_take)
qed

lemma charge_keeps:
  assumes "money_inv rc env w" "in_hand rc w op" "wr_ChargeAttempted op"
    and "list_ex (charges (wr_ID op)) (rw_trace w) \<longrightarrow> unseen env (rw_trace w) (renewal_money op userID)"
  shows "money_inv rc env (apply_renewal_effect rc env (ChargeWallet (wr_ID op) (renewal_money op userID)) w)"
  using assms by (intro keep_rows) (auto simp: backed_def in_hand_def ident_def renewal_money_def)

lemma refund_keeps:
  assumes "money_inv rc env w" "in_hand rc w op" "wr_RefundAttempted op"
    and "list_ex (refunds (wr_ID op)) (rw_trace w) \<longrightarrow> unseen env (rw_trace w) (refund_money op userID)"
  shows "money_inv rc env (apply_renewal_effect rc env (RefundWallet (wr_ID op) (refund_money op userID)) w)"
proof -
  obtain s where "saved (rw_trace w) s" "ident s = ident op" "wr_RefundAttempted s" "charged s" using assms(2,3) by (auto simp: in_hand_def)
  with assms show ?thesis by (intro keep_rows) (auto simp: backed_def ident_def refund_money_def)
qed

section \<open>Storing keeps the invariant\<close>

lemma codec_same:
  assumes "renewal_codec_ok rc" and "rc_marshal rc x = rc_marshal rc y"
  shows "wr_ChargeAttempted x = wr_ChargeAttempted y" and "wr_RefundAttempted x = wr_RefundAttempted y"
proof -
  obtain rr where "reread rr x = reread rr y" using assms unfolding renewal_codec_ok_def by (metis option.inject)
  then have "wr_ChargeAttempted (reread rr x) = wr_ChargeAttempted (reread rr y)" "wr_RefundAttempted (reread rr x) = wr_RefundAttempted (reread rr y)"
    by simp_all
  then show "wr_ChargeAttempted x = wr_ChargeAttempted y" "wr_RefundAttempted x = wr_RefundAttempted y" by (simp_all add: reread_def)
qed

lemma row_get [simp]:
  "mget (workspaceRenewalOperationRow rc op) ''id'' = GStr (wr_ID op)"
  "mget (workspaceRenewalOperationRow rc op) ''operationId'' = GStr (wr_ID op)"
  "mget (workspaceRenewalOperationRow rc op) ''accountId'' = GStr (wr_AccountID op)"
  "mget (workspaceRenewalOperationRow rc op) ''workspaceId'' = GStr (wr_WorkspaceID op)"
  "mget (workspaceRenewalOperationRow rc op) ''action'' = GStr ''workspace.renewal''"
  "mget (workspaceRenewalOperationRow rc op) ''status'' = GStr (wr_Status op)"
  "mget (workspaceRenewalOperationRow rc op) ''result'' = GStr (rc_marshal rc op)"
  "mget (workspaceRenewalOperationRow rc op) ''createdAt'' = GStr (wr_CreatedAt op)"
  by (simp_all add: workspaceRenewalOperationRow_def mget_def)

lemma str_value [simp]: "stringValue (GStr s) = s"
  by (simp add: stringValue_def)

text \<open>What a table row says about an operation in memory that expects it.\<close>

lemma current_attempts:
  assumes "money_inv rc env w" "storable rc w op" "persist_current op w"
  shows "\<exists>row. map_of (rw_operations w) (wr_ID op) = Some row"
    and "saved (rw_trace w) s \<Longrightarrow> wr_ID s = wr_ID op \<Longrightarrow> wr_ChargeAttempted s \<Longrightarrow> wr_ChargeAttempted op"
    and "saved (rw_trace w) s \<Longrightarrow> wr_ID s = wr_ID op \<Longrightarrow> wr_RefundAttempted s \<Longrightarrow> wr_RefundAttempted op"
proof -
  obtain row where row: "map_of (rw_operations w) (wr_ID op) = Some row" "stringValue (mget row ''result'') = wr_PersistedResult op"
    using assms(3) by (auto simp: persist_current_def split: option.splits)
  then show "\<exists>row. map_of (rw_operations w) (wr_ID op) = Some row" by blast
  have "row_sound rc (rw_trace w) (wr_ID op) row" using assms(1) row(1) unfolding money_inv_def rows_sound_def by blast
  then obtain op1 where op1: "row = workspaceRenewalOperationRow rc op1"
    "\<And>s. saved (rw_trace w) s \<Longrightarrow> wr_ID s = wr_ID op \<Longrightarrow> (wr_ChargeAttempted s \<longrightarrow> wr_ChargeAttempted op1) \<and> (wr_RefundAttempted s \<longrightarrow> wr_RefundAttempted op1)"
    unfolding row_sound_def by blast
  obtain x where x: "wr_PersistedResult op = rc_marshal rc x" "wr_ChargeAttempted x \<longrightarrow> wr_ChargeAttempted op" "wr_RefundAttempted x \<longrightarrow> wr_RefundAttempted op"
    using assms(2) by (auto simp: storable_def)
  have "renewal_codec_ok rc" using assms(1) by (simp add: money_inv_def)
  moreover have "rc_marshal rc op1 = rc_marshal rc x" using row(2) op1(1) x(1) by simp
  ultimately have same: "wr_ChargeAttempted op1 = wr_ChargeAttempted x" "wr_RefundAttempted op1 = wr_RefundAttempted x"
    by (auto dest: codec_same)
  show "saved (rw_trace w) s \<Longrightarrow> wr_ID s = wr_ID op \<Longrightarrow> wr_ChargeAttempted s \<Longrightarrow> wr_ChargeAttempted op"
    and "saved (rw_trace w) s \<Longrightarrow> wr_ID s = wr_ID op \<Longrightarrow> wr_RefundAttempted s \<Longrightarrow> wr_RefundAttempted op"
    using op1(2) [of s] x(2,3) same by blast+
qed

text \<open>A save of an operation that forgets no attempt.\<close>

lemma save_keeps:
  assumes "money_inv rc env w" and "sound_operation op" and "outcome \<noteq> SaveRefused" and "backed env (rw_trace w) (SaveRenewal op ws outcome)"
    and same: "\<And>s. saved (rw_trace w) s \<Longrightarrow> wr_ID s = wr_ID op \<Longrightarrow>
      ident s = ident op \<and> (wr_ChargeAttempted s \<longrightarrow> wr_ChargeAttempted op) \<and> (wr_RefundAttempted s \<longrightarrow> wr_RefundAttempted op)"
  shows "money_inv rc env (apply_renewal_effect rc env (SaveRenewal op ws outcome) w)"
proof -
  let ?e = "SaveRenewal op ws outcome" and ?ops = "AList.update (wr_ID op) (workspaceRenewalOperationRow rc op) (rw_operations w)"
  have new: "saved (rw_trace w @ [?e]) s \<longleftrightarrow> saved (rw_trace w) s \<or> s = op" for s using assms(3) by (auto simp: saved_append)
  have ops: "write_operations rc ?e (rw_operations w) = ?ops" using assms(3) by (simp add: write_operations_def)
  have inv: "distinct (map fst (rw_operations w))" "all_backed env (rw_trace w)" "idents_fixed (rw_trace w)" "rows_sound rc (rw_trace w) (rw_operations w)"
    "renewal_codec_ok rc" using assms(1) by (simp_all add: money_inv_def)
  have rows: "row_sound rc (rw_trace w @ [?e]) i row" if "map_of ?ops i = Some row" for i row
  proof (cases "i = wr_ID op")
    case True
    with that have "row = workspaceRenewalOperationRow rc op" by (simp add: update_conv')
    moreover have "(wr_ChargeAttempted s \<longrightarrow> wr_ChargeAttempted op) \<and> (wr_RefundAttempted s \<longrightarrow> wr_RefundAttempted op)"
      if "saved (rw_trace w @ [?e]) s" "wr_ID s = i" for s
      using that same [of s] True by (auto simp: new)
    ultimately show ?thesis using True assms(2) unfolding row_sound_def new by blast
  next
    case False
    with that have "row_sound rc (rw_trace w) i row" using inv(4) by (simp add: rows_sound_def update_conv')
    then obtain op1 where "row = workspaceRenewalOperationRow rc op1" "wr_ID op1 = i" "saved (rw_trace w) op1" "sound_operation op1"
      "\<And>s. saved (rw_trace w) s \<Longrightarrow> wr_ID s = i \<Longrightarrow> (wr_ChargeAttempted s \<longrightarrow> wr_ChargeAttempted op1) \<and> (wr_RefundAttempted s \<longrightarrow> wr_RefundAttempted op1)"
      unfolding row_sound_def by blast
    with False show ?thesis unfolding row_sound_def by (intro exI [of _ op1]) (auto simp: new)
  qed
  have none: "wr_ID s \<noteq> i" if "map_of ?ops i = None" "saved (rw_trace w @ [?e]) s" for i s
    using that inv(4) unfolding rows_sound_def by (auto simp: new update_conv' split: if_splits)
  have one: "ident s = ident s'" if "saved (rw_trace w @ [?e]) s" "saved (rw_trace w @ [?e]) s'" "wr_ID s = wr_ID s'" for s s'
  proof -
    note h = that
    consider "saved (rw_trace w) s" "saved (rw_trace w) s'" | "saved (rw_trace w) s" "s' = op" | "s = op" "saved (rw_trace w) s'" | "s = op" "s' = op"
      using h(1,2) unfolding new by blast
    then show ?thesis
    proof cases
      case 1
      then show ?thesis using inv(3) h(3) unfolding idents_fixed_def by blast
    next
      case 2
      then show ?thesis using same [of s] h(3) by simp
    next
      case 3
      then show ?thesis using same [of s'] h(3) by simp
    qed simp
  qed
  show ?thesis
    unfolding money_inv_def apply_renewal_effect_def renewal_world.simps ops all_backed_append
  proof (intro conjI)
    show "rows_sound rc (rw_trace w @ [?e]) ?ops" unfolding rows_sound_def using rows none by blast
    show "idents_fixed (rw_trace w @ [?e])" unfolding idents_fixed_def using one by blast
  qed (use inv(1,2,5) assms(4) in \<open>simp_all add: distinct_update\<close>)
qed

section \<open>The operation in hand, through the code\<close>

lemma storable_grows: "storable rc w op \<Longrightarrow> grows w w' \<Longrightarrow> storable rc w' op"
  unfolding storable_def using saved_grows by blast

lemma in_hand_grows: "in_hand rc w op \<Longrightarrow> grows w w' \<Longrightarrow> in_hand rc w' op"
  unfolding in_hand_def using storable_grows saved_grows by blast

lemma in_hand_storable: "in_hand rc w op \<Longrightarrow> storable rc w op"
  by (simp add: in_hand_def)

lemma in_hand_sound: "in_hand rc w op \<Longrightarrow> sound_operation op"
  by (simp add: in_hand_def storable_def)

text \<open>What the account of an operation depends on.\<close>

definition account_of :: "renewal_operation \<Rightarrow> (string \<times> string \<times> string \<times> int) \<times> string \<times> bool \<times> bool \<times> gomap" where
  "account_of op = (ident op, wr_PersistedResult op, wr_ChargeAttempted op, wr_RefundAttempted op, wr_ChargeConfirmation op)"

lemma charged_account: "account_of op' = account_of op \<Longrightarrow> charged op' = charged op"
  by (simp add: account_of_def charged_def ident_def)

lemma confirmation_account: "account_of op' = account_of op \<Longrightarrow> confirmation_ok op' = confirmation_ok op"
  using charged_account [of op' op] by (simp add: confirmation_ok_def account_of_def)

lemma sound_change:
  assumes "sound_operation op" "account_of op' = account_of op"
    and "wr_ErrorCode op' = ''sub2api_charge_unconfirmed'' \<Longrightarrow> wr_ErrorCode op = wr_ErrorCode op' \<or> wr_ChargeAttempted op"
    and "wr_Status op' \<in> paid_statuses \<Longrightarrow> wr_Status op \<in> paid_statuses \<or> charged op"
  shows "sound_operation op'"
  using assms charged_account [OF assms(2)] confirmation_account [OF assms(2)]
  unfolding sound_operation_def account_of_def by auto

lemma in_hand_change:
  assumes "in_hand rc w op" "account_of op' = account_of op"
    and "wr_ErrorCode op' = ''sub2api_charge_unconfirmed'' \<Longrightarrow> wr_ErrorCode op = wr_ErrorCode op' \<or> wr_ChargeAttempted op"
    and "wr_Status op' \<in> paid_statuses \<Longrightarrow> wr_Status op \<in> paid_statuses \<or> charged op"
  shows "in_hand rc w op'"
proof -
  have "sound_operation op'" using sound_change [OF in_hand_sound [OF assms(1)] assms(2-4)] .
  with assms(1,2) show ?thesis unfolding in_hand_def storable_def account_of_def by simp
qed

lemmas account_defs = account_of_def ident_def

text \<open>A save that succeeded leaves the operation in hand, with its attempts on record.\<close>

definition stored :: "renewal_codec \<Rightarrow> renewal_operation \<Rightarrow> renewal_operation" where
  "stored rc op = op\<lparr>wr_PersistedResult := rc_marshal rc op\<rparr>"

lemma charged_stored [simp]: "charged (op\<lparr>wr_PersistedResult := x\<rparr>) = charged op" "ident (op\<lparr>wr_PersistedResult := x\<rparr>) = ident op"
  by (simp_all add: charged_def ident_def)

lemma sound_stored [simp]: "sound_operation (op\<lparr>wr_PersistedResult := x\<rparr>) = sound_operation op"
  by (simp add: sound_operation_def confirmation_ok_def)

lemma saved_in_hand:
  assumes "saved (rw_trace w) op" "sound_operation op"
  shows "in_hand rc w (stored rc op)"
  using assms unfolding in_hand_def storable_def stored_def sound_operation_def
  by (auto simp: confirmation_ok_def)

text \<open>An operation read from its row.\<close>

lemma floated_again: "floated_map (floated_map (charge_confirmation c)) = floated_map (charge_confirmation c)"
  by (simp add: floated_map_def floated_def charge_confirmation_def)

lemma floated_matches: "monthlyChargeConfirmationMatches (floated_map (charge_confirmation c)) = monthlyChargeConfirmationMatches (charge_confirmation c)"
  by (simp add: fun_eq_iff monthlyChargeConfirmationMatches_def floated_map_def floated_def charge_confirmation_def mlen_def mget_def numberField_def)

lemma confirmation_scalar:
  "\<exists>kvs. charge_confirmation c = Some kvs \<and> scalar_map kvs" "\<exists>kvs. floated_map (charge_confirmation c) = Some kvs \<and> scalar_map kvs"
  by (auto simp: charge_confirmation_def floated_map_def floated_def scalar_map_def scalar_def float_of_int_def)

lemma reread_confirmation:
  assumes "confirmation_ok op" "rr None = None" "\<forall>kvs. scalar_map kvs \<longrightarrow> rr (Some kvs) = floated_map (Some kvs)"
  shows "confirmation_ok (op\<lparr>wr_ChargeConfirmation := rr (wr_ChargeConfirmation op)\<rparr>)"
    and "charged op \<Longrightarrow> wr_ChargeConfirmation op \<noteq> None \<Longrightarrow> charged (op\<lparr>wr_ChargeConfirmation := rr (wr_ChargeConfirmation op)\<rparr>)"
proof -
  have r: "\<exists>c. rr (wr_ChargeConfirmation op) = floated_map (charge_confirmation c) \<and>
      (wr_ChargeConfirmation op = charge_confirmation c \<or> wr_ChargeConfirmation op = floated_map (charge_confirmation c))"
    if some: "wr_ChargeConfirmation op \<noteq> None"
  proof -
    obtain c where c: "wr_ChargeConfirmation op = charge_confirmation c \<or> wr_ChargeConfirmation op = floated_map (charge_confirmation c)"
      using assms(1) some unfolding confirmation_ok_def by blast
    moreover from this have "rr (wr_ChargeConfirmation op) = floated_map (wr_ChargeConfirmation op)"
      using confirmation_scalar [of c] assms(3) by auto
    ultimately show ?thesis using floated_again by (intro exI [of _ c]) auto
  qed
  show ch: "charged op \<Longrightarrow> wr_ChargeConfirmation op \<noteq> None \<Longrightarrow> charged (op\<lparr>wr_ChargeConfirmation := rr (wr_ChargeConfirmation op)\<rparr>)"
  proof -
    assume h: "charged op" "wr_ChargeConfirmation op \<noteq> None"
    then obtain c userID where c: "rr (wr_ChargeConfirmation op) = floated_map (charge_confirmation c)"
      "wr_ChargeConfirmation op = charge_confirmation c \<or> wr_ChargeConfirmation op = floated_map (charge_confirmation c)"
      "monthlyChargeConfirmationMatches (wr_ChargeConfirmation op) (wr_RedeemCode op) userID (wr_TotalUSDMicros op)"
      using r unfolding charged_def by blast
    then have "monthlyChargeConfirmationMatches (floated_map (charge_confirmation c)) (wr_RedeemCode op) userID (wr_TotalUSDMicros op)"
      using floated_matches [of c] by auto
    then show "charged (op\<lparr>wr_ChargeConfirmation := rr (wr_ChargeConfirmation op)\<rparr>)" unfolding charged_def by (auto simp: c(1))
  qed
  show "confirmation_ok (op\<lparr>wr_ChargeConfirmation := rr (wr_ChargeConfirmation op)\<rparr>)"
    using assms(1,2) r ch by (cases "wr_ChargeConfirmation op = None") (auto simp: confirmation_ok_def)
qed

lemma charged_some: "charged op \<Longrightarrow> wr_ChargeConfirmation op \<noteq> None"
  by (auto simp: charged_def monthlyChargeConfirmationMatches_def mlen_def split: option.splits)

lemma decoded_in_hand:
  assumes "renewal_codec_ok rc" "row_sound rc (rw_trace w) i row" "decode_renewal rc row = Inr op"
  shows "in_hand rc w op" and "wr_ID op = i"
    and "saved (rw_trace w) s \<Longrightarrow> wr_ID s = i \<Longrightarrow> (wr_ChargeAttempted s \<longrightarrow> wr_ChargeAttempted op) \<and> (wr_RefundAttempted s \<longrightarrow> wr_RefundAttempted op)"
proof -
  obtain rr where rr: "\<And>op. rc_unmarshal rc (rc_marshal rc op) = Some (reread rr op)" "rr None = None"
    "\<forall>kvs. scalar_map kvs \<longrightarrow> rr (Some kvs) = floated_map (Some kvs)"
    using assms(1) unfolding renewal_codec_ok_def by blast
  obtain op1 where op1: "row = workspaceRenewalOperationRow rc op1" "wr_ID op1 = i" "saved (rw_trace w) op1" "sound_operation op1"
    "\<And>s. saved (rw_trace w) s \<Longrightarrow> wr_ID s = i \<Longrightarrow> (wr_ChargeAttempted s \<longrightarrow> wr_ChargeAttempted op1) \<and> (wr_RefundAttempted s \<longrightarrow> wr_RefundAttempted op1)"
    using assms(2) unfolding row_sound_def by blast
  have op: "op = (reread rr op1)\<lparr>wr_ID := wr_ID op1, wr_Status := wr_Status op1, wr_CreatedAt := wr_CreatedAt op1, wr_PersistedResult := rc_marshal rc op1\<rparr>"
    using assms(3) op1(1) rr(1) by (auto simp: decodeWorkspaceRenewalOperation_def Let_def split: if_splits)
  show "wr_ID op = i" using op op1(2) by simp
  show "saved (rw_trace w) s \<Longrightarrow> wr_ID s = i \<Longrightarrow> (wr_ChargeAttempted s \<longrightarrow> wr_ChargeAttempted op) \<and> (wr_RefundAttempted s \<longrightarrow> wr_RefundAttempted op)"
    using op1(5) [of s] by (simp add: op reread_def)
  let ?op = "op1\<lparr>wr_ChargeConfirmation := rr (wr_ChargeConfirmation op1)\<rparr>"
  have c: "confirmation_ok op = confirmation_ok ?op" "charged op = charged ?op"
    by (simp_all add: op reread_def confirmation_ok_def charged_def)
  have r: "confirmation_ok ?op" "charged op1 \<Longrightarrow> charged ?op"
    using reread_confirmation [OF _ rr(2,3), of op1] op1(4) charged_some by (auto simp: sound_operation_def)
  have "sound_operation op" using op1(4) c r unfolding sound_operation_def by (simp add: op reread_def)
  moreover have "ident op = ident op1" by (simp add: op reread_def ident_def)
  moreover have "wr_ChargeAttempted op = wr_ChargeAttempted op1" "wr_RefundAttempted op = wr_RefundAttempted op1" "wr_PersistedResult op = rc_marshal rc op1"
    by (simp_all add: op reread_def)
  moreover have "wr_RefundAttempted op1 \<Longrightarrow> charged op1" using op1(4) by (simp add: sound_operation_def)
  ultimately show "in_hand rc w op" using op1(3) unfolding in_hand_def storable_def by metis
qed

section \<open>Reads\<close>

text \<open>
  What the reads of the code rely on: an effect that neither moves money nor stores an operation keeps the invariant.
\<close>

locale quiet_invariant =
  fixes rc :: renewal_codec and env :: renewal_env and J :: "renewal_world \<Rightarrow> bool"
  assumes quiet: "J w \<Longrightarrow> quiet_effect e \<Longrightarrow> (\<And>op ws outcome. e = SaveRenewal op ws outcome \<Longrightarrow> ws = None) \<Longrightarrow> J (apply_renewal_effect rc env e w)"
begin

lemma wp_quiet:
  assumes "quiet_effect e" "\<And>op ws outcome. e \<noteq> SaveRenewal op ws outcome" "\<And>w'. J w' \<Longrightarrow> grows w w' \<Longrightarrow> Q (answer (rw_trace w)) w'"
  shows "wp rc env J (call rc env e answer) Q w"
proof (rule wp_call)
  assume "J w"
  then show J: "J (apply_renewal_effect rc env e w)" using assms(1,2) by (intro quiet) auto
  show "Q (answer (rw_trace w)) (apply_renewal_effect rc env e w)" by (rule assms(3) [OF J]) simp
qed

lemma wp_quiet_emit:
  assumes "quiet_effect e" "\<And>op ws outcome. e \<noteq> SaveRenewal op ws outcome" "\<And>w'. J w' \<Longrightarrow> grows w w' \<Longrightarrow> Q () w'"
  shows "wp rc env J (emit rc env e) Q w"
proof (rule wp_emit)
  assume "J w"
  then show J: "J (apply_renewal_effect rc env e w)" using assms(1,2) by (intro quiet) auto
  show "Q () (apply_renewal_effect rc env e w)" by (rule assms(3) [OF J]) simp
qed

lemma wp_gateway_user: "(\<And>x. Q x w) \<Longrightarrow> wp rc env J (gateway_user env a) Q w"
  unfolding gateway_user_def by (rule wp_ask)

lemma wp_table_row: "(\<And>x. Q x w) \<Longrightarrow> wp rc env J (getWorkspace env a) Q w" "(\<And>x. Q x w) \<Longrightarrow> wp rc env J (getCompute env a) Q w"
  "(\<And>x. Q x w) \<Longrightarrow> wp rc env J (getStorage env a) Q w"
  unfolding getWorkspace_def getCompute_def getStorage_def table_row_def by (rule wp_ask, simp)+

lemma wp_read_fact: "(\<And>x w'. J w' \<Longrightarrow> grows w w' \<Longrightarrow> Q x w') \<Longrightarrow> wp rc env J (read_fact rc env input) Q w"
  unfolding read_fact_def by (rule wp_quiet) simp_all

lemma wp_receipt: "(\<And>x w'. J w' \<Longrightarrow> grows w w' \<Longrightarrow> Q x w') \<Longrightarrow> wp rc env J (RecordMonthlyReceipt rc env input k) Q w"
  unfolding RecordMonthlyReceipt_def by (rule wp_quiet) simp_all

lemma wp_balance: "(\<And>x w'. J w' \<Longrightarrow> grows w w' \<Longrightarrow> Q x w') \<Longrightarrow> wp rc env J (read_balance rc env u) Q w"
  unfolding read_balance_def by (rule wp_quiet) simp_all

lemma wp_clock: "(\<And>x w'. J w' \<Longrightarrow> grows w w' \<Longrightarrow> Q x w') \<Longrightarrow> wp rc env J (call rc env ReadClock (re_now env)) Q w"
  by (rule wp_quiet) simp_all

lemma wp_renew: "(\<And>x w'. J w' \<Longrightarrow> grows w w' \<Longrightarrow> Q x w') \<Longrightarrow> wp rc env J (RenewMonthlyResource rc env t op) Q w"
  unfolding RenewMonthlyResource_def Let_def by (rule wp_quiet) simp_all

lemma wp_key_problem: "(\<And>x w'. J w' \<Longrightarrow> grows w w' \<Longrightarrow> Q x w') \<Longrightarrow> wp rc env J (key_problem rc env op u) Q w"
  unfolding key_problem_def WorkspaceKeyByIDForConvergence_def
  by (rule wp_inv, intro wp_rules wp_table_row wp_quiet) (auto intro: grows_trans)

lemma wp_resources: "(\<And>x w'. J w' \<Longrightarrow> grows w w' \<Longrightarrow> x \<noteq> Inl ''sub2api_charge_unconfirmed'' \<Longrightarrow> Q x w') \<Longrightarrow> wp rc env J (workspaceRenewalResources rc env op) Q w"
  unfolding workspaceRenewalResources_def
  by (rule wp_inv, intro wp_rules wp_table_row wp_quiet) (auto intro: grows_trans simp: provider_truth_invalid_def Let_def split: sum.splits)

lemma wp_readback: "(\<And>x. Q x w) \<Longrightarrow> wp rc env J (workspaceRenewalProviderReadback rc env t op pf ok) Q w"
  unfolding workspaceRenewalProviderReadback_def by (intro wp_rules wp_table_row)

lemma wp_save_resource: "(\<And>x w'. J w' \<Longrightarrow> grows w w' \<Longrightarrow> Q x w') \<Longrightarrow> wp rc env J (saveResourcePreservingAutoRenew rc env t row) Q w"
  unfolding saveResourcePreservingAutoRenew_def
  by (rule wp_inv, intro wp_rules wp_quiet_emit) simp_all

lemmas wp_reads = wp_gateway_user wp_table_row wp_read_fact wp_receipt wp_balance wp_clock wp_renew wp_key_problem wp_resources wp_readback
  wp_save_resource

end

interpretation money: quiet_invariant rc env "money_inv rc env" for rc env
  by unfold_locales (rule quiet_keeps)

end
