(* ===== verification/Renewal_Steps.thy ===== *)
theory Renewal_Steps
  imports Renewal_Safety
begin

text \<open>
  Every operation of the renewal code keeps the money invariant at each of its effects and, where it returns without
  an error, returns an operation whose attempts are on record.
\<close>

section \<open>Storing\<close>

definition patch_backed :: "renewal_operation \<Rightarrow> workspace_patch option \<Rightarrow> bool" where
  "patch_backed op patch =
     (case patch of
        None \<Rightarrow> True
      | Some p \<Rightarrow> ''paidThrough'' \<in> fst ` set (wp_Fields p) \<longrightarrow>
          charged op \<and> wp_ExpectedPaidThrough p = wr_PaidThrough op \<and> map_of (wp_Fields p) ''paidThrough'' = Some (GStr (wr_RenewedThrough op)))"

lemma patch_backed_None [simp]: "patch_backed op None"
  by (simp add: patch_backed_def)

lemma persist_check_Inr:
  assumes "persist_check op patch w = Inr ws"
  shows "persist_current op w" and "ws = None \<and> patch = None \<or> (\<exists>p row. ws = Some (p, row) \<and> patch = Some p)"
  using assms by (auto simp: persist_check_def Let_def split: option.splits sum.splits if_splits)

lemma persist_keeps_money:
  assumes "money_inv rc env w" "storable rc w op" "patch_backed op patch" "persist_check op patch w = Inr ws" "outcome \<noteq> SaveRefused"
  shows "money_inv rc env (apply_renewal_effect rc env (SaveRenewal op ws outcome) w)"
    and "in_hand rc (apply_renewal_effect rc env (SaveRenewal op ws outcome) w) (stored rc op)"
proof -
  note c = persist_check_Inr [OF assms(4)]
  have same: "ident s = ident op" if s: "saved (rw_trace w) s" "wr_ID s = wr_ID op" for s
  proof -
    obtain x where x: "saved (rw_trace w) x" "ident x = ident op" using assms(2) by (auto simp: storable_def)
    moreover from x(2) have "wr_ID s = wr_ID x" using s(2) by (simp add: ident_def)
    ultimately have "ident s = ident x" using assms(1) s(1) unfolding money_inv_def idents_fixed_def by blast
    with x(2) show ?thesis by simp
  qed
  note a = current_attempts [OF assms(1,2) c(1)]
  have b: "backed env (rw_trace w) (SaveRenewal op ws outcome)"
    using c(2) assms(3) by (auto simp: backed_def patch_backed_def)
  have sound: "sound_operation op" using assms(2) by (simp add: storable_def)
  show "money_inv rc env (apply_renewal_effect rc env (SaveRenewal op ws outcome) w)"
    using same a(2,3) by (intro save_keeps [OF assms(1) sound assms(5) b]) blast
  have "saved (rw_trace (apply_renewal_effect rc env (SaveRenewal op ws outcome) w)) op" using assms(5) by (simp add: saved_append)
  then show "in_hand rc (apply_renewal_effect rc env (SaveRenewal op ws outcome) w) (stored rc op)" using sound by (rule saved_in_hand)
qed

text \<open>The outcome of a save, with the world it leaves.\<close>

lemma wp_save_renewal:
  assumes store: "\<And>ws outcome. check w = Inr ws \<Longrightarrow> outcome \<noteq> SaveRefused \<Longrightarrow> money_inv rc env (apply_renewal_effect rc env (SaveRenewal op ws outcome) w)"
    and err: "\<And>err. check w = Inl err \<Longrightarrow> err \<noteq> []"
    and fail: "\<And>err w'. money_inv rc env w' \<Longrightarrow> grows w w' \<Longrightarrow> err \<noteq> [] \<Longrightarrow> Q err w'"
    and good: "\<And>ws w'. check w = Inr ws \<Longrightarrow> w' = apply_renewal_effect rc env (SaveRenewal op ws Saved) w \<Longrightarrow> money_inv rc env w' \<Longrightarrow> Q [] w'"
    and J: "money_inv rc env w"
  shows "wp rc env (money_inv rc env) (save_renewal rc env op check) Q w"
proof -
  have run: "run_state (save_renewal rc env op check) w =
      (if re_save env (rw_trace w) = SaveRefused then (database_error, apply_renewal_effect rc env (SaveRenewal op None SaveRefused) w)
       else case check w of
          Inl err \<Rightarrow> (err, w)
        | Inr ws \<Rightarrow> (if re_save env (rw_trace w) = SaveUnanswered then database_error else [],
            apply_renewal_effect rc env (SaveRenewal op ws (re_save env (rw_trace w))) w))"
    by (simp add: save_renewal_def ask_def emit_def State_Monad.update_def split: sum.splits)
  have path: "path rc env (money_inv rc env) w (apply_renewal_effect rc env e w)" if "money_inv rc env (apply_renewal_effect rc env e w)" for e
    using that J by (auto intro: path.intros)
  show ?thesis
  proof (cases "re_save env (rw_trace w)")
    case Saved
    then show ?thesis using path store good err fail J by (auto simp: wp_def run intro: path.here split: sum.splits)
  next
    case SaveRefused
    moreover have "money_inv rc env (apply_renewal_effect rc env (SaveRenewal op None SaveRefused) w)" using J by (rule quiet_keeps) simp_all
    ultimately show ?thesis using path fail by (simp add: wp_def run database_error_def)
  next
    case SaveUnanswered
    then show ?thesis using path store err fail J by (auto simp: wp_def run database_error_def intro: path.here split: sum.splits)
  qed
qed

lemma wp_persist_raw:
  assumes "storable rc w op" "patch_backed op patch"
    and fail: "\<And>err w'. money_inv rc env w' \<Longrightarrow> grows w w' \<Longrightarrow> err \<noteq> [] \<Longrightarrow> Q (op, err) w'"
    and good: "\<And>ws w'. money_inv rc env w \<Longrightarrow> persist_check op patch w = Inr ws \<Longrightarrow> w' = apply_renewal_effect rc env (SaveRenewal op ws Saved) w \<Longrightarrow>
      money_inv rc env w' \<Longrightarrow> in_hand rc w' (stored rc op) \<Longrightarrow> Q (stored rc op, []) w'"
  shows "wp rc env (money_inv rc env) (persistWorkspaceRenewal rc env op patch) Q w"
proof (rule wp_inv)
  assume J: "money_inv rc env w"
  note keeps = persist_keeps_money [OF J assms(1,2)]
  have err: "persist_check op patch w = Inl err \<Longrightarrow> err \<noteq> []" for err
    by (auto simp: persist_check_def Let_def split: option.splits sum.splits if_splits)
  show ?thesis
    unfolding persistWorkspaceRenewal_def PersistWorkspaceRenewal_def
    by (rule wp_bind, rule wp_save_renewal [OF keeps(1) err _ _ J]; (assumption | rule wp_return))
      (auto simp: stored_def [symmetric] intro: fail good [OF J] keeps(2))
qed

definition good_outcome :: "renewal_codec \<Rightarrow> renewal_world \<Rightarrow> outcome \<Rightarrow> bool" where
  "good_outcome rc w r \<longleftrightarrow> (snd r = [] \<longrightarrow> in_hand rc w (fst r))"

lemma wp_persist:
  assumes "storable rc w op" "patch_backed op patch"
    and "\<And>op' err w'. money_inv rc env w' \<Longrightarrow> grows w w' \<Longrightarrow> op' = (if err = [] then stored rc op else op) \<Longrightarrow> (err = [] \<Longrightarrow> in_hand rc w' op') \<Longrightarrow> Q (op', err) w'"
  shows "wp rc env (money_inv rc env) (persistWorkspaceRenewal rc env op patch) Q w"
  using assms(1,2) by (rule wp_persist_raw) (auto intro: assms(3))

section \<open>Retry and review\<close>

lemmas release_def = releaseWorkspaceRenewalLease_def

text \<open>Changes of an operation in hand that do not touch its account.\<close>

lemma storable_change:
  assumes "in_hand rc w op" "account_of op' = account_of op"
    and "wr_ErrorCode op' = ''sub2api_charge_unconfirmed'' \<Longrightarrow> wr_ErrorCode op = wr_ErrorCode op' \<or> wr_ChargeAttempted op"
    and "wr_Status op' \<in> paid_statuses \<Longrightarrow> wr_Status op \<in> paid_statuses \<or> charged op"
  shows "storable rc w op'"
  using in_hand_storable [OF in_hand_change [OF assms]] .

lemma wp_retry:
  assumes "in_hand rc w op" "errorCode = ''sub2api_charge_unconfirmed'' \<longrightarrow> wr_ChargeAttempted op" "errorCode \<noteq> []"
    and "\<And>r w'. money_inv rc env w' \<Longrightarrow> grows w w' \<Longrightarrow> snd r \<noteq> [] \<Longrightarrow> good_outcome rc w' r \<Longrightarrow> Q r w'"
  shows "wp rc env (money_inv rc env) (retryWorkspaceRenewal rc env op errorCode cause) Q w"
proof -
  have "storable rc w (releaseWorkspaceRenewalLease (op\<lparr>wr_ErrorCode := errorCode\<rparr>))"
    using assms(1-3) by (intro storable_change [OF assms(1)]) (auto simp: account_defs release_def)
  then show ?thesis
    unfolding retryWorkspaceRenewal_def
    by (intro wp_rules wp_persist) (auto intro!: assms(4) simp: assms(3) good_outcome_def)
qed

lemma wp_manual:
  assumes "in_hand rc w op" "errorCode = ''sub2api_charge_unconfirmed'' \<longrightarrow> wr_ChargeAttempted op"
    and "\<And>r w'. money_inv rc env w' \<Longrightarrow> grows w w' \<Longrightarrow> good_outcome rc w' r \<Longrightarrow> Q r w'"
  shows "wp rc env (money_inv rc env) (manualReviewWorkspaceRenewal rc env op errorCode) Q w"
proof -
  have "storable rc w (releaseWorkspaceRenewalLease (op\<lparr>wr_Status := ''manual_review'', wr_ErrorCode := errorCode\<rparr>))"
    using assms(1,2) by (intro storable_change [OF assms(1)]) (auto simp: account_defs release_def paid_statuses_def)
  then show ?thesis
    unfolding manualReviewWorkspaceRenewal_def by (rule wp_persist) (auto intro!: assms(3) simp: good_outcome_def)
qed

text \<open>Storing a change of an operation in hand.\<close>

lemma wp_store:
  assumes "in_hand rc w op" "account_of op' = account_of op"
    and "wr_ErrorCode op' = ''sub2api_charge_unconfirmed'' \<Longrightarrow> wr_ErrorCode op = wr_ErrorCode op' \<or> wr_ChargeAttempted op"
    and "wr_Status op' \<in> paid_statuses \<Longrightarrow> wr_Status op \<in> paid_statuses \<or> charged op"
    and "patch_backed op' patch"
    and "\<And>r w'. money_inv rc env w' \<Longrightarrow> grows w w' \<Longrightarrow> good_outcome rc w' r \<Longrightarrow> in_hand rc w' (fst r) \<Longrightarrow> Q r w'"
  shows "wp rc env (money_inv rc env) (persistWorkspaceRenewal rc env op' patch) Q w"
proof (rule wp_persist [OF storable_change [OF assms(1-4)] assms(5)])
  fix op'' w' and err :: errs
  assume h: "money_inv rc env w'" "grows w w'" "op'' = (if err = [] then stored rc op' else op')" "err = [] \<Longrightarrow> in_hand rc w' op''"
  have "in_hand rc w' op'" using in_hand_grows [OF in_hand_change [OF assms(1-4)] h(2)] .
  with h have "in_hand rc w' op''" by (cases "err = []") auto
  with h show "Q (op'', err) w'" by (auto intro!: assms(6) simp: good_outcome_def)
qed

lemmas store_simps = account_defs release_def paid_statuses_def

section \<open>Receipts\<close>

lemma wp_refund_receipt:
  assumes "in_hand rc w op" and "\<And>r w'. money_inv rc env w' \<Longrightarrow> grows w w' \<Longrightarrow> good_outcome rc w' r \<Longrightarrow> Q r w'"
  shows "wp rc env (money_inv rc env) (recordWorkspaceRefundReceipt rc env op) Q w"
  unfolding recordWorkspaceRefundReceipt_def
  by (intro wp_rules money.wp_reads wp_retry wp_store [OF in_hand_grows [OF assms(1)]])
    (auto intro: assms in_hand_grows grows_trans simp: store_simps)

lemma wp_renewal_receipt:
  assumes "in_hand rc w op" "charged op" and "\<And>r w'. money_inv rc env w' \<Longrightarrow> grows w w' \<Longrightarrow> good_outcome rc w' r \<Longrightarrow> Q r w'"
  shows "wp rc env (money_inv rc env) (recordWorkspaceRenewalReceipt rc env op) Q w"
  unfolding recordWorkspaceRenewalReceipt_def
  by (intro wp_rules money.wp_reads wp_retry wp_store [OF in_hand_grows [OF assms(1)]])
    (auto intro: assms in_hand_grows grows_trans simp: store_simps)

lemma wp_expiry_failed:
  assumes "in_hand rc w op" and "\<And>r w'. money_inv rc env w' \<Longrightarrow> grows w w' \<Longrightarrow> Q r w'"
  shows "wp rc env (money_inv rc env) (expiry_receipt_failed rc env op errorCode cause) Q w"
  unfolding expiry_receipt_failed_def
  by (intro wp_rules wp_store [OF assms(1)]) (auto intro: assms simp: store_simps)

lemma wp_expiry_receipt:
  assumes "in_hand rc w op" and "\<And>r w'. money_inv rc env w' \<Longrightarrow> grows w w' \<Longrightarrow> Q r w'"
  shows "wp rc env (money_inv rc env) (recordWorkspaceRenewalExpiryReceipt rc env op) Q w"
  unfolding recordWorkspaceRenewalExpiryReceipt_def
  by (rule wp_inv, intro wp_rules money.wp_reads wp_expiry_failed wp_store [OF in_hand_grows [OF assms(1)]])
    (auto intro: assms in_hand_grows grows_trans simp: store_simps)

section \<open>The charge\<close>

lemma wp_leave: "wp rc env J c (\<lambda>r. Q (Inl r)) w \<Longrightarrow> wp rc env J (leave c) Q w"
  unfolding leave_def by (intro wp_rules) (auto elim: wp_mono intro: wp_return)

lemma wp_proceed:
  "wp rc env J c (\<lambda>r w'. case r of Inl out \<Rightarrow> Q out w' | Inr x \<Rightarrow> wp rc env J (f x) Q w') w \<Longrightarrow> wp rc env J (proceed c f) Q w"
  unfolding proceed_def by (rule wp_bind, erule wp_mono, rule wp_sum) (simp_all add: wp_return)

lemma missing_unseen:
  "sub2APIReconciliationCode (Some [(''sub2apiRedeemCode'', GStr c), (''chargeUsdMicros'', v)]) u h = ''sub2api_charge_missing'' \<Longrightarrow> map_of h c = None"
  by (auto simp: sub2APIReconciliationCode_def mget_def Let_def split: option.splits prod.splits if_splits)

text \<open>What the parts of a charge give: an outcome, or an operation in hand whose attempt is on record.\<close>

definition charge_part :: "renewal_codec \<Rightarrow> renewal_world \<Rightarrow> outcome + renewal_operation \<times> (errs + gateway_charge) \<Rightarrow> bool" where
  "charge_part rc w r = (case r of Inl out \<Rightarrow> good_outcome rc w out | Inr (op, _) \<Rightarrow> in_hand rc w op \<and> wr_ChargeAttempted op)"

lemma wp_charge_again:
  assumes h: "in_hand rc w op" "wr_ChargeAttempted op"
    and Q: "\<And>r w'. money_inv rc env w' \<Longrightarrow> grows w w' \<Longrightarrow> charge_part rc w' r \<Longrightarrow> Q r w'"
  shows "wp rc env (money_inv rc env) (charge_again rc env op userID) Q w"
proof (rule wp_inv)
  assume J: "money_inv rc env w"
  let ?w = "apply_renewal_effect rc env (ReadWalletHistory userID [wr_RedeemCode op]) w"
  have J': "money_inv rc env ?w" and h': "in_hand rc ?w op" using J h by (auto intro: quiet_keeps in_hand_grows)
  have charge: "wp rc env (money_inv rc env) (ChargeSub2API rc env op userID \<bind> (\<lambda>charge. State_Monad.return (Inr (op, charge)))) Q ?w"
    if "re_history env (rw_trace w) userID [wr_RedeemCode op] = Inr history" "map_of history (wr_RedeemCode op) = None" for history
  proof -
    have "unseen env (rw_trace ?w) (renewal_money op userID)" using that by (auto simp: unseen_def renewal_money_def)
    then have "money_inv rc env (apply_renewal_effect rc env (ChargeWallet (wr_ID op) (renewal_money op userID)) ?w)"
      using J' h' h(2) by (intro charge_keeps) auto
    then show ?thesis
      unfolding ChargeSub2API_def using in_hand_grows [OF h' grows_effect] h(2) grows_trans [OF grows_effect grows_effect]
      by (intro wp_bind wp_call wp_return Q) (simp_all add: charge_part_def)
  qed
  show ?thesis
    unfolding charge_again_def read_history_def
    by (intro wp_bind wp_call, use J' in simp, simp only: Let_def, intro wp_sum wp_if wp_return wp_leave wp_retry [OF h'] wp_manual [OF h'] Q)
      (use h h' J' in \<open>auto intro!: charge dest!: missing_unseen intro: grows_trans [OF grows_effect] simp: charge_part_def\<close>)
qed

lemma no_charge_before:
  assumes "money_inv rc env w" "storable rc w op" "persist_current op w" "\<not> wr_ChargeAttempted op"
  shows "\<not> list_ex (charges (wr_ID op)) (rw_trace w)"
  using charged_saved [OF assms(1)] current_attempts(2) [OF assms(1-3)] assms(4) by blast

lemma wp_charge_first:
  assumes h: "in_hand rc w op" "\<not> wr_ChargeAttempted op"
    and Q: "\<And>r w'. money_inv rc env w' \<Longrightarrow> grows w w' \<Longrightarrow> charge_part rc w' r \<Longrightarrow> Q r w'"
  shows "wp rc env (money_inv rc env) (charge_first rc env op userID) Q w"
proof -
  let ?op = "\<lambda>b. op\<lparr>wr_PreChargeBalanceUSDMicros := b, wr_ChargeAttempted := True\<rparr>"
  have store: "storable rc w' (?op b)" if "grows w w'" for w' b
    using in_hand_storable [OF in_hand_grows [OF h(1) that]] h(2)
    by (auto simp: storable_def ident_def sound_operation_def confirmation_ok_def charged_def)
  have charge: "wp rc env (money_inv rc env) (ChargeSub2API rc env (stored rc (?op b)) userID \<bind> (\<lambda>charge. State_Monad.return (Inr (stored rc (?op b), charge)))) Q w''"
    if g: "grows w w'" and J: "money_inv rc env w'" and c: "persist_check (?op b) None w' = Inr ws"
      and w'': "w'' = apply_renewal_effect rc env (SaveRenewal (?op b) ws Saved) w'" and J'': "money_inv rc env w''" and h'': "in_hand rc w'' (stored rc (?op b))"
    for w' w'' b ws
  proof -
    have "persist_current op w'" using persist_check_Inr(1) [OF c] by (simp add: persist_current_def split: option.splits)
    then have "\<not> list_ex (charges (wr_ID op)) (rw_trace w')"
      using no_charge_before [OF J in_hand_storable [OF in_hand_grows [OF h(1) g]]] h(2) by blast
    then have "\<not> list_ex (charges (wr_ID (stored rc (?op b)))) (rw_trace w'')" by (simp add: w'' stored_def)
    then have "money_inv rc env (apply_renewal_effect rc env (ChargeWallet (wr_ID (stored rc (?op b))) (renewal_money (stored rc (?op b)) userID)) w'')"
      using J'' h'' by (intro charge_keeps) (auto simp: stored_def)
    moreover have "grows w w''" using g by (auto simp: w'' intro: grows_trans)
    ultimately show ?thesis
      unfolding ChargeSub2API_def using in_hand_grows [OF h'' grows_effect] grows_trans [OF _ grows_effect]
      by (intro wp_bind wp_call wp_return Q) (auto simp: charge_part_def stored_def)
  qed
  have pay: "wp rc env (money_inv rc env) (persistWorkspaceRenewal rc env (?op b) None \<bind> (\<lambda>(op, err).
      if err \<noteq> [] then State_Monad.return (Inl (op, err))
      else ChargeSub2API rc env op userID \<bind> (\<lambda>charge. State_Monad.return (Inr (op, charge))))) Q w'"
    if g: "grows w w'" for w' b
    by (rule wp_bind, rule wp_persist_raw [OF store [OF g] patch_backed_None])
      (auto intro!: wp_prod wp_if wp_return Q charge [OF g] intro: grows_trans [OF g] simp: charge_part_def good_outcome_def)
  show ?thesis
    unfolding charge_first_def
    by (intro wp_bind money.wp_balance, intro wp_sum wp_if pay wp_leave wp_bind wp_prod wp_return wp_retry [OF in_hand_grows [OF h(1)]]
        wp_store [OF in_hand_grows [OF h(1)]])
      (auto intro!: Q intro: grows_trans simp: charge_part_def good_outcome_def store_simps)
qed

lemma wp_confirm_charge:
  assumes h: "in_hand rc w op" "wr_ChargeAttempted op"
    and Q: "\<And>r w'. money_inv rc env w' \<Longrightarrow> grows w w' \<Longrightarrow> (case r of Inl out \<Rightarrow> good_outcome rc w' out | Inr op' \<Rightarrow> in_hand rc w' op' \<and> charged op') \<Longrightarrow> Q r w'"
  shows "wp rc env (money_inv rc env) (confirm_charge rc env userID (op, charge)) Q w"
proof -
  let ?op = "\<lambda>c. op\<lparr>wr_ChargeConfirmation := charge_confirmation c, wr_ErrorCode := []\<rparr>"
  have "charged (?op c) \<and> storable rc w (?op c)"
    if "monthlyChargeConfirmationMatches (charge_confirmation c) (wr_RedeemCode op) userID (wr_TotalUSDMicros op)" for c
  proof
    show ch: "charged (?op c)" using that by (auto simp: charged_def)
    with in_hand_storable [OF h(1)] show "storable rc w (?op c)"
      by (auto simp: storable_def ident_def sound_operation_def confirmation_ok_def)
  qed
  then show ?thesis
    unfolding confirm_charge_def prod.case
    by (intro wp_sum wp_if wp_bind wp_leave wp_retry [OF h(1)] wp_manual [OF h(1)] wp_persist wp_prod wp_return Q)
      (use h(2) in \<open>auto simp: good_outcome_def stored_def split: if_splits\<close>)
qed

lemma wp_obtain_charge:
  assumes h: "in_hand rc w op"
    and Q: "\<And>r w'. money_inv rc env w' \<Longrightarrow> grows w w' \<Longrightarrow> (case r of Inl out \<Rightarrow> good_outcome rc w' out | Inr op' \<Rightarrow> in_hand rc w' op' \<and> charged op') \<Longrightarrow> Q r w'"
  shows "wp rc env (money_inv rc env) (obtain_charge rc env op userID) Q w"
proof -
  have attempted: "wr_ErrorCode op = ''sub2api_charge_unconfirmed'' \<Longrightarrow> wr_ChargeAttempted op"
    using in_hand_sound [OF h] by (simp add: sound_operation_def)
  have rest: "wp rc env (money_inv rc env) (case r of Inl out \<Rightarrow> State_Monad.return (Inl out) | Inr x \<Rightarrow> confirm_charge rc env userID x) Q w'"
    if "money_inv rc env w'" "grows w w'" "charge_part rc w' r" for r w'
  proof (rule wp_sum)
    fix x assume "r = Inr x"
    with that(3) obtain op' charge where "x = (op', charge)" "in_hand rc w' op'" "wr_ChargeAttempted op'" by (cases x) (auto simp: charge_part_def)
    then show "wp rc env (money_inv rc env) (confirm_charge rc env userID x) Q w'"
      using that(2) by (auto intro!: wp_confirm_charge Q intro: grows_trans)
  qed (use that in \<open>auto intro!: wp_return Q simp: charge_part_def\<close>)
  show ?thesis
    unfolding obtain_charge_def
    by (intro wp_bind money.wp_key_problem, intro wp_option wp_bind wp_if wp_leave wp_retry [OF in_hand_grows [OF h]]
        wp_charge_again [OF in_hand_grows [OF h]] wp_charge_first [OF in_hand_grows [OF h]] rest)
      (auto intro!: Q intro: grows_trans attempted)
qed

lemma wp_check_post:
  assumes h: "in_hand rc w op" "charged op" and Q: "\<And>r w'. money_inv rc env w' \<Longrightarrow> grows w w' \<Longrightarrow> good_outcome rc w' r \<Longrightarrow> Q r w'"
  shows "wp rc env (money_inv rc env) (check_post_charge rc env userID op) Q w"
proof -
  have known: "in_hand rc w' (op\<lparr>wr_PostChargeBalanceKnown := True, wr_PostChargeBalanceUSDMicros := b\<rparr>)" if "grows w w'" for w' b
    by (rule in_hand_change [OF in_hand_grows [OF h(1) that]]) (simp_all add: store_simps)
  show ?thesis
    unfolding check_post_charge_def Let_def
    by (intro wp_bind money.wp_balance, intro wp_sum wp_if wp_retry [OF in_hand_grows [OF h(1)]] wp_manual [OF known]
        wp_store [OF in_hand_grows [OF h(1)]])
      (use h(2) in \<open>auto intro!: Q intro: grows_trans simp: store_simps\<close>)
qed

lemma wp_debit:
  assumes h: "in_hand rc w op" and Q: "\<And>r w'. money_inv rc env w' \<Longrightarrow> grows w w' \<Longrightarrow> good_outcome rc w' r \<Longrightarrow> Q r w'"
  shows "wp rc env (money_inv rc env) (debitWorkspaceRenewal rc env op) Q w"
proof -
  have "wr_ChargeConfirmation op \<noteq> None \<Longrightarrow> charged op" using in_hand_sound [OF h] by (auto simp: sound_operation_def confirmation_ok_def)
  then show ?thesis
    unfolding debitWorkspaceRenewal_def
    by (intro wp_bind money.wp_gateway_user, intro wp_sum wp_retry [OF h] wp_proceed wp_if wp_obtain_charge [OF h] wp_return)
      (use h in \<open>auto intro!: Q wp_check_post intro: grows_trans split: sum.splits\<close>)
qed

section \<open>The refund\<close>

lemma no_refund_before:
  assumes "money_inv rc env w" "storable rc w op" "persist_current op w" "\<not> wr_RefundAttempted op"
  shows "\<not> list_ex (refunds (wr_ID op)) (rw_trace w)"
  using refunded_saved [OF assms(1)] current_attempts(3) [OF assms(1-3)] assms(4) by blast

lemma wp_finish_refund:
  assumes h: "in_hand rc w op" "wr_RefundAttempted op" and Q: "\<And>r w'. money_inv rc env w' \<Longrightarrow> grows w w' \<Longrightarrow> good_outcome rc w' r \<Longrightarrow> Q r w'"
  shows "wp rc env (money_inv rc env) (finish_refund rc env op userID refund) Q w"
proof -
  have "charged op" using in_hand_sound [OF h(1)] h(2) by (simp add: sound_operation_def)
  then show ?thesis
    unfolding finish_refund_def
    by (intro wp_sum wp_if wp_retry [OF h(1)] wp_bind wp_store [OF h(1)] wp_prod wp_return wp_refund_receipt)
      (auto intro!: Q intro: grows_trans simp: store_simps good_outcome_def)
qed

lemma wp_refund_again:
  assumes h: "in_hand rc w op" "wr_RefundAttempted op"
    and Q: "\<And>r w'. money_inv rc env w' \<Longrightarrow> grows w w' \<Longrightarrow> (case r of Inl out \<Rightarrow> good_outcome rc w' out | Inr _ \<Rightarrow> True) \<Longrightarrow> Q r w'"
  shows "wp rc env (money_inv rc env) (refund_again rc env op userID) Q w"
proof (rule wp_inv)
  assume J: "money_inv rc env w"
  let ?w = "apply_renewal_effect rc env (ReadWalletHistory userID [wr_RefundCode op]) w"
  have J': "money_inv rc env ?w" and h': "in_hand rc ?w op" using J h by (auto intro: quiet_keeps in_hand_grows)
  have refund: "wp rc env (money_inv rc env) (RefundSub2API rc env op userID \<bind> (\<lambda>refund. State_Monad.return (Inr refund))) Q ?w"
    if "re_history env (rw_trace w) userID [wr_RefundCode op] = Inr history" "map_of history (wr_RefundCode op) = None" for history
  proof -
    have "unseen env (rw_trace ?w) (refund_money op userID)" using that by (auto simp: unseen_def refund_money_def)
    then have "money_inv rc env (apply_renewal_effect rc env (RefundWallet (wr_ID op) (refund_money op userID)) ?w)"
      using J' h' h(2) by (intro refund_keeps) auto
    then show ?thesis
      unfolding RefundSub2API_def using grows_trans [OF grows_effect grows_effect] by (intro wp_bind wp_call wp_return Q) simp_all
  qed
  show ?thesis
    unfolding refund_again_def read_history_def
    by (intro wp_bind wp_call, use J' in simp, intro wp_sum wp_option wp_if wp_return wp_leave wp_retry [OF h'] wp_manual [OF h'] Q)
      (use h h' J' in \<open>auto intro!: refund intro: grows_trans [OF grows_effect]\<close>)
qed

lemma wp_refund:
  assumes h: "in_hand rc w op" "charged op" and Q: "\<And>r w'. money_inv rc env w' \<Longrightarrow> grows w w' \<Longrightarrow> good_outcome rc w' r \<Longrightarrow> Q r w'"
  shows "wp rc env (money_inv rc env) (refundWorkspaceRenewal rc env op reason) Q w"
proof -
  let ?op = "op\<lparr>wr_Status := ''refund_pending'', wr_Phase := ''refund'', wr_RefundAttempted := True, wr_RefundReason := reason, wr_ErrorCode := []\<rparr>"
  have ch: "charged ?op" using h(2) by (simp add: charged_def)
  have store: "storable rc w ?op"
    using in_hand_storable [OF h(1)] ch by (auto simp: storable_def ident_def sound_operation_def confirmation_ok_def)
  have refund: "wp rc env (money_inv rc env) (RefundSub2API rc env (stored rc ?op) userID \<bind> finish_refund rc env (stored rc ?op) userID) Q w'"
    if r: "\<not> wr_RefundAttempted op" and J: "money_inv rc env w" and c: "persist_check ?op None w = Inr ws"
      and w': "w' = apply_renewal_effect rc env (SaveRenewal ?op ws Saved) w" and J': "money_inv rc env w'" and h': "in_hand rc w' (stored rc ?op)"
    for w' userID ws
  proof -
    have "persist_current op w" using persist_check_Inr(1) [OF c] by (simp add: persist_current_def split: option.splits)
    then have "\<not> list_ex (refunds (wr_ID op)) (rw_trace w)" using no_refund_before [OF J in_hand_storable [OF h(1)]] r by blast
    then have "\<not> list_ex (refunds (wr_ID (stored rc ?op))) (rw_trace w')" by (simp add: w' stored_def)
    then have "money_inv rc env (apply_renewal_effect rc env (RefundWallet (wr_ID (stored rc ?op)) (refund_money (stored rc ?op) userID)) w')"
      using J' h' by (intro refund_keeps) (auto simp: stored_def)
    moreover have "grows w w'" by (simp add: w')
    note g = grows_trans [OF this grows_trans [OF grows_effect]]
    moreover have "wr_RefundAttempted (stored rc ?op)" by (simp add: stored_def)
    ultimately show ?thesis
      unfolding RefundSub2API_def using in_hand_grows [OF h' grows_effect]
      by (intro wp_bind wp_call wp_finish_refund Q g)
  qed
  have first: "wp rc env (money_inv rc env) (persistWorkspaceRenewal rc env ?op None \<bind> (\<lambda>(op, err).
      if err \<noteq> [] then State_Monad.return (op, err) else RefundSub2API rc env op userID \<bind> finish_refund rc env op userID)) Q w"
    if "\<not> wr_RefundAttempted op" for userID
    by (rule wp_bind, rule wp_persist_raw [OF store patch_backed_None])
      (auto intro!: wp_prod wp_if wp_return Q refund [OF that] simp: good_outcome_def)
  show ?thesis
    unfolding refundWorkspaceRenewal_def
    by (rule wp_bind, rule money.wp_gateway_user, intro wp_sum wp_if wp_manual [OF h(1)] wp_proceed wp_refund_again [OF h(1)] first)
      (use h in \<open>auto intro!: Q wp_finish_refund intro: grows_trans in_hand_grows split: sum.splits\<close>)
qed

section \<open>The provider\<close>

text \<open>A read keeps the account of the operation, and its status and phase.\<close>

definition same_state :: "renewal_operation \<Rightarrow> renewal_operation \<Rightarrow> bool" where
  "same_state op op' \<longleftrightarrow> account_of op' = account_of op \<and> wr_Status op' = wr_Status op \<and> wr_ErrorCode op' = wr_ErrorCode op \<and>
     wr_PaidThrough op' = wr_PaidThrough op \<and> wr_RenewedThrough op' = wr_RenewedThrough op"

lemma same_state_hand: "same_state op op' \<Longrightarrow> in_hand rc w op \<Longrightarrow> in_hand rc w op'" "same_state op op' \<Longrightarrow> charged op' = charged op"
  using charged_account [of op' op] by (auto simp: same_state_def intro: in_hand_change)

lemma wp_read_back:
  assumes "\<And>op' x row w'. money_inv rc env w' \<Longrightarrow> grows w w' \<Longrightarrow> same_state op op' \<Longrightarrow> Q (op', x, row) w'"
  shows "wp rc env (money_inv rc env) (read_back rc env t op) Q w"
  unfolding read_back_def
  by (intro wp_bind money.wp_read_fact wp_prod money.wp_readback wp_return) (auto intro!: assms simp: same_state_def account_defs)

lemma wp_verify_compute:
  assumes h: "in_hand rc w op" "charged op" and Q: "\<And>r w'. money_inv rc env w' \<Longrightarrow> grows w w' \<Longrightarrow> good_outcome rc w' r \<Longrightarrow> Q r w'"
  shows "wp rc env (money_inv rc env) (verify_compute rc env op) Q w"
proof -
  have *: "in_hand rc w' op' \<and> charged op'" if "grows w w'" "same_state op op'" for w' op'
    using h that same_state_hand in_hand_grows by blast
  show ?thesis
    unfolding verify_compute_def
    by (intro wp_bind wp_read_back wp_prod wp_prod_fun wp_if wp_option wp_refund wp_manual money.wp_save_resource wp_return
        wp_store [OF in_hand_grows])
      (use * in \<open>auto intro!: Q intro: grows_trans simp: good_outcome_def store_simps\<close>)
qed

lemma wp_verify_storage:
  assumes h: "in_hand rc w op" "charged op" and Q: "\<And>r w'. money_inv rc env w' \<Longrightarrow> grows w w' \<Longrightarrow> good_outcome rc w' r \<Longrightarrow> Q r w'"
  shows "wp rc env (money_inv rc env) (verify_storage rc env op) Q w"
proof -
  have *: "in_hand rc w' op' \<and> charged op'" if "grows w w'" "same_state op op'" for w' op'
    using h that same_state_hand in_hand_grows by blast
  show ?thesis
    unfolding verify_storage_def
    by (intro wp_bind wp_read_back wp_prod wp_prod_fun wp_if wp_option wp_manual money.wp_save_resource wp_return wp_store [OF in_hand_grows])
      (use * in \<open>auto intro!: Q intro: grows_trans simp: good_outcome_def store_simps\<close>)
qed

lemma wp_renew_provider:
  assumes h: "in_hand rc w op" "charged op" and Q: "\<And>r w'. money_inv rc env w' \<Longrightarrow> grows w w' \<Longrightarrow> good_outcome rc w' r \<Longrightarrow> Q r w'"
  shows "wp rc env (money_inv rc env) (renewWorkspaceProvider rc env op) Q w"
  unfolding renewWorkspaceProvider_def
  by (intro wp_if wp_bind money.wp_renew wp_prod wp_verify_compute [OF h] wp_verify_storage [OF h] wp_manual [OF h(1)] wp_store [OF in_hand_grows [OF h(1)]])
    (use h(2) in \<open>auto intro!: Q intro: grows_trans simp: store_simps split: if_splits\<close>)

lemma wp_verify_resource:
  assumes "\<And>op' ok w'. money_inv rc env w' \<Longrightarrow> grows w w' \<Longrightarrow> same_state op op' \<Longrightarrow> Q (op', ok) w'"
  shows "wp rc env (money_inv rc env) (verify_resource rc env t op) Q w"
  unfolding verify_resource_def
  by (intro wp_bind wp_read_back wp_prod wp_prod_fun wp_option wp_return money.wp_save_resource) (auto intro!: assms intro: grows_trans)

lemma wp_verify_provider:
  assumes "\<And>op' ok w'. money_inv rc env w' \<Longrightarrow> grows w w' \<Longrightarrow> same_state op op' \<Longrightarrow> Q (op', ok) w'"
  shows "wp rc env (money_inv rc env) (verifyWorkspaceRenewalProviderReadback rc env op) Q w"
  unfolding verifyWorkspaceRenewalProviderReadback_def
  by (intro wp_bind wp_verify_resource wp_prod wp_if wp_return) (auto intro!: assms intro: grows_trans simp: same_state_def)

section \<open>The new period and expiry\<close>

lemma wp_commit:
  assumes h: "in_hand rc w op" "charged op" and Q: "\<And>r w'. money_inv rc env w' \<Longrightarrow> grows w w' \<Longrightarrow> good_outcome rc w' r \<Longrightarrow> Q r w'"
  shows "wp rc env (money_inv rc env) (commitWorkspaceRenewalEntitlement rc env op) Q w"
proof -
  have ch: "charged (op\<lparr>wr_Status := a, wr_Phase := b, wr_EntitlementCommitted := True\<rparr>)"
    "charged (clear_expiry op\<lparr>wr_Status := a, wr_Phase := b, wr_EntitlementCommitted := True\<rparr>)" for a b
    using h(2) by (simp_all add: charged_def clear_expiry_def)
  show ?thesis
    unfolding commitWorkspaceRenewalEntitlement_def Let_def
    by (intro wp_bind money.wp_table_row wp_if wp_option wp_manual [OF h(1)] wp_store [OF h(1)])
      (use h(2) ch in \<open>auto intro!: Q simp: store_simps clear_expiry_def patch_backed_def entitlement_fields_def\<close>)
qed

lemma wp_expiry_turn:
  assumes h: "in_hand rc w op" and Q: "\<And>r more w'. money_inv rc env w' \<Longrightarrow> grows w w' \<Longrightarrow> in_hand rc w' (fst r) \<Longrightarrow> Q (r, more) w'"
  shows "wp rc env (money_inv rc env) (expiry_turn rc env op) Q w"
  unfolding expiry_turn_def Let_def
  by (rule wp_inv, intro wp_if wp_bind money.wp_table_row wp_prod wp_return wp_store [OF h])
    (use h in \<open>auto intro!: Q simp: store_simps patch_backed_def expiry_patch_def renewal_off_def\<close>)

lemma wp_expiry_turns:
  assumes "in_hand rc w op" and "\<And>r w'. money_inv rc env w' \<Longrightarrow> grows w w' \<Longrightarrow> in_hand rc w' (fst r) \<Longrightarrow> Q r w'"
  shows "wp rc env (money_inv rc env) (expiry_turns n rc env op) Q w"
  using assms
proof (induction n arbitrary: op w)
  case 0
  then show ?case by (auto intro!: wp_inv [OF wp_return])
next
  case (Suc n)
  show ?case
    unfolding expiry_turns.simps
    by (intro wp_bind wp_expiry_turn [OF Suc.prems(1)] wp_prod wp_prod_fun wp_if wp_return Suc.IH)
      (auto intro!: Suc.prems(2) intro: grows_trans)
qed

section \<open>The loop\<close>

fun turn_ok :: "renewal_codec \<Rightarrow> renewal_world \<Rightarrow> renewal_turn \<Rightarrow> bool" where
  "turn_ok rc w (GoOn op) = in_hand rc w op"
| "turn_ok rc w (Stop r) = True"

lemma wp_go_on:
  "wp rc env J c (\<lambda>r w'. good_outcome rc w' r \<and> (\<forall>t. turn_ok rc w' t \<longrightarrow> Q t w')) w \<Longrightarrow> wp rc env J (go_on c) Q w"
  unfolding go_on_def by (rule wp_bind, erule wp_mono, intro wp_prod wp_return) (auto simp: good_outcome_def)

lemma wp_stop: "wp rc env J c (\<lambda>r. Q (Stop r)) w \<Longrightarrow> wp rc env J (stop c) Q w"
  unfolding stop_def by (rule wp_bind, erule wp_mono, intro wp_return)

lemma wp_preflight:
  assumes h: "in_hand rc w op" "account_of op' = account_of op" "wr_ErrorCode op' = wr_ErrorCode op" "wr_Status op' \<notin> paid_statuses"
    "failure \<notin> {[], ''sub2api_charge_unconfirmed''}"
    and Q: "\<And>t w'. money_inv rc env w' \<Longrightarrow> grows w w' \<Longrightarrow> turn_ok rc w' t \<Longrightarrow> Q t w'"
  shows "wp rc env (money_inv rc env) (preflight_turn rc env op input failure op') Q w"
  unfolding preflight_turn_def
  by (rule wp_bind, rule money.wp_quiet, simp, simp,
      intro wp_sum wp_if wp_stop wp_go_on wp_retry [OF in_hand_grows [OF h(1)]] wp_store [OF in_hand_grows [OF h(1)] h(2)])
    (use h in \<open>auto intro!: Q intro: grows_trans\<close>)

lemma wp_claimed:
  assumes h: "in_hand rc w op" and Q: "\<And>t w'. money_inv rc env w' \<Longrightarrow> grows w w' \<Longrightarrow> turn_ok rc w' t \<Longrightarrow> Q t w'" and st: "wr_Status op = ''claimed''"
  shows "wp rc env (money_inv rc env) (claimed_turn rc env op) Q w"
proof -
  have *: "in_hand rc w' (op\<lparr>wr_ComputeReadback := a, wr_StorageReadback := b\<rparr>)" if "grows w w'" for w' a b
    by (rule in_hand_change [OF in_hand_grows [OF h that]]) (simp_all add: store_simps)
  show ?thesis
    unfolding claimed_turn_def Let_def
    by (rule wp_bind, rule money.wp_resources, intro wp_sum wp_prod wp_if wp_stop wp_go_on wp_manual [OF in_hand_grows [OF h]] wp_manual [OF *]
        wp_preflight [OF *] wp_store [OF in_hand_grows [OF h]])
      (auto intro!: Q intro: grows_trans simp: store_simps st)
qed

lemma wp_verifying:
  assumes h: "in_hand rc w op" "charged op" and Q: "\<And>t w'. money_inv rc env w' \<Longrightarrow> grows w w' \<Longrightarrow> turn_ok rc w' t \<Longrightarrow> Q t w'"
  shows "wp rc env (money_inv rc env) (verifying_turn rc env op) Q w"
proof -
  have *: "in_hand rc w' op' \<and> charged op'" if "grows w w'" "same_state op op'" for w' op'
    using h that same_state_hand in_hand_grows by blast
  show ?thesis
    unfolding verifying_turn_def
    by (intro wp_if wp_stop wp_renewal_receipt [OF h] wp_bind wp_verify_provider wp_prod wp_manual wp_go_on wp_commit)
      (use * in \<open>auto intro!: Q intro: grows_trans simp: provider_truth_invalid_def\<close>)
qed

lemma wp_step:
  assumes h: "in_hand rc w op" and Q: "\<And>t w'. money_inv rc env w' \<Longrightarrow> grows w w' \<Longrightarrow> turn_ok rc w' t \<Longrightarrow> Q t w'"
  shows "wp rc env (money_inv rc env) (renewal_step rc env op) Q w"
proof -
  have paid: "wr_Status op \<in> paid_statuses \<Longrightarrow> charged op" using in_hand_sound [OF h] by (simp add: sound_operation_def)
  show ?thesis
    unfolding renewal_step_def Let_def
    by (rule wp_inv, intro wp_if wp_return wp_go_on wp_stop wp_store [OF h] wp_claimed [OF h] wp_debit [OF h] wp_refund [OF h]
        wp_renew_provider [OF h] wp_verifying [OF h] wp_refund_receipt [OF h] wp_manual [OF h])
      (use paid in \<open>auto intro!: Q simp: store_simps\<close>)
qed

lemma wp_turns:
  assumes "in_hand rc w op" and "\<And>r w'. money_inv rc env w' \<Longrightarrow> grows w w' \<Longrightarrow> Q r w'"
  shows "wp rc env (money_inv rc env) (renewal_turns n rc env op) Q w"
  using assms
proof (induction n arbitrary: op w)
  case 0
  then show ?case unfolding renewal_turns.simps by (intro wp_retry) auto
next
  case (Suc n)
  have "wp rc env (money_inv rc env) (case t of GoOn op \<Rightarrow> renewal_turns n rc env op | Stop out \<Rightarrow> State_Monad.return out) Q w'"
    if "money_inv rc env w'" "grows w w'" "turn_ok rc w' t" for t w'
    using that by (cases t) (auto intro!: Suc.IH wp_return Suc.prems(2) intro: grows_trans)
  then show ?case unfolding renewal_turns.simps by (intro wp_bind wp_step [OF Suc.prems(1)])
qed

lemma wp_run:
  assumes "in_hand rc w op" and "\<And>r w'. money_inv rc env w' \<Longrightarrow> grows w w' \<Longrightarrow> Q r w'"
  shows "wp rc env (money_inv rc env) (runWorkspaceRenewal rc env op) Q w"
  unfolding runWorkspaceRenewal_def by (intro wp_bind wp_turns [OF assms(1)] wp_prod wp_return) (auto intro: assms(2))

end
