(* ===== verification/Renewal_Process.thy ===== *)
theory Renewal_Process
  imports Renewal_Steps
begin

text \<open>
  A workspace is processed and a review is resolved: both keep the money invariant at each effect, so it holds in
  every history of the console.
\<close>

section \<open>Finding an operation\<close>

lemma row_operation:
  assumes "money_inv rc env w" "row \<in> set (all_operations env w)" "stringValue (mget row ''action'') = ''workspace.renewal''"
  obtains i where "row_sound rc (rw_trace w) i row"
proof -
  from assms(2,3) obtain i where "(i, row) \<in> set (rw_operations w)" by (auto simp: all_operations_def other_operations_def)
  then have "map_of (rw_operations w) i = Some row" using assms(1) by (simp add: money_inv_def map_of_is_SomeI)
  with assms(1) have "row_sound rc (rw_trace w) i row" unfolding money_inv_def rows_sound_def by blast
  then show ?thesis ..
qed

lemma wp_load:
  assumes "\<And>err. Q (Inl err) w" and "\<And>op. in_hand rc w op \<Longrightarrow> wr_ID op = operationID \<Longrightarrow> Q (Inr op) w"
  shows "wp rc env (money_inv rc env) (loadWorkspaceRenewalOperation rc env operationID) Q w"
  unfolding loadWorkspaceRenewalOperation_def
proof (rule wp_ask)
  assume J: "money_inv rc env w"
  have "in_hand rc w op \<and> wr_ID op = operationID" if "map_of (rw_operations w) operationID = Some row" "decode_renewal rc row = Inr op" for row op
  proof -
    have "renewal_codec_ok rc" "row_sound rc (rw_trace w) operationID row" using J that(1) unfolding money_inv_def rows_sound_def by blast+
    with decoded_in_hand [OF this that(2)] show ?thesis by blast
  qed
  then show "Q (if re_down env (rw_trace w) then Inl database_error
       else
         (case map_of (rw_operations w) operationID of
            None \<Rightarrow> Inl [''billing_review_not_found'']
          | Some row \<Rightarrow>
              if stringValue (mget row ''action'') = ''workspace.renewal'' \<and>
                 firstNonEmpty [stringValue (mget row ''operationId''), stringValue (mget row ''id'')] = operationID
              then (case decode_renewal rc row of Inl _ \<Rightarrow> Inl [''invalid_workspace_renewal_operation''] | Inr op \<Rightarrow> Inr op)
              else Inl [''billing_review_not_found''])) w"
    by (auto intro: assms split: option.splits sum.splits)
qed

section \<open>Claiming\<close>

text \<open>What may be claimed: a new operation, or one that agrees with all that was stored for it.\<close>

definition claimable :: "renewal_world \<Rightarrow> renewal_operation \<Rightarrow> bool" where
  "claimable w op \<longleftrightarrow>
     sound_operation op \<and>
     (wr_PersistedResult op = [] \<or>
      (\<forall>s. saved (rw_trace w) s \<longrightarrow> wr_ID s = wr_ID op \<longrightarrow>
         ident s = ident op \<and> (wr_ChargeAttempted s \<longrightarrow> wr_ChargeAttempted op) \<and> (wr_RefundAttempted s \<longrightarrow> wr_RefundAttempted op)))"

lemma claimable_change:
  assumes "claimable w op" "account_of op' = account_of op" "wr_ErrorCode op' = wr_ErrorCode op"
    and "wr_Status op' \<in> paid_statuses \<Longrightarrow> wr_Status op \<in> paid_statuses" "saved (rw_trace w') = saved (rw_trace w)"
  shows "claimable w' op'"
proof -
  have "sound_operation op'" 
    by (rule sound_change [OF _ assms(2)]) (use assms(1,3,4) in \<open>simp_all add: claimable_def\<close>)
  moreover have "ident op' = ident op" "wr_ID op' = wr_ID op" "wr_PersistedResult op' = wr_PersistedResult op"
    "wr_ChargeAttempted op' = wr_ChargeAttempted op" "wr_RefundAttempted op' = wr_RefundAttempted op"
    using assms(2) by (simp_all add: account_defs)
  ultimately show ?thesis using assms(1,5) unfolding claimable_def by simp
qed

lemma new_sound:
  assumes "newWorkspaceRenewalOperation rc workspace now = Inr op"
  shows "sound_operation op" and "wr_PersistedResult op = []"
  using assms
  by (auto simp: newWorkspaceRenewalOperation_def zero_operation_def sound_operation_def confirmation_ok_def paid_statuses_def Let_def
      split: option.splits if_splits)

lemma select_row:
  assumes "select_operation rc workspace workspaceID expectedID rows found = Inr (Some op)"
  shows "found = Some op \<or> (\<exists>row \<in> set rows. stringValue (mget row ''action'') = ''workspace.renewal'' \<and> decode_renewal rc row = Inr op)"
  using assms
  by (induction rc workspace workspaceID expectedID rows found rule: select_operation.induct) (auto split: if_splits sum.splits)

lemma selected_claimable:
  assumes J: "money_inv rc env w"
    and s: "select_operation rc workspace workspaceID expectedID (queryRuntimeOperations (all_operations env w) q) None = Inr (Some op)"
  shows "claimable w op"
proof -
  obtain row where row: "row \<in> set (all_operations env w)" "stringValue (mget row ''action'') = ''workspace.renewal''" "decode_renewal rc row = Inr op"
    using select_row [OF s] by (auto simp: query_operations_all)
  obtain i where i: "row_sound rc (rw_trace w) i row" using row_operation [OF J row(1,2)] .
  have "renewal_codec_ok rc" using J by (simp add: money_inv_def)
  note d = decoded_in_hand [OF this i row(3)]
  have "ident s = ident op" if s: "saved (rw_trace w) s" "wr_ID s = i" for s
  proof -
    obtain x where "saved (rw_trace w) x" "ident x = ident op" using d(1) by (auto simp: in_hand_def storable_def)
    moreover from this have "wr_ID s = wr_ID x" using s(2) d(2) by (simp add: ident_def)
    ultimately show ?thesis using J s(1) unfolding money_inv_def idents_fixed_def by metis
  qed
  with d(3) show ?thesis unfolding claimable_def using in_hand_sound [OF d(1)] d(2) by blast
qed

lemma mark_expired_claimable: "claimable w op \<Longrightarrow> claimable w (mark_expired workspace op)"
  by (erule claimable_change) (auto simp: mark_expired_def Let_def account_defs paid_statuses_def split: if_splits)

lemma planned_claimable:
  assumes J: "money_inv rc env w" and p: "plan_operation rc workspace workspaceID p now (queryRuntimeOperations (all_operations env w) q) = PlanRun op"
  shows "claimable w op"
proof -
  obtain expected found where e: "newWorkspaceRenewalOperation rc workspace now = Inr expected"
    "select_operation rc workspace workspaceID (wr_ID expected) (queryRuntimeOperations (all_operations env w) q) None = Inr found"
    "op \<in> {case found of None \<Rightarrow> expected | Some op \<Rightarrow> op, mark_expired workspace (case found of None \<Rightarrow> expected | Some op \<Rightarrow> op)}"
    using p by (auto simp: plan_operation_def Let_def split: if_splits sum.splits option.splits)
  have "claimable w (case found of None \<Rightarrow> expected | Some op \<Rightarrow> op)"
  proof (cases found)
    case None
    then show ?thesis using new_sound [OF e(1)] by (simp add: claimable_def)
  next
    case (Some x)
    then show ?thesis using selected_claimable [OF J e(2) [unfolded Some]] by simp
  qed
  with e(3) show ?thesis using mark_expired_claimable by auto
qed

lemma lease_claimable:
  "claimable w op \<Longrightarrow> claimable (apply_renewal_effect rc env ReadClock w) (lease_operation rc now t op)"
  by (erule claimable_change) (simp_all add: lease_operation_def account_defs saved_append fun_eq_iff)

lemma claim_check_Inr:
  assumes J: "money_inv rc env w" and c: "claim_check rc env claim w = Inr ws" "cl_ExpectedOperationResult claim = wr_PersistedResult (cl_DesiredOperation claim)"
    and ok: "claimable w (cl_DesiredOperation claim)"
  shows "ws = None"
    and "saved (rw_trace w) s \<Longrightarrow> wr_ID s = wr_ID (cl_DesiredOperation claim) \<Longrightarrow>
      ident s = ident (cl_DesiredOperation claim) \<and> (wr_ChargeAttempted s \<longrightarrow> wr_ChargeAttempted (cl_DesiredOperation claim)) \<and>
      (wr_RefundAttempted s \<longrightarrow> wr_RefundAttempted (cl_DesiredOperation claim))"
proof -
  let ?op = "cl_DesiredOperation claim"
  show "ws = None" using c(1) by (auto simp: claim_check_def Let_def split: if_splits option.splits)
  show "ident s = ident ?op \<and> (wr_ChargeAttempted s \<longrightarrow> wr_ChargeAttempted ?op) \<and> (wr_RefundAttempted s \<longrightarrow> wr_RefundAttempted ?op)"
    if s: "saved (rw_trace w) s" "wr_ID s = wr_ID ?op"
  proof (cases "wr_PersistedResult ?op = []")
    case True
    then have no: "\<not> list_ex (\<lambda>row. stringValue (mget row ''id'') = wr_ID ?op) (all_operations env w)"
      using c by (auto simp: claim_check_def Let_def split: if_splits option.splits)
    obtain row where row: "map_of (rw_operations w) (wr_ID ?op) = Some row"
      using J s unfolding money_inv_def rows_sound_def by (metis option.exhaust)
    with J have "row_sound rc (rw_trace w) (wr_ID ?op) row" unfolding money_inv_def rows_sound_def by blast
    then have "stringValue (mget row ''id'') = wr_ID ?op" by (auto simp: row_sound_def)
    moreover have "row \<in> set (all_operations env w)" using map_of_SomeD [OF row] by (force simp: all_operations_def)
    ultimately show ?thesis using no unfolding list_ex_iff by blast
  next
    case False
    with ok s show ?thesis unfolding claimable_def by blast
  qed
qed

lemma wp_claim:
  assumes "claimable w (cl_DesiredOperation claim)" "cl_ExpectedOperationResult claim = wr_PersistedResult (cl_DesiredOperation claim)"
    and "\<And>err w'. money_inv rc env w' \<Longrightarrow> grows w w' \<Longrightarrow> (err = [] \<Longrightarrow> in_hand rc w' (stored rc (cl_DesiredOperation claim))) \<Longrightarrow> Q err w'"
  shows "wp rc env (money_inv rc env) (ClaimWorkspaceRenewal rc env claim) Q w"
  unfolding ClaimWorkspaceRenewal_def
proof (rule wp_inv)
  assume J: "money_inv rc env w"
  let ?op = "cl_DesiredOperation claim"
  have sound: "sound_operation ?op" using assms(1) by (simp add: claimable_def)
  have keep: "money_inv rc env (apply_renewal_effect rc env (SaveRenewal ?op ws outcome) w)"
    if "claim_check rc env claim w = Inr ws" "outcome \<noteq> SaveRefused" for ws outcome
  proof -
    note c = claim_check_Inr [OF J that(1) assms(2,1)]
    show ?thesis by (rule save_keeps [OF J sound that(2) _ c(2)]) (simp_all add: backed_def c(1))
  qed
  have err: "err \<noteq> []" if "claim_check rc env claim w = Inl err" for err
    using that by (auto simp: claim_check_def Let_def split: if_splits option.splits)
  show "wp rc env (money_inv rc env) (save_renewal rc env ?op (claim_check rc env claim)) Q w"
  proof (rule wp_save_renewal [OF keep err _ _ J])
    fix ws w' assume w': "w' = apply_renewal_effect rc env (SaveRenewal ?op ws Saved) w" "money_inv rc env w'"
    have "saved (rw_trace w') ?op" by (simp add: w'(1) saved_append)
    then show "Q [] w'" using w' sound by (intro assms(3) saved_in_hand) auto
  qed (auto intro: assms(3))
qed

section \<open>Working on an operation\<close>

lemma wp_reload:
  assumes "in_hand rc w op" and "\<And>op'. in_hand rc w op' \<Longrightarrow> Q op' w"
  shows "wp rc env (money_inv rc env) (reload rc env op) Q w"
  unfolding reload_def by (intro wp_bind wp_load wp_return) (auto intro: assms)

lemma wp_progress:
  assumes "in_hand rc w op" and "\<And>r w'. money_inv rc env w' \<Longrightarrow> grows w w' \<Longrightarrow> in_hand rc w' (fst r) \<Longrightarrow> Q r w'"
  shows "wp rc env (money_inv rc env) (progressWorkspaceRenewalExpiry rc env op) Q w"
  unfolding progressWorkspaceRenewalExpiry_def using assms by (rule wp_expiry_turns)

text \<open>The stages of the work: each leaves an operation in hand.\<close>

lemma wp_expiry_stage:
  assumes h: "in_hand rc w op" and Q: "\<And>r w'. money_inv rc env w' \<Longrightarrow> grows w w' \<Longrightarrow> in_hand rc w' (fst r) \<Longrightarrow> Q r w'"
  shows "wp rc env (money_inv rc env) (if b then
      do { (op, err) \<leftarrow> progressWorkspaceRenewalExpiry rc env op; op \<leftarrow> reload rc env op; State_Monad.return (op, f err) }
      else State_Monad.return (op, d)) Q w"
  by (rule wp_inv, intro wp_if wp_bind wp_progress [OF h] wp_prod wp_reload wp_return) (auto intro!: Q simp: h)

lemma wp_renewal_stage:
  assumes h: "in_hand rc w op" and Q: "\<And>r w'. money_inv rc env w' \<Longrightarrow> grows w w' \<Longrightarrow> in_hand rc w' (fst r) \<Longrightarrow> Q r w'"
  shows "wp rc env (money_inv rc env) (if b then
      do { err \<leftarrow> runWorkspaceRenewal rc env op; op \<leftarrow> reload rc env op; State_Monad.return (op, err) }
      else State_Monad.return (op, [])) Q w"
  by (rule wp_inv, intro wp_if wp_bind wp_run [OF h] wp_reload wp_return) (auto intro!: Q intro: in_hand_grows [OF h] simp: h)

lemma wp_work:
  assumes h: "in_hand rc w op" and Q: "\<And>r w'. money_inv rc env w' \<Longrightarrow> grows w w' \<Longrightarrow> Q r w'"
  shows "wp rc env (money_inv rc env) (work_operation rc env expired op) Q w"
  unfolding work_operation_def Let_def
  by (rule wp_bind, rule wp_expiry_stage [OF h, where f = "\<lambda>e. e"], rule wp_prod, rule wp_bind, rule wp_renewal_stage, simp, rule wp_prod, rule wp_if,
      rule wp_bind, rule wp_expiry_stage, simp, rule wp_prod, rule wp_bind, rule wp_expiry_receipt, simp, rule wp_prod)
    (auto intro!: wp_return Q intro: grows_trans)

lemma wp_process_turns:
  assumes "\<And>r w'. money_inv rc env w' \<Longrightarrow> grows w w' \<Longrightarrow> Q r w'"
  shows "wp rc env (money_inv rc env) (process_turns n rc env workspaceID now) Q w"
  using assms
proof (induction n arbitrary: w)
  case 0
  then show ?case by (auto intro!: wp_inv [OF wp_return])
next
  case (Suc n)
  let ?q = "any_operation\<lparr>oq_WorkspaceID := workspaceID\<rparr>"
  have claim: "wp rc env (money_inv rc env) (do {
      instant \<leftarrow> call rc env ReadClock (re_now env);
      let op = lease_operation rc now instant op;
      err \<leftarrow> ClaimWorkspaceRenewal rc env (claim_of rc workspace workspaceID (queryRuntimeOperations (all_operations env w) ?q) op);
      if cas_conflict \<in> set err then process_turns n rc env workspaceID now
      else if err \<noteq> [] then State_Monad.return err
      else work_operation rc env expired (op\<lparr>wr_PersistedResult := rc_marshal rc op\<rparr>) }) Q w"
    if J: "money_inv rc env w" and plan: "plan_operation rc workspace workspaceID p now (queryRuntimeOperations (all_operations env w) ?q) = PlanRun op"
    for workspace p op expired
  proof -
    let ?w = "apply_renewal_effect rc env ReadClock w"
    have J': "money_inv rc env ?w" using J by (rule quiet_keeps) simp_all
    have c: "claimable ?w (cl_DesiredOperation (claim_of rc workspace workspaceID ops (lease_operation rc now t op)))" for t ops
      using lease_claimable [OF planned_claimable [OF J plan]] by (simp add: claim_of_def)
    show ?thesis
      unfolding Let_def
      by (rule wp_bind, rule wp_call, rule J', rule wp_bind, rule wp_claim [OF c])
        (auto simp: claim_of_def stored_def intro!: wp_if wp_return Suc.IH Suc.prems wp_work intro: grows_trans [OF grows_trans [OF grows_effect]] grows_trans [OF grows_effect])
  qed
  show ?case
    unfolding process_turns.simps getWorkspace_def table_row_def query_operations_def
    by (rule wp_inv, rule wp_bind, rule wp_ask, rule wp_option, rule wp_return, rule Suc.prems, assumption, simp, rule wp_option, rule wp_return,
        rule Suc.prems, assumption, simp, rule wp_bind, rule wp_ask)
      (auto intro!: wp_return Suc.prems claim split: sum.splits renewal_plan.splits if_splits)
qed

lemma wp_process: "wp rc env (money_inv rc env) (processWorkspaceRenewal rc env workspaceID now) (\<lambda>r w'. True) w"
  unfolding processWorkspaceRenewal_def by (rule wp_process_turns) simp

text \<open>The worker processes one workspace after the other.\<close>

lemma wp_bill_page: "(\<And>r w'. Q r w') \<Longrightarrow> wp rc env (money_inv rc env) (bill_page rc env now recovering rows errors) Q w"
proof (induction rows arbitrary: errors w)
  case (Cons row rows)
  then show ?case
    unfolding bill_page.simps bill_workspace_def Let_def
    by (intro wp_bind wp_sum wp_option wp_if wp_return) (auto intro!: wp_bind wp_return wp_mono [OF wp_process])
qed (auto intro: wp_return)

lemma wp_worker: "wp rc env (money_inv rc env) (runMonthlyBillingOnce fuel rc env now) (\<lambda>r w'. True) w"
proof -
  have "wp rc env (money_inv rc env) (billing_pages fuel rc env now recovering offset errors) (\<lambda>r w'. True) w" for recovering offset errors w
    by (induction fuel arbitrary: offset errors w) (auto intro!: wp_bind wp_ask wp_return wp_bill_page split: option.split prod.splits)
  then show ?thesis
    unfolding runMonthlyBillingOnce_def query_operations_def by (intro wp_bind wp_ask wp_sum wp_return) auto
qed

section \<open>Resolving a review\<close>

lemma wp_and_then:
  "wp rc env J c (\<lambda>r w'. if snd r = [] then wp rc env J (f (fst r)) Q w' else Q r w') w \<Longrightarrow> wp rc env J (and_then c f) Q w"
  unfolding and_then_def by (rule wp_bind, erule wp_mono, rule wp_prod, rule wp_if) (simp_all add: wp_return)

text \<open>The steps of a review carry an operation in hand that is charged.\<close>

definition review_ok :: "renewal_codec \<Rightarrow> renewal_world \<Rightarrow> outcome \<Rightarrow> bool" where
  "review_ok rc w r \<longleftrightarrow> (snd r = [] \<longrightarrow> in_hand rc w (fst r) \<and> charged (fst r))"

lemma charged_upd: "charged (stored rc op) = charged op" "account_of op' = account_of op \<Longrightarrow> charged (stored rc op') = charged op"
  using charged_account [of op' op] by (simp_all add: stored_def)

lemma wp_review_store:
  assumes h: "in_hand rc w op" "charged op" "account_of op' = account_of op"
    and e: "wr_ErrorCode op' = ''sub2api_charge_unconfirmed'' \<Longrightarrow> wr_ErrorCode op = wr_ErrorCode op'"
    and Q: "\<And>r w'. money_inv rc env w' \<Longrightarrow> grows w w' \<Longrightarrow> review_ok rc w' r \<Longrightarrow> Q r w'"
  shows "wp rc env (money_inv rc env) (persistWorkspaceRenewal rc env op' None) Q w"
  by (rule wp_persist [OF storable_change [OF h(1,3)] patch_backed_None])
    (use h e charged_upd(2) [OF h(3)] in \<open>auto intro!: Q simp: review_ok_def\<close>)

lemma wp_start_review:
  assumes h: "in_hand rc w op" "charged op" and Q: "\<And>r w'. money_inv rc env w' \<Longrightarrow> grows w w' \<Longrightarrow> review_ok rc w' r \<Longrightarrow> Q r w'"
  shows "wp rc env (money_inv rc env) (start_review rc env input op) Q w"
  unfolding start_review_def
  by (rule wp_inv, intro wp_if wp_return wp_bind money.wp_clock wp_review_store [OF in_hand_grows [OF h(1)] h(2)])
    (use h in \<open>auto intro!: Q intro: grows_trans simp: review_ok_def account_defs\<close>)

lemma wp_review_verify:
  assumes h: "in_hand rc w op" "charged op" and Q: "\<And>r w'. money_inv rc env w' \<Longrightarrow> grows w w' \<Longrightarrow> review_ok rc w' r \<Longrightarrow> Q r w'"
    and n: "\<And>op. account_of (nxt op) = account_of op" "\<And>op. wr_ErrorCode (nxt op) \<in> {wr_ErrorCode op, []}"
  shows "wp rc env (money_inv rc env) (review_verify rc env phase t nxt op) Q w"
proof -
  have store: "wp rc env (money_inv rc env) (persistWorkspaceRenewal rc env (f op') None) Q' w'"
    if that: "grows w w'" "same_state op op'" "f = nxt \<or> f = (\<lambda>x. x)"
      and Q': "\<And>r w''. money_inv rc env w'' \<Longrightarrow> grows w' w'' \<Longrightarrow> review_ok rc w'' r \<Longrightarrow> Q' r w''" for f op' Q' w'
  proof -
    have hand: "in_hand rc w' op'" "charged op'" using h that(1,2) same_state_hand in_hand_grows by blast+
    show ?thesis
      by (rule wp_review_store [OF hand]) (use that(3) n(1) [of op'] n(2) [of op'] Q' in auto)
  qed
  show ?thesis
    unfolding review_verify_def
    by (rule wp_inv, intro wp_if wp_return wp_bind wp_read_back wp_prod wp_option store [where f = nxt] store [where f = "\<lambda>x. x"] money.wp_save_resource)
      (use h in \<open>auto intro!: Q intro: grows_trans simp: review_ok_def split: if_splits\<close>)
qed

lemma wp_run_review:
  assumes h: "in_hand rc w op" and Q: "\<And>r w'. money_inv rc env w' \<Longrightarrow> grows w w' \<Longrightarrow> good_outcome rc w' r \<Longrightarrow> Q r w'"
  shows "wp rc env (money_inv rc env) (run_review rc env op) Q w"
proof -
  have rest: "wp rc env (money_inv rc env) (if err \<noteq> [] then
            (case loaded of
               Inr current \<Rightarrow>
                 if wr_Phase current = ''receipt'' then
                   do {
                     (current, persistErr) \<leftarrow> persistWorkspaceRenewal rc env (current\<lparr>wr_ReviewResolutionPhase := ''receipt''\<rparr>) None;
                     State_Monad.return (current, if persistErr \<noteq> [] then persistErr else [''billing_review_receipt_pending''])
                   }
                 else State_Monad.return (op, err)
             | Inl _ \<Rightarrow> State_Monad.return (op, err))
          else State_Monad.return (case loaded of Inl e \<Rightarrow> (op, e) | Inr current \<Rightarrow> (current, []))) Q w'"
    if "money_inv rc env w'" "grows w w'" "\<And>x. loaded = Inr x \<Longrightarrow> in_hand rc w' x" for err loaded w'
    by (intro wp_if wp_sum wp_bind wp_store wp_prod wp_return)
      (use that in_hand_grows [OF h that(2)] in \<open>auto intro!: Q intro: grows_trans simp: good_outcome_def account_defs split: sum.splits\<close>)
  show ?thesis
    unfolding run_review_def
    by (rule wp_inv, rule wp_if, (rule wp_return, rule Q), assumption, simp, simp add: good_outcome_def h,
        intro wp_bind money.wp_clock wp_run [OF in_hand_grows [OF h]] wp_load rest)
      (auto intro: grows_trans)
qed

lemma wp_finish_review:
  assumes h: "in_hand rc w op" and Q: "\<And>r w'. money_inv rc env w' \<Longrightarrow> grows w w' \<Longrightarrow> Q r w'"
  shows "wp rc env (money_inv rc env) (finish_review rc env op) Q w"
  unfolding finish_review_def
  by (rule wp_inv, intro wp_if wp_return wp_store [OF h]) (auto intro!: Q simp: account_defs)

lemma wp_review_steps:
  assumes h: "in_hand rc w op" "charged op" and Q: "\<And>r w'. money_inv rc env w' \<Longrightarrow> grows w w' \<Longrightarrow> Q r w'"
  shows "wp rc env (money_inv rc env) (review_steps rc env input op) Q w"
  unfolding review_steps_def
  by (rule wp_and_then, rule wp_start_review [OF h], simp split: if_splits, safe intro!: Q wp_and_then wp_review_verify)
    (auto intro!: Q wp_and_then wp_review_verify wp_run_review wp_finish_review intro: grows_trans simp: review_ok_def good_outcome_def account_defs,
     (meson grows_trans)+)

lemma wp_review: "wp rc env (money_inv rc env) (resolveWorkspaceRenewalReview rc env input) (\<lambda>r w'. True) w"
proof -
  have "charged op" if "review_charge_ok op u" for op u using that by (auto simp: review_charge_ok_def charged_def)
  then show ?thesis
    unfolding resolveWorkspaceRenewalReview_def
    by (intro wp_if wp_return wp_bind wp_load wp_sum wp_option money.wp_gateway_user wp_review_steps wp_prod) auto
qed

theorem money_history: "renewal_history rc env w \<Longrightarrow> renewal_codec_ok rc \<Longrightarrow> money_inv rc env w"
proof (induction rule: renewal_history.induct)
  case (start w)
  then show ?case by (simp add: money_inv_def rows_sound_def idents_fixed_def all_backed_def saved_def)
next
  case (process w n workspaceID now)
  then show ?case by (auto intro: run_cut_off wp_process)
next
  case (worker w n fuel now)
  then show ?case by (auto intro: run_cut_off wp_worker)
next
  case (review w n input)
  then show ?case by (auto intro: run_cut_off wp_review)
next
  case (others w t)
  then show ?case by (simp add: money_inv_def)
qed

end
