(* ===== verification/Renewal_Properties.thy ===== *)
theory Renewal_Properties
  imports Renewal_Process
begin

text \<open>
  What the histories of renewals guarantee about money: no charge and no refund without a record of the attempt,
  none repeated after it took effect, no period extended without a confirmed charge.
\<close>

section \<open>Positions in a history\<close>

lemma history_backed:
  assumes "renewal_history rc env w" "renewal_codec_ok rc" "n < length (rw_trace w)"
  shows "backed env (take n (rw_trace w)) (rw_trace w ! n)"
  using money_backed [OF money_history [OF assms(1,2)] assms(3)] .

lemma history_idents: "renewal_history rc env w \<Longrightarrow> renewal_codec_ok rc \<Longrightarrow> idents_fixed (rw_trace w)"
  using money_history by (simp add: money_inv_def)

lemma earlier_effect: "j < k \<Longrightarrow> k < length tr \<Longrightarrow> P (tr ! j) \<Longrightarrow> list_ex P (take k tr)"
  unfolding list_ex_length by (intro exI [of _ j]) simp

text \<open>The codes and amounts of the effects of one operation agree.\<close>

lemma same_money:
  assumes "idents_fixed tr" "saved tr op" "saved tr op'" "wr_ID op = wr_ID op'"
  shows "wr_RedeemCode op = wr_RedeemCode op'" "wr_RefundCode op = wr_RefundCode op'" "wr_TotalUSDMicros op = wr_TotalUSDMicros op'"
proof -
  have "ident op = ident op'" using assms unfolding idents_fixed_def by blast
  then show "wr_RedeemCode op = wr_RedeemCode op'" "wr_RefundCode op = wr_RefundCode op'" "wr_TotalUSDMicros op = wr_TotalUSDMicros op'"
    by (simp_all add: ident_def)
qed

section \<open>The worker ends\<close>

text \<open>Other writers keep the table of workspaces within a bound.\<close>

definition bounded_table :: "renewal_env \<Rightarrow> nat \<Rightarrow> bool" where
  "bounded_table env n \<longleftrightarrow> (\<forall>tr t. length (rt_workspaces (re_disturb env tr t)) \<le> n)"

lemma path_bounded:
  "path rc env J w w' \<Longrightarrow> bounded_table env n \<Longrightarrow> length (rt_workspaces (rw_tables w)) \<le> n \<Longrightarrow> length (rt_workspaces (rw_tables w')) \<le> n"
  by (induction rule: path.induct) (simp_all add: apply_renewal_effect_def bounded_table_def)

lemma wp_bounded:
  assumes "wp rc env J c Q w" "bounded_table env n" "length (rt_workspaces (rw_tables w)) \<le> n"
  shows "wp rc env J c (\<lambda>r w'. Q r w' \<and> length (rt_workspaces (rw_tables w')) \<le> n) w"
  using assms path_bounded by (fastforce simp: wp_def split: prod.splits)

lemma pages_end:
  assumes "bounded_table env n" "length (rt_workspaces (rw_tables w)) \<le> n" "offset \<le> n" "n < fuel + offset"
  shows "wp rc env (money_inv rc env) (billing_pages fuel rc env now recovering offset errors) (\<lambda>r w'. r \<noteq> None) w"
  using assms(2-)
proof (induction fuel arbitrary: offset errors w)
  case (Suc fuel)
  have more: "wp rc env (money_inv rc env) (bill_page rc env now recovering items errors)
      (\<lambda>errors. wp rc env (money_inv rc env)
        (if offset + length items \<ge> whole \<or> items = [] then State_Monad.return (Some errors)
         else billing_pages fuel rc env now recovering (offset + length items) errors) (\<lambda>r w'. r \<noteq> None)) w"
    if "whole \<le> n" for items whole
  proof (rule wp_mono [OF wp_bounded [OF wp_bill_page [where Q = "\<lambda>_ _. True"] assms(1) Suc.prems(1)]])
    fix errors :: errs and w' :: renewal_world
    assume "True \<and> length (rt_workspaces (rw_tables w')) \<le> n"
    then show "wp rc env (money_inv rc env)
        (if offset + length items \<ge> whole \<or> items = [] then State_Monad.return (Some errors)
         else billing_pages fuel rc env now recovering (offset + length items) errors) (\<lambda>r w'. r \<noteq> None) w'"
      using that Suc.prems(2,3) Suc.IH [of w' "offset + length items"] by (cases items) (auto intro!: wp_return)
  qed simp
  show ?case
    unfolding billing_pages.simps using Suc.prems(1)
    by (intro wp_bind wp_ask wp_option wp_prod_fun wp_return wp_prod more) (auto simp: PageWorkspaces_def split: if_splits)
qed simp

section \<open>A Gateway whose history is true\<close>

text \<open>
  \<open>applied\<close> says of a charge or refund sent at a point of the history whether it took effect. The history of the
  Gateway is true when it misses no movement that took effect.
\<close>

fun money_of :: "renewal_effect \<Rightarrow> money_input option" where
  "money_of (ChargeWallet i m) = Some m"
| "money_of (RefundWallet i m) = Some m"
| "money_of _ = None"

definition true_history :: "renewal_env \<Rightarrow> (renewal_trace \<Rightarrow> bool) \<Rightarrow> bool" where
  "true_history env applied \<longleftrightarrow>
     (\<forall>tr userID redeem h n m. re_history env tr userID [redeem] = Inr h \<longrightarrow> map_of h redeem = None \<longrightarrow> n < length tr \<longrightarrow>
        money_of (tr ! n) = Some m \<longrightarrow> mi_UserID m = userID \<longrightarrow> mi_Code m = redeem \<longrightarrow> \<not> applied (take (Suc n) tr))"

lemma unseen_not_applied:
  assumes "true_history env applied" "unseen env (take k tr) m'" "j < k" "k < length tr" "money_of (tr ! j) = Some m"
    and "mi_Code m = mi_Code m'" "mi_UserID m = mi_UserID m'"
  shows "\<not> applied (take (Suc j) tr)"
proof -
  obtain pre h where pre: "take k tr = pre @ [ReadWalletHistory (mi_UserID m') [mi_Code m']]"
    "re_history env pre (mi_UserID m') [mi_Code m'] = Inr h" "map_of h (mi_Code m') = None"
    using assms(2) by (auto simp: unseen_def)
  have len: "length pre + 1 = k" using arg_cong [OF pre(1), of length] assms(4) by simp
  have "j \<noteq> length pre"
  proof
    assume "j = length pre"
    then have "tr ! j = ReadWalletHistory (mi_UserID m') [mi_Code m']" using arg_cong [OF pre(1), of "\<lambda>xs. xs ! j"] assms(3) by simp
    with assms(5) show False by simp
  qed
  with len assms(3) have j: "j < length pre" by simp
  have "take (Suc j) tr = take (Suc j) (take k tr)" using assms(3) by (simp add: min_def)
  also have "\<dots> = take (Suc j) pre" using pre(1) j by simp
  finally have t: "take (Suc j) tr = take (Suc j) pre" .
  then have "tr ! j = pre ! j" using j by (metis lessI nth_take)
  with assms pre(2,3) j show ?thesis unfolding t true_history_def by metis
qed

section \<open>The properties\<close>

lemma renewal_is_charged_once:
  assumes "renewal_history rc env w" "renewal_codec_ok rc" "true_history env applied"
    and "k < length (rw_trace w)" "rw_trace w ! k = ChargeWallet i m"
  shows "(\<exists>op. saved (take k (rw_trace w)) op \<and> wr_ID op = i \<and> wr_ChargeAttempted op \<and> wr_RedeemCode op = mi_Code m \<and> wr_TotalUSDMicros op = mi_USDMicros m) \<and>
    \<not> (\<exists>j m'. j < k \<and> rw_trace w ! j = ChargeWallet i m' \<and> mi_UserID m' = mi_UserID m \<and> applied (take (Suc j) (rw_trace w)))"
proof (intro conjI notI)
  let ?tr = "rw_trace w"
  obtain op where op: "saved (take k ?tr) op" "wr_ID op = i" "wr_ChargeAttempted op" "wr_RedeemCode op = mi_Code m" "wr_TotalUSDMicros op = mi_USDMicros m"
    and again: "list_ex (charges i) (take k ?tr) \<longrightarrow> unseen env (take k ?tr) m"
    using history_backed [OF assms(1,2,4)] assms(5) by (auto simp: backed_def)
  then show "\<exists>op. saved (take k ?tr) op \<and> wr_ID op = i \<and> wr_ChargeAttempted op \<and> wr_RedeemCode op = mi_Code m \<and> wr_TotalUSDMicros op = mi_USDMicros m"
    by blast
  assume "\<exists>j m'. j < k \<and> ?tr ! j = ChargeWallet i m' \<and> mi_UserID m' = mi_UserID m \<and> applied (take (Suc j) ?tr)"
  then obtain j m' where j: "j < k" "?tr ! j = ChargeWallet i m'" "mi_UserID m' = mi_UserID m" "applied (take (Suc j) ?tr)" by blast
  have "j < length ?tr" using j(1) assms(4) by simp
  then obtain op' where op': "saved (take j ?tr) op'" "wr_ID op' = i" "wr_RedeemCode op' = mi_Code m'"
    using history_backed [OF assms(1,2)] j(2) by (fastforce simp: backed_def)
  have "mi_Code m' = mi_Code m"
    using same_money(1) [OF history_idents [OF assms(1,2)] saved_take [OF op'(1)] saved_take [OF op(1)]] op'(2,3) op(2,4) by simp
  moreover have "unseen env (take k ?tr) m" using again earlier_effect [OF j(1) assms(4), of "charges i"] j(2) by simp
  ultimately show False using unseen_not_applied [OF assms(3) _ j(1) assms(4), of m m'] j(2-4) by simp
qed

lemma renewal_is_refunded_once:
  assumes "renewal_history rc env w" "renewal_codec_ok rc" "true_history env applied"
    and "k < length (rw_trace w)" "rw_trace w ! k = RefundWallet i m"
  shows "(\<exists>op. saved (take k (rw_trace w)) op \<and> wr_ID op = i \<and> wr_RefundAttempted op \<and> charged op \<and> wr_RefundCode op = mi_Code m \<and> wr_TotalUSDMicros op = mi_USDMicros m) \<and>
    \<not> (\<exists>j m'. j < k \<and> rw_trace w ! j = RefundWallet i m' \<and> mi_UserID m' = mi_UserID m \<and> applied (take (Suc j) (rw_trace w)))"
proof (intro conjI notI)
  let ?tr = "rw_trace w"
  obtain op where op: "saved (take k ?tr) op" "wr_ID op = i" "wr_RefundAttempted op" "charged op" "wr_RefundCode op = mi_Code m" "wr_TotalUSDMicros op = mi_USDMicros m"
    and again: "list_ex (refunds i) (take k ?tr) \<longrightarrow> unseen env (take k ?tr) m"
    using history_backed [OF assms(1,2,4)] assms(5) by (auto simp: backed_def)
  then show "\<exists>op. saved (take k ?tr) op \<and> wr_ID op = i \<and> wr_RefundAttempted op \<and> charged op \<and> wr_RefundCode op = mi_Code m \<and> wr_TotalUSDMicros op = mi_USDMicros m"
    by blast
  assume "\<exists>j m'. j < k \<and> ?tr ! j = RefundWallet i m' \<and> mi_UserID m' = mi_UserID m \<and> applied (take (Suc j) ?tr)"
  then obtain j m' where j: "j < k" "?tr ! j = RefundWallet i m'" "mi_UserID m' = mi_UserID m" "applied (take (Suc j) ?tr)" by blast
  have "j < length ?tr" using j(1) assms(4) by simp
  then obtain op' where op': "saved (take j ?tr) op'" "wr_ID op' = i" "wr_RefundCode op' = mi_Code m'"
    using history_backed [OF assms(1,2)] j(2) by (fastforce simp: backed_def)
  have "mi_Code m' = mi_Code m"
    using same_money(2) [OF history_idents [OF assms(1,2)] saved_take [OF op'(1)] saved_take [OF op(1)]] op'(2,3) op(2,5) by simp
  moreover have "unseen env (take k ?tr) m" using again earlier_effect [OF j(1) assms(4), of "refunds i"] j(2) by simp
  ultimately show False using unseen_not_applied [OF assms(3) _ j(1) assms(4), of m m'] j(2-4) by simp
qed

text \<open>
  C2: in every history of renewals, reviews and cut-off runs, money moves once per operation. A charge is sent to the
  Gateway only with an attempt stored before it, under the code and for the price that are stored; a refund only for
  an operation whose charge is confirmed and whose refund attempt was stored before, for the amount that was charged.
  With a Gateway whose history is true, no charge (no refund) of an operation follows one that took effect for the
  same Gateway user.
\<close>

theorem renewal_money_moves_once:
  assumes "renewal_history rc env w" "renewal_codec_ok rc" "true_history env applied" "k < length (rw_trace w)"
  shows "case rw_trace w ! k of
      ChargeWallet i m \<Rightarrow>
        (\<exists>op. saved (take k (rw_trace w)) op \<and> wr_ID op = i \<and> wr_ChargeAttempted op \<and> wr_RedeemCode op = mi_Code m \<and>
           wr_TotalUSDMicros op = mi_USDMicros m) \<and>
        \<not> (\<exists>j m'. j < k \<and> rw_trace w ! j = ChargeWallet i m' \<and> mi_UserID m' = mi_UserID m \<and> applied (take (Suc j) (rw_trace w)))
    | RefundWallet i m \<Rightarrow>
        (\<exists>op. saved (take k (rw_trace w)) op \<and> wr_ID op = i \<and> wr_RefundAttempted op \<and> charged op \<and> wr_RefundCode op = mi_Code m \<and>
           wr_TotalUSDMicros op = mi_USDMicros m) \<and>
        \<not> (\<exists>j m'. j < k \<and> rw_trace w ! j = RefundWallet i m' \<and> mi_UserID m' = mi_UserID m \<and> applied (take (Suc j) (rw_trace w)))
    | _ \<Rightarrow> True"
proof (cases "rw_trace w ! k")
  case (ChargeWallet i m)
  show ?thesis unfolding ChargeWallet renewal_effect.case by (rule renewal_is_charged_once [OF assms ChargeWallet])
next
  case (RefundWallet i m)
  show ?thesis unfolding RefundWallet renewal_effect.case by (rule renewal_is_refunded_once [OF assms RefundWallet])
qed simp_all


text \<open>
  C38: the queries for operations, which fetch pages until the total is reached, return exactly the matching rows
  of the table in their order: the paging loop is equivalent to one sorted selection, for every table and every
  query.
\<close>

theorem query_is_one_selection:
  "queryRuntimeOperations table q = sort_key operation_order (filter (operation_matches q) table)"
  by (rule query_operations_all)

text \<open>
  C39: one run of the billing worker ends: where the other writers keep at most \<open>n\<close> workspaces in the table, the loop over
  the pages returns within \<open>n + 1\<close> pages, in every history and for every answer of the services.
\<close>

theorem billing_run_ends:
  assumes "renewal_history rc env w" "renewal_codec_ok rc" "bounded_table env n" "length (rt_workspaces (rw_tables w)) \<le> n" "n < fuel"
  shows "\<exists>errors. fst (run_state (runMonthlyBillingOnce fuel rc env now) w) = Some errors"
proof -
  have "wp rc env (money_inv rc env) (runMonthlyBillingOnce fuel rc env now) (\<lambda>r w'. r \<noteq> None) w"
    unfolding runMonthlyBillingOnce_def query_operations_def
    by (intro wp_bind wp_ask wp_sum wp_return pages_end [OF assms(3,4)]) (use assms(5) in auto)
  then show ?thesis using money_history [OF assms(1,2)] by (auto simp: wp_def split: prod.splits)
qed

end
