(* ===== verification/Renewal_Loop.thy ===== *)
theory Renewal_Loop
  imports Renewal_Safety
begin

text \<open>
  The loop of a renewal ends: every turn that goes on brings the operation closer to a status that stops, so the
  limit of sixteen turns is never reached.
\<close>

section \<open>Results\<close>

text \<open>With the trivial invariant a weakest precondition speaks about what a program returns.\<close>

interpretation any: quiet_invariant rc env "\<lambda>_. True"
  by unfold_locales simp

abbreviation any_world :: "renewal_world \<Rightarrow> bool" where
  "any_world \<equiv> \<lambda>_. True"

lemma results_call: "(\<And>t w'. P (answer t) w') \<Longrightarrow> wp rc env any_world (call rc env e answer) P w"
  by (rule wp_call) auto

lemma results_save: "(\<And>err w'. P err w') \<Longrightarrow> wp rc env any_world (save_renewal rc env op check) P w"
  unfolding save_renewal_def by (intro wp_rules wp_emit) auto

lemma results_persist:
  assumes "\<And>op' err w'. wr_Status op' = wr_Status op \<Longrightarrow> wr_Phase op' = wr_Phase op \<Longrightarrow> P (op', err) w'"
  shows "wp rc env any_world (persistWorkspaceRenewal rc env op patch) P w"
  unfolding persistWorkspaceRenewal_def PersistWorkspaceRenewal_def by (intro wp_bind results_save wp_return) (auto intro: assms)

section \<open>How far an operation is from its end\<close>

definition turns_left :: "renewal_operation \<Rightarrow> nat" where
  "turns_left op =
     (if wr_Status op = ''claimed'' then (if wr_Phase op = ''preflight_compute'' then 9 else 8)
      else if wr_Status op = ''insufficient'' then 8
      else if wr_Status op = ''debit_pending'' then 7
      else if wr_Status op = ''debited'' then 6
      else if wr_Status op = ''provider_renewing'' then
        (if wr_Phase op = ''provider_compute'' then 5 else if wr_Phase op = ''verify_compute'' then 4
         else if wr_Phase op = ''provider_storage'' then 3 else if wr_Phase op = ''verify_storage'' then 2 else 1)
      else if wr_Status op = ''verifying'' \<and> wr_Phase op \<noteq> ''receipt'' then 1
      else 0)"

lemma turns_left_cong: "wr_Status op' = wr_Status op \<Longrightarrow> wr_Phase op' = wr_Phase op \<Longrightarrow> turns_left op' = turns_left op"
  by (simp add: turns_left_def)

lemma turns_left_status [simp]:
  "wr_Status op = ''debit_pending'' \<Longrightarrow> turns_left op = 7" "wr_Status op = ''debited'' \<Longrightarrow> turns_left op = 6"
  "wr_Status op = ''insufficient'' \<Longrightarrow> turns_left op = 8"
  "wr_Status op \<in> {''manual_review'', ''refunded'', ''refund_pending'', ''active'', ''cancelled'', ''expired_unpaid''} \<Longrightarrow> turns_left op = 0"
  "wr_Status op = ''claimed'' \<Longrightarrow> wr_Phase op = ''preflight_storage'' \<Longrightarrow> turns_left op = 8"
  "wr_Status op = ''provider_renewing'' \<Longrightarrow> wr_Phase op = ''provider_compute'' \<Longrightarrow> turns_left op = 5"
  "wr_Status op = ''provider_renewing'' \<Longrightarrow> wr_Phase op = ''verify_compute'' \<Longrightarrow> turns_left op = 4"
  "wr_Status op = ''provider_renewing'' \<Longrightarrow> wr_Phase op = ''provider_storage'' \<Longrightarrow> turns_left op = 3"
  "wr_Status op = ''provider_renewing'' \<Longrightarrow> wr_Phase op = ''verify_storage'' \<Longrightarrow> turns_left op = 2"
  "wr_Status op = ''provider_renewing'' \<Longrightarrow> 0 < turns_left op"
  "wr_Status op = ''verifying'' \<Longrightarrow> turns_left op = (if wr_Phase op = ''receipt'' then 0 else 1)"
  by (auto simp: turns_left_def)

lemma turns_left_bound: "turns_left op \<le> 9"
  by (simp add: turns_left_def)

text \<open>An outcome is ends_in a number of turns when it has an error or its operation is.\<close>

definition ends_in :: "nat \<Rightarrow> outcome \<Rightarrow> bool" where
  "ends_in n r \<longleftrightarrow> (snd r = [] \<longrightarrow> turns_left (fst r) \<le> n)"

lemma ends_in_zero [simp]: "ends_in 0 r \<Longrightarrow> ends_in n r" and ends_in_error [simp]: "err \<noteq> [] \<Longrightarrow> ends_in n (op, err)"
  by (auto simp: ends_in_def)

lemma ends_in_store:
  assumes "\<And>r w'. ends_in (turns_left op) r \<Longrightarrow> P r w'"
  shows "wp rc env any_world (persistWorkspaceRenewal rc env op patch) P w"
proof (rule results_persist)
  fix op' :: renewal_operation and w' and err :: errs
  assume "wr_Status op' = wr_Status op" "wr_Phase op' = wr_Phase op"
  then show "P (op', err) w'" by (intro assms) (simp add: ends_in_def turns_left_def)
qed

lemma ends_in_retry:
  "errorCode \<noteq> [] \<Longrightarrow> (\<And>r w'. ends_in 0 r \<Longrightarrow> P r w') \<Longrightarrow> wp rc env any_world (retryWorkspaceRenewal rc env op errorCode cause) P w"
  unfolding retryWorkspaceRenewal_def by (intro wp_bind results_persist wp_prod wp_return) (auto simp: ends_in_def)

lemma ends_in_manual: "(\<And>r w'. ends_in 0 r \<Longrightarrow> P r w') \<Longrightarrow> wp rc env any_world (manualReviewWorkspaceRenewal rc env op errorCode) P w"
  unfolding manualReviewWorkspaceRenewal_def by (rule ends_in_store) (auto simp: turns_left_def releaseWorkspaceRenewalLease_def)

lemma results_leave: "wp rc env any_world c (\<lambda>r. P (Inl r)) w \<Longrightarrow> wp rc env any_world (leave c) P w"
  unfolding leave_def by (rule wp_bind, erule wp_mono, rule wp_return)

lemma results_proceed:
  "wp rc env any_world c (\<lambda>r w'. case r of Inl out \<Rightarrow> P out w' | Inr x \<Rightarrow> wp rc env any_world (f x) P w') w \<Longrightarrow> wp rc env any_world (proceed c f) P w"
  unfolding proceed_def by (rule wp_bind, erule wp_mono, rule wp_sum) (simp_all add: wp_return)

lemmas ends_in_rules = ends_in_retry ends_in_manual results_leave wp_bind wp_return wp_if wp_option wp_sum wp_prod wp_prod_fun wp_let results_call

section \<open>The steps\<close>

lemma ends_in_refund_receipt:
  "wr_Status op = ''refunded'' \<Longrightarrow> (\<And>r w'. ends_in 0 r \<Longrightarrow> P r w') \<Longrightarrow> wp rc env any_world (recordWorkspaceRefundReceipt rc env op) P w"
  unfolding recordWorkspaceRefundReceipt_def
  by (intro ends_in_rules any.wp_gateway_user any.wp_receipt ends_in_store) (auto simp: turns_left_def releaseWorkspaceRenewalLease_def)

lemma ends_in_finish_refund: "(\<And>r w'. ends_in 0 r \<Longrightarrow> P r w') \<Longrightarrow> wp rc env any_world (finish_refund rc env op u refund) P w"
  unfolding finish_refund_def
  by (intro ends_in_rules results_persist ends_in_refund_receipt) (auto simp: ends_in_def turns_left_def)

lemma ends_in_refund: "(\<And>r w'. ends_in 0 r \<Longrightarrow> P r w') \<Longrightarrow> wp rc env any_world (refundWorkspaceRenewal rc env op reason) P w"
  unfolding refundWorkspaceRenewal_def refund_again_def read_history_def RefundSub2API_def
  by (intro ends_in_rules any.wp_gateway_user results_proceed results_persist) (auto simp: ends_in_def intro!: ends_in_finish_refund)

lemma results_confirm_charge:
  "(\<And>r w'. (case r of Inl out \<Rightarrow> ends_in 0 out | Inr _ \<Rightarrow> True) \<Longrightarrow> P r w') \<Longrightarrow> wp rc env any_world (confirm_charge rc env u x) P w"
  unfolding confirm_charge_def by (intro ends_in_rules results_persist) (auto simp: ends_in_def)

lemma results_obtain_charge:
  "(\<And>r w'. (case r of Inl out \<Rightarrow> ends_in 0 out | Inr _ \<Rightarrow> True) \<Longrightarrow> P r w') \<Longrightarrow> wp rc env any_world (obtain_charge rc env op u) P w"
  unfolding obtain_charge_def charge_again_def charge_first_def read_history_def ChargeSub2API_def read_balance_def
  by (intro ends_in_rules any.wp_key_problem results_persist results_confirm_charge) (auto simp: ends_in_def)

lemma ends_in_debit: "(\<And>r w'. ends_in 6 r \<Longrightarrow> P r w') \<Longrightarrow> wp rc env any_world (debitWorkspaceRenewal rc env op) P w"
  unfolding debitWorkspaceRenewal_def check_post_charge_def read_balance_def
  by (intro ends_in_rules any.wp_gateway_user results_proceed results_obtain_charge)
    (auto intro!: ends_in_rules ends_in_store split: sum.splits)

text \<open>A read of a resource keeps status and phase.\<close>

lemma results_read_back:
  assumes "\<And>op' x row w'. wr_Status op' = wr_Status op \<Longrightarrow> wr_Phase op' = wr_Phase op \<Longrightarrow> P (op', x, row) w'"
  shows "wp rc env any_world (read_back rc env t op) P w"
  unfolding read_back_def by (intro wp_bind any.wp_read_fact wp_prod any.wp_readback wp_return) (auto intro: assms)

lemma ends_in_provider:
  assumes "wr_Status op = ''provider_renewing''" and "\<And>r w'. ends_in (turns_left op - 1) r \<Longrightarrow> P r w'"
  shows "wp rc env any_world (renewWorkspaceProvider rc env op) P w"
  unfolding renewWorkspaceProvider_def verify_compute_def verify_storage_def
  by (intro wp_if wp_bind any.wp_renew results_read_back wp_prod wp_prod_fun wp_option any.wp_save_resource wp_return ends_in_refund ends_in_manual
      ends_in_store)
    (use assms(1) in \<open>simp_all add: assms(2)\<close>)

lemma results_verify_resource:
  assumes "\<And>op' ok w'. wr_Status op' = wr_Status op \<Longrightarrow> wr_Phase op' = wr_Phase op \<Longrightarrow> P (op', ok) w'"
  shows "wp rc env any_world (verify_resource rc env t op) P w"
  unfolding verify_resource_def
  by (intro wp_bind results_read_back wp_prod wp_prod_fun wp_option wp_return any.wp_save_resource) (auto intro!: assms)

lemma ends_in_commit: "(\<And>r w'. ends_in 0 r \<Longrightarrow> P r w') \<Longrightarrow> wp rc env any_world (commitWorkspaceRenewalEntitlement rc env op) P w"
  unfolding commitWorkspaceRenewalEntitlement_def
  by (intro wp_bind any.wp_table_row wp_let wp_if wp_option ends_in_manual ends_in_store) auto

text \<open>A turn that goes on comes closer to the end.\<close>

definition closer :: "renewal_operation \<Rightarrow> renewal_turn \<Rightarrow> bool" where
  "closer op t = (case t of GoOn op' \<Rightarrow> turns_left op' < turns_left op | Stop _ \<Rightarrow> True)"

lemma closer_go_on:
  "wp rc env any_world c (\<lambda>r w'. ends_in (turns_left op - 1) r \<and> 0 < turns_left op) w \<Longrightarrow> wp rc env any_world (go_on c) (\<lambda>t w'. closer op t) w"
  unfolding go_on_def by (rule wp_bind, erule wp_mono, intro wp_prod wp_return) (auto simp: ends_in_def closer_def)

lemma closer_stop: "wp rc env any_world c (\<lambda>r w'. True) w \<Longrightarrow> wp rc env any_world (stop c) (\<lambda>t w'. closer op t) w"
  unfolding stop_def by (rule wp_bind, erule wp_mono, intro wp_return) (simp add: closer_def)

lemma closer_preflight:
  assumes "turns_left op'' < turns_left op"
  shows "wp rc env any_world (preflight_turn rc env op' input failure op'') (\<lambda>t w'. closer op t) w"
  unfolding preflight_turn_def retryWorkspaceRenewal_def
  by (intro wp_bind results_call wp_sum wp_if closer_stop closer_go_on results_persist wp_prod wp_return ends_in_store) (use assms in \<open>auto simp: ends_in_def\<close>)

lemma closer_claimed: "wr_Status op = ''claimed'' \<Longrightarrow> wp rc env any_world (claimed_turn rc env op) (\<lambda>t w'. closer op t) w"
  unfolding claimed_turn_def
  by (intro wp_bind any.wp_resources wp_sum wp_prod wp_let wp_if closer_stop closer_go_on closer_preflight ends_in_store ends_in_manual)
    (auto simp: turns_left_def ends_in_def)

lemma closer_verifying: "wr_Status op = ''verifying'' \<Longrightarrow> wp rc env any_world (verifying_turn rc env op) (\<lambda>t w'. closer op t) w"
  unfolding verifying_turn_def recordWorkspaceRenewalReceipt_def verifyWorkspaceRenewalProviderReadback_def
  by (intro wp_bind any.wp_gateway_user any.wp_receipt wp_sum results_verify_resource wp_prod wp_if wp_let closer_stop closer_go_on ends_in_commit
      ends_in_manual ends_in_retry results_persist wp_return) auto

lemma closer_step: "wp rc env any_world (renewal_step rc env op) (\<lambda>t w'. closer op t) w"
  unfolding renewal_step_def recordWorkspaceRefundReceipt_def
  by (intro wp_let wp_if closer_stop closer_go_on closer_claimed closer_verifying ends_in_store ends_in_debit ends_in_provider ends_in_refund
      ends_in_manual wp_return wp_bind any.wp_gateway_user any.wp_receipt wp_sum ends_in_retry)
    (auto simp: closer_def)

section \<open>The loop\<close>

lemma turn_is_closer: "run_state (renewal_step rc env op) w = (GoOn op', w') \<Longrightarrow> turns_left op' < turns_left op"
  using closer_step [of rc env op w] by (simp add: wp_def closer_def)

lemma enough_turns:
  assumes "turns_left op < n"
  shows "run_state (renewal_turns (n + k) rc env op) w = run_state (renewal_turns n rc env op) w"
  using assms
proof (induction n arbitrary: op w)
  case (Suc n)
  have "run_state (renewal_turns (n + k) rc env op') w' = run_state (renewal_turns n rc env op') w'"
    if "run_state (renewal_step rc env op) w = (GoOn op', w')" for op' w'
    using turn_is_closer [OF that] Suc by simp
  then show ?case by (simp split: prod.splits renewal_turn.splits)
qed simp

text \<open>
  C37: the loop of a renewal, which gives up after sixteen turns, behaves for every operation and every answer of
  the services like the loop with any other limit of at least ten turns: its limit is never what ends it.
\<close>

theorem renewal_loop_is_bounded:
  "runWorkspaceRenewal rc env op = do { (_, err) \<leftarrow> renewal_turns (10 + k) rc env op; State_Monad.return err }"
proof -
  have ten: "run_state (renewal_turns (10 + j) rc env op) w = run_state (renewal_turns 10 rc env op) w" for j w
    using turns_left_bound [of op] by (intro enough_turns) simp
  have "renewal_turns 16 rc env op = renewal_turns (10 + k) rc env op"
    using ten [of 6] ten [of k] by (intro state.expand) (simp add: fun_eq_iff)
  then show ?thesis by (simp add: runWorkspaceRenewal_def)
qed

end
