(* ===== verification/Renewal_Progress.thy ===== *)
theory Renewal_Progress
  imports Renewal_Properties Renewal_Loop
begin

text \<open>
  Renewals make progress: with services that answer, every turn of the loop brings a renewal on, from the preflights
  over the charge, the renewal at the provider and the new period to the receipt, in one run.
\<close>

section \<open>Services that answer\<close>

text \<open>
  \<open>n\<close> is the new operation, \<open>facts\<close> what the provider reports about a resource at a point of the trace. The balance
  falls by the price once the charge was sent.
\<close>

abbreviation fact_input :: "renewal_operation \<Rightarrow> string \<Rightarrow> provider_fact_input" where
  "fact_input n t \<equiv> workspaceRenewalProviderFactInput n t"

definition covering :: "renewal_operation \<Rightarrow> (renewal_trace \<Rightarrow> provider_fact_input \<Rightarrow> provider_fact) \<Rightarrow> string \<Rightarrow> string \<Rightarrow> bool" where
  "covering n facts t providerID \<longleftrightarrow>
     (\<exists>paid renewed spec zone. rfc3339_parse (wr_PaidThrough n) = Some paid \<and> rfc3339_parse (wr_RenewedThrough n) = Some renewed \<and>
       (\<forall>tr. let pf = facts tr (fact_input n t) in
          providerFactCovers (fact_input n t) pf providerID paid \<and> providerFactCovers (fact_input n t) pf providerID renewed \<and>
          prf_ProviderID (pf_Facts pf) = providerID \<and> prf_PackageOrSpec (pf_Facts pf) = spec \<and> prf_Zone (pf_Facts pf) = zone))"

definition serving ::
    "renewal_codec \<Rightarrow> renewal_env \<Rightarrow> renewal_operation \<Rightarrow> int \<Rightarrow> int \<Rightarrow> int \<Rightarrow> (renewal_trace \<Rightarrow> provider_fact_input \<Rightarrow> provider_fact) \<Rightarrow> bool" where
  "serving rc env n userID keyID balance facts \<longleftrightarrow>
     (\<forall>tr. \<not> re_down env tr \<and> re_save env tr = Saved \<and> re_disturb env tr = (\<lambda>t. t) \<and> re_others env tr = []) \<and>
     (\<forall>tr. sub2APIUserID (re_accounts env tr) (wr_AccountID n) = Inr userID) \<and>
     (\<forall>tr. re_facts env tr = Some (\<lambda>inputs. Inr (map (facts tr) inputs))) \<and>
     (\<forall>tr input. \<exists>r. re_preflight env tr input = Inr r \<and> monthlyPreflightConfirmed input r) \<and>
     (\<forall>tr name. re_keys env tr userID name = Inr [\<lparr>gk_ID = keyID, gk_UserID = userID, gk_Name = name, gk_Status = ''active''\<rparr>]) \<and>
     (\<forall>tr. \<exists>b. re_balance env tr userID = Inr b \<and>
        gb_USDMicros b = (if list_ex (charges (wr_ID n)) tr then balance - wr_TotalUSDMicros n else balance)) \<and>
     (\<forall>tr m. re_charge env tr m = Inr \<lparr>gc_Code = mi_Code m, gc_UserID = mi_UserID m, gc_USDMicros = mi_USDMicros m, gc_Status = ''used''\<rparr>) \<and>
     (\<forall>tr input key. \<exists>r. re_receipt env tr input key = Inr r \<and> r \<noteq> []) \<and>
     (\<forall>pf. rc_fact rc (providerFactEvidence pf) = Some pf) \<and>
     0 < userID \<and> 0 < keyID \<and> 0 < wr_TotalUSDMicros n \<and> wr_TotalUSDMicros n \<le> balance \<and> in_int64 balance"

lemma servingD:
  assumes "serving rc env n userID keyID balance facts"
  shows "\<not> re_down env tr" "re_save env tr = Saved" "re_disturb env tr = (\<lambda>t. t)" "re_others env tr = []"
    "sub2APIUserID (re_accounts env tr) (wr_AccountID n) = Inr userID"
    "re_facts env tr = Some (\<lambda>inputs. Inr (map (facts tr) inputs))"
    "re_charge env tr m = Inr \<lparr>gc_Code = mi_Code m, gc_UserID = mi_UserID m, gc_USDMicros = mi_USDMicros m, gc_Status = ''used''\<rparr>"
    "rc_fact rc (providerFactEvidence pf) = Some pf"
    "re_keys env tr userID name = Inr [\<lparr>gk_ID = keyID, gk_UserID = userID, gk_Name = name, gk_Status = ''active''\<rparr>]"
  using assms by (simp_all add: serving_def)

section \<open>The state of a run\<close>

definition same_terms :: "renewal_operation \<Rightarrow> renewal_operation \<Rightarrow> bool" where
  "same_terms n op \<longleftrightarrow>
     wr_ID op = wr_ID n \<and> wr_AccountID op = wr_AccountID n \<and> wr_WorkspaceID op = wr_WorkspaceID n \<and> wr_PackageID op = wr_PackageID n \<and>
     wr_StorageGB op = wr_StorageGB n \<and> wr_ComputeID op = wr_ComputeID n \<and> wr_StorageID op = wr_StorageID n \<and>
     wr_TotalUSDMicros op = wr_TotalUSDMicros n \<and> wr_PaidThrough op = wr_PaidThrough n \<and> wr_RenewedThrough op = wr_RenewedThrough n \<and>
     wr_RedeemCode op = wr_RedeemCode n \<and> wr_ExpiryStatus op = []"

definition resources_ok :: "renewal_operation \<Rightarrow> string \<Rightarrow> string \<Rightarrow> resource_tables \<Rightarrow> bool" where
  "resources_ok n cp sp t \<longleftrightarrow>
     (\<exists>c s. map_of (rt_computes t) (wr_ComputeID n) = Some (Some c) \<and> map_of (rt_storages t) (wr_StorageID n) = Some (Some s) \<and>
        resource_identity_ok n (Some c) (Some s) \<and> stringValue (mget (Some c) ''providerResourceId'') = cp \<and>
        stringValue (mget (Some s) ''providerResourceId'') = sp \<and> stringValue (mget (Some c) ''id'') = wr_ComputeID n \<and>
        stringValue (mget (Some s) ''id'') = wr_StorageID n)"

definition evidence_ok :: "renewal_operation \<Rightarrow> (renewal_trace \<Rightarrow> provider_fact_input \<Rightarrow> provider_fact) \<Rightarrow> renewal_operation \<Rightarrow> bool" where
  "evidence_ok n facts op \<longleftrightarrow>
     (\<exists>tr. wr_ComputeReadback op = providerFactEvidence (facts tr (fact_input n ''compute''))) \<and>
     (\<exists>tr. wr_StorageReadback op = providerFactEvidence (facts tr (fact_input n ''storage'')))"

text \<open>The operation \<open>op\<close> is stored, the workspace and its resources are as they should be, and the charge was sent or not.\<close>

definition underway :: "renewal_operation \<Rightarrow> (string \<times> goval) list \<Rightarrow> string \<Rightarrow> string \<Rightarrow> bool \<Rightarrow> renewal_world \<Rightarrow> renewal_operation \<Rightarrow> bool" where
  "underway n row cp sp paid w op \<longleftrightarrow>
     persist_current op w \<and> same_terms n op \<and> map_of (rt_workspaces (rw_tables w)) (wr_WorkspaceID n) = Some (Some row) \<and>
     resources_ok n cp sp (rw_tables w) \<and> list_ex (charges (wr_ID n)) (rw_trace w) = paid"

lemma underway_change:
  assumes "underway n row cp sp paid w op" "same_terms n op'" "wr_PersistedResult op' = wr_PersistedResult op"
  shows "underway n row cp sp paid w op'"
  using assms by (auto simp: underway_def persist_current_def same_terms_def split: option.splits)

lemma underway_terms: "underway n row cp sp paid w op \<Longrightarrow> same_terms n op"
  by (simp add: underway_def)

text \<open>An effect that changes no table and moves no money.\<close>

lemma underway_call:
  assumes "serving rc env n userID keyID balance facts" "underway n row cp sp paid w op" "\<not> charges (wr_ID n) e"
    and "write_tables e (rw_tables w) = rw_tables w" "write_operations rc e (rw_operations w) = rw_operations w"
  shows "underway n row cp sp paid (apply_renewal_effect rc env e w) op"
  using assms by (simp add: underway_def apply_renewal_effect_def servingD(3) [OF assms(1)] persist_current_def)

definition plain_effect :: "renewal_effect \<Rightarrow> bool" where
  "plain_effect e = (case e of ChargeWallet _ _ \<Rightarrow> False | SaveResource _ _ _ \<Rightarrow> False | SaveRenewal _ _ _ \<Rightarrow> False | _ \<Rightarrow> True)"

lemma go_call:
  assumes "serving rc env n userID keyID balance facts" "underway n row cp sp paid w op" "plain_effect e"
    and "\<And>w'. underway n row cp sp paid w' op \<Longrightarrow> rw_trace w' = rw_trace w @ [e] \<Longrightarrow> Q (answer (rw_trace w)) w'"
  shows "wp rc env any_world (call rc env e answer) Q w"
proof (rule wp_call)
  have "underway n row cp sp paid (apply_renewal_effect rc env e w) op"
    using assms(3) by (intro underway_call [OF assms(1,2)]) (cases e; simp add: plain_effect_def write_tables_def write_operations_def)+
  then show "Q (answer (rw_trace w)) (apply_renewal_effect rc env e w)" by (rule assms(4)) simp
qed simp

lemma go_persist_row:
  assumes S: "serving rc env n userID keyID balance facts" and u: "underway n row cp sp paid w op"
    and t: "same_terms n op'" "wr_PersistedResult op' = wr_PersistedResult op"
    and Q: "\<And>w'. underway n row cp sp paid w' (stored rc op') \<Longrightarrow> rw_trace w' = rw_trace w @ [SaveRenewal op' None Saved] \<Longrightarrow>
      map_of (rw_operations w') (wr_ID n) = Some (workspaceRenewalOperationRow rc op') \<Longrightarrow> Q (stored rc op', []) w'"
  shows "wp rc env any_world (persistWorkspaceRenewal rc env op' None) Q w"
proof -
  let ?w = "apply_renewal_effect rc env (SaveRenewal op' None Saved) w"
  have c: "persist_check op' None w = Inr None" using underway_change [OF u t] by (simp add: persist_check_def underway_def)
  have "underway n row cp sp paid ?w (stored rc op')"
    using u t
    by (simp add: underway_def apply_renewal_effect_def servingD(3) [OF S] write_tables_def write_operations_def persist_current_def stored_def
        same_terms_def update_conv')
  moreover have "map_of (rw_operations ?w) (wr_ID n) = Some (workspaceRenewalOperationRow rc op')"
    using t(1) by (simp add: apply_renewal_effect_def write_operations_def same_terms_def update_conv')
  ultimately have q: "Q (stored rc op', []) ?w" by (intro Q) simp_all
  show ?thesis
    unfolding persistWorkspaceRenewal_def PersistWorkspaceRenewal_def save_renewal_def
    by (intro wp_bind wp_ask) (simp add: servingD(2) [OF S] c wp_bind wp_emit wp_return q [unfolded stored_def])
qed

lemma go_persist:
  assumes "serving rc env n userID keyID balance facts" "underway n row cp sp paid w op" "same_terms n op'" "wr_PersistedResult op' = wr_PersistedResult op"
    and "\<And>w'. underway n row cp sp paid w' (stored rc op') \<Longrightarrow> rw_trace w' = rw_trace w @ [SaveRenewal op' None Saved] \<Longrightarrow> Q (stored rc op', []) w'"
  shows "wp rc env any_world (persistWorkspaceRenewal rc env op' None) Q w"
  by (rule go_persist_row [OF assms(1-4)]) (rule assms(5))

section \<open>Facts of the provider\<close>

definition renewable ::
    "renewal_codec \<Rightarrow> renewal_env \<Rightarrow> renewal_operation \<Rightarrow> int \<Rightarrow> int \<Rightarrow> int \<Rightarrow> (renewal_trace \<Rightarrow> provider_fact_input \<Rightarrow> provider_fact) \<Rightarrow>
     string \<Rightarrow> string \<Rightarrow> bool" where
  "renewable rc env n userID keyID balance facts cp sp \<longleftrightarrow>
     serving rc env n userID keyID balance facts \<and> covering n facts ''compute'' cp \<and> covering n facts ''storage'' sp \<and>
     wr_AccountID n \<noteq> [] \<and> wr_WorkspaceID n \<noteq> [] \<and> wr_ComputeID n \<noteq> [] \<and> wr_StorageID n \<noteq> [] \<and> wr_RedeemCode n \<noteq> [] \<and>
     wr_PaidThrough n \<noteq> [] \<and> cp \<noteq> [] \<and> sp \<noteq> []"

lemma same_input: "same_terms n op \<Longrightarrow> fact_input op t = fact_input n t"
  by (simp add: same_terms_def workspaceRenewalProviderFactInput_def)

lemma covered_key: "covering n facts t p \<Longrightarrow> providerFactResultKey (facts tr (fact_input n t)) = providerFactKey (fact_input n t)"
  by (auto simp: covering_def providerFactCovers_def Let_def split: if_splits)

lemma input_complete:
  "renewable rc env n userID keyID balance facts cp sp \<Longrightarrow> t \<in> {''compute'', ''storage''} \<Longrightarrow> complete_input (fact_input n t)"
  by (auto simp: renewable_def complete_input_def workspaceRenewalProviderFactInput_def)

lemma input_keys: "providerFactKey (fact_input n ''compute'') \<noteq> providerFactKey (fact_input n ''storage'')"
  by (simp add: providerFactKey_def workspaceRenewalProviderFactInput_def)

lemma facts_read:
  assumes R: "renewable rc env n userID keyID balance facts cp sp" and "set ts \<subseteq> {''compute'', ''storage''}" "distinct ts"
  shows "readProviderFacts (re_facts env tr) (map (fact_input n) ts) =
    Inr (rev (map (\<lambda>t. (providerFactKey (fact_input n t), facts tr (fact_input n t))) ts))"
proof -
  have S: "serving rc env n userID keyID balance facts" and c: "covering n facts ''compute'' cp" "covering n facts ''storage'' sp"
    using R by (simp_all add: renewable_def)
  have "read_batches (Some (\<lambda>inputs. Inr (map (facts tr) inputs))) (map (fact_input n) ts) [] =
    Inr (rev (map (\<lambda>i. (providerFactKey i, facts tr i)) (map (fact_input n) ts)) @ [])"
  proof (rule read_batches_answers)
    show "\<forall>i\<in>set (map (fact_input n) ts). providerFactResultKey (facts tr i) = providerFactKey i \<and> complete_input i"
      using assms(2) covered_key [OF c(1)] covered_key [OF c(2)] input_complete [OF R] by auto
    have "inj_on (\<lambda>t. providerFactKey (fact_input n t)) {''compute'', ''storage''}"
      using input_keys [of n] by (auto simp: inj_on_def)
    then show "distinct (map providerFactKey (map (fact_input n) ts))"
      using assms(3) inj_on_subset [OF _ assms(2)] by (simp add: distinct_map comp_def)
  qed simp_all
  then show ?thesis by (simp add: readProviderFacts_def servingD(6) [OF S] comp_def)
qed

lemma fact_read:
  assumes R: "renewable rc env n userID keyID balance facts cp sp" and "t \<in> {''compute'', ''storage''}"
  shows "readProviderFact (re_facts env tr) (fact_input n t) = Inr (Some (facts tr (fact_input n t)))"
  using facts_read [OF R, of "[t]" tr] assms(2) by (simp add: readProviderFact_def)

lemma go_read_fact:
  assumes R: "renewable rc env n userID keyID balance facts cp sp" and u: "underway n row cp sp paid w op" and t: "t \<in> {''compute'', ''storage''}"
    and Q: "\<And>w'. underway n row cp sp paid w' op \<Longrightarrow> Q (facts (rw_trace w) (fact_input n t), True) w'"
  shows "wp rc env any_world (read_fact rc env (fact_input op t)) Q w"
proof -
  have S: "serving rc env n userID keyID balance facts" using R by (simp add: renewable_def)
  show ?thesis
    unfolding read_fact_def same_input [OF underway_terms [OF u]]
    by (rule go_call [OF S u]) (simp_all add: plain_effect_def fact_read [OF R t] Q)
qed

section \<open>Rows of resources\<close>

lemma projected_get:
  "k \<notin> {''providerResourceId'', ''providerStatus'', ''lastProviderSyncAt'', ''lastProviderSyncError''} \<Longrightarrow>
   mget (projectProviderFact (Some kvs) pf) k = mget (Some kvs) k"
  "prf_ProviderID (pf_Facts pf) \<noteq> [] \<Longrightarrow> mget (projectProviderFact (Some kvs) pf) ''providerResourceId'' = GStr (prf_ProviderID (pf_Facts pf))"
  by (auto simp: projectProviderFact_def Let_def cloneMap_def)

lemma preserved_get: "k \<noteq> ''autoRenew'' \<Longrightarrow> mget (preserveResourceAutoRenew c (Some kvs)) k = mget (Some kvs) k"
  by (auto simp: preserveResourceAutoRenew_def cloneMap_def mget_def delete_conv' mset_key_def update_conv')

lemma projected_Some: "\<exists>kvs'. projectProviderFact (Some kvs) pf = Some kvs'"
  by (simp add: projectProviderFact_def Let_def mset_key_def)

lemma preserved_Some: "\<exists>kvs'. preserveResourceAutoRenew c (Some kvs) = Some kvs'"
  by (simp add: preserveResourceAutoRenew_def cloneMap_def mset_key_def)

text \<open>What the saved row of a resource keeps.\<close>

lemma saved_row:
  assumes "prf_ProviderID (pf_Facts pf) \<noteq> []"
  obtains kvs' where "preserveResourceAutoRenew c (projectProviderFact (Some kvs) pf) = Some kvs'"
    "\<And>k. k \<in> {''id'', ''accountId'', ''workspaceId'', ''packageId'', ''sizeGb'', ''computeAllocationId''} \<Longrightarrow> mget (Some kvs') k = mget (Some kvs) k"
    "mget (Some kvs') ''providerResourceId'' = GStr (prf_ProviderID (pf_Facts pf))"
proof -
  obtain kvs1 where 1: "projectProviderFact (Some kvs) pf = Some kvs1" using projected_Some by blast
  obtain kvs' where 2: "preserveResourceAutoRenew c (Some kvs1) = Some kvs'" using preserved_Some by blast
  have get: "mget (Some kvs') k = mget (Some kvs1) k" if "k \<noteq> ''autoRenew''" for k using preserved_get [OF that, of c kvs1] 2 by simp
  show ?thesis
  proof
    show "preserveResourceAutoRenew c (projectProviderFact (Some kvs) pf) = Some kvs'" using 1 2 by simp
    show "mget (Some kvs') k = mget (Some kvs) k" if "k \<in> {''id'', ''accountId'', ''workspaceId'', ''packageId'', ''sizeGb'', ''computeAllocationId''}" for k
      using that projected_get(1) [of k kvs pf] get [of k] 1 by auto
    show "mget (Some kvs') ''providerResourceId'' = GStr (prf_ProviderID (pf_Facts pf))"
      using projected_get(2) [OF assms, of kvs] get [of "''providerResourceId''"] 1 by simp
  qed
qed

definition resource_table :: "string \<Rightarrow> resource_tables \<Rightarrow> table" where
  "resource_table t tables = (if t = ''storage'' then rt_storages tables else rt_computes tables)"

definition resource_name :: "renewal_operation \<Rightarrow> string \<Rightarrow> string" where
  "resource_name n t = (if t = ''storage'' then wr_StorageID n else wr_ComputeID n)"

lemma resource_row:
  assumes "resources_ok n cp sp tables"
  obtains kvs where "map_of (resource_table t tables) (resource_name n t) = Some (Some kvs)"
    "stringValue (mget (Some kvs) ''providerResourceId'') = (if t = ''storage'' then sp else cp)"
    "stringValue (mget (Some kvs) ''id'') = resource_name n t"
  using assms by (cases "t = ''storage''") (auto simp: resources_ok_def resource_table_def resource_name_def)

lemma resources_updated:
  assumes "resources_ok n cp sp tables" "map_of (resource_table t tables) (resource_name n t) = Some (Some kvs)"
    and "\<And>k. k \<in> {''id'', ''accountId'', ''workspaceId'', ''packageId'', ''sizeGb'', ''computeAllocationId''} \<Longrightarrow> mget (Some kvs') k = mget (Some kvs) k"
    and "mget (Some kvs') ''providerResourceId'' = GStr (if t = ''storage'' then sp else cp)"
  shows "resources_ok n cp sp (if t = ''storage'' then tables\<lparr>rt_storages := AList.update (wr_StorageID n) (Some kvs') (rt_storages tables)\<rparr>
    else tables\<lparr>rt_computes := AList.update (wr_ComputeID n) (Some kvs') (rt_computes tables)\<rparr>)"
  using assms
  by (auto simp: resources_ok_def resource_table_def resource_name_def resource_identity_ok_def Workspace_Renewal.int_field_def numberField_def update_conv'
      split: if_splits)

lemma go_save_resource:
  assumes R: "renewable rc env n userID keyID balance facts cp sp" and u: "underway n row cp sp paid w op" and t: "t \<in> {''compute'', ''storage''}"
    and r: "map_of (resource_table t (rw_tables w)) (resource_name n t) = Some (Some kvs)" "stringValue (mget (Some kvs) ''id'') = resource_name n t"
    and pf: "prf_ProviderID (pf_Facts pf) = (if t = ''storage'' then sp else cp)"
    and Q: "\<And>w'. underway n row cp sp paid w' op \<Longrightarrow> Q [] w'"
  shows "wp rc env any_world (saveResourcePreservingAutoRenew rc env t (projectProviderFact (Some kvs) pf)) Q w"
proof -
  have S: "serving rc env n userID keyID balance facts" and ne: "prf_ProviderID (pf_Facts pf) \<noteq> []" "resource_name n t \<noteq> []"
    using R pf t by (auto simp: renewable_def resource_name_def)
  obtain kvs' where kvs': "preserveResourceAutoRenew (Some kvs) (projectProviderFact (Some kvs) pf) = Some kvs'"
    "\<And>k. k \<in> {''id'', ''accountId'', ''workspaceId'', ''packageId'', ''sizeGb'', ''computeAllocationId''} \<Longrightarrow> mget (Some kvs') k = mget (Some kvs) k"
    "mget (Some kvs') ''providerResourceId'' = GStr (prf_ProviderID (pf_Facts pf))"
    using saved_row [OF ne(1), of "Some kvs" kvs] by blast
  have get: "mget (projectProviderFact (Some kvs) pf) ''id'' = mget (Some kvs) ''id''" "mget (projectProviderFact (Some kvs) pf) ''accountId'' = mget (Some kvs) ''accountId''"
    by (simp_all add: projected_get(1))
  let ?e = "SaveResource t (Some kvs') Saved"
  have "resources_ok n cp sp (write_tables ?e (rw_tables w))"
    using resources_updated [OF _ r(1) kvs'(2), of cp sp] u kvs'(2) [of "''id''"] kvs'(3) pf r(2) t by (auto simp: underway_def write_tables_def resource_name_def)
  moreover have "map_of (rt_workspaces (write_tables ?e (rw_tables w))) i = map_of (rt_workspaces (rw_tables w)) i" for i
    by (simp add: write_tables_def)
  ultimately have "underway n row cp sp paid (apply_renewal_effect rc env ?e w) op"
    using u by (simp add: underway_def apply_renewal_effect_def servingD(3) [OF S] persist_current_def write_operations_def)
  then have q: "Q [] (apply_renewal_effect rc env ?e w)" by (rule Q)
  have m: "map_of ((if t = ''storage'' then rt_storages else rt_computes) (rw_tables w)) (resource_name n t) = Some (Some kvs)"
    using r(1) by (simp add: resource_table_def split: if_splits)
  show ?thesis
    unfolding saveResourcePreservingAutoRenew_def get r(2)
    using t ne(2) by (intro wp_if wp_bind wp_ask) (auto simp: servingD(2) [OF S] m kvs'(1) get intro!: wp_bind wp_emit wp_return q)
qed

text \<open>A read of a resource that the provider covers.\<close>

lemma go_read_back:
  assumes R: "renewable rc env n userID keyID balance facts cp sp" and u: "underway n row cp sp paid w op" and t: "t \<in> {''compute'', ''storage''}"
    and e: "evidence_ok n facts op"
    and Q: "\<And>op' pf kvs w'. underway n row cp sp paid w' op' \<Longrightarrow> evidence_ok n facts op' \<Longrightarrow> wr_Status op' = wr_Status op \<Longrightarrow> wr_Phase op' = wr_Phase op \<Longrightarrow>
      map_of (resource_table t (rw_tables w')) (resource_name n t) = Some (Some kvs) \<Longrightarrow> stringValue (mget (Some kvs) ''id'') = resource_name n t \<Longrightarrow>
      prf_ProviderID (pf_Facts pf) = (if t = ''storage'' then sp else cp) \<Longrightarrow> \<not> providerFactConfirmedAbsent (fact_input n t) pf \<Longrightarrow>
      Q (op', (pf, True), Some (projectProviderFact (Some kvs) pf)) w'"
  shows "wp rc env any_world (read_back rc env t op) Q w"
proof -
  have S: "serving rc env n userID keyID balance facts" using R by (simp add: renewable_def)
  let ?pf = "facts (rw_trace w) (fact_input n t)" and ?p = "if t = ''storage'' then sp else cp"
  have cov: "covering n facts t ?p" using R t by (auto simp: renewable_def)
  then obtain renewed spec zone where c: "rfc3339_parse (wr_RenewedThrough n) = Some renewed"
    "\<And>tr. providerFactCovers (fact_input n t) (facts tr (fact_input n t)) ?p renewed"
    "\<And>tr. prf_ProviderID (pf_Facts (facts tr (fact_input n t))) = ?p" "\<And>tr. prf_PackageOrSpec (pf_Facts (facts tr (fact_input n t))) = spec"
    "\<And>tr. prf_Zone (pf_Facts (facts tr (fact_input n t))) = zone"
    unfolding covering_def Let_def by blast
  have terms: "wr_RenewedThrough op = wr_RenewedThrough n" "resource_name op t = resource_name n t" "fact_input op t = fact_input n t"
    using underway_terms [OF u] same_input by (simp_all add: same_terms_def resource_name_def)
  obtain tr0 where prior: "(if t = ''storage'' then wr_StorageReadback op else wr_ComputeReadback op) = providerFactEvidence (facts tr0 (fact_input n t))"
    using e t by (auto simp: evidence_ok_def)
  have "mlen (providerFactEvidence pf) \<noteq> 0" for pf by (simp add: providerFactEvidence_def Let_def mlen_def)
  then have ev: "providerFactFromEvidence rc (providerFactEvidence pf) = Some pf" for pf
    by (simp add: providerFactFromEvidence_def servingD(8) [OF S])
  have row: "readback_row rc t op ?pf True (Some (Some kvs)) = Some (projectProviderFact (Some kvs) ?pf)"
    if "stringValue (mget (Some kvs) ''providerResourceId'') = ?p" for kvs
    unfolding readback_row_def option.case terms prior ev that using c by simp
  let ?op = "if t = ''storage'' then op\<lparr>wr_StorageReadback := providerFactEvidence ?pf\<rparr> else op\<lparr>wr_ComputeReadback := providerFactEvidence ?pf\<rparr>"
  have op': "evidence_ok n facts ?op" "same_terms n ?op" "wr_PersistedResult ?op = wr_PersistedResult op" "wr_Status ?op = wr_Status op" "wr_Phase ?op = wr_Phase op"
    using e underway_terms [OF u] t by (auto simp: evidence_ok_def same_terms_def)
  have absent: "\<not> providerFactConfirmedAbsent (fact_input n t) ?pf" using covers_not_absent c(2) by blast
  have get: "wp rc env any_world (workspaceRenewalProviderReadback rc env t op ?pf True) Q' w'"
    if u': "underway n row cp sp paid w' op"
      and Q': "\<And>kvs. map_of (resource_table t (rw_tables w')) (resource_name n t) = Some (Some kvs) \<Longrightarrow> stringValue (mget (Some kvs) ''id'') = resource_name n t \<Longrightarrow>
        Q' (Some (projectProviderFact (Some kvs) ?pf)) w'" for w' Q'
  proof -
    have "resources_ok n cp sp (rw_tables w')" using u' by (simp add: underway_def)
    then obtain kvs where k: "map_of (resource_table t (rw_tables w')) (resource_name n t) = Some (Some kvs)"
      "stringValue (mget (Some kvs) ''providerResourceId'') = ?p" "stringValue (mget (Some kvs) ''id'') = resource_name n t"
      by (rule resource_row)
    have q: "Q' (readback_row rc t op ?pf True (Some (Some kvs))) w'" using Q' [OF k(1,3)] row [OF k(2)] by simp
    show ?thesis
      unfolding workspaceRenewalProviderReadback_def getStorage_def getCompute_def table_row_def
      using k(1) q terms(2) by (auto intro!: wp_bind wp_ask wp_return simp: resource_table_def resource_name_def servingD(1) [OF S] cloneMap_def split: if_splits)
  qed
  show ?thesis
    unfolding read_back_def
    by (rule wp_bind, rule go_read_fact [OF R u t], rule wp_prod, clarify, rule wp_bind, rule get, assumption, rule wp_return)
      (use op' c(3) absent underway_change in \<open>auto intro!: Q\<close>)
qed


section \<open>The steps\<close>

definition on_course ::
    "renewal_operation \<Rightarrow> (renewal_trace \<Rightarrow> provider_fact_input \<Rightarrow> provider_fact) \<Rightarrow> (string \<times> goval) list \<Rightarrow> string \<Rightarrow> string \<Rightarrow> string \<Rightarrow> string \<Rightarrow>
     renewal_operation \<Rightarrow> renewal_world \<Rightarrow> bool" where
  "on_course n facts row cp sp status phase op w \<longleftrightarrow>
     (let paid = (status \<noteq> ''claimed'' \<and> status \<noteq> ''debit_pending'') in
      underway n row cp sp paid w op \<and> wr_Status op = status \<and> wr_Phase op = phase \<and>
      (phase \<noteq> ''preflight_compute'' \<longrightarrow> evidence_ok n facts op) \<and>
      (paid \<or> \<not> wr_ChargeAttempted op \<and> wr_ChargeConfirmation op = None \<and> wr_ErrorCode op = []))"

abbreviation goes_on where
  "goes_on n facts row cp sp status phase \<equiv> \<lambda>t w. \<exists>op. t = GoOn op \<and> on_course n facts row cp sp status phase op w"

lemma wp_go_on_ok:
  assumes "wp rc env J c (\<lambda>r w. snd r = [] \<and> Q (GoOn (fst r)) w) w"
  shows "wp rc env J (go_on c) Q w"
  unfolding go_on_def by (rule wp_bind, rule wp_mono [OF assms]) (auto intro: wp_return)

lemma evidence_stored [simp]: "evidence_ok n facts (stored rc op) = evidence_ok n facts op"
  by (simp add: evidence_ok_def stored_def)

lemma stored_get [simp]:
  "wr_Status (stored rc op) = wr_Status op" "wr_Phase (stored rc op) = wr_Phase op" "wr_ChargeAttempted (stored rc op) = wr_ChargeAttempted op"
  "wr_ChargeConfirmation (stored rc op) = wr_ChargeConfirmation op" "wr_ErrorCode (stored rc op) = wr_ErrorCode op"
  "wr_PreChargeBalanceUSDMicros (stored rc op) = wr_PreChargeBalanceUSDMicros op" "wr_ComputeReadback (stored rc op) = wr_ComputeReadback op"
  "wr_StorageReadback (stored rc op) = wr_StorageReadback op"
  by (simp_all add: stored_def)

lemma go_store:
  assumes S: "serving rc env n userID keyID balance facts" and u: "underway n row cp sp True w op"
    and t: "same_terms n op'" "wr_PersistedResult op' = wr_PersistedResult op" "evidence_ok n facts op'" "wr_Status op' = s" "wr_Phase op' = ph"
    and s: "s \<noteq> ''claimed''" "s \<noteq> ''debit_pending''"
  shows "wp rc env any_world (persistWorkspaceRenewal rc env op' None) (\<lambda>r w. snd r = [] \<and> on_course n facts row cp sp s ph (fst r) w) w"
  by (rule go_persist [OF S u t(1,2)]) (use t(3-) s in \<open>simp add: on_course_def\<close>)

lemma go_resources:
  assumes R: "renewable rc env n userID keyID balance facts cp sp" and u: "underway n row cp sp paid w op"
    and Q: "\<And>w'. underway n row cp sp paid w' op \<Longrightarrow>
      Q (Inr (facts (rw_trace w) (fact_input n ''compute''), facts (rw_trace w) (fact_input n ''storage''))) w'"
  shows "wp rc env any_world (workspaceRenewalResources rc env op) Q w"
proof -
  have S: "serving rc env n userID keyID balance facts" and c: "covering n facts ''compute'' cp" "covering n facts ''storage'' sp"
    using R by (simp_all add: renewable_def)
  have terms: "same_terms n op" using u by (rule underway_terms)
  then have ids: "wr_ComputeID op = wr_ComputeID n" "wr_StorageID op = wr_StorageID n" "wr_PaidThrough op = wr_PaidThrough n"
    "\<And>c s. resource_identity_ok op c s = resource_identity_ok n c s"
    by (simp_all add: same_terms_def resource_identity_ok_def)
  obtain cr sr where rows: "map_of (rt_computes (rw_tables w)) (wr_ComputeID n) = Some (Some cr)" "map_of (rt_storages (rw_tables w)) (wr_StorageID n) = Some (Some sr)"
    "resource_identity_ok n (Some cr) (Some sr)" "stringValue (mget (Some cr) ''providerResourceId'') = cp" "stringValue (mget (Some sr) ''providerResourceId'') = sp"
    using u by (auto simp: underway_def resources_ok_def)
  obtain paidAt where paidAt: "rfc3339_parse (wr_PaidThrough n) = Some paidAt"
    "\<And>tr. providerFactCovers (fact_input n ''compute'') (facts tr (fact_input n ''compute'')) cp paidAt"
    "\<And>tr. providerFactCovers (fact_input n ''storage'') (facts tr (fact_input n ''storage'')) sp paidAt"
    using c unfolding covering_def Let_def by (metis option.inject)
  have pair: "readProviderFacts (re_facts env tr) [fact_input n ''compute'', fact_input n ''storage''] =
      Inr [(providerFactKey (fact_input n ''storage''), facts tr (fact_input n ''storage'')), (providerFactKey (fact_input n ''compute''), facts tr (fact_input n ''compute''))]" for tr
    using facts_read [OF R, of "[''compute'', ''storage'']" tr] by simp
  show ?thesis
    unfolding workspaceRenewalResources_def getCompute_def getStorage_def table_row_def same_input [OF terms] Let_def ids
    by (intro wp_bind wp_ask, simp add: servingD(1) [OF S] rows cloneMap_def ids paidAt(1), intro wp_bind go_call [OF S u] wp_return)
      (simp_all add: plain_effect_def pair paidAt(2,3) input_keys Q rows)
qed

lemma go_preflight:
  assumes R: "renewable rc env n userID keyID balance facts cp sp" and u: "underway n row cp sp paid w op"
    and t: "same_terms n op'" "wr_PersistedResult op' = wr_PersistedResult op"
    and Q: "\<And>w'. underway n row cp sp paid w' (stored rc op') \<Longrightarrow> Q (GoOn (stored rc op')) w'"
  shows "wp rc env any_world (preflight_turn rc env op0 input failure op') Q w"
proof -
  have S: "serving rc env n userID keyID balance facts" using R by (simp add: renewable_def)
  obtain r where r: "re_preflight env (rw_trace w) input = Inr r" "monthlyPreflightConfirmed input r"
    using S unfolding serving_def by blast
  show ?thesis
    unfolding preflight_turn_def
    by (rule wp_bind, rule go_call [OF S u])
      (auto simp: plain_effect_def r intro!: wp_go_on_ok go_persist [OF S _ t] Q)
qed

lemma step_claimed:
  assumes R: "renewable rc env n userID keyID balance facts cp sp" and C: "on_course n facts row cp sp ''claimed'' phase op w"
    and p: "phase = ''preflight_compute'' \<and> goal = (''claimed'', ''preflight_storage'') \<or> phase = ''preflight_storage'' \<and> goal = (''debit_pending'', ''debit'')"
  shows "wp rc env any_world (renewal_step rc env op) (goes_on n facts row cp sp (fst goal) (snd goal)) w"
proof -
  have u: "underway n row cp sp False w op" and st: "wr_Status op = ''claimed''" "wr_Phase op = phase"
    and clean: "\<not> wr_ChargeAttempted op" "wr_ChargeConfirmation op = None" "wr_ErrorCode op = []"
    using C by (simp_all add: on_course_def)
  have terms: "same_terms n op" using u by (rule underway_terms)
  have flight: "wp rc env any_world (preflight_turn rc env op0 input failure op') (goes_on n facts row cp sp s ph) w'"
    if "underway n row cp sp False w' op" "evidence_ok n facts op'" "same_terms n op'" "wr_PersistedResult op' = wr_PersistedResult op"
      "\<not> wr_ChargeAttempted op'" "wr_ChargeConfirmation op' = None" "wr_ErrorCode op' = []" "wr_Status op' = s" "wr_Phase op' = ph"
      "s = ''claimed'' \<or> s = ''debit_pending''" for w' op0 input failure op' s ph
    by (rule go_preflight [OF R that(1,3,4)]) (use that(2,5-) in \<open>auto simp: on_course_def\<close>)
  from p show ?thesis
  proof
    assume "phase = ''preflight_compute'' \<and> goal = (''claimed'', ''preflight_storage'')"
    then show ?thesis
      unfolding renewal_step_def claimed_turn_def st Let_def
      by (simp, intro wp_bind go_resources [OF R u])
        (simp add: clean st, rule flight, use terms in \<open>auto simp: clean st evidence_ok_def same_terms_def\<close>)
  next
    assume "phase = ''preflight_storage'' \<and> goal = (''debit_pending'', ''debit'')"
    then show ?thesis
      unfolding renewal_step_def claimed_turn_def st Let_def
      by (simp, intro wp_bind go_resources [OF R u])
        (simp add: clean st, rule flight, use terms in \<open>auto simp: clean st evidence_ok_def same_terms_def\<close>)
  qed
qed

text \<open>The charge.\<close>

lemma go_charge:
  assumes S: "serving rc env n userID keyID balance facts" and u: "underway n row cp sp paid w op"
    and Q: "\<And>w'. underway n row cp sp True w' op \<Longrightarrow>
      Q (Inr \<lparr>gc_Code = wr_RedeemCode n, gc_UserID = userID, gc_USDMicros = wr_TotalUSDMicros n, gc_Status = ''used''\<rparr>) w'"
  shows "wp rc env any_world (ChargeSub2API rc env op userID) Q w"
proof -
  let ?e = "ChargeWallet (wr_ID op) (renewal_money op userID)"
  have t: "wr_ID op = wr_ID n" "wr_RedeemCode op = wr_RedeemCode n" "wr_TotalUSDMicros op = wr_TotalUSDMicros n"
    using underway_terms [OF u] by (simp_all add: same_terms_def)
  have "underway n row cp sp True (apply_renewal_effect rc env ?e w) op"
    using u t(1) by (simp add: underway_def apply_renewal_effect_def servingD(3) [OF S] write_tables_def write_operations_def persist_current_def)
  then have "Q (re_charge env (rw_trace w) (renewal_money op userID)) (apply_renewal_effect rc env ?e w)"
    using Q by (simp add: servingD(7) [OF S] renewal_money_def t)
  then show ?thesis unfolding ChargeSub2API_def by (intro wp_call) simp_all
qed

lemma go_balance:
  assumes S: "serving rc env n userID keyID balance facts" and u: "underway n row cp sp paid w op"
    and Q: "\<And>b w'. underway n row cp sp paid w' op \<Longrightarrow> gb_USDMicros b = (if paid then balance - wr_TotalUSDMicros n else balance) \<Longrightarrow> Q (Inr b) w'"
  shows "wp rc env any_world (read_balance rc env userID) Q w"
proof -
  obtain b where b: "re_balance env (rw_trace w) userID = Inr b"
    "gb_USDMicros b = (if list_ex (charges (wr_ID n)) (rw_trace w) then balance - wr_TotalUSDMicros n else balance)"
    using S unfolding serving_def by blast
  have "list_ex (charges (wr_ID n)) (rw_trace w) = paid" using u by (simp add: underway_def)
  then show ?thesis
    unfolding read_balance_def using b by (intro go_call [OF S u]) (simp_all add: plain_effect_def Q)
qed

lemma go_key:
  assumes S: "serving rc env n userID keyID balance facts" and u: "underway n row cp sp paid w op"
    and k: "Workspace_Renewal.int_field (Some row) ''workspaceApiKeyId'' = keyID"
    and Q: "\<And>w'. underway n row cp sp paid w' op \<Longrightarrow> Q None w'"
  shows "wp rc env any_world (key_problem rc env op userID) Q w"
proof -
  have id: "wr_WorkspaceID op = wr_WorkspaceID n" using underway_terms [OF u] by (simp add: same_terms_def)
  have row: "map_of (rt_workspaces (rw_tables w)) (wr_WorkspaceID n) = Some (Some row)" using u by (simp add: underway_def)
  have pos: "\<not> userID \<le> 0" "\<not> keyID \<le> 0" using S by (simp_all add: serving_def)
  have name: "\<not> blank (workspaceReservedKeyName rc i)" for i
    by (simp add: workspaceReservedKeyName_def not_blank_Cons space_runes_def)
  show ?thesis
    unfolding key_problem_def getWorkspace_def table_row_def id
    by (intro wp_bind wp_ask, simp add: servingD(1) [OF S] row cloneMap_def k Let_def, intro wp_bind,
        simp add: WorkspaceKeyByIDForConvergence_def pos name, intro wp_bind go_call [OF S u] wp_return)
      (simp_all add: plain_effect_def servingD(9) [OF S] Q row)
qed

lemma step_debit:
  assumes R: "renewable rc env n userID keyID balance facts cp sp" and C: "on_course n facts row cp sp ''debit_pending'' ''debit'' op w"
    and k: "Workspace_Renewal.int_field (Some row) ''workspaceApiKeyId'' = keyID"
  shows "wp rc env any_world (renewal_step rc env op) (goes_on n facts row cp sp ''debited'' ''provider_compute'') w"
proof -
  have S: "serving rc env n userID keyID balance facts" using R by (simp add: renewable_def)
  have u: "underway n row cp sp False w op" and st: "wr_Status op = ''debit_pending''"
    and clean: "\<not> wr_ChargeAttempted op" "wr_ChargeConfirmation op = None" "wr_ErrorCode op = []" and ev: "evidence_ok n facts op"
    using C by (simp_all add: on_course_def)
  have money: "0 < wr_TotalUSDMicros n" "\<not> balance < wr_TotalUSDMicros n" "wrap64 (balance - wr_TotalUSDMicros n) = balance - wr_TotalUSDMicros n" "wr_RedeemCode n \<noteq> []"
    using S R by (auto simp: serving_def renewable_def int64_defs intro!: wrap64_id)
  have user: "sub2APIUserID (re_accounts env tr) (wr_AccountID op) = Inr userID" for tr
    using underway_terms [OF u] servingD(5) [OF S] by (simp add: same_terms_def)
  let ?c = "\<lparr>gc_Code = wr_RedeemCode n, gc_UserID = userID, gc_USDMicros = wr_TotalUSDMicros n, gc_Status = ''used''\<rparr>"
  have match: "monthlyChargeConfirmationMatches (charge_confirmation ?c) (wr_RedeemCode n) userID (wr_TotalUSDMicros n)"
    using money by (simp add: monthlyChargeConfirmationMatches_def charge_confirmation_def mlen_def mget_def numberField_def float_of_int_def)
  define due where "due w op \<longleftrightarrow> underway n row cp sp True w op \<and> evidence_ok n facts op \<and> wr_PreChargeBalanceUSDMicros op = balance" for w op
  have terms: "same_terms n op" "wr_TotalUSDMicros op = wr_TotalUSDMicros n" "wr_RedeemCode op = wr_RedeemCode n" if "underway n row cp sp b w op" for b w op
    using underway_terms [OF that] by (simp_all add: same_terms_def)
  have post: "wp rc env any_world (check_post_charge rc env userID op')
      (\<lambda>r w. snd r = [] \<and> on_course n facts row cp sp ''debited'' ''provider_compute'' (fst r) w) w'" if "due w' op'" for op' w'
  proof -
    have d: "underway n row cp sp True w' op'" "evidence_ok n facts op'" "wr_PreChargeBalanceUSDMicros op' = balance" using that by (simp_all add: due_def)
    show ?thesis
      unfolding check_post_charge_def Let_def
      by (rule wp_bind, rule go_balance [OF S d(1)], simp add: d(3) terms [OF d(1)] money)
        (use money d(2) terms(1) [OF d(1)] in \<open>auto simp: evidence_ok_def same_terms_def intro!: go_store [OF S]\<close>)
  qed
  have confirm: "wp rc env any_world (confirm_charge rc env userID (op', Inr ?c)) (\<lambda>r w. \<exists>op. r = Inr op \<and> due w op) w'" if "due w' op'" for op' w'
  proof -
    have d: "underway n row cp sp True w' op'" "evidence_ok n facts op'" "wr_PreChargeBalanceUSDMicros op' = balance" using that by (simp_all add: due_def)
    show ?thesis
      unfolding confirm_charge_def using match d terms [OF d(1)]
      by (simp, intro wp_bind go_persist [OF S d(1)]) (auto simp: same_terms_def evidence_ok_def due_def intro!: wp_return)
  qed
  have first: "wp rc env any_world (charge_first rc env op userID) (\<lambda>r w. \<exists>op. r = Inr (op, Inr ?c) \<and> due w op) w'"
    if "underway n row cp sp False w' op" for w'
    unfolding charge_first_def
    by (rule wp_bind, rule go_balance [OF S that], simp add: terms [OF u] money, rule wp_bind, rule go_persist [OF S], assumption)
      (use terms(1) [OF u] ev in \<open>auto simp: same_terms_def evidence_ok_def due_def intro!: wp_bind wp_return go_charge [OF S]\<close>)
  have "wp rc env any_world (obtain_charge rc env op userID) (\<lambda>r w. \<exists>op. r = Inr op \<and> due w op) w"
    unfolding obtain_charge_def
    by (rule wp_bind, rule go_key [OF S u k], simp add: clean, rule wp_bind, rule wp_mono [OF first], assumption) (auto intro: confirm)
  then have "wp rc env any_world (proceed (obtain_charge rc env op userID) (check_post_charge rc env userID))
      (\<lambda>r w. snd r = [] \<and> on_course n facts row cp sp ''debited'' ''provider_compute'' (fst r) w) w"
    by (intro results_proceed) (auto elim!: wp_mono intro: post)
  then show ?thesis
    unfolding renewal_step_def st Let_def debitWorkspaceRenewal_def gateway_user_def
    by (simp, intro wp_go_on_ok wp_bind wp_ask) (simp add: user clean)
qed

text \<open>The provider.\<close>

lemma paid_course:
  assumes "on_course n facts row cp sp s ph op w" "s \<noteq> ''claimed''" "s \<noteq> ''debit_pending''" "ph \<noteq> ''preflight_compute''"
  shows "underway n row cp sp True w op" "same_terms n op" "wr_Status op = s" "wr_Phase op = ph" "evidence_ok n facts op"
  using assms underway_terms by (auto simp: on_course_def)

lemma step_debited:
  assumes R: "renewable rc env n userID keyID balance facts cp sp" and C: "on_course n facts row cp sp ''debited'' ''provider_compute'' op w"
  shows "wp rc env any_world (renewal_step rc env op) (goes_on n facts row cp sp ''provider_renewing'' ''provider_compute'') w"
proof -
  have S: "serving rc env n userID keyID balance facts" using R by (simp add: renewable_def)
  have c: "underway n row cp sp True w op" "same_terms n op" "wr_Status op = ''debited''" "evidence_ok n facts op"
    using paid_course [OF C] by simp_all
  show ?thesis
    unfolding renewal_step_def c(3) Let_def
    by (simp, intro wp_go_on_ok, simp, rule go_store [OF S c(1)]) (use c in \<open>auto simp: same_terms_def evidence_ok_def\<close>)
qed

lemma step_renew:
  assumes R: "renewable rc env n userID keyID balance facts cp sp" and C: "on_course n facts row cp sp ''provider_renewing'' phase op w"
    and p: "phase = ''provider_compute'' \<and> goal = ''verify_compute'' \<or> phase = ''provider_storage'' \<and> goal = ''verify_storage''"
  shows "wp rc env any_world (renewal_step rc env op) (goes_on n facts row cp sp ''provider_renewing'' goal) w"
proof -
  have S: "serving rc env n userID keyID balance facts" using R by (simp add: renewable_def)
  have c: "underway n row cp sp True w op" "same_terms n op" "wr_Status op = ''provider_renewing''" "wr_Phase op = phase" "evidence_ok n facts op"
    using paid_course [OF C] p by auto
  have "wp rc env any_world (renewWorkspaceProvider rc env op)
      (\<lambda>r w. snd r = [] \<and> on_course n facts row cp sp ''provider_renewing'' goal (fst r) w) w"
    using p
  proof
    assume "phase = ''provider_compute'' \<and> goal = ''verify_compute''"
    then show ?thesis
      unfolding renewWorkspaceProvider_def RenewMonthlyResource_def Let_def c(4)
      by (simp, intro wp_bind go_call [OF S c(1)] wp_prod)
        (auto simp: plain_effect_def intro!: go_store [OF S], use c in \<open>auto simp: same_terms_def evidence_ok_def\<close>)
  next
    assume "phase = ''provider_storage'' \<and> goal = ''verify_storage''"
    then show ?thesis
      unfolding renewWorkspaceProvider_def RenewMonthlyResource_def Let_def c(4)
      by (simp, intro wp_bind go_call [OF S c(1)] wp_prod)
        (auto simp: plain_effect_def intro!: go_store [OF S], use c in \<open>auto simp: same_terms_def evidence_ok_def\<close>)
  qed
  then show ?thesis unfolding renewal_step_def c(3) Let_def by (simp add: wp_go_on_ok)
qed

lemma step_verify:
  assumes R: "renewable rc env n userID keyID balance facts cp sp" and C: "on_course n facts row cp sp ''provider_renewing'' phase op w"
    and p: "phase = ''verify_compute'' \<and> goal = (''provider_renewing'', ''provider_storage'') \<or> phase = ''verify_storage'' \<and> goal = (''verifying'', ''entitlement'')"
  shows "wp rc env any_world (renewal_step rc env op) (goes_on n facts row cp sp (fst goal) (snd goal)) w"
proof -
  have S: "serving rc env n userID keyID balance facts" using R by (simp add: renewable_def)
  have c: "underway n row cp sp True w op" "same_terms n op" "wr_Status op = ''provider_renewing''" "wr_Phase op = phase" "evidence_ok n facts op"
    using paid_course [OF C] p by auto
  have same: "fact_input op1 t = fact_input n t" if "underway n row cp sp True w1 op1" for op1 w1 t
    using same_input [OF underway_terms [OF that]] .
  have store: "wp rc env any_world (persistWorkspaceRenewal rc env op' None) (\<lambda>r w. snd r = [] \<and> on_course n facts row cp sp s ph (fst r) w) w'"
    if "underway n row cp sp True w' op1" "evidence_ok n facts op1" "s = ''provider_renewing'' \<or> s = ''verifying''"
      "op' = op1\<lparr>wr_Phase := ph, wr_ErrorCode := []\<rparr> \<and> wr_Status op1 = s \<or> op' = op1\<lparr>wr_Status := s, wr_Phase := ph, wr_ErrorCode := []\<rparr>" for w' op1 op' s ph
    by (rule go_store [OF S that(1)]) (use that(2-) underway_terms [OF that(1)] in \<open>auto simp: same_terms_def evidence_ok_def\<close>)
  have run: "wp rc env any_world (renewWorkspaceProvider rc env op)
      (\<lambda>r w. snd r = [] \<and> on_course n facts row cp sp (fst goal) (snd goal) (fst r) w) w"
    using p
  proof
    assume "phase = ''verify_compute'' \<and> goal = (''provider_renewing'', ''provider_storage'')"
    then show ?thesis
      unfolding renewWorkspaceProvider_def verify_compute_def c(4)
      by (simp, intro wp_bind go_read_back [OF R c(1) _ c(5)])
        (simp_all add: same c, rule wp_bind, rule go_save_resource [OF R], assumption, simp_all, rule store, assumption, assumption, simp, blast)
  next
    assume "phase = ''verify_storage'' \<and> goal = (''verifying'', ''entitlement'')"
    then show ?thesis
      unfolding renewWorkspaceProvider_def verify_storage_def c(4)
      by (simp, intro wp_bind go_read_back [OF R c(1) _ c(5)])
        (simp_all add: same c, rule wp_bind, rule go_save_resource [OF R], assumption, simp_all, rule store, assumption, assumption, simp, blast)
  qed
  then show ?thesis unfolding renewal_step_def c(3) Let_def by (simp add: wp_go_on_ok)
qed


text \<open>The new period.\<close>

lemma put_fields_Some: "\<exists>kvs'. put_fields (Some kvs) fs = Some kvs'"
  by (induction fs arbitrary: kvs) (auto simp: put_fields_def mset_key_def)

definition extendable :: "renewal_operation \<Rightarrow> (string \<times> goval) list \<Rightarrow> (string \<times> goval) list \<Rightarrow> bool" where
  "extendable n row row' \<longleftrightarrow>
     stringValue (mget (Some row) ''accountId'') = wr_AccountID n \<and> stringValue (mget (Some row) ''computeAllocationId'') = wr_ComputeID n \<and>
     stringValue (mget (Some row) ''storageId'') = wr_StorageID n \<and> stringValue (mget (Some row) ''paidThrough'') = wr_PaidThrough n \<and>
     (\<exists>r. rfc3339_parse (wr_RenewedThrough n) = Some r \<and> put_fields (Some row) (entitlement_fields n r) = Some row' \<and>
        validateWorkspaceBillingState (Some row') = None)"

text \<open>The save that extends the workspace.\<close>

definition extension_saved :: "renewal_operation \<Rightarrow> renewal_world \<Rightarrow> bool" where
  "extension_saved n w \<longleftrightarrow>
     list_ex (\<lambda>e. case e of SaveRenewal op (Some (p, _)) Saved \<Rightarrow> wr_ID op = wr_ID n \<and> ''paidThrough'' \<in> fst ` set (wp_Fields p) | _ \<Rightarrow> False) (rw_trace w)"

lemma extension_savedE:
  assumes "extension_saved n w"
  obtains op p row where "SaveRenewal op (Some (p, row)) Saved \<in> set (rw_trace w)" "wr_ID op = wr_ID n" "''paidThrough'' \<in> fst ` set (wp_Fields p)"
proof -
  obtain e where e: "e \<in> set (rw_trace w)"
    "case e of SaveRenewal op (Some (p, _)) Saved \<Rightarrow> wr_ID op = wr_ID n \<and> ''paidThrough'' \<in> fst ` set (wp_Fields p) | _ \<Rightarrow> False"
    using assms by (auto simp: extension_saved_def list_ex_iff)
  show ?thesis by (rule renewal_effect.exhaust [of e]) (use e in \<open>auto split: option.splits save_outcome.splits intro: that\<close>)
qed

lemma go_commit:
  assumes R: "renewable rc env n userID keyID balance facts cp sp" and u: "underway n row cp sp True w op" and x: "extendable n row row'"
  shows "wp rc env any_world (commitWorkspaceRenewalEntitlement rc env op)
    (\<lambda>r w. snd r = [] \<and> underway n row' cp sp True w (fst r) \<and> wr_Status (fst r) = ''verifying'' \<and> wr_Phase (fst r) = ''receipt'' \<and> extension_saved n w) w"
proof -
  have S: "serving rc env n userID keyID balance facts" and ne: "wr_WorkspaceID n \<noteq> []" "wr_PaidThrough n \<noteq> []" using R by (simp_all add: renewable_def)
  have t: "same_terms n op" using u by (rule underway_terms)
  then have ids: "wr_WorkspaceID op = wr_WorkspaceID n" "wr_AccountID op = wr_AccountID n" "wr_ComputeID op = wr_ComputeID n" "wr_StorageID op = wr_StorageID n"
    "wr_PaidThrough op = wr_PaidThrough n" "wr_RenewedThrough op = wr_RenewedThrough n" "\<not> revives op" "wr_ID op = wr_ID n"
    by (simp_all add: same_terms_def revives_def)
  obtain r where r: "rfc3339_parse (wr_RenewedThrough n) = Some r" "put_fields (Some row) (entitlement_fields n r) = Some row'"
    "validateWorkspaceBillingState (Some row') = None"
    using x by (auto simp: extendable_def)
  have same: "entitlement_fields op r = entitlement_fields n r" by (simp add: entitlement_fields_def ids)
  let ?op = "op\<lparr>wr_Status := ''verifying'', wr_Phase := ''receipt'', wr_EntitlementCommitted := True\<rparr>"
  let ?p = "\<lparr>wp_ExpectedPaidThrough = wr_PaidThrough n, wp_ExpectedFields = [], wp_Fields = entitlement_fields n r\<rparr>"
  let ?w = "apply_renewal_effect rc env (SaveRenewal ?op (Some (?p, Some row')) Saved) w"
  have row: "map_of (rt_workspaces (rw_tables w)) (wr_WorkspaceID n) = Some (Some row)" "persist_current ?op w"
    using underway_change [OF u, of ?op] u t by (simp_all add: underway_def same_terms_def)
  have merge: "mergeWorkspaceRenewalPatch (Some row) (entitlement_fields n r) = Inr (Some row')"
    using r(2,3) by (simp add: mergeWorkspaceRenewalPatch_def entitlement_fields_def workspaceRenewalPatchFields_def cloneMap_def)
  have check: "persist_check ?op (Some ?p) w = Inr (Some (?p, Some row'))"
    using x ne row by (simp add: persist_check_def ids merge workspaceRenewalExpectedFieldsMatch_def extendable_def)
  have "underway n row' cp sp True ?w (stored rc ?op)"
    using u t ids(1,8)
    by (simp add: underway_def apply_renewal_effect_def servingD(3) [OF S] write_tables_def write_operations_def persist_current_def stored_def
        same_terms_def update_conv' resources_ok_def)
  moreover have "extension_saved n ?w" by (simp add: extension_saved_def ids entitlement_fields_def)
  ultimately have store: "wp rc env any_world (persistWorkspaceRenewal rc env ?op (Some ?p))
    (\<lambda>r w. snd r = [] \<and> underway n row' cp sp True w (fst r) \<and> wr_Status (fst r) = ''verifying'' \<and> wr_Phase (fst r) = ''receipt'' \<and> extension_saved n w) w"
    unfolding persistWorkspaceRenewal_def PersistWorkspaceRenewal_def save_renewal_def
    by (intro wp_bind wp_ask) (simp add: servingD(2) [OF S] check wp_bind wp_emit wp_return stored_def)
  show ?thesis
    unfolding commitWorkspaceRenewalEntitlement_def getWorkspace_def table_row_def Let_def
    using x by (intro wp_bind wp_ask) (simp add: servingD(1) [OF S] row ids cloneMap_def extendable_def r(1) same store)
qed

lemma go_verify:
  assumes R: "renewable rc env n userID keyID balance facts cp sp" and u: "underway n row cp sp True w op" and ev: "evidence_ok n facts op"
    and t: "t \<in> {''compute'', ''storage''}"
    and Q: "\<And>op' w'. underway n row cp sp True w' op' \<Longrightarrow> evidence_ok n facts op' \<Longrightarrow> Q (op', True) w'"
  shows "wp rc env any_world (verify_resource rc env t op) Q w"
  unfolding verify_resource_def
  by (rule wp_bind, rule go_read_back [OF R u t ev], simp, rule wp_bind, rule go_save_resource [OF R _ t], assumption+, simp, rule wp_return)
    (simp add: Q)

lemma step_commit:
  assumes R: "renewable rc env n userID keyID balance facts cp sp" and C: "on_course n facts row cp sp ''verifying'' ''entitlement'' op w"
    and x: "extendable n row row'"
  shows "wp rc env any_world (renewal_step rc env op)
    (\<lambda>t w. \<exists>op. t = GoOn op \<and> underway n row' cp sp True w op \<and> wr_Status op = ''verifying'' \<and> wr_Phase op = ''receipt'' \<and> extension_saved n w) w"
proof -
  have c: "underway n row cp sp True w op" "wr_Status op = ''verifying''" "wr_Phase op = ''entitlement''" "evidence_ok n facts op"
    using paid_course [OF C] by simp_all
  show ?thesis
    unfolding renewal_step_def c(2) Let_def verifying_turn_def verifyWorkspaceRenewalProviderReadback_def
    by (simp add: c(3), intro wp_bind go_verify [OF R c(1,4)]) (auto intro!: wp_bind go_verify [OF R] wp_go_on_ok go_commit [OF R _ x])
qed

text \<open>The receipt.\<close>

definition renewed :: "renewal_codec \<Rightarrow> renewal_operation \<Rightarrow> (string \<times> goval) list \<Rightarrow> renewal_world \<Rightarrow> bool" where
  "renewed rc n row w \<longleftrightarrow>
     map_of (rt_workspaces (rw_tables w)) (wr_WorkspaceID n) = Some (Some row) \<and> list_ex (charges (wr_ID n)) (rw_trace w) \<and> extension_saved n w \<and>
     (\<exists>op. map_of (rw_operations w) (wr_ID n) = Some (workspaceRenewalOperationRow rc op) \<and> wr_Status op = ''active'' \<and> wr_ReceiptID op \<noteq> [])"

lemma step_receipt:
  assumes R: "renewable rc env n userID keyID balance facts cp sp"
    and u: "underway n row cp sp True w op" "wr_Status op = ''verifying''" "wr_Phase op = ''receipt''" "extension_saved n w"
  shows "wp rc env any_world (renewal_step rc env op) (\<lambda>t w. \<exists>op. t = Stop (op, []) \<and> renewed rc n row w) w"
proof -
  have S: "serving rc env n userID keyID balance facts" using R by (simp add: renewable_def)
  have user: "sub2APIUserID (re_accounts env tr) (wr_AccountID op) = Inr userID" for tr
    using underway_terms [OF u(1)] servingD(5) [OF S] by (simp add: same_terms_def)
  obtain r where r: "re_receipt env (rw_trace w) (renewed_receipt op userID) (wr_ID op @ '':receipt'') = Inr r" "r \<noteq> []"
    using S unfolding serving_def by blast
  let ?op = "releaseWorkspaceRenewalLease (op\<lparr>wr_ReceiptID := r, wr_Status := ''active'', wr_Phase := ''complete'', wr_ErrorCode := []\<rparr>)"
  have store: "wp rc env any_world (persistWorkspaceRenewal rc env ?op None) (\<lambda>r w. \<exists>op. r = (op, []) \<and> renewed rc n row w) w'"
    if "underway n row cp sp True w' op" "extension_saved n w'" for w'
    by (rule go_persist_row [OF S that(1)])
      (use that(2) underway_terms [OF u(1)] r(2) in \<open>auto simp: same_terms_def releaseWorkspaceRenewalLease_def renewed_def underway_def extension_saved_def\<close>)
  have "wp rc env any_world (recordWorkspaceRenewalReceipt rc env op) (\<lambda>r w. \<exists>op. r = (op, []) \<and> renewed rc n row w) w"
    unfolding recordWorkspaceRenewalReceipt_def gateway_user_def RecordMonthlyReceipt_def
    by (intro wp_bind wp_ask, simp add: user, intro wp_bind go_call [OF S u(1)])
      (use r u(4) store in \<open>auto simp: plain_effect_def extension_saved_def\<close>)
  then show ?thesis
    unfolding renewal_step_def u(2,3) Let_def verifying_turn_def stop_def by (simp, intro wp_bind) (auto elim!: wp_mono intro: wp_return)
qed


section \<open>The loop\<close>

lemma turns_go:
  assumes "wp rc env J (renewal_step rc env op) (\<lambda>t w. \<exists>op. t = GoOn op \<and> P op w) w" and "\<And>op w. P op w \<Longrightarrow> wp rc env J (renewal_turns k rc env op) Q w"
  shows "wp rc env J (renewal_turns (Suc k) rc env op) Q w"
  by (simp, rule wp_bind, rule wp_mono [OF assms(1)]) (auto intro: assms(2))

lemma turns_stop:
  assumes "wp rc env J (renewal_step rc env op) (\<lambda>t w. \<exists>op. t = Stop (op, []) \<and> P w) w"
  shows "wp rc env J (renewal_turns (Suc k) rc env op) (\<lambda>r w. snd r = [] \<and> P w) w"
  by (simp, rule wp_bind, rule wp_mono [OF assms]) (auto intro!: wp_return)

lemma run_renews:
  assumes R: "renewable rc env n userID keyID balance facts cp sp" and C: "on_course n facts row cp sp ''claimed'' ''preflight_compute'' op w"
    and k: "Workspace_Renewal.int_field (Some row) ''workspaceApiKeyId'' = keyID" and x: "extendable n row row'"
  shows "wp rc env any_world (runWorkspaceRenewal rc env op) (\<lambda>err w. err = [] \<and> renewed rc n row' w) w"
proof -
  define ends where "ends k s ph \<longleftrightarrow> (\<forall>op w. on_course n facts row cp sp s ph op w \<longrightarrow>
    wp rc env any_world (renewal_turns k rc env op) (\<lambda>r w. snd r = [] \<and> renewed rc n row' w) w)" for k s ph
  have earlier: "ends (Suc k) s ph"
    if "ends k s' ph'" "\<And>op w. on_course n facts row cp sp s ph op w \<Longrightarrow> wp rc env any_world (renewal_step rc env op) (goes_on n facts row cp sp s' ph') w"
    for k s ph s' ph'
    using that unfolding ends_def by (blast intro: turns_go)
  have "wp rc env any_world (renewal_turns (Suc k) rc env op) (\<lambda>r w. snd r = [] \<and> renewed rc n row' w) w"
    if "underway n row' cp sp True w op \<and> wr_Status op = ''verifying'' \<and> wr_Phase op = ''receipt'' \<and> extension_saved n w" for op w k
    using that by (intro turns_stop step_receipt [OF R]) auto
  then have "ends (Suc (Suc 6)) ''verifying'' ''entitlement''"
    unfolding ends_def using turns_go [OF step_commit [OF R _ x]] by blast
  note earlier [OF this step_verify [OF R, where phase = "''verify_storage''" and goal = "(''verifying'', ''entitlement'')", simplified]]
  note earlier [OF this step_renew [OF R, where phase = "''provider_storage''" and goal = "''verify_storage''", simplified]]
  note earlier [OF this step_verify [OF R, where phase = "''verify_compute''" and goal = "(''provider_renewing'', ''provider_storage'')", simplified]]
  note earlier [OF this step_renew [OF R, where phase = "''provider_compute''" and goal = "''verify_compute''", simplified]]
  note earlier [OF this step_debited [OF R]]
  note earlier [OF this step_debit [OF R _ k]]
  note earlier [OF this step_claimed [OF R, where phase = "''preflight_storage''" and goal = "(''debit_pending'', ''debit'')", simplified]]
  note earlier [OF this step_claimed [OF R, where phase = "''preflight_compute''" and goal = "(''claimed'', ''preflight_storage'')", simplified]]
  then have "ends 16 ''claimed'' ''preflight_compute''" by (simp add: numeral_eq_Suc)
  then have "wp rc env any_world (renewal_turns 16 rc env op) (\<lambda>r w. snd r = [] \<and> renewed rc n row' w) w" using C by (simp add: ends_def)
  then show ?thesis
    unfolding runWorkspaceRenewal_def by (rule wp_bind [OF wp_mono]) (auto intro!: wp_return)
qed

end
