(* ===== verification/Renewal_Completion.thy ===== *)
theory Renewal_Completion
  imports Renewal_Progress
begin

text \<open>
  A workspace that is due is renewed by one run of \<^verbatim>\<open>processWorkspaceRenewal\<close>: the operation it plans, the claim, and
  the turns of the loop.
\<close>

section \<open>A workspace that is due\<close>

definition renewal_due :: "renewal_codec \<Rightarrow> gotime \<Rightarrow> (string \<times> goval) list \<Rightarrow> renewal_operation \<Rightarrow> bool" where
  "renewal_due rc now row n \<longleftrightarrow>
     newWorkspaceRenewalOperation rc (Some row) now = Inr n \<and> mget (Some row) ''autoRenew'' = GBool True \<and>
     stringValue (mget (Some row) ''paidThrough'') = wr_PaidThrough n \<and>
     (\<exists>paidThrough. rfc3339_parse (wr_PaidThrough n) = Some paidThrough \<and> t_before (t_utc now) (t_utc paidThrough) \<and>
        \<not> t_before (t_utc now) (t_add (t_utc paidThrough) (- monthlyRenewalLead)))"

definition fresh_operation :: "(string \<times> goval) list \<Rightarrow> renewal_operation \<Rightarrow> bool" where
  "fresh_operation row n \<longleftrightarrow>
     (wr_Status n = ''claimed'' \<and> wr_Phase n = ''preflight_compute'' \<and> \<not> wr_ChargeAttempted n \<and> wr_ChargeConfirmation n = None \<and> wr_ErrorCode n = [] \<and>
      wr_ExpiryStatus n = [] \<and> wr_LeaseExpiresAt n = [] \<and> wr_PersistedResult n = [] \<and> wr_RedeemCode n \<noteq> [] \<and> \<not> wr_EntitlementCommitted n) \<and>
     (wr_AccountID n \<noteq> [] \<and> wr_WorkspaceID n \<noteq> [] \<and> wr_ComputeID n \<noteq> [] \<and> wr_StorageID n \<noteq> []) \<and>
     (stringValue (mget (Some row) ''accountId'') = wr_AccountID n \<and> stringValue (mget (Some row) ''computeAllocationId'') = wr_ComputeID n \<and>
      stringValue (mget (Some row) ''storageId'') = wr_StorageID n \<and> stringValue (mget (Some row) ''id'') = wr_WorkspaceID n)"

lemma new_operation:
  assumes "newWorkspaceRenewalOperation rc (Some row) now = Inr n"
  shows "fresh_operation row n"
proof -
  have code: "monthlyRedeemCode f e i \<noteq> []" for f e i by (simp add: monthlyRedeemCode_def monthly_code_def Let_def)
  show ?thesis
    using assms unfolding newWorkspaceRenewalOperation_def Let_def
    by (simp split: option.splits if_splits) (clarsimp simp: fresh_operation_def zero_operation_def code)
qed

text \<open>No operation of the workspace is stored yet.\<close>

definition no_operation :: "renewal_operation \<Rightarrow> renewal_world \<Rightarrow> bool" where
  "no_operation n w \<longleftrightarrow>
     list_all (\<lambda>(_, r). stringValue (mget r ''workspaceId'') \<noteq> wr_WorkspaceID n \<and> stringValue (mget r ''id'') \<noteq> wr_ID n) (rw_operations w)"

lemma plan_new:
  assumes d: "renewal_due rc now row n" and p: "rfc3339_parse (wr_PaidThrough n) = Some paidThrough"
  shows "plan_operation rc (Some row) i paidThrough now [] = PlanRun n"
  using d p new_operation [of rc row now n] by (auto simp: plan_operation_def renewal_due_def fresh_operation_def Let_def)


lemma query_none:
  assumes "no_operation n w" "re_others env (rw_trace w) = []" "wr_WorkspaceID n \<noteq> []"
  shows "queryRuntimeOperations (all_operations env w) (any_operation\<lparr>oq_WorkspaceID := wr_WorkspaceID n\<rparr>) = []"
    and "filter (\<lambda>row. stringValue (mget row ''workspaceId'') = wr_WorkspaceID n) (all_operations env w) = []"
    and "\<not> list_ex (\<lambda>row. stringValue (mget row ''id'') = wr_ID n) (all_operations env w)"
proof -
  have all: "\<forall>row \<in> set (all_operations env w). stringValue (mget row ''workspaceId'') \<noteq> wr_WorkspaceID n \<and> stringValue (mget row ''id'') \<noteq> wr_ID n"
    using assms(1,2) by (auto simp: all_operations_def other_operations_def no_operation_def list_all_iff)
  have "filter (operation_matches (any_operation\<lparr>oq_WorkspaceID := wr_WorkspaceID n\<rparr>)) (all_operations env w) = []"
    using all assms(3) by (auto simp: filter_empty_conv operation_matches_def any_operation_def)
  then show "queryRuntimeOperations (all_operations env w) (any_operation\<lparr>oq_WorkspaceID := wr_WorkspaceID n\<rparr>) = []"
    by (simp add: query_operations_all)
  show "filter (\<lambda>row. stringValue (mget row ''workspaceId'') = wr_WorkspaceID n) (all_operations env w) = []" using all by (simp add: filter_empty_conv)
  show "\<not> list_ex (\<lambda>row. stringValue (mget row ''id'') = wr_ID n) (all_operations env w)" using all by (simp add: list_ex_iff)
qed

lemma go_claim:
  assumes S: "serving rc env n userID keyID balance facts" and o: "no_operation n w" "\<not> list_ex (charges (wr_ID n)) (rw_trace w)"
    and row: "map_of (rt_workspaces (rw_tables w)) (wr_WorkspaceID n) = Some (Some row)" "resources_ok n cp sp (rw_tables w)"
    and d: "renewal_due rc now row n"
    and Q: "\<And>w'. underway n row cp sp False w' (stored rc (lease_operation rc now instant n)) \<Longrightarrow> Q [] w'"
  shows "wp rc env any_world (ClaimWorkspaceRenewal rc env (claim_of rc (Some row) (wr_WorkspaceID n) [] (lease_operation rc now instant n))) Q w"
proof -
  let ?op = "lease_operation rc now instant n"
  have f: "fresh_operation row n" "mget (Some row) ''autoRenew'' = GBool True" "stringValue (mget (Some row) ''paidThrough'') = wr_PaidThrough n"
    using d new_operation by (auto simp: renewal_due_def)
  then have ids: "wr_ID ?op = wr_ID n" "wr_PersistedResult ?op = []" "wr_WorkspaceID n \<noteq> []"
    by (simp_all add: lease_operation_def fresh_operation_def)
  note none = query_none [OF o(1) servingD(4) [OF S] ids(3)]
  have check: "claim_check rc env (claim_of rc (Some row) (wr_WorkspaceID n) [] ?op) w = Inr None"
    unfolding claim_check_def Let_def
    using row(1) f none(2,3) by (simp add: claim_of_def claim_workspace_matches_def ids none)
  have "underway n row cp sp False (apply_renewal_effect rc env (SaveRenewal ?op None Saved) w) (stored rc ?op)"
    using row o(2) f(1)
    by (simp add: underway_def apply_renewal_effect_def servingD(3) [OF S] write_tables_def write_operations_def persist_current_def stored_def
        same_terms_def update_conv' lease_operation_def fresh_operation_def)
  then have "Q [] (apply_renewal_effect rc env (SaveRenewal ?op None Saved) w)" by (rule Q)
  moreover have "cl_DesiredOperation (claim_of rc (Some row) (wr_WorkspaceID n) [] ?op) = ?op" by (simp add: claim_of_def)
  ultimately show ?thesis
    unfolding ClaimWorkspaceRenewal_def save_renewal_def
    by (intro wp_bind wp_ask) (simp add: servingD(2) [OF S] check wp_bind wp_emit wp_return)
qed

text \<open>Everything a renewal needs: the workspace is due, its resources are covered, the services answer and the wallet has the price.\<close>

definition renewal_ready ::
    "renewal_codec \<Rightarrow> renewal_env \<Rightarrow> gotime \<Rightarrow> renewal_world \<Rightarrow> (string \<times> goval) list \<Rightarrow> renewal_operation \<Rightarrow> bool" where
  "renewal_ready rc env now w row n \<longleftrightarrow>
     renewal_due rc now row n \<and> no_operation n w \<and> \<not> list_ex (charges (wr_ID n)) (rw_trace w) \<and>
     map_of (rt_workspaces (rw_tables w)) (wr_WorkspaceID n) = Some (Some row) \<and>
     (\<exists>userID balance facts cp sp.
        serving rc env n userID (Workspace_Renewal.int_field (Some row) ''workspaceApiKeyId'') balance facts \<and>
        covering n facts ''compute'' cp \<and> covering n facts ''storage'' sp \<and> resources_ok n cp sp (rw_tables w)) \<and>
     (\<exists>renewedThrough. rfc3339_parse (wr_RenewedThrough n) = Some renewedThrough \<and>
        validateWorkspaceBillingState (put_fields (Some row) (entitlement_fields n renewedThrough)) = None)"

lemma process_renews:
  assumes ready: "renewal_ready rc env now w row n"
  obtains row' r where "put_fields (Some row) (entitlement_fields n r) = Some row'"
    and "wp rc env any_world (processWorkspaceRenewal rc env (wr_WorkspaceID n) now) (\<lambda>err w. err = [] \<and> renewed rc n row' w) w"
proof -
  obtain userID keyID balance facts cp sp where S: "serving rc env n userID keyID balance facts"
    and c: "covering n facts ''compute'' cp" "covering n facts ''storage'' sp" and res: "resources_ok n cp sp (rw_tables w)"
    and k: "Workspace_Renewal.int_field (Some row) ''workspaceApiKeyId'' = keyID"
    using ready by (auto simp: renewal_ready_def)
  have d: "renewal_due rc now row n" and o: "no_operation n w" "\<not> list_ex (charges (wr_ID n)) (rw_trace w)"
    and row: "map_of (rt_workspaces (rw_tables w)) (wr_WorkspaceID n) = Some (Some row)"
    using ready by (auto simp: renewal_ready_def)
  have f: "fresh_operation row n" and through: "stringValue (mget (Some row) ''paidThrough'') = wr_PaidThrough n"
    using d new_operation by (auto simp: renewal_due_def)
  obtain paidThrough where p: "rfc3339_parse (wr_PaidThrough n) = Some paidThrough" "t_before (t_utc now) (t_utc paidThrough)"
    using d by (auto simp: renewal_due_def)
  have ne: "wr_PaidThrough n \<noteq> []" using p(1) by (auto simp: rfc3339_parse_def take_digits_def)
  have R: "renewable rc env n userID keyID balance facts cp sp"
    using S c f ne res by (auto simp: renewable_def fresh_operation_def resources_ok_def resource_identity_ok_def)
  obtain r row' where r: "rfc3339_parse (wr_RenewedThrough n) = Some r" "put_fields (Some row) (entitlement_fields n r) = Some row'"
    "validateWorkspaceBillingState (Some row') = None"
    using ready put_fields_Some by (metis renewal_ready_def)
  have x: "extendable n row row'" using f through r by (auto simp: extendable_def fresh_operation_def)
  have work: "wp rc env any_world (work_operation rc env False (stored rc (lease_operation rc now instant n))) (\<lambda>err w. err = [] \<and> renewed rc n row' w) w'"
    if "underway n row cp sp False w' (stored rc (lease_operation rc now instant n))" for w' instant
  proof -
    have "on_course n facts row cp sp ''claimed'' ''preflight_compute'' (stored rc (lease_operation rc now instant n)) w'"
      using that f by (simp add: on_course_def lease_operation_def fresh_operation_def)
    note run = run_renews [OF R this k x]
    moreover have "wr_Status (stored rc (lease_operation rc now instant n)) \<noteq> ''expired_unpaid''"
      using f by (simp add: lease_operation_def fresh_operation_def)
    ultimately show ?thesis
      unfolding work_operation_def reload_def loadWorkspaceRenewalOperation_def Let_def
      by (simp, intro wp_bind wp_mono [OF run]) (auto intro!: wp_bind wp_ask wp_return)
  qed
  have claim: "wp rc env any_world (ClaimWorkspaceRenewal rc env (claim_of rc (Some row) (wr_WorkspaceID n) [] (lease_operation rc now instant n)))
      (\<lambda>err w. wp rc env any_world
        (if cas_conflict \<in> set err then process_turns 2 rc env (wr_WorkspaceID n) now
         else if err \<noteq> [] then State_Monad.return err
         else work_operation rc env (\<not> t_before (t_utc now) (t_utc paidThrough)) (stored rc (lease_operation rc now instant n)))
        (\<lambda>err w. err = [] \<and> renewed rc n row' w) w) w'"
    if "no_operation n w'" "\<not> list_ex (charges (wr_ID n)) (rw_trace w')" "map_of (rt_workspaces (rw_tables w')) (wr_WorkspaceID n) = Some (Some row)"
      "resources_ok n cp sp (rw_tables w')" for w' instant
    by (rule go_claim [OF S that d]) (simp add: work p(2))
  note none = query_none [OF o(1) servingD(4) [OF S]]
  have "wp rc env any_world (process_turns (Suc 2) rc env (wr_WorkspaceID n) now) (\<lambda>err w. err = [] \<and> renewed rc n row' w) w"
    unfolding process_turns.simps getWorkspace_def table_row_def query_operations_def Let_def
    using R o row res
    by (intro wp_bind wp_ask, simp add: servingD(1) [OF S] row cloneMap_def through p none renewable_def, intro wp_bind wp_ask,
        simp add: servingD(1) [OF S] none plan_new [OF d p(1)], intro wp_bind wp_call, simp, intro claim [unfolded stored_def])
      (simp_all add: apply_renewal_effect_def servingD(3) [OF S] write_tables_def write_operations_def no_operation_def)
  with r(2) that show thesis by (simp add: processWorkspaceRenewal_def numeral_3_eq_3)
qed


lemma renewed_period: "put_fields (Some row) (entitlement_fields n r) = Some row' \<Longrightarrow>
    mget (Some row') ''paidThrough'' = GStr (wr_RenewedThrough n) \<and> mget (Some row') ''renewalStatus'' = GStr ''active''"
  using put_fields_get [of "Some row" "entitlement_fields n r"] by (simp add: entitlement_fields_def)


end
