(* ===== verification/Renewal_Examples.thy ===== *)
theory Renewal_Examples
  imports Renewal_Completion Workspace_Billing_Examples
begin

text \<open>
  Renewals at a concrete workspace: a codec that satisfies the law of the stored operations, services that answer,
  and the run and the history of a renewal that succeeds.
\<close>

section \<open>A codec for operations\<close>

text \<open>Texts one after the other: a bar before every byte, a period after every text.\<close>

fun bar_text :: "string \<Rightarrow> string" where
  "bar_text [] = ''.''"
| "bar_text (c # s) = CHR ''|'' # c # bar_text s"

fun bar_texts :: "string list \<Rightarrow> string" where
  "bar_texts [] = []"
| "bar_texts (s # ss) = bar_text s @ bar_texts ss"

fun unbar :: "string \<Rightarrow> string \<Rightarrow> string list" where
  "unbar acc (a # c # s) = (if a = CHR ''|'' then unbar (acc @ [c]) s else acc # unbar [] (c # s))"
| "unbar acc [a] = [acc]"
| "unbar acc [] = []"

lemma unbar_bar: "unbar acc (bar_text s @ bar_texts ss) = (acc @ s) # unbar [] (bar_texts ss)"
proof (induction s arbitrary: acc)
  case Nil
  have "bar_texts ss = [] \<or> (\<exists>c u. bar_texts ss = c # u)" by (cases "bar_texts ss") auto
  then show ?case by auto
qed simp

lemma unbar_texts: "unbar [] (bar_texts ss) = ss"
  by (induction ss) (simp_all add: unbar_bar)

definition flag_text :: "bool \<Rightarrow> string" where
  "flag_text b = (if b then ''1'' else [])"

text \<open>Maps of texts and numbers: four texts per field; other maps are not kept.\<close>

fun scalar_texts :: "(string \<times> goval) list \<Rightarrow> string list" where
  "scalar_texts [] = []"
| "scalar_texts ((k, v) # kvs) =
     (case v of
        GStr s \<Rightarrow> [k, ''s'', s, []]
      | GInt _ i \<Rightarrow> [k, ''i'', int_text i, []]
      | GFloat _ (Fin q) \<Rightarrow> (case quotient_of q of (a, b) \<Rightarrow> [k, ''f'', int_text a, int_text b])
      | _ \<Rightarrow> [k, [], [], []]) @ scalar_texts kvs"

fun scalars_of_texts :: "string list \<Rightarrow> (string \<times> goval) list" where
  "scalars_of_texts (k # t # a # b # fs) =
     (k, if t = ''s'' then GStr a
         else if t = ''i'' then GFloat KFloat64 (float_of_int (int_of_text a))
         else GFloat KFloat64 (Fin (of_int (int_of_text a) / of_int (int_of_text b)))) # scalars_of_texts fs"
| "scalars_of_texts _ = []"

definition map_text :: "gomap \<Rightarrow> string" where
  "map_text m = (case m of None \<Rightarrow> [] | Some kvs \<Rightarrow> if scalar_map kvs then bar_texts (scalar_texts kvs) else [])"

definition map_of_text :: "string \<Rightarrow> gomap" where
  "map_of_text s = (if s = [] then None else Some (scalars_of_texts (unbar [] s)))"

definition reread_map :: "gomap \<Rightarrow> gomap" where
  "reread_map m = (case m of None \<Rightarrow> None | Some kvs \<Rightarrow> if scalar_map kvs then floated_map m else None)"

lemma scalars_round_trip:
  assumes "list_all (\<lambda>(k, v). scalar v) kvs"
  shows "scalars_of_texts (scalar_texts kvs) = map (\<lambda>(k, v). (k, floated v)) kvs"
  using assms
proof (induction kvs rule: scalar_texts.induct)
  case (2 k v kvs)
  then have ih: "scalars_of_texts (scalar_texts kvs) = map (\<lambda>(k, v). (k, floated v)) kvs" by simp
  consider s where "v = GStr s" | i where "v = GInt KInt64 i" | q where "v = GFloat KFloat64 (Fin q)"
    using 2 by (auto simp: scalar_def split: goval.splits int_kind.splits float_kind.splits gofloat.splits)
  then show ?case
  proof cases
    case 3
    have "of_int a / of_int b = q" if "quotient_of q = (a, b)" for a b using quotient_of_div [OF that] by simp
    with 3 ih show ?thesis by (auto simp: floated_def int_of_int_text split: prod.splits)
  qed (use ih in \<open>simp_all add: floated_def int_of_int_text\<close>)
qed simp

lemma map_text_empty: "scalar_map kvs \<Longrightarrow> bar_texts (scalar_texts kvs) \<noteq> []"
  by (cases kvs rule: scalar_texts.cases) (auto simp: scalar_map_def split: goval.splits gofloat.splits prod.splits)

lemma map_round_trip: "map_of_text (map_text m) = reread_map m"
  using map_text_empty
  by (auto simp: map_of_text_def map_text_def reread_map_def floated_map_def unbar_texts scalars_round_trip scalar_map_def split: option.splits)

definition renewal_texts :: "renewal_operation \<Rightarrow> string list" where
  "renewal_texts op =
     [wr_RequestHash op, wr_Phase op, wr_AccountID op, wr_OwnerUserID op, wr_WorkspaceID op, wr_PackageID op, int_text (wr_StorageGB
      op), wr_ComputeID op, wr_StorageID op, wr_PriceVersion op, int_text (wr_ComputeUSDMicros op), int_text (wr_StorageUSDMicros op),
      int_text (wr_TotalUSDMicros op), wr_PeriodStart op, wr_PaidThrough op, wr_RenewedThrough op, wr_RedeemCode op, wr_RefundCode op,
      flag_text (wr_ComputePreflightConfirmed op), flag_text (wr_StoragePreflightConfirmed op), flag_text (wr_ChargeAttempted op),
      map_text (wr_ChargeConfirmation op), int_text (wr_PreChargeBalanceUSDMicros op), int_text (wr_PostChargeBalanceUSDMicros op),
      flag_text (wr_PostChargeBalanceKnown op), flag_text (wr_RefundAttempted op), map_text (wr_RefundConfirmation op), wr_RefundReason
      op, wr_RefundReceiptID op, map_text (wr_ComputeRenewal op), map_text (wr_StorageRenewal op), map_text (wr_ComputeReadback op),
      map_text (wr_StorageReadback op), flag_text (wr_EntitlementCommitted op), wr_ReceiptID op, wr_ErrorCode op, wr_PriorStatus op,
      wr_PriorErrorCode op, wr_ExpiryStatus op, wr_ExpiryPhase op, wr_ExpiryErrorCode op, wr_ExpiryReceiptID op, wr_ExpiryPeriodStart
      op, wr_ExpiryPaidThrough op, wr_LeaseToken op, wr_LeaseExpiresAt op, wr_ReviewResolutionKey op, wr_ReviewResolutionFingerprint op,
      wr_ReviewResolutionDecision op, wr_ReviewResolutionEvidenceRef op, wr_ReviewResolutionReviewer op, wr_ReviewResolutionPhase op,
      wr_ReviewResolutionResolvedAt op, map_text (wr_ReviewResolutionResult op)]"

definition renewal_of_texts :: "string list \<Rightarrow> renewal_operation" where
  "renewal_of_texts fs =
     \<lparr>wr_ID = [], wr_Status = [], wr_CreatedAt = [], wr_PersistedResult = [], wr_RequestHash = fs ! 0, wr_Phase = fs ! 1, wr_AccountID =
      fs ! 2, wr_OwnerUserID = fs ! 3, wr_WorkspaceID = fs ! 4, wr_PackageID = fs ! 5, wr_StorageGB = int_of_text (fs ! 6), wr_ComputeID
      = fs ! 7, wr_StorageID = fs ! 8, wr_PriceVersion = fs ! 9, wr_ComputeUSDMicros = int_of_text (fs ! 10), wr_StorageUSDMicros =
      int_of_text (fs ! 11), wr_TotalUSDMicros = int_of_text (fs ! 12), wr_PeriodStart = fs ! 13, wr_PaidThrough = fs ! 14,
      wr_RenewedThrough = fs ! 15, wr_RedeemCode = fs ! 16, wr_RefundCode = fs ! 17, wr_ComputePreflightConfirmed = (fs ! 18 \<noteq>
      []), wr_StoragePreflightConfirmed = (fs ! 19 \<noteq> []), wr_ChargeAttempted = (fs ! 20 \<noteq> []), wr_ChargeConfirmation =
      map_of_text (fs ! 21), wr_PreChargeBalanceUSDMicros = int_of_text (fs ! 22), wr_PostChargeBalanceUSDMicros = int_of_text (fs !
      23), wr_PostChargeBalanceKnown = (fs ! 24 \<noteq> []), wr_RefundAttempted = (fs ! 25 \<noteq> []), wr_RefundConfirmation =
      map_of_text (fs ! 26), wr_RefundReason = fs ! 27, wr_RefundReceiptID = fs ! 28, wr_ComputeRenewal = map_of_text (fs ! 29),
      wr_StorageRenewal = map_of_text (fs ! 30), wr_ComputeReadback = map_of_text (fs ! 31), wr_StorageReadback = map_of_text (fs ! 32),
      wr_EntitlementCommitted = (fs ! 33 \<noteq> []), wr_ReceiptID = fs ! 34, wr_ErrorCode = fs ! 35, wr_PriorStatus = fs ! 36,
      wr_PriorErrorCode = fs ! 37, wr_ExpiryStatus = fs ! 38, wr_ExpiryPhase = fs ! 39, wr_ExpiryErrorCode = fs ! 40, wr_ExpiryReceiptID
      = fs ! 41, wr_ExpiryPeriodStart = fs ! 42, wr_ExpiryPaidThrough = fs ! 43, wr_LeaseToken = fs ! 44, wr_LeaseExpiresAt = fs ! 45,
      wr_ReviewResolutionKey = fs ! 46, wr_ReviewResolutionFingerprint = fs ! 47, wr_ReviewResolutionDecision = fs ! 48,
      wr_ReviewResolutionEvidenceRef = fs ! 49, wr_ReviewResolutionReviewer = fs ! 50, wr_ReviewResolutionPhase = fs ! 51,
      wr_ReviewResolutionResolvedAt = fs ! 52, wr_ReviewResolutionResult = map_of_text (fs ! 53)\<rparr>"

lemma flag_text_iff [simp]: "flag_text b = [] \<longleftrightarrow> \<not> b"
  by (simp add: flag_text_def)

lemma renewal_texts_round_trip: "renewal_of_texts (renewal_texts op) = reread reread_map op"
  by (simp add: renewal_of_texts_def renewal_texts_def reread_def int_of_int_text map_round_trip)

text \<open>A fact is read back from its evidence.\<close>

lemma texts_get:
  "distinct (map fst kvs) \<Longrightarrow> stringValue (mget (Some (nonempty_texts kvs)) k) = (case map_of kvs k of None \<Rightarrow> [] | Some v \<Rightarrow> v)"
proof (induction kvs)
  case (Cons kv kvs)
  obtain a v where kv: "kv = (a, v)" by (cases kv)
  have cons: "nonempty_texts (kv # kvs) = (if v = [] then nonempty_texts kvs else (a, GStr v) # nonempty_texts kvs)"
    by (simp add: kv nonempty_texts_def)
  have "map_of kvs k = None" if "a = k" using Cons.prems that by (simp add: kv map_of_eq_None_iff)
  with Cons show ?case unfolding cons by (auto simp: kv mget_def)
qed (simp add: nonempty_texts_def mget_def stringValue_def)

definition fact_of_evidence :: "gomap \<Rightarrow> provider_fact" where
  "fact_of_evidence m =
     (let str = (\<lambda>key. stringValue (mget m key)); f = (\<lambda>key. stringValue (mget (case mget m ''facts'' of GObj kvs \<Rightarrow> Some kvs | _ \<Rightarrow> None) key)) in
      \<lparr>pf_AccountID = str ''accountId'', pf_WorkspaceID = str ''workspaceId'', pf_ResourceType = str ''resourceType'', pf_ResourceID = str ''resourceId'',
       pf_Available = (mget m ''available'' = GBool True),
       pf_Facts = \<lparr>prf_PackageOrSpec = f ''packageOrSpec'', prf_ProviderID = f ''providerId'', prf_Zone = f ''zone'', prf_Status = f ''status'',
         prf_CreatedAt = f ''createdAt'', prf_ExpiresAt = f ''expiresAt'', prf_LastReadAt = f ''lastReadAt''\<rparr>,
       pf_ErrorCode = str ''errorCode''\<rparr>)"

lemma fact_round_trip: "fact_of_evidence (providerFactEvidence pf) = pf"
proof -
  have e: "mget (providerFactEvidence pf) ''errorCode'' = mget (Some (nonempty_texts [(''errorCode'', pf_ErrorCode pf)])) ''errorCode''"
    by (simp add: providerFactEvidence_def Let_def mget_def)
  have f: "mget (providerFactEvidence pf) ''facts'' = GObj (nonempty_texts
      [(''packageOrSpec'', prf_PackageOrSpec (pf_Facts pf)), (''providerId'', prf_ProviderID (pf_Facts pf)), (''zone'', prf_Zone (pf_Facts pf)),
       (''status'', prf_Status (pf_Facts pf)), (''createdAt'', prf_CreatedAt (pf_Facts pf)), (''expiresAt'', prf_ExpiresAt (pf_Facts pf)),
       (''lastReadAt'', prf_LastReadAt (pf_Facts pf))])"
    by (simp add: providerFactEvidence_def Let_def mget_def)
  have "fact_of_evidence (providerFactEvidence pf) =
    \<lparr>pf_AccountID = pf_AccountID pf, pf_WorkspaceID = pf_WorkspaceID pf, pf_ResourceType = pf_ResourceType pf, pf_ResourceID = pf_ResourceID pf,
     pf_Available = pf_Available pf, pf_Facts = pf_Facts pf, pf_ErrorCode = pf_ErrorCode pf\<rparr>"
    unfolding fact_of_evidence_def Let_def e f goval.case
    by (simp add: texts_get) (simp add: providerFactEvidence_def Let_def mget_def)
  then show ?thesis by simp
qed

definition sample_renewal_codec :: renewal_codec where
  "sample_renewal_codec =
     \<lparr>rc_sha1hex = (\<lambda>_. replicate 40 (CHR ''a'')), rc_marshal = (\<lambda>op. bar_texts (renewal_texts op)),
      rc_unmarshal = (\<lambda>s. Some (renewal_of_texts (unbar [] s))), rc_fact = (\<lambda>m. Some (fact_of_evidence m)), rc_json = (\<lambda>_. []), rc_environment = ''test''\<rparr>"

lemma sample_renewal_codec_ok: "renewal_codec_ok sample_renewal_codec"
  unfolding renewal_codec_ok_def
  by (rule exI [of _ reread_map]) (simp add: sample_renewal_codec_def unbar_texts renewal_texts_round_trip reread_map_def scalar_map_def)

section \<open>Services that answer\<close>

definition moves_money :: "renewal_trace \<Rightarrow> bool" where
  "moves_money tr = list_ex (\<lambda>e. money_of e \<noteq> None) tr"

definition sample_row :: "(string \<times> goval) list" where
  "sample_row = (case put_fields sample_workspace [(''workspaceApiKeyId'', GInt KInt64 7)] of None \<Rightarrow> [] | Some kvs \<Rightarrow> kvs)"

definition sample_tables :: resource_tables where
  "sample_tables =
     \<lparr>rt_workspaces = [(''ws-1'', Some sample_row)],
      rt_computes = [(''c-1'', Some [(''id'', GStr ''c-1''), (''accountId'', GStr ''acct-1''), (''workspaceId'', GStr ''ws-1''),
        (''providerResourceId'', GStr ''p-c-1''), (''packageId'', GStr ''basic'')])],
      rt_storages = [(''s-1'', Some [(''id'', GStr ''s-1''), (''accountId'', GStr ''acct-1''), (''workspaceId'', GStr ''ws-1''),
        (''providerResourceId'', GStr ''p-s-1''), (''sizeGb'', GInt KInt64 10), (''computeAllocationId'', GStr ''c-1'')])]\<rparr>"

definition sample_fact :: "provider_fact_input \<Rightarrow> provider_fact" where
  "sample_fact input =
     \<lparr>pf_AccountID = pfi_AccountID input, pf_WorkspaceID = pfi_WorkspaceID input, pf_ResourceType = pfi_ResourceType input,
      pf_ResourceID = pfi_ResourceID input, pf_Available = True,
      pf_Facts = \<lparr>prf_PackageOrSpec = ''basic'', prf_ProviderID = ''p-'' @ pfi_ResourceID input, prf_Zone = ''z-1'', prf_Status = ''running'',
        prf_CreatedAt = [], prf_ExpiresAt = ''2026-05-01T00:00:00Z'', prf_LastReadAt = ''2026-02-28T00:00:00Z''\<rparr>, pf_ErrorCode = []\<rparr>"

definition renewal_moment :: gotime where
  "renewal_moment = (case rfc3339_parse ''2026-02-28T00:00:00Z'' of None \<Rightarrow> GoTime 0 0 | Some t \<Rightarrow> t)"

definition used_charge :: "money_input \<Rightarrow> gateway_charge" where
  "used_charge m = \<lparr>gc_Code = mi_Code m, gc_UserID = mi_UserID m, gc_USDMicros = mi_USDMicros m, gc_Status = ''used''\<rparr>"

definition sample_renewal :: renewal_operation where
  "sample_renewal = (case newWorkspaceRenewalOperation sample_renewal_codec (Some sample_row) renewal_moment of Inl _ \<Rightarrow> zero_operation | Inr n \<Rightarrow> n)"

definition sample_services :: renewal_env where
  "sample_services =
     \<lparr>re_now = (\<lambda>_. renewal_moment), re_down = (\<lambda>_. False), re_save = (\<lambda>_. Saved), re_disturb = (\<lambda>_ t. t), re_others = (\<lambda>_. []),
      re_accounts = (\<lambda>_. Inr [Some [(''id'', GStr ''acct-1''), (''sub2apiUserId'', GInt KInt64 42)]]),
      re_facts = (\<lambda>_. Some (\<lambda>inputs. Inr (map sample_fact inputs))),
      re_preflight = (\<lambda>_ input. Inr \<lparr>mp_ResourceType = mpi_ResourceType input, mp_PackageID = mpi_PackageID input,
        mp_SizeGB = mpi_SizeGB input, mp_Zone = mpi_Zone input, mp_Available = True\<rparr>),
      re_keys = (\<lambda>_ u name. Inr [\<lparr>gk_ID = 7, gk_UserID = u, gk_Name = name, gk_Status = ''active''\<rparr>]),
      re_balance = (\<lambda>tr u. Inr \<lparr>gb_UserID = u, gb_USDMicros = (if list_ex (charges (wr_ID sample_renewal)) tr then 377 else 500), gb_Status = ''active''\<rparr>),
      re_history = (\<lambda>tr u redeems. Inr (if moves_money tr
        then map (\<lambda>c. (c, \<lparr>he_Code = c, he_Type = ''balance'', he_ValueUSDMicros = 123, he_Status = ''used'', he_UsedBy = Some u,
          he_UsedAt = Some renewal_moment, he_CreatedAt = renewal_moment\<rparr>)) redeems else [])),
      re_charge = (\<lambda>_ m. Inr (used_charge m)), re_refund = (\<lambda>_ m. Inr (used_charge m)),
      re_renew = (\<lambda>_ _. (\<lparr>rm_ID = ''m-1'', rm_OperationID = [], rm_AccountID = ''acct-1'', rm_WorkspaceID = ''ws-1'', rm_Status = ''done'',
        rm_ProviderRequestID = []\<rparr>, [])),
      re_receipt = (\<lambda>_ _ _. Inr ''receipt_000001'')\<rparr>"

lemma sample_true_history: "true_history sample_services (\<lambda>_. True)"
proof -
  have "moves_money tr" if "n < length tr" "money_of (tr ! n) = Some m" for tr n m
    using that by (auto simp: moves_money_def list_ex_length)
  then show ?thesis by (auto simp: true_history_def sample_services_def split: if_splits)
qed

definition renewal_start :: renewal_world where
  "renewal_start = \<lparr>rw_operations = [], rw_tables = sample_tables, rw_trace = []\<rparr>"

lemma sample_new: "newWorkspaceRenewalOperation sample_renewal_codec (Some sample_row) renewal_moment = Inr sample_renewal"
  by code_simp

lemma sample_fields:
  "stringValue (mget (Some sample_row) ''id'') = ''ws-1''" "stringValue (mget (Some sample_row) ''computeAllocationId'') = ''c-1''"
  "stringValue (mget (Some sample_row) ''storageId'') = ''s-1''" "stringValue (mget (Some sample_row) ''accountId'') = ''acct-1''"
  "stringValue (mget (Some sample_row) ''paidThrough'') = ''2026-02-28T10:00:00Z''" "mget (Some sample_row) ''autoRenew'' = GBool True"
  by code_simp+

lemma sample_values:
  "wr_WorkspaceID sample_renewal = ''ws-1''" "wr_ComputeID sample_renewal = ''c-1''" "wr_StorageID sample_renewal = ''s-1''" "wr_AccountID sample_renewal = ''acct-1''"
  using new_operation [OF sample_new] unfolding fresh_operation_def sample_fields by metis+

lemma sample_terms: "wr_TotalUSDMicros sample_renewal = 123" "wr_PaidThrough sample_renewal = ''2026-02-28T10:00:00Z''"
    "wr_RenewedThrough sample_renewal = ''2026-03-31T10:00:00Z''"
  by code_simp+

lemma sample_due: "renewal_due sample_renewal_codec renewal_moment sample_row sample_renewal"
proof -
  have "case rfc3339_parse ''2026-02-28T10:00:00Z'' of None \<Rightarrow> False | Some t \<Rightarrow>
      t_before (t_utc renewal_moment) (t_utc t) \<and> \<not> t_before (t_utc renewal_moment) (t_add (t_utc t) (- monthlyRenewalLead))" by code_simp
  then show ?thesis using sample_new by (auto simp: renewal_due_def sample_fields sample_terms split: option.splits)
qed

lemma sample_serving: "serving sample_renewal_codec sample_services sample_renewal 42 7 500 (\<lambda>_. sample_fact)"
proof -
  have "sub2APIUserID (Inr [Some [(''id'', GStr ''acct-1''), (''sub2apiUserId'', GInt KInt64 42)]]) ''acct-1'' = Inr 42" by code_simp
  then show ?thesis
    by (simp add: serving_def sample_services_def sample_values sample_terms sample_renewal_codec_def fact_round_trip used_charge_def
        monthlyPreflightConfirmed_def int64_defs)
qed

lemma sample_covering: "covering sample_renewal (\<lambda>_. sample_fact) ''compute'' ''p-c-1''" "covering sample_renewal (\<lambda>_. sample_fact) ''storage'' ''p-s-1''"
proof -
  let ?i = "\<lambda>t. \<lparr>pfi_AccountID = ''acct-1'', pfi_WorkspaceID = ''ws-1'', pfi_ResourceType = t, pfi_ResourceID = (if t = ''storage'' then ''s-1'' else ''c-1'')\<rparr>"
  have i: "fact_input sample_renewal t = ?i t" for t by (simp add: workspaceRenewalProviderFactInput_def sample_values)
  have "case (rfc3339_parse ''2026-02-28T10:00:00Z'', rfc3339_parse ''2026-03-31T10:00:00Z'') of
      (Some paid, Some until) \<Rightarrow>
        list_all (\<lambda>(t, p). let pf = sample_fact (?i t) in
          providerFactCovers (?i t) pf p paid \<and> providerFactCovers (?i t) pf p until \<and>
          prf_ProviderID (pf_Facts pf) = p) [(''compute'', ''p-c-1''), (''storage'', ''p-s-1'')]
    | _ \<Rightarrow> False"
    by code_simp
  then show "covering sample_renewal (\<lambda>_. sample_fact) ''compute'' ''p-c-1''" "covering sample_renewal (\<lambda>_. sample_fact) ''storage'' ''p-s-1''"
    by (simp_all add: covering_def Let_def i sample_terms split: option.splits)
qed

lemma sample_ready: "renewal_ready sample_renewal_codec sample_services renewal_moment renewal_start sample_row sample_renewal"
proof -
  have "Workspace_Renewal.int_field (Some sample_row) ''workspaceApiKeyId'' = 7" by code_simp
  moreover have "resources_ok sample_renewal ''p-c-1'' ''p-s-1'' (rw_tables renewal_start)"
  proof -
    have "case (map_of (rt_computes sample_tables) ''c-1'', map_of (rt_storages sample_tables) ''s-1'') of
        (Some (Some c), Some (Some s)) \<Rightarrow> resource_identity_ok sample_renewal (Some c) (Some s) \<and>
          stringValue (mget (Some c) ''providerResourceId'') = ''p-c-1'' \<and> stringValue (mget (Some s) ''providerResourceId'') = ''p-s-1'' \<and>
          stringValue (mget (Some c) ''id'') = ''c-1'' \<and> stringValue (mget (Some s) ''id'') = ''s-1''
      | _ \<Rightarrow> False" by code_simp
    then show ?thesis by (auto simp: resources_ok_def sample_values renewal_start_def split: option.splits)
  qed
  moreover have "case rfc3339_parse ''2026-03-31T10:00:00Z'' of None \<Rightarrow> False
    | Some r \<Rightarrow> validateWorkspaceBillingState (put_fields (Some sample_row) (entitlement_fields sample_renewal r)) = None" by code_simp
  ultimately show ?thesis
    unfolding renewal_ready_def
    using sample_due sample_covering exI [of "\<lambda>u. \<exists>b f cp sp. serving _ _ _ u _ b f \<and> covering _ f _ cp \<and> covering _ f _ sp \<and> _ cp sp" 42] sample_serving
    by (simp add: no_operation_def renewal_start_def sample_tables_def sample_values sample_terms split: option.splits) blast
qed


section \<open>The history of that renewal\<close>

definition paid_renewal :: renewal_world where
  "paid_renewal = snd (run_state (processWorkspaceRenewal sample_renewal_codec sample_services ''ws-1'' renewal_moment) renewal_start)"

lemma paid_renewal_renewed: "\<exists>row. renewed sample_renewal_codec sample_renewal row paid_renewal"
  by (rule process_renews [OF sample_ready]) (auto simp: paid_renewal_def wp_def sample_values split: prod.splits)


lemma paid_renewal_history: "renewal_history sample_renewal_codec sample_services paid_renewal"
proof -
  have start: "renewal_history sample_renewal_codec sample_services renewal_start" by (rule renewal_history.start) (simp_all add: renewal_start_def)
  have "cut_off sample_renewal_codec sample_services n (processWorkspaceRenewal sample_renewal_codec sample_services ''ws-1'' renewal_moment) renewal_start = paid_renewal"
    if "length (effects_of (processWorkspaceRenewal sample_renewal_codec sample_services ''ws-1'' renewal_moment) renewal_start) \<le> n" for n
    using cut_off_all [OF wp_process money_history [OF start sample_renewal_codec_ok] that] by (simp add: paid_renewal_def)
  with renewal_history.process [OF start] show ?thesis by (metis order_refl)
qed

lemma paid_renewal_charge: "\<exists>k i m. k < length (rw_trace paid_renewal) \<and> rw_trace paid_renewal ! k = ChargeWallet i m"
proof -
  obtain k where "k < length (rw_trace paid_renewal)" "charges (wr_ID sample_renewal) (rw_trace paid_renewal ! k)"
    using paid_renewal_renewed by (auto simp: renewed_def list_ex_length)
  then show ?thesis by (cases "rw_trace paid_renewal ! k") auto
qed

theorem renewal_money_moves_once_witness:
  "\<exists>k i m. k < length (rw_trace paid_renewal) \<and> rw_trace paid_renewal ! k = ChargeWallet i m \<and>
     (\<exists>op. saved (take k (rw_trace paid_renewal)) op \<and> wr_ID op = i \<and> wr_ChargeAttempted op \<and> wr_TotalUSDMicros op = mi_USDMicros m) \<and>
     \<not> (\<exists>j m'. j < k \<and> rw_trace paid_renewal ! j = ChargeWallet i m' \<and> mi_UserID m' = mi_UserID m)"
proof -
  obtain k i m where k: "k < length (rw_trace paid_renewal)" "rw_trace paid_renewal ! k = ChargeWallet i m" using paid_renewal_charge by blast
  show ?thesis
    using k renewal_money_moves_once [OF paid_renewal_history sample_renewal_codec_ok sample_true_history k(1), unfolded k(2) renewal_effect.case] by blast
qed



section \<open>A run of the worker\<close>

text \<open>The services, with other writers that keep at most one workspace.\<close>

definition one_workspace :: renewal_env where
  "one_workspace = sample_services\<lparr>re_disturb := (\<lambda>_ t. t\<lparr>rt_workspaces := take 1 (rt_workspaces t)\<rparr>)\<rparr>"

theorem billing_run_ends_witness:
  "\<exists>errors. fst (run_state (runMonthlyBillingOnce 2 sample_renewal_codec one_workspace renewal_moment) renewal_start) = Some errors"
proof (rule billing_run_ends [OF _ sample_renewal_codec_ok, where n = 1])
  show "renewal_history sample_renewal_codec one_workspace renewal_start" by (rule renewal_history.start) (simp_all add: renewal_start_def)
  show "bounded_table one_workspace 1" by (simp add: bounded_table_def one_workspace_def)
  show "length (rt_workspaces (rw_tables renewal_start)) \<le> 1" by (simp add: renewal_start_def sample_tables_def)
qed simp

end
