(* ===== verification/Renewal_Switch.thy ===== *)
theory Renewal_Switch
  imports Workspace_Renewal
begin

text \<open>
  Switching the automatic renewal of a workspace on and off (\<^verbatim>\<open>workspace_renewal.go\<close>, the handler
  \<^verbatim>\<open>POST /api/workspaces/{workspaceId}/auto-renew\<close> of \<^verbatim>\<open>routes_workspace.go\<close>, and the transaction
  \<^verbatim>\<open>ApplyWorkspaceRenewalIntent\<close> of \<^verbatim>\<open>ent_state_store_workspace.go\<close>): the command is planned on rows that were read
  before, and applied in one transaction that compares them with the current ones, at most three times.

  Before every access to the database other writers may change the tables in any way. The world keeps a log of the
  transactions that were committed.
\<close>

section \<open>Commands\<close>

record switch_codec =
  sc_renewal :: renewal_codec
  sc_audit :: wallet_codec \<comment> \<open>of the audit events\<close>
  sc_json :: "goval \<Rightarrow> string" \<comment> \<open>\<^verbatim>\<open>mustJSON\<close>\<close>
  sc_marshal :: "string \<times> gomap \<Rightarrow> string" \<comment> \<open>a command result: the hash of the request and the response\<close>
  sc_unmarshal :: "string \<Rightarrow> (string \<times> gomap) option"
  sc_paidThrough :: "string \<Rightarrow> string option" \<comment> \<open>the field of a stored renewal\<close>

abbreviation sc_stableID :: "switch_codec \<Rightarrow> string list \<Rightarrow> string" where
  "sc_stableID sc \<equiv> stableID (rc_sha1hex (sc_renewal sc))"

record intent_patch =
  ip_AutoRenew :: bool
  ip_AuthorizedBy :: string
  ip_AuthorizedAt :: string

record renewal_intent =
  in_WorkspaceID :: string
  in_AccountID :: string
  in_OwnerUserID :: string
  in_ExpectedPaidThrough :: string
  in_ExpectedAutoRenew :: bool
  in_ExpectedOperationsVersion :: string
  in_WorkspacePatch :: intent_patch
  in_CommandOperation :: gomap
  in_AuditEvent :: gomap

definition workspaceAutoRenewCommandID :: "switch_codec \<Rightarrow> string \<Rightarrow> string \<Rightarrow> string" where
  "workspaceAutoRenewCommandID sc workspaceID key = ''workspace-renewal-intent-'' @ take 18 (sc_stableID sc [workspaceID, key])"

definition workspaceAutoRenewAuditID :: "switch_codec \<Rightarrow> string \<Rightarrow> string" where
  "workspaceAutoRenewAuditID sc commandID = ''audit-'' @ take 12 (sc_stableID sc [''workspace.auto_renew'', commandID])"

definition workspaceRenewalIntentState :: "bool \<Rightarrow> string \<Rightarrow> string \<Rightarrow> goval" where
  "workspaceRenewalIntentState autoRenew authorizedBy authorizedAt =
     GObj [(''autoRenew'', GBool autoRenew), (''authorizedBy'', GStr authorizedBy), (''authorizedAt'', GStr authorizedAt)]"

definition row_intent_state :: "gomap \<Rightarrow> goval" where
  "row_intent_state row =
     workspaceRenewalIntentState (mget row ''autoRenew'' = GBool True) (stringValue (mget row ''authorizedBy'')) (stringValue (mget row ''authorizedAt''))"

definition patch_intent_state :: "intent_patch \<Rightarrow> goval" where
  "patch_intent_state p = workspaceRenewalIntentState (ip_AutoRenew p) (ip_AuthorizedBy p) (ip_AuthorizedAt p)"

definition bindWorkspaceAutoRenewAudit :: "switch_codec \<Rightarrow> gomap \<Rightarrow> gomap \<Rightarrow> gomap" where
  "bindWorkspaceAutoRenewAudit sc command event =
     mset_key (mset_key (cloneMap event) ''id'' (GStr (workspaceAutoRenewAuditID sc (stringValue (mget command ''id'')))))
       ''createdAt'' (mget command ''createdAt'')"

definition validRole :: "string \<Rightarrow> bool" where
  "validRole role \<longleftrightarrow> role = ''owner'' \<or> role = ''admin''"

definition validateWorkspaceRenewalIntentAudit :: "switch_codec \<Rightarrow> renewal_intent \<Rightarrow> gomap \<Rightarrow> bool" where
  "validateWorkspaceRenewalIntentAudit sc update current \<longleftrightarrow>
     (let event = (\<lambda>key. stringValue (mget (in_AuditEvent update) key)); command = (\<lambda>key. stringValue (mget (in_CommandOperation update) key)) in
      event ''id'' = workspaceAutoRenewAuditID sc (command ''id'') \<and>
      event ''createdAt'' \<noteq> [] \<and> event ''createdAt'' = command ''createdAt'' \<and>
      event ''actorUserId'' = in_OwnerUserID update \<and> validRole (event ''actorRole'') \<and>
      event ''actorAccountId'' = in_AccountID update \<and> event ''targetAccountId'' = in_AccountID update \<and>
      event ''action'' = ''workspace.auto_renew'' \<and> event ''resourceKind'' = ''workspace'' \<and>
      event ''resourceId'' = in_WorkspaceID update \<and> event ''result'' = ''succeeded'' \<and>
      sc_json sc (mget (in_AuditEvent update) ''before'') = sc_json sc (row_intent_state current) \<and>
      sc_json sc (mget (in_AuditEvent update) ''after'') = sc_json sc (patch_intent_state (in_WorkspacePatch update)))"

definition audit_identity :: "gomap \<Rightarrow> goval" where
  "audit_identity row =
     GObj (map (\<lambda>key. (key, GStr (stringValue (mget row key))))
         [''id'', ''actorUserId'', ''actorRole'', ''actorAccountId'', ''targetAccountId'', ''action'', ''resourceKind'', ''resourceId'',
          ''ipAddress'', ''userAgent'', ''result'', ''createdAt''] @
       [(''before'', mget row ''before''), (''after'', mget row ''after'')])"

definition workspaceRenewalIntentAuditIdentityMatches :: "switch_codec \<Rightarrow> gomap \<Rightarrow> gomap \<Rightarrow> bool" where
  "workspaceRenewalIntentAuditIdentityMatches sc current desired \<longleftrightarrow> sc_json sc (audit_identity current) = sc_json sc (audit_identity desired)"

definition workspaceAutoRenewRequestHash :: "switch_codec \<Rightarrow> string \<Rightarrow> bool \<Rightarrow> string" where
  "workspaceAutoRenewRequestHash sc workspaceID autoRenew =
     sc_stableID sc [''workspace-auto-renew-v1'', workspaceID, if autoRenew then ''true'' else ''false'']"

definition workspaceAutoRenewCommandRow :: "switch_codec \<Rightarrow> gomap \<Rightarrow> string \<Rightarrow> string \<Rightarrow> gomap \<Rightarrow> gotime \<Rightarrow> gomap" where
  "workspaceAutoRenewCommandRow sc workspace key requestHash response now =
     (let str = (\<lambda>key. stringValue (mget workspace key)); commandID = workspaceAutoRenewCommandID sc (str ''id'') key in
      Some [(''id'', GStr commandID), (''operationId'', GStr commandID), (''accountId'', GStr (str ''accountId'')), (''workspaceId'', GStr (str ''id'')),
        (''resourceId'', GStr (str ''id'')), (''resourceKind'', GStr ''workspace_renewal_intent''), (''action'', GStr ''workspace.auto_renew''),
        (''status'', GStr ''succeeded''), (''result'', GStr (sc_marshal sc (requestHash, response))), (''createdAt'', GStr (utc_text now))])"

definition decodeWorkspaceAutoRenewCommand :: "switch_codec \<Rightarrow> gomap \<Rightarrow> (string \<times> gomap) option" where
  "decodeWorkspaceAutoRenewCommand sc row =
     (if stringValue (mget row ''action'') \<noteq> ''workspace.auto_renew'' then None
      else
        (case sc_unmarshal sc (stringValue (mget row ''result'')) of
           None \<Rightarrow> None
         | Some (requestHash, response) \<Rightarrow> if requestHash = [] \<or> mlen response \<noteq> 5 then None else Some (requestHash, response)))"

definition currentWorkspaceRenewalOperation :: "switch_codec \<Rightarrow> gomap list \<Rightarrow> string \<Rightarrow> string \<Rightarrow> gomap option" where
  "currentWorkspaceRenewalOperation sc rows workspaceID paidThrough =
     find (\<lambda>row.
       stringValue (mget row ''action'') = ''workspace.renewal'' \<and> stringValue (mget row ''workspaceId'') = workspaceID \<and>
       (case sc_paidThrough sc (stringValue (mget row ''result'')) of
          None \<Rightarrow> False
        | Some s \<Rightarrow> (case rfc3339_parse s of None \<Rightarrow> False | Some parsed \<Rightarrow> utc_text parsed = paidThrough)) \<and>
       stringValue (mget row ''status'') \<notin> {''active'', ''cancelled'', ''expired_unpaid'', ''refunded''}) rows"

definition reactivation_required :: string where
  "reactivation_required = ''workspace_reactivation_required''"

definition invalid_billing_state :: string where
  "invalid_billing_state = ''invalid_workspace_billing_state''"

definition workspaceAutoRenewResponse :: "switch_codec \<Rightarrow> gomap \<Rightarrow> gomap list \<Rightarrow> bool \<Rightarrow> gotime \<Rightarrow> string + gomap" where
  "workspaceAutoRenewResponse sc workspace operations autoRenew now =
     (case rfc3339_parse (stringValue (mget workspace ''paidThrough'')) of
        None \<Rightarrow> Inl invalid_billing_state
      | Some paid \<Rightarrow>
          (let paidThrough = t_utc paid in
           if \<not> t_before (t_utc now) paidThrough \<or> stringValue (mget workspace ''renewalStatus'') = ''expired_unpaid''
           then Inl reactivation_required
           else
             (case rfc3339_parse (stringValue (mget workspace ''nextRenewalAt'')) of
                None \<Rightarrow> Inl invalid_billing_state
              | Some nextRenewal \<Rightarrow>
                  (let operation = currentWorkspaceRenewalOperation sc operations (stringValue (mget workspace ''id'')) (rfc3339_nano paidThrough);
                       (effectiveAfter, renewalStatus) =
                         (if autoRenew then
                            (t_utc nextRenewal, case operation of None \<Rightarrow> ''scheduled'' | Some row \<Rightarrow> stringValue (mget row ''status''))
                          else
                            (case operation of
                               None \<Rightarrow> (paidThrough, ''cancelled'')
                             | Some row \<Rightarrow> (nextBillingMonth paidThrough (billing_anchor workspace paidThrough), stringValue (mget row ''status''))))
                   in Inr (Some [(''autoRenew'', GBool autoRenew), (''effectiveAfter'', GStr (rfc3339_nano effectiveAfter)),
                        (''nextRenewalAt'', GStr (utc_text nextRenewal)), (''paidThrough'', GStr (rfc3339_nano paidThrough)),
                        (''renewalStatus'', GStr renewalStatus)])))))"

definition planWorkspaceRenewalIntent ::
    "switch_codec \<Rightarrow> gomap \<Rightarrow> gomap \<Rightarrow> gomap list \<Rightarrow> bool \<Rightarrow> string \<Rightarrow> gotime \<Rightarrow> string + renewal_intent \<times> gomap" where
  "planWorkspaceRenewalIntent sc workspace user operations autoRenew key now =
     (case workspaceAutoRenewResponse sc workspace operations autoRenew now of
        Inl err \<Rightarrow> Inl err
      | Inr response \<Rightarrow>
          (let workspaceID = stringValue (mget workspace ''id'');
               patch = \<lparr>ip_AutoRenew = autoRenew, ip_AuthorizedBy = (if autoRenew then stringValue (mget user ''id'') else []),
                 ip_AuthorizedAt = (if autoRenew then utc_text now else [])\<rparr>;
               requestHash = workspaceAutoRenewRequestHash sc workspaceID autoRenew
           in Inr
             (\<lparr>in_WorkspaceID = workspaceID, in_AccountID = stringValue (mget workspace ''accountId''), in_OwnerUserID = stringValue (mget user ''id''),
               in_ExpectedPaidThrough = stringValue (mget workspace ''paidThrough''), in_ExpectedAutoRenew = (mget workspace ''autoRenew'' = GBool True),
               in_ExpectedOperationsVersion = runtimeOperationsVersion (sc_renewal sc) operations workspaceID, in_WorkspacePatch = patch,
               in_CommandOperation = workspaceAutoRenewCommandRow sc workspace key requestHash response now, in_AuditEvent = None\<rparr>, response)))"

section \<open>The transaction\<close>

record switch_tables =
  st_workspaces :: table
  st_operations :: table
  st_audits :: table

definition intent_fields :: "intent_patch \<Rightarrow> (string \<times> goval) list" where
  "intent_fields p = [(''autoRenew'', GBool (ip_AutoRenew p)), (''authorizedBy'', GStr (ip_AuthorizedBy p)), (''authorizedAt'', GStr (ip_AuthorizedAt p))]"

text \<open>The current row is the one the command was planned on, as far as the transaction compares.\<close>

definition intent_matches :: "renewal_intent \<Rightarrow> gomap \<Rightarrow> bool" where
  "intent_matches update current \<longleftrightarrow>
     stringValue (mget current ''accountId'') = in_AccountID update \<and> stringValue (mget current ''ownerUserId'') = in_OwnerUserID update \<and>
     stringValue (mget current ''paidThrough'') = in_ExpectedPaidThrough update \<and> mget current ''autoRenew'' = GBool (in_ExpectedAutoRenew update)"

definition ApplyWorkspaceRenewalIntent :: "switch_codec \<Rightarrow> renewal_intent \<Rightarrow> switch_tables \<Rightarrow> string + switch_tables \<times> gomap \<times> gomap" where
  "ApplyWorkspaceRenewalIntent sc update t =
     (case map_of (st_workspaces t) (in_WorkspaceID update) of
        None \<Rightarrow> Inl cas_conflict
      | Some current \<Rightarrow>
          (let operations = filter (\<lambda>row. stringValue (mget row ''workspaceId'') = in_WorkspaceID update) (map snd (st_operations t));
               commandID = stringValue (mget (in_CommandOperation update) ''id'');
               desired = put_fields (cloneMap current) (intent_fields (in_WorkspacePatch update));
               auditID = stringValue (mget (in_AuditEvent update) ''id'') in
           if \<not> intent_matches update current then Inl cas_conflict
           else if list_ex (\<lambda>row. stringValue (mget row ''id'') = commandID) operations then Inl cas_conflict
           else if runtimeOperationsVersion (sc_renewal sc) operations (in_WorkspaceID update) \<noteq> in_ExpectedOperationsVersion update then Inl cas_conflict
           else
             (case validateWorkspaceBillingState desired of
                Some err \<Rightarrow> Inl (billing_error_text err)
              | None \<Rightarrow>
                  if \<not> validateWorkspaceRenewalIntentAudit sc update current then Inl ''invalid_workspace_renewal_audit''
                  else if (case map_of (st_audits t) auditID of None \<Rightarrow> False
                    | Some row \<Rightarrow> \<not> workspaceRenewalIntentAuditIdentityMatches sc row (in_AuditEvent update)) then Inl ''idempotency_conflict''
                  else if map_of (st_operations t) commandID \<noteq> None then Inl cas_conflict
                  else Inr
                    (t\<lparr>st_workspaces := AList.update (in_WorkspaceID update) desired (st_workspaces t),
                       st_operations := AList.update commandID (in_CommandOperation update) (st_operations t),
                       st_audits := (if map_of (st_audits t) auditID = None then AList.update auditID (in_AuditEvent update) (st_audits t) else st_audits t)\<rparr>,
                     current, desired))))"

section \<open>The handler\<close>

record switch_commit =
  cm_Update :: renewal_intent
  cm_Before :: gomap
  cm_After :: gomap

record switch_env =
  se_now :: "nat \<Rightarrow> gotime"
  se_down :: "nat \<Rightarrow> bool" \<comment> \<open>the access fails\<close>
  se_save :: "nat \<Rightarrow> save_outcome"
  se_disturb :: "nat \<Rightarrow> switch_tables \<Rightarrow> switch_tables" \<comment> \<open>other writers before the access\<close>

record switch_world =
  sx_tables :: switch_tables
  sx_steps :: nat
  sx_commits :: "switch_commit list"

type_synonym 'a switching = "(switch_world, 'a) state"

datatype switch_answer = SwitchOK gomap | SwitchError nat string

definition others_write :: "switch_env \<Rightarrow> switch_world \<Rightarrow> switch_world" where
  "others_write env w = w\<lparr>sx_tables := se_disturb env (sx_steps w) (sx_tables w), sx_steps := Suc (sx_steps w)\<rparr>"

text \<open>A read: \<open>None\<close> is a failure.\<close>

definition visit :: "switch_env \<Rightarrow> (switch_tables \<Rightarrow> 'a) \<Rightarrow> 'a option switching" where
  "visit env f =
     do {
       n \<leftarrow> State_Monad.bind State_Monad.get (\<lambda>w. State_Monad.return (sx_steps w));
       State_Monad.update (others_write env);
       w \<leftarrow> State_Monad.get;
       State_Monad.return (if se_down env n then None else Some (f (sx_tables w)))
     }"

definition switch_now :: "switch_env \<Rightarrow> gotime switching" where
  "switch_now env = State_Monad.bind State_Monad.get (\<lambda>w. State_Monad.return (se_now env (sx_steps w)))"

definition switch_workspace :: "switch_env \<Rightarrow> string \<Rightarrow> gomap option switching" where
  "switch_workspace env workspaceID =
     State_Monad.bind (visit env (\<lambda>t. map_option cloneMap (map_of (st_workspaces t) workspaceID)))
       (\<lambda>answer. State_Monad.return (case answer of None \<Rightarrow> None | Some row \<Rightarrow> row))"

definition apply_intent :: "switch_codec \<Rightarrow> switch_env \<Rightarrow> renewal_intent \<Rightarrow> string option switching" where
  "apply_intent sc env update =
     do {
       n \<leftarrow> State_Monad.bind State_Monad.get (\<lambda>w. State_Monad.return (sx_steps w));
       State_Monad.update (others_write env);
       w \<leftarrow> State_Monad.get;
       if se_save env n = SaveRefused then State_Monad.return (Some ''database error'')
       else
         (case ApplyWorkspaceRenewalIntent sc update (sx_tables w) of
            Inl err \<Rightarrow> State_Monad.return (Some err)
          | Inr (t, before, after) \<Rightarrow>
              do {
                State_Monad.set (w\<lparr>sx_tables := t, sx_commits := sx_commits w @ [\<lparr>cm_Update = update, cm_Before = before, cm_After = after\<rparr>]\<rparr>);
                State_Monad.return (if se_save env n = SaveUnanswered then Some ''database error'' else None)
              })
     }"

record switch_request =
  sr_Key :: string \<comment> \<open>the header \<^verbatim>\<open>Idempotency-Key\<close>\<close>
  sr_Input :: gomap
  sr_WorkspaceID :: string
  sr_User :: "gomap option" \<comment> \<open>the user of the session\<close>
  sr_System :: "(string \<times> string \<times> string) option"
  sr_IP :: string
  sr_Agent :: string

definition resourceBelongsToAccount :: "gomap \<Rightarrow> string \<Rightarrow> bool" where
  "resourceBelongsToAccount row accountID \<longleftrightarrow>
     accountID \<noteq> [] \<and> firstNonEmpty [stringValue (mget row ''accountId''), stringValue (mget row ''ownerAccountId'')] = accountID"

definition canAccessResource :: "switch_request \<Rightarrow> gomap \<Rightarrow> bool" where
  "canAccessResource rq row = (case sr_User rq of None \<Rightarrow> False | Some user \<Rightarrow> resourceBelongsToAccount row (stringValue (mget user ''accountId'')))"

definition session_user :: "switch_request \<Rightarrow> gomap" where
  "session_user rq = (case sr_User rq of None \<Rightarrow> None | Some user \<Rightarrow> user)"

definition audit_of :: "switch_request \<Rightarrow> audit_request" where
  "audit_of rq = \<lparr>ar_user = session_user rq, ar_system = sr_System rq, ar_ip = sr_IP rq, ar_agent = sr_Agent rq\<rparr>"

definition response_error :: "string \<Rightarrow> switch_answer" where
  "response_error err = SwitchError 409 (if err = reactivation_required then err else ''workspace_billing_state_invalid'')"

text \<open>The switch is already as requested: nothing is stored.\<close>

definition switch_unchanged :: "switch_codec \<Rightarrow> switch_env \<Rightarrow> string \<Rightarrow> gomap \<Rightarrow> bool \<Rightarrow> switch_answer switching" where
  "switch_unchanged sc env workspaceID workspace autoRenew =
     (case rfc3339_parse (stringValue (mget workspace ''paidThrough'')) of
        None \<Rightarrow> State_Monad.return (SwitchError 409 ''workspace_billing_state_invalid'')
      | Some paidThrough \<Rightarrow>
          do {
            answer \<leftarrow> visit env (\<lambda>t. map_of (st_operations t) (workspaceRenewalOperationID (sc_renewal sc) workspaceID paidThrough));
            (case answer of
               None \<Rightarrow> State_Monad.return (SwitchError 500 ''state_read_failed'')
             | Some operation \<Rightarrow>
                 do {
                   now \<leftarrow> switch_now env;
                   State_Monad.return (case workspaceAutoRenewResponse sc workspace (case operation of None \<Rightarrow> [] | Some row \<Rightarrow> [row]) autoRenew now of
                       Inl err \<Rightarrow> response_error err
                     | Inr response \<Rightarrow> SwitchOK response)
                 })
          })"

text \<open>The switch is planned and applied; \<open>None\<close> is a conflict, after which the loop goes on.\<close>

definition switch_change ::
    "switch_codec \<Rightarrow> switch_env \<Rightarrow> switch_request \<Rightarrow> string \<Rightarrow> gomap \<Rightarrow> bool \<Rightarrow> switch_answer option switching" where
  "switch_change sc env rq key workspace autoRenew =
     do {
       answer \<leftarrow> visit env (\<lambda>t. queryRuntimeOperations (map snd (st_operations t)) (any_operation\<lparr>oq_WorkspaceID := sr_WorkspaceID rq\<rparr>));
       (case answer of
          None \<Rightarrow> State_Monad.return (Some (SwitchError 500 ''state_read_failed''))
        | Some operations \<Rightarrow>
            do {
              now \<leftarrow> switch_now env;
              (case planWorkspaceRenewalIntent sc workspace (session_user rq) operations autoRenew key now of
                 Inl err \<Rightarrow> State_Monad.return (Some (response_error err))
               | Inr (update, response) \<Rightarrow>
                   do {
                     instant \<leftarrow> switch_now env;
                     let event = auditEvent (sc_audit sc) (audit_of rq) ''workspace.auto_renew'' ''workspace'' (sr_WorkspaceID rq)
                       (stringValue (mget workspace ''accountId'')) (row_intent_state workspace) (patch_intent_state (in_WorkspacePatch update))
                       ''succeeded'' instant;
                     err \<leftarrow> apply_intent sc env (update\<lparr>in_AuditEvent := bindWorkspaceAutoRenewAudit sc (in_CommandOperation update) event\<rparr>);
                     State_Monad.return (case err of
                         None \<Rightarrow> Some (SwitchOK response)
                       | Some e \<Rightarrow> if e = cas_conflict then None else Some (SwitchError 500 ''state_persist_failed''))
                   })
            })
     }"

definition switch_turn :: "switch_codec \<Rightarrow> switch_env \<Rightarrow> switch_request \<Rightarrow> string \<Rightarrow> bool \<Rightarrow> switch_answer option switching" where
  "switch_turn sc env rq key autoRenew =
     do {
       found \<leftarrow> switch_workspace env (sr_WorkspaceID rq);
       (case found of
          None \<Rightarrow> State_Monad.return (Some (SwitchError 403 ''account_scope_forbidden''))
        | Some workspace \<Rightarrow>
            if \<not> canAccessResource rq workspace then State_Monad.return (Some (SwitchError 403 ''account_scope_forbidden''))
            else
              do {
                answer \<leftarrow> visit env (\<lambda>t. map_of (st_operations t) (workspaceAutoRenewCommandID sc (sr_WorkspaceID rq) key));
                (case answer of
                   None \<Rightarrow> State_Monad.return (Some (SwitchError 500 ''state_read_failed''))
                 | Some (Some command) \<Rightarrow>
                     State_Monad.return (Some (case decodeWorkspaceAutoRenewCommand sc command of
                         None \<Rightarrow> SwitchError 500 ''state_read_failed''
                       | Some (requestHash, response) \<Rightarrow>
                           if requestHash \<noteq> workspaceAutoRenewRequestHash sc (sr_WorkspaceID rq) autoRenew then SwitchError 409 ''idempotency_conflict''
                           else SwitchOK response))
                 | Some None \<Rightarrow>
                     if mget workspace ''autoRenew'' = GBool autoRenew then
                       do { a \<leftarrow> switch_unchanged sc env (sr_WorkspaceID rq) workspace autoRenew; State_Monad.return (Some a) }
                     else switch_change sc env rq key workspace autoRenew)
              })
     }"

fun switch_turns :: "nat \<Rightarrow> switch_codec \<Rightarrow> switch_env \<Rightarrow> switch_request \<Rightarrow> string \<Rightarrow> bool \<Rightarrow> switch_answer switching" where
  "switch_turns 0 sc env rq key autoRenew = State_Monad.return (SwitchError 409 cas_conflict)"
| "switch_turns (Suc n) sc env rq key autoRenew =
     do {
       answer \<leftarrow> switch_turn sc env rq key autoRenew;
       (case answer of Some a \<Rightarrow> State_Monad.return a | None \<Rightarrow> switch_turns n sc env rq key autoRenew)
     }"

definition switchAutoRenew :: "switch_codec \<Rightarrow> switch_env \<Rightarrow> switch_request \<Rightarrow> switch_answer switching" where
  "switchAutoRenew sc env rq =
     (let key = trim_space (sr_Key rq) in
      if key = [] then State_Monad.return (SwitchError 400 ''missing Idempotency-Key'')
      else
        (case mget (sr_Input rq) ''autoRenew'' of
           GBool autoRenew \<Rightarrow>
             do {
               found \<leftarrow> switch_workspace env (sr_WorkspaceID rq);
               (case found of
                  None \<Rightarrow> State_Monad.return (SwitchError 404 ''workspace_not_found'')
                | Some workspace \<Rightarrow>
                    if \<not> canAccessResource rq workspace then State_Monad.return (SwitchError 403 ''account_scope_forbidden'')
                    else if sr_User rq = None \<or>
                      firstNonEmpty [stringValue (mget workspace ''ownerUserId''), stringValue (mget workspace ''ownerId'')] \<noteq>
                        stringValue (mget (session_user rq) ''id'')
                    then State_Monad.return (SwitchError 403 ''workspace_owner_required'')
                    else if autoRenew \<and> mget workspace ''resourceBillingEnabled'' = GBool False
                    then State_Monad.return (SwitchError 409 ''autoRenew_unavailable'')
                    else switch_turns 3 sc env rq key autoRenew)
             }
         | _ \<Rightarrow> State_Monad.return (SwitchError 400 ''autoRenew_required'')))"


section \<open>Commits\<close>

text \<open>What a program adds to the log, by its result.\<close>

definition logs :: "'a switching \<Rightarrow> ('a \<Rightarrow> switch_commit list \<Rightarrow> bool) \<Rightarrow> bool" where
  "logs c R \<longleftrightarrow> (\<forall>w. case run_state c w of (r, w') \<Rightarrow> \<exists>cs. sx_commits w' = sx_commits w @ cs \<and> R r cs)"

named_theorems log_rules "the log of a program by its shape"

lemma logs_return [log_rules]: "R x [] \<Longrightarrow> logs (State_Monad.return x) R"
  by (simp add: logs_def)

lemma logs_bind:
  assumes "logs c P" "\<And>x cs. P x cs \<Longrightarrow> logs (f x) (\<lambda>r cs'. R r (cs @ cs'))"
  shows "logs (c \<bind> f) R"
  unfolding logs_def
proof (intro allI)
  fix w
  obtain x w1 where 1: "run_state c w = (x, w1)" by force
  obtain cs where cs: "sx_commits w1 = sx_commits w @ cs" "P x cs" using assms(1) 1 unfolding logs_def by (force split: prod.splits)
  obtain r w2 where 2: "run_state (f x) w1 = (r, w2)" by force
  obtain cs' where "sx_commits w2 = sx_commits w1 @ cs'" "R r (cs @ cs')" using assms(2) [OF cs(2)] 2 unfolding logs_def by (force split: prod.splits)
  then show "case run_state (c \<bind> f) w of (r, w') \<Rightarrow> \<exists>cs. sx_commits w' = sx_commits w @ cs \<and> R r cs"
    using 1 2 cs(1) by (auto split: prod.splits)
qed

text \<open>A program that only reads.\<close>

definition silent :: "'a switching \<Rightarrow> bool" where
  "silent c \<longleftrightarrow> logs c (\<lambda>r cs. cs = [])"

lemma logs_silent [log_rules]: "silent c \<Longrightarrow> (\<And>x. logs (f x) R) \<Longrightarrow> logs (c \<bind> f) R"
  unfolding silent_def by (erule logs_bind) simp

lemma silent_visit [simp]: "silent (visit env f)"
  by (simp add: silent_def logs_def visit_def others_write_def State_Monad.update_def)

lemma silent_now [simp]: "silent (switch_now env)"
  by (simp add: silent_def logs_def switch_now_def)

lemma silent_workspace [simp]: "silent (switch_workspace env i)"
  unfolding switch_workspace_def silent_def by (intro log_rules silent_visit) simp

lemma logs_option [log_rules]: "(x = None \<Longrightarrow> logs c R) \<Longrightarrow> (\<And>y. x = Some y \<Longrightarrow> logs (f y) R) \<Longrightarrow> logs (case x of None \<Rightarrow> c | Some y \<Rightarrow> f y) R"
  by (cases x) simp_all

lemma logs_sum [log_rules]: "(\<And>y. x = Inl y \<Longrightarrow> logs (g y) R) \<Longrightarrow> (\<And>y. x = Inr y \<Longrightarrow> logs (f y) R) \<Longrightarrow> logs (case x of Inl y \<Rightarrow> g y | Inr y \<Rightarrow> f y) R"
  by (cases x) simp_all

lemma logs_prod [log_rules]: "(\<And>a b. x = (a, b) \<Longrightarrow> logs (f a b) R) \<Longrightarrow> logs (case x of (a, b) \<Rightarrow> f a b) R"
  by (cases x) simp

lemma logs_if [log_rules]: "(b \<Longrightarrow> logs c R) \<Longrightarrow> (\<not> b \<Longrightarrow> logs d R) \<Longrightarrow> logs (if b then c else d) R"
  by simp

lemma logs_let [log_rules]: "logs (f x) R \<Longrightarrow> logs (let y = x in f y) R"
  by simp

lemma logs_mono: "logs c R \<Longrightarrow> (\<And>r cs. R r cs \<Longrightarrow> R' r cs) \<Longrightarrow> logs c R'"
  unfolding logs_def by (fastforce split: prod.splits)

lemma logs_apply:
  "logs (apply_intent sc env update) (\<lambda>r cs. (cs = [] \<and> r \<noteq> None) \<or>
     (\<exists>t t' before after. ApplyWorkspaceRenewalIntent sc update t = Inr (t', before, after) \<and>
        cs = [\<lparr>cm_Update = update, cm_Before = before, cm_After = after\<rparr>] \<and> r \<noteq> Some cas_conflict))"
  unfolding logs_def apply_intent_def
  by (auto simp: State_Monad.update_def others_write_def cas_conflict_def split: sum.splits prod.splits)


text \<open>
  A commit that the request authorises: the owner asked for it before the end of the paid period, only the three
  fields of the switch change, the new row is a valid billing state, and the audit event names the owner, the state
  of the row before and the state after.
\<close>

definition authorised_commit :: "switch_request \<Rightarrow> bool \<Rightarrow> switch_commit \<Rightarrow> bool" where
  "authorised_commit rq autoRenew c \<longleftrightarrow>
     (let owner = stringValue (mget (session_user rq) ''id''); event = in_AuditEvent (cm_Update c) in
      stringValue (mget (cm_Before c) ''ownerUserId'') = owner \<and>
      (\<exists>now paid. rfc3339_parse (stringValue (mget (cm_Before c) ''paidThrough'')) = Some paid \<and> t_before (t_utc now) (t_utc paid) \<and>
         cm_After c = put_fields (cloneMap (cm_Before c))
           [(''autoRenew'', GBool autoRenew), (''authorizedBy'', GStr (if autoRenew then owner else [])),
            (''authorizedAt'', GStr (if autoRenew then utc_text now else []))]) \<and>
      validateWorkspaceBillingState (cm_After c) = None \<and>
      stringValue (mget event ''actorUserId'') = owner \<and> mget event ''before'' = row_intent_state (cm_Before c) \<and>
      mget event ''after'' = row_intent_state (cm_After c))"

text \<open>\<^verbatim>\<open>mustJSON\<close> tells states of the switch apart.\<close>

definition json_states_ok :: "switch_codec \<Rightarrow> bool" where
  "json_states_ok sc \<longleftrightarrow>
     (\<forall>b x y b' x' y'. sc_json sc (workspaceRenewalIntentState b x y) = sc_json sc (workspaceRenewalIntentState b' x' y') \<longrightarrow>
        b = b' \<and> x = x' \<and> y = y')"

lemma same_state:
  assumes "json_states_ok sc" "sc_json sc (row_intent_state a) = sc_json sc (row_intent_state b)"
  shows "row_intent_state a = row_intent_state b"
proof -
  have "(mget a ''autoRenew'' = GBool True) = (mget b ''autoRenew'' = GBool True) \<and>
      stringValue (mget a ''authorizedBy'') = stringValue (mget b ''authorizedBy'') \<and> stringValue (mget a ''authorizedAt'') = stringValue (mget b ''authorizedAt'')"
    using assms unfolding json_states_ok_def row_intent_state_def by blast
  then show ?thesis by (simp add: row_intent_state_def)
qed

lemma response_before_end:
  assumes "workspaceAutoRenewResponse sc workspace operations autoRenew now = Inr response"
  obtains paid where "rfc3339_parse (stringValue (mget workspace ''paidThrough'')) = Some paid" "t_before (t_utc now) (t_utc paid)"
  using assms by (auto simp: workspaceAutoRenewResponse_def Let_def split: option.splits if_splits)

lemma applied_intent:
  assumes "ApplyWorkspaceRenewalIntent sc update t = Inr (t', before, after)"
  shows "map_of (st_workspaces t) (in_WorkspaceID update) = Some before" "intent_matches update before"
    "after = put_fields (cloneMap before) (intent_fields (in_WorkspacePatch update))" "validateWorkspaceBillingState after = None"
    "validateWorkspaceRenewalIntentAudit sc update before"
    "st_workspaces t' = AList.update (in_WorkspaceID update) after (st_workspaces t)"
    "st_operations t' = AList.update (stringValue (mget (in_CommandOperation update) ''id'')) (in_CommandOperation update) (st_operations t)"
  using assms by (auto simp: ApplyWorkspaceRenewalIntent_def Let_def split: option.splits if_splits)

lemma put_intent_state: "row_intent_state (put_fields row (intent_fields p)) = patch_intent_state p"
  by (simp add: row_intent_state_def patch_intent_state_def put_fields_get intent_fields_def)

lemma event_states:
  "mget (bindWorkspaceAutoRenewAudit sc command (auditEvent wc r action kind i account before after result instant)) ''before'' = before"
  "mget (bindWorkspaceAutoRenewAudit sc command (auditEvent wc r action kind i account before after result instant)) ''after'' = after"
  by (simp_all add: bindWorkspaceAutoRenewAudit_def auditEvent_def Let_def cloneMap_def mget_def mset_key_def update_conv' split: option.splits prod.splits)

lemma planned_commit:
  assumes J: "json_states_ok sc" and plan: "planWorkspaceRenewalIntent sc workspace (session_user rq) operations autoRenew key now = Inr (update0, response)"
    and update: "update = update0\<lparr>in_AuditEvent := bindWorkspaceAutoRenewAudit sc (in_CommandOperation update0)
      (auditEvent wc r ''workspace.auto_renew'' ''workspace'' i account (row_intent_state workspace) (patch_intent_state (in_WorkspacePatch update0))
        ''succeeded'' instant)\<rparr>"
    and app: "ApplyWorkspaceRenewalIntent sc update t = Inr (t', before, after)"
  shows "authorised_commit rq autoRenew \<lparr>cm_Update = update, cm_Before = before, cm_After = after\<rparr>"
proof -
  note a = applied_intent [OF app]
  let ?owner = "stringValue (mget (session_user rq) ''id'')"
  have u: "in_OwnerUserID update = ?owner" "in_ExpectedPaidThrough update = stringValue (mget workspace ''paidThrough'')"
    "in_WorkspacePatch update = \<lparr>ip_AutoRenew = autoRenew, ip_AuthorizedBy = (if autoRenew then ?owner else []), ip_AuthorizedAt = (if autoRenew then utc_text now else [])\<rparr>"
    using plan by (auto simp: planWorkspaceRenewalIntent_def Let_def update split: sum.splits)
  obtain response' where "workspaceAutoRenewResponse sc workspace operations autoRenew now = Inr response'"
    using plan by (auto simp: planWorkspaceRenewalIntent_def split: sum.splits)
  then obtain paid where paid: "rfc3339_parse (stringValue (mget workspace ''paidThrough'')) = Some paid" "t_before (t_utc now) (t_utc paid)"
    by (rule response_before_end)
  have after: "after = put_fields (cloneMap before) [(''autoRenew'', GBool autoRenew), (''authorizedBy'', GStr (if autoRenew then ?owner else [])),
      (''authorizedAt'', GStr (if autoRenew then utc_text now else []))]"
    using a(3) by (simp add: u(3) intent_fields_def)
  have "sc_json sc (mget (in_AuditEvent update) ''before'') = sc_json sc (row_intent_state before)" "stringValue (mget (in_AuditEvent update) ''actorUserId'') = ?owner"
    using a(5) u(1) by (simp_all add: validateWorkspaceRenewalIntentAudit_def Let_def)
  moreover have "mget (in_AuditEvent update) ''before'' = row_intent_state workspace" "mget (in_AuditEvent update) ''after'' = patch_intent_state (in_WorkspacePatch update)"
    by (simp_all add: update event_states)
  ultimately have "mget (in_AuditEvent update) ''before'' = row_intent_state before" "mget (in_AuditEvent update) ''after'' = row_intent_state after"
    "stringValue (mget (in_AuditEvent update) ''actorUserId'') = ?owner"
    using same_state [OF J] by (simp_all add: a(3) put_intent_state)
  then show ?thesis
    using a(2,4) paid after u(1,2) by (auto simp: authorised_commit_def Let_def intent_matches_def)
qed


lemma logs_change:
  assumes "json_states_ok sc"
  shows "logs (switch_change sc env rq key workspace autoRenew)
    (\<lambda>r cs. cs = [] \<or> r \<noteq> None \<and> (\<exists>c. cs = [c] \<and> authorised_commit rq autoRenew c))"
  unfolding switch_change_def
  by (intro logs_silent [OF silent_visit] logs_silent [OF silent_now] logs_option logs_sum logs_prod logs_return logs_let logs_bind [OF logs_apply])
    (auto intro!: planned_commit [OF assms] split: option.splits if_splits)

lemma logs_turn:
  assumes "json_states_ok sc"
  shows "logs (switch_turn sc env rq key autoRenew) (\<lambda>r cs. cs = [] \<or> r \<noteq> None \<and> (\<exists>c. cs = [c] \<and> authorised_commit rq autoRenew c))"
proof -
  have "silent (switch_unchanged sc env i workspace autoRenew)" for i workspace
    unfolding switch_unchanged_def silent_def by (intro log_rules silent_visit silent_now) simp_all
  then show ?thesis
    unfolding switch_turn_def by (intro log_rules silent_visit silent_workspace logs_change [OF assms]) simp_all
qed

lemma logs_turns:
  assumes "json_states_ok sc"
  shows "logs (switch_turns n sc env rq key autoRenew) (\<lambda>r cs. cs = [] \<or> (\<exists>c. cs = [c] \<and> authorised_commit rq autoRenew c))"
proof (induction n)
  case (Suc n)
  show ?case
    unfolding switch_turns.simps
    by (rule logs_bind [OF logs_turn [OF assms]], rule logs_option) (auto intro: logs_return logs_mono [OF Suc])
qed (auto intro: logs_return)



section \<open>Repeated requests\<close>

text \<open>No other writer, and every access succeeds.\<close>

definition alone :: "switch_env \<Rightarrow> bool" where
  "alone env \<longleftrightarrow> (\<forall>n. \<not> se_down env n \<and> se_save env n = Saved \<and> se_disturb env n = (\<lambda>t. t))"

lemma alone_visit: "alone env \<Longrightarrow> run_state (visit env f) w = (Some (f (sx_tables w)), w\<lparr>sx_steps := Suc (sx_steps w)\<rparr>)"
  by (simp add: alone_def visit_def others_write_def State_Monad.update_def)

lemma alone_workspace:
  "alone env \<Longrightarrow> run_state (switch_workspace env i) w = (map_option cloneMap (map_of (st_workspaces (sx_tables w)) i), w\<lparr>sx_steps := Suc (sx_steps w)\<rparr>)"
  by (simp add: switch_workspace_def alone_visit)

lemma alone_now: "run_state (switch_now env) w = (se_now env (sx_steps w), w)"
  by (simp add: switch_now_def)

text \<open>The command of a request is stored with its response.\<close>

definition command_stored :: "switch_codec \<Rightarrow> switch_request \<Rightarrow> string \<Rightarrow> bool \<Rightarrow> gomap \<Rightarrow> switch_world \<Rightarrow> bool" where
  "command_stored sc rq key autoRenew response w \<longleftrightarrow>
     (\<exists>command. map_of (st_operations (sx_tables w)) (workspaceAutoRenewCommandID sc (sr_WorkspaceID rq) key) = Some command \<and>
        decodeWorkspaceAutoRenewCommand sc command = Some (workspaceAutoRenewRequestHash sc (sr_WorkspaceID rq) autoRenew, response))"

text \<open>The result of a command is read back as it was written: texts and truth values are the same in JSON.\<close>

definition result_codec_ok :: "switch_codec \<Rightarrow> bool" where
  "result_codec_ok sc \<longleftrightarrow>
     (\<forall>h kvs. list_all (\<lambda>(k, v). case v of GStr _ \<Rightarrow> True | GBool _ \<Rightarrow> True | _ \<Rightarrow> False) kvs \<longrightarrow> distinct (map fst kvs) \<longrightarrow>
        sc_unmarshal sc (sc_marshal sc (h, Some kvs)) = Some (h, Some kvs))"

lemma response_shape:
  assumes "workspaceAutoRenewResponse sc workspace operations autoRenew now = Inr response"
  obtains kvs where "response = Some kvs" "list_all (\<lambda>(k, v). case v of GStr _ \<Rightarrow> True | GBool _ \<Rightarrow> True | _ \<Rightarrow> False) kvs" "distinct (map fst kvs)" "length kvs = 5"
  using assms by (auto simp: workspaceAutoRenewResponse_def Let_def split: option.splits if_splits)


definition digests_ok :: "switch_codec \<Rightarrow> bool" where
  "digests_ok sc \<longleftrightarrow> (\<forall>s. rc_sha1hex (sc_renewal sc) s \<noteq> []) \<and>
     (\<forall>i. workspaceAutoRenewRequestHash sc i True \<noteq> workspaceAutoRenewRequestHash sc i False)"

lemma clone_get [simp]: "mget (cloneMap row) k = mget row k"
  by (simp add: cloneMap_def mget_def split: option.splits)

lemma clone_Some: "\<exists>kvs. cloneMap row = Some kvs"
  by (simp add: cloneMap_def split: option.splits)

lemma access_cong:
  "mget r ''accountId'' = mget r' ''accountId'' \<Longrightarrow> mget r ''ownerAccountId'' = mget r' ''ownerAccountId'' \<Longrightarrow> canAccessResource rq r = canAccessResource rq r'"
  by (cases "sr_User rq") (simp_all add: canAccessResource_def resourceBelongsToAccount_def)

lemma access_clone [simp]: "canAccessResource rq (cloneMap row) = canAccessResource rq row"
  by (rule access_cong) simp_all

text \<open>What the checks of the handler read of a row is not changed by a switch.\<close>

lemma switched_get:
  "k \<notin> {''autoRenew'', ''authorizedBy'', ''authorizedAt''} \<Longrightarrow> mget (put_fields (cloneMap row) (intent_fields p)) k = mget row k"
  by (subst put_fields_other) (auto simp: intent_fields_def)

lemma stored_command:
  assumes codec: "result_codec_ok sc" "digests_ok sc"
    and plan: "planWorkspaceRenewalIntent sc workspace user operations autoRenew key now = Inr (update, response)"
    and named: "stringValue (mget workspace ''id'') = i"
  shows "stringValue (mget (in_CommandOperation update) ''id'') = workspaceAutoRenewCommandID sc i key" "in_WorkspaceID update = i"
    "decodeWorkspaceAutoRenewCommand sc (in_CommandOperation update) = Some (workspaceAutoRenewRequestHash sc i autoRenew, response)"
proof -
  have r: "workspaceAutoRenewResponse sc workspace operations autoRenew now = Inr response"
    and u: "in_CommandOperation update = workspaceAutoRenewCommandRow sc workspace key (workspaceAutoRenewRequestHash sc i autoRenew) response now"
    "in_WorkspaceID update = i"
    using plan by (auto simp: planWorkspaceRenewalIntent_def Let_def named split: sum.splits)
  obtain kvs where k: "response = Some kvs" "list_all (\<lambda>(k, v). case v of GStr _ \<Rightarrow> True | GBool _ \<Rightarrow> True | _ \<Rightarrow> False) kvs" "distinct (map fst kvs)" "length kvs = 5"
    using r by (rule response_shape)
  have "workspaceAutoRenewRequestHash sc i autoRenew \<noteq> []" using codec(2) by (simp add: digests_ok_def workspaceAutoRenewRequestHash_def stableID_def)
  moreover have "sc_unmarshal sc (sc_marshal sc (workspaceAutoRenewRequestHash sc i autoRenew, response)) = Some (workspaceAutoRenewRequestHash sc i autoRenew, response)"
    using codec(1) k unfolding result_codec_ok_def by blast
  ultimately show "decodeWorkspaceAutoRenewCommand sc (in_CommandOperation update) = Some (workspaceAutoRenewRequestHash sc i autoRenew, response)"
    using k by (simp add: u decodeWorkspaceAutoRenewCommand_def workspaceAutoRenewCommandRow_def Let_def mget_def mlen_def)
  show "stringValue (mget (in_CommandOperation update) ''id'') = workspaceAutoRenewCommandID sc i key"
    unfolding u workspaceAutoRenewCommandRow_def Let_def named by (simp add: mget_def)
  show "in_WorkspaceID update = i" by (rule u(2))
qed

text \<open>A step either changes nothing, or it stores the command and answers with its response.\<close>

definition switched :: "switch_codec \<Rightarrow> switch_request \<Rightarrow> string \<Rightarrow> bool \<Rightarrow> gomap \<Rightarrow> gomap \<Rightarrow> switch_world \<Rightarrow> bool" where
  "switched sc rq key autoRenew row response w \<longleftrightarrow>
     command_stored sc rq key autoRenew response w \<and>
     (\<exists>p. map_of (st_workspaces (sx_tables w)) (sr_WorkspaceID rq) = Some (put_fields (cloneMap row) (intent_fields p)))"

abbreviation untouched :: "switch_world \<Rightarrow> switch_world \<Rightarrow> bool" where
  "untouched w w' \<equiv> sx_tables w' = sx_tables w \<and> sx_commits w' = sx_commits w"

lemma alone_change:
  assumes A: "alone env" and codec: "result_codec_ok sc" "digests_ok sc"
    and row: "map_of (st_workspaces (sx_tables w)) (sr_WorkspaceID rq) = Some row" "stringValue (mget row ''id'') = sr_WorkspaceID rq"
    and run: "run_state (switch_change sc env rq key (cloneMap row) autoRenew) w = (a, w')"
  shows "untouched w w' \<or> (\<exists>response. a = Some (SwitchOK response) \<and> switched sc rq key autoRenew row response w')"
proof -
  let ?ops = "queryRuntimeOperations (map snd (st_operations (sx_tables w))) (any_operation\<lparr>oq_WorkspaceID := sr_WorkspaceID rq\<rparr>)"
  let ?w = "w\<lparr>sx_steps := Suc (sx_steps w)\<rparr>"
  show ?thesis
  proof (cases "planWorkspaceRenewalIntent sc (cloneMap row) (session_user rq) ?ops autoRenew key (se_now env (Suc (sx_steps w)))")
    case (Inl err)
    then show ?thesis using run by (auto simp: switch_change_def alone_visit [OF A] alone_now)
  next
    case (Inr ur)
    obtain update response where ur: "ur = (update, response)" by force
    note s = stored_command [OF codec Inr [unfolded ur], of "sr_WorkspaceID rq"]
    define event where "event = auditEvent (sc_audit sc) (audit_of rq) ''workspace.auto_renew'' ''workspace'' (sr_WorkspaceID rq)
      (stringValue (mget row ''accountId'')) (row_intent_state (cloneMap row)) (patch_intent_state (in_WorkspacePatch update)) ''succeeded'' (se_now env (Suc (sx_steps w)))"
    let ?u = "update\<lparr>in_AuditEvent := bindWorkspaceAutoRenewAudit sc (in_CommandOperation update) event\<rparr>"
    have app: "run_state (apply_intent sc env ?u) ?w =
      (case ApplyWorkspaceRenewalIntent sc ?u (sx_tables w) of
         Inl err \<Rightarrow> (Some err, ?w\<lparr>sx_steps := Suc (sx_steps ?w)\<rparr>)
       | Inr (t, before, after) \<Rightarrow> (None, ?w\<lparr>sx_tables := t, sx_steps := Suc (sx_steps ?w), sx_commits := sx_commits w @ [\<lparr>cm_Update = ?u, cm_Before = before, cm_After = after\<rparr>]\<rparr>))"
      using A by (auto simp: apply_intent_def alone_def others_write_def State_Monad.update_def split: sum.splits prod.splits)
    show ?thesis
    proof (cases "ApplyWorkspaceRenewalIntent sc ?u (sx_tables w)")
      case (Inl err)
      then show ?thesis using run Inr ur app by (auto simp: switch_change_def alone_visit [OF A] alone_now event_def Let_def)
    next
      case (Inr x)
      obtain t before after where x: "x = (t, before, after)" by (cases x)
      note ap = applied_intent [OF Inr [unfolded x]]
      have "before = row" using ap(1) row(1) s(2) row(2) by simp
      then have "switched sc rq key autoRenew row response w' \<and> a = Some (SwitchOK response)"
        using run Inr ur app x s row(2) ap(3,6,7) \<open>planWorkspaceRenewalIntent sc _ _ _ _ _ _ = _\<close>
        by (auto simp: switch_change_def alone_visit [OF A] alone_now event_def Let_def switched_def command_stored_def update_conv')
      then show ?thesis by blast
    qed
  qed
qed


lemma alone_unchanged:
  "alone env \<Longrightarrow> sx_tables (snd (run_state (switch_unchanged sc env i workspace autoRenew) w)) = sx_tables w \<and>
     sx_commits (snd (run_state (switch_unchanged sc env i workspace autoRenew) w)) = sx_commits w"
  by (auto simp: switch_unchanged_def alone_visit alone_now split: option.splits)

lemma alone_turn:
  assumes A: "alone env" and codec: "result_codec_ok sc" "digests_ok sc"
    and row: "map_of (st_workspaces (sx_tables w)) (sr_WorkspaceID rq) = Some row" "stringValue (mget row ''id'') = sr_WorkspaceID rq"
    and run: "run_state (switch_turn sc env rq key autoRenew) w = (a, w')"
  shows "untouched w w' \<or> (\<exists>response. a = Some (SwitchOK response) \<and> switched sc rq key autoRenew row response w')"
proof (cases "canAccessResource rq (cloneMap row) \<and>
    map_of (st_operations (sx_tables w)) (workspaceAutoRenewCommandID sc (sr_WorkspaceID rq) key) = None \<and> mget row ''autoRenew'' \<noteq> GBool autoRenew")
  case True
  let ?w = "w\<lparr>sx_steps := Suc (Suc (sx_steps w))\<rparr>"
  have "run_state (switch_change sc env rq key (cloneMap row) autoRenew) ?w = (a, w')"
    using run True by (auto simp: switch_turn_def alone_workspace [OF A] alone_visit [OF A] row)
  from alone_change [OF A codec _ row(2) this] show ?thesis using row(1) by simp
next
  case False
  then show ?thesis
    using run alone_unchanged [OF A, of sc "sr_WorkspaceID rq" "cloneMap row" autoRenew "w\<lparr>sx_steps := Suc (Suc (sx_steps w))\<rparr>"]
    by (auto simp: switch_turn_def alone_workspace [OF A] alone_visit [OF A] row split: if_splits option.splits prod.splits)
qed

lemma alone_turns:
  assumes A: "alone env" and codec: "result_codec_ok sc" "digests_ok sc"
    and row: "map_of (st_workspaces (sx_tables w)) (sr_WorkspaceID rq) = Some row" "stringValue (mget row ''id'') = sr_WorkspaceID rq"
    and run: "run_state (switch_turns n sc env rq key autoRenew) w = (a, w')"
  shows "untouched w w' \<or> (\<exists>response. a = SwitchOK response \<and> switched sc rq key autoRenew row response w')"
  using row(1) run
proof (induction n arbitrary: w)
  case (Suc n)
  obtain b w1 where b: "run_state (switch_turn sc env rq key autoRenew) w = (b, w1)" by force
  from alone_turn [OF A codec Suc.prems(1) row(2) b] show ?case
    using Suc.prems Suc.IH [of w1] b by (auto split: option.splits)
qed simp

lemma repeated_turns:
  assumes A: "alone env" and row: "map_of (st_workspaces (sx_tables w)) (sr_WorkspaceID rq) = Some row" "canAccessResource rq row"
    and s: "command_stored sc rq key autoRenew response w"
  shows "run_state (switch_turns (Suc n) sc env rq key autoRenew') w =
    (if workspaceAutoRenewRequestHash sc (sr_WorkspaceID rq) autoRenew = workspaceAutoRenewRequestHash sc (sr_WorkspaceID rq) autoRenew' then SwitchOK response
     else SwitchError 409 ''idempotency_conflict'', w\<lparr>sx_steps := Suc (Suc (sx_steps w))\<rparr>)"
  using s by (auto simp: switch_turn_def alone_workspace [OF A] alone_visit [OF A] row command_stored_def)

text \<open>
  C40: a request to switch the automatic renewal that changed the workspace can be repeated: with no other writer in
  between, the same request under the same key gets the same response and changes nothing, and a request for the
  opposite under this key is refused and changes nothing.
\<close>

theorem switch_is_idempotent:
  assumes "alone env" "result_codec_ok sc" "digests_ok sc"
    and "map_of (st_workspaces (sx_tables w)) (sr_WorkspaceID rq) = Some row" "stringValue (mget row ''id'') = sr_WorkspaceID rq"
    and "run_state (switchAutoRenew sc env rq) w = (SwitchOK response, w1)" "sx_commits w1 \<noteq> sx_commits w"
    and "mget (sr_Input rq) ''autoRenew'' = GBool autoRenew" "rq' = rq\<lparr>sr_Input := Some [(''autoRenew'', GBool (\<not> autoRenew))]\<rparr>"
  shows "fst (run_state (switchAutoRenew sc env rq) w1) = SwitchOK response \<and>
    fst (run_state (switchAutoRenew sc env rq') w1) \<in> {SwitchError 409 ''idempotency_conflict'', SwitchError 409 ''autoRenew_unavailable''} \<and>
    (\<forall>w2 \<in> {snd (run_state (switchAutoRenew sc env rq) w1), snd (run_state (switchAutoRenew sc env rq') w1)}.
       sx_tables w2 = sx_tables w1 \<and> sx_commits w2 = sx_commits w1)"
proof -
  let ?key = "trim_space (sr_Key rq)" and ?w = "\<lambda>w. w\<lparr>sx_steps := Suc (sx_steps w)\<rparr>"
  let ?owner = "\<lambda>row. firstNonEmpty [stringValue (mget row ''ownerUserId''), stringValue (mget row ''ownerId'')] = stringValue (mget (session_user rq) ''id'')"
  have checks: "?key \<noteq> []" "canAccessResource rq row" "sr_User rq \<noteq> None" "?owner row" "\<not> (autoRenew \<and> mget row ''resourceBillingEnabled'' = GBool False)"
    and run: "run_state (switch_turns 3 sc env rq ?key autoRenew) (?w w) = (SwitchOK response, w1)"
    using assms(6) by (auto simp: switchAutoRenew_def Let_def alone_workspace [OF assms(1)] assms(4,8) split: if_splits)
  have "map_of (st_workspaces (sx_tables (?w w))) (sr_WorkspaceID rq) = Some row" using assms(4) by simp
  from alone_turns [OF assms(1-3) this assms(5) run] have "switched sc rq ?key autoRenew row response w1" using assms(7) by auto
  then obtain p where s: "command_stored sc rq ?key autoRenew response w1"
    and row': "map_of (st_workspaces (sx_tables w1)) (sr_WorkspaceID rq) = Some (put_fields (cloneMap row) (intent_fields p))" (is "_ = Some ?row")
    by (auto simp: switched_def)
  have get: "mget ?row k = mget row k" if "k \<in> {''accountId'', ''ownerAccountId'', ''ownerUserId'', ''ownerId'', ''resourceBillingEnabled''}" for k
    using that by (intro switched_get) auto
  have again: "canAccessResource rq ?row" "?owner ?row" "mget ?row ''resourceBillingEnabled'' = mget row ''resourceBillingEnabled''"
    using checks(2,4) access_cong [OF get get, of rq] by (simp_all add: get)
  have rq': "sr_Key rq' = sr_Key rq" "sr_WorkspaceID rq' = sr_WorkspaceID rq" "sr_User rq' = sr_User rq" "session_user rq' = session_user rq"
    "mget (sr_Input rq') ''autoRenew'' = GBool (\<not> autoRenew)" "\<And>r. canAccessResource rq' r = canAccessResource rq r"
    using assms(9) by (simp_all add: session_user_def mget_def canAccessResource_def)
  have hash: "workspaceAutoRenewRequestHash sc i autoRenew \<noteq> workspaceAutoRenewRequestHash sc i (\<not> autoRenew)" for i
    using assms(3) by (cases autoRenew) (auto simp: digests_ok_def, metis)
  have s1: "command_stored sc rq ?key autoRenew response (?w w1)" and r1: "map_of (st_workspaces (sx_tables (?w w1))) (sr_WorkspaceID rq) = Some ?row"
    using s row' by (simp_all add: command_stored_def)
  have s2: "command_stored sc rq' ?key autoRenew response (?w w1)" and r2: "map_of (st_workspaces (sx_tables (?w w1))) (sr_WorkspaceID rq') = Some ?row"
    using s row' by (simp_all add: command_stored_def rq')
  note t1 = repeated_turns [OF assms(1) r1 again(1) s1, of 2 autoRenew] and t2 = repeated_turns [OF assms(1) r2 _ s2, of 2 "\<not> autoRenew"]
  have "run_state (switchAutoRenew sc env rq) w1 = (SwitchOK response, w1\<lparr>sx_steps := Suc (Suc (Suc (sx_steps w1)))\<rparr>)"
    using checks again t1 by (auto simp: switchAutoRenew_def Let_def alone_workspace [OF assms(1)] row' assms(8) numeral_3_eq_3)
  moreover have "run_state (switchAutoRenew sc env rq') w1 \<in>
      {(SwitchError 409 ''idempotency_conflict'', w1\<lparr>sx_steps := Suc (Suc (Suc (sx_steps w1)))\<rparr>), (SwitchError 409 ''autoRenew_unavailable'', ?w w1)}"
    using checks again t2 hash by (auto simp: switchAutoRenew_def Let_def alone_workspace [OF assms(1)] row' rq' numeral_3_eq_3)
  ultimately show ?thesis by auto
qed

end
