(* ===== verification/Renewal_Switch_Examples.thy ===== *)
theory Renewal_Switch_Examples
  imports Renewal_Switch Renewal_Examples Wallet_Examples
begin

text \<open>The switch of a concrete workspace: a codec with the laws the theorems ask for, and a request that turns the renewal off.\<close>

section \<open>A codec\<close>

definition plain_texts :: "string \<times> goval \<Rightarrow> string list" where
  "plain_texts f = (case f of (k, v) \<Rightarrow> (case v of GStr s \<Rightarrow> [k, ''s'', s] | GBool b \<Rightarrow> [k, ''b'', flag_text b] | _ \<Rightarrow> [k, [], []]))"

fun plain_fields :: "string list \<Rightarrow> (string \<times> goval) list" where
  "plain_fields (k # t # s # fs) = (k, if t = ''s'' then GStr s else GBool (s \<noteq> [])) # plain_fields fs"
| "plain_fields _ = []"

lemma plain_round_trip:
  "list_all (\<lambda>(k, v). case v of GStr _ \<Rightarrow> True | GBool _ \<Rightarrow> True | _ \<Rightarrow> False) kvs \<Longrightarrow> plain_fields (concat (map plain_texts kvs)) = kvs"
  by (induction kvs) (auto simp: plain_texts_def split: goval.splits)

definition state_text :: "goval \<Rightarrow> string" where
  "state_text v =
     (case v of
        GObj kvs \<Rightarrow> bar_texts (concat (map plain_texts kvs))
      | _ \<Rightarrow> [])"

definition sample_switch_codec :: switch_codec where
  "sample_switch_codec =
     \<lparr>sc_renewal = sample_renewal_codec\<lparr>rc_sha1hex := (\<lambda>s. ''h'' @ s)\<rparr>, sc_audit = sample_wallet_codec, sc_json = state_text,
      sc_marshal = (\<lambda>(h, m). bar_texts (h # (case m of None \<Rightarrow> [] | Some kvs \<Rightarrow> concat (map plain_texts kvs)))),
      sc_unmarshal = (\<lambda>s. case unbar [] s of [] \<Rightarrow> None | h # fs \<Rightarrow> Some (h, Some (plain_fields fs))), sc_paidThrough = (\<lambda>_. None)\<rparr>"

lemma sample_result_codec: "result_codec_ok sample_switch_codec"
  using unbar_texts [of "_ # _"] by (simp add: result_codec_ok_def sample_switch_codec_def plain_round_trip del: bar_texts.simps)

lemma sample_digests: "digests_ok sample_switch_codec"
  by (simp add: digests_ok_def sample_switch_codec_def workspaceAutoRenewRequestHash_def stableID_def)

lemma bar_texts_inject: "bar_texts a = bar_texts b \<Longrightarrow> a = b"
  by (metis unbar_texts)

lemma sample_json: "json_states_ok sample_switch_codec"
proof -
  have "flag_text b = flag_text b' \<Longrightarrow> b = b'" for b b' by (simp add: flag_text_def split: if_splits)
  then show ?thesis
    by (auto simp: json_states_ok_def sample_switch_codec_def state_text_def workspaceRenewalIntentState_def plain_texts_def simp del: bar_texts.simps dest!: bar_texts_inject)
qed

section \<open>A request\<close>

definition sample_switch_env :: switch_env where
  "sample_switch_env = \<lparr>se_now = (\<lambda>_. renewal_moment), se_down = (\<lambda>_. False), se_save = (\<lambda>_. Saved), se_disturb = (\<lambda>_ t. t)\<rparr>"

lemma sample_alone: "alone sample_switch_env"
  by (simp add: alone_def sample_switch_env_def)

definition switch_off :: switch_request where
  "switch_off =
     \<lparr>sr_Key = ''k-1'', sr_Input = Some [(''autoRenew'', GBool False)], sr_WorkspaceID = ''ws-1'',
      sr_User = Some (Some [(''id'', GStr ''usr-1''), (''accountId'', GStr ''acct-1''), (''role'', GStr ''owner'')]), sr_System = None, sr_IP = ''10.0.0.1'',
      sr_Agent = ''browser''\<rparr>"

definition switch_start :: switch_world where
  "switch_start = \<lparr>sx_tables = \<lparr>st_workspaces = [(''ws-1'', Some sample_row)], st_operations = [], st_audits = []\<rparr>, sx_steps = 0, sx_commits = []\<rparr>"

lemma sample_switch_run:
  "case run_state (switchAutoRenew sample_switch_codec sample_switch_env switch_off) switch_start of
     (SwitchOK response, w) \<Rightarrow> length (sx_commits w) = 1 \<and> mget response ''renewalStatus'' = GStr ''cancelled'' | _ \<Rightarrow> False"
  by code_simp


lemma sample_switched:
  obtains response w where "run_state (switchAutoRenew sample_switch_codec sample_switch_env switch_off) switch_start = (SwitchOK response, w)" "length (sx_commits w) = 1"
  using sample_switch_run by (auto split: prod.splits switch_answer.splits)


theorem switch_is_idempotent_witness:
  "\<exists>response w. run_state (switchAutoRenew sample_switch_codec sample_switch_env switch_off) switch_start = (SwitchOK response, w) \<and>
     fst (run_state (switchAutoRenew sample_switch_codec sample_switch_env switch_off) w) = SwitchOK response \<and>
     fst (run_state (switchAutoRenew sample_switch_codec sample_switch_env (switch_off\<lparr>sr_Input := Some [(''autoRenew'', GBool True)]\<rparr>)) w)
       \<in> {SwitchError 409 ''idempotency_conflict'', SwitchError 409 ''autoRenew_unavailable''}"
proof -
  obtain response w where w: "run_state (switchAutoRenew sample_switch_codec sample_switch_env switch_off) switch_start = (SwitchOK response, w)" "length (sx_commits w) = 1"
    by (rule sample_switched)
  have "map_of (st_workspaces (sx_tables switch_start)) (sr_WorkspaceID switch_off) = Some (Some sample_row)"
    "stringValue (mget (Some sample_row) ''id'') = sr_WorkspaceID switch_off" "sx_commits w \<noteq> sx_commits switch_start"
    "mget (sr_Input switch_off) ''autoRenew'' = GBool False"
    using w(2) by (auto simp: switch_start_def switch_off_def sample_fields) (simp add: mget_def)
  from switch_is_idempotent [OF sample_alone sample_result_codec sample_digests this(1,2) w(1) this(3,4) refl] show ?thesis
    using w(1) by simp
qed

end
